(* ===== verification/Prelude.thy ===== *)
theory Prelude
  imports Complex_Main "HOL-Library.AList" "HOL-Library.Multiset" "HOL-Library.Char_ord" "HOL-Library.List_Lexorder"
begin

text \<open>
  Shared vocabulary of the development.

  Python values that cross a trust boundary (a parsed JSON document, an argument the code
  type-checks) are values of \<open>pv\<close>; a dictionary is an association list in insertion
  order, read with \<open>map_of\<close> and written with \<open>AList.update\<close> (an existing key keeps
  its place, a new key goes to the end, as in a Python \<open>dict\<close>).  A finite \<open>float\<close>
  is the rational it denotes; NaN and the infinities are not values of \<open>pv\<close>.
  A Python string is a list of characters with code points below 256.

  The theory also holds the regular expressions every ledger shares (UTC time stamps,
  SHA-256 digests), the outcome of creating a lock file a bounded number of times, and the
  association-list lemmas of the component theories.
\<close>

named_theorems doc_simps "reading the fields of a document that the model built"
named_theorems inr_convs "when a chain of rejections ends in a result"

section \<open>Python values\<close>

datatype pv =
    PNone
  | PBool bool
  | PInt int
  | PReal rat
  | PStr string
  | PList "pv list"
  | PDict "(string \<times> pv) list"

type_synonym ('e, 'a) result = "'e + 'a"

text \<open>The number a value stands for under \<open>==\<close> (\<open>True == 1 == 1.0\<close> in Python).\<close>

fun num_of :: "pv \<Rightarrow> rat option" where
  "num_of (PBool b) = Some (if b then 1 else 0)"
| "num_of (PInt i) = Some (of_int i)"
| "num_of (PReal r) = Some r"
| "num_of _ = None"

text \<open>Python's \<open>==\<close>: numbers by value, dictionaries without regard to order.\<close>

fun py_eq :: "pv \<Rightarrow> pv \<Rightarrow> bool" where
  "py_eq (PStr a) y = (y = PStr a)"
| "py_eq PNone y = (y = PNone)"
| "py_eq (PList xs) y =
     (case y of PList ys \<Rightarrow> list_all2 py_eq xs ys | _ \<Rightarrow> False)"
| "py_eq (PDict d) y =
     (case y of
        PDict e \<Rightarrow> length d = length e \<and>
          list_all (\<lambda>p. case map_of e (fst p) of None \<Rightarrow> False | Some w \<Rightarrow> py_eq (snd p) w) d
      | _ \<Rightarrow> False)"
| "py_eq (PBool b) y = (num_of y = Some (if b then 1 else 0))"
| "py_eq (PInt i) y = (num_of y = Some (of_int i))"
| "py_eq (PReal r) y = (num_of y = Some r)"

definition is_dict :: "pv \<Rightarrow> bool" where
  "is_dict v = (case v of PDict _ \<Rightarrow> True | _ \<Rightarrow> False)"

definition is_list :: "pv \<Rightarrow> bool" where
  "is_list v = (case v of PList _ \<Rightarrow> True | _ \<Rightarrow> False)"

definition items :: "pv \<Rightarrow> (string \<times> pv) list" where
  "items v = (case v of PDict d \<Rightarrow> d | _ \<Rightarrow> [])"

text \<open>\<open>v.get(k)\<close>, and \<open>v[k]\<close> where the key set has been checked before.\<close>

definition fld :: "pv \<Rightarrow> string \<Rightarrow> pv" where
  "fld v k = (case map_of (items v) k of None \<Rightarrow> PNone | Some x \<Rightarrow> x)"

definition has_key :: "pv \<Rightarrow> string \<Rightarrow> bool" where
  "has_key v k = (k \<in> set (map fst (items v)))"

text \<open>\<open>isinstance(v, dict) and set(v) == fields\<close>\<close>

definition has_fields :: "string list \<Rightarrow> pv \<Rightarrow> bool" where
  "has_fields ks v = (is_dict v \<and> list_all (has_key v) ks \<and>
     list_all (\<lambda>p. fst p \<in> set ks) (items v))"

definition the_str :: "pv \<Rightarrow> string" where
  "the_str v = (case v of PStr s \<Rightarrow> s | _ \<Rightarrow> [])"

definition the_int :: "pv \<Rightarrow> int" where
  "the_int v = (case v of PInt i \<Rightarrow> i | _ \<Rightarrow> 0)"

definition opt_str :: "pv \<Rightarrow> string option" where
  "opt_str v = (case v of PStr s \<Rightarrow> Some s | _ \<Rightarrow> None)"

definition str_or_none :: "string option \<Rightarrow> pv" where
  "str_or_none x = (case x of None \<Rightarrow> PNone | Some s \<Rightarrow> PStr s)"

text \<open>\<open>type(v) is int and v >= 0\<close>: a boolean is not an \<open>int\<close> here.\<close>

definition is_nat_int :: "pv \<Rightarrow> bool" where
  "is_nat_int v = (case v of PInt i \<Rightarrow> 0 \<le> i | _ \<Rightarrow> False)"

definition unhashable :: "pv \<Rightarrow> bool" where
  "unhashable v = (is_dict v \<or> is_list v)"

section \<open>Strings and the shared regular expressions\<close>

text \<open>\<open>str.isspace\<close> on the code points below 256.\<close>

definition py_space :: "char \<Rightarrow> bool" where
  "py_space c = (let n = (of_char c :: nat) in
     (9 \<le> n \<and> n \<le> 13) \<or> (28 \<le> n \<and> n \<le> 32) \<or> n = 133 \<or> n = 160)"

text \<open>\<open>isinstance(v, str) and v.strip()\<close>\<close>

definition nonblank :: "string \<Rightarrow> bool" where
  "nonblank s = (\<not> list_all py_space s)"

definition is_ident :: "pv \<Rightarrow> bool" where
  "is_ident v = (case v of PStr s \<Rightarrow> nonblank s | _ \<Rightarrow> False)"

definition is_digit :: "char \<Rightarrow> bool" where
  "is_digit c = (let n = (of_char c :: nat) in 48 \<le> n \<and> n \<le> 57)"

definition is_hex :: "char \<Rightarrow> bool" where
  "is_hex c = (let n = (of_char c :: nat) in is_digit c \<or> (97 \<le> n \<and> n \<le> 102))"

text \<open>
  Matching against a template in which \<open>d\<close> stands for one digit and every other
  character for itself; the result is the rest of the subject.
\<close>

fun match_template :: "string \<Rightarrow> string \<Rightarrow> string option" where
  "match_template [] s = Some s"
| "match_template (t # ts) [] = None"
| "match_template (t # ts) (c # cs) =
     (if (if t = CHR ''d'' then is_digit c else c = t) then match_template ts cs else None)"

text \<open>\<open>^\d{4}-\d{2}-\d{2}T\d{2}:\d{2}:\d{2}(?:\.\d+)?Z$\<close> under \<open>fullmatch\<close>\<close>

definition utc_tail :: "string \<Rightarrow> bool" where
  "utc_tail r = (r = ''Z'' \<or>
     (case r of [] \<Rightarrow> False
      | c # ds \<Rightarrow> c = CHR ''.'' \<and> 2 \<le> length ds \<and> last ds = CHR ''Z'' \<and>
          list_all is_digit (butlast ds)))"

definition utc_string :: "string \<Rightarrow> bool" where
  "utc_string s = (case match_template ''dddd-dd-ddTdd:dd:dd'' s of
     None \<Rightarrow> False | Some r \<Rightarrow> utc_tail r)"

definition is_utc :: "pv \<Rightarrow> bool" where
  "is_utc v = (case v of PStr s \<Rightarrow> utc_string s | _ \<Rightarrow> False)"

text \<open>\<open>^[0-9a-f]{64}$\<close>\<close>

definition sha256_string :: "string \<Rightarrow> bool" where
  "sha256_string s = (length s = 64 \<and> list_all is_hex s)"

definition is_sha256 :: "pv \<Rightarrow> bool" where
  "is_sha256 v = (case v of PStr s \<Rightarrow> sha256_string s | _ \<Rightarrow> False)"

text \<open>\<open>hashlib\<close> returns 64 lower-case hexadecimal digits.\<close>

definition hex_digest :: "(pv \<Rightarrow> string) \<Rightarrow> bool" where
  "hex_digest digest = (\<forall>d. sha256_string (digest d))"

section \<open>Documents on disk\<close>

text \<open>
  \<open>json.loads(json.dumps(v, sort_keys=True))\<close>: the same value with the keys of every
  dictionary in lexicographic order.
\<close>

fun sort_doc :: "pv \<Rightarrow> pv" where
  "sort_doc (PList xs) = PList (map sort_doc xs)"
| "sort_doc (PDict d) = PDict (sort_key fst (map (\<lambda>p. (fst p, sort_doc (snd p))) d))"
| "sort_doc v = v"

datatype disk_file =
    Absent
  | Garbled \<comment> \<open>unreadable, not UTF-8 or not JSON\<close>
  | Stored pv

text \<open>
  One attempt to create a lock file with \<open>O_CREAT | O_EXCL\<close>, and the bounded loop over
  the attempts: \<open>FileExistsError\<close> sleeps and tries again, any other \<open>OSError\<close>
  gives up at once.
\<close>

datatype open_outcome = Opened | File_Exists | Open_Failed

fun lock_loop :: "nat \<Rightarrow> (nat \<Rightarrow> open_outcome) \<Rightarrow> nat \<Rightarrow> bool" where
  "lock_loop 0 opens i = False"
| "lock_loop (Suc n) opens i =
     (case opens i of
        Opened \<Rightarrow> True
      | File_Exists \<Rightarrow> lock_loop n opens (Suc i)
      | Open_Failed \<Rightarrow> False)"

text \<open>What the operating system does during one call.\<close>

record io =
  opens :: "nat \<Rightarrow> open_outcome"
  replace_ok :: bool \<comment> \<open>the temporary file is written, synced and renamed\<close>

definition good_io :: io where
  "good_io = \<lparr>opens = (\<lambda>_. Opened), replace_ok = True\<rparr>"


text \<open>The type invariant of Python dictionaries: no key occurs twice.\<close>

fun wf_pv :: "pv \<Rightarrow> bool" where
  "wf_pv (PList xs) = list_all wf_pv xs"
| "wf_pv (PDict d) = (distinct (map fst d) \<and> list_all (\<lambda>p. wf_pv (snd p)) d)"
| "wf_pv v = True"

definition wf_file :: "disk_file \<Rightarrow> bool" where
  "wf_file f = (case f of Stored d \<Rightarrow> wf_pv d | _ \<Rightarrow> True)"

text \<open>Optional values under a predicate.\<close>

definition opt_all :: "('a \<Rightarrow> bool) \<Rightarrow> 'a option \<Rightarrow> bool" where
  "opt_all P x = (case x of None \<Rightarrow> True | Some y \<Rightarrow> P y)"

definition opt_ex :: "('a \<Rightarrow> bool) \<Rightarrow> 'a option \<Rightarrow> bool" where
  "opt_ex P x = (case x of None \<Rightarrow> False | Some y \<Rightarrow> P y)"

section \<open>Chains of rejections\<close>

text \<open>
  A guard of the source is \<open>if c then Inl e else rest\<close>; these equations turn "the chain
  returns a result" into the conjunction of its guards, without splitting the chain.
\<close>

lemma inr_if [inr_convs]:
  "((if c then Inl e else x) = Inr y) \<longleftrightarrow> \<not> c \<and> x = Inr y"
  "((if c then x else Inl e) = Inr y) \<longleftrightarrow> c \<and> x = Inr y"
  by auto

lemma inr_option [inr_convs]:
  "((case x of None \<Rightarrow> Inl e | Some z \<Rightarrow> g z) = Inr y) \<longleftrightarrow> (\<exists>z. x = Some z \<and> g z = Inr y)"
  "((case x of Some e' \<Rightarrow> Inl e' | None \<Rightarrow> r) = Inr y) \<longleftrightarrow> x = None \<and> r = Inr y"
  by (auto split: option.splits)

lemma inr_sum [inr_convs]:
  "((case x of Inl e \<Rightarrow> Inl e | Inr z \<Rightarrow> h z) = Inr y) \<longleftrightarrow> (\<exists>z. x = Inr z \<and> h z = Inr y)"
  by (auto split: sum.splits)

lemma none_if [inr_convs]:
  "((if c then Some e else x) = None) \<longleftrightarrow> \<not> c \<and> x = None"
  by auto

text \<open>A check that raises, followed by the rest of the function.\<close>

definition and_then :: "('e, 'a) result \<Rightarrow> ('a \<Rightarrow> ('e, 'b) result) \<Rightarrow> ('e, 'b) result" where
  "and_then r f = (case r of Inl e \<Rightarrow> Inl e | Inr x \<Rightarrow> f x)"

lemma and_then_iff [inr_convs]:
  "(and_then r f = Inr y) \<longleftrightarrow> (\<exists>x. r = Inr x \<and> f x = Inr y)"
  by (auto simp: and_then_def split: sum.splits)

section \<open>Lemmas on values and documents\<close>

lemma opt_all_ex_simps [simp]:
  "opt_all P None" "opt_all P (Some y) = P y" "\<not> opt_ex P None" "opt_ex P (Some y) = P y"
  by (simp_all add: opt_all_def opt_ex_def)

lemma wf_items: "wf_pv v \<Longrightarrow> distinct (map fst (items v))"
  by (cases v) (simp_all add: items_def)

lemma wf_fld: "wf_pv v \<Longrightarrow> wf_pv (fld v k)"
  by (cases v)
    (auto simp: fld_def items_def list_all_iff dest!: map_of_SomeD split: option.splits)


lemma value_simps [simp]:
  "is_dict (PDict d)" "\<not> is_dict (PStr s)" "\<not> is_dict PNone" "\<not> is_dict (PInt i)"
  "\<not> is_dict (PBool b)" "\<not> is_dict (PReal r)" "\<not> is_dict (PList xs)"
  "items (PDict d) = d" "\<not> is_list (PDict d)" "\<not> is_list (PStr s)" "\<not> is_list PNone"
  "is_ident (PStr s) = nonblank s" "\<not> is_ident PNone" "is_utc (PStr s) = utc_string s"
  "\<not> is_utc PNone" "is_sha256 (PStr s) = sha256_string s" "\<not> is_sha256 PNone"
  "the_str (PStr s) = s" "the_int (PInt i) = i" "opt_str (PStr s) = Some s" "opt_str PNone = None"
  "is_nat_int (PInt i) = (0 \<le> i)" "\<not> is_nat_int PNone" "\<not> is_nat_int (PStr s)"
  "\<not> is_nat_int (PBool b)"
  "str_or_none None = PNone" "str_or_none (Some s) = PStr s"
  by (simp_all add: is_dict_def items_def is_list_def is_ident_def is_utc_def is_sha256_def
      the_str_def the_int_def opt_str_def is_nat_int_def str_or_none_def)

lemma opt_str_str_or_none [simp]: "opt_str (str_or_none x) = x"
  by (cases x) simp_all

lemma str_or_none_eq [simp]:
  "(str_or_none x = PNone) = (x = None)" "(str_or_none x = PStr s) = (x = Some s)"
  "(PNone = str_or_none x) = (x = None)" "(PStr s = str_or_none x) = (Some s = x)"
  by (cases x; auto)+

lemma str_predE:
  assumes "is_ident v \<or> is_utc v \<or> is_sha256 v"
  obtains s where "v = PStr s"
  using assms by (cases v) (auto simp: is_ident_def is_utc_def is_sha256_def)

lemma str_pred_the_str [simp]:
  "is_ident v \<Longrightarrow> PStr (the_str v) = v" "is_utc v \<Longrightarrow> PStr (the_str v) = v"
  "is_sha256 v \<Longrightarrow> PStr (the_str v) = v"
  by (cases v; simp add: is_ident_def is_utc_def is_sha256_def)+

lemma str_pred_dest:
  "is_ident v \<Longrightarrow> nonblank (the_str v)" "is_utc v \<Longrightarrow> utc_string (the_str v)"
  "is_sha256 v \<Longrightarrow> sha256_string (the_str v)" "is_nat_int v \<Longrightarrow> 0 \<le> the_int v"
  by (cases v; simp add: is_ident_def is_utc_def is_sha256_def is_nat_int_def)+

lemma utc_string_nonblank: "utc_string s \<Longrightarrow> nonblank s"
proof -
  have digit: "\<not> py_space c" if "is_digit c" for c
    using that by (simp add: is_digit_def py_space_def Let_def)
  assume "utc_string s"
  then show ?thesis
    by (cases s) (auto simp: utc_string_def nonblank_def digit split: if_splits)
qed

lemma fld_PDict [simp]:
  "fld (PDict d) k = (case map_of d k of None \<Rightarrow> PNone | Some x \<Rightarrow> x)"
  by (simp add: fld_def)

lemma has_key_PDict [simp]: "has_key (PDict d) k = (k \<in> set (map fst d))"
  by (simp add: has_key_def)

lemma has_fields_PDict:
  "has_fields ks (PDict d) = (set ks = fst ` set d)"
  by (auto simp: has_fields_def list_all_iff)

lemma has_fields_is_dict: "has_fields ks v \<Longrightarrow> is_dict v"
  by (simp add: has_fields_def)

subsection \<open>Sorting the keys changes nothing a reader can see\<close>

lemma sort_doc_leaf [simp]:
  "sort_doc v = PNone \<longleftrightarrow> v = PNone" "sort_doc v = PStr s \<longleftrightarrow> v = PStr s"
  "sort_doc v = PInt i \<longleftrightarrow> v = PInt i"
  by (cases v; simp)+

lemma sort_doc_str_or_none [simp]: "sort_doc (str_or_none x) = str_or_none x"
  by (cases x) simp_all

lemma sort_doc_preds [simp]:
  "is_dict (sort_doc v) = is_dict v" "is_list (sort_doc v) = is_list v"
  "is_ident (sort_doc v) = is_ident v" "is_utc (sort_doc v) = is_utc v"
  "is_sha256 (sort_doc v) = is_sha256 v" "is_nat_int (sort_doc v) = is_nat_int v"
  "the_str (sort_doc v) = the_str v" "the_int (sort_doc v) = the_int v"
  "opt_str (sort_doc v) = opt_str v" "unhashable (sort_doc v) = unhashable v"
  by (cases v; simp add: is_dict_def is_list_def is_ident_def is_utc_def is_sha256_def
      is_nat_int_def the_str_def the_int_def opt_str_def unhashable_def)+

lemma items_sort_doc:
  "items (sort_doc v) = sort_key fst (map (\<lambda>p. (fst p, sort_doc (snd p))) (items v))"
  by (cases v) (simp_all add: items_def)

lemma fst_image_sort [simp]: "fst ` set (sort_key fst xs) = fst ` set xs"
  by simp

lemma map_of_sort_key:
  assumes "distinct (map fst xs)"
  shows "map_of (sort_key fst xs) = map_of xs"
proof -
  have "mset (map fst (sort_key fst xs)) = mset (map fst xs)"
    by simp
  then have "distinct (map fst (sort_key fst xs))"
    using assms by (metis mset_eq_imp_distinct_iff)
  then show ?thesis
    using assms map_of_inject_set by (metis set_sort)
qed

lemma distinct_keys_sort [simp]:
  "distinct (map fst (sort_key fst xs)) = distinct (map fst xs)"
proof -
  have "mset (map fst (sort_key fst xs)) = mset (map fst xs)"
    by simp
  then show ?thesis
    by (metis mset_eq_imp_distinct_iff)
qed

lemma map_of_map_vals:
  "map_of (map (\<lambda>p. (fst p, f (snd p))) xs) k = map_option f (map_of xs k)"
  by (induction xs) auto

lemma fld_sort_doc:
  assumes "distinct (map fst (items v))"
  shows "fld (sort_doc v) k = sort_doc (fld v k)"
proof -
  let ?m = "map (\<lambda>p. (fst p, sort_doc (snd p))) (items v)"
  have "map fst ?m = map fst (items v)"
    by simp
  then have "distinct (map fst ?m)"
    using assms by (simp only:)
  then have "map_of (sort_key fst ?m) k = map_of ?m k"
    by (simp only: map_of_sort_key)
  moreover have "map_of ?m k = map_option sort_doc (map_of (items v) k)"
    by (rule map_of_map_vals)
  ultimately show ?thesis
    by (simp add: fld_def items_sort_doc split: option.splits)
qed

lemma has_fields_alt: "has_fields ks v \<longleftrightarrow> is_dict v \<and> set ks = fst ` set (items v)"
  by (auto simp: has_fields_def has_key_def list_all_iff)

lemma keys_sort_doc: "fst ` set (items (sort_doc v)) = fst ` set (items v)"
  by (simp add: items_sort_doc image_image)

lemma has_fields_sort_doc [simp]: "has_fields ks (sort_doc v) = has_fields ks v"
  by (simp add: has_fields_alt keys_sort_doc)

lemma sort_key_map_vals:
  fixes g :: "'c \<Rightarrow> 'b" and xs :: "('a::linorder \<times> 'c) list"
  shows "sort_key fst (map (\<lambda>p. (fst p, g (snd p))) xs) = map (\<lambda>p. (fst p, g (snd p))) (sort_key fst xs)"
proof -
  have insort: "insort_key fst (fst p, g (snd p)) (map (\<lambda>p. (fst p, g (snd p))) ys) =
      map (\<lambda>p. (fst p, g (snd p))) (insort_key fst p ys)" for p :: "'a \<times> 'c" and ys
    by (induction ys) auto
  show ?thesis
    by (induction xs) (simp_all add: insort)
qed

lemma wf_sort_doc: "wf_pv v \<Longrightarrow> wf_pv (sort_doc v)"
  by (induction v rule: sort_doc.induct) (auto simp: list_all_iff comp_def)

section \<open>Lemmas on association lists\<close>

lemma set_update_subset: "set (AList.update k v al) \<subseteq> insert (k, v) (set al)"
  by (induction al) auto

lemma update_in_cases:
  assumes "distinct (map fst al)" and "x \<in> set (AList.update k v al)"
  shows "x = (k, v) \<or> (x \<in> set al \<and> fst x \<noteq> k)"
  using assms by (induction al) (auto split: if_splits)

lemma keys_update: "fst ` set (AList.update k v al) = insert k (fst ` set al)"
  by (induction al) auto

lemma map_of_update [simp]: "map_of (AList.update k v al) = (map_of al)(k \<mapsto> v)"
  by (rule update_conv')

lemma update_fresh: "map_of al k = None \<Longrightarrow> AList.update k v al = al @ [(k, v)]"
  by (induction al) (auto split: if_splits)

lemma map_snd_update_same:
  assumes "map_of al k = Some w" and "f v = f w"
  shows "map (f \<circ> snd) (AList.update k v al) = map (f \<circ> snd) al"
  using assms by (induction al) (auto split: if_splits)

text \<open>Counting the entries that satisfy a predicate, before and after an update.\<close>

definition count_vals :: "('v \<Rightarrow> bool) \<Rightarrow> ('k \<times> 'v) list \<Rightarrow> nat" where
  "count_vals P al = length (filter (\<lambda>p. P (snd p)) al)"

lemma count_vals_Nil [simp]: "count_vals P [] = 0"
  by (simp add: count_vals_def)

lemma count_vals_Cons [simp]:
  "count_vals P (p # al) = (if P (snd p) then Suc (count_vals P al) else count_vals P al)"
  by (simp add: count_vals_def)

lemma count_vals_append [simp]: "count_vals P (xs @ ys) = count_vals P xs + count_vals P ys"
  by (simp add: count_vals_def)

lemma count_vals_update:
  assumes "map_of al k = Some w"
  shows "count_vals P (AList.update k v al) + (if P w then 1 else 0) =
         count_vals P al + (if P v then 1 else 0)"
  using assms by (induction al) (auto split: if_splits)

lemma count_vals_pos: "map_of al k = Some w \<Longrightarrow> P w \<Longrightarrow> 0 < count_vals P al"
  by (induction al) (auto split: if_splits)

lemma count_vals_sort [simp]: "count_vals P (sort_key fst al) = count_vals P al"
proof -
  have "mset (filter (\<lambda>p. P (snd p)) (sort_key fst al)) = mset (filter (\<lambda>p. P (snd p)) al)"
    by simp
  then show ?thesis
    unfolding count_vals_def by (metis size_mset)
qed

lemma count_vals_card:
  "distinct (map fst al) \<Longrightarrow> count_vals P al = card {k. \<exists>v. map_of al k = Some v \<and> P v}"
proof (induction al)
  case Nil
  then show ?case by simp
next
  case (Cons p al)
  obtain k v where p: "p = (k, v)" by (cases p)
  let ?A = "{k. \<exists>v. map_of al k = Some v \<and> P v}"
  have new: "map_of al k = None"
    using Cons.prems p by (simp add: map_of_eq_None_iff)
  have "?A \<subseteq> fst ` set al"
    by (auto dest!: map_of_SomeD intro: rev_image_eqI)
  then have fin: "finite ?A"
    by (rule finite_subset) simp
  have notin: "k \<notin> ?A"
    using new by simp
  have "{j. \<exists>w. map_of (p # al) j = Some w \<and> P w} = (if P v then insert k ?A else ?A)"
    using new by (auto simp: p)
  then have "card {j. \<exists>w. map_of (p # al) j = Some w \<and> P w} =
      (if P v then Suc (card ?A) else card ?A)"
    using card_insert_disjoint [OF fin notin] by (cases "P v") (simp_all only: if_True if_False)
  with Cons p show ?case
    by simp
qed

text \<open>The images of the selected entries stay distinct when the new one is not among them.\<close>

definition vals :: "('k \<times> 'v) list \<Rightarrow> 'v list" where
  "vals al = map snd al"

lemma update_split:
  assumes "distinct (map fst al)" and "map_of al k = Some w"
  obtains xs ys where "al = xs @ (k, w) # ys" "AList.update k v al = xs @ (k, v) # ys"
    "k \<notin> fst ` set xs" "k \<notin> fst ` set ys"
proof -
  have "\<exists>xs ys. al = xs @ (k, w) # ys \<and> AList.update k v al = xs @ (k, v) # ys \<and>
      k \<notin> fst ` set xs \<and> k \<notin> fst ` set ys"
    using assms
  proof (induction al)
    case Nil
    then show ?case by simp
  next
    case (Cons p al)
    show ?case
    proof (cases "fst p = k")
      case True
      with Cons.prems show ?thesis
        by (intro exI [of _ "[]"] exI [of _ al]) (cases p, auto)
    next
      case False
      with Cons obtain xs ys where "al = xs @ (k, w) # ys"
        "AList.update k v al = xs @ (k, v) # ys" "k \<notin> fst ` set xs" "k \<notin> fst ` set ys"
        by (cases p) auto
      with False show ?thesis
        by (intro exI [of _ "p # xs"] exI [of _ ys]) (cases p, auto)
    qed
  qed
  then show ?thesis
    using that by blast
qed

lemma distinct_selected_update:
  assumes "distinct (map g (filter P (map snd al)))" and "distinct (map fst al)"
    and new: "P v \<Longrightarrow> \<forall>x \<in> set al. fst x \<noteq> k \<longrightarrow> P (snd x) \<longrightarrow> g (snd x) \<noteq> g v"
  shows "distinct (map g (filter P (map snd (AList.update k v al))))"
proof (cases "map_of al k")
  case None
  then have "\<forall>x \<in> set al. fst x \<noteq> k"
    by (metis map_of_eq_None_iff image_eqI)
  with None assms show ?thesis
    by (auto simp: update_fresh) (metis snd_conv)
next
  case (Some w)
  then obtain xs ys where split: "al = xs @ (k, w) # ys"
    "AList.update k v al = xs @ (k, v) # ys" "k \<notin> fst ` set xs" "k \<notin> fst ` set ys"
    using update_split [OF assms(2)] by blast
  have "\<forall>x \<in> set xs \<union> set ys. fst x \<noteq> k"
    using split(3,4) by auto
  with new have "P v \<Longrightarrow> \<forall>x \<in> set xs \<union> set ys. P (snd x) \<longrightarrow> g (snd x) \<noteq> g v"
    by (auto simp: split(1))
  then have "P v \<Longrightarrow> g v \<notin> g ` {a \<in> snd ` set xs. P a} \<and> g v \<notin> g ` {a \<in> snd ` set ys. P a}"
    by auto
  with assms(1) [unfolded split(1)] show ?thesis
    unfolding split(2) by (auto split: if_splits)
qed

lemma distinct_selected_sort [simp]:
  "distinct (map g (filter P (map snd (sort_key fst al)))) = distinct (map g (filter P (map snd al)))"
proof -
  have "mset (map g (filter P (map snd (sort_key fst al)))) = mset (map g (filter P (map snd al)))"
    by simp
  then show ?thesis
    by (metis mset_eq_imp_distinct_iff)
qed

end
