(* ===== verification/Canonical_Pair.thy ===== *)
theory Canonical_Pair
  imports Prelude
begin

text \<open>
  The canonical pair authority, \<open>src/engine/canonical_pair_v1.py\<close>: every ledger compares
  trading pairs by the string \<open>normalize_pair\<close> returns.  \<open>None\<close> is
  \<open>CanonicalPairError(PAIR_INVALID)\<close>, the only rejection the module has.
\<close>

section \<open>Model\<close>

text \<open>
  \<open>str.upper\<close> on one code point below 256.  The sharp s becomes two letters; the micro
  sign and y with diaeresis leave the range, and stay as they are here, where no later
  test accepts them.
\<close>

definition upper_char :: "char \<Rightarrow> string" where
  "upper_char c = (let n = (of_char c :: nat) in
     if 97 \<le> n \<and> n \<le> 122 then [char_of (n - 32)]
     else if n = 223 then ''SS''
     else if 224 \<le> n \<and> n \<le> 254 \<and> n \<noteq> 247 then [char_of (n - 32)]
     else [c])"

definition py_upper :: "string \<Rightarrow> string" where
  "py_upper s = concat (map upper_char s)"

text \<open>\<open>re.sub(r"\s+", "", value).upper()\<close>\<close>

definition compact_text :: "string \<Rightarrow> string" where
  "compact_text s = py_upper (filter (\<lambda>c. \<not> py_space c) s)"

definition ends_with :: "string \<Rightarrow> string \<Rightarrow> bool" where
  "ends_with m q = (length q \<le> length m \<and> drop (length m - length q) m = q)"

fun split_on :: "char \<Rightarrow> string \<Rightarrow> string list" where
  "split_on c [] = [[]]"
| "split_on c (x # xs) =
     (if x = c then [] # split_on c xs
      else (case split_on c xs of [] \<Rightarrow> [[x]] | y # ys \<Rightarrow> (x # y) # ys))"

definition asset_char :: "char \<Rightarrow> bool" where
  "asset_char c = (let n = (of_char c :: nat) in is_digit c \<or> (65 \<le> n \<and> n \<le> 90))"

text \<open>\<open>_ASSET\<close>: \<open>^[A-Z0-9]{2,20}$\<close>\<close>

definition asset :: "string \<Rightarrow> bool" where
  "asset s = (2 \<le> length s \<and> length s \<le> 20 \<and> list_all asset_char s)"

definition concatenated_quotes :: "string list" where
  "concatenated_quotes = [''USDT'', ''USDC'', ''BUSD'', ''USD'', ''BTC'', ''ETH'']"

text \<open>The loop over the quotes: the first one that is a proper suffix splits the market.\<close>

fun split_quote :: "string list \<Rightarrow> string \<Rightarrow> string" where
  "split_quote [] market = market"
| "split_quote (q # qs) market =
     (if ends_with market q \<and> length q < length market
      then take (length market - length q) market @ ''/'' @ q
      else split_quote qs market)"

definition normalize_pair :: "string \<Rightarrow> string option" where
  "normalize_pair value =
    (let compact = compact_text value;
         market = takeWhile (\<lambda>c. c \<noteq> CHR '':'') compact;
         separator = (CHR '':'' \<in> set compact);
         settlement = drop (Suc (length market)) compact
     in if compact = [] then None
        else if separator \<and> (settlement = [] \<or> CHR '':'' \<in> set settlement) then None
        else
          let market = (if CHR ''/'' \<in> set market then market
                        else split_quote concatenated_quotes market)
          in case split_on (CHR ''/'') market of
               [base, quote] \<Rightarrow>
                 if \<not> asset base \<or> \<not> asset quote then None
                 else if base = quote \<or> (separator \<and> settlement \<noteq> quote) then None
                 else Some (base @ ''/'' @ quote)
             | _ \<Rightarrow> None)"

section \<open>Canonical pairs\<close>

definition canonical_pair :: "string \<Rightarrow> bool" where
  "canonical_pair p = (\<exists>b q. p = b @ ''/'' @ q \<and> asset b \<and> asset q \<and> b \<noteq> q)"

lemma asset_charD:
  assumes "asset_char c"
  shows "\<not> py_space c" "upper_char c = [c]" "c \<noteq> CHR '':''" "c \<noteq> CHR ''/''"
proof -
  have n: "(48 \<le> (of_char c :: nat) \<and> (of_char c :: nat) \<le> 57) \<or>
      (65 \<le> (of_char c :: nat) \<and> (of_char c :: nat) \<le> 90)"
    using assms by (simp add: asset_char_def is_digit_def Let_def)
  then show "\<not> py_space c"
    by (auto simp: py_space_def Let_def)
  from n show "upper_char c = [c]"
    by (auto simp: upper_char_def Let_def)
  from n show "c \<noteq> CHR '':''" "c \<noteq> CHR ''/''"
    by auto
qed

lemma assetD: "asset s \<Longrightarrow> c \<in> set s \<Longrightarrow> asset_char c"
  by (simp add: asset_def list_all_iff)

lemma asset_nonempty: "asset s \<Longrightarrow> s \<noteq> []"
  by (auto simp: asset_def)

lemma asset_no_sep: "asset s \<Longrightarrow> CHR '':'' \<notin> set s \<and> CHR ''/'' \<notin> set s"
  using assetD asset_charD by blast

lemma compact_text_append: "compact_text (s @ t) = compact_text s @ compact_text t"
  by (simp add: compact_text_def py_upper_def)

lemma compact_text_asset: "list_all asset_char s \<Longrightarrow> compact_text s = s"
  by (induction s) (simp_all add: compact_text_def py_upper_def asset_charD)

lemma compact_text_seps: "compact_text ''/'' = ''/''" "compact_text '':'' = '':''"
  by code_simp+

lemma split_on_none: "c \<notin> set xs \<Longrightarrow> split_on c xs = [xs]"
  by (induction xs) auto

lemma split_on_nonempty: "split_on c xs \<noteq> []"
  by (induction xs) (auto split: list.splits)

lemma split_on_append: "c \<notin> set xs \<Longrightarrow> split_on c (xs @ c # ys) = xs # split_on c ys"
  by (induction xs) auto

text \<open>
  A market with a slash and an optional settlement suffix: what the function computes on the
  only inputs it can accept.
\<close>

lemma takeWhile_sep: "c \<notin> set xs \<Longrightarrow> takeWhile (\<lambda>x. x \<noteq> c) (xs @ c # ys) = xs"
  by (induction xs) auto

lemma takeWhile_none: "c \<notin> set xs \<Longrightarrow> takeWhile (\<lambda>x. x \<noteq> c) xs = xs"
  by (induction xs) auto

lemma split_pair:
  "asset b \<Longrightarrow> asset q \<Longrightarrow> split_on (CHR ''/'') (b @ CHR ''/'' # q) = [b, q]"
  using split_on_append [of "CHR ''/''" b q] split_on_none [of "CHR ''/''" q] asset_no_sep by auto

lemma no_colon_pair:
  "asset b \<Longrightarrow> asset q \<Longrightarrow> CHR '':'' \<notin> set (b @ CHR ''/'' # q)"
  using asset_no_sep by auto

lemma normalize_pair_slash:
  assumes c: "compact_text s = b @ CHR ''/'' # q" and "asset b" "asset q" "b \<noteq> q"
  shows "normalize_pair s = Some (b @ ''/'' @ q)"
proof -
  have nc: "CHR '':'' \<notin> set (b @ CHR ''/'' # q)"
    using no_colon_pair assms by blast
  have tw: "takeWhile (\<lambda>c. c \<noteq> CHR '':'') (b @ CHR ''/'' # q) = b @ CHR ''/'' # q"
    by (rule takeWhile_none [OF nc])
  show ?thesis
    unfolding normalize_pair_def Let_def c tw using assms nc by (simp add: split_pair)
qed

lemma normalize_pair_settled:
  assumes c: "compact_text s = (b @ CHR ''/'' # q) @ CHR '':'' # r"
    and "asset b" "asset q" "b \<noteq> q" "r \<noteq> []" "CHR '':'' \<notin> set r"
  shows "normalize_pair s = (if r = q then Some (b @ ''/'' @ q) else None)"
proof -
  let ?m = "b @ CHR ''/'' # q"
  have tw: "takeWhile (\<lambda>c. c \<noteq> CHR '':'') (?m @ CHR '':'' # r) = ?m"
    by (rule takeWhile_sep [OF no_colon_pair]) fact+
  have dr: "drop (Suc (length ?m)) (?m @ CHR '':'' # r) = r"
    by simp
  show ?thesis
    unfolding normalize_pair_def Let_def c tw dr using assms(2-) by (simp add: split_pair)
qed

lemma compact_text_pair:
  assumes "asset b" "asset q"
  shows "compact_text (b @ ''/'' @ q) = b @ CHR ''/'' # q"
proof -
  have "compact_text b = b" "compact_text q = q"
    using assms compact_text_asset by (auto simp: asset_def)
  then show ?thesis
    using compact_text_append [of b "''/'' @ q"] compact_text_append [of "''/''" q]
    by (simp add: compact_text_seps)
qed

text \<open> Whatever the function returns is canonical: two different assets of 2 to 20
  upper-case letters or digits around one slash.\<close>

theorem normalize_pair_canonical: "normalize_pair s = Some p \<Longrightarrow> canonical_pair p"
  by (auto simp: normalize_pair_def canonical_pair_def Let_def split: if_splits list.splits)

text \<open> Normalising is idempotent: a pair taken from one ledger compares equal in another.\<close>

theorem normalize_pair_idempotent:
  "normalize_pair s = Some p \<Longrightarrow> normalize_pair p = Some p"
proof -
  assume "normalize_pair s = Some p"
  then obtain b q where "p = b @ ''/'' @ q" "asset b" "asset q" "b \<noteq> q"
    using normalize_pair_canonical canonical_pair_def by blast
  then show ?thesis
    using normalize_pair_slash compact_text_pair by simp
qed

text \<open> A settlement suffix is accepted exactly when it repeats the quote asset.\<close>

theorem normalize_pair_settlement:
  assumes "asset b" "asset q" "b \<noteq> q" "asset r"
  shows "normalize_pair (b @ ''/'' @ q @ '':'' @ r) =
    (if r = q then Some (b @ ''/'' @ q) else None)"
proof -
  have "compact_text (b @ ''/'' @ q @ '':'' @ r) = (b @ CHR ''/'' # q) @ CHR '':'' # r"
  proof -
    have "compact_text ((b @ ''/'' @ q) @ '':'' @ r) =
        compact_text (b @ ''/'' @ q) @ compact_text '':'' @ compact_text r"
      by (simp only: compact_text_append)
    then show ?thesis
      using assms compact_text_asset [of r] compact_text_pair [of b q] compact_text_seps(2)
      by (simp add: asset_def)
  qed
  then show ?thesis
    using normalize_pair_settled assms asset_nonempty asset_no_sep by blast
qed

lemma normalize_pair_witness_input:
  "normalize_pair '' btc/usdt:USDT '' = Some ''BTC/USDT''" "normalize_pair ''ETHUSDT'' = Some ''ETH/USDT''"
  by code_simp+

theorem normalize_pair_canonical_witness: "canonical_pair ''BTC/USDT''"
  by (rule normalize_pair_canonical [OF normalize_pair_witness_input(1)])

theorem normalize_pair_idempotent_witness: "normalize_pair ''ETH/USDT'' = Some ''ETH/USDT''"
  by (rule normalize_pair_idempotent [OF normalize_pair_witness_input(2)])

theorem normalize_pair_settlement_witness:
  "normalize_pair (''BTC'' @ ''/'' @ ''USDT'' @ '':'' @ ''USDC'') = None"
proof -
  have "asset ''BTC''" "asset ''USDT''" "asset ''USDC''"
    by code_simp+
  then show ?thesis
    using normalize_pair_settlement [of "''BTC''" "''USDT''" "''USDC''"] by simp
qed

end
