(* ===== verification/Durable_Store.thy ===== *)
theory Durable_Store
  imports Prelude
begin

text \<open>
  The frame that both ledgers of the agent put around a change: take the lock file, read and
  validate the document, decide, and persist the changed document with the next revision.
  The interface \<open>durable_ledger\<close> states what a ledger module promises to the frame; the
  laws of the frame are proved once from it.
\<close>

text \<open>What a handler does with the ledger it has read: return it, or change it and persist it
  with the time of the change.\<close>

datatype 'l mutation = Keep 'l | Mutate 'l string

definition run_store ::
  "bool \<Rightarrow> 'e \<Rightarrow> (disk_file \<Rightarrow> ('e, 'l) result)
    \<Rightarrow> (disk_file \<Rightarrow> 'l \<Rightarrow> string \<Rightarrow> ('e, 'l) result \<times> disk_file)
    \<Rightarrow> disk_file \<Rightarrow> ('l \<Rightarrow> ('e, 'l mutation) result) \<Rightarrow> ('e, 'l) result \<times> disk_file" where
  "run_store locked lock_error read persist f handler =
    (if \<not> locked then (Inl lock_error, f)
     else case read f of
       Inl e \<Rightarrow> (Inl e, f)
     | Inr l \<Rightarrow> (case handler l of
           Inl e \<Rightarrow> (Inl e, f)
         | Inr (Keep l') \<Rightarrow> (Inr l', f)
         | Inr (Mutate l' t) \<Rightarrow> persist f l' t))"

text \<open>
  The contract of a ledger module: a rejected write leaves the file alone, and an accepted
  one raises the revision by one and can be read back as the same ledger, up to the order of
  its entries.
\<close>

locale durable_ledger =
  fixes read :: "disk_file \<Rightarrow> ('e, 'l) result"
    and persist :: "disk_file \<Rightarrow> 'l \<Rightarrow> string \<Rightarrow> ('e, 'l) result \<times> disk_file"
    and ok :: "'l \<Rightarrow> bool"
    and revision :: "'l \<Rightarrow> int"
    and same :: "'l \<Rightarrow> 'l \<Rightarrow> bool"
  assumes persist_error: "persist f l t = (Inl e, f') \<Longrightarrow> f' = f"
    and persist_revision: "persist f l t = (Inr l', f') \<Longrightarrow> revision l' = revision l + 1"
    and persist_read: "persist f l t = (Inr l', f') \<Longrightarrow> ok l'
        \<Longrightarrow> \<exists>m. read f' = Inr m \<and> same l' m"
    and same_revision: "same l m \<Longrightarrow> revision l = revision m"
    and same_refl: "same l l"
begin

lemma run_error_keeps_file:
  assumes "run_store locked le read persist f handler = (Inl e, f')"
  shows "f' = f"
  using assms
  by (auto simp: run_store_def dest: persist_error split: if_splits sum.splits mutation.splits)

lemma run_cases:
  assumes "run_store locked le read persist f handler = (Inr l', f')"
  obtains (kept) l where "read f = Inr l" "handler l = Inr (Keep l')" "f' = f"
  | (changed) l m t where "read f = Inr l" "handler l = Inr (Mutate m t)"
      "persist f m t = (Inr l', f')"
  using assms by (auto simp: run_store_def split: if_splits sum.splits mutation.splits)

text \<open>Between a successful call and the next, a reader finds the returned ledger.\<close>

lemma run_read_back:
  assumes run: "run_store locked le read persist f handler = (Inr l', f')" and "ok l'"
    and keep: "\<And>l m. handler l = Inr (Keep m) \<Longrightarrow> m = l"
  shows "\<exists>m. read f' = Inr m \<and> same l' m"
  using run
proof (cases rule: run_cases)
  case (kept l)
  then show ?thesis
    using keep same_refl by blast
next
  case (changed l m t)
  then show ?thesis
    using persist_read assms(2) by blast
qed

lemma run_revision:
  assumes run: "run_store locked le read persist f handler = (Inr l', f')" and "read f = Inr l"
    and keep: "\<And>l m. handler l = Inr (Keep m) \<Longrightarrow> m = l"
    and change: "\<And>l m t. handler l = Inr (Mutate m t) \<Longrightarrow> revision m = revision l"
  shows "(f' = f \<and> l' = l) \<or> revision l' = revision l + 1"
  using run
proof (cases rule: run_cases)
  case (kept k)
  then show ?thesis
    using keep assms(2) by auto
next
  case (changed k m t)
  then show ?thesis
    using persist_revision change assms(2) by fastforce
qed

text \<open>A handler that insists on the revision it was given refuses every stale caller.\<close>

lemma run_stale:
  assumes "run_store locked le read persist f handler = (Inr l', f')" and "read f = Inr l"
    and change: "\<And>l m t. handler l = Inr (Mutate m t) \<Longrightarrow> expected = revision l"
    and "expected \<noteq> revision l"
  shows "f' = f"
  using assms(1)
proof (cases rule: run_cases)
  case (kept k)
  then show ?thesis by simp
next
  case (changed k m t)
  then show ?thesis
    using change assms(2,4) by force
qed

end

text \<open>
  What a client owes the frame: a handler either returns the ledger it was given or changes it
  within the invariant \<open>good\<close>, under an acceptable time stamp, leaving the revision to the
  frame.
\<close>

definition sound_handler ::
  "('l \<Rightarrow> bool) \<Rightarrow> (string \<Rightarrow> bool) \<Rightarrow> ('l \<Rightarrow> int) \<Rightarrow> ('l \<Rightarrow> ('e, 'l mutation) result) \<Rightarrow> bool" where
  "sound_handler good stamp revision h =
    (\<forall>l. good l \<longrightarrow> (\<forall>m. h l = Inr (Keep m) \<longrightarrow> m = l) \<and>
      (\<forall>m t. h l = Inr (Mutate m t) \<longrightarrow> good m \<and> stamp t \<and> revision m = revision l))"

lemma sound_handlerI:
  assumes "\<And>l m. h l = Inr (Keep m) \<Longrightarrow> m = l"
    and "\<And>l m t. good l \<Longrightarrow> h l = Inr (Mutate m t) \<Longrightarrow> good m \<and> stamp t \<and> revision m = revision l"
  shows "sound_handler good stamp revision h"
  unfolding sound_handler_def using assms by blast

lemma sound_handlerD:
  assumes "sound_handler good stamp revision h" "good l"
  shows "h l = Inr (Keep m) \<Longrightarrow> m = l"
    and "h l = Inr (Mutate m t) \<Longrightarrow> good m" "h l = Inr (Mutate m t) \<Longrightarrow> stamp t"
    and "h l = Inr (Mutate m t) \<Longrightarrow> revision m = revision l"
  using assms unfolding sound_handler_def by blast+

text \<open>A ledger module with an invariant that survives the trip through the file.\<close>

locale guarded_ledger = durable_ledger +
  fixes good :: "'l \<Rightarrow> bool" and stamp :: "string \<Rightarrow> bool" and bumped :: "'l \<Rightarrow> string \<Rightarrow> 'l"
  assumes persist_good: "good l \<Longrightarrow> stamp t \<Longrightarrow> persist f l t = (Inr l', f') \<Longrightarrow>
      l' = bumped l t \<and> good l' \<and> ok l' \<and> (\<forall>m. read f' = Inr m \<longrightarrow> good m)"
begin

text \<open>Everything a call of the frame can do to a file that holds a good ledger.\<close>

lemma run_outcome:
  assumes good: "\<forall>l. read f = Inr l \<longrightarrow> good l" and h: "sound_handler good stamp revision h"
    and run: "run_store locked le read persist f h = (res, g)"
  obtains (failed) e where "res = Inl e" "g = f"
  | (kept) l where "read f = Inr l" "good l" "h l = Inr (Keep l)" "res = Inr l" "g = f"
  | (changed) l m t n where "read f = Inr l" "good l" "h l = Inr (Mutate m t)" "good m" "stamp t"
      "revision m = revision l" "persist f m t = (Inr (bumped m t), g)" "res = Inr (bumped m t)"
      "good (bumped m t)" "read g = Inr n" "good n" "same (bumped m t) n"
proof (cases res)
  case (Inl e)
  then show thesis
    using run run_error_keeps_file failed by blast
next
  case (Inr l')
  with run have "run_store locked le read persist f h = (Inr l', g)"
    by simp
  then show thesis
  proof (cases rule: run_cases)
    case (kept l)
    then have "good l"
      using good by blast
    then show thesis
      using sound_handlerD(1) [OF h _ kept(2)] kept that(2) Inr by simp
  next
    case (changed l m t)
    then have l: "good l"
      using good by blast
    note m = sound_handlerD(2-4) [OF h l changed(2)]
    note p = persist_good [OF m(1,2) changed(3)]
    then obtain n where n: "read g = Inr n" "same l' n"
      using persist_read [OF changed(3)] by blast
    show thesis
      by (rule that(3) [OF changed(1) l changed(2) m, of n])
        (use changed(3) p n Inr in auto)
  qed
qed

end

end
