(* ===== verification/Active_Ledger.thy ===== *)
theory Active_Ledger
  imports Canonical_Pair Durable_Store
begin

text \<open>
  The durable active-signal ledger, \<open>src/engine/active_signal_ledger_v1.py\<close>: data,
  validation and operations.  A parsed document is a \<open>pv\<close>; \<open>validate_ledger\<close> checks
  it in the order of the source and returns the typed ledger, \<open>ledger_doc\<close> builds the
  document back, and every operation works on the typed ledger between a read and a write of
  the file.  An operation of the module is a function of what the operating system does
  during the call (\<open>io\<close>), the file and the arguments; it returns the result of the call
  (\<open>Inl\<close> the reason code of \<open>ActiveSignalLedgerError\<close>) and the file afterwards.
\<close>

section \<open>Data\<close>

datatype style = SWING | INTRADAY | SCALP

datatype lifecycle =
    PUBLISHED_PENDING_ENTRY
  | ENTRY_ACTIVE
  | CLOSED_PROFIT
  | CLOSED_STOP_LOSS
  | CLOSED_MANUAL
  | REJECTED_BY_OWNER
  | CANCELLED
  | EXPIRED
  | INVALIDATED

datatype tx_status = PREPARED | OCCUPANCY_COMMITTED | ABORTED

datatype ledger_op = RESERVE | ENTRY | TERMINAL

text \<open>Reason codes; the last one is a \<open>TypeError\<close> that leaves the module unclassified.\<close>

datatype aerror =
    LEDGER_NOT_FOUND
  | LEDGER_SCHEMA_UNSUPPORTED
  | LEDGER_CORRUPT
  | SIGNAL_ID_INVALID
  | SIGNAL_ALREADY_EXISTS
  | SIGNAL_ID_COLLISION
  | PUBLICATION_ID_COLLISION
  | STYLE_INVALID
  | STYLE_IMMUTABLE
  | LIFECYCLE_TRANSITION_INVALID
  | TERMINAL_SIGNAL_REOPEN_FORBIDDEN
  | TRANSITION_ID_COLLISION
  | EXPECTED_REVISION_MISMATCH
  | STYLE_CAPACITY_FULL
  | TOTAL_CAPACITY_FULL
  | PAIR_INVALID
  | GLOBAL_PAIR_ALREADY_ACTIVE
  | PUBLICATION_OCCUPANCY_RECONCILIATION_REQUIRED
  | LOCK_ACQUISITION_FAILED
  | ATOMIC_WRITE_FAILED
  | IDENTITY_IMMUTABLE
  | TIMESTAMP_INVALID
  | TERMINAL_REASON_INVALID
  | TRANSACTION_ID_INVALID
  | Py_Type_Error

definition styles :: "style list" where
  "styles = [SWING, INTRADAY, SCALP]"

definition style_capacity :: "style \<Rightarrow> nat" where
  "style_capacity m = 3"

definition total_capacity :: nat where
  "total_capacity = 9"

definition occupying_states :: "lifecycle list" where
  "occupying_states = [ENTRY_ACTIVE]"

definition terminal_states :: "lifecycle list" where
  "terminal_states = [CLOSED_PROFIT, CLOSED_STOP_LOSS, CLOSED_MANUAL, REJECTED_BY_OWNER,
     CANCELLED, EXPIRED, INVALIDATED]"

definition lifecycle_states :: "lifecycle list" where
  "lifecycle_states = PUBLISHED_PENDING_ENTRY # occupying_states @ terminal_states"

definition tx_statuses :: "tx_status list" where
  "tx_statuses = [PREPARED, OCCUPANCY_COMMITTED, ABORTED]"

definition ledger_ops :: "ledger_op list" where
  "ledger_ops = [RESERVE, ENTRY, TERMINAL]"

fun style_str :: "style \<Rightarrow> string" where
  "style_str SWING = ''SWING''"
| "style_str INTRADAY = ''INTRADAY''"
| "style_str SCALP = ''SCALP''"

fun lifecycle_str :: "lifecycle \<Rightarrow> string" where
  "lifecycle_str PUBLISHED_PENDING_ENTRY = ''PUBLISHED_PENDING_ENTRY''"
| "lifecycle_str ENTRY_ACTIVE = ''ENTRY_ACTIVE''"
| "lifecycle_str CLOSED_PROFIT = ''CLOSED_PROFIT''"
| "lifecycle_str CLOSED_STOP_LOSS = ''CLOSED_STOP_LOSS''"
| "lifecycle_str CLOSED_MANUAL = ''CLOSED_MANUAL''"
| "lifecycle_str REJECTED_BY_OWNER = ''REJECTED_BY_OWNER''"
| "lifecycle_str CANCELLED = ''CANCELLED''"
| "lifecycle_str EXPIRED = ''EXPIRED''"
| "lifecycle_str INVALIDATED = ''INVALIDATED''"

fun tx_status_str :: "tx_status \<Rightarrow> string" where
  "tx_status_str PREPARED = ''PREPARED''"
| "tx_status_str OCCUPANCY_COMMITTED = ''OCCUPANCY_COMMITTED''"
| "tx_status_str ABORTED = ''ABORTED''"

fun ledger_op_str :: "ledger_op \<Rightarrow> string" where
  "ledger_op_str RESERVE = ''RESERVE''"
| "ledger_op_str ENTRY = ''ENTRY''"
| "ledger_op_str TERMINAL = ''TERMINAL''"

text \<open>\<open>v in STYLES\<close> and its kin: the member a value equals, if any.\<close>

definition style_of :: "pv \<Rightarrow> style option" where
  "style_of v = List.find (\<lambda>x. v = PStr (style_str x)) styles"

definition lifecycle_of :: "pv \<Rightarrow> lifecycle option" where
  "lifecycle_of v = List.find (\<lambda>x. v = PStr (lifecycle_str x)) lifecycle_states"

definition tx_status_of :: "pv \<Rightarrow> tx_status option" where
  "tx_status_of v = List.find (\<lambda>x. v = PStr (tx_status_str x)) tx_statuses"

definition ledger_op_of :: "pv \<Rightarrow> ledger_op option" where
  "ledger_op_of v = List.find (\<lambda>x. v = PStr (ledger_op_str x)) ledger_ops"

record signal =
  sg_signal_id :: string
  sg_delivery_id :: string
  sg_mode :: style
  sg_symbol :: string
  sg_state :: lifecycle
  sg_published_at :: string
  sg_entry_at :: "string option"
  sg_terminal_at :: "string option"
  sg_terminal_reason :: "string option"
  sg_last_transition_id :: string
  sg_source_payload_hash :: string
  sg_publication_payload_hash :: string
  sg_created_at :: string
  sg_updated_at :: string

record transition =
  tr_transition_id :: string
  tr_operation :: ledger_op
  tr_signal_id :: string
  tr_from_state :: "lifecycle option"
  tr_to_state :: lifecycle
  tr_occurred_at :: string
  tr_terminal_reason :: "string option"
  tr_ledger_revision :: int

record transaction =
  tx_transaction_id :: string
  tx_signal_id :: string
  tx_delivery_id :: string
  tx_mode :: style
  tx_symbol :: string
  tx_published_at :: string
  tx_source_payload_hash :: string
  tx_publication_payload_hash :: string
  tx_reservation_transition_id :: string
  tx_state :: tx_status
  tx_created_at :: string
  tx_updated_at :: string
  tx_aborted_at :: "string option"
  tx_abort_reason :: "string option"

record ledger =
  al_revision :: int
  al_created_at :: string
  al_updated_at :: string
  al_signals :: "(string \<times> signal) list"
  al_transitions :: "(string \<times> transition) list"
  al_transactions :: "(string \<times> transaction) list"

section \<open>Documents\<close>

definition capacity_policy :: pv where
  "capacity_policy = PDict [
     (''scope'', PStr ''PER_TRADING_STYLE''),
     (''by_mode'', PDict (map (\<lambda>m. (style_str m, PInt (int (style_capacity m)))) styles)),
     (''total_capacity'', PInt (int total_capacity)),
     (''occupying_states'', PList (map (\<lambda>s. PStr (lifecycle_str s)) occupying_states)),
     (''terminal_states'', PList (map (\<lambda>s. PStr (lifecycle_str s)) terminal_states))]"

definition signal_fields :: "string list" where
  "signal_fields = [''signal_id'', ''delivery_id'', ''mode'', ''symbol'', ''state'',
     ''published_at'', ''entry_at'', ''terminal_at'', ''terminal_reason'',
     ''last_transition_id'', ''source_payload_hash'', ''publication_payload_hash'',
     ''created_at'', ''updated_at'']"

definition transition_fields :: "string list" where
  "transition_fields = [''transition_id'', ''operation'', ''signal_id'', ''from_state'',
     ''to_state'', ''occurred_at'', ''terminal_reason'', ''ledger_revision'']"

definition transaction_fields :: "string list" where
  "transaction_fields = [''transaction_id'', ''signal_id'', ''delivery_id'', ''mode'',
     ''symbol'', ''published_at'', ''source_payload_hash'', ''publication_payload_hash'',
     ''reservation_transition_id'', ''state'', ''created_at'', ''updated_at'',
     ''aborted_at'', ''abort_reason'']"

definition ledger_fields :: "string list" where
  "ledger_fields = [''schema_name'', ''schema_version'', ''ledger_revision'', ''created_at'',
     ''updated_at'', ''capacity_policy'', ''signals'', ''transitions'',
     ''publication_transactions'']"

definition signal_doc :: "signal \<Rightarrow> pv" where
  "signal_doc r = PDict [
     (''signal_id'', PStr (sg_signal_id r)),
     (''delivery_id'', PStr (sg_delivery_id r)),
     (''mode'', PStr (style_str (sg_mode r))),
     (''symbol'', PStr (sg_symbol r)),
     (''state'', PStr (lifecycle_str (sg_state r))),
     (''published_at'', PStr (sg_published_at r)),
     (''entry_at'', str_or_none (sg_entry_at r)),
     (''terminal_at'', str_or_none (sg_terminal_at r)),
     (''terminal_reason'', str_or_none (sg_terminal_reason r)),
     (''last_transition_id'', PStr (sg_last_transition_id r)),
     (''source_payload_hash'', PStr (sg_source_payload_hash r)),
     (''publication_payload_hash'', PStr (sg_publication_payload_hash r)),
     (''created_at'', PStr (sg_created_at r)),
     (''updated_at'', PStr (sg_updated_at r))]"

definition transition_doc :: "transition \<Rightarrow> pv" where
  "transition_doc t = PDict [
     (''transition_id'', PStr (tr_transition_id t)),
     (''operation'', PStr (ledger_op_str (tr_operation t))),
     (''signal_id'', PStr (tr_signal_id t)),
     (''from_state'', (case tr_from_state t of None \<Rightarrow> PNone | Some s \<Rightarrow> PStr (lifecycle_str s))),
     (''to_state'', PStr (lifecycle_str (tr_to_state t))),
     (''occurred_at'', PStr (tr_occurred_at t)),
     (''terminal_reason'', str_or_none (tr_terminal_reason t)),
     (''ledger_revision'', PInt (tr_ledger_revision t))]"

definition transaction_doc :: "transaction \<Rightarrow> pv" where
  "transaction_doc t = PDict [
     (''transaction_id'', PStr (tx_transaction_id t)),
     (''signal_id'', PStr (tx_signal_id t)),
     (''delivery_id'', PStr (tx_delivery_id t)),
     (''mode'', PStr (style_str (tx_mode t))),
     (''symbol'', PStr (tx_symbol t)),
     (''published_at'', PStr (tx_published_at t)),
     (''source_payload_hash'', PStr (tx_source_payload_hash t)),
     (''publication_payload_hash'', PStr (tx_publication_payload_hash t)),
     (''reservation_transition_id'', PStr (tx_reservation_transition_id t)),
     (''state'', PStr (tx_status_str (tx_state t))),
     (''created_at'', PStr (tx_created_at t)),
     (''updated_at'', PStr (tx_updated_at t)),
     (''aborted_at'', str_or_none (tx_aborted_at t)),
     (''abort_reason'', str_or_none (tx_abort_reason t))]"

definition entries_doc :: "('a \<Rightarrow> pv) \<Rightarrow> (string \<times> 'a) list \<Rightarrow> pv" where
  "entries_doc f al = PDict (map (\<lambda>p. (fst p, f (snd p))) al)"

definition ledger_doc :: "ledger \<Rightarrow> pv" where
  "ledger_doc l = PDict [
     (''schema_name'', PStr ''active-signal-ledger''),
     (''schema_version'', PInt 2),
     (''ledger_revision'', PInt (al_revision l)),
     (''created_at'', PStr (al_created_at l)),
     (''updated_at'', PStr (al_updated_at l)),
     (''capacity_policy'', capacity_policy),
     (''signals'', entries_doc signal_doc (al_signals l)),
     (''transitions'', entries_doc transition_doc (al_transitions l)),
     (''publication_transactions'', entries_doc transaction_doc (al_transactions l))]"

definition create_empty_ledger :: "pv \<Rightarrow> (aerror, ledger) result" where
  "create_empty_ledger created_at =
    (if \<not> is_utc created_at then Inl TIMESTAMP_INVALID
     else Inr \<lparr>al_revision = 0, al_created_at = the_str created_at,
            al_updated_at = the_str created_at,
            al_signals = [], al_transitions = [], al_transactions = []\<rparr>)"

section \<open>Validation\<close>

text \<open>The last part of \<open>_validate_signal\<close>: the time stamps a state requires or excludes.\<close>

definition state_shape_error :: "lifecycle \<Rightarrow> pv \<Rightarrow> aerror option" where
  "state_shape_error st v =
    (if st = PUBLISHED_PENDING_ENTRY then
       (if fld v ''entry_at'' \<noteq> PNone \<or> fld v ''terminal_at'' \<noteq> PNone
           \<or> fld v ''terminal_reason'' \<noteq> PNone
        then Some LEDGER_CORRUPT else None)
     else if st = ENTRY_ACTIVE then
       (if \<not> is_utc (fld v ''entry_at'') then Some TIMESTAMP_INVALID
        else if fld v ''terminal_at'' \<noteq> PNone \<or> fld v ''terminal_reason'' \<noteq> PNone
        then Some LEDGER_CORRUPT else None)
     else if st \<in> set terminal_states then
       (if fld v ''entry_at'' \<noteq> PNone \<and> \<not> is_utc (fld v ''entry_at'')
        then Some TIMESTAMP_INVALID
        else if \<not> is_utc (fld v ''terminal_at'') then Some TIMESTAMP_INVALID
        else if \<not> is_ident (fld v ''terminal_reason'') then Some TERMINAL_REASON_INVALID
        else None)
     else None)"

text \<open>The typed record of a document whose fields have been checked.\<close>

definition signal_of :: "string \<Rightarrow> pv \<Rightarrow> style \<Rightarrow> lifecycle \<Rightarrow> signal" where
  "signal_of signal_id v mode st = \<lparr>
     sg_signal_id = signal_id,
     sg_delivery_id = the_str (fld v ''delivery_id''),
     sg_mode = mode,
     sg_symbol = the_str (fld v ''symbol''),
     sg_state = st,
     sg_published_at = the_str (fld v ''published_at''),
     sg_entry_at = opt_str (fld v ''entry_at''),
     sg_terminal_at = opt_str (fld v ''terminal_at''),
     sg_terminal_reason = opt_str (fld v ''terminal_reason''),
     sg_last_transition_id = the_str (fld v ''last_transition_id''),
     sg_source_payload_hash = the_str (fld v ''source_payload_hash''),
     sg_publication_payload_hash = the_str (fld v ''publication_payload_hash''),
     sg_created_at = the_str (fld v ''created_at''),
     sg_updated_at = the_str (fld v ''updated_at'')\<rparr>"

definition validate_signal :: "string \<Rightarrow> pv \<Rightarrow> (aerror, signal) result" where
  "validate_signal signal_id v =
    (if \<not> nonblank signal_id then Inl SIGNAL_ID_INVALID
     else if \<not> has_fields signal_fields v then Inl LEDGER_CORRUPT
     else if fld v ''signal_id'' \<noteq> PStr signal_id then Inl LEDGER_CORRUPT
     else if \<not> is_ident (fld v ''delivery_id'') then Inl PUBLICATION_ID_COLLISION
     else case style_of (fld v ''mode'') of
       None \<Rightarrow> Inl STYLE_INVALID
     | Some mode \<Rightarrow>
       if \<not> is_ident (fld v ''symbol'') then Inl SIGNAL_ID_INVALID
       else if normalize_pair (the_str (fld v ''symbol'')) = None then Inl LEDGER_CORRUPT
       else case lifecycle_of (fld v ''state'') of
         None \<Rightarrow> Inl LEDGER_CORRUPT
       | Some st \<Rightarrow>
         if \<not> is_utc (fld v ''published_at'') then Inl TIMESTAMP_INVALID
         else if \<not> is_sha256 (fld v ''source_payload_hash'') then Inl LEDGER_CORRUPT
         else if \<not> is_sha256 (fld v ''publication_payload_hash'') then Inl LEDGER_CORRUPT
         else if \<not> is_utc (fld v ''created_at'') then Inl TIMESTAMP_INVALID
         else if \<not> is_utc (fld v ''updated_at'') then Inl TIMESTAMP_INVALID
         else if \<not> is_ident (fld v ''last_transition_id'') then Inl TRANSITION_ID_COLLISION
         else case state_shape_error st v of
           Some e \<Rightarrow> Inl e
         | None \<Rightarrow> Inr (signal_of signal_id v mode st))"

text \<open>
  \<open>operation\<close> is looked up in a \<open>set\<close>, so a list or an object there raises
  \<open>TypeError\<close>; every other vocabulary test of the module is on a tuple.
\<close>

definition validate_transition ::
  "string \<Rightarrow> pv \<Rightarrow> (string \<times> signal) list \<Rightarrow> (aerror, transition) result" where
  "validate_transition transition_id v signals =
    (if \<not> nonblank transition_id then Inl TRANSITION_ID_COLLISION
     else if \<not> has_fields transition_fields v then Inl LEDGER_CORRUPT
     else if fld v ''transition_id'' \<noteq> PStr transition_id then Inl LEDGER_CORRUPT
     else if unhashable (fld v ''operation'') then Inl Py_Type_Error
     else case ledger_op_of (fld v ''operation'') of
       None \<Rightarrow> Inl LEDGER_CORRUPT
     | Some op \<Rightarrow>
       if \<not> is_ident (fld v ''signal_id'') then Inl SIGNAL_ID_INVALID
       else if map_of signals (the_str (fld v ''signal_id'')) = None then Inl LEDGER_CORRUPT
       else if fld v ''from_state'' \<noteq> PNone \<and> lifecycle_of (fld v ''from_state'') = None
       then Inl LEDGER_CORRUPT
       else case lifecycle_of (fld v ''to_state'') of
         None \<Rightarrow> Inl LEDGER_CORRUPT
       | Some to_state \<Rightarrow>
         if \<not> is_utc (fld v ''occurred_at'') then Inl TIMESTAMP_INVALID
         else if fld v ''terminal_reason'' \<noteq> PNone \<and> \<not> is_ident (fld v ''terminal_reason'')
         then Inl TERMINAL_REASON_INVALID
         else if \<not> is_nat_int (fld v ''ledger_revision'') then Inl LEDGER_CORRUPT
         else Inr \<lparr>
           tr_transition_id = transition_id,
           tr_operation = op,
           tr_signal_id = the_str (fld v ''signal_id''),
           tr_from_state = lifecycle_of (fld v ''from_state''),
           tr_to_state = to_state,
           tr_occurred_at = the_str (fld v ''occurred_at''),
           tr_terminal_reason = opt_str (fld v ''terminal_reason''),
           tr_ledger_revision = the_int (fld v ''ledger_revision'')\<rparr>)"

text \<open>The fields a committed transaction must share with its signal.\<close>

definition committed_matches :: "(string \<times> signal) list \<Rightarrow> transaction \<Rightarrow> bool" where
  "committed_matches signals t =
    (case map_of signals (tx_signal_id t) of
       None \<Rightarrow> False
     | Some r \<Rightarrow> sg_delivery_id r = tx_delivery_id t \<and> sg_mode r = tx_mode t
         \<and> sg_symbol r = tx_symbol t \<and> sg_published_at r = tx_published_at t
         \<and> sg_source_payload_hash r = tx_source_payload_hash t
         \<and> sg_publication_payload_hash r = tx_publication_payload_hash t)"

definition transaction_of :: "string \<Rightarrow> pv \<Rightarrow> style \<Rightarrow> tx_status \<Rightarrow> transaction" where
  "transaction_of transaction_id v mode st = \<lparr>
     tx_transaction_id = transaction_id,
     tx_signal_id = the_str (fld v ''signal_id''),
     tx_delivery_id = the_str (fld v ''delivery_id''),
     tx_mode = mode,
     tx_symbol = the_str (fld v ''symbol''),
     tx_published_at = the_str (fld v ''published_at''),
     tx_source_payload_hash = the_str (fld v ''source_payload_hash''),
     tx_publication_payload_hash = the_str (fld v ''publication_payload_hash''),
     tx_reservation_transition_id = the_str (fld v ''reservation_transition_id''),
     tx_state = st,
     tx_created_at = the_str (fld v ''created_at''),
     tx_updated_at = the_str (fld v ''updated_at''),
     tx_aborted_at = opt_str (fld v ''aborted_at''),
     tx_abort_reason = opt_str (fld v ''abort_reason'')\<rparr>"

definition validate_transaction ::
  "string \<Rightarrow> pv \<Rightarrow> (string \<times> signal) list \<Rightarrow> (aerror, transaction) result" where
  "validate_transaction transaction_id v signals =
    (if \<not> nonblank transaction_id then Inl TRANSACTION_ID_INVALID
     else if \<not> has_fields transaction_fields v then Inl LEDGER_CORRUPT
     else if fld v ''transaction_id'' \<noteq> PStr transaction_id then Inl LEDGER_CORRUPT
     else if \<not> is_ident (fld v ''signal_id'') then Inl SIGNAL_ID_INVALID
     else if \<not> is_ident (fld v ''delivery_id'') then Inl PUBLICATION_ID_COLLISION
     else case style_of (fld v ''mode'') of
       None \<Rightarrow> Inl STYLE_INVALID
     | Some mode \<Rightarrow>
       if \<not> is_ident (fld v ''symbol'') then Inl SIGNAL_ID_INVALID
       else if \<not> is_utc (fld v ''published_at'') then Inl TIMESTAMP_INVALID
       else if \<not> is_sha256 (fld v ''source_payload_hash'') then Inl LEDGER_CORRUPT
       else if \<not> is_sha256 (fld v ''publication_payload_hash'') then Inl LEDGER_CORRUPT
       else if \<not> is_ident (fld v ''reservation_transition_id'')
       then Inl TRANSITION_ID_COLLISION
       else case tx_status_of (fld v ''state'') of
         None \<Rightarrow> Inl LEDGER_CORRUPT
       | Some st \<Rightarrow>
         if \<not> is_utc (fld v ''created_at'') then Inl TIMESTAMP_INVALID
         else if \<not> is_utc (fld v ''updated_at'') then Inl TIMESTAMP_INVALID
         else if st = ABORTED \<and> \<not> is_utc (fld v ''aborted_at'') then Inl TIMESTAMP_INVALID
         else if st = ABORTED \<and> \<not> is_ident (fld v ''abort_reason'')
         then Inl TERMINAL_REASON_INVALID
         else if st \<noteq> ABORTED \<and>
           (fld v ''aborted_at'' \<noteq> PNone \<or> fld v ''abort_reason'' \<noteq> PNone)
         then Inl LEDGER_CORRUPT
         else if st = OCCUPANCY_COMMITTED
           \<and> \<not> committed_matches signals (transaction_of transaction_id v mode st)
         then Inl LEDGER_CORRUPT
         else Inr (transaction_of transaction_id v mode st))"

text \<open>The loops of \<open>validate_ledger\<close>, with the set of identities seen so far.\<close>

fun validate_signals ::
  "(string \<times> pv) list \<Rightarrow> string list \<Rightarrow> (aerror, (string \<times> signal) list) result" where
  "validate_signals [] delivery_ids = Inr []"
| "validate_signals ((signal_id, v) # rest) delivery_ids =
    (case validate_signal signal_id v of
       Inl e \<Rightarrow> Inl e
     | Inr r \<Rightarrow>
         if sg_delivery_id r \<in> set delivery_ids then Inl PUBLICATION_ID_COLLISION
         else case validate_signals rest (sg_delivery_id r # delivery_ids) of
           Inl e \<Rightarrow> Inl e
         | Inr rs \<Rightarrow> Inr ((signal_id, r) # rs))"

fun unique_active_pairs :: "signal list \<Rightarrow> string option list \<Rightarrow> bool" where
  "unique_active_pairs [] active_pairs = True"
| "unique_active_pairs (r # rs) active_pairs =
    (if sg_state r = ENTRY_ACTIVE then
       (if normalize_pair (sg_symbol r) \<in> set active_pairs then False
        else unique_active_pairs rs (normalize_pair (sg_symbol r) # active_pairs))
     else unique_active_pairs rs active_pairs)"

fun validate_transitions ::
  "(string \<times> pv) list \<Rightarrow> (string \<times> signal) list
    \<Rightarrow> (aerror, (string \<times> transition) list) result" where
  "validate_transitions [] signals = Inr []"
| "validate_transitions ((k, v) # rest) signals =
    (case validate_transition k v signals of
       Inl e \<Rightarrow> Inl e
     | Inr t \<Rightarrow> (case validate_transitions rest signals of
           Inl e \<Rightarrow> Inl e
         | Inr ts \<Rightarrow> Inr ((k, t) # ts)))"

fun validate_transactions ::
  "(string \<times> pv) list \<Rightarrow> (string \<times> signal) list \<Rightarrow> string list
    \<Rightarrow> (aerror, (string \<times> transaction) list) result" where
  "validate_transactions [] signals seen = Inr []"
| "validate_transactions ((k, v) # rest) signals seen =
    (case validate_transaction k v signals of
       Inl e \<Rightarrow> Inl e
     | Inr t \<Rightarrow>
         if k \<in> set seen then Inl LEDGER_CORRUPT
         else case validate_transactions rest signals (k # seen) of
           Inl e \<Rightarrow> Inl e
         | Inr ts \<Rightarrow> Inr ((k, t) # ts))"

definition active_in :: "style \<Rightarrow> signal \<Rightarrow> bool" where
  "active_in m r = (sg_state r \<in> set occupying_states \<and> sg_mode r = m)"

definition capacity :: "(string \<times> signal) list \<Rightarrow> style \<Rightarrow> nat" where
  "capacity signals m = count_vals (active_in m) signals"

definition capacity_total :: "(string \<times> signal) list \<Rightarrow> nat" where
  "capacity_total signals = sum_list (map (capacity signals) styles)"

definition capacity_error :: "(string \<times> signal) list \<Rightarrow> aerror option" where
  "capacity_error signals =
    (if capacity_total signals > total_capacity then Some TOTAL_CAPACITY_FULL
     else if list_ex (\<lambda>m. capacity signals m > style_capacity m) styles
     then Some STYLE_CAPACITY_FULL
     else None)"

definition validate_ledger :: "pv \<Rightarrow> (aerror, ledger) result" where
  "validate_ledger d =
    (if \<not> has_fields ledger_fields d then Inl LEDGER_CORRUPT
     else if \<not> py_eq (fld d ''schema_name'') (PStr ''active-signal-ledger'')
        \<or> \<not> py_eq (fld d ''schema_version'') (PInt 2)
     then Inl LEDGER_SCHEMA_UNSUPPORTED
     else if \<not> is_nat_int (fld d ''ledger_revision'') then Inl LEDGER_CORRUPT
     else if \<not> is_utc (fld d ''created_at'') then Inl TIMESTAMP_INVALID
     else if \<not> is_utc (fld d ''updated_at'') then Inl TIMESTAMP_INVALID
     else if \<not> py_eq (fld d ''capacity_policy'') capacity_policy then Inl LEDGER_CORRUPT
     else if \<not> is_dict (fld d ''signals'') \<or> \<not> is_dict (fld d ''transitions'')
        \<or> \<not> is_dict (fld d ''publication_transactions'')
     then Inl LEDGER_CORRUPT
     else case validate_signals (items (fld d ''signals'')) [] of
       Inl e \<Rightarrow> Inl e
     | Inr signals \<Rightarrow>
       if \<not> unique_active_pairs (map snd signals) [] then Inl GLOBAL_PAIR_ALREADY_ACTIVE
       else case validate_transitions (items (fld d ''transitions'')) signals of
         Inl e \<Rightarrow> Inl e
       | Inr transitions \<Rightarrow>
         (case validate_transactions (items (fld d ''publication_transactions'')) signals [] of
            Inl e \<Rightarrow> Inl e
          | Inr transactions \<Rightarrow>
            (case capacity_error signals of
               Some e \<Rightarrow> Inl e
             | None \<Rightarrow> Inr \<lparr>
                 al_revision = the_int (fld d ''ledger_revision''),
                 al_created_at = the_str (fld d ''created_at''),
                 al_updated_at = the_str (fld d ''updated_at''),
                 al_signals = signals,
                 al_transitions = transitions,
                 al_transactions = transactions\<rparr>)))"

record capacity_view =
  active_by_mode :: "(style \<times> int) list"
  remaining_by_mode :: "(style \<times> int) list"
  total_active :: int
  total_remaining :: int

definition inspect_capacity :: "pv \<Rightarrow> (aerror, capacity_view) result" where
  "inspect_capacity d =
    (case validate_ledger d of
       Inl e \<Rightarrow> Inl e
     | Inr l \<Rightarrow> Inr \<lparr>
         active_by_mode = map (\<lambda>m. (m, int (capacity (al_signals l) m))) styles,
         remaining_by_mode =
           map (\<lambda>m. (m, int (style_capacity m) - int (capacity (al_signals l) m))) styles,
         total_active = int (capacity_total (al_signals l)),
         total_remaining = int total_capacity - int (capacity_total (al_signals l))\<rparr>)"

section \<open>The file\<close>

definition read_ledger :: "disk_file \<Rightarrow> (aerror, ledger) result" where
  "read_ledger f =
    (case f of
       Absent \<Rightarrow> Inl LEDGER_NOT_FOUND
     | Garbled \<Rightarrow> Inl LEDGER_CORRUPT
     | Stored d \<Rightarrow> validate_ledger d)"

definition atomic_write :: "io \<Rightarrow> disk_file \<Rightarrow> ledger \<Rightarrow> aerror option \<times> disk_file" where
  "atomic_write io f l =
    (case validate_ledger (ledger_doc l) of
       Inl e \<Rightarrow> (Some e, f)
     | Inr l' \<Rightarrow>
         if replace_ok io then (None, Stored (sort_doc (ledger_doc l')))
         else (Some ATOMIC_WRITE_FAILED, f))"

definition lock_attempts :: nat where
  "lock_attempts = 25"

definition ledger_lock ::
  "io \<Rightarrow> disk_file \<Rightarrow> (disk_file \<Rightarrow> (aerror, 'a) result \<times> disk_file)
    \<Rightarrow> (aerror, 'a) result \<times> disk_file" where
  "ledger_lock io f body =
    (if lock_loop lock_attempts (opens io) 0 then body f
     else (Inl LOCK_ACQUISITION_FAILED, f))"

definition initialize_ledger ::
  "io \<Rightarrow> disk_file \<Rightarrow> pv \<Rightarrow> (aerror, ledger) result \<times> disk_file" where
  "initialize_ledger io f created_at = ledger_lock io f (\<lambda>f.
     if f \<noteq> Absent then (Inl SIGNAL_ALREADY_EXISTS, f)
     else case create_empty_ledger created_at of
       Inl e \<Rightarrow> (Inl e, f)
     | Inr l \<Rightarrow> (case atomic_write io f l of
           (Some e, f') \<Rightarrow> (Inl e, f')
         | (None, f') \<Rightarrow> (Inr l, f')))"

definition persist_mutation ::
  "io \<Rightarrow> disk_file \<Rightarrow> ledger \<Rightarrow> string \<Rightarrow> (aerror, ledger) result \<times> disk_file" where
  "persist_mutation io f l updated_at =
    (if \<not> utc_string updated_at then (Inl TIMESTAMP_INVALID, f)
     else case validate_ledger (ledger_doc
         (l\<lparr>al_revision := al_revision l + 1, al_updated_at := updated_at\<rparr>)) of
       Inl e \<Rightarrow> (Inl e, f)
     | Inr document \<Rightarrow> (case atomic_write io f document of
           (Some e, f') \<Rightarrow> (Inl e, f')
         | (None, f') \<Rightarrow> (Inr document, f')))"

text \<open>The frame of the handlers: \<open>with _ledger_lock(path)\<close>, \<open>_read_ledger\<close>, the
  body of the handler, \<open>_persist_mutation\<close>.\<close>

definition run_locked ::
  "io \<Rightarrow> disk_file \<Rightarrow> (ledger \<Rightarrow> (aerror, ledger mutation) result)
    \<Rightarrow> (aerror, ledger) result \<times> disk_file" where
  "run_locked io f handler =
    run_store (lock_loop lock_attempts (opens io) 0) LOCK_ACQUISITION_FAILED
      read_ledger (persist_mutation io) f handler"

section \<open>Operations\<close>

definition revision_matches :: "ledger \<Rightarrow> pv \<Rightarrow> bool" where
  "revision_matches l expected_revision = (expected_revision = PInt (al_revision l))"

definition pending_conflict :: "ledger \<Rightarrow> string \<Rightarrow> string \<Rightarrow> bool" where
  "pending_conflict l signal_id delivery_id =
    list_ex (\<lambda>p. tx_state (snd p) = PREPARED \<and>
      (tx_signal_id (snd p) \<noteq> signal_id \<or> tx_delivery_id (snd p) \<noteq> delivery_id))
      (al_transactions l)"

definition transaction_payload ::
  "pv \<Rightarrow> pv \<Rightarrow> pv \<Rightarrow> pv \<Rightarrow> pv \<Rightarrow> pv \<Rightarrow> pv \<Rightarrow> pv \<Rightarrow> pv \<Rightarrow> pv
    \<Rightarrow> (aerror, transaction) result" where
  "transaction_payload transaction_id transition_id signal_id delivery_id mode symbol
      published_at source_payload_hash publication_payload_hash updated_at =
    (if \<not> is_ident transaction_id then Inl TRANSACTION_ID_INVALID
     else if \<not> is_ident transition_id then Inl TRANSITION_ID_COLLISION
     else if \<not> is_ident signal_id then Inl SIGNAL_ID_INVALID
     else if \<not> is_ident delivery_id then Inl PUBLICATION_ID_COLLISION
     else case style_of mode of
       None \<Rightarrow> Inl STYLE_INVALID
     | Some m \<Rightarrow>
       if \<not> is_ident symbol then Inl SIGNAL_ID_INVALID
       else if normalize_pair (the_str symbol) = None then Inl PAIR_INVALID
       else if \<not> is_utc published_at then Inl TIMESTAMP_INVALID
       else if \<not> is_utc updated_at then Inl TIMESTAMP_INVALID
       else if \<not> is_sha256 source_payload_hash then Inl LEDGER_CORRUPT
       else if \<not> is_sha256 publication_payload_hash then Inl LEDGER_CORRUPT
       else Inr \<lparr>
         tx_transaction_id = the_str transaction_id,
         tx_signal_id = the_str signal_id,
         tx_delivery_id = the_str delivery_id,
         tx_mode = m,
         tx_symbol = the_str symbol,
         tx_published_at = the_str published_at,
         tx_source_payload_hash = the_str source_payload_hash,
         tx_publication_payload_hash = the_str publication_payload_hash,
         tx_reservation_transition_id = the_str transition_id,
         tx_state = PREPARED,
         tx_created_at = the_str updated_at,
         tx_updated_at = the_str updated_at,
         tx_aborted_at = None,
         tx_abort_reason = None\<rparr>)"

definition reservation_equivalent :: "transaction \<Rightarrow> transaction \<Rightarrow> bool" where
  "reservation_equivalent t c =
    (tx_transaction_id t = tx_transaction_id c \<and> tx_signal_id t = tx_signal_id c
     \<and> tx_delivery_id t = tx_delivery_id c \<and> tx_mode t = tx_mode c
     \<and> tx_symbol t = tx_symbol c \<and> tx_published_at t = tx_published_at c
     \<and> tx_source_payload_hash t = tx_source_payload_hash c
     \<and> tx_publication_payload_hash t = tx_publication_payload_hash c
     \<and> tx_reservation_transition_id t = tx_reservation_transition_id c)"

text \<open>
  \<open>_commit_occupancy\<close> writes the signal, its RESERVE transition and the state of the
  transaction, which is the object stored under its own id.
\<close>

definition commit_occupancy :: "ledger \<Rightarrow> transaction \<Rightarrow> string \<Rightarrow> ledger" where
  "commit_occupancy l t updated_at =
    (let r = \<lparr>
        sg_signal_id = tx_signal_id t,
        sg_delivery_id = tx_delivery_id t,
        sg_mode = tx_mode t,
        sg_symbol = tx_symbol t,
        sg_state = PUBLISHED_PENDING_ENTRY,
        sg_published_at = tx_published_at t,
        sg_entry_at = None,
        sg_terminal_at = None,
        sg_terminal_reason = None,
        sg_last_transition_id = tx_reservation_transition_id t,
        sg_source_payload_hash = tx_source_payload_hash t,
        sg_publication_payload_hash = tx_publication_payload_hash t,
        sg_created_at = updated_at,
        sg_updated_at = updated_at\<rparr>;
      tr = \<lparr>
        tr_transition_id = tx_reservation_transition_id t,
        tr_operation = RESERVE,
        tr_signal_id = tx_signal_id t,
        tr_from_state = None,
        tr_to_state = PUBLISHED_PENDING_ENTRY,
        tr_occurred_at = updated_at,
        tr_terminal_reason = None,
        tr_ledger_revision = al_revision l + 1\<rparr>
     in l\<lparr>al_signals := AList.update (tx_signal_id t) r (al_signals l),
          al_transitions := AList.update (tx_reservation_transition_id t) tr (al_transitions l),
          al_transactions := AList.update (tx_transaction_id t)
            (t\<lparr>tx_state := OCCUPANCY_COMMITTED, tx_updated_at := updated_at\<rparr>)
            (al_transactions l)\<rparr>)"

text \<open>\<open>reserve_published_signal\<close>, after the arguments are checked.\<close>

definition reserve_handler ::
  "transaction \<Rightarrow> bool \<Rightarrow> pv \<Rightarrow> string \<Rightarrow> ledger \<Rightarrow> (aerror, ledger mutation) result" where
  "reserve_handler c durable expected_revision updated_at l =
    (case map_of (al_transactions l) (tx_transaction_id c) of
       Some existing \<Rightarrow>
         if \<not> reservation_equivalent existing c then Inl TRANSITION_ID_COLLISION
         else if tx_state existing = PREPARED \<and> durable
         then Inr (Mutate (commit_occupancy l existing updated_at) updated_at)
         else Inr (Keep l)
     | None \<Rightarrow>
         if \<not> revision_matches l expected_revision then Inl EXPECTED_REVISION_MISMATCH
         else if pending_conflict l (tx_signal_id c) (tx_delivery_id c)
         then Inl PUBLICATION_OCCUPANCY_RECONCILIATION_REQUIRED
         else case map_of (al_signals l) (tx_signal_id c) of
           Some r \<Rightarrow>
             if sg_mode r \<noteq> tx_mode c then Inl STYLE_IMMUTABLE
             else if sg_symbol r \<noteq> tx_symbol c
                \<or> sg_source_payload_hash r \<noteq> tx_source_payload_hash c
                \<or> sg_publication_payload_hash r \<noteq> tx_publication_payload_hash c
             then Inl IDENTITY_IMMUTABLE
             else Inl SIGNAL_ALREADY_EXISTS
         | None \<Rightarrow>
             if list_ex (\<lambda>p. sg_delivery_id (snd p) = tx_delivery_id c) (al_signals l)
             then Inl PUBLICATION_ID_COLLISION
             else if list_ex (\<lambda>p. tx_signal_id (snd p) = tx_signal_id c
                \<or> tx_delivery_id (snd p) = tx_delivery_id c) (al_transactions l)
             then Inl SIGNAL_ID_COLLISION
             else
               let l' = l\<lparr>al_transactions :=
                     AList.update (tx_transaction_id c) c (al_transactions l)\<rparr>
               in Inr (Mutate (if durable then commit_occupancy l' c updated_at else l')
                    updated_at))"

definition reserve_published_signal ::
  "io \<Rightarrow> disk_file \<Rightarrow> pv \<Rightarrow> pv \<Rightarrow> pv \<Rightarrow> pv \<Rightarrow> pv \<Rightarrow> pv \<Rightarrow> pv \<Rightarrow> pv \<Rightarrow> pv \<Rightarrow> pv \<Rightarrow> pv \<Rightarrow> pv
    \<Rightarrow> (aerror, ledger) result \<times> disk_file" where
  "reserve_published_signal io f expected_revision transaction_id transition_id signal_id
      delivery_id mode symbol published_at source_payload_hash publication_payload_hash
      updated_at publication_intent_durable =
    (case publication_intent_durable of
       PBool durable \<Rightarrow>
         (case transaction_payload transaction_id transition_id signal_id delivery_id mode
             symbol published_at source_payload_hash publication_payload_hash updated_at of
            Inl e \<Rightarrow> (Inl e, f)
          | Inr c \<Rightarrow>
              run_locked io f (reserve_handler c durable expected_revision (the_str updated_at)))
     | _ \<Rightarrow> (Inl PUBLICATION_OCCUPANCY_RECONCILIATION_REQUIRED, f))"

definition transition_payload ::
  "ledger_op \<Rightarrow> string \<Rightarrow> string \<Rightarrow> lifecycle \<Rightarrow> lifecycle \<Rightarrow> string \<Rightarrow> string option \<Rightarrow> int
    \<Rightarrow> (aerror, transition) result" where
  "transition_payload operation transition_id signal_id from_state to_state occurred_at
      terminal_reason revision =
    (if \<not> nonblank transition_id then Inl TRANSITION_ID_COLLISION
     else if \<not> nonblank signal_id then Inl SIGNAL_ID_INVALID
     else if \<not> utc_string occurred_at then Inl TIMESTAMP_INVALID
     else if (case terminal_reason of None \<Rightarrow> False | Some s \<Rightarrow> \<not> nonblank s)
     then Inl TERMINAL_REASON_INVALID
     else Inr \<lparr>
       tr_transition_id = transition_id,
       tr_operation = operation,
       tr_signal_id = signal_id,
       tr_from_state = Some from_state,
       tr_to_state = to_state,
       tr_occurred_at = occurred_at,
       tr_terminal_reason = terminal_reason,
       tr_ledger_revision = revision\<rparr>)"

text \<open>\<open>_existing_transition\<close>: the stored revision is not part of the comparison.\<close>

definition existing_transition ::
  "ledger \<Rightarrow> string \<Rightarrow> transition \<Rightarrow> (aerror, bool) result" where
  "existing_transition l transition_id c =
    (case map_of (al_transitions l) transition_id of
       None \<Rightarrow> Inr False
     | Some t \<Rightarrow>
         if t\<lparr>tr_ledger_revision := 0\<rparr> \<noteq> c\<lparr>tr_ledger_revision := 0\<rparr>
         then Inl TRANSITION_ID_COLLISION else Inr True)"

definition pair_taken :: "ledger \<Rightarrow> string \<Rightarrow> string option \<Rightarrow> bool" where
  "pair_taken l signal_id pair =
    list_ex (\<lambda>p. sg_state (snd p) = ENTRY_ACTIVE
      \<and> normalize_pair (sg_symbol (snd p)) = pair
      \<and> sg_signal_id (snd p) \<noteq> signal_id) (al_signals l)"

text \<open>\<open>mark_entry_active\<close>, after the arguments are checked.\<close>

definition entry_handler ::
  "pv \<Rightarrow> string \<Rightarrow> string \<Rightarrow> string \<Rightarrow> string \<Rightarrow> bool \<Rightarrow> ledger
    \<Rightarrow> (aerror, ledger mutation) result" where
  "entry_handler expected_revision transition_id signal_id entry_at updated_at
      require_current l =
    (case map_of (al_signals l) signal_id of
       None \<Rightarrow> Inl SIGNAL_ID_INVALID
     | Some r \<Rightarrow>
       case transition_payload ENTRY transition_id signal_id PUBLISHED_PENDING_ENTRY
           ENTRY_ACTIVE entry_at None (al_revision l + 1) of
         Inl e \<Rightarrow> Inl e
       | Inr c \<Rightarrow>
         case existing_transition l transition_id c of
           Inl e \<Rightarrow>
             if e = TRANSITION_ID_COLLISION \<and> \<not> revision_matches l expected_revision
             then Inl EXPECTED_REVISION_MISMATCH else Inl e
         | Inr True \<Rightarrow>
             if require_current \<and> \<not> revision_matches l expected_revision
             then Inl EXPECTED_REVISION_MISMATCH else Inr (Keep l)
         | Inr False \<Rightarrow>
             if \<not> revision_matches l expected_revision then Inl EXPECTED_REVISION_MISMATCH
             else if sg_state r \<in> set terminal_states
             then Inl TERMINAL_SIGNAL_REOPEN_FORBIDDEN
             else if sg_state r \<noteq> PUBLISHED_PENDING_ENTRY
             then Inl LIFECYCLE_TRANSITION_INVALID
             else if capacity (al_signals l) (sg_mode r) \<ge> style_capacity (sg_mode r)
             then Inl STYLE_CAPACITY_FULL
             else if capacity_total (al_signals l) \<ge> total_capacity
             then Inl TOTAL_CAPACITY_FULL
             else if pair_taken l signal_id (normalize_pair (sg_symbol r))
             then Inl GLOBAL_PAIR_ALREADY_ACTIVE
             else Inr (Mutate (l\<lparr>
                 al_signals := AList.update signal_id (r\<lparr>sg_state := ENTRY_ACTIVE,
                   sg_entry_at := Some entry_at, sg_last_transition_id := transition_id,
                   sg_updated_at := updated_at\<rparr>) (al_signals l),
                 al_transitions := AList.update transition_id c (al_transitions l)\<rparr>)
               updated_at))"

definition mark_entry_active ::
  "io \<Rightarrow> disk_file \<Rightarrow> pv \<Rightarrow> string \<Rightarrow> string \<Rightarrow> pv \<Rightarrow> pv \<Rightarrow> pv
    \<Rightarrow> (aerror, ledger) result \<times> disk_file" where
  "mark_entry_active io f expected_revision transition_id signal_id entry_at updated_at
      require_current_revision =
    (if \<not> is_utc entry_at then (Inl TIMESTAMP_INVALID, f)
     else if \<not> is_utc updated_at then (Inl TIMESTAMP_INVALID, f)
     else case require_current_revision of
       PBool require_current \<Rightarrow>
         run_locked io f (entry_handler expected_revision transition_id signal_id
           (the_str entry_at) (the_str updated_at) require_current)
     | _ \<Rightarrow> (Inl EXPECTED_REVISION_MISMATCH, f))"

text \<open>\<open>transition_terminal\<close>, after the arguments are checked.\<close>

definition terminal_handler ::
  "pv \<Rightarrow> string \<Rightarrow> string \<Rightarrow> lifecycle \<Rightarrow> string \<Rightarrow> string \<Rightarrow> string \<Rightarrow> bool \<Rightarrow> ledger
    \<Rightarrow> (aerror, ledger mutation) result" where
  "terminal_handler expected_revision transition_id signal_id terminal_state terminal_at
      terminal_reason updated_at require_current l =
    (case map_of (al_transitions l) transition_id of
       Some t \<Rightarrow>
         if tr_operation t = TERMINAL \<and> tr_signal_id t = signal_id
            \<and> tr_to_state t = terminal_state \<and> tr_occurred_at t = terminal_at
            \<and> tr_terminal_reason t = Some terminal_reason
         then
           (if require_current \<and> \<not> revision_matches l expected_revision
            then Inl EXPECTED_REVISION_MISMATCH else Inr (Keep l))
         else if \<not> revision_matches l expected_revision then Inl EXPECTED_REVISION_MISMATCH
         else Inl TRANSITION_ID_COLLISION
     | None \<Rightarrow>
         if \<not> revision_matches l expected_revision then Inl EXPECTED_REVISION_MISMATCH
         else case map_of (al_signals l) signal_id of
           None \<Rightarrow> Inl SIGNAL_ID_INVALID
         | Some r \<Rightarrow>
             if sg_state r \<in> set terminal_states then
               (if sg_state r = terminal_state \<and> sg_terminal_at r = Some terminal_at
                   \<and> sg_terminal_reason r = Some terminal_reason
                then Inr (Keep l) else Inl TERMINAL_SIGNAL_REOPEN_FORBIDDEN)
             else if \<not> (sg_state r = PUBLISHED_PENDING_ENTRY
                \<or> (sg_state r = ENTRY_ACTIVE \<and> terminal_state \<noteq> EXPIRED))
             then Inl LIFECYCLE_TRANSITION_INVALID
             else case transition_payload TERMINAL transition_id signal_id (sg_state r)
                 terminal_state terminal_at (Some terminal_reason) (al_revision l + 1) of
               Inl e \<Rightarrow> Inl e
             | Inr c \<Rightarrow>
               (case existing_transition l transition_id c of
                  Inl e \<Rightarrow> Inl e
                | Inr True \<Rightarrow> Inr (Keep l)
                | Inr False \<Rightarrow> Inr (Mutate (l\<lparr>
                    al_signals := AList.update signal_id (r\<lparr>sg_state := terminal_state,
                      sg_terminal_at := Some terminal_at,
                      sg_terminal_reason := Some terminal_reason,
                      sg_last_transition_id := transition_id,
                      sg_updated_at := updated_at\<rparr>) (al_signals l),
                    al_transitions := AList.update transition_id c (al_transitions l)\<rparr>)
                  updated_at)))"

definition transition_terminal ::
  "io \<Rightarrow> disk_file \<Rightarrow> pv \<Rightarrow> string \<Rightarrow> string \<Rightarrow> pv \<Rightarrow> pv \<Rightarrow> pv \<Rightarrow> pv \<Rightarrow> pv
    \<Rightarrow> (aerror, ledger) result \<times> disk_file" where
  "transition_terminal io f expected_revision transition_id signal_id terminal_state
      terminal_at terminal_reason updated_at require_current_revision =
    (case lifecycle_of terminal_state of
       None \<Rightarrow> (Inl LIFECYCLE_TRANSITION_INVALID, f)
     | Some ts \<Rightarrow>
       if ts \<notin> set terminal_states then (Inl LIFECYCLE_TRANSITION_INVALID, f)
       else if \<not> is_utc terminal_at then (Inl TIMESTAMP_INVALID, f)
       else if \<not> is_utc updated_at then (Inl TIMESTAMP_INVALID, f)
       else if \<not> is_ident terminal_reason then (Inl TERMINAL_REASON_INVALID, f)
       else case require_current_revision of
         PBool require_current \<Rightarrow>
           run_locked io f (terminal_handler expected_revision transition_id signal_id ts
             (the_str terminal_at) (the_str terminal_reason) (the_str updated_at)
             require_current)
       | _ \<Rightarrow> (Inl EXPECTED_REVISION_MISMATCH, f))"

text \<open>\<open>reconcile_publication_state\<close>, after the arguments are checked.\<close>

definition reconcile_handler ::
  "pv \<Rightarrow> string \<Rightarrow> bool \<Rightarrow> pv \<Rightarrow> pv \<Rightarrow> pv \<Rightarrow> string \<Rightarrow> pv \<Rightarrow> ledger
    \<Rightarrow> (aerror, ledger mutation) result" where
  "reconcile_handler expected_revision transaction_id artifact_exists artifact_signal_id
      artifact_delivery_id artifact_hash reconciled_at abort_reason l =
    (if \<not> revision_matches l expected_revision then Inl EXPECTED_REVISION_MISMATCH
     else case map_of (al_transactions l) transaction_id of
       None \<Rightarrow> Inl PUBLICATION_OCCUPANCY_RECONCILIATION_REQUIRED
     | Some t \<Rightarrow>
         if tx_state t = OCCUPANCY_COMMITTED \<or> tx_state t = ABORTED then Inr (Keep l)
         else if artifact_exists then
           (if artifact_signal_id \<noteq> PStr (tx_signal_id t)
               \<or> artifact_delivery_id \<noteq> PStr (tx_delivery_id t)
               \<or> artifact_hash \<noteq> PStr (tx_publication_payload_hash t)
            then Inl PUBLICATION_OCCUPANCY_RECONCILIATION_REQUIRED
            else Inr (Mutate (commit_occupancy l t reconciled_at) reconciled_at))
         else if artifact_signal_id \<noteq> PNone \<or> artifact_delivery_id \<noteq> PNone
            \<or> artifact_hash \<noteq> PNone
         then Inl PUBLICATION_OCCUPANCY_RECONCILIATION_REQUIRED
         else if \<not> is_ident abort_reason then Inl TERMINAL_REASON_INVALID
         else Inr (Mutate (l\<lparr>al_transactions := AList.update transaction_id
             (t\<lparr>tx_state := ABORTED, tx_updated_at := reconciled_at,
                tx_aborted_at := Some reconciled_at,
                tx_abort_reason := Some (the_str abort_reason)\<rparr>)
             (al_transactions l)\<rparr>) reconciled_at))"

definition reconcile_publication_state ::
  "io \<Rightarrow> disk_file \<Rightarrow> pv \<Rightarrow> pv \<Rightarrow> pv \<Rightarrow> pv \<Rightarrow> pv \<Rightarrow> pv \<Rightarrow> pv \<Rightarrow> pv
    \<Rightarrow> (aerror, ledger) result \<times> disk_file" where
  "reconcile_publication_state io f expected_revision transaction_id
      publication_artifact_exists artifact_signal_id artifact_delivery_id artifact_hash
      reconciled_at abort_reason =
    (case publication_artifact_exists of
       PBool artifact_exists \<Rightarrow>
         if \<not> is_utc reconciled_at then (Inl TIMESTAMP_INVALID, f)
         else if \<not> is_ident transaction_id then (Inl TRANSACTION_ID_INVALID, f)
         else run_locked io f (reconcile_handler expected_revision (the_str transaction_id)
           artifact_exists artifact_signal_id artifact_delivery_id artifact_hash
           (the_str reconciled_at) abort_reason)
     | _ \<Rightarrow> (Inl PUBLICATION_OCCUPANCY_RECONCILIATION_REQUIRED, f))"

end
