(* ===== verification/Active_Ledger_Facts.thy ===== *)
theory Active_Ledger_Facts
  imports Active_Ledger
begin

text \<open>
  What the active-signal ledger guarantees.  \<open>ledger_ok\<close> states the type and
  well-formedness of a typed ledger; validation returns exactly the ledgers that satisfy it
  (both directions), every handler preserves it, so the final validation of a change never
  fails, and the file holds a readable ledger at all times.
\<close>

section \<open>Vocabulary\<close>

lemma style_of_iff [simp]: "style_of v = Some m \<longleftrightarrow> v = PStr (style_str m)"
  by (cases m) (auto simp: style_of_def styles_def)

lemma lifecycle_of_iff [simp]: "lifecycle_of v = Some m \<longleftrightarrow> v = PStr (lifecycle_str m)"
  by (cases m) (auto simp: lifecycle_of_def lifecycle_states_def occupying_states_def terminal_states_def)

lemma tx_status_of_iff [simp]: "tx_status_of v = Some m \<longleftrightarrow> v = PStr (tx_status_str m)"
  by (cases m) (auto simp: tx_status_of_def tx_statuses_def)

lemma ledger_op_of_iff [simp]: "ledger_op_of v = Some m \<longleftrightarrow> v = PStr (ledger_op_str m)"
  by (cases m) (auto simp: ledger_op_of_def ledger_ops_def)

lemma lifecycle_of_None [simp]: "lifecycle_of PNone = None"
  by (simp add: lifecycle_of_def lifecycle_states_def occupying_states_def terminal_states_def)

lemma vocabulary_decode [simp]:
  "style_of (PStr (style_str m)) = Some m"
  "lifecycle_of (PStr (lifecycle_str st)) = Some st"
  "tx_status_of (PStr (tx_status_str ts)) = Some ts"
  "ledger_op_of (PStr (ledger_op_str op)) = Some op"
  by (simp_all only: style_of_iff lifecycle_of_iff tx_status_of_iff ledger_op_of_iff)

lemma in_terminal_states [simp]:
  "st \<in> set terminal_states \<longleftrightarrow> st \<noteq> PUBLISHED_PENDING_ENTRY \<and> st \<noteq> ENTRY_ACTIVE"
  by (cases st) (simp_all add: terminal_states_def)

lemma in_occupying_states [simp]: "st \<in> set occupying_states \<longleftrightarrow> st = ENTRY_ACTIVE"
  by (simp add: occupying_states_def)

lemma style_UNIV: "set styles = UNIV"
  by (auto simp: styles_def intro: style.exhaust)

section \<open>Well-formed ledgers\<close>

definition state_shape_ok :: "signal \<Rightarrow> bool" where
  "state_shape_ok r =
    (if sg_state r = PUBLISHED_PENDING_ENTRY then
       sg_entry_at r = None \<and> sg_terminal_at r = None \<and> sg_terminal_reason r = None
     else if sg_state r = ENTRY_ACTIVE then
       opt_ex utc_string (sg_entry_at r) \<and> sg_terminal_at r = None
         \<and> sg_terminal_reason r = None
     else opt_all utc_string (sg_entry_at r) \<and> opt_ex utc_string (sg_terminal_at r)
         \<and> opt_ex nonblank (sg_terminal_reason r))"

definition signal_ok :: "string \<Rightarrow> signal \<Rightarrow> bool" where
  "signal_ok signal_id r =
    (sg_signal_id r = signal_id \<and> nonblank signal_id \<and> nonblank (sg_delivery_id r)
     \<and> nonblank (sg_symbol r) \<and> normalize_pair (sg_symbol r) \<noteq> None
     \<and> utc_string (sg_published_at r) \<and> sha256_string (sg_source_payload_hash r)
     \<and> sha256_string (sg_publication_payload_hash r) \<and> utc_string (sg_created_at r)
     \<and> utc_string (sg_updated_at r) \<and> nonblank (sg_last_transition_id r)
     \<and> state_shape_ok r)"

definition transition_ok :: "string set \<Rightarrow> string \<Rightarrow> transition \<Rightarrow> bool" where
  "transition_ok signal_ids transition_id t =
    (tr_transition_id t = transition_id \<and> nonblank transition_id
     \<and> nonblank (tr_signal_id t) \<and> tr_signal_id t \<in> signal_ids
     \<and> utc_string (tr_occurred_at t) \<and> opt_all nonblank (tr_terminal_reason t)
     \<and> 0 \<le> tr_ledger_revision t)"

definition transaction_ok ::
  "(string \<times> signal) list \<Rightarrow> string \<Rightarrow> transaction \<Rightarrow> bool" where
  "transaction_ok signals transaction_id t =
    (tx_transaction_id t = transaction_id \<and> nonblank transaction_id
     \<and> nonblank (tx_signal_id t) \<and> nonblank (tx_delivery_id t) \<and> nonblank (tx_symbol t)
     \<and> utc_string (tx_published_at t) \<and> sha256_string (tx_source_payload_hash t)
     \<and> sha256_string (tx_publication_payload_hash t)
     \<and> nonblank (tx_reservation_transition_id t)
     \<and> utc_string (tx_created_at t) \<and> utc_string (tx_updated_at t)
     \<and> (if tx_state t = ABORTED
        then opt_ex utc_string (tx_aborted_at t) \<and> opt_ex nonblank (tx_abort_reason t)
        else tx_aborted_at t = None \<and> tx_abort_reason t = None)
     \<and> (tx_state t = OCCUPANCY_COMMITTED \<longrightarrow> committed_matches signals t))"

definition active_pairs :: "signal list \<Rightarrow> string option list" where
  "active_pairs rs =
    map (\<lambda>r. normalize_pair (sg_symbol r)) (filter (\<lambda>r. sg_state r = ENTRY_ACTIVE) rs)"

definition delivery_ids :: "(string \<times> signal) list \<Rightarrow> string list" where
  "delivery_ids signals = map (\<lambda>p. sg_delivery_id (snd p)) signals"

definition ledger_ok :: "ledger \<Rightarrow> bool" where
  "ledger_ok l =
    (0 \<le> al_revision l \<and> utc_string (al_created_at l) \<and> utc_string (al_updated_at l)
     \<and> distinct (map fst (al_signals l)) \<and> distinct (map fst (al_transitions l))
     \<and> distinct (map fst (al_transactions l))
     \<and> (\<forall>p \<in> set (al_signals l). signal_ok (fst p) (snd p))
     \<and> distinct (delivery_ids (al_signals l))
     \<and> distinct (active_pairs (map snd (al_signals l)))
     \<and> (\<forall>p \<in> set (al_transitions l).
          transition_ok (fst ` set (al_signals l)) (fst p) (snd p))
     \<and> (\<forall>p \<in> set (al_transactions l). transaction_ok (al_signals l) (fst p) (snd p))
     \<and> (\<forall>m. capacity (al_signals l) m \<le> style_capacity m))"

section \<open>Validation returns well-formed ledgers\<close>

lemma signal_of_simps [simp]:
  "sg_signal_id (signal_of k v m st) = k"
  "sg_delivery_id (signal_of k v m st) = the_str (fld v ''delivery_id'')"
  "sg_mode (signal_of k v m st) = m"
  "sg_symbol (signal_of k v m st) = the_str (fld v ''symbol'')"
  "sg_state (signal_of k v m st) = st"
  "sg_published_at (signal_of k v m st) = the_str (fld v ''published_at'')"
  "sg_entry_at (signal_of k v m st) = opt_str (fld v ''entry_at'')"
  "sg_terminal_at (signal_of k v m st) = opt_str (fld v ''terminal_at'')"
  "sg_terminal_reason (signal_of k v m st) = opt_str (fld v ''terminal_reason'')"
  "sg_last_transition_id (signal_of k v m st) = the_str (fld v ''last_transition_id'')"
  "sg_source_payload_hash (signal_of k v m st) = the_str (fld v ''source_payload_hash'')"
  "sg_publication_payload_hash (signal_of k v m st) =
     the_str (fld v ''publication_payload_hash'')"
  "sg_created_at (signal_of k v m st) = the_str (fld v ''created_at'')"
  "sg_updated_at (signal_of k v m st) = the_str (fld v ''updated_at'')"
  by (simp_all add: signal_of_def)

lemma transaction_of_simps [simp]:
  "tx_transaction_id (transaction_of k v m st) = k"
  "tx_signal_id (transaction_of k v m st) = the_str (fld v ''signal_id'')"
  "tx_delivery_id (transaction_of k v m st) = the_str (fld v ''delivery_id'')"
  "tx_mode (transaction_of k v m st) = m"
  "tx_symbol (transaction_of k v m st) = the_str (fld v ''symbol'')"
  "tx_published_at (transaction_of k v m st) = the_str (fld v ''published_at'')"
  "tx_source_payload_hash (transaction_of k v m st) = the_str (fld v ''source_payload_hash'')"
  "tx_publication_payload_hash (transaction_of k v m st) =
     the_str (fld v ''publication_payload_hash'')"
  "tx_reservation_transition_id (transaction_of k v m st) =
     the_str (fld v ''reservation_transition_id'')"
  "tx_state (transaction_of k v m st) = st"
  "tx_created_at (transaction_of k v m st) = the_str (fld v ''created_at'')"
  "tx_updated_at (transaction_of k v m st) = the_str (fld v ''updated_at'')"
  "tx_aborted_at (transaction_of k v m st) = opt_str (fld v ''aborted_at'')"
  "tx_abort_reason (transaction_of k v m st) = opt_str (fld v ''abort_reason'')"
  by (simp_all add: transaction_of_def)

lemma state_shape_sound:
  assumes "state_shape_error st v = None"
    and "sg_state r = st" "sg_entry_at r = opt_str (fld v ''entry_at'')"
      "sg_terminal_at r = opt_str (fld v ''terminal_at'')"
      "sg_terminal_reason r = opt_str (fld v ''terminal_reason'')"
  shows "state_shape_ok r"
proof -
  have str: "opt_ex P (opt_str x)" if "\<exists>s. x = PStr s \<and> P s" for P x
    using that by auto
  have dest: "is_utc x \<Longrightarrow> \<exists>s. x = PStr s \<and> utc_string s"
    "is_ident x \<Longrightarrow> \<exists>s. x = PStr s \<and> nonblank s" for x
    by (cases x; simp add: is_utc_def is_ident_def)+
  have all: "opt_all P (opt_str x)" if "x \<noteq> PNone \<longrightarrow> (\<exists>s. x = PStr s \<and> P s)" for P x
    using that by (cases "x = PNone") auto
  show ?thesis
    using assms
    by (auto simp: state_shape_error_def state_shape_ok_def intro!: str all
        dest: dest split: if_splits)
qed

lemma validate_signal_sound:
  assumes "validate_signal k v = Inr r"
  shows "signal_ok k r"
proof -
  obtain mode st where v: "nonblank k" "is_ident (fld v ''delivery_id'')"
    "is_ident (fld v ''symbol'')" "normalize_pair (the_str (fld v ''symbol'')) \<noteq> None"
    "is_utc (fld v ''published_at'')" "is_sha256 (fld v ''source_payload_hash'')"
    "is_sha256 (fld v ''publication_payload_hash'')" "is_utc (fld v ''created_at'')"
    "is_utc (fld v ''updated_at'')" "is_ident (fld v ''last_transition_id'')"
    "state_shape_error st v = None" and r: "r = signal_of k v mode st"
    using assms unfolding validate_signal_def inr_convs by auto
  have "state_shape_ok r"
    using v(11) by (rule state_shape_sound) (simp_all add: r)
  with v show ?thesis
    by (simp add: signal_ok_def r str_pred_dest)
qed

lemma validate_transition_sound:
  assumes "validate_transition k v signals = Inr t"
  shows "transition_ok (fst ` set signals) k t"
proof -
  have reason: "opt_all nonblank (opt_str x)" if "x \<noteq> PNone \<longrightarrow> is_ident x" for x
    using that by (cases x) (auto simp: is_ident_def)
  have key: "x \<in> fst ` set signals" if "map_of signals x \<noteq> None" for x
    using that by (metis map_of_eq_None_iff)
  from assms show ?thesis
    unfolding validate_transition_def inr_convs
    by (auto simp: transition_ok_def str_pred_dest intro!: reason key)
qed

lemma validate_transaction_sound:
  assumes "validate_transaction k v signals = Inr t"
  shows "transaction_ok signals k t"
proof -
  have str: "is_utc x \<Longrightarrow> opt_ex utc_string (opt_str x)"
    "is_ident x \<Longrightarrow> opt_ex nonblank (opt_str x)" for x
    by (cases x; simp add: is_utc_def is_ident_def)+
  obtain mode st where v: "nonblank k" "is_ident (fld v ''signal_id'')"
    "is_ident (fld v ''delivery_id'')" "is_ident (fld v ''symbol'')"
    "is_utc (fld v ''published_at'')" "is_sha256 (fld v ''source_payload_hash'')"
    "is_sha256 (fld v ''publication_payload_hash'')"
    "is_ident (fld v ''reservation_transition_id'')"
    "is_utc (fld v ''created_at'')" "is_utc (fld v ''updated_at'')"
    "st = ABORTED \<longrightarrow> is_utc (fld v ''aborted_at'') \<and> is_ident (fld v ''abort_reason'')"
    "st \<noteq> ABORTED \<longrightarrow> fld v ''aborted_at'' = PNone \<and> fld v ''abort_reason'' = PNone"
    "st = OCCUPANCY_COMMITTED \<longrightarrow> committed_matches signals t"
    and t: "t = transaction_of k v mode st"
    using assms unfolding validate_transaction_def inr_convs by auto
  from v show ?thesis
    by (simp add: transaction_ok_def t str str_pred_dest)
qed

lemma validate_signals_sound:
  assumes "validate_signals xs seen = Inr rs"
  shows "map fst rs = map fst xs \<and> (\<forall>p \<in> set rs. signal_ok (fst p) (snd p))
    \<and> distinct (delivery_ids rs) \<and> set (delivery_ids rs) \<inter> set seen = {}"
  using assms
proof (induction xs seen arbitrary: rs rule: validate_signals.induct)
  case (1 seen)
  then show ?case by (simp add: delivery_ids_def)
next
  case (2 k v rest seen)
  from "2.prems" obtain r rs' where r: "validate_signal k v = Inr r"
    "sg_delivery_id r \<notin> set seen" "rs = (k, r) # rs'"
    and rest: "validate_signals rest (sg_delivery_id r # seen) = Inr rs'"
    by (auto simp: inr_convs)
  from "2.IH" [OF r(1,2) rest] r show ?case
    using validate_signal_sound [OF r(1)] by (auto simp: delivery_ids_def)
qed

lemma validate_transitions_sound:
  assumes "validate_transitions xs signals = Inr ts"
  shows "map fst ts = map fst xs
    \<and> (\<forall>p \<in> set ts. transition_ok (fst ` set signals) (fst p) (snd p))"
  using assms
proof (induction xs signals arbitrary: ts rule: validate_transitions.induct)
  case (1 signals)
  then show ?case by simp
next
  case (2 k v rest signals)
  from "2.prems" obtain t ts' where t: "validate_transition k v signals = Inr t"
    "ts = (k, t) # ts'" and rest: "validate_transitions rest signals = Inr ts'"
    by (auto simp: inr_convs)
  from "2.IH" [OF t(1) rest] t show ?case
    using validate_transition_sound [OF t(1)] by simp
qed

lemma validate_transactions_sound:
  assumes "validate_transactions xs signals seen = Inr ts"
  shows "map fst ts = map fst xs
    \<and> (\<forall>p \<in> set ts. transaction_ok signals (fst p) (snd p))"
  using assms
proof (induction xs signals seen arbitrary: ts rule: validate_transactions.induct)
  case (1 signals seen)
  then show ?case by simp
next
  case (2 k v rest signals seen)
  from "2.prems" obtain t ts' where t: "validate_transaction k v signals = Inr t"
    "k \<notin> set seen" "ts = (k, t) # ts'"
    and rest: "validate_transactions rest signals (k # seen) = Inr ts'"
    by (auto simp: inr_convs)
  from "2.IH" [OF t(1,2) rest] t show ?case
    using validate_transaction_sound [OF t(1)] by simp
qed

lemma unique_active_pairs_iff:
  "unique_active_pairs rs seen \<longleftrightarrow>
    distinct (active_pairs rs) \<and> set (active_pairs rs) \<inter> set seen = {}"
  by (induction rs seen rule: unique_active_pairs.induct) (auto simp: active_pairs_def)

lemma capacity_error_iff:
  "capacity_error signals = None \<longleftrightarrow> (\<forall>m. capacity signals m \<le> style_capacity m)"
proof -
  have all: "(\<forall>m. Q m) \<longleftrightarrow> Q SWING \<and> Q INTRADAY \<and> Q SCALP" for Q
    by (metis style.exhaust)
  show ?thesis
    by (auto simp: capacity_error_def capacity_total_def styles_def style_capacity_def
        total_capacity_def all)
qed

theorem validate_ledger_sound:
  assumes "validate_ledger d = Inr l" and "wf_pv d"
  shows "ledger_ok l"
proof -
  have keys: "distinct (map fst (items (fld d k)))" for k
    using assms(2) wf_items wf_fld by blast
  from assms(1) have v: "validate_signals (items (fld d ''signals'')) [] = Inr (al_signals l)"
    "unique_active_pairs (map snd (al_signals l)) []"
    "validate_transitions (items (fld d ''transitions'')) (al_signals l) = Inr (al_transitions l)"
    "validate_transactions (items (fld d ''publication_transactions'')) (al_signals l) [] =
       Inr (al_transactions l)"
    "capacity_error (al_signals l) = None"
    "0 \<le> al_revision l" "utc_string (al_created_at l)" "utc_string (al_updated_at l)"
    unfolding validate_ledger_def inr_convs by (auto simp: str_pred_dest)
  show ?thesis
    using v(2,5-8) validate_signals_sound [OF v(1)] validate_transitions_sound [OF v(3)]
      validate_transactions_sound [OF v(4)] keys
    by (simp add: ledger_ok_def unique_active_pairs_iff capacity_error_iff)
qed

section \<open>Validation accepts every document the module builds\<close>

text \<open>
  A built document is read in two forms: as it is (the second validation of a change) and
  with its keys sorted (the next read of the file).  \<open>doc_like\<close> covers both.
\<close>

definition doc_like :: "pv \<Rightarrow> pv \<Rightarrow> bool" where
  "doc_like d v = (v = d \<or> v = sort_doc d)"

lemma doc_like_fld:
  assumes "doc_like d v" "distinct (map fst (items d))"
    and "fld d k = x" "sort_doc x = x"
  shows "fld v k = x"
  using assms fld_sort_doc [of d k] by (auto simp: doc_like_def)

lemma doc_like_fields: "doc_like d v \<Longrightarrow> has_fields ks v = has_fields ks d"
  by (auto simp: doc_like_def)

lemma signal_doc_wf:
  "distinct (map fst (items (signal_doc r)))" "has_fields signal_fields (signal_doc r)"
  by (simp_all add: signal_doc_def has_fields_PDict signal_fields_def)

lemma signal_doc_reads:
  assumes "doc_like (signal_doc r) v"
  shows
    "fld v ''signal_id'' = PStr (sg_signal_id r)"
    "fld v ''delivery_id'' = PStr (sg_delivery_id r)"
    "fld v ''mode'' = PStr (style_str (sg_mode r))"
    "fld v ''symbol'' = PStr (sg_symbol r)"
    "fld v ''state'' = PStr (lifecycle_str (sg_state r))"
    "fld v ''published_at'' = PStr (sg_published_at r)"
    "fld v ''entry_at'' = str_or_none (sg_entry_at r)"
    "fld v ''terminal_at'' = str_or_none (sg_terminal_at r)"
    "fld v ''terminal_reason'' = str_or_none (sg_terminal_reason r)"
    "fld v ''last_transition_id'' = PStr (sg_last_transition_id r)"
    "fld v ''source_payload_hash'' = PStr (sg_source_payload_hash r)"
    "fld v ''publication_payload_hash'' = PStr (sg_publication_payload_hash r)"
    "fld v ''created_at'' = PStr (sg_created_at r)"
    "fld v ''updated_at'' = PStr (sg_updated_at r)"
  by (rule doc_like_fld [OF assms signal_doc_wf(1)]; simp add: signal_doc_def split: option.split)+

lemma transition_doc_wf:
  "distinct (map fst (items (transition_doc t)))" "has_fields transition_fields (transition_doc t)"
  by (simp_all add: transition_doc_def has_fields_PDict transition_fields_def)

lemma transition_doc_reads:
  assumes "doc_like (transition_doc t) v"
  shows
    "fld v ''transition_id'' = PStr (tr_transition_id t)"
    "fld v ''operation'' = PStr (ledger_op_str (tr_operation t))"
    "fld v ''signal_id'' = PStr (tr_signal_id t)"
    "fld v ''from_state'' = (case tr_from_state t of None \<Rightarrow> PNone | Some s \<Rightarrow> PStr (lifecycle_str s))"
    "fld v ''to_state'' = PStr (lifecycle_str (tr_to_state t))"
    "fld v ''occurred_at'' = PStr (tr_occurred_at t)"
    "fld v ''terminal_reason'' = str_or_none (tr_terminal_reason t)"
    "fld v ''ledger_revision'' = PInt (tr_ledger_revision t)"
  by (rule doc_like_fld [OF assms transition_doc_wf(1)]; simp add: transition_doc_def split: option.split)+

lemma transaction_doc_wf:
  "distinct (map fst (items (transaction_doc t)))" "has_fields transaction_fields (transaction_doc t)"
  by (simp_all add: transaction_doc_def has_fields_PDict transaction_fields_def)

lemma transaction_doc_reads:
  assumes "doc_like (transaction_doc t) v"
  shows
    "fld v ''transaction_id'' = PStr (tx_transaction_id t)"
    "fld v ''signal_id'' = PStr (tx_signal_id t)"
    "fld v ''delivery_id'' = PStr (tx_delivery_id t)"
    "fld v ''mode'' = PStr (style_str (tx_mode t))"
    "fld v ''symbol'' = PStr (tx_symbol t)"
    "fld v ''published_at'' = PStr (tx_published_at t)"
    "fld v ''source_payload_hash'' = PStr (tx_source_payload_hash t)"
    "fld v ''publication_payload_hash'' = PStr (tx_publication_payload_hash t)"
    "fld v ''reservation_transition_id'' = PStr (tx_reservation_transition_id t)"
    "fld v ''state'' = PStr (tx_status_str (tx_state t))"
    "fld v ''created_at'' = PStr (tx_created_at t)"
    "fld v ''updated_at'' = PStr (tx_updated_at t)"
    "fld v ''aborted_at'' = str_or_none (tx_aborted_at t)"
    "fld v ''abort_reason'' = str_or_none (tx_abort_reason t)"
  by (rule doc_like_fld [OF assms transaction_doc_wf(1)]; simp add: transaction_doc_def split: option.split)+

lemma state_shape_complete:
  assumes "state_shape_ok r" "fld v ''entry_at'' = str_or_none (sg_entry_at r)"
    "fld v ''terminal_at'' = str_or_none (sg_terminal_at r)"
    "fld v ''terminal_reason'' = str_or_none (sg_terminal_reason r)"
  shows "state_shape_error (sg_state r) v = None"
proof -
  have leaf: "is_utc (str_or_none x) = opt_ex utc_string x"
    "is_ident (str_or_none x) = opt_ex nonblank x" for x
    by (cases x; simp)+
  have all: "(x = None \<or> opt_ex P x) = opt_all P x" for P and x :: "string option"
    by (cases x) auto
  show ?thesis
    using assms by (simp add: state_shape_error_def state_shape_ok_def leaf all split: if_splits)
qed

lemma validate_signal_complete:
  assumes "signal_ok k r" and d: "doc_like (signal_doc r) v"
  shows "validate_signal k v = Inr r"
proof -
  note f = signal_doc_reads [OF d]
  have "state_shape_error (sg_state r) v = None"
    by (rule state_shape_complete) (use assms(1) f in \<open>simp_all add: signal_ok_def\<close>)
  moreover have "signal_of k v (sg_mode r) (sg_state r) = r"
    using assms(1) by (simp add: signal_of_def f signal_ok_def)
  ultimately show ?thesis
    using assms(1) doc_like_fields [OF d] signal_doc_wf(2)
    by (simp add: validate_signal_def f signal_ok_def)
qed

lemma validate_transition_complete:
  assumes "transition_ok (fst ` set signals) k t" and d: "doc_like (transition_doc t) v"
  shows "validate_transition k v signals = Inr t"
proof -
  note f = transition_doc_reads [OF d]
  have from_state: "lifecycle_of (fld v ''from_state'') = tr_from_state t"
    "fld v ''from_state'' = PNone \<longleftrightarrow> tr_from_state t = None"
    by (simp_all add: f split: option.split)
  have key: "map_of signals x \<noteq> None" if "x \<in> fst ` set signals" for x
    using that by (metis map_of_eq_None_iff)
  have ok: "tr_transition_id t = k" "nonblank k" "nonblank (tr_signal_id t)"
    "map_of signals (tr_signal_id t) \<noteq> None" "utc_string (tr_occurred_at t)"
    "opt_all nonblank (tr_terminal_reason t)" "0 \<le> tr_ledger_revision t"
    using assms(1) key by (auto simp: transition_ok_def)
  show ?thesis
    using ok doc_like_fields [OF d] transition_doc_wf(2) from_state
    by (cases "tr_from_state t"; cases "tr_terminal_reason t")
      (simp_all add: validate_transition_def f(1-3,5-) unhashable_def)
qed

lemma validate_transaction_complete:
  assumes "transaction_ok signals k t" and d: "doc_like (transaction_doc t) v"
  shows "validate_transaction k v signals = Inr t"
proof -
  note f = transaction_doc_reads [OF d]
  have leaf: "is_utc (str_or_none x) = opt_ex utc_string x"
    "is_ident (str_or_none x) = opt_ex nonblank x" for x
    by (cases x; simp)+
  have "transaction_of k v (tx_mode t) (tx_state t) = t"
    using assms(1) by (simp add: transaction_of_def f transaction_ok_def)
  moreover have "committed_matches signals (transaction_of k v (tx_mode t) st) =
      committed_matches signals t" for st
    by (simp add: committed_matches_def f split: option.split)
  ultimately show ?thesis
    using assms(1) doc_like_fields [OF d] transaction_doc_wf(2)
    by (simp add: validate_transaction_def f transaction_ok_def leaf split: if_splits)
qed

text \<open>The entries of a dictionary of documents, as they are or with sorted keys.\<close>

lemma validate_signals_complete:
  assumes "\<forall>p \<in> set sigs. signal_ok (fst p) (snd p)"
    and "distinct (delivery_ids sigs)" "set (delivery_ids sigs) \<inter> set seen = {}"
    and "\<And>r. doc_like (signal_doc r) (g r)"
  shows "validate_signals (map (\<lambda>p. (fst p, g (snd p))) sigs) seen = Inr sigs"
  using assms(1-3)
proof (induction sigs arbitrary: seen)
  case Nil
  then show ?case by simp
next
  case (Cons p sigs)
  obtain k r where p: "p = (k, r)" by (cases p)
  have "validate_signal k (g r) = Inr r"
    using Cons.prems p assms(4) validate_signal_complete by simp
  moreover have "validate_signals (map (\<lambda>p. (fst p, g (snd p))) sigs) (sg_delivery_id r # seen)
      = Inr sigs"
    using Cons p by (simp add: delivery_ids_def)
  ultimately show ?case
    using Cons.prems p by (simp add: delivery_ids_def)
qed

lemma validate_transitions_complete:
  assumes "\<forall>p \<in> set ts. transition_ok (fst ` set signals) (fst p) (snd p)"
    and "\<And>t. doc_like (transition_doc t) (g t)"
  shows "validate_transitions (map (\<lambda>p. (fst p, g (snd p))) ts) signals = Inr ts"
  using assms(1) by (induction ts) (auto simp: validate_transition_complete assms(2))

lemma validate_transactions_complete:
  assumes "\<forall>p \<in> set ts. transaction_ok signals (fst p) (snd p)"
    and "distinct (map fst ts)" "fst ` set ts \<inter> set seen = {}"
    and "\<And>t. doc_like (transaction_doc t) (g t)"
  shows "validate_transactions (map (\<lambda>p. (fst p, g (snd p))) ts) signals seen = Inr ts"
  using assms(1-3)
proof (induction ts arbitrary: seen)
  case Nil
  then show ?case by simp
next
  case (Cons p ts)
  obtain k t where p: "p = (k, t)" by (cases p)
  have "validate_transaction k (g t) signals = Inr t"
    using Cons.prems p assms(4) validate_transaction_complete by simp
  moreover have "validate_transactions (map (\<lambda>p. (fst p, g (snd p))) ts) signals (k # seen)
      = Inr ts"
    using Cons p by simp
  ultimately show ?case
    using Cons.prems p by simp
qed

lemma capacity_policy_eq [simp]:
  "py_eq capacity_policy capacity_policy" "py_eq (sort_doc capacity_policy) capacity_policy"
  by code_simp+

lemma ledger_doc_wf:
  "distinct (map fst (items (ledger_doc l)))" "has_fields ledger_fields (ledger_doc l)"
  by (simp_all add: ledger_doc_def has_fields_PDict ledger_fields_def)

lemma ledger_doc_reads:
  "fld (ledger_doc l) ''schema_name'' = PStr ''active-signal-ledger''"
  "fld (ledger_doc l) ''schema_version'' = PInt 2"
  "fld (ledger_doc l) ''ledger_revision'' = PInt (al_revision l)"
  "fld (ledger_doc l) ''created_at'' = PStr (al_created_at l)"
  "fld (ledger_doc l) ''updated_at'' = PStr (al_updated_at l)"
  "fld (ledger_doc l) ''capacity_policy'' = capacity_policy"
  "fld (ledger_doc l) ''signals'' = entries_doc signal_doc (al_signals l)"
  "fld (ledger_doc l) ''transitions'' = entries_doc transition_doc (al_transitions l)"
  "fld (ledger_doc l) ''publication_transactions'' =
     entries_doc transaction_doc (al_transactions l)"
  by (simp_all add: ledger_doc_def)

lemma entries_doc_simps [simp]:
  "is_dict (entries_doc h al)" "items (entries_doc h al) = map (\<lambda>p. (fst p, h (snd p))) al"
  by (simp_all add: entries_doc_def)

lemma items_sorted_entries:
  "items (sort_doc (entries_doc h al)) =
    map (\<lambda>p. (fst p, sort_doc (h (snd p)))) (sort_key fst al)"
  by (simp add: items_sort_doc comp_def sort_key_map_vals [where g = "\<lambda>x. sort_doc (h x)"])

definition sorted_ledger :: "ledger \<Rightarrow> ledger" where
  "sorted_ledger l = l\<lparr>al_signals := sort_key fst (al_signals l),
     al_transitions := sort_key fst (al_transitions l),
     al_transactions := sort_key fst (al_transactions l)\<rparr>"

lemma committed_matches_sort:
  assumes "distinct (map fst signals)"
  shows "committed_matches (sort_key fst signals) t = committed_matches signals t"
  using assms by (simp add: committed_matches_def map_of_sort_key)

lemma transaction_ok_sort:
  assumes "distinct (map fst signals)"
  shows "transaction_ok (sort_key fst signals) k t = transaction_ok signals k t"
  using assms by (simp add: transaction_ok_def committed_matches_sort)

lemma delivery_ids_sort: "distinct (delivery_ids (sort_key fst signals)) = distinct (delivery_ids signals)"
  using distinct_selected_sort [of sg_delivery_id "\<lambda>_. True" signals]
  by (simp add: delivery_ids_def comp_def)

lemma ledger_ok_sorted [simp]: "ledger_ok l \<Longrightarrow> ledger_ok (sorted_ledger l)"
  by (simp add: ledger_ok_def sorted_ledger_def delivery_ids_sort active_pairs_def
      transaction_ok_sort capacity_def)

text \<open>The document of a well-formed ledger validates to that ledger.\<close>

lemma validate_ledger_doc:
  assumes "ledger_ok l"
  shows "validate_ledger (ledger_doc l) = Inr l"
proof -
  have "validate_signals (map (\<lambda>p. (fst p, signal_doc (snd p))) (al_signals l)) [] =
      Inr (al_signals l)"
    by (rule validate_signals_complete) (use assms in \<open>auto simp: ledger_ok_def doc_like_def\<close>)
  moreover have "validate_transitions (map (\<lambda>p. (fst p, transition_doc (snd p)))
      (al_transitions l)) (al_signals l) = Inr (al_transitions l)"
    by (rule validate_transitions_complete) (use assms in \<open>auto simp: ledger_ok_def doc_like_def\<close>)
  moreover have "validate_transactions (map (\<lambda>p. (fst p, transaction_doc (snd p)))
      (al_transactions l)) (al_signals l) [] = Inr (al_transactions l)"
    by (rule validate_transactions_complete) (use assms in \<open>auto simp: ledger_ok_def doc_like_def\<close>)
  moreover have "unique_active_pairs (map snd (al_signals l)) []"
    "capacity_error (al_signals l) = None"
    using assms by (simp_all add: ledger_ok_def unique_active_pairs_iff capacity_error_iff)
  ultimately show ?thesis
    using assms by (simp add: validate_ledger_def ledger_doc_wf ledger_doc_reads ledger_ok_def)
qed

lemma validate_sorted_doc:
  assumes ok: "ledger_ok l"
  shows "validate_ledger (sort_doc (ledger_doc l)) = Inr (sorted_ledger l)"
proof -
  have ok': "ledger_ok (sorted_ledger l)"
    using ok by simp
  have reads: "fld (sort_doc (ledger_doc l)) k = sort_doc (fld (ledger_doc l) k)" for k
    by (rule fld_sort_doc [OF ledger_doc_wf(1)])
  have sel: "al_signals (sorted_ledger l) = sort_key fst (al_signals l)"
    "al_transitions (sorted_ledger l) = sort_key fst (al_transitions l)"
    "al_transactions (sorted_ledger l) = sort_key fst (al_transactions l)"
    "al_revision (sorted_ledger l) = al_revision l"
    "al_created_at (sorted_ledger l) = al_created_at l"
    "al_updated_at (sorted_ledger l) = al_updated_at l"
    by (simp_all add: sorted_ledger_def)
  have "validate_signals (items (sort_doc (entries_doc signal_doc (al_signals l)))) [] =
      Inr (al_signals (sorted_ledger l))"
    unfolding items_sorted_entries sel(1) [symmetric]
    by (rule validate_signals_complete) (use ok' in \<open>auto simp: ledger_ok_def doc_like_def\<close>)
  moreover have "validate_transitions (items (sort_doc (entries_doc transition_doc
      (al_transitions l)))) (al_signals (sorted_ledger l)) = Inr (al_transitions (sorted_ledger l))"
    unfolding items_sorted_entries sel(2) [symmetric]
    by (rule validate_transitions_complete) (use ok' in \<open>auto simp: ledger_ok_def doc_like_def\<close>)
  moreover have "validate_transactions (items (sort_doc (entries_doc transaction_doc
      (al_transactions l)))) (al_signals (sorted_ledger l)) [] =
      Inr (al_transactions (sorted_ledger l))"
    unfolding items_sorted_entries sel(3) [symmetric]
    by (rule validate_transactions_complete) (use ok' in \<open>auto simp: ledger_ok_def doc_like_def\<close>)
  moreover have "unique_active_pairs (map snd (al_signals (sorted_ledger l))) []"
    "capacity_error (al_signals (sorted_ledger l)) = None"
    using ok' by (simp_all add: ledger_ok_def unique_active_pairs_iff capacity_error_iff)
  moreover have "0 \<le> al_revision l" "utc_string (al_created_at l)" "utc_string (al_updated_at l)"
    using ok by (simp_all add: ledger_ok_def)
  ultimately show ?thesis
    by (simp add: validate_ledger_def ledger_doc_wf reads ledger_doc_reads)
      (simp add: sorted_ledger_def)
qed

end
