(* ===== verification/Active_Ledger_Steps.thy ===== *)
theory Active_Ledger_Steps
  imports Active_Ledger_Facts
begin

text \<open>
  The operations of the active-signal ledger keep its invariant: one lemma per handler, the
  contract of the file frame, and the calls of the module as a transition system on the
  ledger file.
\<close>

section \<open>The file frame\<close>

lemma sort_key_idem [simp]: "sort_key f (sort_key f xs) = sort_key f xs"
  by (simp add: sort_key_id_if_sorted)

definition same_ledger :: "ledger \<Rightarrow> ledger \<Rightarrow> bool" where
  "same_ledger l m = (sorted_ledger l = sorted_ledger m)"

definition bump :: "ledger \<Rightarrow> string \<Rightarrow> ledger" where
  "bump l t = l\<lparr>al_revision := al_revision l + 1, al_updated_at := t\<rparr>"

lemma bump_simps [simp]:
  "al_revision (bump l t) = al_revision l + 1" "al_updated_at (bump l t) = t"
  "al_created_at (bump l t) = al_created_at l" "al_signals (bump l t) = al_signals l"
  "al_transitions (bump l t) = al_transitions l" "al_transactions (bump l t) = al_transactions l"
  by (simp_all add: bump_def)

lemma ledger_ok_bump: "ledger_ok l \<Longrightarrow> utc_string t \<Longrightarrow> ledger_ok (bump l t)"
  by (simp add: ledger_ok_def)

lemma validate_ledger_revision:
  "validate_ledger d = Inr l \<Longrightarrow> al_revision l = the_int (fld d ''ledger_revision'')"
  unfolding validate_ledger_def inr_convs by auto

lemma atomic_write_ok:
  assumes "ledger_ok l"
  shows "atomic_write io f l =
    (if replace_ok io then (None, Stored (sort_doc (ledger_doc l)))
     else (Some ATOMIC_WRITE_FAILED, f))"
  using assms by (simp add: atomic_write_def validate_ledger_doc)

lemma persist_mutation_ok:
  assumes "ledger_ok l" "utc_string t"
  shows "persist_mutation io f l t =
    (if replace_ok io then (Inr (bump l t), Stored (sort_doc (ledger_doc (bump l t))))
     else (Inl ATOMIC_WRITE_FAILED, f))"
proof -
  have "ledger_ok (bump l t)"
    using assms by (rule ledger_ok_bump)
  then show ?thesis
    using assms(2) validate_ledger_doc [of "bump l t"]
    by (simp add: persist_mutation_def atomic_write_ok flip: bump_def)
qed

lemma persist_mutation_cases:
  assumes "persist_mutation io f l t = (Inr m, f')"
  shows "utc_string t" "validate_ledger (ledger_doc (bump l t)) = Inr m"
    "atomic_write io f m = (None, f')"
  using assms
  by (auto simp: persist_mutation_def bump_def split: if_splits sum.splits prod.splits option.splits)

interpretation al_store: durable_ledger
  read_ledger "persist_mutation io" ledger_ok al_revision same_ledger for io
proof unfold_locales
  fix f f' :: disk_file and l l' :: ledger and t :: string and e :: aerror
  show "f' = f" if "persist_mutation io f l t = (Inl e, f')"
    using that
    by (auto simp: persist_mutation_def atomic_write_def
        split: if_splits sum.splits prod.splits option.splits)
  show "al_revision l' = al_revision l + 1" if "persist_mutation io f l t = (Inr l', f')"
    using persist_mutation_cases(2) [OF that] validate_ledger_revision
    by (fastforce simp: ledger_doc_reads)
  show "\<exists>m. read_ledger f' = Inr m \<and> same_ledger l' m"
    if "persist_mutation io f l t = (Inr l', f')" "ledger_ok l'"
  proof -
    have "atomic_write io f l' = (None, f')"
      using persist_mutation_cases(3) [OF that(1)] .
    then have "f' = Stored (sort_doc (ledger_doc l'))"
      using that(2) by (simp add: atomic_write_ok split: if_splits)
    then show ?thesis
      using validate_sorted_doc [OF that(2)]
      by (simp add: read_ledger_def same_ledger_def sorted_ledger_def)
  qed
  show "al_revision l = al_revision l'" if "same_ledger l l'"
    using that by (auto simp: same_ledger_def sorted_ledger_def dest: arg_cong [where f = al_revision])
  show "same_ledger l l"
    by (simp add: same_ledger_def)
qed

section \<open>Updating a well-formed ledger\<close>

text \<open>The fields of a signal that no operation may change.\<close>

definition same_identity :: "signal \<Rightarrow> signal \<Rightarrow> bool" where
  "same_identity r r' =
    (sg_signal_id r' = sg_signal_id r \<and> sg_delivery_id r' = sg_delivery_id r
     \<and> sg_mode r' = sg_mode r \<and> sg_symbol r' = sg_symbol r
     \<and> sg_published_at r' = sg_published_at r
     \<and> sg_source_payload_hash r' = sg_source_payload_hash r
     \<and> sg_publication_payload_hash r' = sg_publication_payload_hash r
     \<and> sg_created_at r' = sg_created_at r)"

lemma committed_matches_update:
  assumes "map_of signals k = Some r" "same_identity r r'"
  shows "committed_matches (AList.update k r' signals) t = committed_matches signals t"
  using assms by (auto simp: committed_matches_def same_identity_def split: option.splits)

lemma capacity_update:
  assumes "map_of signals k = Some r"
  shows "capacity (AList.update k r' signals) m + (if active_in m r then 1 else 0) =
    capacity signals m + (if active_in m r' then 1 else 0)"
  using count_vals_update [OF assms] by (simp add: capacity_def)

lemma update_signal_ok:
  assumes ok: "ledger_ok l" and r: "map_of (al_signals l) k = Some r"
    and r': "signal_ok k r'" "same_identity r r'"
    and cap: "\<And>m. active_in m r' \<Longrightarrow> \<not> active_in m r \<Longrightarrow>
        capacity (al_signals l) m < style_capacity m"
    and pair: "sg_state r' = ENTRY_ACTIVE \<Longrightarrow>
        \<not> pair_taken l k (normalize_pair (sg_symbol r'))"
  shows "ledger_ok (l\<lparr>al_signals := AList.update k r' (al_signals l)\<rparr>)"
proof -
  let ?s = "AList.update k r' (al_signals l)"
  have key: "k \<in> fst ` set (al_signals l)"
    using r by (metis map_of_eq_None_iff option.distinct(1))
  have deliver: "delivery_ids ?s = delivery_ids (al_signals l)"
    using map_snd_update_same [OF r, of sg_delivery_id r'] r'(2)
    by (simp add: delivery_ids_def same_identity_def comp_def)
  have "distinct (active_pairs (map snd ?s))"
    unfolding active_pairs_def
  proof (rule distinct_selected_update)
    show "distinct (map (\<lambda>r. normalize_pair (sg_symbol r))
        (filter (\<lambda>r. sg_state r = ENTRY_ACTIVE) (map snd (al_signals l))))"
      using ok by (simp add: ledger_ok_def active_pairs_def)
    show "distinct (map fst (al_signals l))"
      using ok by (simp add: ledger_ok_def)
    show "\<forall>x \<in> set (al_signals l). fst x \<noteq> k \<longrightarrow> sg_state (snd x) = ENTRY_ACTIVE \<longrightarrow>
        normalize_pair (sg_symbol (snd x)) \<noteq> normalize_pair (sg_symbol r')"
      if "sg_state r' = ENTRY_ACTIVE"
      using pair [OF that] ok by (auto simp: pair_taken_def list_ex_iff ledger_ok_def signal_ok_def)
  qed
  moreover have "capacity ?s m \<le> style_capacity m" for m
  proof -
    have "capacity (al_signals l) m \<le> style_capacity m"
      using ok by (simp add: ledger_ok_def)
    with capacity_update [OF r, of r' m] cap [of m] show ?thesis
      by (cases "active_in m r'"; cases "active_in m r") auto
  qed
  moreover have "\<forall>p \<in> set ?s. signal_ok (fst p) (snd p)"
    using ok r'(1) set_update_subset [of k r' "al_signals l"] by (fastforce simp: ledger_ok_def)
  moreover have "transaction_ok ?s k' t = transaction_ok (al_signals l) k' t" for k' t
    by (simp add: transaction_ok_def committed_matches_update [OF r r'(2)])
  ultimately show ?thesis
    using ok key by (simp add: ledger_ok_def deliver distinct_update keys_update insert_absorb)
qed

lemma update_transition_ok:
  assumes "ledger_ok l" "transition_ok (fst ` set (al_signals l)) k t"
  shows "ledger_ok (l\<lparr>al_transitions := AList.update k t (al_transitions l)\<rparr>)"
  using assms set_update_subset [of k t "al_transitions l"]
  by (fastforce simp: ledger_ok_def distinct_update)

lemma update_transaction_ok:
  assumes "ledger_ok l" "transaction_ok (al_signals l) k t"
  shows "ledger_ok (l\<lparr>al_transactions := AList.update k t (al_transactions l)\<rparr>)"
  using assms set_update_subset [of k t "al_transactions l"]
  by (fastforce simp: ledger_ok_def distinct_update)

lemma insert_signal_ok:
  assumes ok: "ledger_ok l" and new: "map_of (al_signals l) k = None" "signal_ok k r"
    and "sg_delivery_id r \<notin> set (delivery_ids (al_signals l))"
    and "sg_state r = PUBLISHED_PENDING_ENTRY"
  shows "ledger_ok (l\<lparr>al_signals := AList.update k r (al_signals l)\<rparr>)"
proof -
  have app: "AList.update k r (al_signals l) = al_signals l @ [(k, r)]"
    using new(1) by (rule update_fresh)
  have key: "k \<notin> fst ` set (al_signals l)"
    using new(1) by (simp add: map_of_eq_None_iff)
  have mono: "transition_ok A k' t \<Longrightarrow> transition_ok (insert k A) k' t" for A k' t
    by (simp add: transition_ok_def)
  have comm: "committed_matches (al_signals l) t \<Longrightarrow> committed_matches (al_signals l @ [(k, r)]) t"
    for t
    using key by (auto simp: committed_matches_def map_add_def split: option.splits)
  then have trans: "transaction_ok (al_signals l) k' t \<Longrightarrow>
      transaction_ok (al_signals l @ [(k, r)]) k' t" for k' t
    by (simp add: transaction_ok_def)
  have "\<not> active_in m r" for m
    using assms(5) by (simp add: active_in_def)
  then show ?thesis
    using ok key assms(2-) mono trans
    by (auto simp: ledger_ok_def app delivery_ids_def active_pairs_def capacity_def)
qed

section \<open>The handlers\<close>

text \<open>
  What the operations keep true beyond validity: no two transactions share a signal or a
  delivery, and the signal of a transaction that is still prepared does not exist yet.  So
  committing it never overwrites a signal.
\<close>

definition pending_ok :: "ledger \<Rightarrow> bool" where
  "pending_ok l =
    (distinct (map (\<lambda>p. tx_signal_id (snd p)) (al_transactions l))
     \<and> distinct (map (\<lambda>p. tx_delivery_id (snd p)) (al_transactions l))
     \<and> (\<forall>p \<in> set (al_transactions l). tx_state (snd p) = PREPARED \<longrightarrow>
          map_of (al_signals l) (tx_signal_id (snd p)) = None
          \<and> tx_delivery_id (snd p) \<notin> set (delivery_ids (al_signals l))
          \<and> normalize_pair (tx_symbol (snd p)) \<noteq> None))"

definition reach_ok :: "ledger \<Rightarrow> bool" where
  "reach_ok l = (ledger_ok l \<and> pending_ok l)"

text \<open>Splitting \<open>commit_occupancy\<close> into its record and its three writes.\<close>

definition pending_signal :: "transaction \<Rightarrow> string \<Rightarrow> signal" where
  "pending_signal t u = \<lparr>
     sg_signal_id = tx_signal_id t, sg_delivery_id = tx_delivery_id t, sg_mode = tx_mode t,
     sg_symbol = tx_symbol t, sg_state = PUBLISHED_PENDING_ENTRY,
     sg_published_at = tx_published_at t, sg_entry_at = None, sg_terminal_at = None,
     sg_terminal_reason = None, sg_last_transition_id = tx_reservation_transition_id t,
     sg_source_payload_hash = tx_source_payload_hash t,
     sg_publication_payload_hash = tx_publication_payload_hash t,
     sg_created_at = u, sg_updated_at = u\<rparr>"

definition reserve_transition :: "ledger \<Rightarrow> transaction \<Rightarrow> string \<Rightarrow> transition" where
  "reserve_transition l t u = \<lparr>
     tr_transition_id = tx_reservation_transition_id t, tr_operation = RESERVE,
     tr_signal_id = tx_signal_id t, tr_from_state = None,
     tr_to_state = PUBLISHED_PENDING_ENTRY, tr_occurred_at = u, tr_terminal_reason = None,
     tr_ledger_revision = al_revision l + 1\<rparr>"

lemma commit_occupancy_alt:
  "commit_occupancy l t u = l\<lparr>
     al_signals := AList.update (tx_signal_id t) (pending_signal t u) (al_signals l),
     al_transitions := AList.update (tx_reservation_transition_id t) (reserve_transition l t u)
       (al_transitions l),
     al_transactions := AList.update (tx_transaction_id t)
       (t\<lparr>tx_state := OCCUPANCY_COMMITTED, tx_updated_at := u\<rparr>) (al_transactions l)\<rparr>"
  by (simp add: commit_occupancy_def pending_signal_def reserve_transition_def Let_def)

lemma map_of_in_set: "map_of al k = Some x \<Longrightarrow> (k, x) \<in> set al"
  by (rule map_of_SomeD)

lemma transaction_okD:
  assumes "ledger_ok l" "map_of (al_transactions l) k = Some t"
  shows "transaction_ok (al_signals l) k t"
  using assms map_of_in_set by (fastforce simp: ledger_ok_def)

lemma signal_okD:
  assumes "ledger_ok l" "map_of (al_signals l) k = Some r"
  shows "signal_ok k r"
  using assms map_of_in_set by (fastforce simp: ledger_ok_def)

lemma pending_okD:
  assumes "pending_ok l" "map_of (al_transactions l) k = Some t" "tx_state t = PREPARED"
  shows "map_of (al_signals l) (tx_signal_id t) = None"
    "tx_delivery_id t \<notin> set (delivery_ids (al_signals l))" "normalize_pair (tx_symbol t) \<noteq> None"
  using assms map_of_in_set by (fastforce simp: pending_ok_def)+

lemma commit_ledger_ok:
  assumes reach: "reach_ok l" and t: "map_of (al_transactions l) (tx_transaction_id t) = Some t"
    and prepared: "tx_state t = PREPARED" and u: "utc_string u"
  shows "ledger_ok (commit_occupancy l t u)"
proof -
  have ok: "ledger_ok l" and pend: "pending_ok l"
    using reach by (simp_all add: reach_ok_def)
  note tx = transaction_okD [OF ok t]
  note fresh = pending_okD [OF pend t prepared]
  let ?s = "AList.update (tx_signal_id t) (pending_signal t u) (al_signals l)"
  let ?l1 = "l\<lparr>al_signals := ?s\<rparr>"
  let ?l2 = "?l1\<lparr>al_transitions := AList.update (tx_reservation_transition_id t)
      (reserve_transition l t u) (al_transitions l)\<rparr>"
  let ?t = "t\<lparr>tx_state := OCCUPANCY_COMMITTED, tx_updated_at := u\<rparr>"
  have "ledger_ok ?l1"
    by (rule insert_signal_ok [OF ok fresh(1)])
      (use tx fresh u in \<open>simp_all add: signal_ok_def pending_signal_def transaction_ok_def
        state_shape_ok_def\<close>)
  moreover have "transition_ok (fst ` set (al_signals ?l1)) (tx_reservation_transition_id t)
      (reserve_transition l t u)"
    using tx u ok
    by (simp add: transition_ok_def reserve_transition_def transaction_ok_def keys_update
        ledger_ok_def)
  ultimately have "ledger_ok ?l2"
    using update_transition_ok [of ?l1] by simp
  moreover have "transaction_ok (al_signals ?l2) (tx_transaction_id t) ?t"
    using tx u prepared
    by (simp add: transaction_ok_def committed_matches_def pending_signal_def)
  ultimately show ?thesis
    using update_transaction_ok [of ?l2] by (simp add: commit_occupancy_alt)
qed

lemma distinct_snd_key:
  assumes "distinct (map (\<lambda>p. f (snd p)) al)" "p \<in> set al" "q \<in> set al"
    and "f (snd p) = f (snd q)"
  shows "p = q"
  using assms by (auto simp: distinct_map dest!: inj_onD)

lemma map_snd_fun_update:
  assumes "map_of al k = Some w" "f v = f w"
  shows "map (\<lambda>p. f (snd p)) (AList.update k v al) = map (\<lambda>p. f (snd p)) al"
  using map_snd_update_same [OF assms] by (simp add: comp_def)

lemma commit_pending_ok:
  assumes reach: "reach_ok l" and t: "map_of (al_transactions l) (tx_transaction_id t) = Some t"
    and prepared: "tx_state t = PREPARED"
  shows "pending_ok (commit_occupancy l t u)"
proof -
  have ok: "ledger_ok l" and pend: "pending_ok l"
    using reach by (simp_all add: reach_ok_def)
  note fresh = pending_okD [OF pend t prepared]
  let ?t = "t\<lparr>tx_state := OCCUPANCY_COMMITTED, tx_updated_at := u\<rparr>"
  let ?txs = "AList.update (tx_transaction_id t) ?t (al_transactions l)"
  let ?s = "AList.update (tx_signal_id t) (pending_signal t u) (al_signals l)"
  have sig: "set (delivery_ids ?s) = insert (tx_delivery_id t) (set (delivery_ids (al_signals l)))"
    unfolding update_fresh [OF fresh(1)] by (simp add: delivery_ids_def pending_signal_def)
  have dist: "distinct (map fst (al_transactions l))"
    using ok by (simp add: ledger_ok_def)
  have mem: "(tx_transaction_id t, t) \<in> set (al_transactions l)"
    using t by (rule map_of_in_set)
  have "map_of ?s (tx_signal_id (snd p)) = None \<and> tx_delivery_id (snd p) \<notin> set (delivery_ids ?s)
      \<and> normalize_pair (tx_symbol (snd p)) \<noteq> None"
    if p: "p \<in> set ?txs" "tx_state (snd p) = PREPARED" for p
  proof -
    have p': "p \<in> set (al_transactions l)" "fst p \<noteq> tx_transaction_id t"
      using update_in_cases [OF dist p(1)] p(2) by auto
    then have "p \<noteq> (tx_transaction_id t, t)"
      by auto
    then have "tx_signal_id (snd p) \<noteq> tx_signal_id t" "tx_delivery_id (snd p) \<noteq> tx_delivery_id t"
      using distinct_snd_key [OF _ p'(1) mem, of tx_signal_id]
        distinct_snd_key [OF _ p'(1) mem, of tx_delivery_id] pend
      by (auto simp: pending_ok_def)
    then show ?thesis
      using pend p' p(2) by (simp add: pending_ok_def sig)
  qed
  moreover have "map (\<lambda>p. tx_signal_id (snd p)) ?txs = map (\<lambda>p. tx_signal_id (snd p)) (al_transactions l)"
    "map (\<lambda>p. tx_delivery_id (snd p)) ?txs = map (\<lambda>p. tx_delivery_id (snd p)) (al_transactions l)"
    by (rule map_snd_fun_update [OF t]; simp)+
  ultimately show ?thesis
    using pend by (simp add: commit_occupancy_alt pending_ok_def)
qed

lemma commit_reach_ok:
  assumes "reach_ok l" "map_of (al_transactions l) (tx_transaction_id t) = Some t"
    "tx_state t = PREPARED" "utc_string u"
  shows "reach_ok (commit_occupancy l t u)"
  using commit_ledger_ok [OF assms] commit_pending_ok [OF assms(1-3)] by (simp add: reach_ok_def)

lemma transaction_payload_ok:
  assumes "transaction_payload tid trid sid did md sy pub h1 h2 u = Inr c"
  shows "transaction_ok signals (tx_transaction_id c) c" "tx_state c = PREPARED"
    "normalize_pair (tx_symbol c) \<noteq> None" "is_utc u"
  using assms unfolding transaction_payload_def inr_convs
  by (auto simp: transaction_ok_def str_pred_dest)

lemma reserve_handler_ok:
  assumes reach: "reach_ok l" and u: "utc_string u"
    and c: "transaction_ok (al_signals l) (tx_transaction_id c) c" "tx_state c = PREPARED"
      "normalize_pair (tx_symbol c) \<noteq> None"
    and h: "reserve_handler c durable er u l = Inr (Mutate m t)"
  shows "reach_ok m \<and> utc_string t \<and> al_revision m = al_revision l"
proof (cases "map_of (al_transactions l) (tx_transaction_id c)")
  case (Some existing)
  from h have "reservation_equivalent existing c" "tx_state existing = PREPARED"
    and m: "m = commit_occupancy l existing u" "t = u"
    by (auto simp: reserve_handler_def Some split: if_splits)
  then have "reach_ok m"
    using commit_reach_ok [OF reach, of existing] Some u
    by (simp add: reservation_equivalent_def)
  then show ?thesis
    using u by (simp add: m commit_occupancy_alt)
next
  case None
  let ?l = "l\<lparr>al_transactions := AList.update (tx_transaction_id c) c (al_transactions l)\<rparr>"
  from h have fresh: "map_of (al_signals l) (tx_signal_id c) = None"
    "\<forall>p \<in> set (al_signals l). sg_delivery_id (snd p) \<noteq> tx_delivery_id c"
    "\<forall>p \<in> set (al_transactions l). tx_signal_id (snd p) \<noteq> tx_signal_id c
       \<and> tx_delivery_id (snd p) \<noteq> tx_delivery_id c"
    and m: "m = (if durable then commit_occupancy ?l c u else ?l)" "t = u"
    unfolding reserve_handler_def None option.case inr_convs Let_def
    by (auto simp: list_ex_iff split: option.splits if_splits)
  have "ledger_ok ?l"
    using update_transaction_ok c(1) reach by (simp add: reach_ok_def)
  moreover have "pending_ok ?l"
    using reach fresh c(3)
    by (auto simp: reach_ok_def pending_ok_def update_fresh [OF None] delivery_ids_def)
  ultimately have "reach_ok ?l"
    by (simp add: reach_ok_def)
  then show ?thesis
    using commit_reach_ok [of ?l c u] c u by (simp add: m commit_occupancy_alt)
qed

lemma pending_ok_update_signal:
  assumes "pending_ok l" "map_of (al_signals l) k = Some r" "same_identity r r'"
  shows "pending_ok (l\<lparr>al_signals := AList.update k r' (al_signals l)\<rparr>)"
proof -
  have "delivery_ids (AList.update k r' (al_signals l)) = delivery_ids (al_signals l)"
    using map_snd_fun_update [OF assms(2), of sg_delivery_id r'] assms(3)
    by (simp add: delivery_ids_def same_identity_def)
  then show ?thesis
    using assms(1,2) by (auto simp: pending_ok_def)
qed

lemma transition_payload_ok:
  assumes "transition_payload op k sid fs ts ta reason rv = Inr c"
    and "sid \<in> A" "0 \<le> rv"
  shows "transition_ok A k c"
  using assms unfolding transition_payload_def inr_convs
  by (auto simp: transition_ok_def opt_all_def split: option.splits)

lemma change_signal_reach_ok:
  assumes reach: "reach_ok l" and r: "map_of (al_signals l) k = Some r"
    and r': "signal_ok k r'" "same_identity r r'"
    and cap: "\<And>m. active_in m r' \<Longrightarrow> \<not> active_in m r \<Longrightarrow>
        capacity (al_signals l) m < style_capacity m"
    and pair: "sg_state r' = ENTRY_ACTIVE \<Longrightarrow>
        \<not> pair_taken l k (normalize_pair (sg_symbol r'))"
    and c: "transition_payload op tid k fs ts ta reason (al_revision l + 1) = Inr c"
  shows "reach_ok (l\<lparr>al_signals := AList.update k r' (al_signals l),
    al_transitions := AList.update tid c (al_transitions l)\<rparr>)"
proof -
  let ?l = "l\<lparr>al_signals := AList.update k r' (al_signals l)\<rparr>"
  have "ledger_ok ?l"
    using update_signal_ok [OF _ r r' cap pair] reach by (simp add: reach_ok_def)
  moreover have "transition_ok (fst ` set (al_signals ?l)) tid c"
    using transition_payload_ok [OF c] reach
    by (simp add: keys_update reach_ok_def ledger_ok_def)
  ultimately have "ledger_ok (?l\<lparr>al_transitions := AList.update tid c (al_transitions ?l)\<rparr>)"
    by (rule update_transition_ok)
  moreover have "pending_ok ?l"
    using pending_ok_update_signal [OF _ r r'(2)] reach by (simp add: reach_ok_def)
  ultimately show ?thesis
    by (simp add: reach_ok_def pending_ok_def)
qed

text \<open>The guards under which \<open>mark_entry_active\<close> changes the ledger, and the change.\<close>

lemma entry_handler_mutates:
  "entry_handler er tid sid ta u rc l = Inr (Mutate m t) \<longleftrightarrow>
    (\<exists>r c. map_of (al_signals l) sid = Some r
      \<and> transition_payload ENTRY tid sid PUBLISHED_PENDING_ENTRY ENTRY_ACTIVE ta None
          (al_revision l + 1) = Inr c
      \<and> map_of (al_transitions l) tid = None
      \<and> revision_matches l er \<and> sg_state r = PUBLISHED_PENDING_ENTRY
      \<and> capacity (al_signals l) (sg_mode r) < style_capacity (sg_mode r)
      \<and> capacity_total (al_signals l) < total_capacity
      \<and> \<not> pair_taken l sid (normalize_pair (sg_symbol r))
      \<and> m = l\<lparr>al_signals := AList.update sid (r\<lparr>sg_state := ENTRY_ACTIVE,
                sg_entry_at := Some ta, sg_last_transition_id := tid,
                sg_updated_at := u\<rparr>) (al_signals l),
             al_transitions := AList.update tid c (al_transitions l)\<rparr>
      \<and> t = u)"
  by (auto simp: entry_handler_def existing_transition_def not_le
      split: option.splits sum.splits if_splits bool.splits)

lemma entry_handler_ok:
  assumes reach: "reach_ok l" and u: "utc_string u"
    and h: "entry_handler er tid sid ta u rc l = Inr (Mutate m t)"
  shows "reach_ok m \<and> utc_string t \<and> al_revision m = al_revision l"
proof -
  obtain r c where r: "map_of (al_signals l) sid = Some r"
    and c: "transition_payload ENTRY tid sid PUBLISHED_PENDING_ENTRY ENTRY_ACTIVE ta None
        (al_revision l + 1) = Inr c"
    and st: "sg_state r = PUBLISHED_PENDING_ENTRY"
    and cap: "capacity (al_signals l) (sg_mode r) < style_capacity (sg_mode r)"
    and pair: "\<not> pair_taken l sid (normalize_pair (sg_symbol r))"
    and m: "m = l\<lparr>al_signals := AList.update sid (r\<lparr>sg_state := ENTRY_ACTIVE,
                sg_entry_at := Some ta, sg_last_transition_id := tid,
                sg_updated_at := u\<rparr>) (al_signals l),
             al_transitions := AList.update tid c (al_transitions l)\<rparr>" and t: "t = u"
    using h unfolding entry_handler_mutates by blast
  have ta: "utc_string ta" "nonblank tid"
    using c by (auto simp: transition_payload_def split: if_splits)
  have "signal_ok sid r"
    using signal_okD [OF _ r] reach by (simp add: reach_ok_def)
  then have "signal_ok sid (r\<lparr>sg_state := ENTRY_ACTIVE, sg_entry_at := Some ta,
      sg_last_transition_id := tid, sg_updated_at := u\<rparr>)"
    using st ta u by (simp add: signal_ok_def state_shape_ok_def)
  then have "reach_ok m"
    unfolding m
    by (rule change_signal_reach_ok [OF reach r _ _ _ _ c])
      (use cap pair in \<open>auto simp: same_identity_def active_in_def\<close>)
  then show ?thesis
    using u by (simp add: t m)
qed

lemma terminal_handler_mutates:
  "terminal_handler er tid sid ts ta reason u rc l = Inr (Mutate m t) \<longleftrightarrow>
    (\<exists>r c. map_of (al_signals l) sid = Some r
      \<and> transition_payload TERMINAL tid sid (sg_state r) ts ta (Some reason)
          (al_revision l + 1) = Inr c
      \<and> map_of (al_transitions l) tid = None \<and> revision_matches l er
      \<and> (sg_state r = PUBLISHED_PENDING_ENTRY \<or> sg_state r = ENTRY_ACTIVE \<and> ts \<noteq> EXPIRED)
      \<and> m = l\<lparr>al_signals := AList.update sid (r\<lparr>sg_state := ts,
                sg_terminal_at := Some ta, sg_terminal_reason := Some reason,
                sg_last_transition_id := tid, sg_updated_at := u\<rparr>) (al_signals l),
             al_transitions := AList.update tid c (al_transitions l)\<rparr>
      \<and> t = u)"
  by (auto simp: terminal_handler_def existing_transition_def
      split: option.splits sum.splits if_splits bool.splits)

lemma terminal_handler_ok:
  assumes reach: "reach_ok l" and u: "utc_string u" and ts: "ts \<in> set terminal_states"
    and h: "terminal_handler er tid sid ts ta reason u rc l = Inr (Mutate m t)"
  shows "reach_ok m \<and> utc_string t \<and> al_revision m = al_revision l"
proof -
  obtain r c where r: "map_of (al_signals l) sid = Some r"
    and c: "transition_payload TERMINAL tid sid (sg_state r) ts ta (Some reason)
        (al_revision l + 1) = Inr c"
    and m: "m = l\<lparr>al_signals := AList.update sid (r\<lparr>sg_state := ts,
                sg_terminal_at := Some ta, sg_terminal_reason := Some reason,
                sg_last_transition_id := tid, sg_updated_at := u\<rparr>) (al_signals l),
             al_transitions := AList.update tid c (al_transitions l)\<rparr>" and t: "t = u"
    and st: "sg_state r = PUBLISHED_PENDING_ENTRY \<or> sg_state r = ENTRY_ACTIVE"
    using h unfolding terminal_handler_mutates by blast
  have ta: "utc_string ta" "nonblank tid" "nonblank reason"
    using c by (auto simp: transition_payload_def split: if_splits)
  have "signal_ok sid r"
    using signal_okD [OF _ r] reach by (simp add: reach_ok_def)
  then have "signal_ok sid (r\<lparr>sg_state := ts, sg_terminal_at := Some ta,
      sg_terminal_reason := Some reason, sg_last_transition_id := tid, sg_updated_at := u\<rparr>)"
    using st ts ta u by (cases "sg_entry_at r") (auto simp: signal_ok_def state_shape_ok_def)
  then have "reach_ok m"
    unfolding m
    by (rule change_signal_reach_ok [OF reach r _ _ _ _ c])
      (use ts in \<open>auto simp: same_identity_def active_in_def\<close>)
  then show ?thesis
    using u by (simp add: t m)
qed

text \<open>Settling a transaction keeps the pending ones as they were.\<close>

lemma pending_ok_settle:
  assumes pend: "pending_ok l" and dist: "distinct (map fst (al_transactions l))"
    and t: "map_of (al_transactions l) k = Some t"
    and t': "tx_state t' \<noteq> PREPARED" "tx_signal_id t' = tx_signal_id t"
      "tx_delivery_id t' = tx_delivery_id t"
  shows "pending_ok (l\<lparr>al_transactions := AList.update k t' (al_transactions l)\<rparr>)"
proof -
  have old: "p \<in> set (al_transactions l)"
    if "p \<in> set (AList.update k t' (al_transactions l))" "tx_state (snd p) = PREPARED" for p
    using update_in_cases [OF dist that(1)] that(2) t'(1) by auto
  have "map (\<lambda>p. tx_signal_id (snd p)) (AList.update k t' (al_transactions l)) =
      map (\<lambda>p. tx_signal_id (snd p)) (al_transactions l)"
    "map (\<lambda>p. tx_delivery_id (snd p)) (AList.update k t' (al_transactions l)) =
      map (\<lambda>p. tx_delivery_id (snd p)) (al_transactions l)"
    by (rule map_snd_fun_update [OF t]; simp add: t')+
  then show ?thesis
    using pend old by (simp add: pending_ok_def)
qed

lemma reconcile_handler_ok:
  assumes reach: "reach_ok l" and u: "utc_string u"
    and h: "reconcile_handler er tid ex s d hs u reason l = Inr (Mutate m t)"
  shows "reach_ok m \<and> utc_string t \<and> al_revision m = al_revision l"
proof -
  from h obtain tx where tx: "map_of (al_transactions l) tid = Some tx"
    and st: "tx_state tx = PREPARED" and t: "t = u"
    and cases: "m = commit_occupancy l tx u \<or> (is_ident reason \<and>
      m = l\<lparr>al_transactions := AList.update tid (tx\<lparr>tx_state := ABORTED, tx_updated_at := u,
        tx_aborted_at := Some u, tx_abort_reason := Some (the_str reason)\<rparr>) (al_transactions l)\<rparr>)"
    by (auto simp: reconcile_handler_def split: option.splits if_splits)
      (metis tx_status.exhaust)+
  have id: "tx_transaction_id tx = tid" and ok: "transaction_ok (al_signals l) tid tx"
    using transaction_okD tx reach by (auto simp: reach_ok_def transaction_ok_def)
  from cases show ?thesis
  proof
    assume m: "m = commit_occupancy l tx u"
    then show ?thesis
      using commit_reach_ok [OF reach _ st u] tx id u t by (simp add: commit_occupancy_alt)
  next
    let ?tx = "tx\<lparr>tx_state := ABORTED, tx_updated_at := u, tx_aborted_at := Some u,
        tx_abort_reason := Some (the_str reason)\<rparr>"
    assume m: "is_ident reason \<and> m = l\<lparr>al_transactions := AList.update tid ?tx (al_transactions l)\<rparr>"
    then have "ledger_ok m"
      using update_transaction_ok [of l tid ?tx] ok reach u
      by (simp add: reach_ok_def transaction_ok_def str_pred_dest)
    moreover have "pending_ok m"
      using pending_ok_settle [OF _ _ tx, of ?tx] m reach
      by (simp add: reach_ok_def ledger_ok_def)
    ultimately show ?thesis
      using m u t by (simp add: reach_ok_def)
  qed
qed

end
