(* ===== verification/Active_Ledger_Calls.thy ===== *)
theory Active_Ledger_Calls
  imports Active_Ledger_Steps
begin

text \<open>
  The public operations of the active-signal ledger as one transition system on its file:
  what a call can change, the files a sequence of calls can reach, and the abstract machine
  (a map from signal id to style, symbol and lifecycle state) that the detailed operations
  implement.
\<close>

section \<open>Calls and reachable files\<close>

datatype call =
    Initialize_Ledger pv
  | Reserve_Published_Signal pv pv pv pv pv pv pv pv pv pv pv pv
  | Mark_Entry_Active pv string string pv pv pv
  | Transition_Terminal pv string string pv pv pv pv pv
  | Reconcile_Publication pv pv pv pv pv pv pv pv

fun exec_call :: "io \<Rightarrow> call \<Rightarrow> disk_file \<Rightarrow> (aerror, ledger) result \<times> disk_file" where
  "exec_call io (Initialize_Ledger t) f = initialize_ledger io f t"
| "exec_call io (Reserve_Published_Signal er tx tr sid did md sy pub h1 h2 u durable) f =
     reserve_published_signal io f er tx tr sid did md sy pub h1 h2 u durable"
| "exec_call io (Mark_Entry_Active er tr sid ea u rc) f =
     mark_entry_active io f er tr sid ea u rc"
| "exec_call io (Transition_Terminal er tr sid ts ta reason u rc) f =
     transition_terminal io f er tr sid ts ta reason u rc"
| "exec_call io (Reconcile_Publication er tx ex s d h u reason) f =
     reconcile_publication_state io f er tx ex s d h u reason"

text \<open>One call of the module, whatever the operating system does during it.\<close>

inductive call_step :: "disk_file \<Rightarrow> disk_file \<Rightarrow> bool" where
  "call_step f (snd (exec_call io c f))"

inductive reachable_file :: "disk_file \<Rightarrow> bool" where
  start: "reachable_file Absent"
| step: "reachable_file f \<Longrightarrow> call_step f g \<Longrightarrow> reachable_file g"

definition file_ok :: "disk_file \<Rightarrow> bool" where
  "file_ok f = (f = Absent \<or> (\<exists>l. read_ledger f = Inr l \<and> reach_ok l))"

section \<open>What a changing call does\<close>

lemma distinct_map_sort: "distinct (map g (sort_key f xs)) = distinct (map g xs)"
  by (metis mset_map mset_sort mset_eq_imp_distinct_iff)

lemma sorted_ledger_simps [simp]:
  "al_signals (sorted_ledger l) = sort_key fst (al_signals l)"
  "al_transitions (sorted_ledger l) = sort_key fst (al_transitions l)"
  "al_transactions (sorted_ledger l) = sort_key fst (al_transactions l)"
  "al_revision (sorted_ledger l) = al_revision l"
  "al_created_at (sorted_ledger l) = al_created_at l"
  "al_updated_at (sorted_ledger l) = al_updated_at l"
  by (simp_all add: sorted_ledger_def)

lemma pending_ok_sorted:
  assumes "ledger_ok l" "pending_ok l"
  shows "pending_ok (sorted_ledger l)"
proof -
  have "set (delivery_ids (sort_key fst (al_signals l))) = set (delivery_ids (al_signals l))"
    by (simp add: delivery_ids_def)
  then show ?thesis
    using assms by (simp add: pending_ok_def distinct_map_sort map_of_sort_key ledger_ok_def)
qed

lemma reach_ok_sorted: "reach_ok l \<Longrightarrow> reach_ok (sorted_ledger l)"
  by (simp add: reach_ok_def pending_ok_sorted)

lemma reach_ok_bump: "reach_ok l \<Longrightarrow> utc_string t \<Longrightarrow> reach_ok (bump l t)"
  using ledger_ok_bump by (auto simp: reach_ok_def pending_ok_def)

lemma lookup_sorted_ledger:
  assumes "ledger_ok l"
  shows "map_of (al_signals (sorted_ledger l)) = map_of (al_signals l)"
    "map_of (al_transitions (sorted_ledger l)) = map_of (al_transitions l)"
    "map_of (al_transactions (sorted_ledger l)) = map_of (al_transactions l)"
  using assms by (simp_all add: ledger_ok_def map_of_sort_key)

lemma read_persisted:
  assumes "reach_ok l"
  shows "read_ledger (Stored (sort_doc (ledger_doc l))) = Inr (sorted_ledger l)"
  using assms validate_sorted_doc by (simp add: read_ledger_def reach_ok_def)

interpretation al_guard: guarded_ledger
  read_ledger "persist_mutation io" ledger_ok al_revision same_ledger reach_ok utc_string bump for io
proof unfold_locales
  fix f f' :: disk_file and l l' :: ledger and t :: string
  assume l: "reach_ok l" and t: "utc_string t" and p: "persist_mutation io f l t = (Inr l', f')"
  then have "(Inr l', f') = (if replace_ok io
      then (Inr (bump l t), Stored (sort_doc (ledger_doc (bump l t)))) else (Inl ATOMIC_WRITE_FAILED, f))"
    by (simp add: persist_mutation_ok reach_ok_def)
  then have l': "l' = bump l t" "f' = Stored (sort_doc (ledger_doc l'))"
    by (simp_all split: if_splits)
  have "reach_ok (bump l t)"
    using l t by (rule reach_ok_bump)
  then show "l' = bump l t \<and> reach_ok l' \<and> ledger_ok l' \<and> (\<forall>m. read_ledger f' = Inr m \<longrightarrow> reach_ok m)"
    using l' read_persisted [of l'] reach_ok_sorted [of l'] by (auto simp: reach_ok_def)
qed

abbreviation handler_ok :: "(ledger \<Rightarrow> (aerror, ledger mutation) result) \<Rightarrow> bool" where
  "handler_ok \<equiv> sound_handler reach_ok utc_string al_revision"

lemma file_ok_read: "file_ok f \<Longrightarrow> \<forall>l. read_ledger f = Inr l \<longrightarrow> reach_ok l"
  by (auto simp: file_ok_def read_ledger_def)

lemma run_locked_outcome:
  assumes "file_ok f" "handler_ok h" "run_locked io f h = (res, g)"
  obtains (failed) e where "res = Inl e" "g = f"
  | (kept) l where "read_ledger f = Inr l" "reach_ok l" "h l = Inr (Keep l)" "res = Inr l" "g = f"
  | (changed) l m t where "read_ledger f = Inr l" "reach_ok l" "h l = Inr (Mutate m t)"
      "reach_ok m" "utc_string t" "al_revision m = al_revision l"
      "res = Inr (bump m t)" "g = Stored (sort_doc (ledger_doc (bump m t)))"
proof (cases rule: al_guard.run_outcome [OF file_ok_read [OF assms(1)] assms(2)
      assms(3) [unfolded run_locked_def], case_names failed kept changed])
  case (failed e)
  then show thesis by (rule that(1))
next
  case (kept l)
  then show thesis by (rule that(2))
next
  case (changed l m t n)
  have "g = Stored (sort_doc (ledger_doc (bump m t)))"
    using changed(4,5,7) persist_mutation_ok [of m t io f] by (auto simp: reach_ok_def split: if_splits)
  with changed show thesis by (intro that(3))
qed

lemma reserve_handler_keep: "reserve_handler c d er u l = Inr (Keep m) \<Longrightarrow> m = l"
  by (auto simp: reserve_handler_def Let_def split: option.splits if_splits)

lemma entry_handler_keep: "entry_handler er tr sid ea u rc l = Inr (Keep m) \<Longrightarrow> m = l"
  by (auto simp: entry_handler_def split: option.splits sum.splits if_splits bool.splits)

lemma terminal_handler_keep: "terminal_handler er tr sid ts ta re u rc l = Inr (Keep m) \<Longrightarrow> m = l"
  by (auto simp: terminal_handler_def split: option.splits sum.splits if_splits bool.splits)

lemma reconcile_handler_keep: "reconcile_handler er tx ex s d h u re l = Inr (Keep m) \<Longrightarrow> m = l"
  by (auto simp: reconcile_handler_def split: option.splits if_splits)

lemmas handlers_keep =
  reserve_handler_keep entry_handler_keep terminal_handler_keep reconcile_handler_keep

text \<open>The handler a call runs once its arguments are accepted.\<close>

fun call_handler :: "call \<Rightarrow> (ledger \<Rightarrow> (aerror, ledger mutation) result) option" where
  "call_handler (Initialize_Ledger t) = None"
| "call_handler (Reserve_Published_Signal er tx tr sid did md sy pub h1 h2 u durable) =
     (case durable of
        PBool d \<Rightarrow>
          (case transaction_payload tx tr sid did md sy pub h1 h2 u of
             Inl e \<Rightarrow> None | Inr c \<Rightarrow> Some (reserve_handler c d er (the_str u)))
      | _ \<Rightarrow> None)"
| "call_handler (Mark_Entry_Active er tr sid ea u rc) =
     (if is_utc ea \<and> is_utc u then
        (case rc of
           PBool b \<Rightarrow> Some (entry_handler er tr sid (the_str ea) (the_str u) b)
         | _ \<Rightarrow> None)
      else None)"
| "call_handler (Transition_Terminal er tr sid ts ta reason u rc) =
     (case lifecycle_of ts of
        None \<Rightarrow> None
      | Some st \<Rightarrow>
          if st \<in> set terminal_states \<and> is_utc ta \<and> is_utc u \<and> is_ident reason then
            (case rc of
               PBool b \<Rightarrow> Some (terminal_handler er tr sid st (the_str ta) (the_str reason)
                 (the_str u) b)
             | _ \<Rightarrow> None)
          else None)"
| "call_handler (Reconcile_Publication er tx ex s d h u reason) =
     (case ex of
        PBool b \<Rightarrow>
          if is_utc u \<and> is_ident tx
          then Some (reconcile_handler er (the_str tx) b s d h (the_str u) reason) else None
      | _ \<Rightarrow> None)"

lemma exec_call_handler:
  "(\<exists>t. c = Initialize_Ledger t) \<or> (call_handler c = None \<and> (\<exists>e. exec_call io c f = (Inl e, f)))
    \<or> (\<exists>h. call_handler c = Some h \<and> exec_call io c f = run_locked io f h)"
proof (cases c)
  case (Reserve_Published_Signal er tx tr sid did md sy pub h1 h2 u durable)
  then show ?thesis
    by (cases durable; cases "transaction_payload tx tr sid did md sy pub h1 h2 u")
      (simp_all add: reserve_published_signal_def)
next
  case (Mark_Entry_Active er tr sid ea u rc)
  then show ?thesis
    by (cases rc) (simp_all add: mark_entry_active_def)
next
  case (Transition_Terminal er tr sid ts ta reason u rc)
  then show ?thesis
    by (cases rc; cases "lifecycle_of ts")
      (simp_all add: transition_terminal_def del: in_terminal_states lifecycle_of_iff)
next
  case (Reconcile_Publication er tx ex s d h u reason)
  then show ?thesis
    by (cases ex) (simp_all add: reconcile_publication_state_def)
qed simp

lemma exec_call_cases:
  obtains (init) t where "c = Initialize_Ledger t"
  | (rejected) e where "exec_call io c f = (Inl e, f)"
  | (handled) h where "call_handler c = Some h" "exec_call io c f = run_locked io f h"
  using exec_call_handler by blast

lemma call_handler_ok:
  assumes "call_handler c = Some h"
  shows "handler_ok h"
proof (cases c)
  case (Initialize_Ledger t)
  with assms show ?thesis by simp
next
  case (Reserve_Published_Signal er tx tr sid did md sy pub h1 h2 u durable)
  with assms obtain d cand where h: "h = reserve_handler cand d er (the_str u)"
    and cand: "transaction_payload tx tr sid did md sy pub h1 h2 u = Inr cand"
    by (auto split: pv.splits sum.splits)
  note c = transaction_payload_ok [OF cand]
  show ?thesis
    unfolding h
    by (rule sound_handlerI)
      (erule reserve_handler_keep, erule reserve_handler_ok [OF _ str_pred_dest(2) [OF c(4)] c(1-3)])
next
  case (Mark_Entry_Active er tr sid ea u rc)
  with assms obtain b where h: "h = entry_handler er tr sid (the_str ea) (the_str u) b"
    and "is_utc u"
    by (auto split: pv.splits if_splits)
  then have "utc_string (the_str u)"
    by (simp add: str_pred_dest)
  then show ?thesis
    unfolding h
    by (intro sound_handlerI) (erule entry_handler_keep, erule (2) entry_handler_ok)
next
  case (Transition_Terminal er tr sid ts ta reason u rc)
  with assms obtain b st where
    h: "h = terminal_handler er tr sid st (the_str ta) (the_str reason) (the_str u) b"
    and st: "st \<in> set terminal_states" and u: "is_utc u"
    by (cases rc; cases "lifecycle_of ts")
      (simp_all del: in_terminal_states lifecycle_of_iff split: if_splits, blast)
  show ?thesis
    unfolding h by (rule sound_handlerI)
      (erule terminal_handler_keep, erule terminal_handler_ok [OF _ str_pred_dest(2) [OF u] st])
next
  case (Reconcile_Publication er tx ex s d ah u reason)
  with assms obtain b where h: "h = reconcile_handler er (the_str tx) b s d ah (the_str u) reason"
    and "is_utc u"
    by (auto split: pv.splits if_splits)
  then have "utc_string (the_str u)"
    by (simp add: str_pred_dest)
  then show ?thesis
    unfolding h
    by (intro sound_handlerI) (erule reconcile_handler_keep, erule (2) reconcile_handler_ok)
qed

lemma initialize_outcome:
  obtains (failed) e where "initialize_ledger io f t = (Inl e, f)"
  | (created) l where "f = Absent" "reach_ok l" "al_signals l = []" "al_transitions l = []"
      "al_transactions l = []" "al_revision l = 0"
      "initialize_ledger io f t = (Inr l, Stored (sort_doc (ledger_doc l)))"
proof (cases "\<exists>e. initialize_ledger io f t = (Inl e, f)")
  case True
  then show thesis using failed by blast
next
  case False
  let ?l = "\<lparr>al_revision = 0, al_created_at = the_str t, al_updated_at = the_str t,
    al_signals = [], al_transitions = [], al_transactions = []\<rparr>"
  have "f = Absent" "is_utc t"
    using False by (auto simp: initialize_ledger_def ledger_lock_def create_empty_ledger_def
        split: if_splits)
  moreover from this have ok: "reach_ok ?l"
    by (simp add: reach_ok_def ledger_ok_def pending_ok_def str_pred_dest delivery_ids_def
        active_pairs_def capacity_def)
  ultimately have "initialize_ledger io f t = (Inr ?l, Stored (sort_doc (ledger_doc ?l)))"
    using False by (auto simp: initialize_ledger_def ledger_lock_def create_empty_ledger_def
        atomic_write_ok reach_ok_def split: if_splits)
  with \<open>f = Absent\<close> ok show thesis
    using created by simp
qed

text \<open>Everything a call can do to a sound file.\<close>

lemma exec_call_outcome:
  assumes "file_ok f" "exec_call io c f = (res, g)"
  obtains (failed) e where "res = Inl e" "g = f"
  | (created) l where "f = Absent" "reach_ok l" "al_signals l = []" "al_transitions l = []"
      "al_transactions l = []" "al_revision l = 0" "res = Inr l"
      "g = Stored (sort_doc (ledger_doc l))"
  | (kept) l where "read_ledger f = Inr l" "reach_ok l" "res = Inr l" "g = f"
  | (changed) l h m t where "read_ledger f = Inr l" "reach_ok l" "call_handler c = Some h"
      "h l = Inr (Mutate m t)" "reach_ok m" "utc_string t" "al_revision m = al_revision l"
      "res = Inr (bump m t)" "g = Stored (sort_doc (ledger_doc (bump m t)))"
  using exec_call_cases [where c = c and io = io and f = f]
proof cases
  case (init t)
  show thesis
    using initialize_outcome [where io = io and f = f and t = t]
  proof cases
    case (failed e)
    then show thesis using that(1) init assms(2) by auto
  next
    case (created l)
    then show thesis using that(2) init assms(2) by auto
  qed
next
  case (rejected e)
  then show thesis
    using assms(2) that(1) by simp
next
  case (handled h)
  then have "run_locked io f h = (res, g)"
    using assms(2) by simp
  with assms(1) call_handler_ok [OF handled(1)] show thesis
  proof (cases rule: run_locked_outcome)
    case failed
    then show thesis by (rule that(1))
  next
    case kept
    then show thesis using that(3) by blast
  next
    case changed
    then show thesis using that(4) handled(1) by blast
  qed
qed

lemma file_ok_persisted: "reach_ok l \<Longrightarrow> file_ok (Stored (sort_doc (ledger_doc l)))"
  using read_persisted reach_ok_sorted by (auto simp: file_ok_def)

lemma file_ok_step:
  assumes "file_ok f" "call_step f g"
  shows "file_ok g"
  using assms(2)
proof cases
  case (1 io c)
  obtain res where res: "exec_call io c f = (res, g)"
    using 1 by (metis prod.collapse)
  from assms(1) res show ?thesis
    by (cases rule: exec_call_outcome)
      (use assms(1) in \<open>auto intro: file_ok_persisted reach_ok_bump\<close>)
qed

lemma reachable_file_ok: "reachable_file f \<Longrightarrow> file_ok f"
  by (induction rule: reachable_file.induct) (auto simp: file_ok_def [of Absent] intro: file_ok_step)

end
