(* ===== verification/Active_Ledger_Spec.thy ===== *)
theory Active_Ledger_Spec
  imports Active_Ledger_Calls
begin

text \<open>
  The abstract machine of the active-signal ledger.  Seen from outside, a ledger is a map
  from signal id to trading style, canonical pair and lifecycle state; a call leaves the map
  alone or performs one of four steps.  The theory shows that every handler changes the
  signals in one of the ways of \<open>signal_change\<close>, and derives from it the refinement of
  the abstract machine and what a sequence of calls can never do.
\<close>

section \<open>The ways the signals change\<close>

inductive signal_change :: "(string \<times> signal) list \<Rightarrow> (string \<times> signal) list \<Rightarrow> bool" where
  same: "signal_change s s"
| published: "map_of s k = None \<Longrightarrow> sg_state r = PUBLISHED_PENDING_ENTRY
    \<Longrightarrow> normalize_pair (sg_symbol r) \<noteq> None \<Longrightarrow> signal_change s (AList.update k r s)"
| activated: "map_of s k = Some r \<Longrightarrow> sg_state r = PUBLISHED_PENDING_ENTRY
    \<Longrightarrow> capacity s (sg_mode r) < style_capacity (sg_mode r)
    \<Longrightarrow> \<forall>j q. map_of s j = Some q \<longrightarrow> j \<noteq> k \<longrightarrow> sg_state q = ENTRY_ACTIVE
         \<longrightarrow> normalize_pair (sg_symbol q) \<noteq> normalize_pair (sg_symbol r)
    \<Longrightarrow> same_identity r r' \<Longrightarrow> sg_state r' = ENTRY_ACTIVE
    \<Longrightarrow> signal_change s (AList.update k r' s)"
| settled: "map_of s k = Some r \<Longrightarrow> sg_state r' \<in> set terminal_states
    \<Longrightarrow> sg_state r = PUBLISHED_PENDING_ENTRY
       \<or> sg_state r = ENTRY_ACTIVE \<and> sg_state r' \<noteq> EXPIRED
    \<Longrightarrow> same_identity r r' \<Longrightarrow> signal_change s (AList.update k r' s)"

inductive_cases signal_changeE: "signal_change s s'"

lemma commit_signal_change:
  assumes "map_of (al_signals l) (tx_signal_id t) = None" "normalize_pair (tx_symbol t) \<noteq> None"
  shows "signal_change (al_signals l) (al_signals (commit_occupancy l t u))"
  using assms by (auto simp: commit_occupancy_alt pending_signal_def intro!: signal_change.published)

lemma reserve_handler_signals:
  assumes reach: "reach_ok l" and c: "normalize_pair (tx_symbol c) \<noteq> None"
    and h: "reserve_handler c durable er u l = Inr (Mutate m t)"
  shows "signal_change (al_signals l) (al_signals m)"
proof (cases "map_of (al_transactions l) (tx_transaction_id c)")
  case (Some existing)
  with h have m: "m = commit_occupancy l existing u" "tx_state existing = PREPARED"
    by (auto simp: reserve_handler_def split: if_splits)
  have "pending_ok l"
    using reach by (simp add: reach_ok_def)
  from pending_okD [OF this Some m(2)] show ?thesis
    unfolding m(1) by (intro commit_signal_change) simp_all
next
  case None
  let ?l = "l\<lparr>al_transactions := AList.update (tx_transaction_id c) c (al_transactions l)\<rparr>"
  from h None have m: "m = (if durable then commit_occupancy ?l c u else ?l)"
    and new: "map_of (al_signals l) (tx_signal_id c) = None"
    unfolding reserve_handler_def None option.case inr_convs Let_def
    by (auto split: option.splits if_splits)
  show ?thesis
    using commit_signal_change [of ?l c u] new c by (auto simp: m intro: signal_change.same)
qed

lemma pair_free:
  assumes ok: "ledger_ok l" and free: "\<not> pair_taken l k p" and j: "map_of (al_signals l) j = Some q"
    and "j \<noteq> k" "sg_state q = ENTRY_ACTIVE"
  shows "normalize_pair (sg_symbol q) \<noteq> p"
proof -
  have "sg_signal_id q = j"
    using signal_okD [OF ok j] by (simp add: signal_ok_def)
  then show ?thesis
    using assms map_of_in_set [OF j] by (auto simp: pair_taken_def list_ex_iff)
qed

lemma entry_handler_signals:
  assumes reach: "reach_ok l" and h: "entry_handler er tid sid ta u rc l = Inr (Mutate m t)"
  shows "signal_change (al_signals l) (al_signals m)"
proof -
  obtain r c where r: "map_of (al_signals l) sid = Some r" "sg_state r = PUBLISHED_PENDING_ENTRY"
    "capacity (al_signals l) (sg_mode r) < style_capacity (sg_mode r)"
    and free: "\<not> pair_taken l sid (normalize_pair (sg_symbol r))"
    and m: "al_signals m = AList.update sid (r\<lparr>sg_state := ENTRY_ACTIVE, sg_entry_at := Some ta,
      sg_last_transition_id := tid, sg_updated_at := u\<rparr>) (al_signals l)"
    using h unfolding entry_handler_mutates by auto
  have "\<forall>j q. map_of (al_signals l) j = Some q \<longrightarrow> j \<noteq> sid \<longrightarrow> sg_state q = ENTRY_ACTIVE
      \<longrightarrow> normalize_pair (sg_symbol q) \<noteq> normalize_pair (sg_symbol r)"
    using pair_free [OF _ free] reach by (simp add: reach_ok_def)
  then show ?thesis
    unfolding m by (intro signal_change.activated [OF r]) (simp_all add: same_identity_def)
qed

lemma terminal_handler_signals:
  assumes h: "terminal_handler er tid sid ts ta reason u rc l = Inr (Mutate m t)"
    and "ts \<in> set terminal_states"
  shows "signal_change (al_signals l) (al_signals m)"
  using assms unfolding terminal_handler_mutates
  by (auto simp: same_identity_def intro!: signal_change.settled)

lemma reconcile_handler_mutates:
  assumes "reconcile_handler er tid ex s d hs u reason l = Inr (Mutate m t)"
  obtains tx where "map_of (al_transactions l) tid = Some tx" "tx_state tx = PREPARED"
    "m = commit_occupancy l tx u \<or> m = l\<lparr>al_transactions := AList.update tid
       (tx\<lparr>tx_state := ABORTED, tx_updated_at := u, tx_aborted_at := Some u,
          tx_abort_reason := Some (the_str reason)\<rparr>) (al_transactions l)\<rparr>"
  using assms
  by (auto simp: reconcile_handler_def split: option.splits if_splits) (metis tx_status.exhaust)+

lemma reconcile_handler_signals:
  assumes reach: "reach_ok l"
    and h: "reconcile_handler er tid ex s d hs u reason l = Inr (Mutate m t)"
  shows "signal_change (al_signals l) (al_signals m)"
  using h
proof (rule reconcile_handler_mutates)
  fix tx
  assume tx: "map_of (al_transactions l) tid = Some tx" "tx_state tx = PREPARED"
    and m: "m = commit_occupancy l tx u \<or> m = l\<lparr>al_transactions := AList.update tid
       (tx\<lparr>tx_state := ABORTED, tx_updated_at := u, tx_aborted_at := Some u,
          tx_abort_reason := Some (the_str reason)\<rparr>) (al_transactions l)\<rparr>"
  have "pending_ok l"
    using reach by (simp add: reach_ok_def)
  from pending_okD [OF this tx] m show ?thesis
    by (auto intro: signal_change.same intro!: commit_signal_change)
qed

lemma call_handler_signals:
  assumes "call_handler c = Some h" and reach: "reach_ok l" and m: "h l = Inr (Mutate m t)"
  shows "signal_change (al_signals l) (al_signals m)"
proof (cases c)
  case (Initialize_Ledger t)
  with assms show ?thesis by simp
next
  case (Reserve_Published_Signal er tx tr sid did md sy pub h1 h2 u durable)
  with assms obtain d cand where "h = reserve_handler cand d er (the_str u)"
    and cand: "transaction_payload tx tr sid did md sy pub h1 h2 u = Inr cand"
    by (auto split: pv.splits sum.splits)
  then show ?thesis
    using reserve_handler_signals [OF reach] transaction_payload_ok(3) [OF cand] m by simp
next
  case (Mark_Entry_Active er tr sid ea u rc)
  with assms show ?thesis
    using entry_handler_signals [OF reach] by (auto split: pv.splits if_splits)
next
  case (Transition_Terminal er tr sid ts ta reason u rc)
  with assms(1) obtain b st where
    "h = terminal_handler er tr sid st (the_str ta) (the_str reason) (the_str u) b"
    "st \<in> set terminal_states"
    by (cases rc; cases "lifecycle_of ts")
      (simp_all del: in_terminal_states lifecycle_of_iff split: if_splits, blast)
  then show ?thesis
    using terminal_handler_signals m by blast
next
  case (Reconcile_Publication er tx ex s d ah u reason)
  with assms show ?thesis
    using reconcile_handler_signals [OF reach] by (auto split: pv.splits if_splits)
qed

section \<open>Transactions that are settled stay as they are\<close>

text \<open>Both \<open>OCCUPANCY_COMMITTED\<close> and \<open>ABORTED\<close> transactions are final.\<close>

definition settled_kept :: "ledger \<Rightarrow> ledger \<Rightarrow> bool" where
  "settled_kept l m =
    (\<forall>k t. map_of (al_transactions l) k = Some t \<longrightarrow> tx_state t \<noteq> PREPARED
      \<longrightarrow> map_of (al_transactions m) k = Some t)"

lemma call_handler_settled:
  assumes c: "call_handler c = Some h" and reach: "reach_ok l" and m: "h l = Inr (Mutate m t)"
  shows "settled_kept l m"
proof (cases c)
  case (Initialize_Ledger t)
  with assms show ?thesis by simp
next
  case (Reserve_Published_Signal er tx tr sid did md sy pub h1 h2 u durable)
  with c obtain d cand where h: "h = reserve_handler cand d er (the_str u)"
    by (auto split: pv.splits sum.splits)
  let ?k = "tx_transaction_id cand"
  show ?thesis
  proof (cases "map_of (al_transactions l) ?k")
    case (Some existing)
    with m h have "m = commit_occupancy l existing (the_str u)" "tx_state existing = PREPARED"
      "tx_transaction_id existing = ?k"
      by (auto simp: reserve_handler_def reservation_equivalent_def split: if_splits)
    with Some show ?thesis
      by (auto simp: settled_kept_def commit_occupancy_alt)
  next
    case None
    let ?l = "l\<lparr>al_transactions := AList.update ?k cand (al_transactions l)\<rparr>"
    from m have "m = (if d then commit_occupancy ?l cand (the_str u) else ?l)"
      unfolding h reserve_handler_def None option.case inr_convs Let_def
      by (auto split: option.splits if_splits)
    with None show ?thesis
      by (auto simp: settled_kept_def commit_occupancy_alt)
  qed
next
  case (Mark_Entry_Active er tr sid ea u rc)
  with c m show ?thesis
    by (auto simp: entry_handler_mutates settled_kept_def split: pv.splits if_splits)
next
  case (Transition_Terminal er tr sid ts ta reason u rc)
  with c obtain b st where
    "h = terminal_handler er tr sid st (the_str ta) (the_str reason) (the_str u) b"
    by (cases rc; cases "lifecycle_of ts")
      (simp_all del: in_terminal_states lifecycle_of_iff split: if_splits, blast)
  with m show ?thesis
    by (auto simp: terminal_handler_mutates settled_kept_def)
next
  case (Reconcile_Publication er tx ex s d ah u reason)
  with c obtain b where h: "h = reconcile_handler er (the_str tx) b s d ah (the_str u) reason"
    by (auto split: pv.splits if_splits)
  show ?thesis
    using m unfolding h
  proof (rule reconcile_handler_mutates)
    fix x
    assume x: "map_of (al_transactions l) (the_str tx) = Some x" "tx_state x = PREPARED"
      and m: "m = commit_occupancy l x (the_str u) \<or>
        m = l\<lparr>al_transactions := AList.update (the_str tx)
          (x\<lparr>tx_state := ABORTED, tx_updated_at := the_str u, tx_aborted_at := Some (the_str u),
             tx_abort_reason := Some (the_str reason)\<rparr>) (al_transactions l)\<rparr>"
    have "tx_transaction_id x = the_str tx"
      using transaction_okD [OF _ x(1)] reach by (simp add: reach_ok_def transaction_ok_def)
    with x m show ?thesis
      by (auto simp: settled_kept_def commit_occupancy_alt)
  qed
qed

section \<open>The abstract machine\<close>

type_synonym board = "string \<rightharpoonup> style \<times> string \<times> lifecycle"

definition board_load :: "board \<Rightarrow> style \<Rightarrow> nat" where
  "board_load b m = card {k. \<exists>p. b k = Some (m, p, ENTRY_ACTIVE)}"

definition pair_open :: "board \<Rightarrow> string \<Rightarrow> bool" where
  "pair_open b p = (\<exists>k m. b k = Some (m, p, ENTRY_ACTIVE))"

text \<open>Publish a signal, activate it under the capacity and pair rules, or end it.\<close>

inductive board_step :: "board \<Rightarrow> board \<Rightarrow> bool" where
  publish: "b k = None \<Longrightarrow> board_step b (b(k \<mapsto> (m, p, PUBLISHED_PENDING_ENTRY)))"
| activate: "b k = Some (m, p, PUBLISHED_PENDING_ENTRY) \<Longrightarrow> board_load b m < style_capacity m
    \<Longrightarrow> \<not> pair_open b p \<Longrightarrow> board_step b (b(k \<mapsto> (m, p, ENTRY_ACTIVE)))"
| drop_pending: "b k = Some (m, p, PUBLISHED_PENDING_ENTRY) \<Longrightarrow> st \<in> set terminal_states
    \<Longrightarrow> board_step b (b(k \<mapsto> (m, p, st)))"
| close_active: "b k = Some (m, p, ENTRY_ACTIVE) \<Longrightarrow> st \<in> set terminal_states \<Longrightarrow> st \<noteq> EXPIRED
    \<Longrightarrow> board_step b (b(k \<mapsto> (m, p, st)))"

definition signal_view :: "signal \<Rightarrow> style \<times> string \<times> lifecycle" where
  "signal_view r = (sg_mode r, the (normalize_pair (sg_symbol r)), sg_state r)"

definition board_of :: "(string \<times> signal) list \<Rightarrow> board" where
  "board_of s k = map_option signal_view (map_of s k)"

definition file_board :: "disk_file \<Rightarrow> board" where
  "file_board f = (case read_ledger f of Inl e \<Rightarrow> Map.empty | Inr l \<Rightarrow> board_of (al_signals l))"

lemma board_of_update [simp]: "board_of (AList.update k r s) = (board_of s)(k \<mapsto> signal_view r)"
  by (auto simp: board_of_def)

lemma capacity_board:
  assumes "distinct (map fst s)"
  shows "capacity s m = board_load (board_of s) m"
proof -
  have "{k. \<exists>r. map_of s k = Some r \<and> active_in m r} =
      {k. \<exists>p. board_of s k = Some (m, p, ENTRY_ACTIVE)}"
    by (auto simp: board_of_def signal_view_def active_in_def)
  with assms show ?thesis
    by (simp add: capacity_def count_vals_card board_load_def)
qed

lemma signal_change_board:
  assumes "signal_change s s'" "distinct (map fst s)"
    and norm: "\<forall>k r. map_of s k = Some r \<longrightarrow> normalize_pair (sg_symbol r) \<noteq> None"
  shows "board_of s' = board_of s \<or> board_step (board_of s) (board_of s')"
  using assms(1)
proof cases
  case same
  then show ?thesis by simp
next
  case (published k r)
  then show ?thesis
    using board_step.publish [of "board_of s" k] by (simp add: board_of_def signal_view_def)
next
  case (activated k r r')
  let ?p = "the (normalize_pair (sg_symbol r))"
  have "\<not> pair_open (board_of s) ?p"
  proof
    assume "pair_open (board_of s) ?p"
    then obtain j q where j: "map_of s j = Some q" "sg_state q = ENTRY_ACTIVE"
      "the (normalize_pair (sg_symbol q)) = ?p"
      by (auto simp: pair_open_def board_of_def signal_view_def)
    then have "j \<noteq> k"
      using activated(2,3) by auto
    with activated(5) j have "normalize_pair (sg_symbol q) \<noteq> normalize_pair (sg_symbol r)"
      by blast
    with j norm activated(2) show False
      by (metis option.expand)
  qed
  then have "board_step (board_of s)
      ((board_of s)(k \<mapsto> (sg_mode r, ?p, ENTRY_ACTIVE)))"
    using activated assms(2)
    by (intro board_step.activate) (simp_all add: board_of_def signal_view_def capacity_board)
  then show ?thesis
    using activated by (simp add: signal_view_def same_identity_def)
next
  case (settled k r r')
  let ?p = "the (normalize_pair (sg_symbol r))"
  have "board_step (board_of s) ((board_of s)(k \<mapsto> (sg_mode r, ?p, sg_state r')))"
    using settled(4)
  proof
    assume "sg_state r = PUBLISHED_PENDING_ENTRY"
    then show ?thesis
      using settled by (intro board_step.drop_pending) (simp_all add: board_of_def signal_view_def)
  next
    assume "sg_state r = ENTRY_ACTIVE \<and> sg_state r' \<noteq> EXPIRED"
    then show ?thesis
      using settled by (intro board_step.close_active) (simp_all add: board_of_def signal_view_def)
  qed
  then show ?thesis
    using settled by (simp add: signal_view_def same_identity_def)
qed

section \<open>One call on a sound file\<close>

text \<open>What is known of the file after a call that found a ledger in it.\<close>

definition ledger_change :: "ledger \<Rightarrow> ledger \<Rightarrow> bool" where
  "ledger_change l m = (\<exists>n. signal_change (al_signals l) (al_signals n) \<and> settled_kept l n
     \<and> reach_ok n
     \<and> map_of (al_signals m) = map_of (al_signals n)
     \<and> map_of (al_transactions m) = map_of (al_transactions n)
     \<and> al_revision m = al_revision l + 1)"

lemma call_step_ledger:
  assumes f: "file_ok f" and "call_step f g"
  shows "g = f \<or> (f = Absent \<and> (\<exists>m. read_ledger g = Inr m \<and> al_signals m = [] \<and> al_revision m = 0))
    \<or> (\<exists>l m. read_ledger f = Inr l \<and> reach_ok l \<and> read_ledger g = Inr m \<and> reach_ok m
        \<and> ledger_change l m)"
  using assms(2)
proof cases
  case (1 io c)
  obtain res where res: "exec_call io c f = (res, g)"
    using 1 by (metis prod.collapse)
  from f res show ?thesis
  proof (cases rule: exec_call_outcome)
    case (failed e)
    then show ?thesis by simp
  next
    case (created l)
    then show ?thesis using read_persisted [of l] by simp
  next
    case (kept l)
    then show ?thesis by simp
  next
    case (changed l h m t)
    let ?m = "sorted_ledger (bump m t)"
    have reach: "reach_ok (bump m t)"
      using changed by (simp add: reach_ok_bump)
    have "read_ledger g = Inr ?m" "reach_ok ?m"
      using read_persisted [OF reach] reach_ok_sorted [OF reach] changed by simp_all
    moreover have "ledger_change l ?m"
      unfolding ledger_change_def
      using call_handler_signals [OF changed(3,2,4)] call_handler_settled [OF changed(3,2,4)]
        changed reach lookup_sorted_ledger [of "bump m t"]
      by (intro exI [of _ m]) (auto simp: reach_ok_def)
    ultimately show ?thesis
      using changed by blast
  qed
qed

section \<open>Sequences of calls\<close>

text \<open>The life of one signal.\<close>

inductive lifecycle_step :: "lifecycle \<Rightarrow> lifecycle \<Rightarrow> bool" where
  activate: "lifecycle_step PUBLISHED_PENDING_ENTRY ENTRY_ACTIVE"
| drop_pending: "st \<in> set terminal_states \<Longrightarrow> lifecycle_step PUBLISHED_PENDING_ENTRY st"
| close_active: "st \<in> set terminal_states \<Longrightarrow> st \<noteq> EXPIRED \<Longrightarrow> lifecycle_step ENTRY_ACTIVE st"

inductive_simps lifecycle_step_simps:
  "lifecycle_step ENTRY_ACTIVE st" "lifecycle_step PUBLISHED_PENDING_ENTRY st"

lemma same_identity_refl [simp]: "same_identity r r"
  by (simp add: same_identity_def)

lemma same_identity_trans: "same_identity a b \<Longrightarrow> same_identity b c \<Longrightarrow> same_identity a c"
  by (simp add: same_identity_def)

text \<open>A terminal record never changes; any other keeps its identity and moves forward.\<close>

definition signal_follows :: "signal \<Rightarrow> signal \<Rightarrow> bool" where
  "signal_follows r r' = (same_identity r r' \<and>
     (if sg_state r \<in> set terminal_states then r' = r
      else lifecycle_step\<^sup>*\<^sup>* (sg_state r) (sg_state r')))"

lemma signal_follows_refl [simp]: "signal_follows r r"
  by (simp add: signal_follows_def)

lemma signal_follows_trans:
  assumes "signal_follows a b" "signal_follows b c"
  shows "signal_follows a c"
proof (cases "sg_state a \<in> set terminal_states")
  case True
  with assms show ?thesis
    by (auto simp: signal_follows_def)
next
  case False
  with assms have "lifecycle_step\<^sup>*\<^sup>* (sg_state b) (sg_state c)"
    "lifecycle_step\<^sup>*\<^sup>* (sg_state a) (sg_state b)"
    by (auto simp: signal_follows_def split: if_splits)
  with False assms show ?thesis
    by (auto simp: signal_follows_def intro: same_identity_trans)
qed

lemma signal_change_follows:
  assumes "signal_change s s'" "map_of s k = Some r"
  shows "\<exists>r'. map_of s' k = Some r' \<and> signal_follows r r'"
  using assms
proof cases
  case same
  with assms(2) show ?thesis by simp
next
  case (published j q)
  with assms(2) show ?thesis by auto
next
  case (activated j q q')
  have "signal_follows q q'"
    using activated lifecycle_step.activate by (simp add: signal_follows_def r_into_rtranclp)
  with activated assms(2) show ?thesis by (cases "j = k") auto
next
  case (settled j q q')
  have "lifecycle_step (sg_state q) (sg_state q')"
    using settled by (auto simp: lifecycle_step_simps)
  then have "signal_follows q q'"
    using settled by (auto simp: signal_follows_def)
  with settled assms(2) show ?thesis by (cases "j = k") auto
qed

lemma calls_preserve:
  assumes "call_step\<^sup>*\<^sup>* f g" "file_ok f" "read_ledger f = Inr l"
  shows "file_ok g \<and> (\<exists>m. read_ledger g = Inr m \<and> al_revision l \<le> al_revision m \<and>
    (\<forall>k r. map_of (al_signals l) k = Some r \<longrightarrow>
       (\<exists>r'. map_of (al_signals m) k = Some r' \<and> signal_follows r r')) \<and> settled_kept l m)"
  using assms
proof (induction rule: rtranclp_induct)
  case base
  then show ?case by (auto simp: settled_kept_def)
next
  case (step g h)
  then obtain m where ok: "file_ok g" and m: "read_ledger g = Inr m" "al_revision l \<le> al_revision m"
    "settled_kept l m" and sig: "\<And>k r. map_of (al_signals l) k = Some r \<Longrightarrow>
       \<exists>r'. map_of (al_signals m) k = Some r' \<and> signal_follows r r'"
    by blast
  have present: "g \<noteq> Absent"
    using m(1) by (auto simp: read_ledger_def)
  have "h = g \<or> (\<exists>n. read_ledger h = Inr n \<and> ledger_change m n)"
    using call_step_ledger [OF ok step.hyps(2)] present m(1) by auto
  then show ?case
  proof
    assume "h = g"
    then show ?thesis using ok m sig by blast
  next
    assume "\<exists>n. read_ledger h = Inr n \<and> ledger_change m n"
    then obtain n i where n: "read_ledger h = Inr n" "al_revision n = al_revision m + 1"
      and i: "signal_change (al_signals m) (al_signals i)" "settled_kept m i"
        "map_of (al_signals n) = map_of (al_signals i)"
      and tx: "map_of (al_transactions n) = map_of (al_transactions i)"
      by (auto simp: ledger_change_def)
    have "\<exists>r'. map_of (al_signals n) k = Some r' \<and> signal_follows r r'"
      if "map_of (al_signals l) k = Some r" for k r
      using sig [OF that] signal_change_follows [OF i(1)] signal_follows_trans
      by (metis i(3))
    moreover have "settled_kept l n"
      using m(3) i(2) tx by (auto simp: settled_kept_def)
    ultimately show ?thesis
      using file_ok_step [OF ok step.hyps(2)] n m(2) by auto
  qed
qed

end
