(* ===== verification/Active_Ledger_Run.thy ===== *)
theory Active_Ledger_Run
  imports Active_Ledger_Spec
begin

text \<open>
  A concrete run of the active-signal ledger, evaluated once: the ledger is created, a
  signal is published and its entry becomes active.  The witnesses of the properties use its
  files.
\<close>

lemma exec_eval:
  assumes "read_ledger f = Inr l" "reach_ok l" "call_handler c = Some h" "h l = Inr (Mutate m t)"
  shows "exec_call good_io c f = (Inr (bump m t), Stored (sort_doc (ledger_doc (bump m t))))"
    and "reach_ok (bump m t)"
proof -
  note m = sound_handlerD(2-4) [OF call_handler_ok [OF assms(3)] assms(2,4)]
  have lock: "lock_loop lock_attempts (opens good_io) 0" "replace_ok good_io"
    by code_simp+
  have "exec_call good_io c f = run_locked good_io f h"
    using exec_call_handler [of c good_io f] assms(3) by auto
  also have "\<dots> = persist_mutation good_io f m t"
    using assms(1,4) lock by (simp add: run_locked_def run_store_def)
  also have "\<dots> = (Inr (bump m t), Stored (sort_doc (ledger_doc (bump m t))))"
    using m lock(2) by (simp add: persist_mutation_ok reach_ok_def)
  finally show "exec_call good_io c f = (Inr (bump m t), Stored (sort_doc (ledger_doc (bump m t))))" .
  show "reach_ok (bump m t)"
    using m by (simp add: reach_ok_bump)
qed

definition ledger_file :: "ledger \<Rightarrow> disk_file" where
  "ledger_file l = Stored (sort_doc (ledger_doc l))"

text \<open>One call after another: the file holds \<open>l\<close>, the call makes it \<open>m\<close>.\<close>

lemma run_call:
  assumes "reachable_file (ledger_file l)" "reach_ok l" "sorted_ledger l = l"
    and "map_option (\<lambda>h. h l) (call_handler c) = Some (Inr (Mutate m t))"
    and "bump m t = n"
  shows "reachable_file (ledger_file n)" "reach_ok n"
    "exec_call good_io c (ledger_file l) = (Inr n, ledger_file n)"
proof -
  have read: "read_ledger (ledger_file l) = Inr l"
    using read_persisted [OF assms(2)] assms(3) by (simp add: ledger_file_def)
  obtain h where h: "call_handler c = Some h" "h l = Inr (Mutate m t)"
    using assms(4) by auto
  note run = exec_eval [OF read assms(2) h]
  show "reach_ok n" "exec_call good_io c (ledger_file l) = (Inr n, ledger_file n)"
    using run assms(5) by (simp_all add: ledger_file_def)
  then have "call_step (ledger_file l) (ledger_file n)"
    using call_step.intros [of "ledger_file l" good_io c] by simp
  with assms(1) show "reachable_file (ledger_file n)"
    by (rule reachable_file.step)
qed

definition demo_hash :: string where
  "demo_hash = replicate 64 (CHR ''a'')"

definition demo_time :: string where
  "demo_time = ''2026-01-01T00:00:00Z''"

definition demo_create :: call where
  "demo_create = Initialize_Ledger (PStr demo_time)"

definition demo_reserve ::
  "int \<Rightarrow> string \<Rightarrow> string \<Rightarrow> string \<Rightarrow> string \<Rightarrow> string \<Rightarrow> bool \<Rightarrow> call" where
  "demo_reserve revision transaction_id transition_id signal_id delivery_id symbol durable =
    Reserve_Published_Signal (PInt revision) (PStr transaction_id) (PStr transition_id)
      (PStr signal_id) (PStr delivery_id) (PStr ''SWING'') (PStr symbol) (PStr demo_time)
      (PStr demo_hash) (PStr demo_hash) (PStr demo_time) (PBool durable)"

definition demo_publish :: call where
  "demo_publish = demo_reserve 0 ''x1'' ''t1'' ''s1'' ''d1'' ''BTC/USDT'' True"

definition demo_prepare :: call where
  "demo_prepare = demo_reserve 0 ''x1'' ''t1'' ''s1'' ''d1'' ''BTC/USDT'' False"

text \<open>A second publication under a transition id that is in use.\<close>

definition demo_clash :: call where
  "demo_clash = demo_reserve 2 ''x2'' ''t2'' ''s2'' ''d2'' ''ETH/USDT'' True"

definition demo_entry :: "int \<Rightarrow> call" where
  "demo_entry revision =
    Mark_Entry_Active (PInt revision) ''t2'' ''s1'' (PStr demo_time) (PStr demo_time) (PBool False)"

definition demo_close :: "int \<Rightarrow> call" where
  "demo_close revision =
    Transition_Terminal (PInt revision) ''t3'' ''s1'' (PStr ''CLOSED_PROFIT'') (PStr demo_time)
      (PStr ''TP2'') (PStr demo_time) (PBool False)"

definition demo_empty :: ledger where
  "demo_empty = \<lparr>al_revision = 0, al_created_at = demo_time, al_updated_at = demo_time,
     al_signals = [], al_transitions = [], al_transactions = []\<rparr>"

definition demo_signal :: "lifecycle \<Rightarrow> string option \<Rightarrow> string option \<Rightarrow> string \<Rightarrow> signal" where
  "demo_signal st entry close tid = \<lparr>
     sg_signal_id = ''s1'', sg_delivery_id = ''d1'', sg_mode = SWING, sg_symbol = ''BTC/USDT'',
     sg_state = st, sg_published_at = demo_time, sg_entry_at = entry, sg_terminal_at = close,
     sg_terminal_reason = map_option (\<lambda>_. ''TP2'') close, sg_last_transition_id = tid,
     sg_source_payload_hash = demo_hash, sg_publication_payload_hash = demo_hash,
     sg_created_at = demo_time, sg_updated_at = demo_time\<rparr>"

definition demo_transition ::
  "string \<Rightarrow> ledger_op \<Rightarrow> lifecycle option \<Rightarrow> lifecycle \<Rightarrow> string option \<Rightarrow> int \<Rightarrow> transition" where
  "demo_transition tid op from_state to_state reason revision = \<lparr>
     tr_transition_id = tid, tr_operation = op, tr_signal_id = ''s1'', tr_from_state = from_state,
     tr_to_state = to_state, tr_occurred_at = demo_time, tr_terminal_reason = reason,
     tr_ledger_revision = revision\<rparr>"

definition demo_transaction :: transaction where
  "demo_transaction = \<lparr>
     tx_transaction_id = ''x1'', tx_signal_id = ''s1'', tx_delivery_id = ''d1'', tx_mode = SWING,
     tx_symbol = ''BTC/USDT'', tx_published_at = demo_time, tx_source_payload_hash = demo_hash,
     tx_publication_payload_hash = demo_hash, tx_reservation_transition_id = ''t1'',
     tx_state = OCCUPANCY_COMMITTED, tx_created_at = demo_time, tx_updated_at = demo_time,
     tx_aborted_at = None, tx_abort_reason = None\<rparr>"

definition demo_published :: ledger where
  "demo_published = demo_empty\<lparr>al_revision := 1,
     al_signals := [(''s1'', demo_signal PUBLISHED_PENDING_ENTRY None None ''t1'')],
     al_transitions := [(''t1'', demo_transition ''t1'' RESERVE None PUBLISHED_PENDING_ENTRY None 1)],
     al_transactions := [(''x1'', demo_transaction)]\<rparr>"

definition demo_prepared :: ledger where
  "demo_prepared = demo_empty\<lparr>al_revision := 1,
     al_transactions := [(''x1'', demo_transaction\<lparr>tx_state := PREPARED\<rparr>)]\<rparr>"

definition demo_active :: ledger where
  "demo_active = demo_published\<lparr>al_revision := 2,
     al_signals := [(''s1'', demo_signal ENTRY_ACTIVE (Some demo_time) None ''t2'')],
     al_transitions := al_transitions demo_published
       @ [(''t2'', demo_transition ''t2'' ENTRY (Some PUBLISHED_PENDING_ENTRY) ENTRY_ACTIVE None 2)]\<rparr>"

definition demo_closed :: ledger where
  "demo_closed = demo_active\<lparr>al_revision := 3,
     al_signals := [(''s1'', demo_signal CLOSED_PROFIT (Some demo_time) (Some demo_time) ''t3'')],
     al_transitions := al_transitions demo_active
       @ [(''t3'', demo_transition ''t3'' TERMINAL (Some ENTRY_ACTIVE) CLOSED_PROFIT (Some ''TP2'') 3)]\<rparr>"

definition demo_clashed :: ledger where
  "demo_clashed = demo_active\<lparr>al_revision := 3,
     al_signals := al_signals demo_active @ [(''s2'',
       (demo_signal PUBLISHED_PENDING_ENTRY None None ''t2'')
         \<lparr>sg_signal_id := ''s2'', sg_delivery_id := ''d2'', sg_symbol := ''ETH/USDT''\<rparr>)],
     al_transitions := al_transitions demo_published @ [(''t2'',
       (demo_transition ''t2'' RESERVE None PUBLISHED_PENDING_ENTRY None 3)
         \<lparr>tr_signal_id := ''s2''\<rparr>)],
     al_transactions := al_transactions demo_active @ [(''x2'', demo_transaction
       \<lparr>tx_transaction_id := ''x2'', tx_signal_id := ''s2'', tx_delivery_id := ''d2'',
         tx_symbol := ''ETH/USDT'', tx_reservation_transition_id := ''t2''\<rparr>)]\<rparr>"

lemma demo_sorted:
  "sorted_ledger demo_empty = demo_empty" "sorted_ledger demo_published = demo_published"
  "sorted_ledger demo_active = demo_active" "sorted_ledger demo_closed = demo_closed"
  "sorted_ledger demo_prepared = demo_prepared" "sorted_ledger demo_clashed = demo_clashed"
  by code_simp+

lemma demo_empty_run:
  "exec_call good_io demo_create Absent = (Inr demo_empty, ledger_file demo_empty)"
  "reachable_file (ledger_file demo_empty)" "reach_ok demo_empty"
proof -
  have t: "utc_string demo_time"
    by code_simp
  then show reach: "reach_ok demo_empty"
    by (simp add: reach_ok_def ledger_ok_def pending_ok_def demo_empty_def delivery_ids_def
        active_pairs_def capacity_def)
  have lock: "lock_loop lock_attempts (opens good_io) 0" "replace_ok good_io"
    by code_simp+
  then show "exec_call good_io demo_create Absent = (Inr demo_empty, ledger_file demo_empty)"
    using t reach
    by (simp add: demo_create_def initialize_ledger_def ledger_lock_def create_empty_ledger_def
        reach_ok_def atomic_write_ok ledger_file_def flip: demo_empty_def)
  then have "call_step Absent (ledger_file demo_empty)"
    using call_step.intros [of Absent good_io demo_create] by simp
  then show "reachable_file (ledger_file demo_empty)"
    using reachable_file.intros by blast
qed

lemma demo_handled:
  "map_option (\<lambda>h. h demo_empty) (call_handler demo_publish) =
     Some (Inr (Mutate (demo_published\<lparr>al_revision := 0\<rparr>) demo_time))"
  "map_option (\<lambda>h. h demo_published) (call_handler (demo_entry 1)) =
     Some (Inr (Mutate (demo_active\<lparr>al_revision := 1\<rparr>) demo_time))"
  "map_option (\<lambda>h. h demo_active) (call_handler (demo_close 2)) =
     Some (Inr (Mutate (demo_closed\<lparr>al_revision := 2\<rparr>) demo_time))"
  "map_option (\<lambda>h. h demo_empty) (call_handler demo_prepare) =
     Some (Inr (Mutate (demo_prepared\<lparr>al_revision := 0\<rparr>) demo_time))"
  "map_option (\<lambda>h. h demo_active) (call_handler demo_clash) =
     Some (Inr (Mutate (demo_clashed\<lparr>al_revision := 2\<rparr>) demo_time))"
  by code_simp+

lemma demo_bump:
  "bump (demo_published\<lparr>al_revision := 0\<rparr>) demo_time = demo_published"
  "bump (demo_active\<lparr>al_revision := 1\<rparr>) demo_time = demo_active"
  "bump (demo_closed\<lparr>al_revision := 2\<rparr>) demo_time = demo_closed"
  "bump (demo_prepared\<lparr>al_revision := 0\<rparr>) demo_time = demo_prepared"
  "bump (demo_clashed\<lparr>al_revision := 2\<rparr>) demo_time = demo_clashed"
  by code_simp+

lemmas demo_published_run =
  run_call [OF demo_empty_run(2,3) demo_sorted(1) demo_handled(1) demo_bump(1)]

lemmas demo_active_run =
  run_call [OF demo_published_run(1,2) demo_sorted(2) demo_handled(2) demo_bump(2)]

lemmas demo_closed_run =
  run_call [OF demo_active_run(1,2) demo_sorted(3) demo_handled(3) demo_bump(3)]

lemmas demo_prepared_run =
  run_call [OF demo_empty_run(2,3) demo_sorted(1) demo_handled(4) demo_bump(4)]

lemmas demo_clashed_run =
  run_call [OF demo_active_run(1,2) demo_sorted(3) demo_handled(5) demo_bump(5)]

lemma demo_reads:
  "read_ledger (ledger_file demo_published) = Inr demo_published"
  "read_ledger (ledger_file demo_active) = Inr demo_active"
  "read_ledger (ledger_file demo_closed) = Inr demo_closed"
  "read_ledger (ledger_file demo_prepared) = Inr demo_prepared"
  using read_persisted [OF demo_published_run(2)] read_persisted [OF demo_active_run(2)]
    read_persisted [OF demo_closed_run(2)] read_persisted [OF demo_prepared_run(2)]
  by (simp_all add: ledger_file_def demo_sorted)

end
