(* ===== verification/Active_Ledger_Props.thy ===== *)
theory Active_Ledger_Props
  imports Active_Ledger_Run
begin

text \<open>
  The properties of \<open>src/engine/active_signal_ledger_v1.py\<close>, each with a witness on the
  files of the concrete run.
\<close>

section \<open>Helper lemmas\<close>

lemma reachable_read:
  assumes "reachable_file f" "read_ledger f = Inr l"
  shows "reach_ok l"
  using reachable_file_ok [OF assms(1)] assms(2) by (auto simp: file_ok_def read_ledger_def)

lemma reachable_ok: "reachable_file f \<Longrightarrow> read_ledger f = Inr l \<Longrightarrow> ledger_ok l"
  using reachable_read by (simp add: reach_ok_def)

lemma good_io_lock [simp]: "lock_loop lock_attempts (opens good_io) 0" "replace_ok good_io"
  by code_simp+

lemma run_locked_good:
  assumes "read_ledger f = Inr l"
  shows "run_locked good_io f h =
    (case h l of Inl e \<Rightarrow> (Inl e, f) | Inr (Keep m) \<Rightarrow> (Inr m, f)
     | Inr (Mutate m t) \<Rightarrow> persist_mutation good_io f m t)"
  using assms by (simp add: run_locked_def run_store_def)

lemma run_locked_mutate:
  assumes "reachable_file f" "read_ledger f = Inr l" "h l = Inr (Mutate m t)" "ledger_ok m"
    "utc_string t"
  shows "run_locked good_io f h = (Inr (bump m t), Stored (sort_doc (ledger_doc (bump m t))))"
  using assms by (simp add: run_locked_good persist_mutation_ok)

lemma demo_file_distinct [simp]: "ledger_file l \<noteq> Absent"
  by (simp add: ledger_file_def)

lemma demo_utc [simp]: "utc_string demo_time"
  by code_simp

text \<open>For a pending signal the pair test of the code looks at every active signal.\<close>

lemma pair_taken_iff:
  assumes ok: "ledger_ok l"
    and r: "map_of (al_signals l) sid = Some r" "sg_state r = PUBLISHED_PENDING_ENTRY"
  shows "\<not> pair_taken l sid p \<longleftrightarrow>
    (\<forall>k q. map_of (al_signals l) k = Some q \<longrightarrow> sg_state q = ENTRY_ACTIVE \<longrightarrow>
       normalize_pair (sg_symbol q) \<noteq> p)"
proof
  assume free: "\<not> pair_taken l sid p"
  show "\<forall>k q. map_of (al_signals l) k = Some q \<longrightarrow> sg_state q = ENTRY_ACTIVE \<longrightarrow>
      normalize_pair (sg_symbol q) \<noteq> p"
    using pair_free [OF ok free] r by fastforce
next
  assume all: "\<forall>k q. map_of (al_signals l) k = Some q \<longrightarrow> sg_state q = ENTRY_ACTIVE \<longrightarrow>
      normalize_pair (sg_symbol q) \<noteq> p"
  have "distinct (map fst (al_signals l))"
    using ok by (simp add: ledger_ok_def)
  with all show "\<not> pair_taken l sid p"
    by (fastforce simp: pair_taken_def list_ex_iff)
qed

text \<open>A handler that has nothing to replay succeeds exactly when it changes the ledger.\<close>

lemma run_locked_succeeds_iff:
  assumes "read_ledger f = Inr l" "\<And>m. h l \<noteq> Inr (Keep m)"
    and "\<And>m t. h l = Inr (Mutate m t) \<Longrightarrow> reach_ok m \<and> utc_string t \<and> al_revision m = al_revision l"
  shows "(\<exists>m g. run_locked good_io f h = (Inr m, g)) \<longleftrightarrow> (\<exists>m t. h l = Inr (Mutate m t))"
proof (cases "h l")
  case (Inl e)
  then show ?thesis
    by (simp add: run_locked_good [OF assms(1)])
next
  case (Inr x)
  with assms(2) obtain m t where x: "h l = Inr (Mutate m t)"
    by (cases x) auto
  then have "ledger_ok m" "utc_string t"
    using assms(3) by (simp_all add: reach_ok_def)
  then show ?thesis
    by (simp add: run_locked_good [OF assms(1)] x persist_mutation_ok)
qed

lemma capacity_total_bound:
  assumes "ledger_ok l" "capacity (al_signals l) m < style_capacity m"
  shows "capacity_total (al_signals l) < total_capacity"
proof -
  have "capacity (al_signals l) k \<le> 3" for k
    using assms(1) by (simp add: ledger_ok_def style_capacity_def)
  from this [of SWING] this [of INTRADAY] this [of SCALP] assms(2) show ?thesis
    by (cases m) (simp_all add: capacity_total_def styles_def style_capacity_def total_capacity_def)
qed

lemma ledger_signal_id:
  assumes "ledger_ok l" "map_of (al_signals l) sid = Some r"
  shows "nonblank sid"
  using signal_okD [OF assms] by (simp add: signal_ok_def)

section \<open>Validation\<close>

text \<open>C34. A document that passes validation cannot break the rules of the desk: at most three
  active signals per style, nine in all, no canonical pair active twice, no delivery id
  shared by two signals, and every committed transaction has its signal.\<close>

theorem validated_ledger_rules:
  assumes "validate_ledger d = Inr l" "wf_pv d"
  shows "capacity (al_signals l) m \<le> 3 \<and> capacity_total (al_signals l) \<le> 9
    \<and> distinct (active_pairs (map snd (al_signals l))) \<and> distinct (delivery_ids (al_signals l))
    \<and> (\<forall>p \<in> set (al_transactions l). tx_state (snd p) = OCCUPANCY_COMMITTED \<longrightarrow>
         committed_matches (al_signals l) (snd p))"
proof -
  have ok: "ledger_ok l"
    using assms by (rule validate_ledger_sound)
  have cap: "capacity (al_signals l) m \<le> 3" for m
    using ok by (simp add: ledger_ok_def style_capacity_def)
  have "capacity_total (al_signals l) \<le> 9"
    using cap [of SWING] cap [of INTRADAY] cap [of SCALP]
    by (simp add: capacity_total_def styles_def)
  then show ?thesis
    using ok cap by (simp add: ledger_ok_def transaction_ok_def)
qed

lemma validated_ledger_rules_witness:
  "capacity (al_signals demo_active) SWING \<le> 3 \<and> capacity_total (al_signals demo_active) \<le> 9
    \<and> committed_matches (al_signals demo_active) demo_transaction"
proof -
  let ?d = "sort_doc (ledger_doc demo_active)"
  have valid: "validate_ledger ?d = Inr demo_active"
    using demo_reads(2) by (simp add: read_ledger_def ledger_file_def)
  have wf: "wf_pv ?d"
    by (rule wf_sort_doc) code_simp
  have "(''x1'', demo_transaction) \<in> set (al_transactions demo_active)"
    "tx_state demo_transaction = OCCUPANCY_COMMITTED"
    by code_simp+
  with validated_ledger_rules [OF valid wf] show ?thesis
    by fastforce
qed

text \<open>C35. Writing a well-formed ledger to disk and reading it back, or validating it once more,
  gives the same ledger, with the entries of each dictionary in key order.\<close>

theorem ledger_document_roundtrip:
  assumes "ledger_ok l"
  shows "validate_ledger (ledger_doc l) = Inr l
    \<and> read_ledger (Stored (sort_doc (ledger_doc l))) = Inr (sorted_ledger l)
    \<and> map_of (al_signals (sorted_ledger l)) = map_of (al_signals l)"
  using assms validate_ledger_doc validate_sorted_doc lookup_sorted_ledger(1)
  by (simp_all add: read_ledger_def)

lemma ledger_document_roundtrip_witness: "validate_ledger (ledger_doc demo_active) = Inr demo_active"
  using ledger_document_roundtrip [of demo_active] demo_active_run(2) by (simp add: reach_ok_def)

text \<open>C2. Every file a sequence of calls can leave, whatever fails in between, is absent or holds
  a ledger that passes validation; in it the signal of a transaction still prepared does not
  exist yet, so committing the transaction never overwrites a signal.\<close>

theorem reachable_files_valid:
  assumes "reachable_file f" "f \<noteq> Absent"
  shows "\<exists>l. read_ledger f = Inr l \<and> ledger_ok l \<and>
    (\<forall>k t. map_of (al_transactions l) k = Some t \<longrightarrow> tx_state t = PREPARED \<longrightarrow>
       map_of (al_signals l) (tx_signal_id t) = None)"
proof -
  obtain l where l: "read_ledger f = Inr l" "ledger_ok l" "pending_ok l"
    using reachable_file_ok [OF assms(1)] assms(2) by (auto simp: file_ok_def reach_ok_def)
  then show ?thesis
    using pending_okD(1) by blast
qed

lemma reachable_files_valid_witness:
  "\<exists>l. read_ledger (ledger_file demo_active) = Inr l \<and> ledger_ok l"
  using reachable_files_valid [OF demo_active_run(1)] by auto

section \<open>Calls\<close>

text \<open>C1. The operations implement the board: as seen through signal ids, styles, canonical pairs
  and lifecycle states, a call changes nothing or publishes one signal, activates one under the
  capacity and pair rules, or ends one.\<close>

theorem calls_refine_board:
  assumes "reachable_file f" "call_step f g"
  shows "file_board g = file_board f \<or> board_step (file_board f) (file_board g)"
proof -
  have ok: "file_ok f"
    using assms(1) by (rule reachable_file_ok)
  from call_step_ledger [OF ok assms(2)] show ?thesis
  proof (elim disjE conjE exE)
    assume "g = f" then show ?thesis by simp
  next
    fix m assume "f = Absent" "read_ledger g = Inr m" "al_signals m = []"
    then show ?thesis
      by (auto simp: file_board_def read_ledger_def board_of_def)
  next
    fix l m assume l: "read_ledger f = Inr l" "reach_ok l" and m: "read_ledger g = Inr m"
      and "ledger_change l m"
    then obtain n :: ledger where n: "signal_change (al_signals l) (al_signals n)"
      "map_of (al_signals m) = map_of (al_signals n)"
      unfolding ledger_change_def by blast
    have ok: "ledger_ok l"
      using l(2) by (simp add: reach_ok_def)
    then have sound: "distinct (map fst (al_signals l))"
      "\<forall>k r. map_of (al_signals l) k = Some r \<longrightarrow> normalize_pair (sg_symbol r) \<noteq> None"
      using signal_okD [OF ok] unfolding ledger_ok_def signal_ok_def by blast+
    have "board_of (al_signals m) = board_of (al_signals n)"
      by (rule ext) (simp add: board_of_def n(2))
    with signal_change_board [OF n(1) sound] show ?thesis
      by (simp add: file_board_def l m)
  qed
qed

lemma calls_refine_board_witness:
  "board_step (file_board (ledger_file demo_published)) (file_board (ledger_file demo_active))"
proof -
  have "call_step (ledger_file demo_published) (ledger_file demo_active)"
    using call_step.intros [of "ledger_file demo_published" good_io "demo_entry 1"]
    by (simp add: demo_active_run(3))
  note calls_refine_board [OF demo_published_run(1) this]
  moreover have "file_board (ledger_file demo_active) ''s1'' \<noteq>
      file_board (ledger_file demo_published) ''s1''"
    by (simp add: file_board_def demo_reads) code_simp
  ultimately show ?thesis
    by metis
qed

text \<open>A call that reports an error has not touched the file.\<close>

theorem failed_call_keeps_file:
  assumes "exec_call io c f = (Inl e, g)"
  shows "g = f"
  using exec_call_cases [where c = c and io = io and f = f]
proof cases
  case (init t)
  with assms show ?thesis
    by (auto simp: initialize_ledger_def ledger_lock_def atomic_write_def
        split: if_splits sum.splits prod.splits option.splits)
next
  case (rejected e)
  with assms show ?thesis by simp
next
  case (handled h)
  with assms show ?thesis
    using al_store.run_error_keeps_file by (metis run_locked_def)
qed

lemma failed_call_keeps_file_witness:
  "snd (exec_call good_io (demo_entry 7) (ledger_file demo_published)) = ledger_file demo_published"
proof -
  have "exec_call good_io (demo_entry 7) (ledger_file demo_published) =
      (Inl EXPECTED_REVISION_MISMATCH, ledger_file demo_published)"
    by (simp add: demo_entry_def mark_entry_active_def run_locked_good [OF demo_reads(1)]) code_simp
  then show ?thesis
    using failed_call_keeps_file by force
qed

text \<open>A call that succeeds returns a ledger that the next read of the file finds again; it
  either left the file as it was or raised the revision by exactly one.\<close>

theorem successful_call_revision:
  assumes "reachable_file f" "exec_call io c f = (Inr m, g)"
  shows "(\<exists>n. read_ledger g = Inr n \<and> same_ledger m n) \<and>
    (case read_ledger f of
       Inl e \<Rightarrow> al_revision m = 0
     | Inr l \<Rightarrow> (g = f \<and> m = l) \<or> al_revision m = al_revision l + 1)"
  using reachable_file_ok [OF assms(1)] assms(2)
proof (cases rule: exec_call_outcome)
  case (failed e)
  then show ?thesis by simp
next
  case (created l)
  then show ?thesis
    using read_persisted [of l] by (simp add: read_ledger_def same_ledger_def sorted_ledger_def)
next
  case (kept l)
  then show ?thesis by (simp add: same_ledger_def)
next
  case (changed l h n t)
  then show ?thesis
    using read_persisted [OF reach_ok_bump [of n t]]
    by (simp add: same_ledger_def sorted_ledger_def)
qed

lemma successful_call_revision_witness:
  "\<exists>n. read_ledger (ledger_file demo_active) = Inr n \<and> same_ledger demo_active n"
  using successful_call_revision [OF demo_published_run(1) demo_active_run(3)] by simp

text \<open>C6. On a working disk an entry with a new transition id activates exactly when the caller knows
  the current revision, the signal is pending, its style has fewer than three active signals and no
  active signal trades its canonical pair.  The total of nine never decides.\<close>

theorem mark_entry_active_iff:
  assumes "reachable_file f" "read_ledger f = Inr l" "utc_string ea" "utc_string u" "nonblank tr"
    "map_of (al_transitions l) tr = None"
  shows "(\<exists>m g. mark_entry_active good_io f (PInt rv) tr sid (PStr ea) (PStr u) (PBool b) = (Inr m, g))
    \<longleftrightarrow> rv = al_revision l \<and> (\<exists>r. map_of (al_signals l) sid = Some r
      \<and> sg_state r = PUBLISHED_PENDING_ENTRY \<and> capacity (al_signals l) (sg_mode r) < 3
      \<and> (\<forall>k q. map_of (al_signals l) k = Some q \<longrightarrow> sg_state q = ENTRY_ACTIVE \<longrightarrow>
           normalize_pair (sg_symbol q) \<noteq> normalize_pair (sg_symbol r)))"
    (is "?lhs \<longleftrightarrow> ?rhs")
proof -
  let ?h = "entry_handler (PInt rv) tr sid ea u b"
  have ok: "ledger_ok l" and reach: "reach_ok l"
    using assms(1,2) by (rule reachable_ok, rule reachable_read)
  have "?h l \<noteq> Inr (Keep m)" for m
    using assms(6) by (auto simp: entry_handler_def existing_transition_def
        split: option.splits sum.splits if_splits)
  then have "?lhs \<longleftrightarrow> (\<exists>m t. ?h l = Inr (Mutate m t))"
    using run_locked_succeeds_iff [OF assms(2), of ?h] entry_handler_ok [OF reach assms(4)] assms(3,4)
    by (simp add: mark_entry_active_def)
  then have lhs: "?lhs \<longleftrightarrow> rv = al_revision l \<and> (\<exists>r. map_of (al_signals l) sid = Some r
      \<and> sg_state r = PUBLISHED_PENDING_ENTRY \<and> capacity (al_signals l) (sg_mode r) < 3
      \<and> \<not> pair_taken l sid (normalize_pair (sg_symbol r)))"
    using assms(3,5,6) ledger_signal_id [OF ok] capacity_total_bound [OF ok]
    by (auto simp: entry_handler_mutates transition_payload_def revision_matches_def
        style_capacity_def)
  show ?thesis
    unfolding lhs using pair_taken_iff [OF ok] by blast
qed

lemma mark_entry_active_iff_witness:
  "\<exists>m g. mark_entry_active good_io (ledger_file demo_published) (PInt 1) ''t2'' ''s1''
     (PStr demo_time) (PStr demo_time) (PBool False) = (Inr m, g)"
proof -
  have "nonblank ''t2''" "map_of (al_transitions demo_published) ''t2'' = None"
    "al_revision demo_published = 1" "capacity (al_signals demo_published) SWING < 3"
    "al_signals demo_published = [(''s1'', demo_signal PUBLISHED_PENDING_ENTRY None None ''t1'')]"
    by code_simp+
  moreover have "sg_mode (demo_signal st x y z) = SWING" "sg_state (demo_signal st x y z) = st"
    for st x y z
    by (simp_all add: demo_signal_def)
  ultimately show ?thesis
    using mark_entry_active_iff [OF demo_published_run(1) demo_reads(1), of demo_time demo_time
        "''t2''" 1 "''s1''" False] by auto
qed

text \<open>A signal ends exactly when the caller knows the current revision and the signal is
  pending, or is active and the end is not EXPIRED.\<close>

theorem transition_terminal_iff:
  assumes "reachable_file f" "read_ledger f = Inr l" "utc_string ta" "utc_string u" "nonblank tr"
    "nonblank reason" "map_of (al_transitions l) tr = None" "ts \<in> set terminal_states"
    "map_of (al_signals l) sid = Some r" "sg_state r \<notin> set terminal_states"
  shows "(\<exists>m g. transition_terminal good_io f (PInt rv) tr sid (PStr (lifecycle_str ts)) (PStr ta)
      (PStr reason) (PStr u) (PBool b) = (Inr m, g))
    \<longleftrightarrow> rv = al_revision l
      \<and> (sg_state r = PUBLISHED_PENDING_ENTRY \<or> sg_state r = ENTRY_ACTIVE \<and> ts \<noteq> EXPIRED)"
    (is "?lhs \<longleftrightarrow> ?rhs")
proof -
  let ?h = "terminal_handler (PInt rv) tr sid ts ta reason u b"
  have ok: "ledger_ok l" and reach: "reach_ok l"
    using assms(1,2) by (rule reachable_ok, rule reachable_read)
  have "?h l \<noteq> Inr (Keep m)" for m
    using assms(7,9,10) by (auto simp: terminal_handler_def existing_transition_def
        split: option.splits sum.splits if_splits)
  then have "?lhs \<longleftrightarrow> (\<exists>m t. ?h l = Inr (Mutate m t))"
    using run_locked_succeeds_iff [OF assms(2), of ?h]
      terminal_handler_ok [OF reach assms(4,8)] assms(3,4,6,8)
    by (simp add: transition_terminal_def)
  then show ?thesis
    using assms(3,5-7,9) ledger_signal_id [OF ok assms(9)]
    by (auto simp: terminal_handler_mutates transition_payload_def revision_matches_def)
qed

lemma transition_terminal_iff_witness:
  "\<exists>m g. transition_terminal good_io (ledger_file demo_active) (PInt 2) ''t3'' ''s1''
     (PStr (lifecycle_str CLOSED_PROFIT)) (PStr demo_time) (PStr ''TP2'') (PStr demo_time)
     (PBool False) = (Inr m, g)"
proof -
  have "nonblank ''t3''" "nonblank ''TP2''" "map_of (al_transitions demo_active) ''t3'' = None"
    "al_revision demo_active = 2" "CLOSED_PROFIT \<in> set terminal_states"
    "map_of (al_signals demo_active) ''s1'' = Some (demo_signal ENTRY_ACTIVE (Some demo_time) None ''t2'')"
    by code_simp+
  moreover have "sg_state (demo_signal st x y z) = st" for st x y z
    by (simp add: demo_signal_def)
  ultimately show ?thesis
    using transition_terminal_iff [OF demo_active_run(1) demo_reads(2), of demo_time demo_time
        "''t3''" "''TP2''" CLOSED_PROFIT "''s1''" _ 2 False] by auto
qed

section \<open>Sequences of calls\<close>

text \<open>C5. Whatever calls follow, and whatever fails in them, a signal is never lost, keeps its
  identity and never moves backward; once it has ended its record never changes again.\<close>

theorem signals_never_lost:
  assumes "reachable_file f" "read_ledger f = Inr l" "call_step\<^sup>*\<^sup>* f g"
    "map_of (al_signals l) k = Some r"
  shows "\<exists>m r'. read_ledger g = Inr m \<and> map_of (al_signals m) k = Some r' \<and> same_identity r r'
    \<and> (if sg_state r \<in> set terminal_states then r' = r
       else lifecycle_step\<^sup>*\<^sup>* (sg_state r) (sg_state r'))"
  using calls_preserve [OF assms(3) reachable_file_ok [OF assms(1)] assms(2)] assms(4)
  unfolding signal_follows_def by blast

lemma demo_close_steps: "call_step\<^sup>*\<^sup>* (ledger_file demo_published) (ledger_file demo_closed)"
proof -
  have "call_step (ledger_file demo_published) (ledger_file demo_active)"
    "call_step (ledger_file demo_active) (ledger_file demo_closed)"
    using call_step.intros [of "ledger_file demo_published" good_io "demo_entry 1"]
      call_step.intros [of "ledger_file demo_active" good_io "demo_close 2"]
    by (simp_all add: demo_active_run(3) demo_closed_run(3))
  then show ?thesis
    by (meson converse_rtranclp_into_rtranclp r_into_rtranclp)
qed

lemma signals_never_lost_witness:
  "\<exists>m r'. read_ledger (ledger_file demo_closed) = Inr m \<and> map_of (al_signals m) ''s1'' = Some r'
     \<and> lifecycle_step\<^sup>*\<^sup>* PUBLISHED_PENDING_ENTRY (sg_state r')"
proof -
  have "map_of (al_signals demo_published) ''s1'' =
      Some (demo_signal PUBLISHED_PENDING_ENTRY None None ''t1'')"
    by code_simp
  note run = signals_never_lost [OF demo_published_run(1) demo_reads(1) demo_close_steps this]
  have "sg_state (demo_signal PUBLISHED_PENDING_ENTRY None None ''t1'') = PUBLISHED_PENDING_ENTRY"
    by (simp add: demo_signal_def)
  with run show ?thesis
    by auto
qed

text \<open>A publication transaction that is committed or aborted stays exactly as it is, and the
  revision never decreases.\<close>

theorem settled_transactions_final:
  assumes "reachable_file f" "read_ledger f = Inr l" "call_step\<^sup>*\<^sup>* f g"
    "map_of (al_transactions l) k = Some t" "tx_state t \<noteq> PREPARED"
  shows "\<exists>m. read_ledger g = Inr m \<and> map_of (al_transactions m) k = Some t
    \<and> al_revision l \<le> al_revision m"
  using calls_preserve [OF assms(3) reachable_file_ok [OF assms(1)] assms(2)] assms(4,5)
  by (auto simp: settled_kept_def)

lemma settled_transactions_final_witness:
  "\<exists>m. read_ledger (ledger_file demo_closed) = Inr m
     \<and> map_of (al_transactions m) ''x1'' = Some demo_transaction"
proof -
  have "map_of (al_transactions demo_published) ''x1'' = Some demo_transaction"
    "tx_state demo_transaction \<noteq> PREPARED"
    by code_simp+
  from settled_transactions_final [OF demo_published_run(1) demo_reads(1) demo_close_steps this]
  show ?thesis by blast
qed

section \<open>Replays\<close>

lemma entry_replayed:
  assumes "map_of (al_signals l) sid = Some r" "map_of (al_transitions l) tr = Some c"
    and "transition_payload ENTRY tr sid PUBLISHED_PENDING_ENTRY ENTRY_ACTIVE ea None rv = Inr c"
  shows "entry_handler er tr sid ea u False l = Inr (Keep l)"
proof -
  have "transition_payload ENTRY tr sid PUBLISHED_PENDING_ENTRY ENTRY_ACTIVE ea None rv' =
      Inr (c\<lparr>tr_ledger_revision := rv'\<rparr>)" for rv'
    using assms(3) by (auto simp: transition_payload_def split: if_splits)
  then show ?thesis
    using assms(1,2) by (simp add: entry_handler_def existing_transition_def)
qed

text \<open>Once \<open>mark_entry_active\<close> has succeeded, the same request can be sent again with any
  revision and any time: it succeeds, returns the ledger and leaves the file alone.\<close>

theorem mark_entry_active_replay:
  assumes "reachable_file f" "mark_entry_active io f er tr sid ea u (PBool b) = (Inr m, g)"
    "is_utc u'"
  shows "\<exists>n. mark_entry_active good_io g er' tr sid ea u' (PBool False) = (Inr n, g) \<and> same_ledger m n"
proof -
  let ?h = "entry_handler er tr sid (the_str ea) (the_str u) b"
  have args: "is_utc ea" "is_utc u" and run: "run_locked io f ?h = (Inr m, g)"
    using assms(2) by (auto simp: mark_entry_active_def split: if_splits)
  have ok: "handler_ok ?h"
    by (rule call_handler_ok [of "Mark_Entry_Active er tr sid ea u (PBool b)"]) (simp add: args)
  have replay: "mark_entry_active good_io g er' tr sid ea u' (PBool False) = (Inr n, g)"
    if "read_ledger g = Inr n" "entry_handler er' tr sid (the_str ea) (the_str u') False n = Inr (Keep n)"
    for n
    using that args assms(3) by (simp add: mark_entry_active_def run_locked_good)
  from reachable_file_ok [OF assms(1)] ok run show ?thesis
  proof (cases rule: run_locked_outcome)
    case (failed e)
    then show ?thesis by simp
  next
    case (kept l)
    then have "entry_handler er' tr sid (the_str ea) (the_str u') False l = Inr (Keep l)"
      by (auto simp: entry_handler_def split: option.splits sum.splits if_splits bool.splits)
    then show ?thesis
      using replay kept by (auto simp: same_ledger_def)
  next
    case (changed l n t)
    let ?n = "sorted_ledger (bump n t)"
    have reach: "reach_ok (bump n t)"
      using changed by (simp add: reach_ok_bump)
    then have look: "map_of (al_signals ?n) = map_of (al_signals n)"
      "map_of (al_transitions ?n) = map_of (al_transitions n)"
      using lookup_sorted_ledger [of "bump n t"] by (simp_all add: reach_ok_def)
    have "entry_handler er' tr sid (the_str ea) (the_str u') False ?n = Inr (Keep ?n)"
      using changed(3) entry_replayed [of ?n sid _ tr] unfolding entry_handler_mutates look
      by fastforce
    then show ?thesis
      using replay read_persisted [OF reach] changed
      by (intro exI [of _ ?n]) (simp add: same_ledger_def sorted_ledger_def)
  qed
qed

lemma mark_entry_active_replay_witness:
  "\<exists>n. mark_entry_active good_io (ledger_file demo_active) (PInt 1) ''t2'' ''s1'' (PStr demo_time)
     (PStr demo_time) (PBool False) = (Inr n, ledger_file demo_active)"
  using mark_entry_active_replay [OF demo_published_run(1), of good_io "PInt 1" "''t2''" "''s1''"
      "PStr demo_time" "PStr demo_time" False demo_active "ledger_file demo_active"
      "PStr demo_time" "PInt 1"] demo_active_run(3)
  by (simp add: demo_entry_def) blast

section \<open>Reconciliation\<close>

text \<open>A prepared publication is settled by what the delivery archive says: if the archive holds
  the artifact under the recorded signal, delivery and hash, the pending signal is written with
  its RESERVE transition and the transaction is committed; if it holds nothing, the transaction
  is aborted and no signal changes.\<close>

theorem reconcile_publication_outcome:
  assumes "reachable_file f" "read_ledger f = Inr l" "map_of (al_transactions l) k = Some t"
    "tx_state t = PREPARED" "utc_string u" "nonblank reason"
  shows "(\<exists>m g. reconcile_publication_state good_io f (PInt (al_revision l)) (PStr k) (PBool True)
        (PStr (tx_signal_id t)) (PStr (tx_delivery_id t)) (PStr (tx_publication_payload_hash t))
        (PStr u) a = (Inr m, g)
      \<and> map_of (al_signals m) = (map_of (al_signals l))(tx_signal_id t \<mapsto> pending_signal t u)
      \<and> map_of (al_transitions m) (tx_reservation_transition_id t) = Some (reserve_transition l t u)
      \<and> map_of (al_transactions m) k = Some (t\<lparr>tx_state := OCCUPANCY_COMMITTED, tx_updated_at := u\<rparr>))
    \<and> (\<exists>m g. reconcile_publication_state good_io f (PInt (al_revision l)) (PStr k) (PBool False)
        PNone PNone PNone (PStr u) (PStr reason) = (Inr m, g)
      \<and> al_signals m = al_signals l
      \<and> map_of (al_transactions m) k = Some (t\<lparr>tx_state := ABORTED, tx_updated_at := u,
           tx_aborted_at := Some u, tx_abort_reason := Some reason\<rparr>))"
    (is "?commit \<and> ?abort")
proof -
  have reach: "reach_ok l" and ok: "ledger_ok l"
    using assms(1,2) by (rule reachable_read, rule reachable_ok)
  have id: "tx_transaction_id t = k" "nonblank k"
    using transaction_okD [OF ok assms(3)] by (simp_all add: transaction_ok_def)
  let ?c = "reconcile_handler (PInt (al_revision l)) k True (PStr (tx_signal_id t))
      (PStr (tx_delivery_id t)) (PStr (tx_publication_payload_hash t)) u a"
  let ?a = "reconcile_handler (PInt (al_revision l)) k False PNone PNone PNone u (PStr reason)"
  have c: "?c l = Inr (Mutate (commit_occupancy l t u) u)"
    using assms(3,4) by (simp add: reconcile_handler_def revision_matches_def)
  have a: "?a l = Inr (Mutate (l\<lparr>al_transactions := AList.update k
       (t\<lparr>tx_state := ABORTED, tx_updated_at := u, tx_aborted_at := Some u,
          tx_abort_reason := Some reason\<rparr>) (al_transactions l)\<rparr>) u)"
    using assms(3,4,6) by (simp add: reconcile_handler_def revision_matches_def)
  have "ledger_ok (commit_occupancy l t u)"
    using reconcile_handler_ok [OF reach assms(5) c] by (simp add: reach_ok_def)
  then have ?commit
    using run_locked_mutate [of f l ?c] assms(1,2,5) c id
    by (simp add: reconcile_publication_state_def commit_occupancy_alt)
  moreover have ?abort
    using run_locked_mutate [of f l ?a] assms(1,2,5) a id
      reconcile_handler_ok [OF reach assms(5) a]
    by (simp add: reconcile_publication_state_def reach_ok_def)
  ultimately show ?thesis ..
qed

lemma reconcile_publication_outcome_witness:
  "\<exists>m g. reconcile_publication_state good_io (ledger_file demo_prepared) (PInt 1) (PStr ''x1'')
     (PBool False) PNone PNone PNone (PStr demo_time) (PStr ''NOT_SENT'') = (Inr m, g)
     \<and> al_signals m = []"
proof -
  have tx: "map_of (al_transactions demo_prepared) ''x1'' = Some (demo_transaction\<lparr>tx_state := PREPARED\<rparr>)"
    "tx_state (demo_transaction\<lparr>tx_state := PREPARED\<rparr>) = PREPARED" "nonblank ''NOT_SENT''"
    "al_revision demo_prepared = 1" "al_signals demo_prepared = []"
    by code_simp+
  from conjunct2 [OF reconcile_publication_outcome [OF demo_prepared_run(1) demo_reads(4) tx(1,2)
      demo_utc tx(3)]]
  show ?thesis
    unfolding tx(4,5) by blast
qed

section \<open>Where the code falls short\<close>

text \<open>A reservation does not look its transition id up: here the record of the entry of one
  signal is replaced by the record of the publication of another, and the history of the first
  is lost from a file that still validates.\<close>

theorem reservation_overwrites_transition:
  "\<exists>f g l m t t'. reachable_file f \<and> read_ledger f = Inr l \<and> exec_call good_io demo_clash f = (Inr m, g)
     \<and> map_of (al_transitions l) ''t2'' = Some t \<and> tr_operation t = ENTRY \<and> tr_signal_id t = ''s1''
     \<and> map_of (al_transitions m) ''t2'' = Some t' \<and> tr_operation t' = RESERVE \<and> tr_signal_id t' = ''s2''"
proof -
  have "map_of (al_transitions demo_active) ''t2'' =
      Some (demo_transition ''t2'' ENTRY (Some PUBLISHED_PENDING_ENTRY) ENTRY_ACTIVE None 2)"
    "map_of (al_transitions demo_clashed) ''t2'' =
      Some ((demo_transition ''t2'' RESERVE None PUBLISHED_PENDING_ENTRY None 3)\<lparr>tr_signal_id := ''s2''\<rparr>)"
    by code_simp+
  then show ?thesis
    using demo_active_run(1) demo_reads(2) demo_clashed_run(3)
    by (intro exI conjI) (assumption | simp add: demo_transition_def)+
qed

lemma validate_signal_no_type_error: "validate_signal k v \<noteq> Inl Py_Type_Error"
  by (simp add: validate_signal_def state_shape_error_def split: option.splits)

lemma validate_transaction_no_type_error: "validate_transaction k v s \<noteq> Inl Py_Type_Error"
  by (simp add: validate_transaction_def split: option.splits)

lemma validate_signals_no_type_error: "validate_signals xs seen \<noteq> Inl Py_Type_Error"
  by (induction xs seen rule: validate_signals.induct)
    (auto simp: validate_signal_no_type_error split: sum.splits)

lemma validate_transactions_no_type_error: "validate_transactions xs s seen \<noteq> Inl Py_Type_Error"
  by (induction xs s seen rule: validate_transactions.induct)
    (auto simp: validate_transaction_no_type_error split: sum.splits)

lemma validate_transition_type_error:
  "validate_transition k v s = Inl Py_Type_Error \<Longrightarrow> unhashable (fld v ''operation'')"
  by (simp add: validate_transition_def split: option.splits if_splits)

lemma validate_transitions_type_error:
  "validate_transitions xs s = Inl Py_Type_Error \<Longrightarrow>
    \<exists>p \<in> set xs. unhashable (fld (snd p) ''operation'')"
  by (induction xs s rule: validate_transitions.induct)
    (auto dest: validate_transition_type_error split: sum.splits)

text \<open>Validation reports every defect of a document under a reason code of the module, except
  for one: the operation of a transition that is an array or an object raises an unclassified
  \<open>TypeError\<close>.\<close>

theorem validation_type_error_only_operation:
  assumes "validate_ledger d = Inl Py_Type_Error"
  shows "\<exists>p \<in> set (items (fld d ''transitions'')). unhashable (fld (snd p) ''operation'')"
  using assms unfolding validate_ledger_def
  by (simp add: validate_signals_no_type_error validate_transactions_no_type_error
      capacity_error_def validate_transitions_type_error split: if_splits sum.splits option.splits)

lemma validation_type_error_only_operation_witness:
  "\<exists>d. validate_ledger d = Inl Py_Type_Error
     \<and> (\<exists>p \<in> set (items (fld d ''transitions'')). unhashable (fld (snd p) ''operation''))"
proof -
  let ?t = "PDict (map (\<lambda>k. (k, if k = ''operation'' then PList [] else
      if k = ''transition_id'' then PStr ''t1'' else PNone)) transition_fields)"
  let ?l = "PDict (map (\<lambda>p. if fst p = ''transitions'' then (''transitions'', PDict [(''t1'', ?t)])
      else p) (items (ledger_doc demo_empty)))"
  have "validate_ledger ?l = Inl Py_Type_Error"
    by code_simp
  with validation_type_error_only_operation [OF this] show ?thesis
    by blast
qed

end
