(* ===== verification/Refill_Ledger.thy ===== *)
theory Refill_Ledger
  imports Active_Ledger
begin

text \<open>
  The durable ledger of refill requests, \<open>src/engine/style_refill_request_ledger_v1.py\<close>:
  one request per terminal transition of the active-signal ledger, which a dispatcher claims
  and completes.  The identity of a request is the SHA-256 digest of the canonical JSON text
  of its four identifying fields; the digest function is the parameter \<open>digest\<close> of the
  model, applied to that document.
\<close>

section \<open>Data\<close>

datatype request_status = PENDING | CLAIMED | COMPLETED | CANCELLED_REQUEST

datatype completion = DISPATCHED | STYLE_FULL | CANCELLED_OUTCOME

datatype rerror =
    INVALID_LEDGER
  | INVALID_REQUEST
  | INVALID_MODE
  | INVALID_TERMINAL_STATE
  | REQUEST_ID_COLLISION
  | REQUEST_ALREADY_EXISTS
  | REVISION_CONFLICT
  | REQUEST_NOT_PENDING
  | REQUEST_NOT_CLAIMED
  | CLAIM_TOKEN_CONFLICT
  | INVALID_CAPACITY_SNAPSHOT
  | LOCK_UNAVAILABLE
  | PERSISTENCE_FAILURE

definition request_statuses :: "request_status list" where
  "request_statuses = [PENDING, CLAIMED, COMPLETED, CANCELLED_REQUEST]"

definition completion_outcomes :: "completion list" where
  "completion_outcomes = [DISPATCHED, STYLE_FULL, CANCELLED_OUTCOME]"

text \<open>\<open>TERMINAL_STATES\<close> of this module: CLOSED_MANUAL and REJECTED_BY_OWNER are missing.\<close>

definition refill_terminal_states :: "lifecycle list" where
  "refill_terminal_states = [CLOSED_PROFIT, CLOSED_STOP_LOSS, CANCELLED, EXPIRED, INVALIDATED]"

fun request_status_str :: "request_status \<Rightarrow> string" where
  "request_status_str PENDING = ''PENDING''"
| "request_status_str CLAIMED = ''CLAIMED''"
| "request_status_str COMPLETED = ''COMPLETED''"
| "request_status_str CANCELLED_REQUEST = ''CANCELLED''"

fun completion_str :: "completion \<Rightarrow> string" where
  "completion_str DISPATCHED = ''DISPATCHED''"
| "completion_str STYLE_FULL = ''STYLE_FULL''"
| "completion_str CANCELLED_OUTCOME = ''CANCELLED''"

definition request_status_of :: "pv \<Rightarrow> request_status option" where
  "request_status_of v = List.find (\<lambda>x. v = PStr (request_status_str x)) request_statuses"

definition completion_of :: "pv \<Rightarrow> completion option" where
  "completion_of v = List.find (\<lambda>x. v = PStr (completion_str x)) completion_outcomes"

definition refill_terminal_of :: "pv \<Rightarrow> lifecycle option" where
  "refill_terminal_of v = List.find (\<lambda>x. v = PStr (lifecycle_str x)) refill_terminal_states"

record identity =
  ri_transition_id :: string
  ri_signal_id :: string
  ri_mode :: style
  ri_terminal_state :: lifecycle

text \<open>The completion outcome of a cancelled record is not checked, so it can be any value.\<close>

record request =
  rq_id :: string
  rq_identity :: identity
  rq_status :: request_status
  rq_completion_outcome :: pv
  rq_created_at :: string
  rq_updated_at :: string
  rq_claimed_at :: "string option"
  rq_completed_at :: "string option"
  rq_claim_token :: "string option"
  rq_attempt_count :: int
  rq_source_revision :: int

record source =
  so_identity :: identity
  so_request_id :: string
  so_revision :: int
  so_timestamp :: string

record refill_ledger =
  rl_revision :: int
  rl_created_at :: string
  rl_updated_at :: string
  rl_requests :: "(string \<times> request) list"
  rl_sources :: "(string \<times> source) list"

section \<open>Documents\<close>

text \<open>\<open>_identity_payload\<close>, the document whose digest names the request.\<close>

definition identity_payload :: "identity \<Rightarrow> pv" where
  "identity_payload i = PDict [
     (''schema_version'', PInt 1),
     (''terminal_transition_id'', PStr (ri_transition_id i)),
     (''signal_id'', PStr (ri_signal_id i)),
     (''mode'', PStr (style_str (ri_mode i))),
     (''terminal_state'', PStr (lifecycle_str (ri_terminal_state i)))]"

text \<open>The checked identity of the four arguments or record fields.\<close>

definition request_identity :: "pv \<Rightarrow> pv \<Rightarrow> pv \<Rightarrow> pv \<Rightarrow> (rerror, identity) result" where
  "request_identity terminal_transition_id signal_id mode terminal_state =
    (if \<not> is_ident terminal_transition_id then Inl INVALID_REQUEST
     else if \<not> is_ident signal_id then Inl INVALID_REQUEST
     else case style_of mode of
       None \<Rightarrow> Inl INVALID_MODE
     | Some m \<Rightarrow> (case refill_terminal_of terminal_state of
           None \<Rightarrow> Inl INVALID_TERMINAL_STATE
         | Some st \<Rightarrow> Inr \<lparr>
             ri_transition_id = the_str terminal_transition_id,
             ri_signal_id = the_str signal_id,
             ri_mode = m,
             ri_terminal_state = st\<rparr>))"

definition derive_refill_request_id :: "(pv \<Rightarrow> string) \<Rightarrow> identity \<Rightarrow> string" where
  "derive_refill_request_id digest i = digest (sort_doc (identity_payload i))"

definition request_fields :: "string list" where
  "request_fields = [''refill_request_id'', ''terminal_transition_id'', ''signal_id'', ''mode'',
     ''terminal_state'', ''status'', ''completion_outcome'', ''created_at'', ''updated_at'',
     ''claimed_at'', ''completed_at'', ''claim_token'', ''attempt_count'',
     ''source_ledger_revision'']"

definition source_fields :: "string list" where
  "source_fields = [''terminal_transition_id'', ''signal_id'', ''mode'', ''terminal_state'',
     ''refill_request_id'', ''source_ledger_revision'', ''timestamp'']"

definition refill_fields :: "string list" where
  "refill_fields = [''schema'', ''schema_version'', ''ledger_revision'', ''created_at'',
     ''updated_at'', ''requests'', ''source_transitions'']"

definition request_doc :: "request \<Rightarrow> pv" where
  "request_doc r = PDict [
     (''refill_request_id'', PStr (rq_id r)),
     (''terminal_transition_id'', PStr (ri_transition_id (rq_identity r))),
     (''signal_id'', PStr (ri_signal_id (rq_identity r))),
     (''mode'', PStr (style_str (ri_mode (rq_identity r)))),
     (''terminal_state'', PStr (lifecycle_str (ri_terminal_state (rq_identity r)))),
     (''status'', PStr (request_status_str (rq_status r))),
     (''completion_outcome'', rq_completion_outcome r),
     (''created_at'', PStr (rq_created_at r)),
     (''updated_at'', PStr (rq_updated_at r)),
     (''claimed_at'', str_or_none (rq_claimed_at r)),
     (''completed_at'', str_or_none (rq_completed_at r)),
     (''claim_token'', str_or_none (rq_claim_token r)),
     (''attempt_count'', PInt (rq_attempt_count r)),
     (''source_ledger_revision'', PInt (rq_source_revision r))]"

definition source_doc :: "source \<Rightarrow> pv" where
  "source_doc s = PDict [
     (''terminal_transition_id'', PStr (ri_transition_id (so_identity s))),
     (''signal_id'', PStr (ri_signal_id (so_identity s))),
     (''mode'', PStr (style_str (ri_mode (so_identity s)))),
     (''terminal_state'', PStr (lifecycle_str (ri_terminal_state (so_identity s)))),
     (''refill_request_id'', PStr (so_request_id s)),
     (''source_ledger_revision'', PInt (so_revision s)),
     (''timestamp'', PStr (so_timestamp s))]"

definition refill_doc :: "refill_ledger \<Rightarrow> pv" where
  "refill_doc l = PDict [
     (''schema'', PStr ''style-refill-request-ledger''),
     (''schema_version'', PInt 1),
     (''ledger_revision'', PInt (rl_revision l)),
     (''created_at'', PStr (rl_created_at l)),
     (''updated_at'', PStr (rl_updated_at l)),
     (''requests'', entries_doc request_doc (rl_requests l)),
     (''source_transitions'', entries_doc source_doc (rl_sources l))]"

definition create_empty_refill_ledger :: "pv \<Rightarrow> (rerror, refill_ledger) result" where
  "create_empty_refill_ledger created_at =
    (if \<not> is_utc created_at then Inl INVALID_REQUEST
     else Inr \<lparr>rl_revision = 0, rl_created_at = the_str created_at,
            rl_updated_at = the_str created_at, rl_requests = [], rl_sources = []\<rparr>)"

section \<open>Validation\<close>

text \<open>The last part of \<open>_validate_request\<close>: what each status requires.\<close>

definition status_shape_error :: "request_status \<Rightarrow> pv \<Rightarrow> rerror option" where
  "status_shape_error st v =
    (if st = PENDING then
       (if fld v ''completion_outcome'' \<noteq> PNone \<or> fld v ''claimed_at'' \<noteq> PNone
           \<or> fld v ''completed_at'' \<noteq> PNone \<or> fld v ''claim_token'' \<noteq> PNone
        then Some INVALID_LEDGER else None)
     else if st = CLAIMED then
       (if fld v ''completion_outcome'' \<noteq> PNone \<or> fld v ''completed_at'' \<noteq> PNone
        then Some INVALID_LEDGER
        else if \<not> is_utc (fld v ''claimed_at'') then Some INVALID_REQUEST
        else if \<not> is_ident (fld v ''claim_token'') then Some INVALID_REQUEST
        else None)
     else
       (let expected_outcome =
          (if st = CANCELLED_REQUEST then PStr (completion_str CANCELLED_OUTCOME)
           else fld v ''completion_outcome'')
        in if completion_of expected_outcome = None then Some INVALID_LEDGER
        else if st = COMPLETED
          \<and> completion_of (fld v ''completion_outcome'') \<notin> {Some DISPATCHED, Some STYLE_FULL}
        then Some INVALID_LEDGER
        else if \<not> is_utc (fld v ''claimed_at'') then Some INVALID_REQUEST
        else if \<not> is_utc (fld v ''completed_at'') then Some INVALID_REQUEST
        else if \<not> is_ident (fld v ''claim_token'') then Some INVALID_REQUEST
        else None))"

definition request_of :: "string \<Rightarrow> pv \<Rightarrow> identity \<Rightarrow> request_status \<Rightarrow> request" where
  "request_of request_id v i st = \<lparr>
     rq_id = request_id,
     rq_identity = i,
     rq_status = st,
     rq_completion_outcome = fld v ''completion_outcome'',
     rq_created_at = the_str (fld v ''created_at''),
     rq_updated_at = the_str (fld v ''updated_at''),
     rq_claimed_at = opt_str (fld v ''claimed_at''),
     rq_completed_at = opt_str (fld v ''completed_at''),
     rq_claim_token = opt_str (fld v ''claim_token''),
     rq_attempt_count = the_int (fld v ''attempt_count''),
     rq_source_revision = the_int (fld v ''source_ledger_revision'')\<rparr>"

definition validate_request :: "(pv \<Rightarrow> string) \<Rightarrow> string \<Rightarrow> pv \<Rightarrow> (rerror, request) result" where
  "validate_request digest request_id v =
    (if \<not> has_fields request_fields v then Inl INVALID_LEDGER
     else if fld v ''refill_request_id'' \<noteq> PStr request_id \<or> \<not> sha256_string request_id
     then Inl INVALID_LEDGER
     else case request_identity (fld v ''terminal_transition_id'') (fld v ''signal_id'')
         (fld v ''mode'') (fld v ''terminal_state'') of
       Inl e \<Rightarrow> Inl e
     | Inr i \<Rightarrow>
       if derive_refill_request_id digest i \<noteq> request_id then Inl INVALID_LEDGER
       else case request_status_of (fld v ''status'') of
         None \<Rightarrow> Inl INVALID_LEDGER
       | Some st \<Rightarrow>
         if \<not> is_utc (fld v ''created_at'') then Inl INVALID_REQUEST
         else if \<not> is_utc (fld v ''updated_at'') then Inl INVALID_REQUEST
         else if \<not> is_nat_int (fld v ''attempt_count'') then Inl INVALID_LEDGER
         else if \<not> is_nat_int (fld v ''source_ledger_revision'') then Inl INVALID_LEDGER
         else case status_shape_error st v of
           Some e \<Rightarrow> Inl e
         | None \<Rightarrow> Inr (request_of request_id v i st))"

definition validate_source ::
  "(pv \<Rightarrow> string) \<Rightarrow> string \<Rightarrow> pv \<Rightarrow> (string \<times> request) list \<Rightarrow> (rerror, source) result" where
  "validate_source digest transition_id v requests =
    (if \<not> has_fields source_fields v then Inl INVALID_LEDGER
     else if fld v ''terminal_transition_id'' \<noteq> PStr transition_id then Inl INVALID_LEDGER
     else case request_identity (PStr transition_id) (fld v ''signal_id'') (fld v ''mode'')
         (fld v ''terminal_state'') of
       Inl e \<Rightarrow> Inl e
     | Inr i \<Rightarrow>
       if fld v ''refill_request_id'' \<noteq> PStr (derive_refill_request_id digest i)
          \<or> map_of requests (derive_refill_request_id digest i) = None
       then Inl INVALID_LEDGER
       else if \<not> is_nat_int (fld v ''source_ledger_revision'') then Inl INVALID_LEDGER
       else if \<not> is_utc (fld v ''timestamp'') then Inl INVALID_REQUEST
       else Inr \<lparr>
         so_identity = i,
         so_request_id = derive_refill_request_id digest i,
         so_revision = the_int (fld v ''source_ledger_revision''),
         so_timestamp = the_str (fld v ''timestamp'')\<rparr>)"

text \<open>Validating the entries of a dictionary one after the other.\<close>

fun validate_entries ::
  "(string \<Rightarrow> pv \<Rightarrow> ('e, 'a) result) \<Rightarrow> (string \<times> pv) list \<Rightarrow> ('e, (string \<times> 'a) list) result" where
  "validate_entries check [] = Inr []"
| "validate_entries check ((k, v) # rest) =
    (case check k v of
       Inl e \<Rightarrow> Inl e
     | Inr x \<Rightarrow> (case validate_entries check rest of
           Inl e \<Rightarrow> Inl e
         | Inr xs \<Rightarrow> Inr ((k, x) # xs)))"

definition validate_refill_ledger :: "(pv \<Rightarrow> string) \<Rightarrow> pv \<Rightarrow> (rerror, refill_ledger) result" where
  "validate_refill_ledger digest d =
    (if \<not> has_fields refill_fields d then Inl INVALID_LEDGER
     else if \<not> py_eq (fld d ''schema'') (PStr ''style-refill-request-ledger'')
        \<or> \<not> py_eq (fld d ''schema_version'') (PInt 1)
     then Inl INVALID_LEDGER
     else if \<not> is_nat_int (fld d ''ledger_revision'') then Inl INVALID_LEDGER
     else if \<not> is_utc (fld d ''created_at'') then Inl INVALID_REQUEST
     else if \<not> is_utc (fld d ''updated_at'') then Inl INVALID_REQUEST
     else if \<not> is_dict (fld d ''requests'') \<or> \<not> is_dict (fld d ''source_transitions'')
     then Inl INVALID_LEDGER
     else case validate_entries (validate_request digest) (items (fld d ''requests'')) of
       Inl e \<Rightarrow> Inl e
     | Inr requests \<Rightarrow>
       (case validate_entries (\<lambda>k v. validate_source digest k v requests)
           (items (fld d ''source_transitions'')) of
          Inl e \<Rightarrow> Inl e
        | Inr sources \<Rightarrow> Inr \<lparr>
            rl_revision = the_int (fld d ''ledger_revision''),
            rl_created_at = the_str (fld d ''created_at''),
            rl_updated_at = the_str (fld d ''updated_at''),
            rl_requests = requests,
            rl_sources = sources\<rparr>))"

section \<open>The file\<close>

text \<open>\<open>_read_or_empty\<close>: an absent file is an empty ledger when the caller gives a time stamp.\<close>

definition read_or_empty ::
  "(pv \<Rightarrow> string) \<Rightarrow> pv option \<Rightarrow> disk_file \<Rightarrow> (rerror, refill_ledger) result" where
  "read_or_empty digest created_at f =
    (case f of
       Absent \<Rightarrow> (case created_at of None \<Rightarrow> Inl INVALID_REQUEST
                  | Some t \<Rightarrow> create_empty_refill_ledger t)
     | Garbled \<Rightarrow> Inl INVALID_LEDGER
     | Stored d \<Rightarrow> validate_refill_ledger digest d)"

definition load_refill_ledger ::
  "(pv \<Rightarrow> string) \<Rightarrow> disk_file \<Rightarrow> pv \<Rightarrow> (rerror, refill_ledger) result" where
  "load_refill_ledger digest f created_at =
    read_or_empty digest (if created_at = PNone then None else Some created_at) f"

definition write_refill ::
  "(pv \<Rightarrow> string) \<Rightarrow> io \<Rightarrow> disk_file \<Rightarrow> refill_ledger \<Rightarrow> rerror option \<times> disk_file" where
  "write_refill digest io f l =
    (case validate_refill_ledger digest (refill_doc l) of
       Inl e \<Rightarrow> (Some e, f)
     | Inr l' \<Rightarrow>
         if replace_ok io then (None, Stored (sort_doc (refill_doc l')))
         else (Some PERSISTENCE_FAILURE, f))"

definition persist_refill ::
  "(pv \<Rightarrow> string) \<Rightarrow> io \<Rightarrow> disk_file \<Rightarrow> refill_ledger \<Rightarrow> string
    \<Rightarrow> (rerror, refill_ledger) result \<times> disk_file" where
  "persist_refill digest io f l timestamp =
    (if \<not> utc_string timestamp then (Inl INVALID_REQUEST, f)
     else case validate_refill_ledger digest (refill_doc
         (l\<lparr>rl_revision := rl_revision l + 1, rl_updated_at := timestamp\<rparr>)) of
       Inl e \<Rightarrow> (Inl e, f)
     | Inr document \<Rightarrow> (case write_refill digest io f document of
           (Some e, f') \<Rightarrow> (Inl e, f')
         | (None, f') \<Rightarrow> (Inr document, f')))"

definition run_refill ::
  "(pv \<Rightarrow> string) \<Rightarrow> io \<Rightarrow> pv option \<Rightarrow> disk_file
    \<Rightarrow> (refill_ledger \<Rightarrow> (rerror, refill_ledger mutation) result)
    \<Rightarrow> (rerror, refill_ledger) result \<times> disk_file" where
  "run_refill digest io created_at f handler =
    run_store (lock_loop lock_attempts (opens io) 0) LOCK_UNAVAILABLE
      (read_or_empty digest created_at) (persist_refill digest io) f handler"

section \<open>Operations\<close>

text \<open>\<open>reconcile_terminal_transition\<close>, after the identity and the time stamp are checked.\<close>

definition pending_request :: "string \<Rightarrow> identity \<Rightarrow> int \<Rightarrow> string \<Rightarrow> request" where
  "pending_request request_id i source_revision timestamp = \<lparr>
     rq_id = request_id, rq_identity = i, rq_status = PENDING, rq_completion_outcome = PNone,
     rq_created_at = timestamp, rq_updated_at = timestamp, rq_claimed_at = None,
     rq_completed_at = None, rq_claim_token = None, rq_attempt_count = 0,
     rq_source_revision = source_revision\<rparr>"

definition reconcile_transition_handler ::
  "(pv \<Rightarrow> string) \<Rightarrow> identity \<Rightarrow> pv \<Rightarrow> string \<Rightarrow> pv \<Rightarrow> refill_ledger
    \<Rightarrow> (rerror, refill_ledger mutation) result" where
  "reconcile_transition_handler digest i source_ledger_revision timestamp expected_revision l =
    (let request_id = derive_refill_request_id digest i in
     if expected_revision \<noteq> PNone \<and> \<not> py_eq expected_revision (PInt (rl_revision l))
     then Inl REVISION_CONFLICT
     else case map_of (rl_sources l) (ri_transition_id i) of
       Some s \<Rightarrow>
         if so_identity s \<noteq> i \<or> so_request_id s \<noteq> request_id
            \<or> \<not> py_eq (PInt (so_revision s)) source_ledger_revision
         then Inl REQUEST_ID_COLLISION
         else Inr (Keep l)
     | None \<Rightarrow>
       (case map_of (rl_requests l) request_id of
          Some r \<Rightarrow>
            if rq_identity r \<noteq> i then Inl REQUEST_ID_COLLISION else Inl REQUEST_ALREADY_EXISTS
        | None \<Rightarrow>
            if \<not> is_nat_int source_ledger_revision then Inl INVALID_REQUEST
            else Inr (Mutate (l\<lparr>
              rl_requests := AList.update request_id
                (pending_request request_id i (the_int source_ledger_revision) timestamp)
                (rl_requests l),
              rl_sources := AList.update (ri_transition_id i) \<lparr>
                so_identity = i, so_request_id = request_id,
                so_revision = the_int source_ledger_revision, so_timestamp = timestamp\<rparr>
                (rl_sources l)\<rparr>) timestamp)))"

definition reconcile_terminal_transition ::
  "(pv \<Rightarrow> string) \<Rightarrow> io \<Rightarrow> disk_file \<Rightarrow> pv \<Rightarrow> pv \<Rightarrow> pv \<Rightarrow> pv \<Rightarrow> pv \<Rightarrow> pv \<Rightarrow> pv
    \<Rightarrow> (rerror, refill_ledger) result \<times> disk_file" where
  "reconcile_terminal_transition digest io f terminal_transition_id signal_id mode terminal_state
      source_ledger_revision timestamp expected_revision =
    (case request_identity terminal_transition_id signal_id mode terminal_state of
       Inl e \<Rightarrow> (Inl e, f)
     | Inr i \<Rightarrow>
       if \<not> is_utc timestamp then (Inl INVALID_REQUEST, f)
       else run_refill digest io (Some timestamp) f (reconcile_transition_handler digest i
         source_ledger_revision (the_str timestamp) expected_revision))"

record request_summary =
  total_requests :: nat
  counts :: "request_status \<Rightarrow> style \<Rightarrow> nat"
  ordered_requests :: "request list"

definition inspect_refill_requests :: "(pv \<Rightarrow> string) \<Rightarrow> pv \<Rightarrow> (rerror, request_summary) result" where
  "inspect_refill_requests digest d =
    (case validate_refill_ledger digest d of
       Inl e \<Rightarrow> Inl e
     | Inr l \<Rightarrow> Inr \<lparr>
         total_requests = length (rl_requests l),
         counts = (\<lambda>st m. count_vals (\<lambda>r. rq_status r = st \<and> ri_mode (rq_identity r) = m)
           (rl_requests l)),
         ordered_requests = map snd (sort_key fst (rl_requests l))\<rparr>)"

text \<open>\<open>_remaining_capacity\<close>\<close>

definition remaining_capacity :: "pv \<Rightarrow> style \<Rightarrow> (rerror, int) result" where
  "remaining_capacity snapshot mode =
    (if \<not> is_dict snapshot \<or> \<not> has_key snapshot ''remaining_by_mode''
     then Inl INVALID_CAPACITY_SNAPSHOT
     else let values = fld snapshot ''remaining_by_mode'' in
       if \<not> has_fields (map style_str styles) values then Inl INVALID_CAPACITY_SNAPSHOT
       else if \<not> is_nat_int (fld values (style_str mode)) then Inl INVALID_CAPACITY_SNAPSHOT
       else Inr (the_int (fld values (style_str mode))))"

datatype eligibility = NOT_ELIGIBLE | STYLE_IS_FULL | ELIGIBLE_ONE_SCAN_UNIT

text \<open>The mode of the request and the number of scan units come with the verdict.\<close>

definition request_eligibility ::
  "request \<Rightarrow> pv \<Rightarrow> (rerror, eligibility \<times> nat \<times> style) result" where
  "request_eligibility r capacity_snapshot =
    (let m = ri_mode (rq_identity r) in
     if rq_status r \<noteq> PENDING then Inr (NOT_ELIGIBLE, 0, m)
     else case remaining_capacity capacity_snapshot m of
       Inl e \<Rightarrow> Inl e
     | Inr remaining \<Rightarrow>
         if remaining = 0 then Inr (STYLE_IS_FULL, 0, m)
         else Inr (ELIGIBLE_ONE_SCAN_UNIT, 1, m))"

definition evaluate_dispatch_eligibility ::
  "(pv \<Rightarrow> string) \<Rightarrow> pv \<Rightarrow> string \<Rightarrow> pv \<Rightarrow> (rerror, eligibility \<times> nat \<times> style) result" where
  "evaluate_dispatch_eligibility digest d refill_request_id capacity_snapshot =
    (case validate_refill_ledger digest d of
       Inl e \<Rightarrow> Inl e
     | Inr l \<Rightarrow> (case map_of (rl_requests l) refill_request_id of
           None \<Rightarrow> Inl INVALID_REQUEST
         | Some r \<Rightarrow> request_eligibility r capacity_snapshot))"

definition expected_matches :: "refill_ledger \<Rightarrow> pv \<Rightarrow> bool" where
  "expected_matches l expected_revision = (expected_revision = PInt (rl_revision l))"

definition claim_handler ::
  "string \<Rightarrow> string \<Rightarrow> string \<Rightarrow> pv \<Rightarrow> refill_ledger \<Rightarrow> (rerror, refill_ledger mutation) result" where
  "claim_handler refill_request_id claim_token timestamp expected_revision l =
    (if \<not> expected_matches l expected_revision then Inl REVISION_CONFLICT
     else case map_of (rl_requests l) refill_request_id of
       None \<Rightarrow> Inl INVALID_REQUEST
     | Some r \<Rightarrow>
         if rq_status r = CLAIMED then
           (if rq_claim_token r = Some claim_token then Inr (Keep l) else Inl CLAIM_TOKEN_CONFLICT)
         else if rq_status r \<noteq> PENDING then Inl REQUEST_NOT_PENDING
         else Inr (Mutate (l\<lparr>rl_requests := AList.update refill_request_id
             (r\<lparr>rq_status := CLAIMED, rq_claim_token := Some claim_token,
                rq_claimed_at := Some timestamp, rq_updated_at := timestamp,
                rq_attempt_count := rq_attempt_count r + 1\<rparr>) (rl_requests l)\<rparr>) timestamp))"

definition claim_refill_request ::
  "(pv \<Rightarrow> string) \<Rightarrow> io \<Rightarrow> disk_file \<Rightarrow> pv \<Rightarrow> pv \<Rightarrow> pv \<Rightarrow> pv
    \<Rightarrow> (rerror, refill_ledger) result \<times> disk_file" where
  "claim_refill_request digest io f refill_request_id claim_token timestamp expected_revision =
    (if \<not> is_ident refill_request_id then (Inl INVALID_REQUEST, f)
     else if \<not> is_ident claim_token then (Inl INVALID_REQUEST, f)
     else if \<not> is_utc timestamp then (Inl INVALID_REQUEST, f)
     else run_refill digest io None f (claim_handler (the_str refill_request_id)
       (the_str claim_token) (the_str timestamp) expected_revision))"

definition complete_handler ::
  "string \<Rightarrow> string \<Rightarrow> completion \<Rightarrow> string \<Rightarrow> pv \<Rightarrow> refill_ledger
    \<Rightarrow> (rerror, refill_ledger mutation) result" where
  "complete_handler refill_request_id claim_token outcome timestamp expected_revision l =
    (if \<not> expected_matches l expected_revision then Inl REVISION_CONFLICT
     else case map_of (rl_requests l) refill_request_id of
       None \<Rightarrow> Inl INVALID_REQUEST
     | Some r \<Rightarrow>
         if rq_status r = COMPLETED \<or> rq_status r = CANCELLED_REQUEST then
           (if rq_claim_token r = Some claim_token
               \<and> rq_completion_outcome r = PStr (completion_str outcome)
            then Inr (Keep l) else Inl CLAIM_TOKEN_CONFLICT)
         else if rq_status r \<noteq> CLAIMED then Inl REQUEST_NOT_CLAIMED
         else if rq_claim_token r \<noteq> Some claim_token then Inl CLAIM_TOKEN_CONFLICT
         else Inr (Mutate (l\<lparr>rl_requests := AList.update refill_request_id
             (r\<lparr>rq_status := (if outcome = CANCELLED_OUTCOME then CANCELLED_REQUEST else COMPLETED),
                rq_completion_outcome := PStr (completion_str outcome),
                rq_completed_at := Some timestamp, rq_updated_at := timestamp\<rparr>)
             (rl_requests l)\<rparr>) timestamp))"

definition complete_refill_request ::
  "(pv \<Rightarrow> string) \<Rightarrow> io \<Rightarrow> disk_file \<Rightarrow> pv \<Rightarrow> pv \<Rightarrow> pv \<Rightarrow> pv \<Rightarrow> pv
    \<Rightarrow> (rerror, refill_ledger) result \<times> disk_file" where
  "complete_refill_request digest io f refill_request_id claim_token completion_outcome timestamp
      expected_revision =
    (if \<not> is_ident refill_request_id then (Inl INVALID_REQUEST, f)
     else if \<not> is_ident claim_token then (Inl INVALID_REQUEST, f)
     else if \<not> is_utc timestamp then (Inl INVALID_REQUEST, f)
     else case completion_of completion_outcome of
       None \<Rightarrow> (Inl INVALID_REQUEST, f)
     | Some outcome \<Rightarrow> run_refill digest io None f (complete_handler (the_str refill_request_id)
         (the_str claim_token) outcome (the_str timestamp) expected_revision))"

text \<open>
  \<open>recover_interrupted_claims\<close> compares time stamps as strings.  The loop runs over the
  sorted request ids and changes each record in place; the records are independent, so the
  entries can be changed where they stand.
\<close>

definition interrupted :: "string \<Rightarrow> request \<Rightarrow> bool" where
  "interrupted recovery_before r =
    (rq_status r = CLAIMED
     \<and> (case rq_claimed_at r of None \<Rightarrow> False | Some t \<Rightarrow> t < recovery_before))"

definition release_claim :: "string \<Rightarrow> request \<Rightarrow> request" where
  "release_claim timestamp r = r\<lparr>rq_status := PENDING, rq_claim_token := None,
     rq_claimed_at := None, rq_updated_at := timestamp\<rparr>"

definition recovered_ids :: "string \<Rightarrow> refill_ledger \<Rightarrow> string list" where
  "recovered_ids recovery_before l =
    sort (map fst (filter (\<lambda>p. interrupted recovery_before (snd p)) (rl_requests l)))"

definition recover_handler ::
  "string \<Rightarrow> string \<Rightarrow> pv \<Rightarrow> refill_ledger \<Rightarrow> (rerror, refill_ledger mutation) result" where
  "recover_handler recovery_before timestamp expected_revision l =
    (if \<not> expected_matches l expected_revision then Inl REVISION_CONFLICT
     else if recovered_ids recovery_before l = [] then Inr (Keep l)
     else Inr (Mutate (l\<lparr>rl_requests :=
         map (\<lambda>p. (fst p, if interrupted recovery_before (snd p)
                          then release_claim timestamp (snd p) else snd p)) (rl_requests l)\<rparr>)
       timestamp))"

definition recover_interrupted_claims ::
  "(pv \<Rightarrow> string) \<Rightarrow> io \<Rightarrow> disk_file \<Rightarrow> pv \<Rightarrow> pv \<Rightarrow> pv
    \<Rightarrow> (rerror, refill_ledger \<times> string list) result \<times> disk_file" where
  "recover_interrupted_claims digest io f recovery_before_timestamp timestamp expected_revision =
    (if \<not> is_utc recovery_before_timestamp then (Inl INVALID_REQUEST, f)
     else if \<not> is_utc timestamp then (Inl INVALID_REQUEST, f)
     else case run_refill digest io None f (recover_handler (the_str recovery_before_timestamp)
         (the_str timestamp) expected_revision) of
       (Inl e, f') \<Rightarrow> (Inl e, f')
     | (Inr l', f') \<Rightarrow> (Inr (l', (case read_or_empty digest None f of
           Inl e \<Rightarrow> [] | Inr l \<Rightarrow> recovered_ids (the_str recovery_before_timestamp) l)), f'))"

end
