(* ===== verification/Refill_Ledger_Facts.thy ===== *)
theory Refill_Ledger_Facts
  imports Refill_Ledger Active_Ledger_Facts
begin

text \<open>
  The refill-request ledger: what validation establishes, the invariant of the files the
  operations write, and the contract of the file frame.
\<close>

section \<open>Vocabulary\<close>

lemma request_status_of_iff [simp]:
  "request_status_of v = Some m \<longleftrightarrow> v = PStr (request_status_str m)"
  by (cases m) (auto simp: request_status_of_def request_statuses_def)

lemma completion_of_iff [simp]: "completion_of v = Some m \<longleftrightarrow> v = PStr (completion_str m)"
  by (cases m) (auto simp: completion_of_def completion_outcomes_def)

lemma refill_terminal_of_iff [simp]:
  "refill_terminal_of v = Some m \<longleftrightarrow> v = PStr (lifecycle_str m) \<and> m \<in> set refill_terminal_states"
  by (cases m) (auto simp: refill_terminal_of_def refill_terminal_states_def)

lemma refill_vocabulary_decode [simp]:
  "request_status_of (PStr (request_status_str st)) = Some st"
  "completion_of (PStr (completion_str c)) = Some c"
  by (simp_all only: request_status_of_iff completion_of_iff)

lemma completion_str_ex [simp]:
  "\<exists>c. ''DISPATCHED'' = completion_str c" "\<exists>c. ''STYLE_FULL'' = completion_str c"
  "\<exists>c. ''CANCELLED'' = completion_str c"
  by (metis completion_str.simps)+

section \<open>Well-formed refill ledgers\<close>

definition identity_ok :: "identity \<Rightarrow> bool" where
  "identity_ok i = (nonblank (ri_transition_id i) \<and> nonblank (ri_signal_id i)
     \<and> ri_terminal_state i \<in> set refill_terminal_states)"

definition claim_stamps_ok :: "request \<Rightarrow> bool" where
  "claim_stamps_ok r = (opt_ex utc_string (rq_claimed_at r) \<and> opt_ex nonblank (rq_claim_token r))"

definition status_shape_ok :: "request \<Rightarrow> bool" where
  "status_shape_ok r = (case rq_status r of
     PENDING \<Rightarrow> rq_completion_outcome r = PNone \<and> rq_claimed_at r = None
       \<and> rq_completed_at r = None \<and> rq_claim_token r = None
   | CLAIMED \<Rightarrow> rq_completion_outcome r = PNone \<and> rq_completed_at r = None \<and> claim_stamps_ok r
   | COMPLETED \<Rightarrow> rq_completion_outcome r \<in> {PStr (completion_str DISPATCHED), PStr (completion_str STYLE_FULL)}
       \<and> opt_ex utc_string (rq_completed_at r) \<and> claim_stamps_ok r
   | CANCELLED_REQUEST \<Rightarrow> opt_ex utc_string (rq_completed_at r) \<and> claim_stamps_ok r)"

definition request_ok :: "(pv \<Rightarrow> string) \<Rightarrow> string \<Rightarrow> request \<Rightarrow> bool" where
  "request_ok digest k r =
    (rq_id r = k \<and> sha256_string k \<and> identity_ok (rq_identity r)
     \<and> derive_refill_request_id digest (rq_identity r) = k
     \<and> utc_string (rq_created_at r) \<and> utc_string (rq_updated_at r)
     \<and> 0 \<le> rq_attempt_count r \<and> 0 \<le> rq_source_revision r \<and> status_shape_ok r)"

definition source_ok :: "(pv \<Rightarrow> string) \<Rightarrow> string set \<Rightarrow> string \<Rightarrow> source \<Rightarrow> bool" where
  "source_ok digest request_ids k s =
    (ri_transition_id (so_identity s) = k \<and> identity_ok (so_identity s)
     \<and> so_request_id s = derive_refill_request_id digest (so_identity s)
     \<and> so_request_id s \<in> request_ids \<and> 0 \<le> so_revision s \<and> utc_string (so_timestamp s))"

definition refill_ok :: "(pv \<Rightarrow> string) \<Rightarrow> refill_ledger \<Rightarrow> bool" where
  "refill_ok digest l =
    (0 \<le> rl_revision l \<and> utc_string (rl_created_at l) \<and> utc_string (rl_updated_at l)
     \<and> distinct (map fst (rl_requests l)) \<and> distinct (map fst (rl_sources l))
     \<and> (\<forall>p \<in> set (rl_requests l). request_ok digest (fst p) (snd p))
     \<and> (\<forall>p \<in> set (rl_sources l). source_ok digest (fst ` set (rl_requests l)) (fst p) (snd p)))"

section \<open>Validation returns well-formed ledgers\<close>

lemma request_identity_sound:
  "request_identity a b c d = Inr i \<Longrightarrow> identity_ok i \<and> PStr (ri_transition_id i) = a"
  unfolding request_identity_def inr_convs by (auto simp: identity_ok_def str_pred_dest)

lemma request_of_simps [simp]:
  "rq_id (request_of k v i st) = k" "rq_identity (request_of k v i st) = i"
  "rq_status (request_of k v i st) = st"
  "rq_completion_outcome (request_of k v i st) = fld v ''completion_outcome''"
  "rq_created_at (request_of k v i st) = the_str (fld v ''created_at'')"
  "rq_updated_at (request_of k v i st) = the_str (fld v ''updated_at'')"
  "rq_claimed_at (request_of k v i st) = opt_str (fld v ''claimed_at'')"
  "rq_completed_at (request_of k v i st) = opt_str (fld v ''completed_at'')"
  "rq_claim_token (request_of k v i st) = opt_str (fld v ''claim_token'')"
  "rq_attempt_count (request_of k v i st) = the_int (fld v ''attempt_count'')"
  "rq_source_revision (request_of k v i st) = the_int (fld v ''source_ledger_revision'')"
  by (simp_all add: request_of_def)

lemma opt_str_preds:
  "is_utc v \<Longrightarrow> opt_ex utc_string (opt_str v)" "is_ident v \<Longrightarrow> opt_ex nonblank (opt_str v)"
  by (cases v; simp add: is_utc_def is_ident_def)+

lemma status_shape_sound:
  assumes "status_shape_error st v = None"
  shows "status_shape_ok (request_of k v i st)"
  using assms
  by (cases st)
    (auto simp: status_shape_error_def status_shape_ok_def claim_stamps_ok_def opt_str_preds Let_def
      split: if_splits)

lemma validate_request_sound:
  assumes "validate_request digest k v = Inr r"
  shows "request_ok digest k r"
proof -
  from assms obtain i st where v: "sha256_string k" "identity_ok i"
    "derive_refill_request_id digest i = k"
    "is_utc (fld v ''created_at'')" "is_utc (fld v ''updated_at'')"
    "is_nat_int (fld v ''attempt_count'')" "is_nat_int (fld v ''source_ledger_revision'')"
    "status_shape_error st v = None" and r: "r = request_of k v i st"
    unfolding validate_request_def inr_convs by (auto dest: request_identity_sound)
  from v show ?thesis
    using status_shape_sound [OF v(8)] by (simp add: r request_ok_def str_pred_dest)
qed

lemma validate_source_sound:
  assumes "validate_source digest k v requests = Inr s"
  shows "source_ok digest (fst ` set requests) k s"
proof -
  have key: "x \<in> fst ` set requests" if "map_of requests x \<noteq> None" for x
    using that by (metis map_of_eq_None_iff)
  show ?thesis
    using assms unfolding validate_source_def inr_convs
    by (auto simp: source_ok_def str_pred_dest dest: request_identity_sound intro!: key)
qed

lemma validate_entries_sound:
  assumes "validate_entries check xs = Inr ys"
  shows "map fst ys = map fst xs \<and> (\<forall>p \<in> set ys. \<exists>v. check (fst p) v = Inr (snd p))"
  using assms
proof (induction check xs arbitrary: ys rule: validate_entries.induct)
  case (1 check)
  then show ?case by simp
next
  case (2 check k v rest)
  from "2.prems" obtain x xs where x: "check k v = Inr x" "ys = (k, x) # xs"
    and rest: "validate_entries check rest = Inr xs"
    by (auto simp: inr_convs)
  from "2.IH" [OF x(1) rest] x show ?case
    by auto
qed

theorem validate_refill_sound:
  assumes "validate_refill_ledger digest d = Inr l" "wf_pv d"
  shows "refill_ok digest l"
proof -
  have keys: "distinct (map fst (items (fld d k)))" for k
    using assms(2) wf_items wf_fld by blast
  from assms(1) have v: "0 \<le> rl_revision l" "utc_string (rl_created_at l)" "utc_string (rl_updated_at l)"
    and req: "validate_entries (validate_request digest) (items (fld d ''requests'')) = Inr (rl_requests l)"
    and src: "validate_entries (\<lambda>k v. validate_source digest k v (rl_requests l))
      (items (fld d ''source_transitions'')) = Inr (rl_sources l)"
    unfolding validate_refill_ledger_def inr_convs by (auto simp: str_pred_dest)
  show ?thesis
    using v keys validate_entries_sound [OF req] validate_entries_sound [OF src]
      validate_request_sound validate_source_sound
    unfolding refill_ok_def by (metis (no_types, lifting))
qed

section \<open>Validation accepts every document the module writes\<close>

text \<open>
  Validation does not look at the outcome of a cancelled request, but every operation writes
  the matching one.
\<close>

definition outcome_ok :: "request \<Rightarrow> bool" where
  "outcome_ok r = (rq_status r = CANCELLED_REQUEST \<longrightarrow>
     rq_completion_outcome r = PStr (completion_str CANCELLED_OUTCOME))"

lemma outcome_leaf:
  assumes "status_shape_ok r" "outcome_ok r"
  shows "sort_doc (rq_completion_outcome r) = rq_completion_outcome r"
  using assms
  by (auto simp: status_shape_ok_def outcome_ok_def split: request_status.splits)

lemma request_doc_wf:
  "distinct (map fst (items (request_doc r)))" "has_fields request_fields (request_doc r)"
  by (simp_all add: request_doc_def has_fields_PDict request_fields_def)

lemma request_doc_reads:
  assumes "doc_like (request_doc r) v" "sort_doc (rq_completion_outcome r) = rq_completion_outcome r"
  shows
    "fld v ''refill_request_id'' = PStr (rq_id r)"
    "fld v ''terminal_transition_id'' = PStr (ri_transition_id (rq_identity r))"
    "fld v ''signal_id'' = PStr (ri_signal_id (rq_identity r))"
    "fld v ''mode'' = PStr (style_str (ri_mode (rq_identity r)))"
    "fld v ''terminal_state'' = PStr (lifecycle_str (ri_terminal_state (rq_identity r)))"
    "fld v ''status'' = PStr (request_status_str (rq_status r))"
    "fld v ''completion_outcome'' = rq_completion_outcome r"
    "fld v ''created_at'' = PStr (rq_created_at r)"
    "fld v ''updated_at'' = PStr (rq_updated_at r)"
    "fld v ''claimed_at'' = str_or_none (rq_claimed_at r)"
    "fld v ''completed_at'' = str_or_none (rq_completed_at r)"
    "fld v ''claim_token'' = str_or_none (rq_claim_token r)"
    "fld v ''attempt_count'' = PInt (rq_attempt_count r)"
    "fld v ''source_ledger_revision'' = PInt (rq_source_revision r)"
  by (rule doc_like_fld [OF assms(1) request_doc_wf(1)]; simp add: request_doc_def assms(2))+

lemma source_doc_wf:
  "distinct (map fst (items (source_doc s)))" "has_fields source_fields (source_doc s)"
  by (simp_all add: source_doc_def has_fields_PDict source_fields_def)

lemma source_doc_reads:
  assumes "doc_like (source_doc s) v"
  shows
    "fld v ''terminal_transition_id'' = PStr (ri_transition_id (so_identity s))"
    "fld v ''signal_id'' = PStr (ri_signal_id (so_identity s))"
    "fld v ''mode'' = PStr (style_str (ri_mode (so_identity s)))"
    "fld v ''terminal_state'' = PStr (lifecycle_str (ri_terminal_state (so_identity s)))"
    "fld v ''refill_request_id'' = PStr (so_request_id s)"
    "fld v ''source_ledger_revision'' = PInt (so_revision s)"
    "fld v ''timestamp'' = PStr (so_timestamp s)"
  by (rule doc_like_fld [OF assms source_doc_wf(1)]; simp add: source_doc_def)+

lemma request_identity_complete:
  assumes "identity_ok i"
  shows "request_identity (PStr (ri_transition_id i)) (PStr (ri_signal_id i))
    (PStr (style_str (ri_mode i))) (PStr (lifecycle_str (ri_terminal_state i))) = Inr i"
proof -
  have "refill_terminal_of (PStr (lifecycle_str (ri_terminal_state i))) = Some (ri_terminal_state i)"
    using assms by (simp add: identity_ok_def)
  then show ?thesis
    using assms by (simp add: request_identity_def identity_ok_def del: refill_terminal_of_iff)
qed

lemma str_or_none_preds:
  "is_utc (str_or_none x) = opt_ex utc_string x" "is_ident (str_or_none x) = opt_ex nonblank x"
  by (cases x; simp)+

lemma validate_request_complete:
  assumes "request_ok digest k r" "outcome_ok r" and d: "doc_like (request_doc r) v"
  shows "validate_request digest k v = Inr r"
proof -
  have shape: "status_shape_ok r"
    using assms(1) by (simp add: request_ok_def)
  note f = request_doc_reads [OF d outcome_leaf [OF shape assms(2)]]
  have "status_shape_error (rq_status r) v = None"
    using shape
    by (cases "rq_status r")
      (auto simp: status_shape_error_def status_shape_ok_def claim_stamps_ok_def f str_or_none_preds)
  moreover have "request_of k v (rq_identity r) (rq_status r) = r"
    using assms(1) by (simp add: request_of_def f request_ok_def)
  ultimately show ?thesis
    using assms(1) doc_like_fields [OF d] request_doc_wf(2)
    by (simp add: validate_request_def f request_ok_def request_identity_complete)
qed

lemma validate_source_complete:
  assumes "source_ok digest (fst ` set requests) k s" and d: "doc_like (source_doc s) v"
  shows "validate_source digest k v requests = Inr s"
proof -
  note f = source_doc_reads [OF d]
  have "map_of requests (so_request_id s) \<noteq> None"
    using assms(1) unfolding source_ok_def by (metis map_of_eq_None_iff)
  moreover have "request_identity (PStr k) (PStr (ri_signal_id (so_identity s)))
      (PStr (style_str (ri_mode (so_identity s))))
      (PStr (lifecycle_str (ri_terminal_state (so_identity s)))) = Inr (so_identity s)"
    using assms(1) request_identity_complete [of "so_identity s"] by (auto simp: source_ok_def)
  ultimately show ?thesis
    using assms(1) doc_like_fields [OF d] source_doc_wf(2)
    by (simp add: validate_source_def f source_ok_def)
qed

lemma validate_entries_complete:
  assumes "\<forall>p \<in> set al. check (fst p) (g (snd p)) = Inr (snd p)"
  shows "validate_entries check (map (\<lambda>p. (fst p, g (snd p))) al) = Inr al"
  using assms by (induction al) auto

end
