(* ===== verification/Refill_Ledger_Steps.thy ===== *)
theory Refill_Ledger_Steps
  imports Refill_Ledger_Facts Active_Ledger_Calls
begin

text \<open>
  The refill-request ledger: the invariant of the files its operations write, the contract of
  the file frame, and the operations as a transition system on the file.
\<close>

section \<open>The file\<close>

definition sorted_refill :: "refill_ledger \<Rightarrow> refill_ledger" where
  "sorted_refill l = l\<lparr>rl_requests := sort_key fst (rl_requests l),
     rl_sources := sort_key fst (rl_sources l)\<rparr>"

lemma sorted_refill_simps [simp]:
  "rl_requests (sorted_refill l) = sort_key fst (rl_requests l)"
  "rl_sources (sorted_refill l) = sort_key fst (rl_sources l)"
  "rl_revision (sorted_refill l) = rl_revision l"
  "rl_created_at (sorted_refill l) = rl_created_at l"
  "rl_updated_at (sorted_refill l) = rl_updated_at l"
  by (simp_all add: sorted_refill_def)

definition same_refill :: "refill_ledger \<Rightarrow> refill_ledger \<Rightarrow> bool" where
  "same_refill l m = (sorted_refill l = sorted_refill m)"

text \<open>
  What the operations keep true beyond validity: a cancelled request says so, and every
  request is the one recorded for its terminal transition.
\<close>

definition recorded :: "refill_ledger \<Rightarrow> request \<Rightarrow> bool" where
  "recorded l r = (\<exists>s. map_of (rl_sources l) (ri_transition_id (rq_identity r)) = Some s
     \<and> so_identity s = rq_identity r)"

definition refill_reach :: "(pv \<Rightarrow> string) \<Rightarrow> refill_ledger \<Rightarrow> bool" where
  "refill_reach digest l =
    (refill_ok digest l \<and> (\<forall>p \<in> set (rl_requests l). outcome_ok (snd p) \<and> recorded l (snd p)))"

lemma recorded_cong: "map_of (rl_sources m) = map_of (rl_sources l) \<Longrightarrow> recorded m = recorded l"
  by (rule ext) (simp add: recorded_def)

lemma refill_reach_sorted:
  assumes "refill_reach digest l"
  shows "refill_reach digest (sorted_refill l)"
proof -
  have "recorded (sorted_refill l) = recorded l"
    by (rule recorded_cong) (use assms in \<open>simp add: refill_reach_def refill_ok_def map_of_sort_key\<close>)
  with assms show ?thesis
    by (simp add: refill_reach_def refill_ok_def)
qed

lemma refill_doc_wf:
  "distinct (map fst (items (refill_doc l)))" "has_fields refill_fields (refill_doc l)"
  by (simp_all add: refill_doc_def has_fields_PDict refill_fields_def)

lemma refill_doc_reads:
  "fld (refill_doc l) ''schema'' = PStr ''style-refill-request-ledger''"
  "fld (refill_doc l) ''schema_version'' = PInt 1"
  "fld (refill_doc l) ''ledger_revision'' = PInt (rl_revision l)"
  "fld (refill_doc l) ''created_at'' = PStr (rl_created_at l)"
  "fld (refill_doc l) ''updated_at'' = PStr (rl_updated_at l)"
  "fld (refill_doc l) ''requests'' = entries_doc request_doc (rl_requests l)"
  "fld (refill_doc l) ''source_transitions'' = entries_doc source_doc (rl_sources l)"
  by (simp_all add: refill_doc_def)

lemma requests_complete:
  assumes "refill_reach digest l" "\<And>r. doc_like (request_doc r) (g r)"
  shows "validate_entries (validate_request digest) (map (\<lambda>p. (fst p, g (snd p))) (rl_requests l))
    = Inr (rl_requests l)"
  by (rule validate_entries_complete)
    (use assms in \<open>simp add: refill_reach_def refill_ok_def validate_request_complete\<close>)

lemma sources_complete:
  assumes "refill_reach digest l" "\<And>s. doc_like (source_doc s) (g s)"
  shows "validate_entries (\<lambda>k v. validate_source digest k v (rl_requests l))
    (map (\<lambda>p. (fst p, g (snd p))) (rl_sources l)) = Inr (rl_sources l)"
  by (rule validate_entries_complete)
    (use assms in \<open>simp add: refill_reach_def refill_ok_def validate_source_complete\<close>)

lemma doc_like_self: "doc_like d d" "doc_like d (sort_doc d)"
  by (simp_all add: doc_like_def)

lemma validate_refill_doc:
  assumes "refill_reach digest l"
  shows "validate_refill_ledger digest (refill_doc l) = Inr l"
  using assms requests_complete [OF assms doc_like_self(1)] sources_complete [OF assms doc_like_self(1)]
  by (simp add: validate_refill_ledger_def refill_doc_wf refill_doc_reads refill_reach_def refill_ok_def)

lemma validate_refill_sorted:
  assumes reach: "refill_reach digest l"
  shows "validate_refill_ledger digest (sort_doc (refill_doc l)) = Inr (sorted_refill l)"
proof -
  have reads: "fld (sort_doc (refill_doc l)) k = sort_doc (fld (refill_doc l) k)" for k
    by (rule fld_sort_doc [OF refill_doc_wf(1)])
  note sorted = refill_reach_sorted [OF reach]
  have "validate_entries (validate_request digest) (items (sort_doc (entries_doc request_doc (rl_requests l))))
      = Inr (sort_key fst (rl_requests l))"
    using requests_complete [OF sorted doc_like_self(2)] by (simp add: items_sorted_entries)
  moreover have "validate_entries (\<lambda>k v. validate_source digest k v (sort_key fst (rl_requests l)))
      (items (sort_doc (entries_doc source_doc (rl_sources l)))) = Inr (sort_key fst (rl_sources l))"
    using sources_complete [OF sorted doc_like_self(2)] by (simp add: items_sorted_entries)
  moreover have "0 \<le> rl_revision l" "utc_string (rl_created_at l)" "utc_string (rl_updated_at l)"
    using reach by (simp_all add: refill_reach_def refill_ok_def)
  ultimately show ?thesis
    by (simp add: validate_refill_ledger_def refill_doc_wf reads refill_doc_reads sorted_refill_def)
qed

definition refill_bump :: "refill_ledger \<Rightarrow> string \<Rightarrow> refill_ledger" where
  "refill_bump l t = l\<lparr>rl_revision := rl_revision l + 1, rl_updated_at := t\<rparr>"

lemma refill_bump_simps [simp]:
  "rl_revision (refill_bump l t) = rl_revision l + 1" "rl_updated_at (refill_bump l t) = t"
  "rl_created_at (refill_bump l t) = rl_created_at l" "rl_requests (refill_bump l t) = rl_requests l"
  "rl_sources (refill_bump l t) = rl_sources l"
  by (simp_all add: refill_bump_def)

lemma refill_reach_bump: "refill_reach digest l \<Longrightarrow> utc_string t \<Longrightarrow> refill_reach digest (refill_bump l t)"
  using recorded_cong [of "refill_bump l t" l] by (simp add: refill_reach_def refill_ok_def)

lemma persist_refill_ok:
  assumes "refill_reach digest l" "utc_string t"
  shows "persist_refill digest io f l t =
    (if replace_ok io then (Inr (refill_bump l t), Stored (sort_doc (refill_doc (refill_bump l t))))
     else (Inl PERSISTENCE_FAILURE, f))"
proof -
  have "validate_refill_ledger digest (refill_doc (refill_bump l t)) = Inr (refill_bump l t)"
    using validate_refill_doc refill_reach_bump [OF assms] by blast
  then show ?thesis
    using assms(2) by (simp add: persist_refill_def write_refill_def flip: refill_bump_def)
qed

lemma read_stored_refill:
  assumes "refill_reach digest l"
  shows "read_or_empty digest c (Stored (sort_doc (refill_doc l))) = Inr (sorted_refill l)"
  using validate_refill_sorted [OF assms] by (simp add: read_or_empty_def)

lemma validate_refill_revision:
  "validate_refill_ledger digest d = Inr l \<Longrightarrow> rl_revision l = the_int (fld d ''ledger_revision'')"
  unfolding validate_refill_ledger_def inr_convs by auto

interpretation rl_guard: guarded_ledger
  "read_or_empty digest c" "persist_refill digest io" "refill_reach digest" rl_revision same_refill
  "refill_reach digest" utc_string refill_bump for digest c io
proof unfold_locales
  fix f f' :: disk_file and l l' :: refill_ledger and t :: string and e :: rerror
  show "f' = f" if "persist_refill digest io f l t = (Inl e, f')"
    using that
    by (auto simp: persist_refill_def write_refill_def
        split: if_splits sum.splits prod.splits option.splits)
  show "rl_revision l' = rl_revision l + 1" if "persist_refill digest io f l t = (Inr l', f')"
  proof -
    have "validate_refill_ledger digest (refill_doc (refill_bump l t)) = Inr l'"
      using that by (auto simp: persist_refill_def refill_bump_def
          split: if_splits sum.splits prod.splits option.splits)
    from validate_refill_revision [OF this] show ?thesis
      by (simp add: refill_doc_reads)
  qed
  show "\<exists>m. read_or_empty digest c f' = Inr m \<and> same_refill l' m"
    if "persist_refill digest io f l t = (Inr l', f')" "refill_reach digest l'"
  proof -
    have "write_refill digest io f l' = (None, f')"
      using that(1) by (auto simp: persist_refill_def
          split: if_splits sum.splits prod.splits option.splits)
    then have "f' = Stored (sort_doc (refill_doc l'))"
      using validate_refill_doc [OF that(2)] by (simp add: write_refill_def split: if_splits)
    then show ?thesis
      using read_stored_refill [OF that(2)] by (simp add: same_refill_def sorted_refill_def)
  qed
  show "rl_revision l = rl_revision l'" if "same_refill l l'"
    using arg_cong [OF that [unfolded same_refill_def], of rl_revision] by simp
  show "same_refill l l"
    by (simp add: same_refill_def)
  assume l: "refill_reach digest l" and t: "utc_string t"
    and p: "persist_refill digest io f l t = (Inr l', f')"
  then have "(Inr l', f') = (if replace_ok io
      then (Inr (refill_bump l t), Stored (sort_doc (refill_doc (refill_bump l t))))
      else (Inl PERSISTENCE_FAILURE, f))"
    by (simp add: persist_refill_ok)
  then have l': "l' = refill_bump l t" "f' = Stored (sort_doc (refill_doc l'))"
    by (simp_all split: if_splits)
  have "refill_reach digest (refill_bump l t)"
    using l t by (rule refill_reach_bump)
  then show "l' = refill_bump l t \<and> refill_reach digest l' \<and> refill_reach digest l'
      \<and> (\<forall>m. read_or_empty digest c f' = Inr m \<longrightarrow> refill_reach digest m)"
    using l' read_stored_refill refill_reach_sorted by fastforce
qed

section \<open>The handlers\<close>

abbreviation refill_handler_ok ::
  "(pv \<Rightarrow> string) \<Rightarrow> (refill_ledger \<Rightarrow> (rerror, refill_ledger mutation) result) \<Rightarrow> bool" where
  "refill_handler_ok digest \<equiv> sound_handler (refill_reach digest) utc_string rl_revision"

text \<open>Changing one request within its identity.\<close>

lemma update_request_reach:
  assumes reach: "refill_reach digest l" and r: "map_of (rl_requests l) k = Some r"
    and r': "request_ok digest k r'" "outcome_ok r'" "rq_identity r' = rq_identity r"
  shows "refill_reach digest (l\<lparr>rl_requests := AList.update k r' (rl_requests l)\<rparr>)"
proof -
  have old: "(k, r) \<in> set (rl_requests l)"
    using r by (rule map_of_SomeD)
  then have "k \<in> fst ` set (rl_requests l)"
    by force
  then have keys: "fst ` set (AList.update k r' (rl_requests l)) = fst ` set (rl_requests l)"
    by (simp add: keys_update insert_absorb)
  have "recorded l r'"
    using reach old r'(3) by (auto simp: refill_reach_def recorded_def)
  then show ?thesis
    using reach r' set_update_subset [of k r' "rl_requests l"]
    unfolding refill_reach_def refill_ok_def recorded_def
    by (simp add: distinct_update keys) fastforce
qed

lemma refill_reach_request:
  assumes "refill_reach digest l" "map_of (rl_requests l) k = Some r"
  shows "request_ok digest k r" "outcome_ok r" "recorded l r"
  using assms map_of_SomeD [OF assms(2)] by (fastforce simp: refill_reach_def refill_ok_def)+

lemma claim_handler_mutates:
  "claim_handler k token t er l = Inr (Mutate m u) \<longleftrightarrow>
    (expected_matches l er \<and> u = t \<and> (\<exists>r. map_of (rl_requests l) k = Some r \<and> rq_status r = PENDING
      \<and> m = l\<lparr>rl_requests := AList.update k (r\<lparr>rq_status := CLAIMED, rq_claim_token := Some token,
                rq_claimed_at := Some t, rq_updated_at := t,
                rq_attempt_count := rq_attempt_count r + 1\<rparr>) (rl_requests l)\<rparr>))"
  by (auto simp: claim_handler_def split: option.splits if_splits)

lemma claim_handler_ok:
  assumes "nonblank token" "utc_string t"
  shows "refill_handler_ok digest (claim_handler k token t er)"
proof (rule sound_handlerI)
  fix l m :: refill_ledger
  show "m = l" if "claim_handler k token t er l = Inr (Keep m)"
    using that by (auto simp: claim_handler_def split: option.splits if_splits)
next
  fix l m :: refill_ledger and u
  assume reach: "refill_reach digest l" and h: "claim_handler k token t er l = Inr (Mutate m u)"
  from h obtain r where r: "map_of (rl_requests l) k = Some r" "rq_status r = PENDING"
    and m: "m = l\<lparr>rl_requests := AList.update k (r\<lparr>rq_status := CLAIMED, rq_claim_token := Some token,
                rq_claimed_at := Some t, rq_updated_at := t,
                rq_attempt_count := rq_attempt_count r + 1\<rparr>) (rl_requests l)\<rparr>" and u: "u = t"
    unfolding claim_handler_mutates by blast
  note old = refill_reach_request [OF reach r(1)]
  have "refill_reach digest m"
    unfolding m by (rule update_request_reach [OF reach r(1)])
      (use old r(2) assms in \<open>simp_all add: request_ok_def status_shape_ok_def claim_stamps_ok_def
        outcome_ok_def\<close>)
  then show "refill_reach digest m \<and> utc_string u \<and> rl_revision m = rl_revision l"
    using assms by (simp add: m u)
qed

lemma complete_handler_mutates:
  "complete_handler k token outcome t er l = Inr (Mutate m u) \<longleftrightarrow>
    (expected_matches l er \<and> u = t \<and> (\<exists>r. map_of (rl_requests l) k = Some r \<and> rq_status r = CLAIMED
      \<and> rq_claim_token r = Some token
      \<and> m = l\<lparr>rl_requests := AList.update k
          (r\<lparr>rq_status := (if outcome = CANCELLED_OUTCOME then CANCELLED_REQUEST else COMPLETED),
             rq_completion_outcome := PStr (completion_str outcome),
             rq_completed_at := Some t, rq_updated_at := t\<rparr>) (rl_requests l)\<rparr>))"
proof (cases "map_of (rl_requests l) k")
  case None
  then show ?thesis by (simp add: complete_handler_def)
next
  case (Some r)
  then show ?thesis
    by (cases "outcome = CANCELLED_OUTCOME"; cases "rq_status r")
      (auto simp: complete_handler_def)
qed

lemma complete_handler_ok:
  assumes "utc_string t"
  shows "refill_handler_ok digest (complete_handler k token outcome t er)"
proof (rule sound_handlerI)
  fix l m :: refill_ledger
  show "m = l" if "complete_handler k token outcome t er l = Inr (Keep m)"
    using that by (auto simp: complete_handler_def split: option.splits if_splits)
next
  fix l m :: refill_ledger and u
  assume reach: "refill_reach digest l" and h: "complete_handler k token outcome t er l = Inr (Mutate m u)"
  from h obtain r where r: "map_of (rl_requests l) k = Some r" "rq_status r = CLAIMED"
    and m: "m = l\<lparr>rl_requests := AList.update k
          (r\<lparr>rq_status := (if outcome = CANCELLED_OUTCOME then CANCELLED_REQUEST else COMPLETED),
             rq_completion_outcome := PStr (completion_str outcome),
             rq_completed_at := Some t, rq_updated_at := t\<rparr>) (rl_requests l)\<rparr>" and u: "u = t"
    unfolding complete_handler_mutates by blast
  note old = refill_reach_request [OF reach r(1)]
  have "refill_reach digest m"
    unfolding m
  proof (rule update_request_reach [OF reach r(1)])
    let ?r = "r\<lparr>rq_status := (if outcome = CANCELLED_OUTCOME then CANCELLED_REQUEST else COMPLETED),
       rq_completion_outcome := PStr (completion_str outcome), rq_completed_at := Some t,
       rq_updated_at := t\<rparr>"
    have "status_shape_ok ?r \<and> outcome_ok ?r"
      using old(1) r(2) assms
      by (cases outcome)
        (simp_all add: request_ok_def status_shape_ok_def claim_stamps_ok_def outcome_ok_def)
    then show "request_ok digest k ?r" "outcome_ok ?r"
      using old(1) assms by (simp_all add: request_ok_def)
  qed simp
  then show "refill_reach digest m \<and> utc_string u \<and> rl_revision m = rl_revision l"
    using assms by (simp add: m u)
qed

lemma recover_handler_ok:
  assumes "utc_string t"
  shows "refill_handler_ok digest (recover_handler before t er)"
proof (rule sound_handlerI)
  fix l m :: refill_ledger
  show "m = l" if "recover_handler before t er l = Inr (Keep m)"
    using that by (auto simp: recover_handler_def split: if_splits)
next
  fix l m :: refill_ledger and u
  assume reach: "refill_reach digest l" and h: "recover_handler before t er l = Inr (Mutate m u)"
  let ?f = "\<lambda>r. if interrupted before r then release_claim t r else r"
  from h have m: "m = l\<lparr>rl_requests := map (\<lambda>p. (fst p, ?f (snd p))) (rl_requests l)\<rparr>" and u: "u = t"
    by (auto simp: recover_handler_def split: if_splits)
  have req: "request_ok digest k (?f r)" "outcome_ok (?f r)" "recorded m (?f r)"
    if "request_ok digest k r" "outcome_ok r" "recorded l r" for k r
    using that assms
    by (auto simp: m interrupted_def release_claim_def request_ok_def status_shape_ok_def
        outcome_ok_def recorded_def)
  have keys: "map fst (rl_requests m) = map fst (rl_requests l)" and src: "rl_sources m = rl_sources l"
    by (simp_all add: m)
  have rest: "rl_revision m = rl_revision l" "rl_created_at m = rl_created_at l"
    "rl_updated_at m = rl_updated_at l"
    by (simp_all add: m)
  from keys have "fst ` set (rl_requests m) = fst ` set (rl_requests l)"
    by (metis list.set_map)
  moreover have "\<forall>p \<in> set (rl_requests m). request_ok digest (fst p) (snd p) \<and> outcome_ok (snd p)
      \<and> recorded m (snd p)"
  proof
    fix p assume "p \<in> set (rl_requests m)"
    then obtain q where q: "q \<in> set (rl_requests l)" "fst p = fst q" "snd p = ?f (snd q)"
      by (auto simp: m)
    have "request_ok digest (fst q) (snd q)" "outcome_ok (snd q)" "recorded l (snd q)"
      using reach q(1) by (simp_all add: refill_reach_def refill_ok_def)
    then show "request_ok digest (fst p) (snd p) \<and> outcome_ok (snd p) \<and> recorded m (snd p)"
      unfolding q(2,3) using req by blast
  qed
  ultimately have "refill_reach digest m"
    using reach keys src rest by (simp add: refill_reach_def refill_ok_def)
  then show "refill_reach digest m \<and> utc_string u \<and> rl_revision m = rl_revision l"
    using assms by (simp add: m u)
qed

lemma reconcile_transition_mutates:
  "reconcile_transition_handler digest i rv t er l = Inr (Mutate m u) \<longleftrightarrow>
    (u = t \<and> (er = PNone \<or> py_eq er (PInt (rl_revision l))) \<and> is_nat_int rv
     \<and> map_of (rl_sources l) (ri_transition_id i) = None
     \<and> map_of (rl_requests l) (derive_refill_request_id digest i) = None
     \<and> m = l\<lparr>
         rl_requests := AList.update (derive_refill_request_id digest i)
           (pending_request (derive_refill_request_id digest i) i (the_int rv) t) (rl_requests l),
         rl_sources := AList.update (ri_transition_id i) \<lparr>
           so_identity = i, so_request_id = derive_refill_request_id digest i,
           so_revision = the_int rv, so_timestamp = t\<rparr> (rl_sources l)\<rparr>)"
  by (auto simp: reconcile_transition_handler_def Let_def split: option.splits if_splits)

lemma source_ok_mono: "source_ok digest A k s \<Longrightarrow> A \<subseteq> B \<Longrightarrow> source_ok digest B k s"
  by (auto simp: source_ok_def)

lemma insert_request_reach:
  assumes reach: "refill_reach digest l" and i: "identity_ok i" and t: "utc_string t"
    and k: "derive_refill_request_id digest i = k" "sha256_string k" and rv: "0 \<le> rv"
    and new: "map_of (rl_requests l) k = None" "map_of (rl_sources l) (ri_transition_id i) = None"
  shows "refill_reach digest (l\<lparr>
      rl_requests := AList.update k (pending_request k i rv t) (rl_requests l),
      rl_sources := AList.update (ri_transition_id i) \<lparr>so_identity = i, so_request_id = k,
        so_revision = rv, so_timestamp = t\<rparr> (rl_sources l)\<rparr>)"
    (is "refill_reach digest ?m")
proof -
  let ?r = "pending_request k i rv t"
  let ?s = "\<lparr>so_identity = i, so_request_id = k, so_revision = rv, so_timestamp = t\<rparr>"
  have app: "rl_requests ?m = rl_requests l @ [(k, ?r)]"
    "rl_sources ?m = rl_sources l @ [(ri_transition_id i, ?s)]"
    using new by (simp_all add: update_fresh)
  have fresh: "k \<notin> fst ` set (rl_requests l)" "ri_transition_id i \<notin> fst ` set (rl_sources l)"
    using new by (simp_all add: map_of_eq_None_iff)
  have "request_ok digest k ?r" "outcome_ok ?r"
    using i t k rv by (simp_all add: request_ok_def pending_request_def status_shape_ok_def outcome_ok_def)
  moreover have "source_ok digest (fst ` set (rl_requests ?m)) (ri_transition_id i) ?s"
    using i t k rv by (simp add: source_ok_def app)
  moreover have "source_ok digest (fst ` set (rl_requests ?m)) j s"
    if "source_ok digest (fst ` set (rl_requests l)) j s" for j s
    using that by (rule source_ok_mono) (auto simp: app)
  moreover have "map_of (rl_sources ?m) = (map_of (rl_sources l))(ri_transition_id i \<mapsto> ?s)"
    by simp
  then have "recorded ?m ?r" "recorded l r \<Longrightarrow> recorded ?m r" for r
    using new(2) by (auto simp: recorded_def pending_request_def)
  ultimately show ?thesis
    using reach fresh unfolding refill_reach_def refill_ok_def
    by (simp add: app)
qed

lemma reconcile_transition_ok:
  assumes hex: "hex_digest digest" and i: "identity_ok i" and t: "utc_string t"
  shows "refill_handler_ok digest (reconcile_transition_handler digest i rv t er)"
proof (rule sound_handlerI)
  fix l m :: refill_ledger
  show "m = l" if "reconcile_transition_handler digest i rv t er l = Inr (Keep m)"
    using that by (auto simp: reconcile_transition_handler_def Let_def split: option.splits if_splits)
next
  fix l m :: refill_ledger and u
  assume reach: "refill_reach digest l"
    and h: "reconcile_transition_handler digest i rv t er l = Inr (Mutate m u)"
  have k: "sha256_string (derive_refill_request_id digest i)"
    using hex by (simp add: hex_digest_def derive_refill_request_id_def)
  show "refill_reach digest m \<and> utc_string u \<and> rl_revision m = rl_revision l"
    using h insert_request_reach [OF reach i t refl k] t
    unfolding reconcile_transition_mutates by (auto simp: str_pred_dest)
qed

section \<open>Calls\<close>

datatype refill_call =
    Reconcile_Transition pv pv pv pv pv pv pv
  | Claim_Request pv pv pv pv
  | Complete_Request pv pv pv pv pv
  | Recover_Claims pv pv pv

fun refill_after :: "(pv \<Rightarrow> string) \<Rightarrow> io \<Rightarrow> refill_call \<Rightarrow> disk_file \<Rightarrow> disk_file" where
  "refill_after digest io (Reconcile_Transition tid sid md st rv t er) f =
     snd (reconcile_terminal_transition digest io f tid sid md st rv t er)"
| "refill_after digest io (Claim_Request rid token t er) f =
     snd (claim_refill_request digest io f rid token t er)"
| "refill_after digest io (Complete_Request rid token oc t er) f =
     snd (complete_refill_request digest io f rid token oc t er)"
| "refill_after digest io (Recover_Claims before t er) f =
     snd (recover_interrupted_claims digest io f before t er)"

inductive refill_step :: "(pv \<Rightarrow> string) \<Rightarrow> disk_file \<Rightarrow> disk_file \<Rightarrow> bool" for digest where
  "refill_step digest f (refill_after digest io c f)"

inductive reachable_refill :: "(pv \<Rightarrow> string) \<Rightarrow> disk_file \<Rightarrow> bool" for digest where
  start: "reachable_refill digest Absent"
| step: "reachable_refill digest f \<Longrightarrow> refill_step digest f g \<Longrightarrow> reachable_refill digest g"

definition refill_file_ok :: "(pv \<Rightarrow> string) \<Rightarrow> disk_file \<Rightarrow> bool" where
  "refill_file_ok digest f =
    (f = Absent \<or> (\<exists>l. read_or_empty digest None f = Inr l \<and> refill_reach digest l))"

text \<open>The handler of a call, with the time stamp for a missing file.\<close>

fun refill_handler ::
  "(pv \<Rightarrow> string) \<Rightarrow> refill_call
    \<Rightarrow> (pv option \<times> (refill_ledger \<Rightarrow> (rerror, refill_ledger mutation) result)) option" where
  "refill_handler digest (Reconcile_Transition tid sid md st rv t er) =
     (case request_identity tid sid md st of
        Inl e \<Rightarrow> None
      | Inr i \<Rightarrow> if is_utc t
          then Some (Some t, reconcile_transition_handler digest i rv (the_str t) er) else None)"
| "refill_handler digest (Claim_Request rid token t er) =
     (if is_ident rid \<and> is_ident token \<and> is_utc t
      then Some (None, claim_handler (the_str rid) (the_str token) (the_str t) er) else None)"
| "refill_handler digest (Complete_Request rid token oc t er) =
     (if is_ident rid \<and> is_ident token \<and> is_utc t then
        (case completion_of oc of None \<Rightarrow> None
         | Some x \<Rightarrow> Some (None, complete_handler (the_str rid) (the_str token) x (the_str t) er))
      else None)"
| "refill_handler digest (Recover_Claims before t er) =
     (if is_utc before \<and> is_utc t
      then Some (None, recover_handler (the_str before) (the_str t) er) else None)"

lemma refill_after_handler:
  "refill_after digest io c f = (case refill_handler digest c of None \<Rightarrow> f
     | Some (created, h) \<Rightarrow> snd (run_refill digest io created f h))"
proof (cases c)
  case (Reconcile_Transition tid sid md st rv t er)
  then show ?thesis
    by (cases "request_identity tid sid md st") (simp_all add: reconcile_terminal_transition_def)
next
  case (Claim_Request rid token t er)
  then show ?thesis by (simp add: claim_refill_request_def)
next
  case (Complete_Request rid token oc t er)
  then show ?thesis
    by (cases "completion_of oc") (simp_all add: complete_refill_request_def del: completion_of_iff)
next
  case (Recover_Claims before t er)
  then show ?thesis
    by (simp add: recover_interrupted_claims_def split: prod.split sum.split)
qed

lemma refill_handler_sound:
  assumes "hex_digest digest" "refill_handler digest c = Some (created, h)"
  shows "refill_handler_ok digest h" "created = None \<or> (\<exists>t. created = Some t \<and> is_utc t)"
proof -
  show "refill_handler_ok digest h"
  proof (cases c)
    case (Reconcile_Transition tid sid md st rv t er)
    with assms(2) obtain i where "request_identity tid sid md st = Inr i" "is_utc t"
      "h = reconcile_transition_handler digest i rv (the_str t) er"
      by (auto split: sum.splits if_splits)
    then show ?thesis
      using reconcile_transition_ok [OF assms(1)] request_identity_sound str_pred_dest(2) by blast
  next
    case (Claim_Request rid token t er)
    with assms(2) show ?thesis
      using claim_handler_ok str_pred_dest(1,2) by (auto split: if_splits)
  next
    case (Complete_Request rid token oc t er)
    with assms(2) obtain x where "is_utc t"
      "h = complete_handler (the_str rid) (the_str token) x (the_str t) er"
      by (cases "completion_of oc") (auto simp del: completion_of_iff split: if_splits)
    then show ?thesis
      using complete_handler_ok str_pred_dest(2) by blast
  next
    case (Recover_Claims before t er)
    with assms(2) show ?thesis
      using recover_handler_ok str_pred_dest(2) by (auto split: if_splits)
  qed
  show "created = None \<or> (\<exists>t. created = Some t \<and> is_utc t)"
    using assms(2) by (cases c) (auto split: if_splits sum.splits option.splits)
qed

lemma refill_reach_empty:
  assumes "create_empty_refill_ledger t = Inr l"
  shows "refill_reach digest l"
  using assms
  by (auto simp: create_empty_refill_ledger_def refill_reach_def refill_ok_def str_pred_dest
      split: if_splits)

lemma refill_file_read:
  assumes "refill_file_ok digest f" "c = None \<or> (\<exists>t. c = Some t \<and> is_utc t)"
  shows "\<forall>l. read_or_empty digest c f = Inr l \<longrightarrow> refill_reach digest l"
proof (cases f)
  case Absent
  then show ?thesis
    using refill_reach_empty by (cases c) (simp_all add: read_or_empty_def)
next
  case Garbled
  then show ?thesis by (simp add: read_or_empty_def)
next
  case (Stored d)
  with assms(1) show ?thesis
    by (auto simp only: refill_file_ok_def read_or_empty_def disk_file.simps)
qed

section \<open>What a call changes\<close>

text \<open>
  The life of a request: it may be claimed, a claim may be completed, cancelled or released,
  and a completed or cancelled request stays exactly as it is.
\<close>

inductive request_step :: "request_status \<Rightarrow> request_status \<Rightarrow> bool" where
  claim: "request_step PENDING CLAIMED"
| complete: "request_step CLAIMED COMPLETED"
| cancel: "request_step CLAIMED CANCELLED_REQUEST"
| release: "request_step CLAIMED PENDING"

inductive_cases request_stepE: "request_step a b"

definition request_final :: "request \<Rightarrow> bool" where
  "request_final r = (rq_status r = COMPLETED \<or> rq_status r = CANCELLED_REQUEST)"

definition request_follows :: "request \<Rightarrow> request \<Rightarrow> bool" where
  "request_follows r r' =
    (rq_id r' = rq_id r \<and> rq_identity r' = rq_identity r \<and> rq_created_at r' = rq_created_at r
     \<and> rq_source_revision r' = rq_source_revision r \<and> rq_attempt_count r \<le> rq_attempt_count r'
     \<and> request_step\<^sup>*\<^sup>* (rq_status r) (rq_status r') \<and> (request_final r \<longrightarrow> r' = r))"

lemma request_follows_refl [simp]: "request_follows r r"
  by (simp add: request_follows_def)

lemma request_follows_trans: "request_follows a b \<Longrightarrow> request_follows b c \<Longrightarrow> request_follows a c"
  unfolding request_follows_def by auto

definition refill_change :: "refill_ledger \<Rightarrow> refill_ledger \<Rightarrow> bool" where
  "refill_change l m =
    ((\<forall>k r. map_of (rl_requests l) k = Some r \<longrightarrow>
        (\<exists>r'. map_of (rl_requests m) k = Some r' \<and> request_follows r r'))
     \<and> (\<forall>k s. map_of (rl_sources l) k = Some s \<longrightarrow> map_of (rl_sources m) k = Some s))"

lemma refill_change_refl [simp]: "refill_change l l"
  by (simp add: refill_change_def)

lemma refill_change_trans: "refill_change a b \<Longrightarrow> refill_change b c \<Longrightarrow> refill_change a c"
  unfolding refill_change_def using request_follows_trans by metis

lemma refill_change_request:
  assumes "map_of (rl_requests l) k = Some r" "request_follows r r'"
  shows "refill_change l (l\<lparr>rl_requests := AList.update k r' (rl_requests l)\<rparr>)"
  using assms by (simp add: refill_change_def)

lemma claim_handler_change:
  assumes "claim_handler k token t er l = Inr (Mutate m u)"
  shows "refill_change l m"
  using assms unfolding claim_handler_mutates
  by (elim conjE exE)
    (simp add: refill_change_request request_follows_def request_final_def r_into_rtranclp
      request_step.intros)

lemma complete_handler_change:
  assumes "complete_handler k token oc t er l = Inr (Mutate m u)"
  shows "refill_change l m"
  using assms unfolding complete_handler_mutates
  by (elim conjE exE)
    (simp add: refill_change_request request_follows_def request_final_def r_into_rtranclp
      request_step.intros)

lemma recover_handler_change:
  assumes "recover_handler before t er l = Inr (Mutate m u)"
  shows "refill_change l m"
proof -
  let ?f = "\<lambda>r. if interrupted before r then release_claim t r else r"
  have "m = l\<lparr>rl_requests := map (\<lambda>p. (fst p, ?f (snd p))) (rl_requests l)\<rparr>"
    using assms by (auto simp: recover_handler_def split: if_splits)
  then have m: "rl_sources m = rl_sources l"
    "map_of (rl_requests m) k = map_option ?f (map_of (rl_requests l) k)" for k
    using map_of_map_vals [of ?f "rl_requests l"] by simp_all
  have "request_follows r (release_claim t r)" if "interrupted before r" for r
    using that by (simp add: interrupted_def release_claim_def request_follows_def request_final_def
        r_into_rtranclp request_step.release)
  then show ?thesis
    by (simp add: refill_change_def m)
qed

lemma reconcile_transition_change:
  assumes "reconcile_transition_handler digest i rv t er l = Inr (Mutate m u)"
  shows "refill_change l m"
  using assms unfolding reconcile_transition_mutates
  by (auto simp: refill_change_def)

lemmas refill_handlers_change =
  claim_handler_change complete_handler_change recover_handler_change reconcile_transition_change

lemma refill_handler_change:
  assumes "refill_handler digest c = Some (created, h)" "h l = Inr (Mutate m t)"
  shows "refill_change l m"
proof (cases c)
  case (Complete_Request rid token oc t er)
  with assms show ?thesis
    by (cases "completion_of oc") (auto simp del: completion_of_iff intro: refill_handlers_change split: if_splits)
qed (use assms in \<open>auto intro: refill_handlers_change split: if_splits sum.splits\<close>)

lemma same_refill_lookup:
  assumes "same_refill l m" "refill_reach digest l" "refill_reach digest m"
  shows "map_of (rl_requests m) = map_of (rl_requests l)" "map_of (rl_sources m) = map_of (rl_sources l)"
    "rl_revision m = rl_revision l"
proof -
  have d: "distinct (map fst (rl_requests l))" "distinct (map fst (rl_requests m))"
    "distinct (map fst (rl_sources l))" "distinct (map fst (rl_sources m))"
    using assms(2,3) by (simp_all add: refill_reach_def refill_ok_def)
  have "rl_requests (sorted_refill l) = rl_requests (sorted_refill m)"
    "rl_sources (sorted_refill l) = rl_sources (sorted_refill m)"
    "rl_revision (sorted_refill l) = rl_revision (sorted_refill m)"
    using assms(1) by (simp_all add: same_refill_def)
  then show "map_of (rl_requests m) = map_of (rl_requests l)" "map_of (rl_sources m) = map_of (rl_sources l)"
    "rl_revision m = rl_revision l"
    using map_of_sort_key [OF d(1)] map_of_sort_key [OF d(2)] map_of_sort_key [OF d(3)]
      map_of_sort_key [OF d(4)] by simp_all
qed

lemma refill_step_file:
  assumes hex: "hex_digest digest" and f: "refill_file_ok digest f" and "refill_step digest f g"
  shows "refill_file_ok digest g \<and> (\<forall>l. read_or_empty digest None f = Inr l \<longrightarrow>
    (\<exists>m. read_or_empty digest None g = Inr m \<and> refill_change l m \<and> rl_revision l \<le> rl_revision m))"
  using assms(3)
proof cases
  case (1 io c)
  show ?thesis
  proof (cases "refill_handler digest c")
    case None
    then show ?thesis
      using 1 f by (simp add: refill_after_handler)
  next
    case (Some p)
    then obtain created h where h: "refill_handler digest c = Some (created, h)"
      by (cases p) auto
    note sound = refill_handler_sound [OF hex h]
    obtain res where run: "run_refill digest io created f h = (res, g)"
      using 1 h by (simp add: refill_after_handler) (metis prod.collapse)
    show ?thesis
    proof (cases rule: rl_guard.run_outcome [OF refill_file_read [OF f sound(2)] sound(1)
          run [unfolded run_refill_def], case_names failed kept changed])
      case (failed e)
      then show ?thesis using f by simp
    next
      case (kept l)
      then show ?thesis using f by simp
    next
      case (changed l m t n)
      have g: "g = Stored (sort_doc (refill_doc (refill_bump m t)))"
        using changed(4,5,7) persist_refill_ok [of digest m t io f] by (auto split: if_splits)
      then have none: "read_or_empty digest None g = Inr n"
        using changed(10) by (simp add: read_or_empty_def)
      moreover have "refill_change l n" "rl_revision l \<le> rl_revision n"
        using refill_handler_change [OF h changed(3)] same_refill_lookup [OF changed(12,9,11)] changed(6)
        by (simp_all add: refill_change_def)
      moreover have "l' = l" if "read_or_empty digest None f = Inr l'" for l'
        using that changed(1) by (auto simp: read_or_empty_def split: disk_file.splits)
      ultimately show ?thesis
        using changed(11) by (auto simp: refill_file_ok_def)
    qed
  qed
qed

lemma reachable_refill_ok:
  assumes "hex_digest digest" "reachable_refill digest f"
  shows "refill_file_ok digest f"
  using assms(2)
proof (induction rule: reachable_refill.induct)
  case start
  then show ?case by (simp add: refill_file_ok_def)
next
  case (step f g)
  then show ?case using refill_step_file [OF assms(1)] by blast
qed

lemma refill_calls_preserve:
  assumes hex: "hex_digest digest" and "(refill_step digest)\<^sup>*\<^sup>* f g"
    and "refill_file_ok digest f" "read_or_empty digest None f = Inr l"
  shows "refill_file_ok digest g \<and> (\<exists>m. read_or_empty digest None g = Inr m \<and> refill_change l m
    \<and> rl_revision l \<le> rl_revision m)"
  using assms(2-4)
proof (induction rule: rtranclp_induct)
  case base
  then show ?case by auto
next
  case (step g h)
  then obtain m where m: "refill_file_ok digest g" "read_or_empty digest None g = Inr m"
    "refill_change l m" "rl_revision l \<le> rl_revision m"
    by blast
  from refill_step_file [OF hex m(1) step.hyps(2)] m(2) obtain n where
    "refill_file_ok digest h" "read_or_empty digest None h = Inr n" "refill_change m n"
    "rl_revision m \<le> rl_revision n"
    by blast
  then show ?case
    using refill_change_trans [OF m(3)] m(4) by force
qed

end
