(* ===== verification/Refill_Ledger_Props.thy ===== *)
theory Refill_Ledger_Props
  imports Refill_Ledger_Steps Active_Ledger_Run
begin

text \<open>
  The properties of \<open>src/engine/style_refill_request_ledger_v1.py\<close>, with a concrete run of
  its operations for the witnesses.
\<close>

section \<open>Helper lemmas\<close>

lemma reachable_refill_read:
  assumes "hex_digest digest" "reachable_refill digest f" "read_or_empty digest c f = Inr l"
    "c = None \<or> (\<exists>t. c = Some t \<and> is_utc t)"
  shows "refill_reach digest l"
  using refill_file_read [OF reachable_refill_ok [OF assms(1,2)] assms(4)] assms(3) by blast

lemma run_refill_good:
  assumes "read_or_empty digest c f = Inr l"
  shows "run_refill digest good_io c f h =
    (case h l of Inl e \<Rightarrow> (Inl e, f) | Inr (Keep m) \<Rightarrow> (Inr m, f)
     | Inr (Mutate m t) \<Rightarrow> persist_refill digest good_io f m t)"
proof -
  have "lock_loop lock_attempts (opens good_io) 0"
    by code_simp
  with assms show ?thesis
    by (simp add: run_refill_def run_store_def)
qed

lemma good_io_replace [simp]: "replace_ok good_io"
  by (simp add: good_io_def)

text \<open>On a sound file a handler succeeds exactly when it keeps or changes the ledger.\<close>

lemma run_refill_succeeds_iff:
  assumes "read_or_empty digest c f = Inr l" "refill_reach digest l" "refill_handler_ok digest h"
  shows "(\<exists>m g. run_refill digest good_io c f h = (Inr m, g)) \<longleftrightarrow>
    (\<exists>m. h l = Inr (Keep m)) \<or> (\<exists>m t. h l = Inr (Mutate m t))"
proof (cases "h l")
  case (Inl e)
  then show ?thesis
    by (simp add: run_refill_good [OF assms(1)])
next
  case (Inr x)
  then show ?thesis
    using sound_handlerD(2,3) [OF assms(3,2)]
    by (cases x) (simp_all add: run_refill_good [OF assms(1)] persist_refill_ok)
qed

section \<open>A concrete run\<close>

definition demo_digest :: "pv \<Rightarrow> string" where
  "demo_digest d = demo_hash"

lemma demo_digest_hex: "hex_digest demo_digest"
proof -
  have "sha256_string demo_hash"
    by code_simp
  then show ?thesis
    by (simp add: hex_digest_def demo_digest_def)
qed

definition refill_file :: "refill_ledger \<Rightarrow> disk_file" where
  "refill_file l = Stored (sort_doc (refill_doc l))"

definition demo_later :: string where
  "demo_later = ''2026-01-01T00:00:00.5Z''"

definition demo_identity :: identity where
  "demo_identity = \<lparr>ri_transition_id = ''t3'', ri_signal_id = ''s1'', ri_mode = SWING,
     ri_terminal_state = CLOSED_PROFIT\<rparr>"

definition demo_request :: request where
  "demo_request = pending_request demo_hash demo_identity 3 demo_time"

definition demo_pending :: refill_ledger where
  "demo_pending = \<lparr>rl_revision = 1, rl_created_at = demo_time, rl_updated_at = demo_time,
     rl_requests = [(demo_hash, demo_request)],
     rl_sources = [(''t3'', \<lparr>so_identity = demo_identity, so_request_id = demo_hash,
       so_revision = 3, so_timestamp = demo_time\<rparr>)]\<rparr>"

definition demo_claimed :: refill_ledger where
  "demo_claimed = demo_pending\<lparr>rl_revision := 2, rl_updated_at := demo_later,
     rl_requests := [(demo_hash, demo_request\<lparr>rq_status := CLAIMED,
       rq_claim_token := Some ''worker'', rq_claimed_at := Some demo_later,
       rq_updated_at := demo_later, rq_attempt_count := 1\<rparr>)]\<rparr>"

definition demo_reconcile :: refill_call where
  "demo_reconcile = Reconcile_Transition (PStr ''t3'') (PStr ''s1'') (PStr ''SWING'')
     (PStr ''CLOSED_PROFIT'') (PInt 3) (PStr demo_time) PNone"

definition demo_claim :: refill_call where
  "demo_claim = Claim_Request (PStr demo_hash) (PStr ''worker'') (PStr demo_later) (PInt 1)"

lemma refill_run_call:
  assumes "reachable_refill demo_digest f" "refill_handler demo_digest c = Some (created, h)"
    and "read_or_empty demo_digest created f = Inr l" "h l = Inr (Mutate m t)"
    and "refill_bump m t = n" "sorted_refill n = n"
  shows "reachable_refill demo_digest (refill_file n)" "refill_reach demo_digest n"
    "run_refill demo_digest good_io created f h = (Inr n, refill_file n)"
    "read_or_empty demo_digest c' (refill_file n) = Inr n"
proof -
  note sound = refill_handler_sound [OF demo_digest_hex assms(2)]
  have reach: "refill_reach demo_digest l"
    using reachable_refill_read [OF demo_digest_hex assms(1,3) sound(2)] .
  note m = sound_handlerD(2,3) [OF sound(1) reach assms(4)]
  show n: "refill_reach demo_digest n"
    using refill_reach_bump [OF m] assms(5) by simp
  show run: "run_refill demo_digest good_io created f h = (Inr n, refill_file n)"
    using assms(4,5) m by (simp add: run_refill_good [OF assms(3)] persist_refill_ok refill_file_def)
  have "refill_step demo_digest f (refill_file n)"
    using refill_step.intros [of demo_digest f good_io c] assms(2) run
    by (simp add: refill_after_handler)
  with assms(1) show "reachable_refill demo_digest (refill_file n)"
    by (rule reachable_refill.step)
  show "read_or_empty demo_digest c' (refill_file n) = Inr n"
    using read_stored_refill [OF n, of c'] assms(6) by (simp add: refill_file_def)
qed

lemma demo_reconcile_handled:
  "refill_handler demo_digest demo_reconcile = Some (Some (PStr demo_time),
     reconcile_transition_handler demo_digest demo_identity (PInt 3) demo_time PNone)"
  "read_or_empty demo_digest (Some (PStr demo_time)) Absent =
     Inr \<lparr>rl_revision = 0, rl_created_at = demo_time, rl_updated_at = demo_time,
          rl_requests = [], rl_sources = []\<rparr>"
  "reconcile_transition_handler demo_digest demo_identity (PInt 3) demo_time PNone
     \<lparr>rl_revision = 0, rl_created_at = demo_time, rl_updated_at = demo_time,
          rl_requests = [], rl_sources = []\<rparr> =
     Inr (Mutate (demo_pending\<lparr>rl_revision := 0\<rparr>) demo_time)"
  "refill_bump (demo_pending\<lparr>rl_revision := 0\<rparr>) demo_time = demo_pending"
  "sorted_refill demo_pending = demo_pending"
proof -
  have "request_identity (PStr ''t3'') (PStr ''s1'') (PStr ''SWING'') (PStr ''CLOSED_PROFIT'') =
      Inr demo_identity" "is_utc (PStr demo_time)" "the_str (PStr demo_time) = demo_time"
    by code_simp+
  then show "refill_handler demo_digest demo_reconcile = Some (Some (PStr demo_time),
     reconcile_transition_handler demo_digest demo_identity (PInt 3) demo_time PNone)"
    unfolding demo_reconcile_def by (simp only: refill_handler.simps sum.case if_True)
qed code_simp+

lemmas demo_pending_run = refill_run_call [OF reachable_refill.start demo_reconcile_handled]

lemma demo_claim_handled:
  "refill_handler demo_digest demo_claim = Some (None,
     claim_handler demo_hash ''worker'' demo_later (PInt 1))"
  "claim_handler demo_hash ''worker'' demo_later (PInt 1) demo_pending =
     Inr (Mutate (demo_claimed\<lparr>rl_revision := 1, rl_updated_at := demo_time\<rparr>) demo_later)"
  "refill_bump (demo_claimed\<lparr>rl_revision := 1, rl_updated_at := demo_time\<rparr>) demo_later = demo_claimed"
  "sorted_refill demo_claimed = demo_claimed"
proof -
  have "is_ident (PStr demo_hash)" "is_ident (PStr ''worker'')" "is_utc (PStr demo_later)"
    "the_str (PStr demo_later) = demo_later" "the_str (PStr demo_hash) = demo_hash"
    "the_str (PStr ''worker'') = ''worker''"
    by code_simp+
  then show "refill_handler demo_digest demo_claim = Some (None,
     claim_handler demo_hash ''worker'' demo_later (PInt 1))"
    unfolding demo_claim_def by (simp only: refill_handler.simps if_True simp_thms)
qed code_simp+

lemmas demo_claimed_run =
  refill_run_call [OF demo_pending_run(1) demo_claim_handled(1) demo_pending_run(4)
    demo_claim_handled(2-4)]

section \<open>Properties\<close>

text \<open>C14. In every file the operations can leave, two requests for the same terminal transition
  are the same request, its name is the digest of its identity, and the ledger records the
  transition with that identity: one released slot is refilled at most once.\<close>

theorem one_request_per_transition:
  assumes "hex_digest digest" "reachable_refill digest f" "read_or_empty digest None f = Inr l"
    "map_of (rl_requests l) j = Some q" "map_of (rl_requests l) k = Some r"
    "ri_transition_id (rq_identity q) = ri_transition_id (rq_identity r)"
  shows "j = k \<and> q = r \<and> k = derive_refill_request_id digest (rq_identity r)
    \<and> (\<exists>s. map_of (rl_sources l) (ri_transition_id (rq_identity r)) = Some s
         \<and> so_identity s = rq_identity r \<and> so_request_id s = k)"
proof -
  have reach: "refill_reach digest l"
    using reachable_refill_read [OF assms(1-3)] by simp
  note q = refill_reach_request [OF reach assms(4)] and r = refill_reach_request [OF reach assms(5)]
  from r(3) obtain s where s: "map_of (rl_sources l) (ri_transition_id (rq_identity r)) = Some s"
    "so_identity s = rq_identity r"
    by (auto simp: recorded_def)
  with q(3) assms(6) have same: "rq_identity q = rq_identity r"
    by (auto simp: recorded_def)
  then have key: "j = k" "k = derive_refill_request_id digest (rq_identity r)"
    using q(1) r(1) by (auto simp: request_ok_def)
  have "so_request_id s = derive_refill_request_id digest (so_identity s)"
    using reach map_of_SomeD [OF s(1)] by (auto simp: refill_reach_def refill_ok_def source_ok_def)
  with key s assms(4,5) show ?thesis
    by auto
qed

lemma demo_pending_request: "map_of (rl_requests demo_pending) demo_hash = Some demo_request"
  by (simp add: demo_pending_def)

lemma one_request_per_transition_witness:
  "demo_hash = derive_refill_request_id demo_digest (rq_identity demo_request)"
  using one_request_per_transition [OF demo_digest_hex demo_pending_run(1,4) demo_pending_request
      demo_pending_request refl] by blast

text \<open>C18. Whatever calls follow, a request is never lost and keeps its identity, its attempts are
  never forgotten, it moves only from pending to claimed, from claimed to completed or cancelled,
  and from claimed back to pending; once completed or cancelled its record never changes.\<close>

theorem requests_never_lost:
  assumes "hex_digest digest" "reachable_refill digest f" "read_or_empty digest None f = Inr l"
    "(refill_step digest)\<^sup>*\<^sup>* f g" "map_of (rl_requests l) k = Some r"
  shows "\<exists>m r'. read_or_empty digest None g = Inr m \<and> map_of (rl_requests m) k = Some r'
    \<and> rl_revision l \<le> rl_revision m \<and> rq_identity r' = rq_identity r
    \<and> rq_attempt_count r \<le> rq_attempt_count r' \<and> request_step\<^sup>*\<^sup>* (rq_status r) (rq_status r')
    \<and> (rq_status r \<in> {COMPLETED, CANCELLED_REQUEST} \<longrightarrow> r' = r)"
proof -
  from refill_calls_preserve [OF assms(1,4) reachable_refill_ok [OF assms(1,2)] assms(3)]
  obtain m where "read_or_empty digest None g = Inr m" "refill_change l m" "rl_revision l \<le> rl_revision m"
    by blast
  with assms(5) show ?thesis
    unfolding refill_change_def request_follows_def request_final_def by blast
qed

lemma requests_never_lost_witness:
  "\<exists>m r'. read_or_empty demo_digest None (refill_file demo_claimed) = Inr m
     \<and> map_of (rl_requests m) demo_hash = Some r' \<and> rq_identity r' = demo_identity"
proof -
  have "refill_step demo_digest (refill_file demo_pending) (refill_file demo_claimed)"
    using refill_step.intros [of demo_digest "refill_file demo_pending" good_io demo_claim]
    by (simp add: refill_after_handler demo_claim_handled(1) demo_claimed_run(3))
  then have "(refill_step demo_digest)\<^sup>*\<^sup>* (refill_file demo_pending) (refill_file demo_claimed)"
    by (rule r_into_rtranclp)
  from requests_never_lost [OF demo_digest_hex demo_pending_run(1,4) this demo_pending_request]
  show ?thesis
    by (auto simp: demo_request_def pending_request_def)
qed

text \<open>A claim is exclusive: with a fresh revision it succeeds exactly when the request is
  pending, or is already claimed under the same token, and then a second worker with another
  token is refused.\<close>

theorem claim_request_iff:
  assumes "hex_digest digest" "reachable_refill digest f" "read_or_empty digest None f = Inr l"
    "nonblank rid" "nonblank token" "utc_string t"
  shows "(\<exists>m g. claim_refill_request digest good_io f (PStr rid) (PStr token) (PStr t) (PInt rv) = (Inr m, g))
    \<longleftrightarrow> rv = rl_revision l \<and> (\<exists>r. map_of (rl_requests l) rid = Some r
      \<and> (rq_status r = PENDING \<or> rq_status r = CLAIMED \<and> rq_claim_token r = Some token))"
proof -
  have reach: "refill_reach digest l"
    using reachable_refill_read [OF assms(1-3)] by simp
  let ?h = "claim_handler rid token t (PInt rv)"
  have keep: "(\<exists>m. ?h l = Inr (Keep m)) \<longleftrightarrow> rv = rl_revision l \<and> (\<exists>r. map_of (rl_requests l) rid = Some r
      \<and> rq_status r = CLAIMED \<and> rq_claim_token r = Some token)"
    by (auto simp: claim_handler_def expected_matches_def split: option.splits if_splits)
  show ?thesis
    using run_refill_succeeds_iff [OF assms(3) reach claim_handler_ok [OF assms(5,6)], of rid "PInt rv"]
      assms(4-6)
    by (simp add: claim_refill_request_def keep claim_handler_mutates expected_matches_def) blast
qed

lemma claim_request_iff_witness:
  "\<exists>m g. claim_refill_request demo_digest good_io (refill_file demo_pending) (PStr demo_hash)
     (PStr ''worker'') (PStr demo_later) (PInt 1) = (Inr m, g)"
proof -
  have "nonblank demo_hash" "nonblank ''worker''" "utc_string demo_later" "rl_revision demo_pending = 1"
    "rq_status demo_request = PENDING"
    by code_simp+
  then show ?thesis
    using claim_request_iff [OF demo_digest_hex demo_pending_run(1,4), of demo_hash "''worker''"
        demo_later 1] demo_pending_request by auto
qed

text \<open>Only the worker that holds the claim completes it, once: with a fresh revision completion
  succeeds exactly when the request is claimed under the token, or when the same completion was
  recorded before.\<close>

theorem complete_request_iff:
  assumes "hex_digest digest" "reachable_refill digest f" "read_or_empty digest None f = Inr l"
    "nonblank rid" "nonblank token" "utc_string t"
  shows "(\<exists>m g. complete_refill_request digest good_io f (PStr rid) (PStr token)
      (PStr (completion_str oc)) (PStr t) (PInt rv) = (Inr m, g))
    \<longleftrightarrow> rv = rl_revision l \<and> (\<exists>r. map_of (rl_requests l) rid = Some r \<and> rq_claim_token r = Some token
      \<and> (rq_status r = CLAIMED \<or> rq_status r \<in> {COMPLETED, CANCELLED_REQUEST}
           \<and> rq_completion_outcome r = PStr (completion_str oc)))"
proof -
  have reach: "refill_reach digest l"
    using reachable_refill_read [OF assms(1-3)] by simp
  let ?h = "complete_handler rid token oc t (PInt rv)"
  have keep: "(\<exists>m. ?h l = Inr (Keep m)) \<longleftrightarrow> rv = rl_revision l \<and> (\<exists>r. map_of (rl_requests l) rid = Some r
      \<and> rq_status r \<in> {COMPLETED, CANCELLED_REQUEST} \<and> rq_claim_token r = Some token
      \<and> rq_completion_outcome r = PStr (completion_str oc))"
    by (auto simp: complete_handler_def expected_matches_def split: option.splits if_splits)
  show ?thesis
    using run_refill_succeeds_iff [OF assms(3) reach complete_handler_ok [OF assms(6)], of rid token oc "PInt rv"]
      assms(4-6)
    by (simp add: complete_refill_request_def keep complete_handler_mutates expected_matches_def) blast
qed

lemma complete_request_iff_witness:
  "\<exists>m g. complete_refill_request demo_digest good_io (refill_file demo_claimed) (PStr demo_hash)
     (PStr ''worker'') (PStr (completion_str DISPATCHED)) (PStr demo_later) (PInt 2) = (Inr m, g)"
proof -
  have "nonblank demo_hash" "nonblank ''worker''" "utc_string demo_later" "rl_revision demo_claimed = 2"
    "map_of (rl_requests demo_claimed) demo_hash = Some (demo_request\<lparr>rq_status := CLAIMED,
       rq_claim_token := Some ''worker'', rq_claimed_at := Some demo_later,
       rq_updated_at := demo_later, rq_attempt_count := 1\<rparr>)"
    by code_simp+
  then show ?thesis
    using complete_request_iff [OF demo_digest_hex demo_claimed_run(1,4), of demo_hash "''worker''"
        demo_later DISPATCHED 2] by auto
qed

lemma reconcile_transition_kept:
  assumes "reconcile_transition_handler digest i rv t er l = Inr (Keep m)"
  shows "reconcile_transition_handler digest i rv t' PNone l = Inr (Keep l)" "rl_sources l \<noteq> []"
  using assms by (auto simp: reconcile_transition_handler_def Let_def split: option.splits if_splits)

lemma empty_file_sources:
  "read_or_empty digest c Absent = Inr l \<Longrightarrow> rl_sources l = []"
  by (auto simp: read_or_empty_def create_empty_refill_ledger_def split: option.splits if_splits)

text \<open>A terminal transition can be reported any number of times: after the first report the
  same call returns the ledger and leaves the file alone.\<close>

theorem reconcile_transition_replay:
  assumes "hex_digest digest" "reachable_refill digest f"
    "reconcile_terminal_transition digest io f tid sid md st rv t er = (Inr m, g)" "is_utc t'"
  shows "\<exists>n. reconcile_terminal_transition digest good_io g tid sid md st rv t' PNone = (Inr n, g)
    \<and> same_refill m n"
proof -
  obtain i where i: "request_identity tid sid md st = Inr i" and t: "is_utc t"
    using assms(3) by (auto simp: reconcile_terminal_transition_def split: sum.splits if_splits)
  let ?h = "reconcile_transition_handler digest i rv (the_str t) er"
  let ?k = "reconcile_transition_handler digest i rv (the_str t') PNone"
  have run: "run_refill digest io (Some t) f ?h = (Inr m, g)"
    using assms(3) i t by (simp add: reconcile_terminal_transition_def)
  have call: "refill_handler digest (Reconcile_Transition tid sid md st rv t er) = Some (Some t, ?h)"
    using i t by simp
  note sound = refill_handler_sound [OF assms(1) call]
  have again: "reconcile_terminal_transition digest good_io g tid sid md st rv t' PNone = (Inr n, g)"
    if "read_or_empty digest (Some t') g = Inr n" "?k n = Inr (Keep n)" for n
    using that i assms(4) run_refill_good [OF that(1), of ?k]
    by (simp add: reconcile_terminal_transition_def)
  show ?thesis
  proof (cases rule: rl_guard.run_outcome [OF refill_file_read [OF reachable_refill_ok [OF assms(1,2)]
        sound(2)] sound(1) run [unfolded run_refill_def], case_names failed kept changed])
    case (failed e)
    then show ?thesis by simp
  next
    case (kept l)
    then have "?k l = Inr (Keep l)" "f \<noteq> Absent"
      using reconcile_transition_kept [OF kept(3)] empty_file_sources [of digest _ l] kept(1) by auto
    then show ?thesis
      using again [of l] kept by (auto simp: read_or_empty_def same_refill_def split: disk_file.splits)
  next
    case (changed l n u k)
    have "read_or_empty digest (Some t') g = Inr k"
      using changed(4,5,7,10) persist_refill_ok [of digest n u io f]
      by (auto simp: read_or_empty_def split: if_splits)
    moreover have "?k k = Inr (Keep k)"
      using changed(3) same_refill_lookup(2) [OF changed(12,9,11)]
      unfolding reconcile_transition_mutates
      by (auto simp: reconcile_transition_handler_def is_nat_int_def split: pv.splits)
    ultimately show ?thesis
      using again changed by auto
  qed
qed

lemma demo_reconcile_exec:
  "reconcile_terminal_transition demo_digest good_io Absent (PStr ''t3'') (PStr ''s1'') (PStr ''SWING'')
     (PStr ''CLOSED_PROFIT'') (PInt 3) (PStr demo_time) PNone = (Inr demo_pending, refill_file demo_pending)"
proof -
  have "request_identity (PStr ''t3'') (PStr ''s1'') (PStr ''SWING'') (PStr ''CLOSED_PROFIT'') =
      Inr demo_identity" "is_utc (PStr demo_time)" "the_str (PStr demo_time) = demo_time"
    by code_simp+
  then show ?thesis
    using demo_pending_run(3) by (simp add: reconcile_terminal_transition_def)
qed

lemma reconcile_transition_replay_witness:
  "\<exists>n. reconcile_terminal_transition demo_digest good_io (refill_file demo_pending) (PStr ''t3'')
     (PStr ''s1'') (PStr ''SWING'') (PStr ''CLOSED_PROFIT'') (PInt 3) (PStr demo_later) PNone =
     (Inr n, refill_file demo_pending)"
proof -
  have "is_utc (PStr demo_later)"
    by code_simp
  from reconcile_transition_replay [OF demo_digest_hex reachable_refill.start demo_reconcile_exec this]
  show ?thesis by blast
qed

text \<open>Recovery releases exactly the claims whose time stamp is below the threshold, reports
  their ids in order, and changes no other request.\<close>

theorem recover_releases_exactly:
  assumes "hex_digest digest" "reachable_refill digest f" "read_or_empty digest None f = Inr l"
    "utc_string before" "utc_string t"
  shows "\<exists>m g ids. recover_interrupted_claims digest good_io f (PStr before) (PStr t)
      (PInt (rl_revision l)) = (Inr (m, ids), g)
    \<and> sorted ids
    \<and> set ids = {k. \<exists>r. map_of (rl_requests l) k = Some r \<and> interrupted before r}
    \<and> (\<forall>k. map_of (rl_requests m) k = map_option
         (\<lambda>r. if interrupted before r then release_claim t r else r) (map_of (rl_requests l) k))"
proof -
  let ?h = "recover_handler before t (PInt (rl_revision l))"
  let ?f = "\<lambda>r. if interrupted before r then release_claim t r else r"
  let ?ids = "recovered_ids before l"
  have reach: "refill_reach digest l"
    using reachable_refill_read [OF assms(1-3)] by simp
  then have dist: "distinct (map fst (rl_requests l))"
    by (simp add: refill_reach_def refill_ok_def)
  have ids: "sorted ?ids" "set ?ids = {k. \<exists>r. map_of (rl_requests l) k = Some r \<and> interrupted before r}"
    using dist by (force simp: recovered_ids_def)+
  have "\<exists>m g. run_refill digest good_io None f ?h = (Inr m, g)
      \<and> (\<forall>k. map_of (rl_requests m) k = map_option ?f (map_of (rl_requests l) k))"
  proof (cases "?ids = []")
    case True
    then have "?h l = Inr (Keep l)"
      by (simp add: recover_handler_def expected_matches_def)
    moreover have "\<not> interrupted before r" if "map_of (rl_requests l) k = Some r" for k r
      using ids(2) that True by auto
    then have "map_of (rl_requests l) k = map_option ?f (map_of (rl_requests l) k)" for k
      by (cases "map_of (rl_requests l) k") simp_all
    ultimately show ?thesis
      by (simp add: run_refill_good [OF assms(3)])
  next
    case False
    let ?m = "l\<lparr>rl_requests := map (\<lambda>p. (fst p, ?f (snd p))) (rl_requests l)\<rparr>"
    have h: "?h l = Inr (Mutate ?m t)"
      using False by (simp add: recover_handler_def expected_matches_def)
    have "refill_reach digest ?m"
      by (rule sound_handlerD(2) [OF recover_handler_ok [OF assms(5)] reach h])
    then show ?thesis
      using assms(5) map_of_map_vals [of ?f "rl_requests l"]
      by (simp add: run_refill_good [OF assms(3)] h persist_refill_ok)
  qed
  with ids assms(3-5) show ?thesis
    by (auto simp: recover_interrupted_claims_def)
qed

lemma recover_releases_exactly_witness:
  "\<exists>m g ids. recover_interrupted_claims demo_digest good_io (refill_file demo_claimed) (PStr demo_time)
     (PStr demo_later) (PInt 2) = (Inr (m, ids), g)"
proof -
  have t: "utc_string demo_time" "utc_string demo_later" and rv: "rl_revision demo_claimed = 2"
    by code_simp+
  from recover_releases_exactly [OF demo_digest_hex demo_claimed_run(1,4) t] show ?thesis
    unfolding rv by blast
qed

text \<open>Time stamps are compared as strings.  A claim taken half a second after the recovery
  threshold, at 00:00:00.5, counts as older than the threshold 00:00:00 and is released.\<close>

theorem recovery_takes_later_claim:
  "\<exists>f m g. reachable_refill demo_digest f \<and> read_or_empty demo_digest None f = Inr demo_claimed
     \<and> map_option rq_claimed_at (map_of (rl_requests demo_claimed) demo_hash) =
         Some (Some ''2026-01-01T00:00:00.5Z'')
     \<and> recover_interrupted_claims demo_digest good_io f (PStr ''2026-01-01T00:00:00Z'')
         (PStr demo_later) (PInt 2) = (Inr (m, [demo_hash]), g)"
proof -
  let ?h = "recover_handler demo_time demo_later (PInt 2)"
  let ?m = "demo_claimed\<lparr>rl_requests :=
    [(demo_hash, release_claim demo_later (snd (hd (rl_requests demo_claimed))))]\<rparr>"
  have t: "utc_string demo_later" "is_utc (PStr demo_time)" "is_utc (PStr demo_later)"
    "demo_time = ''2026-01-01T00:00:00Z''" "the_str (PStr demo_later) = demo_later"
    "map_option rq_claimed_at (map_of (rl_requests demo_claimed) demo_hash) =
       Some (Some ''2026-01-01T00:00:00.5Z'')"
    by code_simp+
  have h: "?h demo_claimed = Inr (Mutate ?m demo_later)" "recovered_ids demo_time demo_claimed = [demo_hash]"
    by code_simp+
  have "refill_reach demo_digest ?m"
    by (rule sound_handlerD(2) [OF recover_handler_ok [OF t(1)] demo_claimed_run(2) h(1)])
  then have "run_refill demo_digest good_io None (refill_file demo_claimed) ?h =
      (Inr (refill_bump ?m demo_later), refill_file (refill_bump ?m demo_later))"
    using t(1) unfolding run_refill_good [OF demo_claimed_run(4)]
    by (simp add: h(1) persist_refill_ok refill_file_def)
  then have "recover_interrupted_claims demo_digest good_io (refill_file demo_claimed) (PStr demo_time)
      (PStr demo_later) (PInt 2) = (Inr (refill_bump ?m demo_later, [demo_hash]),
        refill_file (refill_bump ?m demo_later))"
    using t(2,3) by (simp add: recover_interrupted_claims_def h(2) demo_claimed_run(4))
  then show ?thesis
    using demo_claimed_run(1,4) t(4,6) by metis
qed

text \<open>C36. Two ways a signal ends in the active ledger are unknown here: a request for a manual
  close or for a rejection by the owner is always refused, so the slot is never refilled.\<close>

theorem manual_close_never_refilled:
  assumes "ts \<in> set terminal_states" "nonblank tid" "nonblank sid"
  shows "if ts = CLOSED_MANUAL \<or> ts = REJECTED_BY_OWNER
    then reconcile_terminal_transition digest io f (PStr tid) (PStr sid) (PStr (style_str m))
      (PStr (lifecycle_str ts)) rv t er = (Inl INVALID_TERMINAL_STATE, f)
    else request_identity (PStr tid) (PStr sid) (PStr (style_str m)) (PStr (lifecycle_str ts)) =
      Inr \<lparr>ri_transition_id = tid, ri_signal_id = sid, ri_mode = m, ri_terminal_state = ts\<rparr>"
proof -
  have "refill_terminal_of (PStr (lifecycle_str st)) =
      (if st \<in> set refill_terminal_states then Some st else None)" for st
    by (cases st) (simp_all add: refill_terminal_of_def refill_terminal_states_def)
  moreover have "ts \<in> set refill_terminal_states \<longleftrightarrow> ts \<noteq> CLOSED_MANUAL \<and> ts \<noteq> REJECTED_BY_OWNER"
    using assms(1) by (auto simp: terminal_states_def refill_terminal_states_def simp del: in_terminal_states)
  ultimately have "refill_terminal_of (PStr (lifecycle_str ts)) =
      (if ts = CLOSED_MANUAL \<or> ts = REJECTED_BY_OWNER then None else Some ts)"
    by simp
  then show ?thesis
    using assms(2,3) by (auto simp: reconcile_terminal_transition_def request_identity_def
        simp del: refill_terminal_of_iff)
qed

lemma manual_close_never_refilled_witness:
  "reconcile_terminal_transition demo_digest good_io Absent (PStr ''t3'') (PStr ''s1'')
     (PStr (style_str SWING)) (PStr (lifecycle_str CLOSED_MANUAL)) (PInt 3) (PStr demo_time) PNone =
   (Inl INVALID_TERMINAL_STATE, Absent)"
proof -
  have "CLOSED_MANUAL \<in> set terminal_states" "nonblank ''t3''" "nonblank ''s1''"
    by code_simp+
  from manual_close_never_refilled [OF this, where digest = demo_digest and io = good_io
      and f = Absent and m = SWING and rv = "PInt 3" and t = "PStr demo_time" and er = PNone]
  show ?thesis by simp
qed

end
