(* ===== verification/Refill_Coordinator.thy ===== *)
theory Refill_Coordinator
  imports Refill_Ledger "HOL-Library.Product_Lexorder"
begin

text \<open>
  The coordination of one refill request, \<open>src/engine/passive_style_refill_coordinator_v1.py\<close>:
  it reads the active-signal ledger (a document it is given) and the refill ledger (a file),
  and answers with an immutable decision.  Every exception of the modules below becomes a
  decision; \<open>Inl\<close> carries the exception of a \<open>try\<close> block to its handlers.
\<close>

section \<open>Decisions\<close>

record decision =
  dc_decision :: string
  dc_request_id :: "string option"
  dc_transition_id :: "string option"
  dc_signal_id :: "string option"
  dc_mode :: "style option"
  dc_terminal_state :: "lifecycle option"
  dc_request_status :: "request_status option"
  dc_eligibility :: "string option"
  dc_scan_units :: nat
  dc_active_revision :: pv
  dc_refill_revision :: "int option"
  dc_claim_token :: "string option"
  dc_reason :: "string option"
  dc_timestamp :: "string option"

text \<open>\<open>_decision\<close> with the defaults of its keyword arguments.\<close>

definition plain_decision :: "string \<Rightarrow> string option \<Rightarrow> string \<Rightarrow> decision" where
  "plain_decision d timestamp reason = \<lparr>
     dc_decision = d, dc_request_id = None, dc_transition_id = None, dc_signal_id = None,
     dc_mode = None, dc_terminal_state = None, dc_request_status = None, dc_eligibility = None,
     dc_scan_units = 0, dc_active_revision = PNone, dc_refill_revision = None,
     dc_claim_token = None, dc_reason = Some reason, dc_timestamp = timestamp\<rparr>"

definition request_decision ::
  "string \<Rightarrow> request \<Rightarrow> string \<Rightarrow> pv \<Rightarrow> int \<Rightarrow> string option \<Rightarrow> nat \<Rightarrow> string \<Rightarrow> decision" where
  "request_decision d r timestamp active_revision refill_revision eligibility scan_units reason = \<lparr>
     dc_decision = d,
     dc_request_id = Some (rq_id r),
     dc_transition_id = Some (ri_transition_id (rq_identity r)),
     dc_signal_id = Some (ri_signal_id (rq_identity r)),
     dc_mode = Some (ri_mode (rq_identity r)),
     dc_terminal_state = Some (ri_terminal_state (rq_identity r)),
     dc_request_status = Some (rq_status r),
     dc_eligibility = eligibility,
     dc_scan_units = scan_units,
     dc_active_revision = active_revision,
     dc_refill_revision = Some refill_revision,
     dc_claim_token = rq_claim_token r,
     dc_reason = Some reason,
     dc_timestamp = Some timestamp\<rparr>"

text \<open>What a \<open>try\<close> block can raise: a refill-ledger error, or one of \<open>TypeError\<close>,
  \<open>ValueError\<close> and \<open>KeyError\<close>.\<close>

datatype raised = Refill_Error rerror | Python_Error

definition refill_reason :: "rerror \<Rightarrow> string" where
  "refill_reason e =
    (case e of
       REVISION_CONFLICT \<Rightarrow> ''REVISION_CONFLICT''
     | LOCK_UNAVAILABLE \<Rightarrow> ''REFILL_LOCK_UNAVAILABLE''
     | PERSISTENCE_FAILURE \<Rightarrow> ''REFILL_PERSISTENCE_FAILURE''
     | CLAIM_TOKEN_CONFLICT \<Rightarrow> ''CLAIM_TOKEN_CONFLICT''
     | _ \<Rightarrow> ''FAIL_CLOSED'')"

definition python_error_decision :: decision where
  "python_error_decision = plain_decision ''FAIL_CLOSED'' None ''FAIL_CLOSED''"

definition refill_error_decision :: "string \<Rightarrow> rerror \<Rightarrow> decision" where
  "refill_error_decision timestamp e =
    (let reason = refill_reason e in
     plain_decision (if reason = ''REVISION_CONFLICT'' then ''REVISION_CONFLICT'' else ''FAIL_CLOSED'')
       (Some timestamp) reason)"

section \<open>The terminal context\<close>

text \<open>\<open>_active_document\<close>: the ledger, the decision to return instead, or an exception.\<close>

definition active_document ::
  "pv \<Rightarrow> pv \<Rightarrow> string \<Rightarrow> (raised, (decision, ledger) result) result" where
  "active_document active_ledger expected_revision timestamp =
    (case validate_ledger active_ledger of
       Inl e \<Rightarrow>
         if e = Py_Type_Error then Inl Python_Error
         else Inr (Inl (plain_decision ''FAIL_CLOSED'' (Some timestamp) ''ACTIVE_LEDGER_INVALID''))
     | Inr l \<Rightarrow>
         if expected_revision \<noteq> PInt (al_revision l)
         then Inr (Inl ((plain_decision ''REVISION_CONFLICT'' (Some timestamp) ''REVISION_CONFLICT'')
                \<lparr>dc_active_revision := PInt (al_revision l)\<rparr>))
         else Inr (Inr l))"

record terminal_info =
  cx_transition_id :: string
  cx_signal_id :: string
  cx_mode :: style
  cx_terminal_state :: lifecycle
  cx_source_revision :: int
  cx_active_revision :: int

text \<open>
  The tests on a recorded transition.  The ledger has been validated, so the signal of a
  transition exists, its style is known and the time stamp is well formed.
\<close>

definition transition_context :: "ledger \<Rightarrow> string \<Rightarrow> transition \<Rightarrow> terminal_info option" where
  "transition_context l transition_id t =
    (case map_of (al_signals l) (tr_signal_id t) of
       None \<Rightarrow> None
     | Some r \<Rightarrow>
         if tr_operation t = TERMINAL \<and> tr_signal_id t = sg_signal_id r
            \<and> tr_to_state t \<in> set terminal_states \<and> sg_state r = tr_to_state t
            \<and> utc_string (tr_occurred_at t)
         then Some \<lparr>
           cx_transition_id = transition_id, cx_signal_id = sg_signal_id r, cx_mode = sg_mode r,
           cx_terminal_state = tr_to_state t, cx_source_revision = tr_ledger_revision t,
           cx_active_revision = al_revision l\<rparr>
         else None)"

definition terminal_context ::
  "pv \<Rightarrow> pv \<Rightarrow> pv \<Rightarrow> string \<Rightarrow> (raised, (decision, terminal_info) result) result" where
  "terminal_context active_ledger transition_id expected_revision timestamp =
    (case active_document active_ledger expected_revision timestamp of
       Inl x \<Rightarrow> Inl x
     | Inr (Inl d) \<Rightarrow> Inr (Inl d)
     | Inr (Inr l) \<Rightarrow>
       (case transition_id of
          PStr k \<Rightarrow>
            if k = [] then
              Inr (Inl (plain_decision ''FAIL_CLOSED'' (Some timestamp) ''TERMINAL_METADATA_INVALID''))
            else (case map_of (al_transitions l) k of
              None \<Rightarrow> Inr (Inl ((plain_decision ''NO_TERMINAL_TRANSITION'' (Some timestamp)
                  ''NO_TERMINAL_TRANSITION'')
                  \<lparr>dc_transition_id := Some k, dc_active_revision := PInt (al_revision l)\<rparr>))
            | Some t \<Rightarrow> (case transition_context l k t of
                None \<Rightarrow> Inr (Inl ((plain_decision ''FAIL_CLOSED'' (Some timestamp)
                    ''TERMINAL_METADATA_INVALID'')
                    \<lparr>dc_transition_id := Some k, dc_active_revision := PInt (al_revision l)\<rparr>))
              | Some c \<Rightarrow> Inr (Inr c)))
        | _ \<Rightarrow> Inr (Inl (plain_decision ''FAIL_CLOSED'' (Some timestamp)
            ''TERMINAL_METADATA_INVALID''))))"

section \<open>Operations\<close>

text \<open>The rest of the \<open>try\<close> block of \<open>reconcile_terminal_refill\<close>, from a context.\<close>

definition reconcile_context ::
  "(pv \<Rightarrow> string) \<Rightarrow> io \<Rightarrow> disk_file \<Rightarrow> terminal_info \<Rightarrow> pv \<Rightarrow> pv
    \<Rightarrow> (raised, decision) result \<times> disk_file" where
  "reconcile_context digest io f c expected_refill_revision timestamp =
    (case request_identity (PStr (cx_transition_id c)) (PStr (cx_signal_id c))
         (PStr (style_str (cx_mode c))) (PStr (lifecycle_str (cx_terminal_state c))) of
       Inl e \<Rightarrow> (Inl (Refill_Error e), f)
     | Inr i \<Rightarrow>
       (case load_refill_ledger digest f timestamp of
          Inl e \<Rightarrow> (Inl (Refill_Error e), f)
        | Inr before \<Rightarrow>
          (case reconcile_terminal_transition digest io f (PStr (cx_transition_id c))
               (PStr (cx_signal_id c)) (PStr (style_str (cx_mode c)))
               (PStr (lifecycle_str (cx_terminal_state c))) (PInt (cx_source_revision c))
               timestamp expected_refill_revision of
             (Inl e, f') \<Rightarrow> (Inl (Refill_Error e), f')
           | (Inr document, f') \<Rightarrow>
             (case map_of (rl_requests document) (derive_refill_request_id digest i) of
                None \<Rightarrow> (Inl Python_Error, f')
              | Some r \<Rightarrow> (Inr (request_decision
                  (if map_of (rl_sources before) (cx_transition_id c) \<noteq> None
                   then ''REQUEST_ALREADY_RECONCILED'' else ''REQUEST_RECONCILED'')
                  r (the_str timestamp) (PInt (cx_active_revision c)) (rl_revision document)
                  None 0 ''TERMINAL_REQUEST_RECONCILED''), f')))))"

definition reconcile_terminal_refill ::
  "(pv \<Rightarrow> string) \<Rightarrow> io \<Rightarrow> disk_file \<Rightarrow> pv \<Rightarrow> pv \<Rightarrow> pv \<Rightarrow> pv \<Rightarrow> pv \<Rightarrow> decision \<times> disk_file" where
  "reconcile_terminal_refill digest io f active_ledger transition_id expected_active_revision
      expected_refill_revision timestamp =
    (if \<not> is_utc timestamp then (python_error_decision, f)
     else case terminal_context active_ledger transition_id expected_active_revision
         (the_str timestamp) of
       Inl _ \<Rightarrow> (python_error_decision, f)
     | Inr (Inl d) \<Rightarrow> (d, f)
     | Inr (Inr c) \<Rightarrow>
       (case reconcile_context digest io f c expected_refill_revision timestamp of
          (Inr d, f') \<Rightarrow> (d, f')
        | (Inl (Refill_Error e), f') \<Rightarrow>
            ((refill_error_decision (the_str timestamp) e)
               \<lparr>dc_transition_id := opt_str transition_id\<rparr>, f')
        | (Inl Python_Error, f') \<Rightarrow> (python_error_decision, f')))"

text \<open>\<open>requests.get(refill_request_id)\<close>: an unhashable argument raises \<open>TypeError\<close>.\<close>

definition get_request :: "refill_ledger \<Rightarrow> pv \<Rightarrow> (raised, request option) result" where
  "get_request l refill_request_id =
    (if unhashable refill_request_id then Inl Python_Error
     else case refill_request_id of
       PStr k \<Rightarrow> Inr (map_of (rl_requests l) k)
     | _ \<Rightarrow> Inr None)"

text \<open>From the request to the decision in \<open>evaluate_refill_dispatch\<close>.\<close>

definition dispatch_decision ::
  "request \<Rightarrow> pv \<Rightarrow> int \<Rightarrow> int \<Rightarrow> string \<Rightarrow> (raised, decision) result" where
  "dispatch_decision r capacity_snapshot active_revision refill_revision timestamp =
    (let answer = (\<lambda>d e n reason. request_decision d r timestamp (PInt active_revision)
           refill_revision (Some e) n reason)
     in if rq_status r = CLAIMED
        then Inr (answer ''REQUEST_ALREADY_CLAIMED'' ''NOT_ELIGIBLE'' 0 ''REQUEST_ALREADY_CLAIMED'')
        else if rq_status r = COMPLETED \<or> rq_status r = CANCELLED_REQUEST
        then Inr (answer ''REQUEST_NOT_ELIGIBLE'' ''NOT_ELIGIBLE'' 0 ''REQUEST_NOT_ELIGIBLE'')
        else case request_eligibility r capacity_snapshot of
          Inl e \<Rightarrow> Inl (Refill_Error e)
        | Inr (verdict, _) \<Rightarrow>
            if verdict = STYLE_IS_FULL
            then Inr (answer ''STYLE_FULL'' ''STYLE_FULL'' 0 ''STYLE_FULL'')
            else Inr (answer ''ELIGIBLE_ONE_SCAN_UNIT'' ''ELIGIBLE_ONE_SCAN_UNIT'' 1
                ''FRESH_CAPACITY_RECHECK_REQUIRED_BEFORE_FUTURE_WORK''))"

definition evaluate_body ::
  "(pv \<Rightarrow> string) \<Rightarrow> pv \<Rightarrow> pv \<Rightarrow> pv \<Rightarrow> pv \<Rightarrow> pv \<Rightarrow> pv \<Rightarrow> string \<Rightarrow> (raised, decision) result" where
  "evaluate_body digest active_ledger expected_active_revision refill_ledger refill_request_id
      capacity_snapshot snapshot_revision timestamp =
    (case active_document active_ledger expected_active_revision timestamp of
       Inl x \<Rightarrow> Inl x
     | Inr (Inl d) \<Rightarrow> Inr d
     | Inr (Inr l) \<Rightarrow>
       if \<not> py_eq snapshot_revision expected_active_revision
       then Inr ((plain_decision ''REVISION_CONFLICT'' (Some timestamp) ''REVISION_CONFLICT'')
              \<lparr>dc_active_revision := PInt (al_revision l)\<rparr>)
       else case validate_refill_ledger digest refill_ledger of
         Inl e \<Rightarrow> Inl (Refill_Error e)
       | Inr rl \<Rightarrow> (case get_request rl refill_request_id of
           Inl x \<Rightarrow> Inl x
         | Inr None \<Rightarrow> Inr (plain_decision ''FAIL_CLOSED'' (Some timestamp) ''FAIL_CLOSED'')
         | Inr (Some r) \<Rightarrow>
             dispatch_decision r capacity_snapshot (al_revision l) (rl_revision rl) timestamp))"

definition evaluate_refill_dispatch ::
  "(pv \<Rightarrow> string) \<Rightarrow> pv \<Rightarrow> pv \<Rightarrow> pv \<Rightarrow> pv \<Rightarrow> pv \<Rightarrow> pv \<Rightarrow> pv \<Rightarrow> decision" where
  "evaluate_refill_dispatch digest active_ledger expected_active_revision refill_ledger
      refill_request_id capacity_snapshot snapshot_revision timestamp =
    (if \<not> is_utc timestamp then python_error_decision
     else case evaluate_body digest active_ledger expected_active_revision refill_ledger
         refill_request_id capacity_snapshot snapshot_revision (the_str timestamp) of
       Inr d \<Rightarrow> d
     | Inl (Refill_Error e) \<Rightarrow>
         (if e = INVALID_CAPACITY_SNAPSHOT
          then (refill_error_decision (the_str timestamp) e)
                 \<lparr>dc_reason := Some ''INVALID_CAPACITY_SNAPSHOT''\<rparr>
          else refill_error_decision (the_str timestamp) e)
     | Inl Python_Error \<Rightarrow> python_error_decision)"

definition claim_eligible_refill ::
  "(pv \<Rightarrow> string) \<Rightarrow> io \<Rightarrow> disk_file \<Rightarrow> pv \<Rightarrow> pv \<Rightarrow> pv \<Rightarrow> pv \<Rightarrow> pv \<Rightarrow> pv \<Rightarrow> pv \<Rightarrow> pv
    \<Rightarrow> decision \<times> disk_file" where
  "claim_eligible_refill digest io f active_ledger expected_active_revision refill_request_id
      expected_refill_revision capacity_snapshot snapshot_revision claim_token timestamp =
    (if \<not> is_utc timestamp then (python_error_decision, f)
     else case load_refill_ledger digest f PNone of
       Inl e \<Rightarrow> (refill_error_decision (the_str timestamp) e, f)
     | Inr document \<Rightarrow>
       (case get_request document refill_request_id of
          Inl _ \<Rightarrow> (python_error_decision, f)
        | Inr found \<Rightarrow>
          (case (if opt_ex (\<lambda>r. rq_status r = CLAIMED) found then found else None) of
             Some r \<Rightarrow>
               if \<not> py_eq expected_refill_revision (PInt (rl_revision document))
               then (plain_decision ''REVISION_CONFLICT'' (Some (the_str timestamp))
                      ''REVISION_CONFLICT'', f)
               else if str_or_none (rq_claim_token r) = claim_token
               then (request_decision ''REQUEST_ALREADY_CLAIMED'' r (the_str timestamp)
                      expected_active_revision (rl_revision document) (Some ''NOT_ELIGIBLE'') 0
                      ''REQUEST_ALREADY_CLAIMED'', f)
               else (plain_decision ''FAIL_CLOSED'' (Some (the_str timestamp))
                      ''CLAIM_TOKEN_CONFLICT'', f)
           | None \<Rightarrow>
             (let evaluated = evaluate_refill_dispatch digest active_ledger
                    expected_active_revision (refill_doc document) refill_request_id
                    capacity_snapshot snapshot_revision timestamp
              in if dc_decision evaluated \<noteq> ''ELIGIBLE_ONE_SCAN_UNIT'' then (evaluated, f)
                 else case claim_refill_request digest io f refill_request_id claim_token
                     timestamp expected_refill_revision of
                   (Inl e, f') \<Rightarrow> (refill_error_decision (the_str timestamp) e, f')
                 | (Inr claimed, f') \<Rightarrow>
                   (case map_of (rl_requests claimed) (the_str refill_request_id) of
                      None \<Rightarrow> (python_error_decision, f')
                    | Some r \<Rightarrow> (request_decision ''ELIGIBLE_ONE_SCAN_UNIT'' r
                        (the_str timestamp) expected_active_revision (rl_revision claimed)
                        (Some ''ELIGIBLE_ONE_SCAN_UNIT'') 1
                        ''FRESH_CAPACITY_RECHECK_REQUIRED_BEFORE_FUTURE_WORK'', f'))))))"

definition reconcile_and_evaluate_refill ::
  "(pv \<Rightarrow> string) \<Rightarrow> io \<Rightarrow> disk_file \<Rightarrow> pv \<Rightarrow> pv \<Rightarrow> pv \<Rightarrow> pv \<Rightarrow> pv \<Rightarrow> pv \<Rightarrow> pv
    \<Rightarrow> decision \<times> disk_file" where
  "reconcile_and_evaluate_refill digest io f active_ledger transition_id expected_active_revision
      expected_refill_revision capacity_snapshot snapshot_revision timestamp =
    (case reconcile_terminal_refill digest io f active_ledger transition_id
         expected_active_revision expected_refill_revision timestamp of
       (d, f') \<Rightarrow>
         if dc_decision d \<notin> {''REQUEST_RECONCILED'', ''REQUEST_ALREADY_RECONCILED''} then (d, f')
         else case load_refill_ledger digest f' PNone of
           Inl e \<Rightarrow> (plain_decision ''FAIL_CLOSED'' (opt_str timestamp) (refill_reason e), f')
         | Inr document \<Rightarrow> (evaluate_refill_dispatch digest active_ledger
             expected_active_revision (refill_doc document) (str_or_none (dc_request_id d))
             capacity_snapshot snapshot_revision timestamp, f'))"

text \<open>\<open>min\<close> with the key (creation time, id): the first of the smallest.\<close>

definition oldest_request :: "request list \<Rightarrow> request" where
  "oldest_request rs = arg_min_list (\<lambda>r. (rq_created_at r, rq_id r)) rs"

definition select_next_pending_refill ::
  "(pv \<Rightarrow> string) \<Rightarrow> pv \<Rightarrow> pv \<Rightarrow> pv \<Rightarrow> decision" where
  "select_next_pending_refill digest refill_ledger mode timestamp =
    (if \<not> is_utc timestamp then python_error_decision
     else if mode \<noteq> PNone \<and> style_of mode = None then python_error_decision
     else case validate_refill_ledger digest refill_ledger of
       Inl e \<Rightarrow> plain_decision ''FAIL_CLOSED'' (Some (the_str timestamp)) ''FAIL_CLOSED''
     | Inr l \<Rightarrow>
       (let candidates = filter (\<lambda>r. rq_status r = PENDING
              \<and> (mode = PNone \<or> style_of mode = Some (ri_mode (rq_identity r))))
              (map snd (rl_requests l))
        in if candidates = [] then
             (plain_decision ''REQUEST_NOT_ELIGIBLE'' (Some (the_str timestamp))
                ''REQUEST_NOT_ELIGIBLE'')
               \<lparr>dc_refill_revision := Some (rl_revision l), dc_eligibility := Some ''NOT_EVALUATED''\<rparr>
           else request_decision ''REQUEST_ALREADY_RECONCILED'' (oldest_request candidates)
             (the_str timestamp) PNone (rl_revision l) (Some ''NOT_EVALUATED'') 0
             ''PENDING_REQUEST_SELECTED''))"

end
