(* ===== verification/Terminal_Refill.thy ===== *)
theory Terminal_Refill
  imports Refill_Coordinator
begin

text \<open>
  One terminal transition and its refill record,
  \<open>src/engine/passive_terminal_refill_integration_v1.py\<close>: the active-signal ledger is
  changed first, under its own lock, then the refill ledger; a failure in between is a partial
  success that a later call repairs.  The state is the pair of files.
\<close>

section \<open>Results\<close>

record refill_result =
  rs_result :: string
  rs_transition_id :: "string option"
  rs_signal_id :: "string option"
  rs_mode :: "style option"
  rs_terminal_state :: "string option"
  rs_active_revision :: "int option"
  rs_request_id :: "string option"
  rs_refill_revision :: "int option"
  rs_transition_applied :: bool
  rs_refill_reconciled :: bool
  rs_partial_success :: bool
  rs_replay :: bool
  rs_reason :: "string option"
  rs_timestamp :: "string option"

text \<open>\<open>_result\<close> with the defaults of its keyword arguments.\<close>

definition plain_result :: "string \<Rightarrow> string option \<Rightarrow> string \<Rightarrow> refill_result" where
  "plain_result result timestamp reason = \<lparr>
     rs_result = result, rs_transition_id = None, rs_signal_id = None, rs_mode = None,
     rs_terminal_state = None, rs_active_revision = None, rs_request_id = None,
     rs_refill_revision = None, rs_transition_applied = False, rs_refill_reconciled = False,
     rs_partial_success = False, rs_replay = False, rs_reason = Some reason,
     rs_timestamp = timestamp\<rparr>"

definition active_reason :: "aerror \<Rightarrow> string \<times> string" where
  "active_reason e =
    (if e = EXPECTED_REVISION_MISMATCH then (''ACTIVE_REVISION_CONFLICT'', ''ACTIVE_REVISION_CONFLICT'')
     else if e = LOCK_ACQUISITION_FAILED then (''ACTIVE_LEDGER_FAILURE'', ''ACTIVE_LOCK_UNAVAILABLE'')
     else if e = ATOMIC_WRITE_FAILED then (''ACTIVE_LEDGER_FAILURE'', ''ACTIVE_PERSISTENCE_FAILURE'')
     else (''ACTIVE_LEDGER_FAILURE'', ''ACTIVE_LEDGER_INVALID''))"

definition decision_reason :: "decision \<Rightarrow> string \<times> string" where
  "decision_reason d =
    (if dc_reason d = Some ''REVISION_CONFLICT''
     then (''REFILL_REVISION_CONFLICT'', ''REFILL_REVISION_CONFLICT'')
     else if dc_reason d = Some ''REFILL_LOCK_UNAVAILABLE''
     then (''REFILL_LEDGER_FAILURE'', ''REFILL_LOCK_UNAVAILABLE'')
     else if dc_reason d = Some ''REFILL_PERSISTENCE_FAILURE''
     then (''REFILL_LEDGER_FAILURE'', ''REFILL_PERSISTENCE_FAILURE'')
     else (''REFILL_LEDGER_FAILURE'', ''FAIL_CLOSED''))"

text \<open>\<open>_terminal_context\<close>: the persisted evidence, or the reason there is none.\<close>

definition persisted_context :: "pv \<Rightarrow> pv \<Rightarrow> (string, terminal_info) result" where
  "persisted_context active_ledger transition_id =
    (case validate_ledger active_ledger of
       Inl e \<Rightarrow> Inl ''ACTIVE_LEDGER_INVALID''
     | Inr l \<Rightarrow>
       if \<not> is_ident transition_id then Inl ''ACTIVE_LEDGER_INVALID''
       else case map_of (al_transitions l) (the_str transition_id) of
         None \<Rightarrow> Inl ''NO_TERMINAL_TRANSITION''
       | Some t \<Rightarrow> (case transition_context l (the_str transition_id) t of
             None \<Rightarrow> Inl ''TERMINAL_METADATA_INVALID''
           | Some c \<Rightarrow> Inr c))"

definition context_result ::
  "string \<Rightarrow> terminal_info \<Rightarrow> string \<Rightarrow> string option \<Rightarrow> int option \<Rightarrow> bool \<Rightarrow> bool \<Rightarrow> bool \<Rightarrow> bool
    \<Rightarrow> string \<Rightarrow> refill_result" where
  "context_result result c timestamp request_id refill_revision transition_applied
      refill_reconciled partial_success replay reason = \<lparr>
     rs_result = result,
     rs_transition_id = Some (cx_transition_id c),
     rs_signal_id = Some (cx_signal_id c),
     rs_mode = Some (cx_mode c),
     rs_terminal_state = Some (lifecycle_str (cx_terminal_state c)),
     rs_active_revision = Some (cx_active_revision c),
     rs_request_id = request_id,
     rs_refill_revision = refill_revision,
     rs_transition_applied = transition_applied,
     rs_refill_reconciled = refill_reconciled,
     rs_partial_success = partial_success,
     rs_replay = replay,
     rs_reason = Some reason,
     rs_timestamp = Some timestamp\<rparr>"

text \<open>\<open>_request_id\<close>\<close>

definition context_request_id :: "(pv \<Rightarrow> string) \<Rightarrow> terminal_info \<Rightarrow> string option" where
  "context_request_id digest c =
    (case request_identity (PStr (cx_transition_id c)) (PStr (cx_signal_id c))
         (PStr (style_str (cx_mode c))) (PStr (lifecycle_str (cx_terminal_state c))) of
       Inl e \<Rightarrow> None
     | Inr i \<Rightarrow> Some (derive_refill_request_id digest i))"

definition has_terminal_signal :: "ledger option \<Rightarrow> bool" where
  "has_terminal_signal before =
    (case before of None \<Rightarrow> False
     | Some l \<Rightarrow> list_ex (\<lambda>p. sg_state (snd p) \<in> set terminal_states) (al_signals l))"

text \<open>\<open>_reconcile_result\<close>; an empty request id counts as none there.\<close>

definition reconcile_result ::
  "(pv \<Rightarrow> string) \<Rightarrow> terminal_info \<Rightarrow> decision \<Rightarrow> string \<Rightarrow> bool \<Rightarrow> bool \<Rightarrow> bool \<Rightarrow> refill_result" where
  "reconcile_result digest c d timestamp transition_applied replay repair =
    (if dc_decision d = ''REQUEST_RECONCILED'' then
       context_result
         (if repair \<or> transition_applied then ''TRANSITION_AND_REFILL_RECONCILED''
          else ''TRANSITION_REPLAY_REFILL_RECONCILED'')
         c timestamp (dc_request_id d) (dc_refill_revision d) True True False replay
         ''TERMINAL_REQUEST_RECONCILED''
     else if dc_decision d = ''REQUEST_ALREADY_RECONCILED'' then
       context_result ''REFILL_ALREADY_RECONCILED'' c timestamp (dc_request_id d)
         (dc_refill_revision d) True True False True ''REFILL_ALREADY_RECONCILED''
     else
       (let (classification, reason) = decision_reason d in
        if transition_applied \<or> replay then
          context_result ''TRANSITION_APPLIED_REFILL_PENDING'' c timestamp
            (case dc_request_id d of
               None \<Rightarrow> context_request_id digest c
             | Some k \<Rightarrow> if k = [] then context_request_id digest c else Some k)
            (dc_refill_revision d) True False True replay reason
        else
          context_result classification c timestamp (dc_request_id d) (dc_refill_revision d)
            False False False False reason))"

section \<open>Operations\<close>

text \<open>The results of a call that did not get past the active ledger.\<close>

definition early_result ::
  "string \<Rightarrow> string \<Rightarrow> pv \<Rightarrow> pv \<Rightarrow> pv \<Rightarrow> pv \<Rightarrow> refill_result" where
  "early_result result reason timestamp transition_id signal_id terminal_state =
    (plain_result result (opt_str timestamp) reason)
      \<lparr>rs_transition_id := opt_str transition_id, rs_signal_id := opt_str signal_id,
       rs_terminal_state := opt_str terminal_state\<rparr>"

definition active_error_result ::
  "aerror \<Rightarrow> ledger option \<Rightarrow> pv \<Rightarrow> pv \<Rightarrow> pv \<Rightarrow> pv \<Rightarrow> refill_result" where
  "active_error_result e before timestamp transition_id signal_id terminal_state =
    (if e = Py_Type_Error
     then early_result ''FAIL_CLOSED'' ''ACTIVE_LEDGER_INVALID'' timestamp transition_id signal_id
       terminal_state
     else if e = SIGNAL_ID_INVALID \<and> has_terminal_signal before
     then early_result ''FAIL_CLOSED'' ''NO_TERMINAL_TRANSITION'' timestamp transition_id signal_id
       terminal_state
     else early_result (fst (active_reason e)) (snd (active_reason e)) timestamp transition_id
       signal_id terminal_state)"

definition transition_arguments_ok ::
  "pv \<Rightarrow> pv \<Rightarrow> pv \<Rightarrow> pv \<Rightarrow> pv \<Rightarrow> pv \<Rightarrow> pv \<Rightarrow> pv \<Rightarrow> bool" where
  "transition_arguments_ok expected_active_revision expected_refill_revision transition_id
      signal_id terminal_state terminal_at terminal_reason timestamp =
    (is_utc timestamp \<and> is_ident transition_id \<and> is_ident signal_id \<and> is_ident terminal_reason
     \<and> is_utc terminal_at
     \<and> opt_ex (\<lambda>st. st \<in> set terminal_states) (lifecycle_of terminal_state)
     \<and> is_nat_int expected_active_revision
     \<and> (expected_refill_revision = PNone \<or> is_nat_int expected_refill_revision))"

definition transition_and_reconcile_refill ::
  "(pv \<Rightarrow> string) \<Rightarrow> io \<Rightarrow> io \<Rightarrow> disk_file \<Rightarrow> disk_file \<Rightarrow> pv \<Rightarrow> pv \<Rightarrow> pv \<Rightarrow> pv \<Rightarrow> pv \<Rightarrow> pv \<Rightarrow> pv \<Rightarrow> pv \<Rightarrow> pv
    \<Rightarrow> refill_result \<times> disk_file \<times> disk_file" where
  "transition_and_reconcile_refill digest io_a io_r fa fr expected_active_revision
      expected_refill_revision transition_id signal_id terminal_state terminal_at terminal_reason
      timestamp require_current =
    (if \<not> transition_arguments_ok expected_active_revision expected_refill_revision transition_id
          signal_id terminal_state terminal_at terminal_reason timestamp
     then (early_result ''FAIL_CLOSED'' ''ACTIVE_LEDGER_INVALID'' timestamp transition_id signal_id
             terminal_state, fa, fr)
     else case read_ledger fa of
       Inl e \<Rightarrow> (active_error_result e None timestamp transition_id signal_id terminal_state, fa, fr)
     | Inr before \<Rightarrow>
       (let existed_before = (map_of (al_transitions before) (the_str transition_id) \<noteq> None)
        in case transition_terminal io_a fa expected_active_revision (the_str transition_id)
             (the_str signal_id) terminal_state terminal_at terminal_reason timestamp
             require_current of
          (Inl e, fa') \<Rightarrow>
            (active_error_result e (Some before) timestamp transition_id signal_id terminal_state,
             fa', fr)
        | (Inr document, fa') \<Rightarrow>
          (case persisted_context (ledger_doc document) transition_id of
             Inl failure \<Rightarrow>
               ((plain_result ''FAIL_CLOSED'' (opt_str timestamp) failure)
                  \<lparr>rs_transition_id := opt_str transition_id,
                   rs_active_revision := Some (al_revision document)\<rparr>, fa', fr)
           | Inr c \<Rightarrow>
             (case reconcile_terminal_refill digest io_r fr (ledger_doc document)
                  (PStr (cx_transition_id c)) (PInt (cx_active_revision c))
                  expected_refill_revision timestamp of
                (d, fr') \<Rightarrow> (reconcile_result digest c d (the_str timestamp)
                   (\<not> existed_before) existed_before False, fa', fr')))))"

definition reconcile_existing_terminal_refill ::
  "(pv \<Rightarrow> string) \<Rightarrow> io \<Rightarrow> disk_file \<Rightarrow> disk_file \<Rightarrow> pv \<Rightarrow> pv \<Rightarrow> pv \<Rightarrow> pv
    \<Rightarrow> refill_result \<times> disk_file" where
  "reconcile_existing_terminal_refill digest io_r fa fr expected_active_revision
      expected_refill_revision transition_id timestamp =
    (if \<not> is_utc timestamp
     then (plain_result ''FAIL_CLOSED'' (opt_str timestamp) ''ACTIVE_LEDGER_INVALID'', fr)
     else case read_ledger fa of
       Inl e \<Rightarrow>
         (if e = Py_Type_Error
          then plain_result ''FAIL_CLOSED'' (opt_str timestamp) ''ACTIVE_LEDGER_INVALID''
          else plain_result (fst (active_reason e)) (opt_str timestamp) (snd (active_reason e)), fr)
     | Inr document \<Rightarrow>
       if expected_active_revision \<noteq> PInt (al_revision document)
       then ((plain_result ''ACTIVE_REVISION_CONFLICT'' (opt_str timestamp) ''ACTIVE_REVISION_CONFLICT'')
               \<lparr>rs_transition_id := opt_str transition_id,
                rs_active_revision := Some (al_revision document)\<rparr>, fr)
       else case persisted_context (ledger_doc document) transition_id of
         Inl failure \<Rightarrow>
           ((plain_result (if failure = ''NO_TERMINAL_TRANSITION'' then failure else ''FAIL_CLOSED'')
               (opt_str timestamp) failure)
              \<lparr>rs_transition_id := opt_str transition_id,
               rs_active_revision := Some (al_revision document)\<rparr>, fr)
       | Inr c \<Rightarrow>
         (case reconcile_terminal_refill digest io_r fr (ledger_doc document)
              (PStr (cx_transition_id c)) (PInt (cx_active_revision c))
              expected_refill_revision timestamp of
            (d, fr') \<Rightarrow> (reconcile_result digest c d (the_str timestamp) False False True, fr')))"

definition inspect_terminal_refill_result ::
  "(pv \<Rightarrow> string) \<Rightarrow> pv \<Rightarrow> pv \<Rightarrow> pv \<Rightarrow> pv \<Rightarrow> refill_result" where
  "inspect_terminal_refill_result digest active_ledger refill_ledger transition_id timestamp =
    (let failed = plain_result ''FAIL_CLOSED'' (opt_str timestamp) ''FAIL_CLOSED'' in
     if \<not> is_utc timestamp then failed
     else case persisted_context active_ledger transition_id of
       Inl failure \<Rightarrow>
         (plain_result (if failure = ''NO_TERMINAL_TRANSITION'' then failure else ''FAIL_CLOSED'')
            (opt_str timestamp) failure)\<lparr>rs_transition_id := opt_str transition_id\<rparr>
     | Inr c \<Rightarrow>
       (case validate_refill_ledger digest refill_ledger of
          Inl e \<Rightarrow> failed
        | Inr l \<Rightarrow>
          (case context_request_id digest c of
             None \<Rightarrow> context_result ''FAIL_CLOSED'' c (the_str timestamp) None None True False True
               True ''FAIL_CLOSED''
           | Some k \<Rightarrow>
             (case map_of (rl_requests l) k of
                None \<Rightarrow> context_result ''TRANSITION_APPLIED_REFILL_PENDING'' c (the_str timestamp)
                  (Some k) (Some (rl_revision l)) True False True True
                  ''TRANSITION_APPLIED_REFILL_PENDING''
              | Some r \<Rightarrow>
                if ri_transition_id (rq_identity r) = cx_transition_id c
                   \<and> ri_signal_id (rq_identity r) = cx_signal_id c
                   \<and> ri_mode (rq_identity r) = cx_mode c
                   \<and> ri_terminal_state (rq_identity r) = cx_terminal_state c
                then context_result ''REFILL_ALREADY_RECONCILED'' c (the_str timestamp) (Some k)
                  (Some (rl_revision l)) True True False True ''REFILL_ALREADY_RECONCILED''
                else context_result ''FAIL_CLOSED'' c (the_str timestamp) (Some k)
                  (Some (rl_revision l)) True False True True ''FAIL_CLOSED''))))"

end
