(* ===== verification/Terminal_Refill_Props.thy ===== *)
theory Terminal_Refill_Props
  imports Terminal_Refill Active_Ledger_Props Refill_Ledger_Props
begin

text \<open>
  The properties of the coordinator and of the terminal-refill integration, which rest on the
  laws of the two ledgers they call.
\<close>

section \<open>The coordinator\<close>

lemma plain_decision_simps [simp]:
  "dc_decision (plain_decision d t r) = d" "dc_scan_units (plain_decision d t r) = 0"
  "dc_request_id (plain_decision d t r) = None" "dc_reason (plain_decision d t r) = Some r"
  "dc_refill_revision (plain_decision d t r) = None" "dc_timestamp (plain_decision d t r) = t"
  by (simp_all add: plain_decision_def)

lemma request_decision_simps [simp]:
  "dc_decision (request_decision d r t a b e n reason) = d"
  "dc_scan_units (request_decision d r t a b e n reason) = n"
  "dc_request_id (request_decision d r t a b e n reason) = Some (rq_id r)"
  "dc_reason (request_decision d r t a b e n reason) = Some reason"
  "dc_request_status (request_decision d r t a b e n reason) = Some (rq_status r)"
  "dc_claim_token (request_decision d r t a b e n reason) = rq_claim_token r"
  "dc_refill_revision (request_decision d r t a b e n reason) = Some b"
  by (simp_all add: request_decision_def)

lemma error_decision_simps [simp]:
  "dc_decision python_error_decision = ''FAIL_CLOSED''"
  "dc_scan_units python_error_decision = 0" "dc_scan_units (refill_error_decision t e) = 0"
  "dc_decision (refill_error_decision t e) =
     (if e = REVISION_CONFLICT then ''REVISION_CONFLICT'' else ''FAIL_CLOSED'')"
  by (auto simp: python_error_decision_def refill_error_decision_def Let_def refill_reason_def
      split: rerror.splits)

lemma active_document_iff:
  "active_document al er ts = Inr (Inr l) \<longleftrightarrow> validate_ledger al = Inr l \<and> er = PInt (al_revision l)"
  by (auto simp: active_document_def split: sum.splits if_splits)

lemma active_document_decision:
  "active_document al er ts = Inr (Inl d) \<Longrightarrow>
    dc_decision d \<in> {''FAIL_CLOSED'', ''REVISION_CONFLICT''} \<and> dc_scan_units d = 0"
  by (auto simp: active_document_def split: sum.splits if_splits)

lemma dispatch_decision_iff:
  "dispatch_decision r snap a b ts = Inr d \<and> dc_decision d = ''ELIGIBLE_ONE_SCAN_UNIT'' \<longleftrightarrow>
    d = request_decision ''ELIGIBLE_ONE_SCAN_UNIT'' r ts (PInt a) b (Some ''ELIGIBLE_ONE_SCAN_UNIT'') 1
      ''FRESH_CAPACITY_RECHECK_REQUIRED_BEFORE_FUTURE_WORK''
    \<and> rq_status r = PENDING \<and> (\<exists>n. remaining_capacity snap (ri_mode (rq_identity r)) = Inr n \<and> n \<noteq> 0)"
  by (cases "rq_status r")
    (auto simp: dispatch_decision_def request_eligibility_def Let_def split: sum.splits if_splits)

lemma evaluate_body_eligible:
  "evaluate_body digest al er rl rid snap sr ts = Inr d \<and> dc_decision d = ''ELIGIBLE_ONE_SCAN_UNIT'' \<longleftrightarrow>
    (\<exists>l m k r. validate_ledger al = Inr l \<and> er = PInt (al_revision l) \<and> py_eq sr er
      \<and> validate_refill_ledger digest rl = Inr m \<and> rid = PStr k \<and> map_of (rl_requests m) k = Some r
      \<and> dispatch_decision r snap (al_revision l) (rl_revision m) ts = Inr d
      \<and> dc_decision d = ''ELIGIBLE_ONE_SCAN_UNIT'')"
proof -
  have get: "get_request m rid = Inr (Some r) \<longleftrightarrow> (\<exists>k. rid = PStr k \<and> map_of (rl_requests m) k = Some r)"
    for m r
    by (cases rid) (auto simp: get_request_def unhashable_def is_dict_def is_list_def)
  show ?thesis
  proof
    assume "evaluate_body digest al er rl rid snap sr ts = Inr d \<and> dc_decision d = ''ELIGIBLE_ONE_SCAN_UNIT''"
    then show "\<exists>l m k r. validate_ledger al = Inr l \<and> er = PInt (al_revision l) \<and> py_eq sr er
      \<and> validate_refill_ledger digest rl = Inr m \<and> rid = PStr k \<and> map_of (rl_requests m) k = Some r
      \<and> dispatch_decision r snap (al_revision l) (rl_revision m) ts = Inr d
      \<and> dc_decision d = ''ELIGIBLE_ONE_SCAN_UNIT''"
      unfolding evaluate_body_def
      by (auto simp: active_document_iff get split: sum.splits if_splits option.splits
          dest: active_document_decision)
  next
    assume "\<exists>l m k r. validate_ledger al = Inr l \<and> er = PInt (al_revision l) \<and> py_eq sr er
      \<and> validate_refill_ledger digest rl = Inr m \<and> rid = PStr k \<and> map_of (rl_requests m) k = Some r
      \<and> dispatch_decision r snap (al_revision l) (rl_revision m) ts = Inr d
      \<and> dc_decision d = ''ELIGIBLE_ONE_SCAN_UNIT''"
    then obtain l m k r where "active_document al er ts = Inr (Inr l)" "py_eq sr er"
      "validate_refill_ledger digest rl = Inr m" "get_request m rid = Inr (Some r)"
      "dispatch_decision r snap (al_revision l) (rl_revision m) ts = Inr d"
      "dc_decision d = ''ELIGIBLE_ONE_SCAN_UNIT''"
      unfolding active_document_iff get by blast
    then show "evaluate_body digest al er rl rid snap sr ts = Inr d
        \<and> dc_decision d = ''ELIGIBLE_ONE_SCAN_UNIT''"
      by (simp add: evaluate_body_def)
  qed
qed

text \<open>C37. A dispatch is allowed exactly when both ledgers validate, the caller and the capacity
  snapshot know the current revision of the active ledger, the request is pending, and the
  snapshot leaves room in its style.\<close>

theorem dispatch_eligible_iff:
  "dc_decision (evaluate_refill_dispatch digest al er rl rid snap sr ts) = ''ELIGIBLE_ONE_SCAN_UNIT''
    \<longleftrightarrow> is_utc ts \<and> (\<exists>l m k r n. validate_ledger al = Inr l \<and> er = PInt (al_revision l) \<and> py_eq sr er
      \<and> validate_refill_ledger digest rl = Inr m \<and> rid = PStr k \<and> map_of (rl_requests m) k = Some r
      \<and> rq_status r = PENDING \<and> remaining_capacity snap (ri_mode (rq_identity r)) = Inr n \<and> n \<noteq> 0)"
proof -
  let ?b = "evaluate_body digest al er rl rid snap sr (the_str ts)"
  have "dc_decision (evaluate_refill_dispatch digest al er rl rid snap sr ts) = ''ELIGIBLE_ONE_SCAN_UNIT''
      \<longleftrightarrow> is_utc ts \<and> (\<exists>d. ?b = Inr d \<and> dc_decision d = ''ELIGIBLE_ONE_SCAN_UNIT'')"
    by (auto simp: evaluate_refill_dispatch_def split: sum.splits raised.splits)
  then show ?thesis
    unfolding evaluate_body_eligible dispatch_decision_iff by blast
qed

lemma claim_run:
  assumes "hex_digest digest" "reachable_refill digest f" "read_or_empty digest None f = Inr l"
    and "claim_refill_request digest io f (PStr k) token ts er = (res, g)"
    and "map_of (rl_requests l) k = Some r" "rq_status r = PENDING"
  obtains (failed) e where "res = Inl e" "g = f"
  | (claimed) m n r' where "res = Inr m" "read_or_empty digest None g = Inr n" "same_refill m n"
      "map_of (rl_requests m) k = Some r'" "map_of (rl_requests n) k = Some r'"
      "rq_status r' = CLAIMED" "rq_claim_token r' = opt_str token" "rq_identity r' = rq_identity r"
      "rl_revision n = rl_revision l + 1" "er = PInt (rl_revision l)" "is_ident token"
proof (cases "is_ident (PStr k) \<and> is_ident token \<and> is_utc ts")
  case False
  then show thesis
    using assms(4) failed by (auto simp: claim_refill_request_def split: if_splits)
next
  case True
  let ?h = "claim_handler k (the_str token) (the_str ts) er"
  have run: "run_refill digest io None f ?h = (res, g)"
    using assms(4) True by (simp add: claim_refill_request_def)
  have call: "refill_handler digest (Claim_Request (PStr k) token ts er) = Some (None, ?h)"
    using True by simp
  note sound = refill_handler_sound [OF assms(1) call]
  show thesis
  proof (cases rule: rl_guard.run_outcome [OF refill_file_read [OF reachable_refill_ok [OF assms(1,2)]
        sound(2)] sound(1) run [unfolded run_refill_def], case_names failed kept changed])
    case (failed e)
    then show thesis by (rule that(1))
  next
    case (kept l')
    with assms(3,5,6) show thesis
      by (auto simp: claim_handler_def split: if_splits)
  next
    case (changed l' m t n)
    have l: "l' = l"
      using changed(1) assms(3) by simp
    note look = same_refill_lookup [OF changed(12,9,11)]
    have m: "er = PInt (rl_revision l)" "map_of (rl_requests m) k = Some (r\<lparr>rq_status := CLAIMED,
        rq_claim_token := Some (the_str token), rq_claimed_at := Some (the_str ts),
        rq_updated_at := the_str ts, rq_attempt_count := rq_attempt_count r + 1\<rparr>)"
      using changed(3) assms(5) unfolding claim_handler_mutates l
      by (auto simp: expected_matches_def)
    have "opt_str token = Some (the_str token)"
      using True by (cases token) (simp_all add: is_ident_def)
    with m changed look True l show thesis
      by (intro that(2) [of "refill_bump m t" n "r\<lparr>rq_status := CLAIMED, rq_claim_token := Some (the_str token),
        rq_claimed_at := Some (the_str ts), rq_updated_at := the_str ts,
        rq_attempt_count := rq_attempt_count r + 1\<rparr>"]) simp_all
  qed
qed

text \<open>Claiming through the coordinator: only the decision ELIGIBLE changes the refill file, and
  then the pending request it names is claimed under the token of the caller, one revision
  later, with capacity left in its style.\<close>

theorem claim_eligible_outcome:
  assumes "hex_digest digest" "reachable_refill digest f"
    "claim_eligible_refill digest io f al ear rid err snap sr token ts = (d, g)"
  shows "if dc_decision d = ''ELIGIBLE_ONE_SCAN_UNIT''
    then \<exists>k l r n r' c. rid = PStr k \<and> read_or_empty digest None f = Inr l
      \<and> map_of (rl_requests l) k = Some r \<and> rq_status r = PENDING
      \<and> remaining_capacity snap (ri_mode (rq_identity r)) = Inr c \<and> c \<noteq> 0
      \<and> read_or_empty digest None g = Inr n \<and> rl_revision n = rl_revision l + 1
      \<and> err = PInt (rl_revision l) \<and> map_of (rl_requests n) k = Some r' \<and> rq_status r' = CLAIMED
      \<and> PStr (the_str token) = token \<and> rq_claim_token r' = Some (the_str token) \<and> dc_scan_units d = 1
    else g = f"
proof (cases "is_utc ts \<and> (\<exists>l. load_refill_ledger digest f PNone = Inr l)")
  case False
  then show ?thesis
    using assms(3) by (auto simp: claim_eligible_refill_def split: if_splits sum.splits)
next
  case True
  then obtain l where l: "read_or_empty digest None f = Inr l" and ts: "is_utc ts"
    by (auto simp: load_refill_ledger_def)
  have load: "load_refill_ledger digest f PNone = Inr l"
    using l by (simp add: load_refill_ledger_def)
  let ?e = "evaluate_refill_dispatch digest al ear (refill_doc l) rid snap sr ts"
  show ?thesis
  proof (cases "dc_decision ?e = ''ELIGIBLE_ONE_SCAN_UNIT''")
    case False
    then show ?thesis
      using assms(3) ts load
      by (auto simp: claim_eligible_refill_def opt_ex_def Let_def split: if_splits sum.splits option.splits)
  next
    case True
    have "validate_refill_ledger digest (refill_doc l) = Inr l"
      using validate_refill_doc reachable_refill_read [OF assms(1,2) l] by simp
    with True obtain k r c where r: "rid = PStr k" "map_of (rl_requests l) k = Some r"
      "rq_status r = PENDING" "remaining_capacity snap (ri_mode (rq_identity r)) = Inr c" "c \<noteq> 0"
      unfolding dispatch_eligible_iff by auto
    have get: "get_request l rid = Inr (Some r)"
      using r by (simp add: get_request_def unhashable_def)
    obtain res g' where run: "claim_refill_request digest io f (PStr k) token ts err = (res, g')"
      by (cases "claim_refill_request digest io f (PStr k) token ts err") auto
    have step: "claim_eligible_refill digest io f al ear rid err snap sr token ts =
       (case (res, g') of
          (Inl e, f') \<Rightarrow> (refill_error_decision (the_str ts) e, f')
        | (Inr claimed, f') \<Rightarrow>
          (case map_of (rl_requests claimed) k of
             None \<Rightarrow> (python_error_decision, f')
           | Some r \<Rightarrow> (request_decision ''ELIGIBLE_ONE_SCAN_UNIT'' r (the_str ts) ear
               (rl_revision claimed) (Some ''ELIGIBLE_ONE_SCAN_UNIT'') 1
               ''FRESH_CAPACITY_RECHECK_REQUIRED_BEFORE_FUTURE_WORK'', f')))"
      using ts load get True run r(1,3)
      by (cases res) (simp_all add: claim_eligible_refill_def Let_def)
    show ?thesis
    proof (cases rule: claim_run [OF assms(1,2) l run r(2,3), case_names failed claimed])
      case (failed e)
      then show ?thesis
        using assms(3) step by (auto split: if_splits)
    next
      case (claimed m n r')
      have "PStr (the_str token) = token" "opt_str token = Some (the_str token)"
        using claimed(11) by (cases token; simp add: is_ident_def)+
      with claimed r l show ?thesis
        using assms(3) step by auto
    qed
  qed
qed

section \<open>Reconciling a terminal transition\<close>

text \<open>The ledger holds the request of identity \<open>i\<close>, recorded under its transition.\<close>

definition holds_request :: "(pv \<Rightarrow> string) \<Rightarrow> refill_ledger \<Rightarrow> identity \<Rightarrow> bool" where
  "holds_request digest l i =
    (\<exists>s r. map_of (rl_sources l) (ri_transition_id i) = Some s \<and> so_identity s = i
       \<and> so_request_id s = derive_refill_request_id digest i
       \<and> map_of (rl_requests l) (so_request_id s) = Some r \<and> rq_id r = so_request_id s)"

lemma holds_request_cong:
  "map_of (rl_requests m) = map_of (rl_requests l) \<Longrightarrow> map_of (rl_sources m) = map_of (rl_sources l) \<Longrightarrow>
    holds_request digest m i = holds_request digest l i"
  by (simp add: holds_request_def)

lemma kept_holds_request:
  assumes "refill_reach digest l" "reconcile_transition_handler digest i rv t er l = Inr (Keep m)"
  shows "holds_request digest l i" "map_of (rl_sources l) (ri_transition_id i) \<noteq> None"
proof -
  obtain s where s: "map_of (rl_sources l) (ri_transition_id i) = Some s" "so_identity s = i"
    "so_request_id s = derive_refill_request_id digest i"
    using assms(2) by (auto simp: reconcile_transition_handler_def Let_def split: option.splits if_splits)
  have "source_ok digest (fst ` set (rl_requests l)) (ri_transition_id i) s"
    using assms(1) map_of_SomeD [OF s(1)] by (fastforce simp: refill_reach_def refill_ok_def)
  then have "so_request_id s \<in> fst ` set (rl_requests l)"
    unfolding source_ok_def by blast
  then obtain r where r: "map_of (rl_requests l) (so_request_id s) = Some r"
    by (metis map_of_eq_None_iff not_None_eq)
  then have "rq_id r = so_request_id s"
    using refill_reach_request(1) [OF assms(1) r] by (simp add: request_ok_def)
  with s r show "holds_request digest l i" "map_of (rl_sources l) (ri_transition_id i) \<noteq> None"
    by (auto simp: holds_request_def)
qed

lemma reconcile_transition_run:
  assumes "hex_digest digest" "reachable_refill digest f"
    "reconcile_terminal_transition digest io f tid sid md st rv t er = (res, g)"
  obtains (failed) e where "res = Inl e" "g = f"
  | (recorded) i m n where "request_identity tid sid md st = Inr i" "res = Inr m"
      "holds_request digest m i" "read_or_empty digest None g = Inr n" "holds_request digest n i"
      "g = f \<or> (\<exists>l. read_or_empty digest (Some t) f = Inr l
         \<and> map_of (rl_sources l) (ri_transition_id i) = None)"
proof (cases "is_utc t \<and> (\<exists>i. request_identity tid sid md st = Inr i)")
  case False
  then show thesis
    using assms(3) failed
    by (auto simp: reconcile_terminal_transition_def split: sum.splits if_splits)
next
  case True
  then obtain i where i: "request_identity tid sid md st = Inr i" "is_utc t"
    by blast
  let ?h = "reconcile_transition_handler digest i rv (the_str t) er"
  have run: "run_refill digest io (Some t) f ?h = (res, g)"
    using assms(3) i by (simp add: reconcile_terminal_transition_def)
  have call: "refill_handler digest (Reconcile_Transition tid sid md st rv t er) = Some (Some t, ?h)"
    using i by simp
  note sound = refill_handler_sound [OF assms(1) call]
  show thesis
  proof (cases rule: rl_guard.run_outcome [OF refill_file_read [OF reachable_refill_ok [OF assms(1,2)]
        sound(2)] sound(1) run [unfolded run_refill_def], case_names failed kept changed])
    case (failed e)
    then show thesis by (rule that(1))
  next
    case (kept l)
    note held = kept_holds_request [OF kept(2,3)]
    then have "f \<noteq> Absent"
      using empty_file_sources [of digest _ l] kept(1) by auto
    then have "read_or_empty digest None g = Inr l"
      using kept(1,5) by (auto simp: read_or_empty_def split: disk_file.splits)
    with i kept held show thesis
      by (intro that(2) [of i l l]) simp_all
  next
    case (changed l m u n)
    have m: "map_of (rl_sources l) (ri_transition_id i) = None" "holds_request digest m i"
      using changed(3) unfolding reconcile_transition_mutates
      by (auto simp: holds_request_def pending_request_def)
    note look = same_refill_lookup [OF changed(12,9,11)]
    have "holds_request digest n i" "holds_request digest (refill_bump m u) i"
      using m(2) holds_request_cong [of "refill_bump m u" m] holds_request_cong [OF look(1,2)]
      by (simp_all add: refill_bump_def)
    moreover have "read_or_empty digest None g = Inr n"
      using changed(4,5,7,10) persist_refill_ok [of digest m u io f]
      by (auto simp: read_or_empty_def split: if_splits)
    ultimately show thesis
      using i m changed(1,8)
      by (intro that(2) [of i "refill_bump m u" n]) auto
  qed
qed

lemma lifecycle_str_inject: "lifecycle_str a = lifecycle_str b \<longleftrightarrow> a = b"
  by (cases a; cases b) simp_all

lemma request_identity_context:
  assumes "request_identity (PStr t) (PStr s) (PStr (style_str md)) (PStr (lifecycle_str st)) = Inr i"
  shows "i = \<lparr>ri_transition_id = t, ri_signal_id = s, ri_mode = md, ri_terminal_state = st\<rparr>"
  using assms by (auto simp: request_identity_def lifecycle_str_inject split: if_splits option.splits)

definition context_identity :: "terminal_info \<Rightarrow> identity" where
  "context_identity c = \<lparr>ri_transition_id = cx_transition_id c, ri_signal_id = cx_signal_id c,
     ri_mode = cx_mode c, ri_terminal_state = cx_terminal_state c\<rparr>"

lemma transition_context_iff:
  "transition_context l k t = Some c \<longleftrightarrow>
    (\<exists>r. map_of (al_signals l) (tr_signal_id t) = Some r \<and> tr_operation t = TERMINAL
      \<and> tr_signal_id t = sg_signal_id r \<and> tr_to_state t \<in> set terminal_states
      \<and> sg_state r = tr_to_state t \<and> utc_string (tr_occurred_at t)
      \<and> c = \<lparr>cx_transition_id = k, cx_signal_id = sg_signal_id r, cx_mode = sg_mode r,
           cx_terminal_state = tr_to_state t, cx_source_revision = tr_ledger_revision t,
           cx_active_revision = al_revision l\<rparr>)"
  by (auto simp: transition_context_def split: option.splits)

lemma terminal_context_decision:
  "terminal_context al tid er ts = Inr (Inl d) \<Longrightarrow> dc_decision d \<notin>
     {''REQUEST_RECONCILED'', ''REQUEST_ALREADY_RECONCILED''}"
  by (auto simp: terminal_context_def dest: active_document_decision split: sum.splits pv.splits
      if_splits option.splits)

definition reconciled :: "decision \<Rightarrow> bool" where
  "reconciled d = (dc_decision d \<in> {''REQUEST_RECONCILED'', ''REQUEST_ALREADY_RECONCILED''})"

lemma reconcile_terminal_outcome:
  assumes "hex_digest digest" "reachable_refill digest f"
    "reconcile_terminal_refill digest io f al tid er err ts = (d, g)"
  obtains (failed) "\<not> reconciled d" "g = f"
  | (recorded) c n where "reconciled d" "terminal_context al tid er (the_str ts) = Inr (Inr c)"
      "read_or_empty digest None g = Inr n" "holds_request digest n (context_identity c)"
      "dc_request_id d = Some (derive_refill_request_id digest (context_identity c))"
      "g = f \<or> dc_decision d = ''REQUEST_RECONCILED''"
proof (cases "is_utc ts \<and> (\<exists>c. terminal_context al tid er (the_str ts) = Inr (Inr c))")
  case False
  then show thesis
    using assms(3) failed terminal_context_decision
    by (auto simp: reconcile_terminal_refill_def reconciled_def split: if_splits sum.splits)
next
  case True
  then obtain c where c: "terminal_context al tid er (the_str ts) = Inr (Inr c)" and ts: "is_utc ts"
    by blast
  obtain res g' where run: "reconcile_terminal_transition digest io f (PStr (cx_transition_id c))
      (PStr (cx_signal_id c)) (PStr (style_str (cx_mode c))) (PStr (lifecycle_str (cx_terminal_state c)))
      (PInt (cx_source_revision c)) ts err = (res, g')"
    by fastforce
  show thesis
  proof (cases rule: reconcile_transition_run [OF assms(1,2) run, case_names failed recorded])
    case (failed e)
    then show thesis
      using assms(3) c ts run that(1)
      by (auto simp: reconcile_terminal_refill_def reconcile_context_def reconciled_def
          split: if_splits sum.splits)
  next
    case (recorded i m n)
    have i: "i = context_identity c"
      using request_identity_context [OF recorded(1)] by (simp add: context_identity_def)
    obtain r where r: "map_of (rl_requests m) (derive_refill_request_id digest i) = Some r"
      "rq_id r = derive_refill_request_id digest i"
      using recorded(3) by (auto simp: holds_request_def)
    show thesis
      using assms(3) c ts run recorded r i that
      by (auto simp: reconcile_terminal_refill_def reconcile_context_def reconciled_def
          load_refill_ledger_def context_identity_def split: if_splits sum.splits)
  qed
qed

section \<open>The integration\<close>

lemma refill_result_simps [simp]:
  "rs_transition_applied (plain_result x t e) = False" "rs_refill_reconciled (plain_result x t e) = False"
  "rs_partial_success (plain_result x t e) = False"
  "rs_transition_applied (early_result x e v tid sid st) = False"
  "rs_refill_reconciled (early_result x e v tid sid st) = False"
  "rs_partial_success (early_result x e v tid sid st) = False"
  "rs_transition_applied (active_error_result e' b v tid sid st) = False"
  "rs_refill_reconciled (active_error_result e' b v tid sid st) = False"
  "rs_partial_success (active_error_result e' b v tid sid st) = False"
  "rs_transition_applied (context_result x c t' k n a b' p r e) = a"
  "rs_refill_reconciled (context_result x c t' k n a b' p r e) = b'"
  "rs_partial_success (context_result x c t' k n a b' p r e) = p"
  "rs_request_id (context_result x c t' k n a b' p r e) = k"
  by (simp_all add: plain_result_def early_result_def active_error_result_def context_result_def)

lemma reconcile_result_flags:
  assumes "applied \<or> replay"
  shows "rs_transition_applied (reconcile_result digest c d t applied replay repair)"
    "rs_refill_reconciled (reconcile_result digest c d t applied replay repair) = reconciled d"
    "rs_partial_success (reconcile_result digest c d t applied replay repair) = (\<not> reconciled d)"
    "reconciled d \<Longrightarrow> rs_request_id (reconcile_result digest c d t applied replay repair) = dc_request_id d"
  using assms by (auto simp: reconcile_result_def reconciled_def Let_def split: prod.splits)

lemma repair_result_flags:
  "rs_refill_reconciled (reconcile_result digest c d t False False repair) = reconciled d"
  "rs_transition_applied (reconcile_result digest c d t False False repair) = reconciled d"
  by (auto simp: reconcile_result_def reconciled_def Let_def split: prod.splits)

text \<open>The ledger records a terminal transition under the id, and the signal rests in its state.\<close>

definition terminal_recorded :: "ledger \<Rightarrow> terminal_info \<Rightarrow> bool" where
  "terminal_recorded l c =
    (\<exists>t r. map_of (al_transitions l) (cx_transition_id c) = Some t \<and> tr_operation t = TERMINAL
      \<and> map_of (al_signals l) (cx_signal_id c) = Some r \<and> sg_mode r = cx_mode c
      \<and> sg_state r = cx_terminal_state c \<and> cx_terminal_state c \<in> set terminal_states)"

lemma persisted_context_iff:
  assumes "ledger_ok l"
  shows "persisted_context (ledger_doc l) (PStr k) = Inr c \<longleftrightarrow> nonblank k
    \<and> (\<exists>t. map_of (al_transitions l) k = Some t \<and> transition_context l k t = Some c)"
  using validate_ledger_doc [OF assms]
  by (auto simp: persisted_context_def split: option.splits if_splits)

lemma persisted_context_recorded:
  assumes "ledger_ok l" "persisted_context (ledger_doc l) tid = Inr c"
  shows "tid = PStr (cx_transition_id c)" "terminal_recorded l c"
    "terminal_context (ledger_doc l) tid (PInt (cx_active_revision c)) ts = Inr (Inr c)"
proof -
  obtain k where k: "tid = PStr k"
    using assms(2) by (cases tid) (auto simp: persisted_context_def is_ident_def split: sum.splits if_splits)
  with assms obtain t where t: "nonblank k" "map_of (al_transitions l) k = Some t"
    "transition_context l k t = Some c"
    using persisted_context_iff by blast
  from t(3) have c: "cx_transition_id c = k" "cx_active_revision c = al_revision l"
    by (auto simp: transition_context_iff)
  with k show "tid = PStr (cx_transition_id c)"
    by simp
  have "active_document (ledger_doc l) (PInt (cx_active_revision c)) ts = Inr (Inr l)"
    by (simp add: active_document_iff validate_ledger_doc [OF assms(1)] c)
  with k t show "terminal_context (ledger_doc l) tid (PInt (cx_active_revision c)) ts = Inr (Inr c)"
    by (auto simp: terminal_context_def nonblank_def)
  from t show "terminal_recorded l c"
    by (auto simp: transition_context_iff terminal_recorded_def)
qed

lemma terminal_recorded_cong:
  "map_of (al_transitions m) = map_of (al_transitions l) \<Longrightarrow> map_of (al_signals m) = map_of (al_signals l)
    \<Longrightarrow> terminal_recorded m c = terminal_recorded l c"
  by (simp add: terminal_recorded_def)

lemma transition_terminal_run:
  assumes "reachable_file f" "transition_terminal io f er k sid st ta re u rc = (res, g)" "nonblank k"
  obtains (failed) e where "res = Inl e" "g = f"
  | (kept) l where "res = Inr l" "ledger_ok l" "read_ledger f = Inr l" "g = f"
  | (changed) l m c where "res = Inr m" "ledger_ok m" "read_ledger f = Inr l"
      "map_of (al_transitions l) k = None"
      "read_ledger g = Inr (sorted_ledger m)" "persisted_context (ledger_doc m) (PStr k) = Inr c"
proof -
  let ?call = "Transition_Terminal er k sid st ta re u rc"
  have exec: "exec_call io ?call f = (res, g)"
    using assms(2) by simp
  show thesis
  proof (cases rule: exec_call_cases [where c = ?call and io = io and f = f, case_names init rejected handled])
    case (init t)
    then show thesis by simp
  next
    case (rejected e)
    then show thesis
      using exec that(1) [of e] by auto
  next
    case (handled h)
    then obtain st' where st: "st' \<in> set terminal_states"
      "h = terminal_handler er k sid st' (the_str ta) (the_str re) (the_str u) (rc = PBool True)"
      "is_utc ta"
      by (cases rc) (auto split: option.splits if_splits)
    have run: "run_locked io f h = (res, g)"
      using handled(2) exec by simp
    show thesis
    proof (cases rule: run_locked_outcome [OF reachable_file_ok [OF assms(1)] call_handler_ok [OF handled(1)]
          run, case_names failed kept changed])
      case (failed e)
      then show thesis by (rule that(1))
    next
      case (kept l)
      then show thesis
        by (intro that(2)) (simp_all add: reach_ok_def)
    next
      case (changed l m t)
      have ok: "ledger_ok (bump m t)"
        using changed(4,5) reach_ok_bump by (simp add: reach_ok_def)
      obtain r c where r: "map_of (al_signals l) sid = Some r" "map_of (al_transitions l) k = None"
        and c: "transition_payload TERMINAL k sid (sg_state r) st' (the_str ta) (Some (the_str re))
          (al_revision l + 1) = Inr c"
        and m: "m = l\<lparr>al_signals := AList.update sid (r\<lparr>sg_state := st',
                sg_terminal_at := Some (the_str ta), sg_terminal_reason := Some (the_str re),
                sg_last_transition_id := k, sg_updated_at := the_str u\<rparr>) (al_signals l),
             al_transitions := AList.update k c (al_transitions l)\<rparr>"
        using changed(3) unfolding st(2) terminal_handler_mutates by blast
      have "sg_signal_id r = sid"
        using changed(2) signal_okD [OF _ r(1)] by (simp add: reach_ok_def signal_ok_def)
      with r(2) m st(1) c have "map_of (al_transitions l) k = None"
        "transition_context (bump m t) k c \<noteq> None" "map_of (al_transitions (bump m t)) k = Some c"
        by (auto simp: transition_context_def bump_def transition_payload_def split: if_splits)
      then obtain x where "persisted_context (ledger_doc (bump m t)) (PStr k) = Inr x"
        using assms(3) persisted_context_iff [OF ok, of k] by auto
      moreover have "read_ledger g = Inr (sorted_ledger (bump m t))"
        using changed(8) by (simp add: read_ledger_def validate_sorted_doc [OF ok])
      ultimately show thesis
        using changed(1,7) ok r(2) by (intro that(3))
    qed
  qed
qed

text \<open>What one call of the integration leaves in the two files.\<close>

definition terminal_refill_effect ::
  "(pv \<Rightarrow> string) \<Rightarrow> pv \<Rightarrow> refill_result \<Rightarrow> disk_file \<Rightarrow> disk_file \<Rightarrow> disk_file \<Rightarrow> disk_file \<Rightarrow> bool" where
  "terminal_refill_effect digest tid res fa fr ga gr =
    (if rs_transition_applied res
     then \<exists>l c. read_ledger ga = Inr l \<and> tid = PStr (cx_transition_id c) \<and> terminal_recorded l c
       \<and> (if rs_refill_reconciled res
          then \<exists>n. read_or_empty digest None gr = Inr n \<and> holds_request digest n (context_identity c)
            \<and> rs_request_id res = Some (derive_refill_request_id digest (context_identity c))
          else gr = fr)
     else ga = fa \<and> gr = fr \<and> \<not> rs_refill_reconciled res)"

lemma reconcile_step_effect:
  assumes "hex_digest digest" "reachable_refill digest fr" "ledger_ok m"
    "persisted_context (ledger_doc m) tid = Inr c"
    "reconcile_terminal_refill digest io fr (ledger_doc m) (PStr (cx_transition_id c))
      (PInt (cx_active_revision c)) err ts = (d, gr)"
    "map_of (al_transitions l) = map_of (al_transitions m)" "map_of (al_signals l) = map_of (al_signals m)"
    "read_ledger ga = Inr l" "applied \<or> replay"
  shows "terminal_refill_effect digest tid (reconcile_result digest c d t applied replay repair) fa fr ga gr"
proof -
  note p = persisted_context_recorded [OF assms(3,4)]
  have rec: "terminal_recorded l c"
    using p(2) terminal_recorded_cong [OF assms(6,7)] by simp
  show ?thesis
  proof (cases rule: reconcile_terminal_outcome [OF assms(1,2,5), case_names failed recorded])
    case failed
    with rec p(1) show ?thesis
      using assms(8) reconcile_result_flags [OF assms(9)] by (auto simp: terminal_refill_effect_def)
  next
    case (recorded c' n)
    have "c' = c"
      using recorded(2) p(1,3) by (metis old.sum.inject(2))
    with recorded rec p(1) show ?thesis
      using assms(8) reconcile_result_flags [OF assms(9)]
      by (auto simp: terminal_refill_effect_def)
  qed
qed

text \<open>C21. The order of the two writes: whatever fails on the way, the result tells what the two
  files hold.  An applied transition is recorded durably, with its signal at rest in the
  terminal state; a reconciled refill is the request of exactly that transition; otherwise the
  refill file is as it was, and without an applied transition so are both files.  A partial
  success is an applied transition whose refill is not reconciled.\<close>

theorem terminal_refill_order:
  assumes "hex_digest digest" "reachable_file fa" "reachable_refill digest fr"
    "transition_and_reconcile_refill digest io_a io_r fa fr ear err tid sid st ta re ts rc = (res, ga, gr)"
  shows "terminal_refill_effect digest tid res fa fr ga gr
    \<and> (rs_partial_success res \<longleftrightarrow> rs_transition_applied res \<and> \<not> rs_refill_reconciled res)"
proof (cases "transition_arguments_ok ear err tid sid st ta re ts \<and> (\<exists>l. read_ledger fa = Inr l)")
  case False
  then have "ga = fa \<and> gr = fr \<and> \<not> rs_transition_applied res \<and> \<not> rs_refill_reconciled res
      \<and> \<not> rs_partial_success res"
    using assms(4) by (auto simp: transition_and_reconcile_refill_def split: if_splits sum.splits)
  then show ?thesis by (simp add: terminal_refill_effect_def)
next
  case True
  then obtain before where args: "transition_arguments_ok ear err tid sid st ta re ts"
    and before: "read_ledger fa = Inr before"
    by blast
  then have tid: "tid = PStr (the_str tid)" "nonblank (the_str tid)"
    by (cases tid; simp add: transition_arguments_ok_def is_ident_def)+
  obtain tres ga' where run: "transition_terminal io_a fa ear (the_str tid) (the_str sid) st ta re ts rc
      = (tres, ga')"
    by fastforce
  obtain old where old_def: "(map_of (al_transitions before) (the_str tid) \<noteq> None) = old"
    by blast
  then have old_eqs: "(map_of (al_transitions before) (the_str tid) = None) = (\<not> old)"
    "(\<exists>y. map_of (al_transitions before) (the_str tid) = Some y) = old"
    by auto
  have old: "\<not> old \<or> old"
    by blast
  note flags = reconcile_result_flags [OF old]
  have step: "(res, ga, gr) = (case tres of
        Inl e \<Rightarrow> (active_error_result e (Some before) ts tid sid st, ga', fr)
      | Inr m \<Rightarrow> (case persisted_context (ledger_doc m) tid of
          Inl failure \<Rightarrow> ((plain_result ''FAIL_CLOSED'' (opt_str ts) failure)
            \<lparr>rs_transition_id := opt_str tid, rs_active_revision := Some (al_revision m)\<rparr>, ga', fr)
        | Inr c \<Rightarrow> (case reconcile_terminal_refill digest io_r fr (ledger_doc m)
            (PStr (cx_transition_id c)) (PInt (cx_active_revision c)) err ts of
            (d, fr') \<Rightarrow> (reconcile_result digest c d (the_str ts) (\<not> old) old False, ga', fr'))))"
    unfolding assms(4) [symmetric] transition_and_reconcile_refill_def Let_def
    using args before run old_eqs by (cases tres) (simp_all cong: sum.case_cong)
  show ?thesis
  proof (cases rule: transition_terminal_run [OF assms(2) run tid(2), case_names failed kept changed])
    case (failed e)
    then show ?thesis
      using step by (simp add: terminal_refill_effect_def)
  next
    case (kept l)
    show ?thesis
    proof (cases "persisted_context (ledger_doc l) tid")
      case (Inl e)
      then show ?thesis
        using kept step by (simp add: terminal_refill_effect_def)
    next
      case (Inr c)
      obtain d fr' where d: "reconcile_terminal_refill digest io_r fr (ledger_doc l)
            (PStr (cx_transition_id c)) (PInt (cx_active_revision c)) err ts = (d, fr')"
        by fastforce
      with Inr kept step show ?thesis
        using reconcile_step_effect [OF assms(1,3) kept(2) Inr d refl refl, of fa, OF _ old]
        by (simp add: flags)
    qed
  next
    case (changed l m c)
    then have ctx: "persisted_context (ledger_doc m) tid = Inr c"
      using tid(1) by simp
    obtain d fr' where d: "reconcile_terminal_refill digest io_r fr (ledger_doc m)
          (PStr (cx_transition_id c)) (PInt (cx_active_revision c)) err ts = (d, fr')"
      by fastforce
    with changed ctx step show ?thesis
      using reconcile_step_effect [OF assms(1,3) changed(2) ctx d lookup_sorted_ledger(2,1) [OF changed(2)]
          changed(5) old]
      by (simp add: flags)
  qed
qed

text \<open>One terminal call on the file of the concrete run, where the signal \<open>s1\<close> is active.\<close>

lemma terminal_refill_order_witness:
  "case transition_and_reconcile_refill demo_digest good_io good_io (ledger_file demo_active) Absent
      (PInt 2) PNone (PStr ''t3'') (PStr ''s1'') (PStr ''CLOSED_PROFIT'') (PStr demo_time) (PStr ''target'')
      (PStr demo_time) (PBool True) of
    (res, ga, gr) \<Rightarrow> terminal_refill_effect demo_digest (PStr ''t3'') res (ledger_file demo_active) Absent ga gr"
  using terminal_refill_order [OF demo_digest_hex demo_active_run(1) reachable_refill.start]
  by (simp split: prod.splits)

lemma claim_eligible_outcome_witness:
  "case claim_eligible_refill demo_digest good_io (refill_file demo_pending) (ledger_doc demo_closed)
      (PInt 3) (PStr demo_hash) (PInt 1) PNone (PInt 3) (PStr ''worker'') (PStr demo_later) of
    (d, g) \<Rightarrow> dc_decision d = ''ELIGIBLE_ONE_SCAN_UNIT'' \<or> g = refill_file demo_pending"
  using claim_eligible_outcome [OF demo_digest_hex demo_pending_run(1)]
  by (force split: prod.splits if_splits)

section \<open>The next pending request\<close>

lemma oldest_filter:
  assumes "\<exists>r \<in> set xs. w r"
  shows "oldest_request (filter w xs) \<in> set xs \<and> w (oldest_request (filter w xs))
    \<and> (\<forall>q \<in> set xs. w q \<longrightarrow> (rq_created_at (oldest_request (filter w xs)), rq_id (oldest_request (filter w xs)))
         \<le> (rq_created_at q, rq_id q))"
proof -
  let ?key = "\<lambda>r. (rq_created_at r, rq_id r)"
  let ?r = "oldest_request (filter w xs)"
  have "filter w xs \<noteq> []"
    using assms by (simp add: filter_empty_conv)
  then have "?r \<in> set (filter w xs)" "?key ?r = Min (?key ` set (filter w xs))"
    unfolding oldest_request_def by (rule arg_min_list_in, rule f_arg_min_list_f)
  then have "?key ?r \<le> ?key q" if "q \<in> set (filter w xs)" for q
    using that by (metis (no_types, lifting) List.finite_set Min_le finite_imageI image_eqI)
  with \<open>?r \<in> set (filter w xs)\<close> show ?thesis
    by simp
qed

text \<open>The request selected is the oldest pending one of the style asked for, by creation time
  and then by id; none is selected exactly when there is none.\<close>

theorem select_next_oldest:
  assumes "validate_refill_ledger digest rl = Inr l" "is_utc ts"
    "mode = PNone \<or> style_of mode \<noteq> None"
  shows "let d = select_next_pending_refill digest rl mode ts;
      wanted = (\<lambda>r. rq_status r = PENDING \<and> (mode = PNone \<or> style_of mode = Some (ri_mode (rq_identity r))))
    in if \<exists>r \<in> snd ` set (rl_requests l). wanted r
       then \<exists>r \<in> snd ` set (rl_requests l). wanted r \<and> dc_request_id d = Some (rq_id r)
         \<and> (\<forall>q \<in> snd ` set (rl_requests l). wanted q \<longrightarrow>
              (rq_created_at r, rq_id r) \<le> (rq_created_at q, rq_id q))
       else dc_request_id d = None"
proof -
  let ?w = "\<lambda>r. rq_status r = PENDING \<and> (mode = PNone \<or> style_of mode = Some (ri_mode (rq_identity r)))"
  let ?xs = "map snd (rl_requests l)"
  let ?d = "select_next_pending_refill digest rl mode ts"
  show ?thesis
  proof (cases "\<exists>r \<in> set ?xs. ?w r")
    case False
    then have "filter ?w ?xs = []"
      unfolding filter_empty_conv by blast
    then have "dc_request_id ?d = None"
      using assms by (auto simp: select_next_pending_refill_def Let_def)
    with False show ?thesis
      unfolding Let_def set_map by (metis (no_types, lifting))
  next
    case True
    then have "filter ?w ?xs \<noteq> []"
      unfolding filter_empty_conv by blast
    then have "dc_request_id ?d = Some (rq_id (oldest_request (filter ?w ?xs)))"
      using assms by (auto simp: select_next_pending_refill_def Let_def)
    with oldest_filter [OF True] True show ?thesis
      unfolding Let_def set_map by (metis (no_types, lifting))
  qed
qed

lemma select_next_oldest_witness:
  "\<exists>r \<in> snd ` set (rl_requests demo_pending). rq_status r = PENDING
     \<and> dc_request_id (select_next_pending_refill demo_digest (refill_doc demo_pending) PNone (PStr demo_time))
       = Some (rq_id r)"
proof -
  have valid: "validate_refill_ledger demo_digest (refill_doc demo_pending) = Inr demo_pending"
    using validate_refill_doc demo_pending_run(2) by simp
  have "is_utc (PStr demo_time)" "demo_request \<in> snd ` set (rl_requests demo_pending)"
    "rq_status demo_request = PENDING"
    by (simp_all add: is_utc_def demo_pending_def demo_request_def pending_request_def)
  then show ?thesis
    using select_next_oldest [OF valid, of "PStr demo_time" PNone] unfolding Let_def
    by (metis (no_types, lifting))
qed

end
