(* ===== verification/Publication_Registration.thy ===== *)
theory Publication_Registration
  imports Active_Ledger_Spec
begin

text \<open>
  The registration of completed publications,
  \<open>src/engine/passive_published_signal_registration_v1.py\<close>: evidence of a delivered publication
  is checked, a transaction identity is derived from it, and the publication is reserved in the
  active-signal ledger.  SHA-256 of the canonical JSON is the parameter \<open>digest\<close>.  An exception
  that a handler of the module catches is a value here; none leaves it.
\<close>

section \<open>Results\<close>

record registration_result =
  rg_result :: string
  rg_signal_id :: "string option"
  rg_transaction_id :: "string option"
  rg_transition_id :: "string option"
  rg_delivery_id :: "string option"
  rg_mode :: "style option"
  rg_symbol :: "string option"
  rg_published_at :: "string option"
  rg_identity_hash :: "string option"
  rg_signal_payload_hash :: "string option"
  rg_source_payload_hash :: "string option"
  rg_publication_payload_hash :: "string option"
  rg_active_revision :: "int option"
  rg_current_state :: "string option"
  rg_publication_confirmed :: bool
  rg_registration_applied :: bool
  rg_partial_success :: bool
  rg_replay :: bool
  rg_reason :: "string option"
  rg_timestamp :: "string option"

text \<open>\<open>_result\<close> with the defaults of its keyword arguments.\<close>

definition plain_registration :: "string \<Rightarrow> string option \<Rightarrow> string \<Rightarrow> registration_result" where
  "plain_registration result timestamp reason = \<lparr>
     rg_result = result, rg_signal_id = None, rg_transaction_id = None, rg_transition_id = None,
     rg_delivery_id = None, rg_mode = None, rg_symbol = None, rg_published_at = None,
     rg_identity_hash = None, rg_signal_payload_hash = None, rg_source_payload_hash = None,
     rg_publication_payload_hash = None, rg_active_revision = None, rg_current_state = None,
     rg_publication_confirmed = False, rg_registration_applied = False,
     rg_partial_success = False, rg_replay = False, rg_reason = Some reason,
     rg_timestamp = timestamp\<rparr>"

section \<open>Evidence\<close>

text \<open>The dictionary \<open>_validated_context\<close> returns.\<close>

record publication =
  pb_signal_id :: string
  pb_delivery_id :: string
  pb_mode :: style
  pb_symbol :: string
  pb_published_at :: string
  pb_source_payload_hash :: string
  pb_publication_payload_hash :: string
  pb_identity_hash :: "string option"

definition validated_context :: "pv \<Rightarrow> publication option" where
  "validated_context evidence =
    (if \<not> is_dict evidence then None
     else if fld evidence ''delivery_state'' \<noteq> PStr ''DELIVERY_SUCCEEDED'' then None
     else if \<not> is_ident (fld evidence ''signal_id'') then None
     else if \<not> is_ident (fld evidence ''delivery_id'') then None
     else case style_of (fld evidence ''mode'') of
       None \<Rightarrow> None
     | Some mode \<Rightarrow>
       (let payload = fld evidence ''publication_payload''
        in if \<not> is_dict payload then None
        else if \<not> is_ident (fld payload ''symbol'') then None
        else if has_key payload ''signal_id'' \<and> fld payload ''signal_id'' \<noteq> fld evidence ''signal_id''
        then None
        else if has_key payload ''mode'' \<and> fld payload ''mode'' \<noteq> fld evidence ''mode'' then None
        else if \<not> is_utc (fld evidence ''published_at'') then None
        else if \<not> is_sha256 (fld evidence ''source_payload_hash'') then None
        else if \<not> is_sha256 (fld evidence ''publication_payload_hash'') then None
        else if fld evidence ''content_hash'' \<noteq> PNone \<and> \<not> is_sha256 (fld evidence ''content_hash'')
        then None
        else Some \<lparr>
          pb_signal_id = the_str (fld evidence ''signal_id''),
          pb_delivery_id = the_str (fld evidence ''delivery_id''),
          pb_mode = mode,
          pb_symbol = the_str (fld payload ''symbol''),
          pb_published_at = the_str (fld evidence ''published_at''),
          pb_source_payload_hash = the_str (fld evidence ''source_payload_hash''),
          pb_publication_payload_hash = the_str (fld evidence ''publication_payload_hash''),
          pb_identity_hash = opt_str (fld evidence ''content_hash'')\<rparr>))"

text \<open>\<open>_canonical_transaction_payload\<close> and \<open>_transaction_id\<close>\<close>

definition canonical_transaction_payload :: "publication \<Rightarrow> pv" where
  "canonical_transaction_payload c = PDict [
     (''schema_version'', PInt 1),
     (''domain'', PStr ''passive-published-signal-registration-v1''),
     (''signal_id'', PStr (pb_signal_id c)),
     (''delivery_id'', PStr (pb_delivery_id c)),
     (''mode'', PStr (style_str (pb_mode c))),
     (''symbol'', PStr (pb_symbol c)),
     (''published_at'', PStr (pb_published_at c)),
     (''source_payload_hash'', PStr (pb_source_payload_hash c)),
     (''publication_payload_hash'', PStr (pb_publication_payload_hash c))]"

definition registration_transaction_id :: "(pv \<Rightarrow> string) \<Rightarrow> publication \<Rightarrow> string" where
  "registration_transaction_id digest c = digest (sort_doc (canonical_transaction_payload c))"

text \<open>\<open>_common\<close>: the fields every result about checked evidence carries.\<close>

definition common_fields ::
  "publication \<Rightarrow> string \<Rightarrow> string \<Rightarrow> registration_result \<Rightarrow> registration_result" where
  "common_fields c transaction_id transition_id r = r\<lparr>
     rg_signal_id := Some (pb_signal_id c),
     rg_transaction_id := Some transaction_id,
     rg_transition_id := Some transition_id,
     rg_delivery_id := Some (pb_delivery_id c),
     rg_mode := Some (pb_mode c),
     rg_symbol := Some (pb_symbol c),
     rg_published_at := Some (pb_published_at c),
     rg_identity_hash := pb_identity_hash c,
     rg_signal_payload_hash := Some (pb_source_payload_hash c),
     rg_source_payload_hash := Some (pb_source_payload_hash c),
     rg_publication_payload_hash := Some (pb_publication_payload_hash c),
     rg_publication_confirmed := True\<rparr>"

text \<open>\<open>_pending\<close>\<close>

definition pending_result :: "publication \<Rightarrow> string \<Rightarrow> string \<Rightarrow> string \<Rightarrow> string \<Rightarrow> registration_result" where
  "pending_result c transaction_id transition_id timestamp reason =
    (common_fields c transaction_id transition_id
       (plain_registration ''PUBLICATION_SUCCEEDED_REGISTRATION_PENDING'' (Some timestamp) reason))
      \<lparr>rg_partial_success := True\<rparr>"

text \<open>\<open>_active_error\<close>: result, reason, and whether the registration is still to be done.\<close>

definition active_error :: "aerror \<Rightarrow> string \<times> string \<times> bool" where
  "active_error e =
    (if e = EXPECTED_REVISION_MISMATCH
     then (''ACTIVE_REVISION_CONFLICT'', ''ACTIVE_REVISION_CONFLICT'', False)
     else if e \<in> {IDENTITY_IMMUTABLE, STYLE_IMMUTABLE, SIGNAL_ALREADY_EXISTS, PUBLICATION_ID_COLLISION}
     then (''SIGNAL_IDENTITY_CONFLICT'', ''SIGNAL_IDENTITY_CONFLICT'', False)
     else if e \<in> {SIGNAL_ID_COLLISION, PUBLICATION_OCCUPANCY_RECONCILIATION_REQUIRED}
     then (''TRANSACTION_IDENTITY_CONFLICT'', ''TRANSACTION_IDENTITY_CONFLICT'', False)
     else if e = TRANSITION_ID_COLLISION
     then (''RESERVATION_IDENTITY_CONFLICT'', ''RESERVATION_IDENTITY_CONFLICT'', False)
     else if e = LOCK_ACQUISITION_FAILED
     then (''PUBLICATION_SUCCEEDED_REGISTRATION_PENDING'', ''ACTIVE_LOCK_UNAVAILABLE'', True)
     else if e = ATOMIC_WRITE_FAILED
     then (''PUBLICATION_SUCCEEDED_REGISTRATION_PENDING'', ''ACTIVE_PERSISTENCE_FAILURE'', True)
     else (''PUBLICATION_SUCCEEDED_REGISTRATION_PENDING'', ''ACTIVE_LEDGER_INVALID'', True))"

section \<open>Comparing evidence and ledger\<close>

definition signal_matches :: "publication \<Rightarrow> signal \<Rightarrow> bool" where
  "signal_matches c r \<longleftrightarrow> sg_delivery_id r = pb_delivery_id c \<and> sg_mode r = pb_mode c
     \<and> sg_symbol r = pb_symbol c \<and> sg_published_at r = pb_published_at c
     \<and> sg_source_payload_hash r = pb_source_payload_hash c
     \<and> sg_publication_payload_hash r = pb_publication_payload_hash c"

definition transaction_matches :: "publication \<Rightarrow> transaction \<Rightarrow> bool" where
  "transaction_matches c t \<longleftrightarrow> tx_signal_id t = pb_signal_id c \<and> tx_delivery_id t = pb_delivery_id c
     \<and> tx_mode t = pb_mode c \<and> tx_symbol t = pb_symbol c \<and> tx_published_at t = pb_published_at c
     \<and> tx_source_payload_hash t = pb_source_payload_hash c
     \<and> tx_publication_payload_hash t = pb_publication_payload_hash c"

text \<open>\<open>_matches_persisted\<close>\<close>

definition matches_persisted :: "pv \<Rightarrow> publication \<Rightarrow> string \<Rightarrow> string \<Rightarrow> bool" where
  "matches_persisted document c transaction_id transition_id =
    (case validate_ledger document of
       Inl e \<Rightarrow> False
     | Inr l \<Rightarrow>
       (case (map_of (al_signals l) (pb_signal_id c), map_of (al_transactions l) transaction_id,
            map_of (al_transitions l) transition_id) of
          (Some r, Some t, Some s) \<Rightarrow>
            sg_signal_id r = pb_signal_id c \<and> signal_matches c r \<and> transaction_matches c t
            \<and> tx_transaction_id t = transaction_id
            \<and> tx_reservation_transition_id t = transition_id
            \<and> tx_state t = OCCUPANCY_COMMITTED
            \<and> sg_state r = PUBLISHED_PENDING_ENTRY
            \<and> sg_last_transition_id r = transition_id
            \<and> tr_operation s = RESERVE
            \<and> tr_signal_id s = pb_signal_id c
            \<and> tr_to_state s = PUBLISHED_PENDING_ENTRY
        | _ \<Rightarrow> False))"

text \<open>\<open>_signal_identity_conflict\<close>, whose second result is the signal itself.\<close>

definition signal_identity_conflict :: "ledger \<Rightarrow> publication \<Rightarrow> bool" where
  "signal_identity_conflict l c =
    (case map_of (al_signals l) (pb_signal_id c) of
       Some r \<Rightarrow> \<not> signal_matches c r
     | None \<Rightarrow> list_ex (\<lambda>p. sg_delivery_id (snd p) = pb_delivery_id c) (al_signals l))"

text \<open>\<open>_inspect_relation\<close>\<close>

definition inspect_relation :: "ledger \<Rightarrow> publication \<Rightarrow> string \<Rightarrow> string \<Rightarrow> string" where
  "inspect_relation l c transaction_id transition_id =
    (if signal_identity_conflict l c then ''SIGNAL_IDENTITY_CONFLICT''
     else case map_of (al_transactions l) transaction_id of
       None \<Rightarrow>
         if map_of (al_transitions l) transition_id \<noteq> None then ''RESERVATION_IDENTITY_CONFLICT''
         else if map_of (al_signals l) (pb_signal_id c) \<noteq> None
           \<or> list_ex (\<lambda>p. tx_signal_id (snd p) = pb_signal_id c
                \<or> tx_delivery_id (snd p) = pb_delivery_id c) (al_transactions l)
         then ''TRANSACTION_IDENTITY_CONFLICT''
         else ''NO_REGISTRATION''
     | Some t \<Rightarrow>
         if tx_transaction_id t \<noteq> transaction_id \<or> \<not> transaction_matches c t
         then ''TRANSACTION_IDENTITY_CONFLICT''
         else if tx_reservation_transition_id t \<noteq> transition_id then ''RESERVATION_IDENTITY_CONFLICT''
         else if matches_persisted (ledger_doc l) c transaction_id transition_id
         then ''REGISTRATION_ALREADY_PRESENT''
         else ''NO_REGISTRATION'')"

text \<open>\<open>_known_reservation_conflict\<close>\<close>

definition known_reservation_conflict :: "ledger \<Rightarrow> publication \<Rightarrow> string \<Rightarrow> string \<Rightarrow> string option" where
  "known_reservation_conflict l c transaction_id transition_id =
    (if signal_identity_conflict l c then Some ''SIGNAL_IDENTITY_CONFLICT''
     else case map_of (al_transactions l) transaction_id of
       Some t \<Rightarrow>
         if \<not> transaction_matches c t then Some ''TRANSACTION_IDENTITY_CONFLICT''
         else if tx_reservation_transition_id t \<noteq> transition_id
         then Some ''RESERVATION_IDENTITY_CONFLICT''
         else None
     | None \<Rightarrow>
         if map_of (al_transitions l) transition_id \<noteq> None then Some ''RESERVATION_IDENTITY_CONFLICT''
         else None)"

section \<open>Registration\<close>

text \<open>The results of \<open>_reserve\<close>: a word about the evidence, a ledger error, a ledger that was
  read back.\<close>

definition registration_word ::
  "publication \<Rightarrow> string \<Rightarrow> string \<Rightarrow> string \<Rightarrow> string \<Rightarrow> registration_result" where
  "registration_word c transaction_id transition_id timestamp word =
    common_fields c transaction_id transition_id (plain_registration word (Some timestamp) word)"

definition registration_failed ::
  "publication \<Rightarrow> string \<Rightarrow> string \<Rightarrow> string \<Rightarrow> aerror \<Rightarrow> registration_result" where
  "registration_failed c transaction_id transition_id timestamp e =
    (if e = Py_Type_Error
     then pending_result c transaction_id transition_id timestamp ''ACTIVE_PERSISTENCE_FAILURE''
     else (case active_error e of (result, reason, pending) \<Rightarrow>
       if pending then pending_result c transaction_id transition_id timestamp reason
       else common_fields c transaction_id transition_id
         (plain_registration result (Some timestamp) reason)))"

definition registration_read_back ::
  "publication \<Rightarrow> string \<Rightarrow> string \<Rightarrow> string \<Rightarrow> bool \<Rightarrow> ledger \<Rightarrow> ledger \<Rightarrow> registration_result" where
  "registration_read_back c transaction_id transition_id timestamp repair before document =
    (if \<not> matches_persisted (ledger_doc document) c transaction_id transition_id
     then registration_word c transaction_id transition_id timestamp ''FAIL_CLOSED''
     else
       (let mutated = (al_revision document = al_revision before + 1);
            classification =
              (if repair \<and> \<not> mutated then ''REGISTRATION_ALREADY_PRESENT''
               else if mutated then ''PUBLISHED_SIGNAL_REGISTERED''
               else ''PUBLISHED_SIGNAL_REGISTRATION_REPLAYED'')
        in (registration_word c transaction_id transition_id timestamp classification)
             \<lparr>rg_active_revision := Some (al_revision document),
              rg_current_state := Some (lifecycle_str PUBLISHED_PENDING_ENTRY),
              rg_registration_applied := mutated,
              rg_replay := \<not> mutated\<rparr>))"

text \<open>\<open>_reserve\<close>: the read before the call and the read under its lock see the same file.\<close>

definition reserve_publication ::
  "io \<Rightarrow> disk_file \<Rightarrow> pv \<Rightarrow> publication \<Rightarrow> string \<Rightarrow> string \<Rightarrow> string \<Rightarrow> bool
    \<Rightarrow> registration_result \<times> disk_file" where
  "reserve_publication io f expected_revision c transaction_id transition_id timestamp repair =
    (let word = registration_word c transaction_id transition_id timestamp;
         failed = registration_failed c transaction_id transition_id timestamp
     in if \<not> is_nat_int expected_revision then (word ''ACTIVE_REVISION_CONFLICT'', f)
     else case read_ledger f of
       Inl e \<Rightarrow> (failed e, f)
     | Inr before \<Rightarrow>
       if PInt (al_revision before) \<noteq> expected_revision
       then ((word ''ACTIVE_REVISION_CONFLICT'')\<lparr>rg_active_revision := Some (al_revision before)\<rparr>, f)
       else case known_reservation_conflict before c transaction_id transition_id of
         Some conflict \<Rightarrow> (word conflict, f)
       | None \<Rightarrow>
         (case reserve_published_signal io f expected_revision (PStr transaction_id)
             (PStr transition_id) (PStr (pb_signal_id c)) (PStr (pb_delivery_id c))
             (PStr (style_str (pb_mode c))) (PStr (pb_symbol c)) (PStr (pb_published_at c))
             (PStr (pb_source_payload_hash c)) (PStr (pb_publication_payload_hash c))
             (PStr timestamp) (PBool True) of
            (Inl e, f') \<Rightarrow> (failed e, f')
          | (Inr document, f') \<Rightarrow>
              (registration_read_back c transaction_id transition_id timestamp repair before
                 document, f')))"

text \<open>The two operations differ in \<open>repair\<close> alone.\<close>

definition register_with ::
  "bool \<Rightarrow> (pv \<Rightarrow> string) \<Rightarrow> io \<Rightarrow> disk_file \<Rightarrow> pv \<Rightarrow> pv \<Rightarrow> pv \<Rightarrow> pv
    \<Rightarrow> registration_result \<times> disk_file" where
  "register_with repair digest io f expected_revision evidence transition_id timestamp =
    (if \<not> is_utc timestamp \<or> \<not> is_ident transition_id
     then (plain_registration ''INVALID_PUBLICATION_EVIDENCE'' (opt_str timestamp)
             ''INVALID_PUBLICATION_EVIDENCE'', f)
     else case validated_context evidence of
       None \<Rightarrow> (plain_registration ''INVALID_PUBLICATION_EVIDENCE'' (opt_str timestamp)
             ''INVALID_PUBLICATION_EVIDENCE'', f)
     | Some c \<Rightarrow> reserve_publication io f expected_revision c
         (registration_transaction_id digest c) (the_str transition_id) (the_str timestamp) repair)"

definition register_published_signal ::
  "(pv \<Rightarrow> string) \<Rightarrow> io \<Rightarrow> disk_file \<Rightarrow> pv \<Rightarrow> pv \<Rightarrow> pv \<Rightarrow> pv \<Rightarrow> registration_result \<times> disk_file" where
  "register_published_signal = register_with False"

definition reconcile_published_signal_registration ::
  "(pv \<Rightarrow> string) \<Rightarrow> io \<Rightarrow> disk_file \<Rightarrow> pv \<Rightarrow> pv \<Rightarrow> pv \<Rightarrow> pv \<Rightarrow> registration_result \<times> disk_file" where
  "reconcile_published_signal_registration = register_with True"

definition inspect_published_signal_registration ::
  "(pv \<Rightarrow> string) \<Rightarrow> pv \<Rightarrow> pv \<Rightarrow> pv \<Rightarrow> pv \<Rightarrow> registration_result" where
  "inspect_published_signal_registration digest active_ledger evidence transition_id timestamp =
    (let invalid = plain_registration ''INVALID_PUBLICATION_EVIDENCE'' (opt_str timestamp)
           ''INVALID_PUBLICATION_EVIDENCE''
     in if \<not> is_utc timestamp \<or> \<not> is_ident transition_id then invalid
     else case validated_context evidence of
       None \<Rightarrow> invalid
     | Some c \<Rightarrow>
       (let transaction_id = registration_transaction_id digest c;
            common = common_fields c transaction_id (the_str transition_id)
        in case validate_ledger active_ledger of
          Inl e \<Rightarrow> common (plain_registration ''FAIL_CLOSED'' (opt_str timestamp) ''FAIL_CLOSED'')
        | Inr l \<Rightarrow>
          (let relation = inspect_relation l c transaction_id (the_str transition_id);
               r = (common (plain_registration relation (opt_str timestamp) relation))
                     \<lparr>rg_active_revision := Some (al_revision l)\<rparr>
           in if relation = ''REGISTRATION_ALREADY_PRESENT''
              then r\<lparr>rg_current_state := Some (lifecycle_str PUBLISHED_PENDING_ENTRY)\<rparr>
              else r)))"

end
