(* ===== verification/Signal_Lifecycle.thy ===== *)
theory Signal_Lifecycle
  imports Terminal_Refill
begin

text \<open>
  The lifecycle service, \<open>src/engine/passive_signal_lifecycle_service_v1.py\<close>: it composes the
  active-signal ledger and the terminal-refill integration and turns their errors into one
  result record.  An exception that no handler of an operation catches is the left value of its
  outcome.
\<close>

section \<open>Results\<close>

record lifecycle_result =
  sl_result :: string
  sl_operation :: string
  sl_signal_id :: "string option"
  sl_mode :: "style option"
  sl_previous_state :: "string option"
  sl_current_state :: "string option"
  sl_entry_transition_id :: "string option"
  sl_terminal_transition_id :: "string option"
  sl_active_revision :: "int option"
  sl_request_id :: "string option"
  sl_refill_revision :: "int option"
  sl_entry_applied :: bool
  sl_terminal_applied :: bool
  sl_refill_reconciled :: bool
  sl_partial_success :: bool
  sl_replay :: bool
  sl_reason :: "string option"
  sl_timestamp :: "string option"

text \<open>\<open>_result\<close> with the defaults of its keyword arguments.\<close>

definition plain_lifecycle :: "string \<Rightarrow> string \<Rightarrow> string option \<Rightarrow> string \<Rightarrow> lifecycle_result" where
  "plain_lifecycle result operation timestamp reason = \<lparr>
     sl_result = result, sl_operation = operation, sl_signal_id = None, sl_mode = None,
     sl_previous_state = None, sl_current_state = None, sl_entry_transition_id = None,
     sl_terminal_transition_id = None, sl_active_revision = None, sl_request_id = None,
     sl_refill_revision = None, sl_entry_applied = False, sl_terminal_applied = False,
     sl_refill_reconciled = False, sl_partial_success = False, sl_replay = False,
     sl_reason = Some reason, sl_timestamp = timestamp\<rparr>"

text \<open>\<open>_active_failure\<close>\<close>

definition active_failure :: "aerror \<Rightarrow> string \<times> string" where
  "active_failure e =
    (if e = EXPECTED_REVISION_MISMATCH
     then (''ACTIVE_REVISION_CONFLICT'', ''ACTIVE_REVISION_CONFLICT'')
     else if e = SIGNAL_ID_INVALID then (''NO_SIGNAL'', ''NO_SIGNAL'')
     else if e \<in> {LIFECYCLE_TRANSITION_INVALID, TERMINAL_SIGNAL_REOPEN_FORBIDDEN,
         TRANSITION_ID_COLLISION}
     then (''INVALID_STATE_TRANSITION'', ''INVALID_STATE_TRANSITION'')
     else if e = LOCK_ACQUISITION_FAILED then (''ACTIVE_LEDGER_FAILURE'', ''ACTIVE_LOCK_UNAVAILABLE'')
     else if e = ATOMIC_WRITE_FAILED then (''ACTIVE_LEDGER_FAILURE'', ''ACTIVE_PERSISTENCE_FAILURE'')
     else (''ACTIVE_LEDGER_FAILURE'', ''ACTIVE_LEDGER_INVALID''))"

record entry_info =
  en_signal_id :: string
  en_mode :: style
  en_previous_state :: string
  en_current_state :: string
  en_transition_id :: string
  en_active_revision :: int

text \<open>
  \<open>_entry_context\<close>.  In a validated ledger the style is known and the time stamp well formed;
  both tests of the code are kept.
\<close>

definition entry_context :: "pv \<Rightarrow> string \<Rightarrow> string \<Rightarrow> (string, entry_info) result" where
  "entry_context document signal_id transition_id =
    (case validate_ledger document of
       Inl e \<Rightarrow> Inl ''ACTIVE_LEDGER_INVALID''
     | Inr l \<Rightarrow>
       (case (map_of (al_transitions l) transition_id, map_of (al_signals l) signal_id) of
          (Some t, Some r) \<Rightarrow>
            if tr_operation t = ENTRY \<and> tr_signal_id t = signal_id
               \<and> tr_from_state t = Some PUBLISHED_PENDING_ENTRY \<and> tr_to_state t = ENTRY_ACTIVE
               \<and> sg_state r = ENTRY_ACTIVE \<and> sg_last_transition_id r = transition_id
               \<and> sg_mode r \<in> set styles \<and> sg_entry_at r = Some (tr_occurred_at t)
               \<and> utc_string (tr_occurred_at t)
            then Inr \<lparr>
              en_signal_id = signal_id, en_mode = sg_mode r,
              en_previous_state = lifecycle_str PUBLISHED_PENDING_ENTRY,
              en_current_state = lifecycle_str (sg_state r),
              en_transition_id = transition_id, en_active_revision = al_revision l\<rparr>
            else Inl ''TERMINAL_METADATA_INVALID''
        | _ \<Rightarrow> Inl ''TERMINAL_METADATA_INVALID''))"

text \<open>\<open>_entry_result\<close>\<close>

definition entry_result ::
  "string \<Rightarrow> entry_info \<Rightarrow> string \<Rightarrow> bool \<Rightarrow> bool \<Rightarrow> string \<Rightarrow> lifecycle_result" where
  "entry_result result c timestamp applied replay reason =
    (plain_lifecycle result ''ENTRY_ACTIVATION'' (Some timestamp) reason)
      \<lparr>sl_signal_id := Some (en_signal_id c), sl_mode := Some (en_mode c),
       sl_previous_state := Some (en_previous_state c),
       sl_current_state := Some (en_current_state c),
       sl_entry_transition_id := Some (en_transition_id c),
       sl_active_revision := Some (en_active_revision c),
       sl_entry_applied := applied, sl_replay := replay\<rparr>"

section \<open>Entry\<close>

text \<open>
  The handler of a ledger error reads \<open>previous\<close>, which is bound only after the ledger has been
  loaded: an error of the load itself ends in an exception of the handler.
\<close>

datatype escaped = Unbound_Local_Error

definition entry_failed :: "string \<Rightarrow> string \<Rightarrow> pv \<Rightarrow> pv \<Rightarrow> pv \<Rightarrow> lifecycle_result" where
  "entry_failed result reason timestamp signal_id transition_id =
    (plain_lifecycle result ''ENTRY_ACTIVATION'' (opt_str timestamp) reason)
      \<lparr>sl_signal_id := opt_str signal_id, sl_entry_transition_id := opt_str transition_id\<rparr>"

definition activate_signal_entry ::
  "io \<Rightarrow> disk_file \<Rightarrow> pv \<Rightarrow> pv \<Rightarrow> pv \<Rightarrow> pv \<Rightarrow> pv \<Rightarrow> pv
    \<Rightarrow> (escaped, lifecycle_result) result \<times> disk_file" where
  "activate_signal_entry io f expected_revision transition_id signal_id entry_at timestamp
      require_current =
    (let failed = entry_failed ''FAIL_CLOSED'' ''ACTIVE_LEDGER_INVALID'' timestamp signal_id
           transition_id
     in if \<not> (is_utc timestamp \<and> is_utc entry_at \<and> is_ident transition_id \<and> is_ident signal_id
           \<and> is_nat_int expected_revision)
     then (Inr failed, f)
     else case read_ledger f of
       Inl e \<Rightarrow> (if e = Py_Type_Error then Inr failed else Inl Unbound_Local_Error, f)
     | Inr before \<Rightarrow>
       (case mark_entry_active io f expected_revision (the_str transition_id) (the_str signal_id)
            entry_at timestamp require_current of
          (Inl e, f') \<Rightarrow>
            (Inr (if e = Py_Type_Error then failed
             else (entry_failed (fst (active_failure e)) (snd (active_failure e)) timestamp
                 signal_id transition_id)
               \<lparr>sl_previous_state := map_option (\<lambda>r. lifecycle_str (sg_state r))
                  (map_of (al_signals before) (the_str signal_id))\<rparr>), f')
        | (Inr document, f') \<Rightarrow>
          (case entry_context (ledger_doc document) (the_str signal_id) (the_str transition_id) of
             Inl failure \<Rightarrow>
               (Inr ((entry_failed ''FAIL_CLOSED'' failure timestamp signal_id transition_id)
                  \<lparr>sl_active_revision := Some (al_revision document)\<rparr>), f')
           | Inr c \<Rightarrow>
             (let replay = (al_revision document = al_revision before);
                  word = (if replay then ''ENTRY_REPLAYED'' else ''ENTRY_ACTIVATED'')
              in (Inr (entry_result word c (the_str timestamp) (\<not> replay) replay word), f')))))"

section \<open>Terminal transitions\<close>

text \<open>The results the service passes on; every other one fails closed.\<close>

definition lifecycle_word :: "string \<Rightarrow> string" where
  "lifecycle_word result =
    (if result = ''TRANSITION_AND_REFILL_RECONCILED'' then ''TERMINAL_AND_REFILL_RECONCILED''
     else if result = ''TRANSITION_REPLAY_REFILL_RECONCILED''
     then ''TERMINAL_REPLAY_REFILL_RECONCILED''
     else if result = ''TRANSITION_APPLIED_REFILL_PENDING'' then ''TERMINAL_APPLIED_REFILL_PENDING''
     else if result = ''NO_TERMINAL_TRANSITION'' then ''INVALID_STATE_TRANSITION''
     else if result \<in> {''REFILL_ALREADY_RECONCILED'', ''ACTIVE_REVISION_CONFLICT'',
         ''REFILL_REVISION_CONFLICT'', ''ACTIVE_LEDGER_FAILURE'', ''REFILL_LEDGER_FAILURE''}
     then result else ''FAIL_CLOSED'')"

definition lifecycle_reason :: "string option \<Rightarrow> string" where
  "lifecycle_reason reason =
    (case reason of
       None \<Rightarrow> ''FAIL_CLOSED''
     | Some s \<Rightarrow>
         if s \<in> {''ACTIVE_REVISION_CONFLICT'', ''REFILL_REVISION_CONFLICT'',
            ''ACTIVE_LOCK_UNAVAILABLE'', ''ACTIVE_PERSISTENCE_FAILURE'',
            ''REFILL_LOCK_UNAVAILABLE'', ''REFILL_PERSISTENCE_FAILURE'',
            ''NO_TERMINAL_TRANSITION'', ''TERMINAL_METADATA_INVALID'', ''FAIL_CLOSED'',
            ''REFILL_ALREADY_RECONCILED''}
         then s else ''FAIL_CLOSED'')"

text \<open>\<open>_terminal_result\<close>\<close>

definition terminal_result :: "refill_result \<Rightarrow> string \<Rightarrow> string \<Rightarrow> lifecycle_result" where
  "terminal_result outcome operation timestamp = \<lparr>
     sl_result = lifecycle_word (rs_result outcome),
     sl_operation = operation,
     sl_signal_id = rs_signal_id outcome,
     sl_mode = rs_mode outcome,
     sl_previous_state = None,
     sl_current_state = rs_terminal_state outcome,
     sl_entry_transition_id = None,
     sl_terminal_transition_id = rs_transition_id outcome,
     sl_active_revision = rs_active_revision outcome,
     sl_request_id = rs_request_id outcome,
     sl_refill_revision = rs_refill_revision outcome,
     sl_entry_applied = False,
     sl_terminal_applied = rs_transition_applied outcome,
     sl_refill_reconciled = rs_refill_reconciled outcome,
     sl_partial_success = rs_partial_success outcome,
     sl_replay = rs_replay outcome,
     sl_reason = Some (lifecycle_reason (rs_reason outcome)),
     sl_timestamp = Some timestamp\<rparr>"

definition terminate_signal_and_reconcile_refill ::
  "(pv \<Rightarrow> string) \<Rightarrow> io \<Rightarrow> io \<Rightarrow> disk_file \<Rightarrow> disk_file \<Rightarrow> pv \<Rightarrow> pv \<Rightarrow> pv \<Rightarrow> pv \<Rightarrow> pv \<Rightarrow> pv \<Rightarrow> pv \<Rightarrow> pv \<Rightarrow> pv
    \<Rightarrow> lifecycle_result \<times> disk_file \<times> disk_file" where
  "terminate_signal_and_reconcile_refill digest io_a io_r fa fr expected_active_revision
      expected_refill_revision transition_id signal_id terminal_state terminal_at terminal_reason
      timestamp require_current =
    (if \<not> transition_arguments_ok expected_active_revision expected_refill_revision transition_id
          signal_id terminal_state terminal_at terminal_reason timestamp
     then ((plain_lifecycle ''FAIL_CLOSED'' ''TERMINAL_TRANSITION'' (opt_str timestamp) ''FAIL_CLOSED'')
             \<lparr>sl_signal_id := opt_str signal_id,
              sl_terminal_transition_id := opt_str transition_id\<rparr>, fa, fr)
     else (case transition_and_reconcile_refill digest io_a io_r fa fr expected_active_revision
         expected_refill_revision transition_id signal_id terminal_state terminal_at
         terminal_reason timestamp require_current of
       (outcome, fa', fr') \<Rightarrow>
         (terminal_result outcome ''TERMINAL_TRANSITION'' (the_str timestamp), fa', fr')))"

definition reconcile_terminal_refill_after_restart ::
  "(pv \<Rightarrow> string) \<Rightarrow> io \<Rightarrow> disk_file \<Rightarrow> disk_file \<Rightarrow> pv \<Rightarrow> pv \<Rightarrow> pv \<Rightarrow> pv
    \<Rightarrow> lifecycle_result \<times> disk_file" where
  "reconcile_terminal_refill_after_restart digest io_r fa fr expected_active_revision
      expected_refill_revision transition_id timestamp =
    (if \<not> (is_utc timestamp \<and> is_ident transition_id \<and> is_nat_int expected_active_revision
          \<and> (expected_refill_revision = PNone \<or> is_nat_int expected_refill_revision))
     then ((plain_lifecycle ''FAIL_CLOSED'' ''TERMINAL_REFILL_REPAIR'' (opt_str timestamp)
             ''FAIL_CLOSED'')\<lparr>sl_terminal_transition_id := opt_str transition_id\<rparr>, fr)
     else (case reconcile_existing_terminal_refill digest io_r fa fr expected_active_revision
         expected_refill_revision transition_id timestamp of
       (outcome, fr') \<Rightarrow>
         (terminal_result outcome ''TERMINAL_REFILL_REPAIR'' (the_str timestamp), fr')))"

section \<open>Owner commands\<close>

definition commit_owner_confirmed_entry ::
  "io \<Rightarrow> disk_file \<Rightarrow> pv \<Rightarrow> string \<Rightarrow> string \<Rightarrow> pv \<Rightarrow> (aerror, ledger) result \<times> disk_file" where
  "commit_owner_confirmed_entry io f expected_revision transition_id signal_id timestamp =
    mark_entry_active io f expected_revision transition_id signal_id timestamp timestamp
      (PBool False)"

datatype owner_error = OWNER_TERMINAL_INVALID | Owner_Type_Error | Ledger_Error aerror

definition commit_owner_terminal ::
  "io \<Rightarrow> disk_file \<Rightarrow> pv \<Rightarrow> string \<Rightarrow> string \<Rightarrow> pv \<Rightarrow> pv \<Rightarrow> pv
    \<Rightarrow> (owner_error, ledger) result \<times> disk_file" where
  "commit_owner_terminal io f expected_revision transition_id signal_id terminal_state timestamp
      reason =
    (if unhashable terminal_state then (Inl Owner_Type_Error, f)
     else if terminal_state \<noteq> PStr (lifecycle_str REJECTED_BY_OWNER)
        \<and> terminal_state \<noteq> PStr (lifecycle_str CLOSED_MANUAL)
     then (Inl OWNER_TERMINAL_INVALID, f)
     else case transition_terminal io f expected_revision transition_id signal_id terminal_state
         timestamp reason timestamp (PBool False) of
       (Inl e, f') \<Rightarrow> (Inl (Ledger_Error e), f')
     | (Inr l, f') \<Rightarrow> (Inr l, f'))"

section \<open>Inspection\<close>

definition inspect_signal_lifecycle ::
  "(pv \<Rightarrow> string) \<Rightarrow> pv \<Rightarrow> pv \<Rightarrow> string option \<Rightarrow> string option \<Rightarrow> pv option \<Rightarrow> pv \<Rightarrow> lifecycle_result" where
  "inspect_signal_lifecycle digest active_ledger signal_id entry_transition_id
      terminal_transition_id refill_ledger timestamp =
    (let word = (\<lambda>w. plain_lifecycle w ''INSPECTION'' (opt_str timestamp) w) in
     if \<not> (is_utc timestamp \<and> is_ident signal_id) then word ''FAIL_CLOSED''
     else case validate_ledger active_ledger of
       Inl e \<Rightarrow> word ''FAIL_CLOSED''
     | Inr l \<Rightarrow>
       (case map_of (al_signals l) (the_str signal_id) of
          None \<Rightarrow> (word ''NO_SIGNAL'')\<lparr>sl_signal_id := opt_str signal_id\<rparr>
        | Some r \<Rightarrow>
          (let common = (\<lambda>s. s\<lparr>sl_signal_id := opt_str signal_id, sl_mode := Some (sg_mode r),
                 sl_current_state := Some (lifecycle_str (sg_state r)),
                 sl_active_revision := Some (al_revision l)\<rparr>)
           in if sg_state r = PUBLISHED_PENDING_ENTRY
           then common (word ''PUBLISHED_ENTRY_INSPECTED'')
           else if sg_state r = ENTRY_ACTIVE then
             (case entry_transition_id of
                Some k \<Rightarrow>
                  (case entry_context (ledger_doc l) (the_str signal_id) k of
                     Inl failure \<Rightarrow> common ((plain_lifecycle ''INVALID_STATE_TRANSITION''
                       ''INSPECTION'' (opt_str timestamp) failure)\<lparr>sl_entry_transition_id := Some k\<rparr>)
                   | Inr c \<Rightarrow> entry_result ''ENTRY_ALREADY_ACTIVE'' c (the_str timestamp) False False
                       ''ENTRY_ALREADY_ACTIVE'')
              | None \<Rightarrow> common ((word ''ENTRY_ALREADY_ACTIVE'')
                  \<lparr>sl_entry_transition_id := Some (sg_last_transition_id r),
                   sl_previous_state := Some (lifecycle_str PUBLISHED_PENDING_ENTRY)\<rparr>))
           else case (terminal_transition_id, refill_ledger) of
             (Some k, Some rl) \<Rightarrow> terminal_result (inspect_terminal_refill_result digest
                (ledger_doc l) rl (PStr k) timestamp) ''INSPECTION'' (the_str timestamp)
           | _ \<Rightarrow> common ((word ''INVALID_STATE_TRANSITION'')
               \<lparr>sl_terminal_transition_id := terminal_transition_id\<rparr>))))"

end
