(* ===== verification/Production_Flow.thy ===== *)
theory Production_Flow
  imports Publication_Registration Signal_Lifecycle
begin

text \<open>
  The facade of the production flow, \<open>src/engine/passive_production_signal_flow_v1.py\<close>: it passes
  one operation on to the registration or to the lifecycle service and brings the outcome into
  one result record.  An exception of the service is a result of the facade.
\<close>

section \<open>Results\<close>

record flow_result =
  fl_result :: string
  fl_operation :: string
  fl_signal_id :: "string option"
  fl_mode :: "style option"
  fl_symbol :: "string option"
  fl_delivery_id :: "string option"
  fl_publication_identity_hash :: "string option"
  fl_signal_payload_hash :: "string option"
  fl_reservation_transaction_id :: "string option"
  fl_reservation_transition_id :: "string option"
  fl_entry_transition_id :: "string option"
  fl_terminal_transition_id :: "string option"
  fl_active_revision :: "int option"
  fl_request_id :: "string option"
  fl_refill_revision :: "int option"
  fl_previous_state :: "string option"
  fl_current_state :: "string option"
  fl_publication_confirmed :: bool
  fl_registration_applied :: bool
  fl_entry_applied :: bool
  fl_terminal_applied :: bool
  fl_refill_reconciled :: bool
  fl_partial_success :: bool
  fl_replay :: bool
  fl_reason :: "string option"
  fl_timestamp :: "string option"

text \<open>\<open>_result\<close> with the defaults of its keyword arguments.\<close>

definition plain_flow :: "string \<Rightarrow> string \<Rightarrow> string option \<Rightarrow> string option \<Rightarrow> flow_result" where
  "plain_flow result operation timestamp reason = \<lparr>
     fl_result = result, fl_operation = operation, fl_signal_id = None, fl_mode = None,
     fl_symbol = None, fl_delivery_id = None, fl_publication_identity_hash = None,
     fl_signal_payload_hash = None, fl_reservation_transaction_id = None,
     fl_reservation_transition_id = None, fl_entry_transition_id = None,
     fl_terminal_transition_id = None, fl_active_revision = None, fl_request_id = None,
     fl_refill_revision = None, fl_previous_state = None, fl_current_state = None,
     fl_publication_confirmed = False, fl_registration_applied = False, fl_entry_applied = False,
     fl_terminal_applied = False, fl_refill_reconciled = False, fl_partial_success = False,
     fl_replay = False, fl_reason = reason, fl_timestamp = timestamp\<rparr>"

text \<open>\<open>_registration_result\<close>\<close>

definition registration_flow :: "string \<Rightarrow> registration_result \<Rightarrow> flow_result" where
  "registration_flow operation r =
    (plain_flow (rg_result r) operation (rg_timestamp r) (rg_reason r))\<lparr>
       fl_signal_id := rg_signal_id r,
       fl_mode := rg_mode r,
       fl_symbol := rg_symbol r,
       fl_delivery_id := rg_delivery_id r,
       fl_publication_identity_hash := rg_identity_hash r,
       fl_signal_payload_hash := rg_signal_payload_hash r,
       fl_reservation_transaction_id := rg_transaction_id r,
       fl_reservation_transition_id := rg_transition_id r,
       fl_active_revision := rg_active_revision r,
       fl_current_state := rg_current_state r,
       fl_publication_confirmed := rg_publication_confirmed r,
       fl_registration_applied := rg_registration_applied r,
       fl_partial_success := rg_partial_success r,
       fl_replay := rg_replay r\<rparr>"

text \<open>\<open>_lifecycle_result\<close>\<close>

definition lifecycle_flow :: "string \<Rightarrow> lifecycle_result \<Rightarrow> flow_result" where
  "lifecycle_flow operation r =
    (plain_flow (sl_result r) operation (sl_timestamp r) (sl_reason r))\<lparr>
       fl_signal_id := sl_signal_id r,
       fl_mode := sl_mode r,
       fl_entry_transition_id := sl_entry_transition_id r,
       fl_terminal_transition_id := sl_terminal_transition_id r,
       fl_active_revision := sl_active_revision r,
       fl_request_id := sl_request_id r,
       fl_refill_revision := sl_refill_revision r,
       fl_previous_state := sl_previous_state r,
       fl_current_state := sl_current_state r,
       fl_entry_applied := sl_entry_applied r,
       fl_terminal_applied := sl_terminal_applied r,
       fl_refill_reconciled := sl_refill_reconciled r,
       fl_partial_success := sl_partial_success r,
       fl_replay := sl_replay r\<rparr>"

text \<open>\<open>_failure\<close> with the reason it always has.\<close>

definition failure_flow :: "string \<Rightarrow> pv \<Rightarrow> flow_result" where
  "failure_flow operation timestamp =
    plain_flow ''FAIL_CLOSED'' operation (opt_str timestamp) (Some ''FAIL_CLOSED'')"

section \<open>Operations\<close>

definition register_completed_publication ::
  "(pv \<Rightarrow> string) \<Rightarrow> io \<Rightarrow> disk_file \<Rightarrow> pv \<Rightarrow> pv \<Rightarrow> pv \<Rightarrow> pv \<Rightarrow> flow_result \<times> disk_file" where
  "register_completed_publication digest io f expected_revision evidence transition_id timestamp =
    (case register_published_signal digest io f expected_revision evidence transition_id timestamp of
       (outcome, f') \<Rightarrow> (registration_flow ''REGISTER_COMPLETED_PUBLICATION'' outcome, f'))"

definition activate_registered_signal ::
  "io \<Rightarrow> disk_file \<Rightarrow> pv \<Rightarrow> pv \<Rightarrow> pv \<Rightarrow> pv \<Rightarrow> pv \<Rightarrow> flow_result \<times> disk_file" where
  "activate_registered_signal io f expected_revision transition_id signal_id entry_at timestamp =
    (case activate_signal_entry io f expected_revision transition_id signal_id entry_at timestamp
        (PBool True) of
       (Inr outcome, f') \<Rightarrow> (lifecycle_flow ''ACTIVATE_REGISTERED_SIGNAL'' outcome, f')
     | (Inl e, f') \<Rightarrow>
         ((failure_flow ''ACTIVATE_REGISTERED_SIGNAL'' timestamp)
            \<lparr>fl_signal_id := opt_str signal_id,
             fl_entry_transition_id := opt_str transition_id\<rparr>, f'))"

definition terminate_active_signal ::
  "(pv \<Rightarrow> string) \<Rightarrow> io \<Rightarrow> io \<Rightarrow> disk_file \<Rightarrow> disk_file \<Rightarrow> pv \<Rightarrow> pv \<Rightarrow> pv \<Rightarrow> pv \<Rightarrow> pv \<Rightarrow> pv \<Rightarrow> pv \<Rightarrow> pv
    \<Rightarrow> flow_result \<times> disk_file \<times> disk_file" where
  "terminate_active_signal digest io_a io_r fa fr expected_active_revision expected_refill_revision
      transition_id signal_id terminal_state terminal_at terminal_reason timestamp =
    (case terminate_signal_and_reconcile_refill digest io_a io_r fa fr expected_active_revision
        expected_refill_revision transition_id signal_id terminal_state terminal_at
        terminal_reason timestamp (PBool True) of
       (outcome, fa', fr') \<Rightarrow> (lifecycle_flow ''TERMINATE_ACTIVE_SIGNAL'' outcome, fa', fr'))"

definition repair_publication_registration ::
  "(pv \<Rightarrow> string) \<Rightarrow> io \<Rightarrow> disk_file \<Rightarrow> pv \<Rightarrow> pv \<Rightarrow> pv \<Rightarrow> pv \<Rightarrow> flow_result \<times> disk_file" where
  "repair_publication_registration digest io f expected_revision evidence transition_id timestamp =
    (case reconcile_published_signal_registration digest io f expected_revision evidence
        transition_id timestamp of
       (outcome, f') \<Rightarrow> (registration_flow ''REPAIR_PUBLICATION_REGISTRATION'' outcome, f'))"

definition repair_terminal_refill ::
  "(pv \<Rightarrow> string) \<Rightarrow> io \<Rightarrow> disk_file \<Rightarrow> disk_file \<Rightarrow> pv \<Rightarrow> pv \<Rightarrow> pv \<Rightarrow> pv \<Rightarrow> flow_result \<times> disk_file" where
  "repair_terminal_refill digest io_r fa fr expected_active_revision expected_refill_revision
      transition_id timestamp =
    (case reconcile_terminal_refill_after_restart digest io_r fa fr expected_active_revision
        expected_refill_revision transition_id timestamp of
       (outcome, fr') \<Rightarrow> (lifecycle_flow ''REPAIR_TERMINAL_REFILL'' outcome, fr'))"

section \<open>Inspection\<close>

text \<open>\<open>a or b\<close> on optional strings.\<close>

definition or_else :: "string option \<Rightarrow> string option \<Rightarrow> string option" where
  "or_else a b = (if a = None \<or> a = Some [] then b else a)"

text \<open>\<open>_combined_inspection\<close>\<close>

definition combined_inspection :: "registration_result \<Rightarrow> lifecycle_result \<Rightarrow> flow_result" where
  "combined_inspection r s =
    (let evidence = (\<lambda>d. d\<lparr>
           fl_symbol := rg_symbol r,
           fl_delivery_id := rg_delivery_id r,
           fl_publication_identity_hash := rg_identity_hash r,
           fl_signal_payload_hash := rg_signal_payload_hash r,
           fl_reservation_transaction_id := rg_transaction_id r,
           fl_reservation_transition_id := rg_transition_id r,
           fl_active_revision := sl_active_revision s,
           fl_publication_confirmed := rg_publication_confirmed r\<rparr>)
     in if rg_signal_id r \<noteq> sl_signal_id s
        \<or> rg_mode r \<noteq> None \<and> sl_mode s \<noteq> None \<and> rg_mode r \<noteq> sl_mode s
     then evidence ((plain_flow ''FAIL_CLOSED'' ''INSPECT_PRODUCTION_SIGNAL_FLOW'' (sl_timestamp s)
            (Some ''CROSS_COMPONENT_IDENTITY_MISMATCH''))
          \<lparr>fl_signal_id := or_else (sl_signal_id s) (rg_signal_id r),
           fl_mode := (if sl_mode s = None then rg_mode r else sl_mode s)\<rparr>)
     else (evidence (lifecycle_flow ''INSPECT_PRODUCTION_SIGNAL_FLOW'' s))
          \<lparr>fl_registration_applied := rg_registration_applied r\<rparr>)"

text \<open>\<open>_lifecycle_inspection_failure\<close>\<close>

definition inspection_failure :: "string \<Rightarrow> bool" where
  "inspection_failure result \<longleftrightarrow> result \<in> {''INVALID_STATE_TRANSITION'', ''ACTIVE_REVISION_CONFLICT'',
     ''REFILL_REVISION_CONFLICT'', ''ACTIVE_LEDGER_FAILURE'', ''REFILL_LEDGER_FAILURE'', ''FAIL_CLOSED''}"

definition inspect_production_signal_flow ::
  "(pv \<Rightarrow> string) \<Rightarrow> pv \<Rightarrow> pv \<Rightarrow> pv \<Rightarrow> pv option \<Rightarrow> pv option \<Rightarrow> string option \<Rightarrow> string option \<Rightarrow> pv option
    \<Rightarrow> flow_result" where
  "inspect_production_signal_flow digest active_ledger signal_id timestamp evidence
      reservation_transition_id entry_transition_id terminal_transition_id refill_ledger =
    (let lifecycle = inspect_signal_lifecycle digest active_ledger signal_id entry_transition_id
           terminal_transition_id refill_ledger timestamp;
         lifecycle_only = lifecycle_flow ''INSPECT_PRODUCTION_SIGNAL_FLOW'' lifecycle
     in if (evidence \<noteq> None) \<noteq> (reservation_transition_id \<noteq> None)
        \<or> (terminal_transition_id \<noteq> None) \<noteq> (refill_ledger \<noteq> None)
     then (plain_flow ''INVALID_OPERATION'' ''INSPECT_PRODUCTION_SIGNAL_FLOW'' (opt_str timestamp)
             (Some ''INVALID_INSPECTION_ARGUMENTS''))\<lparr>fl_signal_id := opt_str signal_id\<rparr>
     else case (evidence, reservation_transition_id) of
       (Some ev, Some tid) \<Rightarrow>
         (let registration = inspect_published_signal_registration digest active_ledger ev tid
                timestamp;
              registration_only = registration_flow ''INSPECT_PRODUCTION_SIGNAL_FLOW'' registration
          in if rg_result registration \<noteq> ''REGISTRATION_ALREADY_PRESENT''
             \<and> rg_result registration \<noteq> ''NO_REGISTRATION''
          then registration_only
          else if inspection_failure (sl_result lifecycle) then lifecycle_only
          else if sl_result lifecycle = ''NO_SIGNAL'' then registration_only
          else if rg_result registration = ''NO_REGISTRATION'' then lifecycle_only
          else combined_inspection registration lifecycle)
     | _ \<Rightarrow> lifecycle_only)"

end
