(* ===== verification/Publication_Registration_Props.thy ===== *)
theory Publication_Registration_Props
  imports Publication_Registration Active_Ledger_Props
begin

text \<open>
  The properties of publication registration: what a result says about the ledger file, when a
  publication is registered, and what repeating a registration does.
\<close>

section \<open>Checked evidence\<close>

definition publication_ok :: "publication \<Rightarrow> bool" where
  "publication_ok c \<longleftrightarrow> nonblank (pb_signal_id c) \<and> nonblank (pb_delivery_id c)
     \<and> nonblank (pb_symbol c) \<and> utc_string (pb_published_at c)
     \<and> sha256_string (pb_source_payload_hash c) \<and> sha256_string (pb_publication_payload_hash c)"

lemma validated_context_ok: "validated_context e = Some c \<Longrightarrow> publication_ok c"
  by (auto simp: validated_context_def publication_ok_def Let_def str_pred_dest
      split: option.splits if_splits)

lemma sha256_nonblank: "sha256_string s \<Longrightarrow> nonblank s"
  by (cases s) (auto simp: sha256_string_def nonblank_def is_hex_def is_digit_def py_space_def Let_def)

lemma transaction_id_nonblank:
  "hex_digest digest \<Longrightarrow> nonblank (registration_transaction_id digest c)"
  by (simp add: hex_digest_def registration_transaction_id_def sha256_nonblank)

text \<open>The transaction a registration asks for.\<close>

definition reservation :: "publication \<Rightarrow> string \<Rightarrow> string \<Rightarrow> string \<Rightarrow> transaction" where
  "reservation c tx tid ts = \<lparr>
     tx_transaction_id = tx, tx_signal_id = pb_signal_id c, tx_delivery_id = pb_delivery_id c,
     tx_mode = pb_mode c, tx_symbol = pb_symbol c, tx_published_at = pb_published_at c,
     tx_source_payload_hash = pb_source_payload_hash c,
     tx_publication_payload_hash = pb_publication_payload_hash c,
     tx_reservation_transition_id = tid, tx_state = PREPARED, tx_created_at = ts,
     tx_updated_at = ts, tx_aborted_at = None, tx_abort_reason = None\<rparr>"

lemma reservation_simps [simp]:
  "tx_transaction_id (reservation c tx tid ts) = tx" "tx_signal_id (reservation c tx tid ts) = pb_signal_id c"
  "tx_delivery_id (reservation c tx tid ts) = pb_delivery_id c" "tx_mode (reservation c tx tid ts) = pb_mode c"
  "tx_symbol (reservation c tx tid ts) = pb_symbol c" "tx_published_at (reservation c tx tid ts) = pb_published_at c"
  "tx_source_payload_hash (reservation c tx tid ts) = pb_source_payload_hash c"
  "tx_publication_payload_hash (reservation c tx tid ts) = pb_publication_payload_hash c"
  "tx_reservation_transition_id (reservation c tx tid ts) = tid" "tx_state (reservation c tx tid ts) = PREPARED"
  by (simp_all add: reservation_def)

definition reserve_call :: "publication \<Rightarrow> pv \<Rightarrow> string \<Rightarrow> string \<Rightarrow> string \<Rightarrow> call" where
  "reserve_call c er tx tid ts = Reserve_Published_Signal er (PStr tx) (PStr tid)
     (PStr (pb_signal_id c)) (PStr (pb_delivery_id c)) (PStr (style_str (pb_mode c)))
     (PStr (pb_symbol c)) (PStr (pb_published_at c)) (PStr (pb_source_payload_hash c))
     (PStr (pb_publication_payload_hash c)) (PStr ts) (PBool True)"

lemma transaction_payload_publication:
  assumes "publication_ok c" "nonblank tx" "nonblank tid" "utc_string ts"
  shows "transaction_payload (PStr tx) (PStr tid) (PStr (pb_signal_id c)) (PStr (pb_delivery_id c))
      (PStr (style_str (pb_mode c))) (PStr (pb_symbol c)) (PStr (pb_published_at c))
      (PStr (pb_source_payload_hash c)) (PStr (pb_publication_payload_hash c)) (PStr ts)
    = (if normalize_pair (pb_symbol c) = None then Inl PAIR_INVALID else Inr (reservation c tx tid ts))"
  using assms
  by (simp add: transaction_payload_def publication_ok_def reservation_def is_ident_def is_utc_def
      is_sha256_def)

section \<open>What a reservation does to the ledger\<close>

text \<open>The ledger after the commit of a transaction.\<close>

definition committed_with :: "ledger \<Rightarrow> transaction \<Rightarrow> string \<Rightarrow> ledger \<Rightarrow> bool" where
  "committed_with l x u m \<longleftrightarrow>
     map_of (al_signals m) = (map_of (al_signals l))(tx_signal_id x \<mapsto> pending_signal x u)
   \<and> map_of (al_transitions m) =
       (map_of (al_transitions l))(tx_reservation_transition_id x \<mapsto> reserve_transition l x u)
   \<and> map_of (al_transactions m) = (map_of (al_transactions l))
       (tx_transaction_id x \<mapsto> x\<lparr>tx_state := OCCUPANCY_COMMITTED, tx_updated_at := u\<rparr>)"

text \<open>When a durable reservation of an unknown transaction is accepted.\<close>

definition reservable :: "ledger \<Rightarrow> transaction \<Rightarrow> bool" where
  "reservable l c \<longleftrightarrow> map_of (al_transactions l) (tx_transaction_id c) = None
     \<and> \<not> pending_conflict l (tx_signal_id c) (tx_delivery_id c)
     \<and> map_of (al_signals l) (tx_signal_id c) = None
     \<and> \<not> list_ex (\<lambda>p. sg_delivery_id (snd p) = tx_delivery_id c) (al_signals l)
     \<and> \<not> list_ex (\<lambda>p. tx_signal_id (snd p) = tx_signal_id c \<or> tx_delivery_id (snd p) = tx_delivery_id c)
         (al_transactions l)"

lemma reserve_durable_mutates:
  "reserve_handler c True er u l = Inr (Mutate m t) \<longleftrightarrow> t = u \<and>
    ((\<exists>x. map_of (al_transactions l) (tx_transaction_id c) = Some x \<and> reservation_equivalent x c
        \<and> tx_state x = PREPARED \<and> m = commit_occupancy l x u)
     \<or> reservable l c \<and> revision_matches l er
       \<and> m = commit_occupancy (l\<lparr>al_transactions :=
           AList.update (tx_transaction_id c) c (al_transactions l)\<rparr>) c u)"
  unfolding reserve_handler_def reservable_def
  by (cases "map_of (al_transactions l) (tx_transaction_id c)";
      cases "map_of (al_signals l) (tx_signal_id c)") (auto simp: Let_def)

lemma reserve_durable_keeps:
  "reserve_handler c True er u l = Inr (Keep m) \<longleftrightarrow> m = l \<and>
    (\<exists>x. map_of (al_transactions l) (tx_transaction_id c) = Some x \<and> reservation_equivalent x c
        \<and> tx_state x \<noteq> PREPARED)"
  unfolding reserve_handler_def
  by (cases "map_of (al_transactions l) (tx_transaction_id c)";
      cases "map_of (al_signals l) (tx_signal_id c)") (auto simp: Let_def)

lemma reserve_commits:
  assumes "reach_ok l" "reserve_handler c True er u l = Inr (Mutate m t)" "tx_state c = PREPARED"
  shows "\<exists>x. reservation_equivalent x c \<and> tx_state x = PREPARED \<and> committed_with l x u m
    \<and> al_revision m = al_revision l
    \<and> map_of (al_signals l) (tx_signal_id x) = None
    \<and> (map_of (al_transactions l) (tx_transaction_id c) = Some x
       \<or> reservable l c \<and> x = c)"
proof -
  consider (old) x where "map_of (al_transactions l) (tx_transaction_id c) = Some x"
      "reservation_equivalent x c" "tx_state x = PREPARED" "m = commit_occupancy l x u"
    | (new) "reservable l c" "m = commit_occupancy (l\<lparr>al_transactions :=
           AList.update (tx_transaction_id c) c (al_transactions l)\<rparr>) c u"
    using assms(2) unfolding reserve_durable_mutates by blast
  then show ?thesis
  proof cases
    case old
    have "pending_ok l"
      using assms(1) by (simp add: reach_ok_def)
    from pending_okD(1) [OF this old(1,3)] old show ?thesis
      by (auto simp: committed_with_def commit_occupancy_alt)
  next
    case new
    with assms(3) show ?thesis
      by (intro exI [of _ c])
        (auto simp: committed_with_def commit_occupancy_alt reservable_def reservation_equivalent_def
          pending_signal_def reserve_transition_def)
  qed
qed

lemma matches_committed:
  assumes "ledger_ok m" "committed_with l x u m'" "map_of (al_signals m) = map_of (al_signals m')"
    "map_of (al_transitions m) = map_of (al_transitions m')"
    "map_of (al_transactions m) = map_of (al_transactions m')"
    "reservation_equivalent x (reservation c tx tid ts)"
  shows "matches_persisted (ledger_doc m) c tx tid"
  using assms(2-6)
  by (simp add: matches_persisted_def validate_ledger_doc [OF assms(1)] committed_with_def
      reservation_equivalent_def signal_matches_def transaction_matches_def pending_signal_def
      reserve_transition_def)

text \<open>The three ways the ledger call of a registration can end.\<close>

lemma reserve_run:
  assumes "reachable_file f" "publication_ok c" "nonblank tx" "nonblank tid" "utc_string ts"
    "exec_call io (reserve_call c er tx tid ts) f = (res, g)"
  obtains (failed) e where "res = Inl e" "g = f"
  | (kept) l x where "res = Inr l" "g = f" "read_ledger f = Inr l" "ledger_ok l"
      "map_of (al_transactions l) tx = Some x" "tx_state x \<noteq> PREPARED"
  | (changed) l x m where "res = Inr (bump m ts)" "read_ledger f = Inr l" "reach_ok l" "reach_ok m"
      "al_revision m = al_revision l" "g = Stored (sort_doc (ledger_doc (bump m ts)))"
      "committed_with l x ts m" "reservation_equivalent x (reservation c tx tid ts)"
      "map_of (al_signals l) (pb_signal_id c) = None"
      "map_of (al_transactions l) tx = Some x \<and> tx_state x = PREPARED
        \<or> reservable l (reservation c tx tid ts)" "normalize_pair (pb_symbol c) \<noteq> None"
proof (cases "normalize_pair (pb_symbol c) = None")
  case True
  then show thesis
    using assms(6) transaction_payload_publication [OF assms(2-5)]
    by (intro that(1) [of PAIR_INVALID]) (simp_all add: reserve_call_def reserve_published_signal_def)
next
  case False
  let ?h = "reserve_handler (reservation c tx tid ts) True er ts"
  have h: "call_handler (reserve_call c er tx tid ts) = Some ?h"
    using False transaction_payload_publication [OF assms(2-5)] by (simp add: reserve_call_def)
  have run: "run_locked io f ?h = (res, g)"
    using exec_call_handler [of "reserve_call c er tx tid ts" io f] assms(6) h
    by (auto simp: reserve_call_def)
  show thesis
  proof (cases rule: run_locked_outcome [OF reachable_file_ok [OF assms(1)] call_handler_ok [OF h] run,
        case_names failed kept changed])
    case (failed e)
    then show thesis by (rule that(1))
  next
    case (kept l)
    then show thesis
      by (auto simp: reserve_durable_keeps reach_ok_def intro!: that(2))
  next
    case (changed l m t)
    have "t = ts"
      using changed(3) by (simp add: reserve_durable_mutates)
    with reserve_commits [OF changed(2,3)] changed show thesis
      using False by (auto simp: reservation_equivalent_def intro: that(3))
  qed
qed

section \<open>What a result says\<close>

lemma registration_simps [simp]:
  "rg_result (common_fields c tx tid r) = rg_result r"
  "rg_registration_applied (common_fields c tx tid r) = rg_registration_applied r"
  "rg_partial_success (common_fields c tx tid r) = rg_partial_success r"
  "rg_replay (common_fields c tx tid r) = rg_replay r"
  "rg_publication_confirmed (common_fields c tx tid r)"
  "rg_result (plain_registration w t e) = w"
  "\<not> rg_registration_applied (plain_registration w t e)"
  "\<not> rg_partial_success (plain_registration w t e)" "\<not> rg_replay (plain_registration w t e)"
  "rg_result (pending_result c tx tid t' e) = ''PUBLICATION_SUCCEEDED_REGISTRATION_PENDING''"
  "\<not> rg_registration_applied (pending_result c tx tid t' e)"
  "rg_partial_success (pending_result c tx tid t' e)" "\<not> rg_replay (pending_result c tx tid t' e)"
  "rg_publication_confirmed (pending_result c tx tid t' e)"
  by (simp_all add: common_fields_def plain_registration_def pending_result_def)

lemma registration_failed_simps [simp]:
  "\<not> rg_registration_applied (registration_failed c tx tid t' e)"
  "\<not> rg_replay (registration_failed c tx tid t' e)"
  "rg_result (registration_failed c tx tid t' e) \<noteq> ''PUBLISHED_SIGNAL_REGISTERED''"
  "rg_result (registration_word c tx tid t' w) = w" "\<not> rg_registration_applied (registration_word c tx tid t' w)"
  "\<not> rg_partial_success (registration_word c tx tid t' w)" "\<not> rg_replay (registration_word c tx tid t' w)"
  by (auto simp: registration_failed_def registration_word_def active_error_def)

lemma known_conflict_words:
  "known_reservation_conflict l c tx tid = Some w \<Longrightarrow> w \<noteq> ''PUBLISHED_SIGNAL_REGISTERED''"
  by (auto simp: known_reservation_conflict_def split: if_splits option.splits)

lemma read_back_unchanged [simp]:
  "rg_result (registration_read_back c tx tid t' rep l l) \<noteq> ''PUBLISHED_SIGNAL_REGISTERED''"
  by (simp add: registration_read_back_def)

text \<open>The evidence is registered in the file.\<close>

definition registered :: "disk_file \<Rightarrow> publication \<Rightarrow> string \<Rightarrow> string \<Rightarrow> bool" where
  "registered f c tx tid = (\<exists>l. read_ledger f = Inr l \<and> matches_persisted (ledger_doc l) c tx tid)"

text \<open>A ledger with the publication added: its signal is new, its transition is new unless a
  prepared transaction asked for it before, and nothing else has changed.\<close>

definition publication_added :: "ledger \<Rightarrow> publication \<Rightarrow> string \<Rightarrow> string \<Rightarrow> ledger \<Rightarrow> bool" where
  "publication_added l c tx tid m \<longleftrightarrow>
     map_of (al_signals l) (pb_signal_id c) = None
   \<and> (map_of (al_transactions l) tx = None \<longrightarrow> map_of (al_transitions l) tid = None)
   \<and> (\<forall>k. k \<noteq> pb_signal_id c \<longrightarrow> map_of (al_signals m) k = map_of (al_signals l) k)
   \<and> (\<forall>k. k \<noteq> tid \<longrightarrow> map_of (al_transitions m) k = map_of (al_transitions l) k)
   \<and> (\<forall>k. k \<noteq> tx \<longrightarrow> map_of (al_transactions m) k = map_of (al_transactions l) k)"

lemma reserve_publication_eval:
  assumes "is_nat_int (PInt (al_revision l))" "read_ledger f = Inr l"
    "known_reservation_conflict l c tx tid = None"
    "exec_call io (reserve_call c (PInt (al_revision l)) tx tid ts) f = (out, g)"
  shows "reserve_publication io f (PInt (al_revision l)) c tx tid ts rep =
    (case out of Inl e \<Rightarrow> (registration_failed c tx tid ts e, g)
      | Inr d \<Rightarrow> (registration_read_back c tx tid ts rep l d, g))"
  using assms by (simp add: reserve_publication_def reserve_call_def Let_def split: sum.splits)

text \<open>One registration of checked evidence.\<close>

lemma reserve_publication_outcome:
  assumes "reachable_file f" "publication_ok c" "nonblank tx" "nonblank tid" "utc_string ts"
    "reserve_publication io f er c tx tid ts rep = (res, g)"
  obtains (failed) "g = f" "\<not> rg_registration_applied res" "\<not> rg_replay res"
      "rg_result res \<noteq> ''PUBLISHED_SIGNAL_REGISTERED''"
  | (replayed) "g = f" "\<not> rg_registration_applied res" "rg_replay res" "registered f c tx tid"
      "rg_result res \<noteq> ''PUBLISHED_SIGNAL_REGISTERED''" "\<not> rg_partial_success res"
  | (changed) l m where "rg_registration_applied res" "\<not> rg_replay res"
      "rg_result res = ''PUBLISHED_SIGNAL_REGISTERED''" "\<not> rg_partial_success res"
      "read_ledger f = Inr l" "read_ledger g = Inr m" "er = PInt (al_revision l)"
      "al_revision m = al_revision l + 1" "matches_persisted (ledger_doc m) c tx tid"
      "publication_added l c tx tid m"
proof (cases "is_nat_int er \<and> (\<exists>l. read_ledger f = Inr l \<and> er = PInt (al_revision l)
    \<and> known_reservation_conflict l c tx tid = None)")
  case False
  then show thesis
    using assms(6)
    by (intro that(1))
      (auto simp: reserve_publication_def Let_def split: if_splits sum.splits option.splits
        dest: known_conflict_words)
next
  case True
  then obtain l where er: "is_nat_int er" "er = PInt (al_revision l)" and l: "read_ledger f = Inr l"
    and free: "known_reservation_conflict l c tx tid = None"
    by blast
  obtain out g' where run: "exec_call io (reserve_call c er tx tid ts) f = (out, g')"
    by fastforce
  have eval: "(res, g) = (case out of Inl e \<Rightarrow> (registration_failed c tx tid ts e, g')
      | Inr d \<Rightarrow> (registration_read_back c tx tid ts rep l d, g'))"
    using reserve_publication_eval [OF _ l free] assms(6) run er by simp
  show thesis
  proof (cases rule: reserve_run [OF assms(1-5) run, case_names failed kept changed])
    case (failed e)
    then show thesis
      using eval
      by (intro that(1)) simp_all
  next
    case (kept l' x)
    then have "l' = l" using l by simp
    with kept eval have run: "res = registration_read_back c tx tid ts rep l l" "g = f"
      by simp_all
    show thesis
    proof (cases "matches_persisted (ledger_doc l) c tx tid")
      case True
      then show thesis
        using run by (intro that(2)) (simp_all add: registered_def registration_read_back_def l)
    next
      case False
      then show thesis
        using run by (intro that(1)) (simp_all add: registration_read_back_def)
    qed
  next
    case (changed l' x m)
    have same: "l' = l" using l changed(2) by simp
    let ?m = "bump m ts"
    have reach: "reach_ok ?m" using changed(4) assms(5) by (rule reach_ok_bump)
    then have ok: "ledger_ok ?m" by (simp add: reach_ok_def)
    have here: "matches_persisted (ledger_doc ?m) c tx tid"
      by (rule matches_committed [OF ok changed(7) _ _ _ changed(8)]) simp_all
    have there: "matches_persisted (ledger_doc (sorted_ledger ?m)) c tx tid"
      by (rule matches_committed [OF _ changed(7) _ _ _ changed(8)])
        (use ok lookup_sorted_ledger [OF ok] in simp_all)
    have read: "read_ledger g' = Inr (sorted_ledger ?m)"
      using read_persisted [OF reach] changed(6) by simp
    have keys: "tx_signal_id x = pb_signal_id c" "tx_reservation_transition_id x = tid"
      "tx_transaction_id x = tx"
      using changed(8) by (simp_all add: reservation_equivalent_def)
    have "map_of (al_transactions l) tx = None \<Longrightarrow> map_of (al_transitions l) tid = None"
      using free by (auto simp: known_reservation_conflict_def split: if_splits)
    then have added: "publication_added l c tx tid (sorted_ledger ?m)"
      using changed(7,9) lookup_sorted_ledger [OF ok] keys
      by (simp add: publication_added_def committed_with_def same)
    show thesis
      using eval changed(1,5) here read er(2) l added there same
      by (intro that(3) [of l "sorted_ledger ?m"]) (simp_all add: registration_read_back_def Let_def)
  qed
qed

lemma reserve_publication_file:
  "snd (reserve_publication io f er c tx tid ts rep) = f
    \<or> snd (reserve_publication io f er c tx tid ts rep) = snd (exec_call io (reserve_call c er tx tid ts) f)"
  by (auto simp: reserve_publication_def reserve_call_def Let_def
      split: if_splits sum.splits option.splits prod.splits)

lemma register_reachable:
  assumes "reachable_file f" "register_with rep digest io f er ev tid ts = (res, g)"
  shows "reachable_file g"
proof -
  have "g = f \<or> (\<exists>k. g = snd (exec_call io k f))"
    using assms(2) reserve_publication_file
    by (auto simp: register_with_def split: if_splits option.splits) (metis snd_conv)
  with assms(1) call_step.intros reachable_file.step show ?thesis by metis
qed

lemma register_cases:
  assumes "reachable_file f" "hex_digest digest" "register_with rep digest io f er ev tid ts = (res, g)"
  obtains (failed) "g = f" "\<not> rg_registration_applied res" "\<not> rg_replay res"
      "rg_result res \<noteq> ''PUBLISHED_SIGNAL_REGISTERED''"
  | (replayed) c where "validated_context ev = Some c" "g = f" "\<not> rg_registration_applied res"
      "rg_replay res" "registered f c (registration_transaction_id digest c) (the_str tid)"
      "rg_result res \<noteq> ''PUBLISHED_SIGNAL_REGISTERED''"
  | (changed) c l m where "validated_context ev = Some c" "is_utc ts" "is_ident tid"
      "rg_registration_applied res" "\<not> rg_replay res" "rg_result res = ''PUBLISHED_SIGNAL_REGISTERED''"
      "read_ledger f = Inr l" "read_ledger g = Inr m" "er = PInt (al_revision l)"
      "al_revision m = al_revision l + 1"
      "matches_persisted (ledger_doc m) c (registration_transaction_id digest c) (the_str tid)"
      "publication_added l c (registration_transaction_id digest c) (the_str tid) m"
proof (cases "is_utc ts \<and> is_ident tid \<and> validated_context ev \<noteq> None")
  case False
  with assms(3) show thesis
    by (intro that(1)) (auto simp: register_with_def split: if_splits option.splits)
next
  case True
  then obtain c where c: "validated_context ev = Some c" and args: "is_utc ts" "is_ident tid"
    by blast
  have run: "reserve_publication io f er c (registration_transaction_id digest c) (the_str tid)
      (the_str ts) rep = (res, g)"
    using assms(3) c args by (simp add: register_with_def)
  have tid: "nonblank (the_str tid)" and ts: "utc_string (the_str ts)"
    using args by (simp_all add: str_pred_dest)
  show thesis
  proof (cases rule: reserve_publication_outcome [OF assms(1) validated_context_ok [OF c]
        transaction_id_nonblank [OF assms(2)] tid ts run, case_names failed replayed changed])
    case failed
    then show thesis by (rule that(1))
  next
    case replayed
    with c show thesis by (intro that(2))
  next
    case (changed l m)
    with c args show thesis by (intro that(3))
  qed
qed

text \<open>C4. A registration tells exactly what it did: it reports an applied registration just when
  the file changed, and then the ledger it read, at the revision the caller named, has gained the
  publication under the derived transaction and nothing else; a replay is reported only when the
  file already holds the publication.\<close>

theorem registration_outcome:
  assumes "reachable_file f" "hex_digest digest" "register_with repair digest io f er ev tid ts = (res, g)"
  shows "(rg_registration_applied res \<longleftrightarrow> g \<noteq> f)
    \<and> (rg_registration_applied res \<longleftrightarrow> rg_result res = ''PUBLISHED_SIGNAL_REGISTERED'')
    \<and> (rg_registration_applied res \<longrightarrow> (\<exists>c l m. validated_context ev = Some c
         \<and> read_ledger f = Inr l \<and> er = PInt (al_revision l)
         \<and> read_ledger g = Inr m \<and> al_revision m = al_revision l + 1
         \<and> matches_persisted (ledger_doc m) c (registration_transaction_id digest c) (the_str tid)
         \<and> publication_added l c (registration_transaction_id digest c) (the_str tid) m))
    \<and> (rg_replay res \<longrightarrow> (\<exists>c. validated_context ev = Some c
         \<and> registered f c (registration_transaction_id digest c) (the_str tid)))"
proof (cases rule: register_cases [OF assms, case_names failed replayed changed])
  case (changed c l m)
  then have "g \<noteq> f" by auto
  with changed show ?thesis by blast
qed auto

section \<open>When a publication is registered\<close>

text \<open>The ledger has room for the evidence under the derived transaction.\<close>

definition registrable :: "ledger \<Rightarrow> publication \<Rightarrow> string \<Rightarrow> string \<Rightarrow> bool" where
  "registrable l c tx tid \<longleftrightarrow>
    (case map_of (al_transactions l) tx of
       Some x \<Rightarrow> tx_state x = PREPARED \<and> transaction_matches c x \<and> tx_reservation_transition_id x = tid
     | None \<Rightarrow> map_of (al_transitions l) tid = None \<and> map_of (al_signals l) (pb_signal_id c) = None
         \<and> (\<forall>k r. map_of (al_signals l) k = Some r \<longrightarrow> sg_delivery_id r \<noteq> pb_delivery_id c)
         \<and> (\<forall>k t. map_of (al_transactions l) k = Some t \<longrightarrow> tx_signal_id t \<noteq> pb_signal_id c
              \<and> tx_delivery_id t \<noteq> pb_delivery_id c \<and> tx_state t \<noteq> PREPARED))"

lemma list_ex_map_of:
  assumes "distinct (map fst al)"
  shows "list_ex (\<lambda>p. P (snd p)) al \<longleftrightarrow> (\<exists>k v. map_of al k = Some v \<and> P v)"
  using assms by (force simp: list_ex_iff dest: map_of_SomeD)

lemma reservable_iff:
  assumes "ledger_ok l"
  shows "reservable l c \<longleftrightarrow> map_of (al_transactions l) (tx_transaction_id c) = None
    \<and> map_of (al_signals l) (tx_signal_id c) = None
    \<and> (\<forall>k r. map_of (al_signals l) k = Some r \<longrightarrow> sg_delivery_id r \<noteq> tx_delivery_id c)
    \<and> (\<forall>k t. map_of (al_transactions l) k = Some t \<longrightarrow> tx_signal_id t \<noteq> tx_signal_id c
         \<and> tx_delivery_id t \<noteq> tx_delivery_id c \<and> tx_state t \<noteq> PREPARED)"
proof -
  have d: "distinct (map fst (al_signals l))" "distinct (map fst (al_transactions l))"
    using assms by (simp_all add: ledger_ok_def)
  show ?thesis
    unfolding reservable_def pending_conflict_def
      list_ex_map_of [OF d(1), of "\<lambda>r. sg_delivery_id r = tx_delivery_id c"]
      list_ex_map_of [OF d(2), of "\<lambda>t. tx_signal_id t = tx_signal_id c \<or> tx_delivery_id t = tx_delivery_id c"]
      list_ex_map_of [OF d(2), of "\<lambda>t. tx_state t = PREPARED \<and>
        (tx_signal_id t \<noteq> tx_signal_id c \<or> tx_delivery_id t \<noteq> tx_delivery_id c)"]
    by blast
qed

lemma registrable_iff:
  assumes "reach_ok l"
  shows "registrable l c tx tid \<longleftrightarrow> known_reservation_conflict l c tx tid = None
    \<and> ((\<exists>x. map_of (al_transactions l) tx = Some x \<and> tx_state x = PREPARED
          \<and> reservation_equivalent x (reservation c tx tid ts))
       \<or> reservable l (reservation c tx tid ts))"
proof (cases "map_of (al_transactions l) tx")
  case None
  have ok: "ledger_ok l" and d: "distinct (map fst (al_signals l))"
    using assms by (simp_all add: reach_ok_def ledger_ok_def)
  have "list_ex (\<lambda>p. sg_delivery_id (snd p) = pb_delivery_id c) (al_signals l) \<longleftrightarrow>
      (\<exists>k r. map_of (al_signals l) k = Some r \<and> sg_delivery_id r = pb_delivery_id c)"
    by (rule list_ex_map_of [OF d, of "\<lambda>r. sg_delivery_id r = pb_delivery_id c"])
  with None show ?thesis
    unfolding registrable_def known_reservation_conflict_def signal_identity_conflict_def
      reservable_iff [OF ok]
    by (auto split: option.splits)
next
  case (Some x)
  have ok: "ledger_ok l" "pending_ok l"
    using assms by (simp_all add: reach_ok_def)
  have id: "tx_transaction_id x = tx"
    using transaction_okD [OF ok(1) Some] by (simp add: transaction_ok_def)
  have free: "\<not> signal_identity_conflict l c" if "tx_state x = PREPARED" "transaction_matches c x"
    using pending_okD(1,2) [OF ok(2) Some that(1)] that(2)
    by (force simp: signal_identity_conflict_def transaction_matches_def delivery_ids_def list_ex_iff)
  have "\<not> reservable l (reservation c tx tid ts)"
    using Some by (simp add: reservable_def)
  moreover have "reservation_equivalent x (reservation c tx tid ts) \<longleftrightarrow>
      transaction_matches c x \<and> tx_reservation_transition_id x = tid"
    using id by (auto simp: reservation_equivalent_def transaction_matches_def)
  ultimately show ?thesis
    using Some free by (auto simp: registrable_def known_reservation_conflict_def)
qed

lemma registers_iff:
  assumes "reachable_file f" "hex_digest digest" "validated_context ev = Some c" "is_ident tid"
    "is_utc ts" "read_ledger f = Inr l"
  shows "rg_result (fst (register_published_signal digest good_io f (PInt rv) ev tid ts))
      = ''PUBLISHED_SIGNAL_REGISTERED''
    \<longleftrightarrow> rv = al_revision l \<and> normalize_pair (pb_symbol c) \<noteq> None
      \<and> registrable l c (registration_transaction_id digest c) (the_str tid)" (is "?L \<longleftrightarrow> ?R")
proof -
  let ?tx = "registration_transaction_id digest c" and ?tid = "the_str tid" and ?ts = "the_str ts"
  let ?res = "reservation c ?tx ?tid ?ts"
  note ok = validated_context_ok [OF assms(3)] transaction_id_nonblank [OF assms(2), of c]
  have tid: "nonblank ?tid" and ts: "utc_string ?ts"
    using assms(4,5) by (simp_all add: str_pred_dest)
  have reach: "reach_ok l"
    using assms(1,6) by (rule reachable_read)
  then have nat: "is_nat_int (PInt (al_revision l))"
    by (simp add: reach_ok_def ledger_ok_def is_nat_int_def)
  obtain out g where run: "exec_call good_io (reserve_call c (PInt (al_revision l)) ?tx ?tid ?ts) f = (out, g)"
    by fastforce
  obtain res g' where all: "reserve_publication good_io f (PInt rv) c ?tx ?tid ?ts False = (res, g')"
    by fastforce
  have res: "fst (register_published_signal digest good_io f (PInt rv) ev tid ts) = res"
    using assms(3-5) all by (simp add: register_published_signal_def register_with_def)
  note outcome = reserve_publication_outcome [OF assms(1) ok tid ts all, case_names failed replayed changed]
  show ?thesis
    unfolding res
  proof
    assume word: "rg_result res = ''PUBLISHED_SIGNAL_REGISTERED''"
    have rv: "rv = al_revision l" and free: "known_reservation_conflict l c ?tx ?tid = None"
      using all word assms(6)
      by (auto simp: reserve_publication_def Let_def split: if_splits option.splits dest: known_conflict_words)
    have eval: "(res, g') = (case out of Inl e \<Rightarrow> (registration_failed c ?tx ?tid ?ts e, g)
        | Inr d \<Rightarrow> (registration_read_back c ?tx ?tid ?ts False l d, g))"
      using reserve_publication_eval [OF nat assms(6) free run] all rv by simp
    show ?R
    proof (cases rule: reserve_run [OF assms(1) ok tid ts run, case_names failed kept changed])
      case (changed l' x m)
      then show ?thesis
        using rv free assms(6) registrable_iff [OF reach, of c ?tx ?tid ?ts] by auto
    qed (use eval word assms(6) in auto)
  next
    assume R: ?R
    then have free: "known_reservation_conflict l c ?tx ?tid = None"
      and "(\<exists>x. map_of (al_transactions l) ?tx = Some x \<and> tx_state x = PREPARED
          \<and> reservation_equivalent x ?res) \<or> reservable l ?res"
      using registrable_iff [OF reach, of c ?tx ?tid ?ts] by auto
    then obtain m where m: "reserve_handler ?res True (PInt (al_revision l)) ?ts l = Inr (Mutate m ?ts)"
      using reserve_durable_mutates [of ?res "PInt (al_revision l)" ?ts l _ ?ts]
      by (fastforce simp: revision_matches_def)
    have h: "call_handler (reserve_call c (PInt (al_revision l)) ?tx ?tid ?ts) =
        Some (reserve_handler ?res True (PInt (al_revision l)) ?ts)"
      using R transaction_payload_publication [OF ok tid ts] by (simp add: reserve_call_def)
    note sound = sound_handlerD(2,4) [OF call_handler_ok [OF h] reach m]
    have "ledger_ok m"
      using sound(1) by (simp add: reach_ok_def)
    then have "out = Inr (bump m ?ts)" "g = Stored (sort_doc (ledger_doc (bump m ?ts)))"
      using run_locked_mutate [where h = "reserve_handler ?res True (PInt (al_revision l)) ?ts",
          OF assms(1,6) m _ ts] run h
        exec_call_handler [of "reserve_call c (PInt (al_revision l)) ?tx ?tid ?ts" good_io f]
      by (auto simp: reserve_call_def)
    then have "g' = Stored (sort_doc (ledger_doc (bump m ?ts)))"
      using reserve_publication_eval [OF nat assms(6) free run] all R by auto
    moreover have "read_ledger (Stored (sort_doc (ledger_doc (bump m ?ts)))) \<noteq> Inr l"
      using read_persisted [OF reach_ok_bump [OF sound(1) ts]] sound(2) by auto
    ultimately have "g' \<noteq> f" using assms(6) by auto
    then show "rg_result res = ''PUBLISHED_SIGNAL_REGISTERED''"
      by (cases rule: outcome) auto
  qed
qed

text \<open>C24. With a working disk, checked evidence is registered exactly when the caller knows the
  current revision, the symbol is a pair, and the ledger has room for it: a prepared transaction
  with the same content waits under the same transition, or no record knows the signal, the
  delivery or the transition and no publication is pending.\<close>

theorem registration_iff:
  assumes "reachable_file f" "hex_digest digest" "validated_context ev = Some c" "is_ident tid"
    "is_utc ts" "read_ledger f = Inr l"
  shows "rg_result (fst (register_published_signal digest good_io f (PInt rv) ev tid ts))
      = ''PUBLISHED_SIGNAL_REGISTERED''
    \<longleftrightarrow> rv = al_revision l \<and> normalize_pair (pb_symbol c) \<noteq> None
      \<and> registrable l c (registration_transaction_id digest c) (the_str tid)"
  by (rule registers_iff [OF assms])

section \<open>Repeating a registration\<close>

lemma matches_persisted_iff:
  assumes "ledger_ok l"
  shows "matches_persisted (ledger_doc l) c tx tid \<longleftrightarrow>
    (\<exists>r t s. map_of (al_signals l) (pb_signal_id c) = Some r \<and> signal_matches c r
       \<and> sg_state r = PUBLISHED_PENDING_ENTRY \<and> sg_last_transition_id r = tid
     \<and> map_of (al_transactions l) tx = Some t \<and> transaction_matches c t \<and> tx_transaction_id t = tx
       \<and> tx_reservation_transition_id t = tid \<and> tx_state t = OCCUPANCY_COMMITTED
     \<and> map_of (al_transitions l) tid = Some s \<and> tr_operation s = RESERVE
       \<and> tr_signal_id s = pb_signal_id c \<and> tr_to_state s = PUBLISHED_PENDING_ENTRY)"
  using signal_okD [OF assms, of "pb_signal_id c"]
  by (auto simp: matches_persisted_def validate_ledger_doc [OF assms] signal_ok_def split: option.splits)

lemma register_again:
  assumes "reachable_file g" "hex_digest digest" "validated_context ev = Some c" "is_ident tid" "is_utc ts"
    "read_ledger g = Inr m"
    "matches_persisted (ledger_doc m) c (registration_transaction_id digest c) (the_str tid)"
  shows "register_with rep digest good_io g (PInt (al_revision m)) ev tid ts =
    (registration_read_back c (registration_transaction_id digest c) (the_str tid) (the_str ts) rep m m, g)"
proof -
  let ?tx = "registration_transaction_id digest c" and ?tid = "the_str tid" and ?ts = "the_str ts"
  let ?res = "reservation c ?tx ?tid ?ts"
  note pub = validated_context_ok [OF assms(3)] transaction_id_nonblank [OF assms(2), of c]
  have tid: "nonblank ?tid" and ts: "utc_string ?ts"
    using assms(4,5) by (simp_all add: str_pred_dest)
  have ok: "ledger_ok m"
    using assms(1,6) by (rule reachable_ok)
  obtain r t where r: "map_of (al_signals m) (pb_signal_id c) = Some r" "signal_matches c r"
    and t: "map_of (al_transactions m) ?tx = Some t" "transaction_matches c t" "tx_transaction_id t = ?tx"
      "tx_reservation_transition_id t = ?tid" "tx_state t = OCCUPANCY_COMMITTED"
    using assms(7) unfolding matches_persisted_iff [OF ok] by blast
  have free: "known_reservation_conflict m c ?tx ?tid = None"
    using r t by (simp add: known_reservation_conflict_def signal_identity_conflict_def)
  have "reservation_equivalent t ?res"
    using t by (simp add: reservation_equivalent_def transaction_matches_def)
  then have keep: "reserve_handler ?res True (PInt (al_revision m)) ?ts m = Inr (Keep m)"
    using t by (auto simp: reserve_durable_keeps)
  have "normalize_pair (pb_symbol c) \<noteq> None"
    using signal_okD [OF ok r(1)] r(2) by (simp add: signal_ok_def signal_matches_def)
  then have h: "call_handler (reserve_call c (PInt (al_revision m)) ?tx ?tid ?ts) =
      Some (reserve_handler ?res True (PInt (al_revision m)) ?ts)"
    using transaction_payload_publication [OF pub tid ts] by (simp add: reserve_call_def)
  have "exec_call good_io (reserve_call c (PInt (al_revision m)) ?tx ?tid ?ts) g = (Inr m, g)"
    using exec_call_handler [of "reserve_call c (PInt (al_revision m)) ?tx ?tid ?ts" good_io g] h keep
    by (auto simp: reserve_call_def run_locked_good [OF assms(6)])
  from reserve_publication_eval [OF _ assms(6) free this] ok assms(3-5) show ?thesis
    by (simp add: register_with_def ledger_ok_def is_nat_int_def)
qed

text \<open>A registration can be repeated: after a registration was applied, the same evidence under
  the same transition is a replay that leaves the file alone, for the repair operation it is
  already present, and an inspection of the ledger finds it.\<close>

theorem registration_repeats:
  assumes "reachable_file f" "hex_digest digest" "register_with repair digest io f er ev tid ts = (res, g)"
    "rg_registration_applied res" "read_ledger g = Inr m" "is_utc ts'"
  shows "\<exists>again present. register_published_signal digest good_io g (PInt (al_revision m)) ev tid ts' = (again, g)
      \<and> rg_result again = ''PUBLISHED_SIGNAL_REGISTRATION_REPLAYED'' \<and> rg_replay again
    \<and> reconcile_published_signal_registration digest good_io g (PInt (al_revision m)) ev tid ts' = (present, g)
      \<and> rg_result present = ''REGISTRATION_ALREADY_PRESENT''
    \<and> rg_result (inspect_published_signal_registration digest (ledger_doc m) ev tid ts')
      = ''REGISTRATION_ALREADY_PRESENT''"
proof (cases rule: register_cases [OF assms(1-3), case_names failed replayed changed])
  case (changed c l m')
  have m: "m' = m" using changed(8) assms(5) by simp
  note again = register_again [OF register_reachable [OF assms(1,3)] assms(2) changed(1,3) assms(6,5)
      changed(11) [unfolded m]]
  have ok: "ledger_ok m"
    using reachable_ok [OF register_reachable [OF assms(1,3)] assms(5)] .
  obtain r t where "map_of (al_signals m) (pb_signal_id c) = Some r" "signal_matches c r"
    "map_of (al_transactions m) (registration_transaction_id digest c) = Some t" "transaction_matches c t"
    "tx_transaction_id t = registration_transaction_id digest c" "tx_reservation_transition_id t = the_str tid"
    using changed(11) unfolding m matches_persisted_iff [OF ok] by blast
  then have "inspect_relation m c (registration_transaction_id digest c) (the_str tid)
      = ''REGISTRATION_ALREADY_PRESENT''"
    using changed(11) m by (simp add: inspect_relation_def signal_identity_conflict_def)
  then have "rg_result (inspect_published_signal_registration digest (ledger_doc m) ev tid ts')
      = ''REGISTRATION_ALREADY_PRESENT''"
    using changed(1,3) assms(6)
    by (simp add: inspect_published_signal_registration_def validate_ledger_doc [OF ok] Let_def
        common_fields_def plain_registration_def)
  with again changed(11) m show ?thesis
    by (simp add: register_published_signal_def reconcile_published_signal_registration_def
        registration_read_back_def)
qed (use assms(4) in auto)

section \<open>A concrete registration\<close>

definition demo_evidence :: pv where
  "demo_evidence = PDict [(''delivery_state'', PStr ''DELIVERY_SUCCEEDED''), (''signal_id'', PStr ''s1''),
     (''delivery_id'', PStr ''d1''), (''mode'', PStr ''SWING''),
     (''publication_payload'', PDict [(''symbol'', PStr ''BTC/USDT''), (''mode'', PStr ''SWING'')]),
     (''published_at'', PStr demo_time), (''source_payload_hash'', PStr demo_hash),
     (''publication_payload_hash'', PStr demo_hash)]"

definition demo_publication :: publication where
  "demo_publication = \<lparr>pb_signal_id = ''s1'', pb_delivery_id = ''d1'', pb_mode = SWING,
     pb_symbol = ''BTC/USDT'', pb_published_at = demo_time, pb_source_payload_hash = demo_hash,
     pb_publication_payload_hash = demo_hash, pb_identity_hash = None\<rparr>"

lemma demo_context: "validated_context demo_evidence = Some demo_publication"
  by code_simp

lemma constant_digest: "hex_digest (\<lambda>d. demo_hash)"
  by (simp add: hex_digest_def, code_simp)

lemma demo_args: "is_ident (PStr ''t1'')" "is_utc (PStr demo_time)"
  "normalize_pair (pb_symbol demo_publication) \<noteq> None" "al_revision demo_empty = 0"
  by code_simp+

lemma demo_registrable:
  "read_ledger (ledger_file demo_empty) = Inr demo_empty"
  "registrable demo_empty demo_publication (registration_transaction_id (\<lambda>d. demo_hash) demo_publication)
     (the_str (PStr ''t1''))"
  using read_persisted [OF demo_empty_run(3)]
  by (simp_all add: ledger_file_def demo_sorted registrable_def demo_empty_def)

abbreviation demo_register :: "registration_result \<times> disk_file" where
  "demo_register \<equiv> register_published_signal (\<lambda>d. demo_hash) good_io (ledger_file demo_empty) (PInt 0)
     demo_evidence (PStr ''t1'') (PStr demo_time)"

lemma registration_iff_witness: "rg_result (fst demo_register) = ''PUBLISHED_SIGNAL_REGISTERED''"
  using registration_iff [OF demo_empty_run(2) constant_digest demo_context demo_args(1,2)
      demo_registrable(1), of 0] demo_args(3,4) demo_registrable(2) by simp

lemma demo_register_run:
  "register_with False (\<lambda>d. demo_hash) good_io (ledger_file demo_empty) (PInt 0) demo_evidence
     (PStr ''t1'') (PStr demo_time) = (fst demo_register, snd demo_register)"
  by (simp add: register_published_signal_def)

lemma demo_applied:
  "rg_registration_applied (fst demo_register) \<and> (\<exists>m. read_ledger (snd demo_register) = Inr m)"
proof -
  have "rg_result (fst demo_register) = ''PUBLISHED_SIGNAL_REGISTERED''"
    using registers_iff [OF demo_empty_run(2) constant_digest demo_context demo_args(1,2)
        demo_registrable(1), of 0] demo_args(3,4) demo_registrable(2) by simp
  then show ?thesis
    by (cases rule: register_cases [OF demo_empty_run(2) constant_digest demo_register_run]) auto
qed

lemma registration_outcome_witness:
  "snd demo_register \<noteq> ledger_file demo_empty \<and> (\<exists>m. read_ledger (snd demo_register) = Inr m \<and> al_revision m = 1)"
  using registration_outcome [OF demo_empty_run(2) constant_digest demo_register_run] demo_applied
    demo_registrable(1)
  by (auto simp: demo_args(4))

lemma registration_repeats_witness:
  "\<exists>(m :: ledger) again. register_published_signal (\<lambda>d. demo_hash) good_io (snd demo_register) (PInt (al_revision m))
      demo_evidence (PStr ''t1'') (PStr demo_time) = (again, snd demo_register) \<and> rg_replay again"
proof -
  obtain m where m: "read_ledger (snd demo_register) = Inr m"
    using demo_applied by blast
  obtain again where "register_published_signal (\<lambda>d. demo_hash) good_io (snd demo_register)
      (PInt (al_revision m)) demo_evidence (PStr ''t1'') (PStr demo_time) = (again, snd demo_register)"
    "rg_replay again"
    using registration_repeats [OF demo_empty_run(2) constant_digest demo_register_run
        conjunct1 [OF demo_applied] m demo_args(2)] by (elim exE conjE) (rule that)
  then show ?thesis
    by blast
qed

end
