(* ===== verification/Signal_Lifecycle_Props.thy ===== *)
theory Signal_Lifecycle_Props
  imports Signal_Lifecycle Terminal_Refill_Props
begin

text \<open>
  The properties of the lifecycle service: what its results say about the files, and the load
  error its entry operation does not classify.
\<close>

section \<open>Entry\<close>

lemma lifecycle_result_simps [simp]:
  "sl_result (plain_lifecycle w p t e) = w" "sl_entry_applied (plain_lifecycle w p t e) = False"
  "sl_replay (plain_lifecycle w p t e) = False" "sl_terminal_applied (plain_lifecycle w p t e) = False"
  "sl_refill_reconciled (plain_lifecycle w p t e) = False"
  "sl_partial_success (plain_lifecycle w p t e) = False"
  "sl_result (entry_failed w e v a b) = w" "sl_entry_applied (entry_failed w e v a b) = False"
  "sl_replay (entry_failed w e v a b) = False"
  "sl_result (entry_result w c x b1 b2 e) = w" "sl_entry_applied (entry_result w c x b1 b2 e) = b1"
  "sl_replay (entry_result w c x b1 b2 e) = b2"
  by (simp_all add: plain_lifecycle_def entry_failed_def entry_result_def)

lemma entry_run:
  assumes "reachable_file f" "mark_entry_active io f er k sid ea u rc = (res, g)"
  obtains (failed) e where "res = Inl e" "g = f"
  | (kept) l where "res = Inr l" "ledger_ok l" "read_ledger f = Inr l" "g = f"
  | (changed) l r m c where "res = Inr m" "ledger_ok m" "read_ledger f = Inr l" "ledger_ok l"
      "read_ledger g = Inr (sorted_ledger m)" "al_revision m = al_revision l + 1"
      "map_of (al_signals l) sid = Some r" "sg_state r = PUBLISHED_PENDING_ENTRY"
      "capacity (al_signals l) (sg_mode r) < style_capacity (sg_mode r)"
      "\<not> pair_taken l sid (normalize_pair (sg_symbol r))" "revision_matches l er"
      "map_of (al_transitions l) k = None" "entry_context (ledger_doc m) sid k = Inr c"
proof -
  let ?call = "Mark_Entry_Active er k sid ea u rc"
  have exec: "exec_call io ?call f = (res, g)"
    using assms(2) by simp
  show thesis
  proof (cases rule: exec_call_cases [where c = ?call and io = io and f = f,
        case_names init rejected handled])
    case (init t)
    then show thesis by simp
  next
    case (rejected e)
    then show thesis
      using exec that(1) [of e] by auto
  next
    case (handled h)
    then have h: "h = entry_handler er k sid (the_str ea) (the_str u) (rc = PBool True)" "is_utc ea"
      by (cases rc; auto split: if_splits)+
    have run: "run_locked io f h = (res, g)"
      using handled(2) exec by simp
    show thesis
    proof (cases rule: run_locked_outcome [OF reachable_file_ok [OF assms(1)] call_handler_ok [OF handled(1)]
          run, case_names failed kept changed])
      case (failed e)
      then show thesis by (rule that(1))
    next
      case (kept l)
      then show thesis
        by (intro that(2)) (simp_all add: reach_ok_def)
    next
      case (changed l m t)
      have ok: "ledger_ok (bump m t)" "ledger_ok l"
        using changed(2,4,5) reach_ok_bump by (simp_all add: reach_ok_def)
      obtain r c where r: "map_of (al_signals l) sid = Some r" "map_of (al_transitions l) k = None"
        "revision_matches l er" "sg_state r = PUBLISHED_PENDING_ENTRY"
        "capacity (al_signals l) (sg_mode r) < style_capacity (sg_mode r)"
        "\<not> pair_taken l sid (normalize_pair (sg_symbol r))"
        and c: "transition_payload ENTRY k sid PUBLISHED_PENDING_ENTRY ENTRY_ACTIVE (the_str ea) None
          (al_revision l + 1) = Inr c"
        and m: "m = l\<lparr>al_signals := AList.update sid (r\<lparr>sg_state := ENTRY_ACTIVE,
                sg_entry_at := Some (the_str ea), sg_last_transition_id := k,
                sg_updated_at := the_str u\<rparr>) (al_signals l),
             al_transitions := AList.update k c (al_transitions l)\<rparr>"
        using changed(3) unfolding h(1) entry_handler_mutates by blast
      have "\<exists>x. entry_context (ledger_doc (bump m t)) sid k = Inr x"
        using m c validate_ledger_doc [OF ok(1)]
        by (cases "sg_mode r") (auto simp: entry_context_def transition_payload_def bump_def styles_def
            split: if_splits)
      moreover have "read_ledger g = Inr (sorted_ledger (bump m t))"
        using changed(8) by (simp add: read_ledger_def validate_sorted_doc [OF ok(1)])
      ultimately show thesis
        using changed(1,6,7) ok r by (elim exE) (rule that(3), simp_all)
    qed
  qed
qed

lemma entry_context_iff:
  assumes "ledger_ok l"
  shows "entry_context (ledger_doc l) sid k = Inr c \<longleftrightarrow>
    (\<exists>t r. map_of (al_transitions l) k = Some t \<and> map_of (al_signals l) sid = Some r
      \<and> tr_operation t = ENTRY \<and> tr_signal_id t = sid \<and> tr_from_state t = Some PUBLISHED_PENDING_ENTRY
      \<and> tr_to_state t = ENTRY_ACTIVE \<and> sg_state r = ENTRY_ACTIVE \<and> sg_last_transition_id r = k
      \<and> sg_entry_at r = Some (tr_occurred_at t) \<and> utc_string (tr_occurred_at t)
      \<and> c = \<lparr>en_signal_id = sid, en_mode = sg_mode r,
           en_previous_state = lifecycle_str PUBLISHED_PENDING_ENTRY,
           en_current_state = lifecycle_str ENTRY_ACTIVE,
           en_transition_id = k, en_active_revision = al_revision l\<rparr>)"
proof -
  have "m \<in> set styles" for m
    by (cases m) (simp_all add: styles_def)
  then show ?thesis
    by (auto simp: entry_context_def validate_ledger_doc [OF assms] split: option.splits if_splits)
qed

text \<open>The signal is active in the file since the transition.\<close>

definition entry_recorded :: "disk_file \<Rightarrow> string \<Rightarrow> string \<Rightarrow> bool" where
  "entry_recorded f sid k =
    (\<exists>l t r. read_ledger f = Inr l \<and> map_of (al_transitions l) k = Some t \<and> tr_operation t = ENTRY
      \<and> tr_signal_id t = sid \<and> map_of (al_signals l) sid = Some r \<and> sg_state r = ENTRY_ACTIVE
      \<and> sg_last_transition_id r = k \<and> sg_entry_at r = Some (tr_occurred_at t))"

lemma entry_recordedI:
  assumes "ledger_ok m" "entry_context (ledger_doc m) sid k = Inr c" "read_ledger g = Inr l"
    "map_of (al_transitions l) = map_of (al_transitions m)" "map_of (al_signals l) = map_of (al_signals m)"
  shows "entry_recorded g sid k"
  using assms by (auto simp: entry_recorded_def entry_context_iff)

text \<open>The signal may enter: it is pending, its style has a free slot, its pair is not traded.\<close>

definition may_enter :: "disk_file \<Rightarrow> string \<Rightarrow> pv \<Rightarrow> bool" where
  "may_enter f sid er =
    (\<exists>l r. read_ledger f = Inr l \<and> er = PInt (al_revision l) \<and> map_of (al_signals l) sid = Some r
      \<and> sg_state r = PUBLISHED_PENDING_ENTRY \<and> capacity (al_signals l) (sg_mode r) < 3
      \<and> (\<forall>k q. map_of (al_signals l) k = Some q \<longrightarrow> sg_state q = ENTRY_ACTIVE \<longrightarrow>
           normalize_pair (sg_symbol q) \<noteq> normalize_pair (sg_symbol r)))"

text \<open>What the result of an entry says about the file: it reports an applied entry exactly
  when the file changed, and then the signal was free to enter before and is active under the
  transition after; it reports a replay only when the file already records that entry.\<close>

theorem activate_entry_outcome:
  assumes "reachable_file f" "activate_signal_entry io f er tid sid ea ts rc = (Inr res, g)"
  shows "(sl_entry_applied res \<longleftrightarrow> g \<noteq> f)
    \<and> (sl_result res = ''ENTRY_ACTIVATED'' \<longleftrightarrow> sl_entry_applied res)
    \<and> (sl_result res = ''ENTRY_REPLAYED'' \<longleftrightarrow> sl_replay res)
    \<and> (sl_entry_applied res \<longrightarrow> may_enter f (the_str sid) er)
    \<and> (sl_entry_applied res \<or> sl_replay res \<longrightarrow> entry_recorded g (the_str sid) (the_str tid))"
proof (cases "is_utc ts \<and> is_utc ea \<and> is_ident tid \<and> is_ident sid \<and> is_nat_int er
    \<and> (\<exists>l. read_ledger f = Inr l)")
  case False
  then show ?thesis
    using assms(2) by (auto simp: activate_signal_entry_def Let_def split: if_splits sum.splits)
next
  case True
  then obtain before where before: "read_ledger f = Inr before"
    by blast
  obtain mres g' where run: "mark_entry_active io f er (the_str tid) (the_str sid) ea ts rc = (mres, g')"
    by fastforce
  have words: "fst (active_failure e) \<notin> {''ENTRY_ACTIVATED'', ''ENTRY_REPLAYED''}" for e
    by (simp add: active_failure_def)
  note unfold = assms(2) [unfolded activate_signal_entry_def Let_def] True before run
  show ?thesis
  proof (cases rule: entry_run [OF assms(1) run, case_names failed kept changed])
    case (failed e)
    then show ?thesis
      using unfold words by (auto split: if_splits)
  next
    case (kept l)
    then have l: "l = before"
      using before by simp
    show ?thesis
    proof (cases "entry_context (ledger_doc l) (the_str sid) (the_str tid)")
      case (Inl x)
      with kept l show ?thesis
        using unfold by auto
    next
      case (Inr c)
      with kept l show ?thesis
        using unfold entry_recordedI [OF kept(2) Inr kept(3)] by auto
    qed
  next
    case (changed l r m c)
    then have l: "l = before"
      using before by simp
    have enter: "may_enter f (the_str sid) er"
      using changed(3,7,8,9,10,11) pair_taken_iff [OF changed(4,7,8)]
      by (auto simp: may_enter_def style_capacity_def revision_matches_def)
    have recorded: "entry_recorded g' (the_str sid) (the_str tid)"
      using entry_recordedI [OF changed(2,13,5) lookup_sorted_ledger(2,1) [OF changed(2)]] .
    have "g' \<noteq> f"
      using changed(3,5,6) by auto
    with changed l enter recorded show ?thesis
      using unfold by auto
  qed
qed

text \<open>One entry on the file of the concrete run.\<close>

lemma activate_entry_outcome_witness:
  "case activate_signal_entry good_io (ledger_file demo_published) (PInt 1) (PStr ''t2'') (PStr ''s1'')
      (PStr demo_time) (PStr demo_time) (PBool False) of
     (Inr res, g) \<Rightarrow> sl_entry_applied res \<longleftrightarrow> g \<noteq> ledger_file demo_published
   | _ \<Rightarrow> False"
proof -
  have "is_utc (PStr demo_time)" "is_ident (PStr ''t2'')" "is_ident (PStr ''s1'')" "is_nat_int (PInt 1)"
    by code_simp+
  then have "\<exists>res g. activate_signal_entry good_io (ledger_file demo_published) (PInt 1) (PStr ''t2'')
      (PStr ''s1'') (PStr demo_time) (PStr demo_time) (PBool False) = (Inr res, g)"
    by (simp add: activate_signal_entry_def demo_reads Let_def split: sum.splits prod.splits)
  then show ?thesis
    using activate_entry_outcome [OF demo_published_run(1)] by (auto split: sum.splits prod.splits)
qed

text \<open>A ledger that cannot be loaded makes the entry operation raise: its handler of ledger
  errors reads a variable that is not bound yet, so the failure is not classified.\<close>

theorem entry_load_error_escapes:
  "activate_signal_entry io f er tid sid ea ts rc = (Inl Unbound_Local_Error, g) \<longleftrightarrow>
    g = f \<and> is_utc ts \<and> is_utc ea \<and> is_ident tid \<and> is_ident sid \<and> is_nat_int er
    \<and> (\<exists>e. read_ledger f = Inl e \<and> e \<noteq> Py_Type_Error)"
  by (auto simp: activate_signal_entry_def Let_def split: sum.splits prod.splits)

section \<open>Repair after a restart\<close>

lemma reconcile_fresh:
  assumes "hex_digest digest" "reachable_refill digest fr" "is_utc ts"
    and c: "terminal_context al tid er (the_str ts) = Inr (Inr c)" "identity_ok (context_identity c)"
      "0 \<le> cx_source_revision c"
    and n: "read_or_empty digest (Some ts) fr = Inr n" "map_of (rl_sources n) (cx_transition_id c) = None"
      "map_of (rl_requests n) (derive_refill_request_id digest (context_identity c)) = None"
  shows "dc_decision (fst (reconcile_terminal_refill digest good_io fr al tid er PNone ts))
    = ''REQUEST_RECONCILED''"
proof -
  let ?i = "context_identity c"
  let ?h = "reconcile_transition_handler digest ?i (PInt (cx_source_revision c)) (the_str ts) PNone"
  have i: "request_identity (PStr (cx_transition_id c)) (PStr (cx_signal_id c))
      (PStr (style_str (cx_mode c))) (PStr (lifecycle_str (cx_terminal_state c))) = Inr ?i"
    using request_identity_complete [OF c(2)] by (simp add: context_identity_def)
  obtain m where h: "?h n = Inr (Mutate m (the_str ts))"
    and m: "map_of (rl_requests m) (derive_refill_request_id digest ?i) \<noteq> None"
    using n c(3) by (auto simp: reconcile_transition_mutates context_identity_def is_nat_int_def)
  have reach: "refill_reach digest n"
    using reachable_refill_read [OF assms(1,2) n(1)] assms(3) by simp
  have "utc_string (the_str ts)"
    using assms(3) by (cases ts) (simp_all add: is_utc_def)
  note sound = reconcile_transition_ok [OF assms(1) c(2) this]
  have "run_refill digest good_io (Some ts) fr ?h =
      (Inr (refill_bump m (the_str ts)), Stored (sort_doc (refill_doc (refill_bump m (the_str ts)))))"
    using persist_refill_ok sound_handlerD(2,3) [OF sound reach h]
    by (simp add: run_refill_good [OF n(1)] h)
  then have run: "reconcile_terminal_transition digest good_io fr (PStr (cx_transition_id c))
      (PStr (cx_signal_id c)) (PStr (style_str (cx_mode c))) (PStr (lifecycle_str (cx_terminal_state c)))
      (PInt (cx_source_revision c)) ts PNone =
      (Inr (refill_bump m (the_str ts)), Stored (sort_doc (refill_doc (refill_bump m (the_str ts)))))"
    using i assms(3) by (simp add: reconcile_terminal_transition_def)
  have "load_refill_ledger digest fr ts = Inr n"
    using n(1) assms(3) by (cases ts) (simp_all add: load_refill_ledger_def is_utc_def)
  with c(1) i n m assms(3) run show ?thesis
    by (auto simp: reconcile_terminal_refill_def reconcile_context_def refill_bump_def)
qed

lemma transition_context_source:
  "transition_context l k t = Some c \<Longrightarrow> cx_source_revision c = tr_ledger_revision t"
  by (auto simp: transition_context_iff)

text \<open>C31. A partial success can be repaired: once the disk works again, the restart operation
  records the refill request of any recorded terminal transition whose state the refill ledger
  accepts, whatever happened before.\<close>

theorem restart_repairs_refill:
  assumes "hex_digest digest" "reachable_file fa" "reachable_refill digest fr"
    "read_ledger fa = Inr l" "persisted_context (ledger_doc l) tid = Inr c"
    "cx_terminal_state c \<in> set refill_terminal_states" "is_utc ts"
    "read_or_empty digest (Some ts) fr = Inr n" "map_of (rl_sources n) (cx_transition_id c) = None"
    "map_of (rl_requests n) (derive_refill_request_id digest (context_identity c)) = None"
  shows "\<exists>res g m. reconcile_terminal_refill_after_restart digest good_io fa fr (PInt (al_revision l))
      PNone tid ts = (res, g)
    \<and> sl_result res = ''TERMINAL_AND_REFILL_RECONCILED'' \<and> sl_refill_reconciled res
    \<and> \<not> sl_partial_success res
    \<and> read_or_empty digest None g = Inr m \<and> holds_request digest m (context_identity c)"
proof -
  have ok: "ledger_ok l"
    using reachable_ok assms(2,4) by blast
  note p = persisted_context_recorded [OF ok assms(5)]
  obtain t where t: "map_of (al_transitions l) (cx_transition_id c) = Some t" "nonblank (cx_transition_id c)"
    "transition_context l (cx_transition_id c) t = Some c"
    using assms(5) p(1) persisted_context_iff [OF ok] by metis
  obtain r where r: "map_of (al_signals l) (cx_signal_id c) = Some r"
    using p(2) by (auto simp: terminal_recorded_def)
  have "cx_source_revision c = tr_ledger_revision t"
    by (rule transition_context_source [OF t(3)])
  moreover have "\<forall>q \<in> set (al_transitions l). 0 \<le> tr_ledger_revision (snd q)" "0 \<le> al_revision l"
    using ok by (auto simp: ledger_ok_def transition_ok_def)
  ultimately have rev: "0 \<le> cx_source_revision c" "0 \<le> al_revision l"
    using map_of_SomeD [OF t(1)] by auto
  have ident: "identity_ok (context_identity c)"
    using t(2) assms(6) ledger_signal_id [OF ok r] by (simp add: identity_ok_def context_identity_def)
  obtain d g where d: "reconcile_terminal_refill digest good_io fr (ledger_doc l)
      (PStr (cx_transition_id c)) (PInt (cx_active_revision c)) PNone ts = (d, g)"
    by fastforce
  have word: "dc_decision d = ''REQUEST_RECONCILED''"
    using reconcile_fresh [OF assms(1,3,7) p(3) ident rev(1) assms(8-10)] p(1) d by simp
  have "is_ident tid"
    using p(1) t(2) by simp
  then have run: "reconcile_terminal_refill_after_restart digest good_io fa fr (PInt (al_revision l)) PNone tid ts =
      (terminal_result (reconcile_result digest c d (the_str ts) False False True)
         ''TERMINAL_REFILL_REPAIR'' (the_str ts), g)"
    using assms(4,5,7) d rev(2)
    by (simp add: reconcile_terminal_refill_after_restart_def reconcile_existing_terminal_refill_def
        is_nat_int_def)
  show ?thesis
  proof (cases rule: reconcile_terminal_outcome [OF assms(1,3) d, case_names failed recorded])
    case failed
    with word show ?thesis
      by (simp add: reconciled_def)
  next
    case (recorded c' m)
    have "c' = c"
      using recorded(2) p(1,3) by (metis old.sum.inject(2))
    with recorded word show ?thesis
      unfolding run
      by (simp add: terminal_result_def reconcile_result_def context_result_def lifecycle_word_def)
  qed
qed

text \<open>The restart operation on the closed signal of the concrete run, with no refill file yet.\<close>

definition demo_info :: terminal_info where
  "demo_info = \<lparr>cx_transition_id = ''t3'', cx_signal_id = ''s1'', cx_mode = SWING,
     cx_terminal_state = CLOSED_PROFIT, cx_source_revision = 3, cx_active_revision = 3\<rparr>"

lemma restart_repairs_refill_witness:
  "\<exists>res g m. reconcile_terminal_refill_after_restart demo_digest good_io (ledger_file demo_closed) Absent
      (PInt 3) PNone (PStr ''t3'') (PStr demo_time) = (res, g)
    \<and> sl_result res = ''TERMINAL_AND_REFILL_RECONCILED''
    \<and> read_or_empty demo_digest None g = Inr m \<and> holds_request demo_digest m demo_identity"
proof -
  have "map_option (\<lambda>t. transition_context demo_closed ''t3'' t) (map_of (al_transitions demo_closed) ''t3'')
      = Some (Some demo_info)" "nonblank ''t3''"
    by code_simp+
  then have context_ok: "persisted_context (ledger_doc demo_closed) (PStr ''t3'') = Inr demo_info"
    using persisted_context_iff [of demo_closed] demo_closed_run(2) by (auto simp: reach_ok_def)
  obtain n where n: "read_or_empty demo_digest (Some (PStr demo_time)) Absent = Inr n"
    "rl_sources n = []" "rl_requests n = []"
    by (simp add: read_or_empty_def create_empty_refill_ledger_def is_utc_def)
  have "cx_terminal_state demo_info \<in> set refill_terminal_states" "is_utc (PStr demo_time)"
    "al_revision demo_closed = 3" "context_identity demo_info = demo_identity"
    by code_simp+
  with restart_repairs_refill [OF demo_digest_hex demo_closed_run(1) reachable_refill.start demo_reads(3)
      context_ok _ _ n(1)] n(2,3)
  show ?thesis by simp blast
qed

end
