(* ===== verification/Production_Flow_Props.thy ===== *)
theory Production_Flow_Props
  imports Production_Flow Publication_Registration_Props Signal_Lifecycle_Props
begin

text \<open>
  The way of a publication through the production flow: a registered publication can be entered
  and ended, and its end leaves the refill request.
\<close>

section \<open>Entry and end on a working disk\<close>

lemma read_ledger_file: "reach_ok m \<Longrightarrow> read_ledger (ledger_file m) = Inr (sorted_ledger m)"
  by (simp add: ledger_file_def read_persisted)

lemma reachable_call: "reachable_file f \<Longrightarrow> exec_call io k f = (res, g) \<Longrightarrow> reachable_file g"
  using call_step.intros [of f io k] reachable_file.step by auto

text \<open>The ledger after one signal was moved by a new transition.\<close>

definition moved :: "ledger \<Rightarrow> string \<Rightarrow> signal \<Rightarrow> string \<Rightarrow> transition \<Rightarrow> ledger \<Rightarrow> bool" where
  "moved l sid r k t m \<longleftrightarrow> reach_ok m \<and> al_revision m = al_revision l + 1
     \<and> map_of (al_signals m) = (map_of (al_signals l))(sid \<mapsto> r)
     \<and> map_of (al_transitions m) = (map_of (al_transitions l))(k \<mapsto> t)"

lemma call_moves:
  assumes "reachable_file f" "read_ledger f = Inr l" "utc_string u" "h l = Inr (Mutate m u)"
    "call_handler c = Some h"
    "m = l\<lparr>al_signals := AList.update sid r (al_signals l),
           al_transitions := AList.update k t (al_transitions l)\<rparr>"
  shows "exec_call good_io c f = (Inr (bump m u), ledger_file (bump m u))"
    "moved l sid r k t (bump m u)" "reachable_file (ledger_file (bump m u))"
proof -
  have reach: "reach_ok l"
    using assms(1,2) by (rule reachable_read)
  note sound = sound_handlerD(2) [OF call_handler_ok [OF assms(5)] reach assms(4)]
  show run: "exec_call good_io c f = (Inr (bump m u), ledger_file (bump m u))"
    using exec_eval(1) [OF assms(2) reach assms(5,4)] by (simp add: ledger_file_def)
  show "moved l sid r k t (bump m u)"
    using sound assms(3,6) by (simp add: moved_def reach_ok_bump)
  show "reachable_file (ledger_file (bump m u))"
    using assms(1) run by (rule reachable_call)
qed

lemma entry_moves:
  assumes "reachable_file f" "read_ledger f = Inr l" "utc_string ea" "utc_string u" "nonblank k"
    "map_of (al_transitions l) k = None" "map_of (al_signals l) sid = Some r"
    "sg_state r = PUBLISHED_PENDING_ENTRY" "capacity (al_signals l) (sg_mode r) < 3"
    "\<forall>j q. map_of (al_signals l) j = Some q \<longrightarrow> sg_state q = ENTRY_ACTIVE \<longrightarrow>
       normalize_pair (sg_symbol q) \<noteq> normalize_pair (sg_symbol r)"
  obtains m t where
    "mark_entry_active good_io f (PInt (al_revision l)) k sid (PStr ea) (PStr u) (PBool b)
       = (Inr m, ledger_file m)"
    "moved l sid (r\<lparr>sg_state := ENTRY_ACTIVE, sg_entry_at := Some ea, sg_last_transition_id := k,
       sg_updated_at := u\<rparr>) k t m" "reachable_file (ledger_file m)"
    "transition_payload ENTRY k sid PUBLISHED_PENDING_ENTRY ENTRY_ACTIVE ea None (al_revision l + 1) = Inr t"
proof -
  have ok: "ledger_ok l"
    using assms(1,2) by (rule reachable_ok)
  obtain t where t: "transition_payload ENTRY k sid PUBLISHED_PENDING_ENTRY ENTRY_ACTIVE ea None
      (al_revision l + 1) = Inr t"
    using assms(3,5) ledger_signal_id [OF ok assms(7)] by (simp add: transition_payload_def)
  have h: "call_handler (Mark_Entry_Active (PInt (al_revision l)) k sid (PStr ea) (PStr u) (PBool b)) =
      Some (entry_handler (PInt (al_revision l)) k sid ea u b)"
    using assms(3,4) by (simp add: is_utc_def)
  have "entry_handler (PInt (al_revision l)) k sid ea u b l = Inr (Mutate (l\<lparr>
      al_signals := AList.update sid (r\<lparr>sg_state := ENTRY_ACTIVE, sg_entry_at := Some ea,
        sg_last_transition_id := k, sg_updated_at := u\<rparr>) (al_signals l),
      al_transitions := AList.update k t (al_transitions l)\<rparr>) u)"
    using assms t capacity_total_bound [OF ok, of "sg_mode r"]
      pair_taken_iff [OF ok assms(7,8), of "normalize_pair (sg_symbol r)"]
    by (simp add: entry_handler_mutates revision_matches_def style_capacity_def)
  from call_moves [OF assms(1,2,4) this h refl] t show thesis
    by (intro that) simp_all
qed

lemma terminal_moves:
  assumes "reachable_file f" "read_ledger f = Inr l" "utc_string ta" "utc_string u" "nonblank k"
    "nonblank reason" "map_of (al_transitions l) k = None" "map_of (al_signals l) sid = Some r"
    "st \<in> set terminal_states"
    "sg_state r = PUBLISHED_PENDING_ENTRY \<or> sg_state r = ENTRY_ACTIVE \<and> st \<noteq> EXPIRED"
  obtains m t where
    "transition_terminal good_io f (PInt (al_revision l)) k sid (PStr (lifecycle_str st)) (PStr ta)
       (PStr reason) (PStr u) (PBool b) = (Inr m, ledger_file m)"
    "moved l sid (r\<lparr>sg_state := st, sg_terminal_at := Some ta, sg_terminal_reason := Some reason,
       sg_last_transition_id := k, sg_updated_at := u\<rparr>) k t m" "reachable_file (ledger_file m)"
    "transition_payload TERMINAL k sid (sg_state r) st ta (Some reason) (al_revision l + 1) = Inr t"
proof -
  have ok: "ledger_ok l"
    using assms(1,2) by (rule reachable_ok)
  obtain t where t: "transition_payload TERMINAL k sid (sg_state r) st ta (Some reason)
      (al_revision l + 1) = Inr t"
    using assms(3,5,6) ledger_signal_id [OF ok assms(8)] by (simp add: transition_payload_def)
  have h: "call_handler (Transition_Terminal (PInt (al_revision l)) k sid (PStr (lifecycle_str st))
      (PStr ta) (PStr reason) (PStr u) (PBool b)) =
      Some (terminal_handler (PInt (al_revision l)) k sid st ta reason u b)"
    using assms(3,4,6,9) by (simp add: is_utc_def is_ident_def)
  have "terminal_handler (PInt (al_revision l)) k sid st ta reason u b l = Inr (Mutate (l\<lparr>
      al_signals := AList.update sid (r\<lparr>sg_state := st, sg_terminal_at := Some ta,
        sg_terminal_reason := Some reason, sg_last_transition_id := k, sg_updated_at := u\<rparr>) (al_signals l),
      al_transitions := AList.update k t (al_transitions l)\<rparr>) u)"
    using assms t by (simp add: terminal_handler_mutates revision_matches_def)
  from call_moves [OF assms(1,2,4) this h refl] t show thesis
    by (intro that) simp_all
qed

section \<open>The operations of the flow\<close>

lemma flow_result_simps [simp]:
  "fl_result (lifecycle_flow p x) = sl_result x" "fl_result (registration_flow p y) = rg_result y"
  "fl_registration_applied (registration_flow p y) = rg_registration_applied y"
  "fl_entry_applied (lifecycle_flow p x) = sl_entry_applied x"
  "fl_refill_reconciled (lifecycle_flow p x) = sl_refill_reconciled x"
  "fl_terminal_applied (lifecycle_flow p x) = sl_terminal_applied x"
  by (simp_all add: lifecycle_flow_def registration_flow_def plain_flow_def)

lemma moved_ok: "moved l sid r k t m \<Longrightarrow> ledger_ok m"
  by (simp add: moved_def reach_ok_def)

lemma activate_moves:
  assumes "reachable_file f" "read_ledger f = Inr l" "utc_string ea" "utc_string u" "nonblank k"
    "map_of (al_transitions l) k = None" "map_of (al_signals l) sid = Some r"
    "sg_state r = PUBLISHED_PENDING_ENTRY" "capacity (al_signals l) (sg_mode r) < 3"
    "\<forall>j q. map_of (al_signals l) j = Some q \<longrightarrow> sg_state q = ENTRY_ACTIVE \<longrightarrow>
       normalize_pair (sg_symbol q) \<noteq> normalize_pair (sg_symbol r)"
  obtains res m t where
    "activate_registered_signal good_io f (PInt (al_revision l)) (PStr k) (PStr sid) (PStr ea) (PStr u)
       = (res, ledger_file m)"
    "fl_result res = ''ENTRY_ACTIVATED''" "fl_entry_applied res" "reachable_file (ledger_file m)"
    "moved l sid (r\<lparr>sg_state := ENTRY_ACTIVE, sg_entry_at := Some ea, sg_last_transition_id := k,
       sg_updated_at := u\<rparr>) k t m"
proof -
  have ok: "ledger_ok l"
    using assms(1,2) by (rule reachable_ok)
  obtain m t where m: "mark_entry_active good_io f (PInt (al_revision l)) k sid (PStr ea) (PStr u)
      (PBool True) = (Inr m, ledger_file m)" "reachable_file (ledger_file m)"
    and moved: "moved l sid (r\<lparr>sg_state := ENTRY_ACTIVE, sg_entry_at := Some ea,
      sg_last_transition_id := k, sg_updated_at := u\<rparr>) k t m"
    and t: "transition_payload ENTRY k sid PUBLISHED_PENDING_ENTRY ENTRY_ACTIVE ea None
      (al_revision l + 1) = Inr t"
    using entry_moves [OF assms] by blast
  have t': "tr_operation t = ENTRY" "tr_signal_id t = sid" "tr_from_state t = Some PUBLISHED_PENDING_ENTRY"
    "tr_to_state t = ENTRY_ACTIVE" "tr_occurred_at t = ea"
    using t by (auto simp: transition_payload_def split: if_splits)
  obtain c where "entry_context (ledger_doc m) sid k = Inr c"
    using moved t' assms(3) by (auto simp: entry_context_iff [OF moved_ok [OF moved]] moved_def)
  moreover have "is_utc (PStr u)" "is_utc (PStr ea)" "is_ident (PStr k)" "is_ident (PStr sid)"
    "is_nat_int (PInt (al_revision l))"
    using assms(3-5) ledger_signal_id [OF ok assms(7)] ok
    by (simp_all add: is_utc_def is_ident_def is_nat_int_def ledger_ok_def)
  ultimately have "activate_registered_signal good_io f (PInt (al_revision l)) (PStr k) (PStr sid)
      (PStr ea) (PStr u) = (lifecycle_flow ''ACTIVATE_REGISTERED_SIGNAL''
        (entry_result ''ENTRY_ACTIVATED'' c u True False ''ENTRY_ACTIVATED''), ledger_file m)"
    using assms(2) m(1) moved
    by (simp add: activate_registered_signal_def activate_signal_entry_def moved_def Let_def)
  from that [OF this _ _ m(2) moved] show thesis
    by simp
qed

lemma terminate_refills:
  assumes "hex_digest digest" "reachable_refill digest fr"
    "reachable_file f" "read_ledger f = Inr l" "utc_string ta" "utc_string u" "nonblank k"
    "nonblank reason" "map_of (al_transitions l) k = None" "map_of (al_signals l) sid = Some r"
    "st \<in> set refill_terminal_states"
    "sg_state r = PUBLISHED_PENDING_ENTRY \<or> sg_state r = ENTRY_ACTIVE \<and> st \<noteq> EXPIRED"
    "read_or_empty digest (Some (PStr u)) fr = Inr n" "map_of (rl_sources n) k = None"
    "map_of (rl_requests n) (derive_refill_request_id digest \<lparr>ri_transition_id = k, ri_signal_id = sid,
       ri_mode = sg_mode r, ri_terminal_state = st\<rparr>) = None"
  shows "\<exists>res fa gr q. terminate_active_signal digest good_io good_io f fr (PInt (al_revision l)) PNone
      (PStr k) (PStr sid) (PStr (lifecycle_str st)) (PStr ta) (PStr reason) (PStr u) = (res, fa, gr)
    \<and> fl_result res = ''TERMINAL_AND_REFILL_RECONCILED'' \<and> fl_terminal_applied res
    \<and> fl_refill_reconciled res \<and> read_or_empty digest None gr = Inr q
    \<and> holds_request digest q \<lparr>ri_transition_id = k, ri_signal_id = sid, ri_mode = sg_mode r,
         ri_terminal_state = st\<rparr>"
proof -
  let ?i = "\<lparr>ri_transition_id = k, ri_signal_id = sid, ri_mode = sg_mode r, ri_terminal_state = st\<rparr>"
  have ok: "ledger_ok l"
    using assms(3,4) by (rule reachable_ok)
  have st: "st \<in> set terminal_states"
    using assms(11) by (auto simp: refill_terminal_states_def)
  have sid: "nonblank sid" "sg_signal_id r = sid" and rev: "0 \<le> al_revision l"
    using signal_okD [OF ok assms(10)] ok by (simp_all add: signal_ok_def ledger_ok_def)
  obtain m t where m: "transition_terminal good_io f (PInt (al_revision l)) k sid (PStr (lifecycle_str st))
      (PStr ta) (PStr reason) (PStr u) (PBool True) = (Inr m, ledger_file m)"
    and moved: "moved l sid (r\<lparr>sg_state := st, sg_terminal_at := Some ta,
      sg_terminal_reason := Some reason, sg_last_transition_id := k, sg_updated_at := u\<rparr>) k t m"
    and t: "transition_payload TERMINAL k sid (sg_state r) st ta (Some reason) (al_revision l + 1) = Inr t"
    using terminal_moves [OF assms(3-10) st assms(12)] by blast
  have t': "tr_operation t = TERMINAL" "tr_signal_id t = sid" "tr_to_state t = st" "tr_occurred_at t = ta"
    "tr_ledger_revision t = al_revision l + 1"
    using t by (auto simp: transition_payload_def split: if_splits)
  let ?c = "\<lparr>cx_transition_id = k, cx_signal_id = sid, cx_mode = sg_mode r, cx_terminal_state = st,
      cx_source_revision = al_revision l + 1, cx_active_revision = al_revision m\<rparr>"
  have ctx: "persisted_context (ledger_doc m) (PStr k) = Inr ?c"
    using moved t' sid assms(5,7) st
    by (simp add: persisted_context_iff [OF moved_ok [OF moved]] transition_context_iff moved_def
        del: in_terminal_states)
  have utc: "is_utc (PStr u)"
    using assms(6) by (simp add: is_utc_def)
  obtain d gr where d: "reconcile_terminal_refill digest good_io fr (ledger_doc m) (PStr k)
      (PInt (al_revision m)) PNone (PStr u) = (d, gr)"
    by fastforce
  have ident: "context_identity ?c = ?i" "identity_ok ?i"
    using assms(7,11) sid by (simp_all add: context_identity_def identity_ok_def)
  have c: "terminal_context (ledger_doc m) (PStr k) (PInt (al_revision m)) (the_str (PStr u)) = Inr (Inr ?c)"
    using persisted_context_recorded(3) [OF moved_ok [OF moved] ctx] by simp
  have word: "dc_decision d = ''REQUEST_RECONCILED''"
    using reconcile_fresh [OF assms(1,2) utc c _ _ assms(13)] ident rev assms(14,15) d by simp
  then have "reconciled d"
    by (simp add: reconciled_def)
  then obtain q where q: "read_or_empty digest None gr = Inr q" "holds_request digest q ?i"
    using reconcile_terminal_outcome [OF assms(1,2) d] c ident(1) by (metis old.sum.inject(2))
  have args: "transition_arguments_ok (PInt (al_revision l)) PNone (PStr k) (PStr sid)
      (PStr (lifecycle_str st)) (PStr ta) (PStr reason) (PStr u)"
    using assms(5-8) sid st rev
    by (simp add: transition_arguments_ok_def is_utc_def is_ident_def is_nat_int_def
        del: in_terminal_states)
  have "terminate_active_signal digest good_io good_io f fr (PInt (al_revision l)) PNone
      (PStr k) (PStr sid) (PStr (lifecycle_str st)) (PStr ta) (PStr reason) (PStr u) =
    (lifecycle_flow ''TERMINATE_ACTIVE_SIGNAL'' (terminal_result
       (reconcile_result digest ?c d u True False False) ''TERMINAL_TRANSITION'' u), ledger_file m, gr)"
    using args assms(4,9) m ctx d
    by (simp add: terminate_active_signal_def terminate_signal_and_reconcile_refill_def
        transition_and_reconcile_refill_def)
  with q word show ?thesis
    by (simp add: terminal_result_def reconcile_result_def context_result_def lifecycle_word_def)
qed

section \<open>From publication to refill\<close>

text \<open>The signal a registration leaves in the file.\<close>

lemma registered_signal:
  assumes "reachable_file f" "hex_digest digest"
    "register_completed_publication digest io f er ev tid ts = (res, g)" "fl_registration_applied res"
    "validated_context ev = Some c" "read_ledger g = Inr l"
  obtains r where "reachable_file g" "map_of (al_signals l) (pb_signal_id c) = Some r"
    "sg_state r = PUBLISHED_PENDING_ENTRY" "sg_mode r = pb_mode c" "sg_symbol r = pb_symbol c"
proof -
  obtain out where run: "register_with False digest io f er ev tid ts = (out, g)"
    and out: "rg_registration_applied out"
    using assms(3,4) by (auto simp: register_completed_publication_def register_published_signal_def
        split: prod.splits)
  have g: "reachable_file g"
    using assms(1) run by (rule register_reachable)
  show thesis
  proof (cases rule: register_cases [OF assms(1,2) run, case_names failed replayed changed])
    case (changed c' l0 m)
    then have "matches_persisted (ledger_doc l) c (registration_transaction_id digest c) (the_str tid)"
      using assms(5,6) by simp
    then show thesis
      using that g by (auto simp: matches_persisted_iff [OF reachable_ok [OF g assms(6)]] signal_matches_def)
  qed (use out in simp_all)
qed

text \<open>C3. The flow leads from a publication to its refill: once a publication was registered, with
  a working disk its signal can be entered when its style and pair have room, and then ended in
  any state the refill ledger knows, and the end leaves a refill request for exactly that signal.\<close>

theorem publication_reaches_refill:
  assumes "hex_digest digest" "reachable_file f" "reachable_refill digest fr"
    "register_completed_publication digest io f er ev tid ts = (r1, f1)" "fl_registration_applied r1"
    "validated_context ev = Some c" "read_ledger f1 = Inr l"
    "capacity (al_signals l) (pb_mode c) < 3"
    "\<forall>j q. map_of (al_signals l) j = Some q \<longrightarrow> sg_state q = ENTRY_ACTIVE \<longrightarrow>
       normalize_pair (sg_symbol q) \<noteq> normalize_pair (pb_symbol c)"
    "utc_string ea" "utc_string u" "utc_string ta" "utc_string u'" "nonblank reason"
    "nonblank k" "nonblank k'" "k \<noteq> k'"
    "map_of (al_transitions l) k = None" "map_of (al_transitions l) k' = None"
    "st \<in> set refill_terminal_states" "st \<noteq> EXPIRED"
    "i = \<lparr>ri_transition_id = k', ri_signal_id = pb_signal_id c, ri_mode = pb_mode c,
       ri_terminal_state = st\<rparr>"
    "read_or_empty digest (Some (PStr u')) fr = Inr n" "map_of (rl_sources n) k' = None"
    "map_of (rl_requests n) (derive_refill_request_id digest i) = None"
  shows "\<exists>r2 f2 r3 f3 gr q.
      activate_registered_signal good_io f1 (PInt (al_revision l)) (PStr k) (PStr (pb_signal_id c))
        (PStr ea) (PStr u) = (r2, f2) \<and> fl_result r2 = ''ENTRY_ACTIVATED''
    \<and> terminate_active_signal digest good_io good_io f2 fr (PInt (al_revision l + 1)) PNone (PStr k')
        (PStr (pb_signal_id c)) (PStr (lifecycle_str st)) (PStr ta) (PStr reason) (PStr u')
        = (r3, f3, gr) \<and> fl_result r3 = ''TERMINAL_AND_REFILL_RECONCILED''
    \<and> read_or_empty digest None gr = Inr q \<and> holds_request digest q i"
proof -
  obtain r where f1: "reachable_file f1" and r: "map_of (al_signals l) (pb_signal_id c) = Some r"
    "sg_state r = PUBLISHED_PENDING_ENTRY" "sg_mode r = pb_mode c" "sg_symbol r = pb_symbol c"
    by (rule registered_signal [OF assms(2,1,4-7)])
  let ?r = "r\<lparr>sg_state := ENTRY_ACTIVE, sg_entry_at := Some ea, sg_last_transition_id := k, sg_updated_at := u\<rparr>"
  have room: "capacity (al_signals l) (sg_mode r) < 3"
    "\<forall>j q. map_of (al_signals l) j = Some q \<longrightarrow> sg_state q = ENTRY_ACTIVE \<longrightarrow>
       normalize_pair (sg_symbol q) \<noteq> normalize_pair (sg_symbol r)"
    using assms(8,9) r(3,4) by simp_all
  obtain r2 m t where entry: "activate_registered_signal good_io f1 (PInt (al_revision l)) (PStr k)
      (PStr (pb_signal_id c)) (PStr ea) (PStr u) = (r2, ledger_file m)"
    "fl_result r2 = ''ENTRY_ACTIVATED''" "reachable_file (ledger_file m)"
    and moved: "moved l (pb_signal_id c) ?r k t m"
    by (rule activate_moves [OF f1 assms(7,10,11,15,18) r(1,2) room])
  have m: "reach_ok m" "al_revision m = al_revision l + 1"
    "map_of (al_signals m) (pb_signal_id c) = Some ?r" "map_of (al_transitions m) k' = None"
    using moved assms(17,19) by (simp_all add: moved_def)
  note sorted = lookup_sorted_ledger [OF moved_ok [OF moved]]
  have lookups: "map_of (al_transitions (sorted_ledger m)) k' = None"
    "map_of (al_signals (sorted_ledger m)) (pb_signal_id c) = Some ?r"
    unfolding sorted using m(3,4) by simp_all
  from terminate_refills [OF assms(1,3) entry(3) read_ledger_file [OF m(1)] assms(12,13,16,14)
      lookups assms(20) _ assms(23,24)] entry(1,2) m(2) r(3) assms(21,22,25)
  show ?thesis by auto
qed

text \<open>The flow on the concrete registration, with no refill file yet.\<close>

lemma demo_flow_registered:
  obtains res l where
    "register_completed_publication (\<lambda>d. demo_hash) good_io (ledger_file demo_empty) (PInt 0) demo_evidence
       (PStr ''t1'') (PStr demo_time) = (res, snd demo_register)"
    "fl_registration_applied res" "read_ledger (snd demo_register) = Inr l"
    "capacity (al_signals l) SWING < 3"
    "\<forall>j q. map_of (al_signals l) j = Some q \<longrightarrow> sg_state q \<noteq> ENTRY_ACTIVE"
    "map_of (al_transitions l) ''t2'' = None" "map_of (al_transitions l) ''t3'' = None"
    "al_revision l = 1"
proof -
  have run: "register_completed_publication (\<lambda>d. demo_hash) good_io (ledger_file demo_empty) (PInt 0)
      demo_evidence (PStr ''t1'') (PStr demo_time)
    = (registration_flow ''REGISTER_COMPLETED_PUBLICATION'' (fst demo_register), snd demo_register)"
    by (simp add: register_completed_publication_def split: prod.splits)
  show thesis
  proof (cases rule: register_cases [OF demo_empty_run(2) constant_digest demo_register_run,
        case_names failed replayed changed])
    case (changed c l m)
    have c: "c = demo_publication" and l: "l = demo_empty"
      using changed(1,7) demo_context demo_registrable(1) by simp_all
    have ok: "ledger_ok m"
      using reachable_ok [OF register_reachable [OF demo_empty_run(2) demo_register_run] changed(8)] .
    have pending: "\<exists>r. map_of (al_signals m) ''s1'' = Some r \<and> sg_state r = PUBLISHED_PENDING_ENTRY"
      using changed(11) unfolding c matches_persisted_iff [OF ok] by (auto simp: demo_publication_def)
    have rest: "map_of (al_signals m) j = None" if "j \<noteq> ''s1''" for j
      using changed(12) that by (simp add: publication_added_def c l demo_empty_def demo_publication_def)
    have only: "\<forall>j q. map_of (al_signals m) j = Some q \<longrightarrow> sg_state q = PUBLISHED_PENDING_ENTRY"
      using pending rest by (metis option.distinct(1) option.inject)
    have "list_all (\<lambda>p. \<not> active_in SWING (snd p)) (al_signals m)"
    proof -
      have "distinct (map fst (al_signals m))"
        using ok by (simp add: ledger_ok_def)
      with only show ?thesis
        by (auto simp: list_all_iff active_in_def)
    qed
    then have "capacity (al_signals m) SWING = 0"
      by (simp add: capacity_def count_vals_def filter_empty_conv list_all_iff)
    then have room: "capacity (al_signals m) SWING < 3"
      by simp
    have idle: "\<forall>j q. map_of (al_signals m) j = Some q \<longrightarrow> sg_state q \<noteq> ENTRY_ACTIVE"
      using only by force
    have "map_of (al_transitions m) ''t2'' = None" "map_of (al_transitions m) ''t3'' = None"
      using changed(12) by (simp_all add: publication_added_def l demo_empty_def)
    moreover have "al_revision m = 1"
      using changed(10) demo_args(4) by (simp add: l)
    ultimately show thesis
      using changed(4) by (intro that [OF run _ changed(8) room idle]) simp_all
  qed (use demo_applied in auto)
qed

lemma publication_reaches_refill_witness:
  "\<exists>r3 f2 f3 gr q.
      terminate_active_signal (\<lambda>d. demo_hash) good_io good_io f2 Absent (PInt (al_revision demo_active)) PNone
        (PStr ''t3'') (PStr ''s1'') (PStr (lifecycle_str CLOSED_PROFIT)) (PStr demo_time)
        (PStr ''target'') (PStr demo_time) = (r3, f3, gr)
    \<and> fl_result r3 = ''TERMINAL_AND_REFILL_RECONCILED''
    \<and> read_or_empty (\<lambda>d. demo_hash) None gr = Inr (q :: refill_ledger)"
proof -
  obtain res l where run: "register_completed_publication (\<lambda>d. demo_hash) good_io (ledger_file demo_empty)
      (PInt 0) demo_evidence (PStr ''t1'') (PStr demo_time) = (res, snd demo_register)"
    "fl_registration_applied res" "read_ledger (snd demo_register) = Inr l"
    and room: "capacity (al_signals l) SWING < 3"
      "\<forall>j q. map_of (al_signals l) j = Some q \<longrightarrow> sg_state q \<noteq> ENTRY_ACTIVE"
    and free: "map_of (al_transitions l) ''t2'' = None" "map_of (al_transitions l) ''t3'' = None"
    and rev: "al_revision l = 1"
    by (rule demo_flow_registered)
  obtain n where n: "read_or_empty (\<lambda>d. demo_hash) (Some (PStr demo_time)) Absent = Inr n"
    "rl_sources n = []" "rl_requests n = []"
    by (simp add: read_or_empty_def create_empty_refill_ledger_def is_utc_def)
  have c: "pb_mode demo_publication = SWING" "pb_signal_id demo_publication = ''s1''"
    "CLOSED_PROFIT \<in> set refill_terminal_states" "nonblank ''target''" "nonblank ''t2''" "nonblank ''t3''"
    "al_revision demo_active = 2"
    by code_simp+
  have room': "capacity (al_signals l) (pb_mode demo_publication) < 3"
    "\<forall>j q. map_of (al_signals l) j = Some q \<longrightarrow> sg_state q = ENTRY_ACTIVE \<longrightarrow>
       normalize_pair (sg_symbol q) \<noteq> normalize_pair (pb_symbol demo_publication)"
    using room c(1) by simp_all
  have distinct: "''t2'' \<noteq> ''t3''" "CLOSED_PROFIT \<noteq> EXPIRED"
    by simp_all
  have fresh: "map_of (rl_sources n) ''t3'' = None" "map_of (rl_requests n) j = None" for j
    using n by simp_all
  have "PInt (al_revision l + 1) = PInt (al_revision demo_active)"
    using rev c(7) by simp
  with publication_reaches_refill [OF constant_digest demo_empty_run(2) reachable_refill.start run(1,2)
      demo_context run(3) room' demo_utc demo_utc demo_utc demo_utc c(4-6) distinct(1) free c(3)
      distinct(2) refl n(1) fresh]
  show ?thesis
    unfolding c(2) by metis
qed

end
