(* ===== verification/Quota_Slots.thy ===== *)
theory Quota_Slots
  imports Prelude
begin

text \<open>
  Quota and active-slot accounting of one process, \<open>src/engine/quota_slot_engine_v4.py\<close>, and
  the worker that holds a slot while it runs, \<open>src/engine/quota_slot_worker_v4.py\<close>.  The state
  file is a JSON document that is validated, changed in place and written back; keys that the
  validation does not name stay in it, so the model changes the document itself.
\<close>

section \<open>The state document\<close>

datatype qerror =
    STATE_CORRUPT | INVALID_REQUEST | INVALID_POLICY | QUOTA_EXHAUSTED | SLOTS_FULL
  | Os_Error \<comment> \<open>the file could not be written or replaced\<close>

text \<open>\<open>d[k] = v\<close>\<close>

definition put :: "string \<Rightarrow> pv \<Rightarrow> pv \<Rightarrow> pv" where
  "put k v d = PDict (AList.update k v (items d))"

definition is_positive_integer :: "pv \<Rightarrow> bool" where
  "is_positive_integer v = (case v of PInt i \<Rightarrow> 0 < i | _ \<Rightarrow> False)"

definition empty_state :: pv where
  "empty_state = PDict [(''schema_version'', PInt 1), (''quota_usage'', PDict []),
     (''reservations'', PDict [])]"

definition ACTIVE_state :: pv where "ACTIVE_state = PStr ''ACTIVE''"
definition RELEASED_state :: pv where "RELEASED_state = PStr ''RELEASED''"

text \<open>\<open>_validate_reservation\<close>: every rejection has the code \<open>STATE_CORRUPT\<close>.\<close>

definition valid_reservation :: "string \<Rightarrow> pv \<Rightarrow> bool" where
  "valid_reservation reservation_id v =
    (nonblank reservation_id \<and> is_dict v
     \<and> fld v ''reservation_id'' = PStr reservation_id
     \<and> is_ident (fld v ''subject_id'') \<and> is_ident (fld v ''window_id'')
     \<and> (fld v ''state'' = ACTIVE_state \<or> fld v ''state'' = RELEASED_state)
     \<and> is_ident (fld v ''acquired_at'')
     \<and> has_key v ''released_at''
     \<and> \<not> (fld v ''state'' = ACTIVE_state \<and> fld v ''released_at'' \<noteq> PNone)
     \<and> \<not> (fld v ''state'' = RELEASED_state \<and> \<not> is_ident (fld v ''released_at'')))"

text \<open>\<open>_validate_state\<close>\<close>

definition valid_usage :: "pv \<Rightarrow> bool" where
  "valid_usage windows = (is_dict windows \<and>
     list_all (\<lambda>w. nonblank (fst w) \<and> is_nat_int (snd w)) (items windows))"

definition valid_state :: "pv \<Rightarrow> bool" where
  "valid_state s =
    (is_dict s \<and> fld s ''schema_version'' = PInt 1
     \<and> is_dict (fld s ''quota_usage'')
     \<and> list_all (\<lambda>p. nonblank (fst p) \<and> valid_usage (snd p)) (items (fld s ''quota_usage''))
     \<and> is_dict (fld s ''reservations'')
     \<and> list_all (\<lambda>p. valid_reservation (fst p) (snd p)) (items (fld s ''reservations'')))"

definition read_quota_slot_state :: "disk_file \<Rightarrow> (qerror, pv) result" where
  "read_quota_slot_state f =
    (case f of
       Absent \<Rightarrow> Inr empty_state
     | Garbled \<Rightarrow> Inl STATE_CORRUPT
     | Stored d \<Rightarrow> if valid_state d then Inr d else Inl STATE_CORRUPT)"

definition write_quota_slot_state_atomic :: "io \<Rightarrow> disk_file \<Rightarrow> pv \<Rightarrow> qerror option \<times> disk_file" where
  "write_quota_slot_state_atomic io f s =
    (if \<not> valid_state s then (Some STATE_CORRUPT, f)
     else if \<not> replace_ok io then (Some Os_Error, f)
     else (None, Stored s))"

section \<open>Acquiring and releasing\<close>

definition reservations :: "pv \<Rightarrow> (string \<times> pv) list" where
  "reservations s = items (fld s ''reservations'')"

definition active_slot_count :: "pv \<Rightarrow> nat" where
  "active_slot_count s = count_vals (\<lambda>r. fld r ''state'' = ACTIVE_state) (reservations s)"

text \<open>\<open>quota_usage.get(subject_id, {}).get(window_id, 0)\<close> in a validated state.\<close>

definition quota_used :: "pv \<Rightarrow> string \<Rightarrow> string \<Rightarrow> int" where
  "quota_used s subject_id window_id =
    the_int (fld (fld (fld s ''quota_usage'') subject_id) window_id)"

record admission =
  ad_reservation_id :: string
  ad_subject_id :: string
  ad_window_id :: string
  ad_quota_limit :: int
  ad_quota_used :: int
  ad_quota_remaining :: int
  ad_slot_capacity :: int
  ad_active_slot_count :: int

definition new_reservation :: "string \<Rightarrow> string \<Rightarrow> string \<Rightarrow> pv \<Rightarrow> pv" where
  "new_reservation reservation_id subject_id window_id now = PDict [
     (''reservation_id'', PStr reservation_id), (''subject_id'', PStr subject_id),
     (''window_id'', PStr window_id), (''acquired_at'', now), (''released_at'', PNone),
     (''state'', ACTIVE_state)]"

text \<open>The two assignments of an admission.\<close>

definition admit :: "pv \<Rightarrow> string \<Rightarrow> string \<Rightarrow> string \<Rightarrow> pv \<Rightarrow> pv" where
  "admit s subject_id window_id reservation_id now =
    (let usage = fld s ''quota_usage'';
         counted = put ''quota_usage'' (put subject_id
           (put window_id (PInt (quota_used s subject_id window_id + 1)) (fld usage subject_id))
           usage) s
     in put ''reservations'' (put reservation_id
          (new_reservation reservation_id subject_id window_id now)
          (fld counted ''reservations'')) counted)"

definition acquire_quota_slot ::
  "io \<Rightarrow> pv \<Rightarrow> pv \<Rightarrow> pv \<Rightarrow> pv \<Rightarrow> pv \<Rightarrow> pv \<Rightarrow> disk_file \<Rightarrow> (qerror, admission) result \<times> disk_file" where
  "acquire_quota_slot io subject_id window_id quota_limit slot_capacity reservation_id now f =
    (if \<not> is_ident subject_id \<or> \<not> is_ident window_id then (Inl INVALID_REQUEST, f)
     else if \<not> is_positive_integer quota_limit \<or> \<not> is_positive_integer slot_capacity
     then (Inl INVALID_POLICY, f)
     else case read_quota_slot_state f of
       Inl e \<Rightarrow> (Inl e, f)
     | Inr s \<Rightarrow>
       (let used = quota_used s (the_str subject_id) (the_str window_id);
            active = int (active_slot_count s)
        in if used \<ge> the_int quota_limit then (Inl QUOTA_EXHAUSTED, f)
        else if active \<ge> the_int slot_capacity then (Inl SLOTS_FULL, f)
        else if \<not> is_ident reservation_id then (Inl INVALID_REQUEST, f)
        else if map_of (reservations s) (the_str reservation_id) \<noteq> None
        then (Inl INVALID_REQUEST, f)
        else (case write_quota_slot_state_atomic io f
            (admit s (the_str subject_id) (the_str window_id) (the_str reservation_id) now) of
          (Some e, f') \<Rightarrow> (Inl e, f')
        | (None, f') \<Rightarrow> (Inr \<lparr>
            ad_reservation_id = the_str reservation_id,
            ad_subject_id = the_str subject_id,
            ad_window_id = the_str window_id,
            ad_quota_limit = the_int quota_limit,
            ad_quota_used = used + 1,
            ad_quota_remaining = the_int quota_limit - (used + 1),
            ad_slot_capacity = the_int slot_capacity,
            ad_active_slot_count = active + 1\<rparr>, f'))))"

record release =
  re_reservation_id :: string
  re_released :: bool
  re_already_released :: bool
  re_active_slot_count :: int

definition free_slot :: "pv \<Rightarrow> string \<Rightarrow> pv \<Rightarrow> pv \<Rightarrow> pv" where
  "free_slot s reservation_id r now =
    put ''reservations'' (put reservation_id
      (put ''released_at'' now (put ''state'' RELEASED_state r)) (fld s ''reservations'')) s"

definition release_quota_slot ::
  "io \<Rightarrow> pv \<Rightarrow> pv \<Rightarrow> disk_file \<Rightarrow> (qerror, release) result \<times> disk_file" where
  "release_quota_slot io reservation_id now f =
    (if \<not> is_ident reservation_id then (Inl INVALID_REQUEST, f)
     else case read_quota_slot_state f of
       Inl e \<Rightarrow> (Inl e, f)
     | Inr s \<Rightarrow>
       (case map_of (reservations s) (the_str reservation_id) of
          None \<Rightarrow> (Inl INVALID_REQUEST, f)
        | Some r \<Rightarrow>
          (let active = int (active_slot_count s)
           in if fld r ''state'' = RELEASED_state
           then (Inr \<lparr>re_reservation_id = the_str reservation_id, re_released = False,
                  re_already_released = True, re_active_slot_count = active\<rparr>, f)
           else (case write_quota_slot_state_atomic io f
               (free_slot s (the_str reservation_id) r now) of
             (Some e, f') \<Rightarrow> (Inl e, f')
           | (None, f') \<Rightarrow> (Inr \<lparr>re_reservation_id = the_str reservation_id,
               re_released = True, re_already_released = False,
               re_active_slot_count = active - 1\<rparr>, f')))))"

section \<open>A worker under an admission\<close>

text \<open>
  \<open>run_quota_slot_worker_v4\<close>.  The worker, the acquisition and the release are arguments of the
  code and of the model: the first two outcomes of the \<open>try\<close> block meet the outcome of the
  release in the \<open>finally\<close> block, and an error of the worker wins over one of the release.
\<close>

datatype ('e, 'x) worker_error =
    Not_Admitted 'e
  | Worker_Raised 'x
  | Worker_Raised_Release_Failed 'x 'e
  | Release_Failed 'e

record ('a, 'v, 'r) worker_run =
  wr_admission :: 'a
  wr_worker_result :: 'v
  wr_release :: 'r

definition run_quota_slot_worker ::
  "('s \<Rightarrow> ('e, 'a) result \<times> 's) \<Rightarrow> ('a \<Rightarrow> 's \<Rightarrow> ('e, 'r) result \<times> 's) \<Rightarrow> ('w \<Rightarrow> ('x, 'v) result \<times> 'w)
    \<Rightarrow> 's \<Rightarrow> 'w \<Rightarrow> (('e, 'x) worker_error, ('a, 'v, 'r) worker_run) result \<times> 's \<times> 'w" where
  "run_quota_slot_worker acquire release worker s w =
    (case acquire s of
       (Inl e, s1) \<Rightarrow> (Inl (Not_Admitted e), s1, w)
     | (Inr a, s1) \<Rightarrow>
       (case worker w of
          (out, w') \<Rightarrow>
            (case (out, release a s1) of
               (Inl x, (Inl e, s2)) \<Rightarrow> (Inl (Worker_Raised_Release_Failed x e), s2, w')
             | (Inl x, (Inr r, s2)) \<Rightarrow> (Inl (Worker_Raised x), s2, w')
             | (Inr v, (Inl e, s2)) \<Rightarrow> (Inl (Release_Failed e), s2, w')
             | (Inr v, (Inr r, s2)) \<Rightarrow>
                 (Inr \<lparr>wr_admission = a, wr_worker_result = v, wr_release = r\<rparr>, s2, w'))))"

end
