(* ===== verification/Quota_Slots_Props.thy ===== *)
theory Quota_Slots_Props
  imports Quota_Slots
begin

text \<open>
  The properties of the quota-slot engine and of the worker it admits: the accounting of the
  state file, and a contract of acquisition and release under which a worker can never leak a
  slot, met by the engine.
\<close>

section \<open>Documents\<close>

lemma put_simps [simp]:
  "is_dict (put k v d)" "items (put k v d) = AList.update k v (items d)"
  "fld (put k v d) j = (if j = k then v else fld d j)"
  "has_key (put k v d) j = (j = k \<or> has_key d j)"
  by (auto simp: put_def fld_def has_key_def is_dict_def items_def dom_update)

lemma list_all_update:
  "list_all P al \<Longrightarrow> P (k, v) \<Longrightarrow> list_all P (AList.update k v al)"
  by (induction al) auto

lemma list_all_map_of: "list_all P al \<Longrightarrow> map_of al k = Some v \<Longrightarrow> P (k, v)"
  by (auto simp: list_all_iff dest: map_of_SomeD)

lemma items_PNone [simp]: "items PNone = []"
  by (simp add: items_def)

lemma reservation_states [simp]:
  "ACTIVE_state \<noteq> RELEASED_state" "RELEASED_state \<noteq> ACTIVE_state"
  by (simp_all add: ACTIVE_state_def RELEASED_state_def)

section \<open>What an admission and a release do to the document\<close>

lemma reservations_admit [simp]:
  "reservations (admit s subj win rid now) = AList.update rid (new_reservation rid subj win now) (reservations s)"
  by (simp add: admit_def reservations_def Let_def)

lemma quota_used_admit [simp]:
  "quota_used (admit s subj win rid now) u w =
    (if u = subj \<and> w = win then quota_used s subj win + 1 else quota_used s u w)"
  by (simp add: admit_def quota_used_def Let_def)

lemma reservations_free [simp]:
  "reservations (free_slot s rid r now) =
    AList.update rid (put ''released_at'' now (put ''state'' RELEASED_state r)) (reservations s)"
  by (simp add: free_slot_def reservations_def)

lemma quota_used_free [simp]: "quota_used (free_slot s rid r now) u w = quota_used s u w"
  by (simp add: free_slot_def quota_used_def)

lemma valid_windows:
  assumes "valid_state s"
  shows "list_all (\<lambda>w. nonblank (fst w) \<and> is_nat_int (snd w)) (items (fld (fld s ''quota_usage'') subj))"
proof (cases "map_of (items (fld s ''quota_usage'')) subj")
  case None
  then show ?thesis by (simp add: fld_def)
next
  case (Some v)
  moreover have "list_all (\<lambda>p. nonblank (fst p) \<and> valid_usage (snd p)) (items (fld s ''quota_usage''))"
    using assms by (simp add: valid_state_def)
  ultimately have "valid_usage v"
    using list_all_map_of by fastforce
  then show ?thesis
    using Some by (simp add: fld_def valid_usage_def)
qed

lemma quota_used_nonneg:
  assumes "valid_state s"
  shows "0 \<le> quota_used s subj win"
proof (cases "map_of (items (fld (fld s ''quota_usage'') subj)) win")
  case None
  then show ?thesis by (simp add: quota_used_def fld_def the_int_def)
next
  case (Some v)
  then have "is_nat_int v"
    using list_all_map_of [OF valid_windows [OF assms]] by fastforce
  then show ?thesis
    using Some by (simp add: quota_used_def fld_def str_pred_dest)
qed

lemma valid_admit:
  assumes "valid_state s" "nonblank subj" "nonblank win" "nonblank rid"
  shows "valid_state (admit s subj win rid now) \<longleftrightarrow> is_ident now"
proof
  assume "valid_state (admit s subj win rid now)"
  then have "list_all (\<lambda>p. valid_reservation (fst p) (snd p)) (reservations (admit s subj win rid now))"
    by (simp only: valid_state_def reservations_def)
  then have "valid_reservation rid (new_reservation rid subj win now)"
    using list_all_map_of [of _ _ rid] by fastforce
  then show "is_ident now"
    by (simp add: valid_reservation_def new_reservation_def)
next
  assume now: "is_ident now"
  have "valid_reservation rid (new_reservation rid subj win now)"
    using assms now by (simp add: valid_reservation_def new_reservation_def)
  moreover have "valid_usage (put win (PInt (quota_used s subj win + 1)) (fld (fld s ''quota_usage'') subj))"
    using valid_windows [OF assms(1)] quota_used_nonneg [OF assms(1), of subj win] assms(3)
    by (simp add: valid_usage_def list_all_update)
  ultimately show "valid_state (admit s subj win rid now)"
    using assms by (simp add: valid_state_def admit_def Let_def list_all_update)
qed

lemma valid_free:
  assumes "valid_state s" "map_of (reservations s) rid = Some r" "is_ident now"
  shows "valid_state (free_slot s rid r now)"
proof -
  have "valid_reservation rid r"
    using assms(1,2) list_all_map_of unfolding valid_state_def reservations_def by fastforce
  then have "valid_reservation rid (put ''released_at'' now (put ''state'' RELEASED_state r))"
    using assms(3) by (simp add: valid_reservation_def)
  then show ?thesis
    using assms(1) by (simp add: valid_state_def free_slot_def list_all_update)
qed

text \<open>A write that succeeds has stored exactly the document it was given.\<close>

lemma write_quota_cases:
  "write_quota_slot_state_atomic io f s = (x, g) \<longleftrightarrow>
    (if valid_state s \<and> replace_ok io then x = None \<and> g = Stored s
     else g = f \<and> x = Some (if valid_state s then Os_Error else STATE_CORRUPT))"
  by (auto simp: write_quota_slot_state_atomic_def)

section \<open>The calls\<close>

lemma is_ident_iff: "is_ident v \<longleftrightarrow> (\<exists>s. v = PStr s \<and> nonblank s)"
  by (cases v) (simp_all add: is_ident_def)

lemma is_positive_integer_iff: "is_positive_integer v \<longleftrightarrow> (\<exists>i. v = PInt i \<and> 0 < i)"
  by (cases v) (simp_all add: is_positive_integer_def)

lemma acquire_succeeds_iff:
  "acquire_quota_slot io su wi li ca ri now f = (Inr a, g) \<longleftrightarrow>
    (\<exists>s subj win lim cap rid. su = PStr subj \<and> wi = PStr win \<and> li = PInt lim \<and> ca = PInt cap
      \<and> ri = PStr rid \<and> nonblank subj \<and> nonblank win \<and> nonblank rid \<and> 0 < lim \<and> 0 < cap
      \<and> read_quota_slot_state f = Inr s \<and> quota_used s subj win < lim
      \<and> int (active_slot_count s) < cap \<and> map_of (reservations s) rid = None
      \<and> valid_state (admit s subj win rid now) \<and> replace_ok io
      \<and> g = Stored (admit s subj win rid now)
      \<and> a = \<lparr>ad_reservation_id = rid, ad_subject_id = subj, ad_window_id = win,
           ad_quota_limit = lim, ad_quota_used = quota_used s subj win + 1,
           ad_quota_remaining = lim - (quota_used s subj win + 1), ad_slot_capacity = cap,
           ad_active_slot_count = int (active_slot_count s) + 1\<rparr>)"
    (is "?lhs \<longleftrightarrow> ?rhs")
proof (cases "is_ident su \<and> is_ident wi \<and> is_positive_integer li \<and> is_positive_integer ca \<and> is_ident ri
    \<and> (\<exists>s. read_quota_slot_state f = Inr s)")
  case False
  have "\<exists>e. acquire_quota_slot io su wi li ca ri now f = (Inl e, f)"
  proof (cases "is_ident su \<and> is_ident wi \<and> is_positive_integer li \<and> is_positive_integer ca
      \<and> (\<exists>s. read_quota_slot_state f = Inr s)")
    case True
    with False have "\<not> is_ident ri"
      by blast
    with True show ?thesis
      unfolding acquire_quota_slot_def by (elim conjE exE) (simp add: Let_def)
  next
    case False
    then consider "\<not> is_ident su \<or> \<not> is_ident wi"
      | "\<not> is_positive_integer li \<or> \<not> is_positive_integer ca" | e where "read_quota_slot_state f = Inl e"
      by (cases "read_quota_slot_state f") blast+
    then show ?thesis
      by cases (simp_all add: acquire_quota_slot_def)
  qed
  then obtain e where e: "acquire_quota_slot io su wi li ca ri now f = (Inl e, f)"
    by blast
  show ?thesis
  proof
    assume ?lhs
    then show ?rhs by (simp add: e)
  next
    assume ?rhs
    with False show ?lhs
      by (elim exE conjE) (simp add: is_positive_integer_iff)
  qed
next
  case True
  then obtain s where s: "read_quota_slot_state f = Inr s"
    by blast
  from True obtain subj win lim cap rid where args: "su = PStr subj" "wi = PStr win" "li = PInt lim"
    "ca = PInt cap" "ri = PStr rid" "nonblank subj" "nonblank win" "0 < lim" "0 < cap" "nonblank rid"
    unfolding is_ident_iff is_positive_integer_iff by blast
  let ?s = "admit s subj win rid now"
  have run: "acquire_quota_slot io su wi li ca ri now f =
     (if quota_used s subj win \<ge> lim then (Inl QUOTA_EXHAUSTED, f)
      else if int (active_slot_count s) \<ge> cap then (Inl SLOTS_FULL, f)
      else if map_of (reservations s) rid \<noteq> None then (Inl INVALID_REQUEST, f)
      else if \<not> valid_state ?s then (Inl STATE_CORRUPT, f)
      else if \<not> replace_ok io then (Inl Os_Error, f)
      else (Inr \<lparr>ad_reservation_id = rid, ad_subject_id = subj, ad_window_id = win,
           ad_quota_limit = lim, ad_quota_used = quota_used s subj win + 1,
           ad_quota_remaining = lim - (quota_used s subj win + 1), ad_slot_capacity = cap,
           ad_active_slot_count = int (active_slot_count s) + 1\<rparr>, Stored ?s))"
    using args s by (simp add: acquire_quota_slot_def is_positive_integer_def Let_def
        write_quota_slot_state_atomic_def del: One_nat_def)
  show ?thesis
  proof
    assume ?lhs
    then show ?rhs
      unfolding run using args s
      by (intro exI [of _ s] exI [of _ subj] exI [of _ win] exI [of _ lim] exI [of _ cap] exI [of _ rid])
        (simp split: if_splits)
  next
    assume ?rhs
    then show ?lhs
      unfolding run using args(1-5) s by (elim exE conjE) simp
  qed
qed

lemma release_cases:
  "release_quota_slot io ri now f = (Inr x, g) \<longleftrightarrow>
    (\<exists>s rid r. ri = PStr rid \<and> nonblank rid \<and> read_quota_slot_state f = Inr s
      \<and> map_of (reservations s) rid = Some r
      \<and> (if fld r ''state'' = RELEASED_state
         then g = f \<and> x = \<lparr>re_reservation_id = rid, re_released = False,
           re_already_released = True, re_active_slot_count = int (active_slot_count s)\<rparr>
         else valid_state (free_slot s rid r now) \<and> replace_ok io
           \<and> g = Stored (free_slot s rid r now)
           \<and> x = \<lparr>re_reservation_id = rid, re_released = True, re_already_released = False,
             re_active_slot_count = int (active_slot_count s) - 1\<rparr>))"
    (is "?lhs \<longleftrightarrow> ?rhs")
proof (cases "is_ident ri \<and> (\<exists>s. read_quota_slot_state f = Inr s)")
  case False
  then have "\<exists>e. release_quota_slot io ri now f = (Inl e, f)"
    by (cases "read_quota_slot_state f") (auto simp: release_quota_slot_def)
  then obtain e where e: "release_quota_slot io ri now f = (Inl e, f)"
    by blast
  show ?thesis
  proof
    assume ?lhs
    then show ?rhs by (simp add: e)
  next
    assume ?rhs
    with False show ?lhs
      by (elim exE conjE) simp
  qed
next
  case True
  then obtain s rid where args: "read_quota_slot_state f = Inr s" "ri = PStr rid" "nonblank rid"
    unfolding is_ident_iff by blast
  show ?thesis
  proof (cases "map_of (reservations s) rid")
    case None
    with args show ?thesis
      by (simp add: release_quota_slot_def)
  next
    case (Some r)
    with args show ?thesis
      by (auto simp: release_quota_slot_def write_quota_slot_state_atomic_def Let_def)
  qed
qed

lemma quota_error_keeps:
  "acquire_quota_slot io su wi li ca ri now f = (Inl e, g) \<Longrightarrow> g = f"
  "release_quota_slot io ri now f = (Inl e, g) \<Longrightarrow> g = f"
  by (auto simp: acquire_quota_slot_def release_quota_slot_def Let_def write_quota_cases
      split: if_splits option.splits prod.splits sum.splits)

section \<open>The accounting\<close>

definition booked :: "pv \<Rightarrow> string \<Rightarrow> string \<Rightarrow> nat" where
  "booked s subj win = count_vals (\<lambda>r. fld r ''subject_id'' = PStr subj \<and> fld r ''window_id'' = PStr win)
     (reservations s)"

text \<open>The quota counter of a window is the number of reservations ever made in it.\<close>

definition quota_ok :: "pv \<Rightarrow> bool" where
  "quota_ok s \<longleftrightarrow> valid_state s \<and> distinct (map fst (reservations s))
     \<and> (\<forall>subj win. quota_used s subj win = int (booked s subj win))"

lemma quota_ok_empty: "quota_ok empty_state"
  by (simp add: quota_ok_def empty_state_def valid_state_def reservations_def booked_def quota_used_def
      the_int_def fld_def)

lemma quota_ok_admit:
  assumes "quota_ok s" "map_of (reservations s) rid = None" "valid_state (admit s subj win rid now)"
  shows "quota_ok (admit s subj win rid now)"
    "active_slot_count (admit s subj win rid now) = active_slot_count s + 1"
  using assms
  by (auto simp: quota_ok_def booked_def active_slot_count_def update_fresh new_reservation_def
      map_of_eq_None_iff)

lemma quota_ok_free:
  assumes "quota_ok s" "map_of (reservations s) rid = Some r" "valid_state (free_slot s rid r now)"
    "fld r ''state'' \<noteq> RELEASED_state"
  shows "quota_ok (free_slot s rid r now)"
    "active_slot_count (free_slot s rid r now) + 1 = active_slot_count s"
proof -
  let ?r = "put ''released_at'' now (put ''state'' RELEASED_state r)"
  have "valid_reservation rid r"
    using assms(1,2) list_all_map_of unfolding quota_ok_def valid_state_def reservations_def by fastforce
  then have "fld r ''state'' = ACTIVE_state"
    using assms(4) by (auto simp: valid_reservation_def)
  then show "active_slot_count (free_slot s rid r now) + 1 = active_slot_count s"
    using count_vals_update [OF assms(2), of "\<lambda>r. fld r ''state'' = ACTIVE_state" ?r]
    by (simp add: active_slot_count_def)
  have "booked (free_slot s rid r now) subj win = booked s subj win" for subj win
    using count_vals_update [OF assms(2), of "\<lambda>r. fld r ''subject_id'' = PStr subj
        \<and> fld r ''window_id'' = PStr win" ?r]
    by (simp add: booked_def)
  then show "quota_ok (free_slot s rid r now)"
    using assms(1,3) by (simp add: quota_ok_def distinct_update)
qed

definition quota_file_ok :: "disk_file \<Rightarrow> bool" where
  "quota_file_ok f = (\<exists>s. read_quota_slot_state f = Inr s \<and> quota_ok s)"

lemma quota_file_ok_stored: "quota_ok s \<Longrightarrow> quota_file_ok (Stored s)"
  by (simp add: quota_file_ok_def read_quota_slot_state_def quota_ok_def)

lemma read_stored [simp]: "valid_state s \<Longrightarrow> read_quota_slot_state (Stored s) = Inr s"
  by (simp add: read_quota_slot_state_def)

section \<open>A contract for holding a slot\<close>

text \<open>The reservations whose slot is held.\<close>

definition held_slots :: "disk_file \<Rightarrow> string set" where
  "held_slots f = (case read_quota_slot_state f of
     Inl e \<Rightarrow> {}
   | Inr s \<Rightarrow> {k. \<exists>r. map_of (reservations s) k = Some r \<and> fld r ''state'' = ACTIVE_state})"

text \<open>A provider of slots: \<open>writable\<close> says that a held slot can be given back.\<close>

locale slot_provider =
  fixes acquire :: "'s \<Rightarrow> ('e, 'a) result \<times> 's" and release :: "'a \<Rightarrow> 's \<Rightarrow> ('e, 'r) result \<times> 's"
    and ok :: "'s \<Rightarrow> bool" and held :: "'s \<Rightarrow> 'h set" and slot :: "'a \<Rightarrow> 'h" and writable :: bool
  assumes acquire_fails: "acquire s = (Inl e, s') \<Longrightarrow> s' = s"
    and acquire_holds: "ok s \<Longrightarrow> acquire s = (Inr a, s') \<Longrightarrow>
      ok s' \<and> slot a \<notin> held s \<and> held s' = insert (slot a) (held s)"
    and release_fails: "release a s = (Inl e, s') \<Longrightarrow> s' = s"
    and release_frees: "ok s \<Longrightarrow> release a s = (Inr r, s') \<Longrightarrow> ok s' \<and> held s' = held s - {slot a}"
    and release_succeeds: "ok s \<Longrightarrow> slot a \<in> held s \<Longrightarrow> (\<exists>r s'. release a s = (Inr r, s')) \<longleftrightarrow> writable"
begin

text \<open>Every way a worker can end, with the slots held afterwards.\<close>

lemma worker_outcome:
  assumes "ok s" and run: "run_quota_slot_worker acquire release worker s w = (res, s', w')"
  obtains (refused) e where "acquire s = (Inl e, s)" "res = Inl (Not_Admitted e)" "s' = s" "w' = w"
  | (freed) a s1 r where "acquire s = (Inr a, s1)" writable "ok s'" "held s' = held s" "w' = snd (worker w)"
      "res = (case fst (worker w) of Inl x \<Rightarrow> Inl (Worker_Raised x)
         | Inr v \<Rightarrow> Inr \<lparr>wr_admission = a, wr_worker_result = v, wr_release = r\<rparr>)"
  | (stuck) a s1 e where "acquire s = (Inr a, s1)" "\<not> writable" "ok s'" "held s' = insert (slot a) (held s)"
      "w' = snd (worker w)"
      "res = Inl (case fst (worker w) of Inl x \<Rightarrow> Worker_Raised_Release_Failed x e | Inr v \<Rightarrow> Release_Failed e)"
proof (cases "acquire s")
  case (Pair ares s1)
  obtain out w1 where w: "worker w = (out, w1)" by fastforce
  show thesis
  proof (cases ares)
    case (Inl e)
    then show thesis
      using run Pair acquire_fails refused [of e] by (auto simp: run_quota_slot_worker_def)
  next
    case (Inr a)
    obtain rres s2 where rel: "release a s1 = (rres, s2)" by fastforce
    note taken = acquire_holds [OF assms(1) Pair [unfolded Inr]]
    then have possible: "(\<exists>r s'. release a s1 = (Inr r, s')) \<longleftrightarrow> writable"
      by (intro release_succeeds) auto
    show thesis
    proof (cases rres)
      case (Inl e)
      then have "s2 = s1" "\<not> writable" using rel release_fails possible by auto
      then show thesis
        using run Pair \<open>ares = Inr a\<close> w rel Inl taken
        by (intro stuck [of a s1 e]) (auto simp: run_quota_slot_worker_def split: sum.splits)
    next
      case (Inr r)
      then have "ok s2 \<and> held s2 = held s" "writable"
        using rel release_frees [of s1 a r s2] taken possible by auto
      then show thesis
        using run Pair \<open>ares = Inr a\<close> w rel Inr
        by (intro freed [of a s1 r]) (auto simp: run_quota_slot_worker_def split: sum.splits)
    qed
  qed
qed

end

lemma acquire_engine:
  assumes "quota_file_ok f" "acquire_quota_slot io su wi li ca ri now f = (Inr a, g)"
  shows "quota_file_ok g \<and> ad_reservation_id a \<notin> held_slots f
    \<and> held_slots g = insert (ad_reservation_id a) (held_slots f)"
proof -
  obtain s subj win lim cap rid where s: "read_quota_slot_state f = Inr s"
    "map_of (reservations s) rid = None" "valid_state (admit s subj win rid now)"
    "g = Stored (admit s subj win rid now)" "ad_reservation_id a = rid"
    using assms(2) unfolding acquire_succeeds_iff by auto
  have "quota_ok s"
    using assms(1) s(1) by (simp add: quota_file_ok_def)
  with s show ?thesis
    using quota_ok_admit(1) quota_file_ok_stored
    by (auto simp: held_slots_def new_reservation_def)
qed

lemma release_engine:
  assumes "quota_file_ok f" "release_quota_slot io (PStr k) now f = (Inr x, g)"
  shows "quota_file_ok g \<and> held_slots g = held_slots f - {k}"
proof -
  obtain s r where s: "read_quota_slot_state f = Inr s" "map_of (reservations s) k = Some r"
    and g: "if fld r ''state'' = RELEASED_state then g = f
      else valid_state (free_slot s k r now) \<and> g = Stored (free_slot s k r now)"
    using assms(2) unfolding release_cases by (auto split: if_splits)
  have ok: "quota_ok s"
    using assms(1) s(1) by (simp add: quota_file_ok_def)
  show ?thesis
  proof (cases "fld r ''state'' = RELEASED_state")
    case True
    with g assms(1) s show ?thesis
      by (auto simp: held_slots_def)
  next
    case False
    with g s show ?thesis
      using quota_ok_free(1) [OF ok s(2)] quota_file_ok_stored by (auto simp: held_slots_def)
  qed
qed

text \<open>A held slot can be given back exactly when the time of the release is a text and the file can be
  replaced.\<close>

lemma release_possible:
  assumes "quota_file_ok f" and "k \<in> held_slots f"
  shows "(\<exists>x g. release_quota_slot io (PStr k) now f = (Inr x, g)) \<longleftrightarrow> is_ident now \<and> replace_ok io"
proof -
  obtain s r where s: "read_quota_slot_state f = Inr s" "valid_state s"
    and r: "map_of (reservations s) k = Some r" "fld r ''state'' = ACTIVE_state"
    using assms by (auto simp: quota_file_ok_def quota_ok_def held_slots_def)
  have "valid_reservation k r"
    using s(2) r(1) list_all_map_of unfolding valid_state_def reservations_def by fastforce
  then have "nonblank k" by (simp add: valid_reservation_def)
  moreover have "is_ident now" if "valid_state (free_slot s k r now)"
  proof -
    have "map_of (reservations (free_slot s k r now)) k
        = Some (put ''released_at'' now (put ''state'' RELEASED_state r))"
      by (simp add: update_conv)
    then have "valid_reservation k (put ''released_at'' now (put ''state'' RELEASED_state r))"
      using that list_all_map_of unfolding valid_state_def reservations_def by fastforce
    then show ?thesis by (simp add: valid_reservation_def)
  qed
  ultimately show ?thesis
    unfolding release_cases using s r valid_free [OF s(2) r(1)] by auto
qed

interpretation qs: slot_provider "acquire_quota_slot io su wi li ca ri now"
    "\<lambda>a. release_quota_slot io' (PStr (ad_reservation_id a)) now'" quota_file_ok held_slots
    ad_reservation_id "is_ident now' \<and> replace_ok io'" for io su wi li ca ri now io' now'
  by unfold_locales
    (erule quota_error_keeps, erule (1) acquire_engine, erule quota_error_keeps, erule (1) release_engine,
      erule (1) release_possible)

section \<open>Properties\<close>

text \<open>Any sequence of acquisitions and releases under one policy, whatever the disk does.\<close>

inductive quota_call :: "int \<Rightarrow> int \<Rightarrow> disk_file \<Rightarrow> disk_file \<Rightarrow> bool" for qmax smax where
  taken: "acquire_quota_slot io su wi (PInt qmax) (PInt smax) ri now f = (res, g) \<Longrightarrow> quota_call qmax smax f g"
| given: "release_quota_slot io ri now f = (res, g) \<Longrightarrow> quota_call qmax smax f g"

definition within_policy :: "int \<Rightarrow> int \<Rightarrow> disk_file \<Rightarrow> bool" where
  "within_policy qmax smax f = (\<exists>s. read_quota_slot_state f = Inr s \<and> quota_ok s
     \<and> int (active_slot_count s) \<le> smax \<and> (\<forall>subj win. quota_used s subj win \<le> qmax))"

lemma quota_call_within:
  assumes "within_policy qmax smax f" "quota_call qmax smax f g"
  shows "within_policy qmax smax g"
  using assms(2)
proof cases
  case (taken io su wi ri now res)
  show ?thesis
  proof (cases res)
    case (Inl e)
    then show ?thesis
      using taken quota_error_keeps(1) assms(1) by blast
  next
    case (Inr a)
    then have acquired: "acquire_quota_slot io su wi (PInt qmax) (PInt smax) ri now f = (Inr a, g)"
      using taken by simp
    obtain s subj win rid where s: "read_quota_slot_state f = Inr s" "quota_used s subj win < qmax"
      "int (active_slot_count s) < smax" "map_of (reservations s) rid = None"
      "valid_state (admit s subj win rid now)" "g = Stored (admit s subj win rid now)"
      using acquired unfolding acquire_succeeds_iff by auto
    with assms(1) have "quota_ok s" "\<forall>subj win. quota_used s subj win \<le> qmax"
      by (auto simp: within_policy_def)
    with s show ?thesis
      using quota_ok_admit [OF \<open>quota_ok s\<close> s(4,5)] by (auto simp: within_policy_def)
  qed
next
  case (given io ri now res)
  show ?thesis
  proof (cases res)
    case (Inl e)
    then show ?thesis
      using given quota_error_keeps(2) assms(1) by blast
  next
    case (Inr x)
    then have freed: "release_quota_slot io ri now f = (Inr x, g)"
      using given by simp
    obtain s rid r where s: "read_quota_slot_state f = Inr s" "map_of (reservations s) rid = Some r"
      and g: "if fld r ''state'' = RELEASED_state then g = f
        else valid_state (free_slot s rid r now) \<and> g = Stored (free_slot s rid r now)"
      using freed unfolding release_cases by (auto split: if_splits)
    show ?thesis
    proof (cases "fld r ''state'' = RELEASED_state")
      case True
      with g assms(1) show ?thesis by simp
    next
      case False
      with g have v: "valid_state (free_slot s rid r now)" "g = Stored (free_slot s rid r now)"
        by simp_all
      from assms(1) s(1) have "quota_ok s" "int (active_slot_count s) \<le> smax"
        "\<forall>subj win. quota_used s subj win \<le> qmax"
        by (auto simp: within_policy_def)
      then show ?thesis
        using v quota_ok_free [OF \<open>quota_ok s\<close> s(2) v(1) False] by (auto simp: within_policy_def)
    qed
  qed
qed

text \<open>C25. Under one policy the engine never admits too much: in every file any sequence of calls
  can leave, no window has used more than its limit, no more slots are active than the
  capacity, and the counter of a window is exactly the number of reservations made in it.\<close>

theorem quota_never_exceeded:
  assumes "(quota_call qmax smax)\<^sup>*\<^sup>* Absent f" "0 < qmax" "0 < smax"
  shows "\<exists>s. read_quota_slot_state f = Inr s \<and> int (active_slot_count s) \<le> smax
    \<and> (\<forall>subj win. quota_used s subj win \<le> qmax
         \<and> quota_used s subj win = int (count_vals (\<lambda>r. fld r ''subject_id'' = PStr subj
             \<and> fld r ''window_id'' = PStr win) (reservations s)))"
proof -
  have "within_policy qmax smax Absent"
    using assms(2,3) quota_ok_empty
    by (auto simp: within_policy_def read_quota_slot_state_def quota_used_def empty_state_def
        active_slot_count_def reservations_def the_int_def fld_def)
  with assms(1) have "within_policy qmax smax f"
    by (induction rule: rtranclp_induct) (auto intro: quota_call_within)
  then show ?thesis
    by (auto simp: within_policy_def quota_ok_def booked_def)
qed

definition demo_quota :: pv where
  "demo_quota = admit empty_state ''u'' ''w'' ''r1'' (PStr ''now'')"

lemma demo_acquire:
  "acquire_quota_slot good_io (PStr ''u'') (PStr ''w'') (PInt 2) (PInt 1) (PStr ''r1'') (PStr ''now'') Absent =
    (Inr \<lparr>ad_reservation_id = ''r1'', ad_subject_id = ''u'', ad_window_id = ''w'', ad_quota_limit = 2,
       ad_quota_used = 1, ad_quota_remaining = 1, ad_slot_capacity = 1, ad_active_slot_count = 1\<rparr>,
     Stored demo_quota)"
  by code_simp

lemma quota_never_exceeded_witness:
  "\<exists>s. read_quota_slot_state (Stored demo_quota) = Inr s \<and> int (active_slot_count s) \<le> 1"
proof -
  have "(quota_call 2 1)\<^sup>*\<^sup>* Absent (Stored demo_quota)"
    using quota_call.taken [OF demo_acquire] by blast
  then show ?thesis
    using quota_never_exceeded [OF _ zero_less_numeral zero_less_one] by blast
qed

text \<open>An admission succeeds exactly when the request is well formed, the policy positive, the
  window below its limit, a slot free and the reservation id new; it answers with the quota that
  remains and the number of active slots.\<close>

theorem acquire_slot_iff:
  assumes "read_quota_slot_state f = Inr s"
  shows "(\<exists>a g. acquire_quota_slot good_io (PStr subj) (PStr win) (PInt qmax) (PInt smax) (PStr rid)
        (PStr now) f = (Inr a, g) \<and> ad_quota_remaining a = qmax - (quota_used s subj win + 1)
        \<and> ad_active_slot_count a = int (active_slot_count s) + 1)
    \<longleftrightarrow> nonblank subj \<and> nonblank win \<and> nonblank rid \<and> nonblank now \<and> 0 < qmax \<and> 0 < smax
      \<and> quota_used s subj win < qmax \<and> int (active_slot_count s) < smax
      \<and> map_of (reservations s) rid = None"
proof -
  have "valid_state s"
    using assms by (auto simp: read_quota_slot_state_def empty_state_def valid_state_def fld_def
        split: disk_file.splits if_splits)
  then show ?thesis
    unfolding acquire_succeeds_iff using assms valid_admit [of s subj win rid "PStr now"]
    by (auto simp: good_io_def)
qed

lemma acquire_slot_iff_witness:
  "\<not> (\<exists>a g. acquire_quota_slot good_io (PStr ''u'') (PStr ''w'') (PInt 2) (PInt 1) (PStr ''r2'')
        (PStr ''now'') (Stored demo_quota) = (Inr a, g) \<and> ad_quota_remaining a = 0
        \<and> ad_active_slot_count a = 2)"
proof -
  have "valid_state demo_quota" "active_slot_count demo_quota = 1" "quota_used demo_quota ''u'' ''w'' = 1"
    by code_simp+
  then show ?thesis
    using acquire_slot_iff [of "Stored demo_quota" demo_quota "''u''" "''w''" 2 1 "''r2''" "''now''"]
    by simp
qed

text \<open>C33. A worker under an admission never leaks its slot.  It runs exactly when it is admitted.
  Whether it returns or raises, its slot is given back when the time of the release is a text and the
  state file can be replaced, and the run ends as the worker did; otherwise the slot stays held and
  the run raises, with the error of the worker if there is one.\<close>

theorem worker_never_leaks:
  assumes "quota_file_ok f"
    "run_quota_slot_worker (acquire_quota_slot io su wi li ca ri now)
       (\<lambda>a. release_quota_slot io' (PStr (ad_reservation_id a)) now') worker f w = (res, g, w')"
  shows "case fst (acquire_quota_slot io su wi li ca ri now f) of
      Inl e \<Rightarrow> res = Inl (Not_Admitted e) \<and> g = f \<and> w' = w
    | Inr a \<Rightarrow> w' = snd (worker w) \<and> quota_file_ok g \<and>
        (if is_ident now' \<and> replace_ok io'
         then held_slots g = held_slots f \<and>
           (\<exists>r. res = (case fst (worker w) of Inl x \<Rightarrow> Inl (Worker_Raised x)
              | Inr v \<Rightarrow> Inr \<lparr>wr_admission = a, wr_worker_result = v, wr_release = r\<rparr>))
         else held_slots g = insert (ad_reservation_id a) (held_slots f) \<and>
           (\<exists>e. res = Inl (case fst (worker w) of Inl x \<Rightarrow> Worker_Raised_Release_Failed x e
              | Inr v \<Rightarrow> Release_Failed e)))"
  by (cases rule: qs.worker_outcome [OF assms, case_names refused freed stuck]) auto

text \<open>A worker that raises, on a fresh state file.\<close>

lemma worker_never_leaks_witness:
  "case run_quota_slot_worker
      (acquire_quota_slot good_io (PStr ''u'') (PStr ''w'') (PInt 2) (PInt 1) (PStr ''r1'') (PStr ''now''))
      (\<lambda>a. release_quota_slot good_io (PStr (ad_reservation_id a)) (PStr ''later''))
      (\<lambda>w. (Inl ''boom'' :: (string, unit) result, w + 1)) Absent (0 :: nat) of
    (res, g, w) \<Rightarrow> res = Inl (Worker_Raised ''boom'') \<and> held_slots g = held_slots Absent \<and> w = 1"
proof -
  let ?run = "run_quota_slot_worker
      (acquire_quota_slot good_io (PStr ''u'') (PStr ''w'') (PInt 2) (PInt 1) (PStr ''r1'') (PStr ''now''))
      (\<lambda>a. release_quota_slot good_io (PStr (ad_reservation_id a)) (PStr ''later''))
      (\<lambda>w. (Inl ''boom'' :: (string, unit) result, w + 1)) Absent (0 :: nat)"
  have "fst ?run = Inl (Worker_Raised ''boom'')" "snd (snd ?run) = 1"
    by code_simp+
  moreover obtain g where "?run = (fst ?run, g, snd (snd ?run))"
    by (metis prod.collapse)
  ultimately have run: "?run = (Inl (Worker_Raised ''boom''), g, 1)"
    by simp
  have "quota_file_ok Absent"
    using quota_ok_empty by (simp add: quota_file_ok_def read_quota_slot_state_def)
  moreover have "is_ident (PStr ''later'') \<and> replace_ok good_io" by code_simp
  ultimately show ?thesis
    using worker_never_leaks [OF _ run] unfolding run demo_acquire by simp
qed

end
