(* ===== verification/Stateful_Worker.thy ===== *)
theory Stateful_Worker
  imports Quota_Slots_Props
begin

text \<open>
  The worker that runs the master engine once and keeps a state file about the run,
  \<open>src/engine/stateful_worker_v4.py\<close>, with the identity check of
  \<open>src/engine/outcome_tracker_v4.py\<close>.  The engine and the providers are arguments of the code
  and of the model.  The state file holds the last event written to it.
\<close>

section \<open>Events\<close>

datatype run_state = STARTED | COMPLETED_RUN | FAILED

record worker_event =
  ev_run_id :: string
  ev_state :: run_state
  ev_started_at :: "string option"
  ev_completed_at :: "string option"
  ev_failed_at :: "string option"
  ev_error :: "(string \<times> string) option"
  ev_artifacts :: "(string \<times> string) list"

definition started_event :: "string \<Rightarrow> string option \<Rightarrow> worker_event" where
  "started_event run_id started_at = \<lparr>
     ev_run_id = run_id, ev_state = STARTED, ev_started_at = started_at, ev_completed_at = None,
     ev_failed_at = None, ev_error = None, ev_artifacts = []\<rparr>"

text \<open>The paths a run reports; a missing entry and \<open>None\<close> are the same to \<open>get\<close>.\<close>

record delivery_paths =
  de_delivery_artifact :: "string option"
  de_tradingview_watchlist :: "string option"
  de_pine_bridge_artifact :: "string option"
  de_pine_delivery_payload :: "string option"

record engine_run =
  er_snapshot :: "string option"
  er_outcome :: "string option"
  er_watchlist :: "string option"
  er_evidence :: "string option"
  er_delivery_out :: "delivery_paths option"

text \<open>\<open>_capture_artifacts\<close>\<close>

definition capture_artifacts :: "engine_run \<Rightarrow> (string \<times> string) list" where
  "capture_artifacts run =
    (let delivery = (\<lambda>f. case er_delivery_out run of None \<Rightarrow> None | Some d \<Rightarrow> f d);
         artifact_map = [
           (''snapshot_path'', er_snapshot run), (''outcome_path'', er_outcome run),
           (''watchlist_path'', er_watchlist run), (''evidence_path'', er_evidence run),
           (''delivery_artifact_path'', delivery de_delivery_artifact),
           (''tradingview_watchlist_path'', delivery de_tradingview_watchlist),
           (''pine_bridge_artifact_path'', delivery de_pine_bridge_artifact),
           (''pine_delivery_payload_path'', delivery de_pine_delivery_payload)]
     in List.map_filter (\<lambda>(k, v). map_option (Pair k) v) artifact_map)"

section \<open>The run\<close>

text \<open>\<open>validate_outcome_invocation_id\<close>: \<open>[0-9a-f]{32}\<close>\<close>

definition valid_invocation_id :: "pv \<Rightarrow> bool" where
  "valid_invocation_id v = (case v of PStr s \<Rightarrow> length s = 32 \<and> list_all is_hex s | _ \<Rightarrow> False)"

text \<open>How an engine ends: an \<open>Exception\<close> has a type and a message; anything else that leaves the
  engine is not caught.\<close>

datatype 'v engine_outcome = Returned 'v | Raised string string | Interrupted

datatype worker_exn =
    Missing_Invocation_Id
  | Invalid_Invocation_Id
  | Write_Failed
  | Engine_Raised string string
  | Engine_Interrupted

text \<open>\<open>writes k\<close> tells whether the \<open>k\<close>-th write of the call reaches the file, \<open>now k\<close> is the
  \<open>k\<close>-th answer of the clock.\<close>

definition run_master_engine_worker ::
  "(nat \<Rightarrow> bool) \<Rightarrow> (nat \<Rightarrow> string option) \<Rightarrow> pv \<Rightarrow> pv \<Rightarrow> string
    \<Rightarrow> (string \<Rightarrow> 'w \<Rightarrow> engine_run engine_outcome \<times> 'w)
    \<Rightarrow> worker_event option \<Rightarrow> 'w \<Rightarrow> (worker_exn, engine_run) result \<times> worker_event option \<times> 'w" where
  "run_master_engine_worker writes now outcome_invocation_id provided_id run_id master_engine file w =
    (let selected = (if outcome_invocation_id \<noteq> PNone then outcome_invocation_id else provided_id)
     in if selected = PNone then (Inl Missing_Invocation_Id, file, w)
     else if \<not> valid_invocation_id selected then (Inl Invalid_Invocation_Id, file, w)
     else if \<not> writes 0 then (Inl Write_Failed, file, w)
     else
       (let event = started_event run_id (now 0) in
        case master_engine (the_str selected) w of
          (Interrupted, w') \<Rightarrow> (Inl Engine_Interrupted, Some event, w')
        | (Raised t m, w') \<Rightarrow>
            if \<not> writes 1 then (Inl Write_Failed, Some event, w')
            else (Inl (Engine_Raised t m), Some (event\<lparr>ev_state := FAILED, ev_failed_at := now 1,
              ev_error := Some (t, m), ev_artifacts := []\<rparr>), w')
        | (Returned run, w') \<Rightarrow>
            if \<not> writes 1 then (Inl Write_Failed, Some event, w')
            else (Inr run, Some (event\<lparr>ev_state := COMPLETED_RUN, ev_completed_at := now 1,
              ev_artifacts := capture_artifacts run\<rparr>), w')))"

section \<open>The state file after the run\<close>

text \<open>The state file tells how the run ended: COMPLETED with the artifacts exactly when the
  engine returned and both writes succeeded, FAILED with its error when it raised, STARTED when
  the engine never came back or the second write failed; an invocation that is refused leaves
  file and engine alone.\<close>

theorem worker_state_tells:
  assumes "run_master_engine_worker writes now oid pid run_id engine file w = (res, g, w')"
    "selected = (if oid \<noteq> PNone then oid else pid)"
  shows "if valid_invocation_id selected \<and> writes 0
    then w' = snd (engine (the_str selected) w)
      \<and> (\<exists>ev. g = Some ev \<and> ev_run_id ev = run_id \<and> ev_started_at ev = now 0
        \<and> (ev_state ev = COMPLETED_RUN \<longleftrightarrow> (\<exists>run. res = Inr run))
        \<and> (ev_state ev = FAILED \<longleftrightarrow> (\<exists>t m. res = Inl (Engine_Raised t m)))
        \<and> (\<forall>run. res = Inr run \<longrightarrow> fst (engine (the_str selected) w) = Returned run
             \<and> ev_artifacts ev = capture_artifacts run \<and> ev_error ev = None)
        \<and> (\<forall>t m. res = Inl (Engine_Raised t m) \<longrightarrow> fst (engine (the_str selected) w) = Raised t m
             \<and> ev_error ev = Some (t, m) \<and> ev_artifacts ev = []))
    else g = file \<and> w' = w \<and> (\<exists>e. res = Inl e)"
proof -
  have "\<not> valid_invocation_id PNone"
    by (simp add: valid_invocation_id_def)
  with assms show ?thesis
    by (cases "engine (the_str selected) w"; cases "fst (engine (the_str selected) w)")
      (auto simp: run_master_engine_worker_def Let_def started_event_def split: if_splits)
qed

definition demo_run :: engine_run where
  "demo_run = \<lparr>er_snapshot = Some ''s.json'', er_outcome = None, er_watchlist = None,
     er_evidence = Some ''e.json'', er_delivery_out = None\<rparr>"

lemma worker_state_tells_witness:
  "\<exists>ev. fst (snd (run_master_engine_worker (\<lambda>_. True) (\<lambda>k. Some (replicate k CHR ''t''))
      (PStr (replicate 32 (CHR ''a''))) PNone ''run'' (\<lambda>_ w. (Returned demo_run, Suc w)) None 0)) = Some ev
    \<and> ev_artifacts ev = [(''snapshot_path'', ''s.json''), (''evidence_path'', ''e.json'')]"
proof -
  let ?run = "run_master_engine_worker (\<lambda>_. True) (\<lambda>k. Some (replicate k CHR ''t''))
      (PStr (replicate 32 (CHR ''a''))) PNone ''run'' (\<lambda>_ w. (Returned demo_run, Suc w)) None 0"
  have "fst ?run = Inr demo_run"
    by code_simp
  moreover obtain g v where "?run = (fst ?run, g, v)"
    by (metis prod.collapse)
  ultimately have run: "?run = (Inr demo_run, g, v)"
    by simp
  have id: "valid_invocation_id (PStr (replicate 32 (CHR ''a'')))"
    "capture_artifacts demo_run = [(''snapshot_path'', ''s.json''), (''evidence_path'', ''e.json'')]"
    by code_simp+
  from worker_state_tells [OF run refl] id show ?thesis
    unfolding run by auto
qed

end
