(* ===== verification/Setup_Lifecycle.thy ===== *)
theory Setup_Lifecycle
  imports Canonical_Pair
begin

text \<open>
  The price side of a setup: swings of a candle series (\<open>src/engine/market_structure.py\<close>), the
  swing pair a setup rests on (\<open>golden_zone_swing_resolver.py\<close>), whether a newer pair replaces
  it (\<open>swing_supersession_validator_v4.py\<close>) and how price action resolves it
  (\<open>setup_lifecycle_validator_v4.py\<close>).  A data frame is the list of its rows.  Prices are only
  compared, so the finite floats of the code are rationals here; time stamps are nanoseconds.
\<close>

section \<open>Swings\<close>

record candle =
  ca_timestamp :: int
  ca_high :: rat
  ca_low :: rat
  ca_close :: rat

definition window :: "(candle \<Rightarrow> rat) \<Rightarrow> candle list \<Rightarrow> nat \<Rightarrow> rat list" where
  "window column df i = take 5 (drop (i - 2) (map column df))"

text \<open>\<open>swing_high\<close> and \<open>swing_low\<close> with two candles on either side, as every caller uses them.\<close>

definition swing_high :: "candle list \<Rightarrow> nat list" where
  "swing_high df = filter (\<lambda>i. ca_high (df ! i) = Max (set (window ca_high df i)))
     [2 ..< length df - 2]"

definition swing_low :: "candle list \<Rightarrow> nat list" where
  "swing_low df = filter (\<lambda>i. ca_low (df ! i) = Min (set (window ca_low df i)))
     [2 ..< length df - 2]"

definition detect_bos :: "candle list \<Rightarrow> bool" where
  "detect_bos df =
    (let highs = swing_high df in
     if length highs < 2 then False
     else ca_close (last df) > ca_high (df ! (highs ! (length highs - 2))))"

definition detect_choch :: "candle list \<Rightarrow> bool" where
  "detect_choch df =
    (let lows = swing_low df in
     if length lows < 2 then False
     else ca_close (last df) < ca_low (df ! (lows ! (length lows - 2))))"

section \<open>The swing pair of a trend\<close>

datatype setup_error =
    Unsupported_Trend string
  | Unsupported_Direction string
  | Invalid_Entry_Zone
  | Invalid_Levels
  | Duplicate_Timestamps
  | Empty_Frame
  | Setup_Count_Mismatch
  | Duplicate_Symbols

text \<open>\<open>ema span\<close> stands for the last value of pandas' exponentially weighted mean; an empty frame
  has none.\<close>

definition detect_trend ::
  "(nat \<Rightarrow> rat list \<Rightarrow> rat) \<Rightarrow> candle list \<Rightarrow> (setup_error, string) result" where
  "detect_trend ema df =
    (let close = map ca_close df in
     if df = [] then Inl Empty_Frame
     else if ema 20 close > ema 50 close then Inr ''UPTREND''
     else if ema 20 close < ema 50 close then Inr ''DOWNTREND''
     else Inr ''SIDEWAYS'')"

definition analyze_market_structure ::
  "(nat \<Rightarrow> rat list \<Rightarrow> rat) \<Rightarrow> candle list \<Rightarrow> (setup_error, string \<times> bool \<times> bool) result" where
  "analyze_market_structure ema df =
    (case detect_trend ema df of
       Inl e \<Rightarrow> Inl e
     | Inr trend \<Rightarrow> Inr (trend, detect_bos df, detect_choch df))"

record swing_pair =
  sp_direction :: string
  sp_low_index :: nat
  sp_high_index :: nat
  sp_low_at :: int
  sp_high_at :: int
  sp_low :: rat
  sp_high :: rat

text \<open>The first value a loop with \<open>continue\<close> and \<open>return\<close> comes to.\<close>

fun first_some :: "('a \<Rightarrow> 'b option) \<Rightarrow> 'a list \<Rightarrow> 'b option" where
  "first_some f [] = None"
| "first_some f (x # xs) = (case f x of None \<Rightarrow> first_some f xs | Some y \<Rightarrow> Some y)"

definition make_pair :: "candle list \<Rightarrow> string \<Rightarrow> nat \<Rightarrow> nat \<Rightarrow> swing_pair option" where
  "make_pair df direction low_index high_index =
    (if ca_high (df ! high_index) \<le> ca_low (df ! low_index) then None
     else Some \<lparr>
       sp_direction = direction, sp_low_index = low_index, sp_high_index = high_index,
       sp_low_at = ca_timestamp (df ! low_index), sp_high_at = ca_timestamp (df ! high_index),
       sp_low = ca_low (df ! low_index), sp_high = ca_high (df ! high_index)\<rparr>)"

definition resolve_golden_zone_swing_pair ::
  "candle list \<Rightarrow> string \<Rightarrow> (setup_error, swing_pair option) result" where
  "resolve_golden_zone_swing_pair df trend =
    (let highs = swing_high df; lows = swing_low df in
     if py_upper trend = ''SIDEWAYS'' then Inr None
     else if py_upper trend = ''UPTREND'' then
       Inr (first_some (\<lambda>h. case filter (\<lambda>l. l < h) lows of
              [] \<Rightarrow> None | prior \<Rightarrow> make_pair df ''BULLISH'' (last prior) h) (rev highs))
     else if py_upper trend = ''DOWNTREND'' then
       Inr (first_some (\<lambda>l. case filter (\<lambda>h. h < l) highs of
              [] \<Rightarrow> None | prior \<Rightarrow> make_pair df ''BEARISH'' l (last prior)) (rev lows))
     else Inl (Unsupported_Trend (py_upper trend)))"

section \<open>Setups\<close>

record trade_setup =
  su_symbol :: string
  su_direction :: string
  su_low_at :: int
  su_high_at :: int
  su_entry_low :: rat
  su_entry_high :: rat
  su_take_profit :: rat
  su_stop_loss :: rat

datatype supersession = NO_REPLACEMENT | CURRENT | OLDER_PAIR | SUPERSEDED

definition evaluate_swing_supersession ::
  "trade_setup \<Rightarrow> candle list \<Rightarrow> string \<Rightarrow> (setup_error, string \<times> supersession \<times> bool) result" where
  "evaluate_swing_supersession s closed_candles current_trend =
    (case resolve_golden_zone_swing_pair closed_candles current_trend of
       Inl e \<Rightarrow> Inl e
     | Inr None \<Rightarrow> Inr (su_symbol s, NO_REPLACEMENT, False)
     | Inr (Some latest) \<Rightarrow>
       if py_upper (su_direction s) = py_upper (sp_direction latest)
          \<and> su_low_at s = sp_low_at latest \<and> su_high_at s = sp_high_at latest
       then Inr (su_symbol s, CURRENT, False)
       else if max (sp_low_at latest) (sp_high_at latest) < max (su_low_at s) (su_high_at s)
       then Inr (su_symbol s, OLDER_PAIR, False)
       else Inr (su_symbol s, SUPERSEDED, True))"

section \<open>The life of a setup\<close>

datatype setup_state =
    WAITING_ENTRY | ACTIVE | TP_HIT | SL_HIT | ENTRY_MISSED | INVALIDATED_BEFORE_ENTRY | AMBIGUOUS

definition setup_terminal :: "setup_state \<Rightarrow> bool" where
  "setup_terminal st =
    (st \<in> {TP_HIT, SL_HIT, ENTRY_MISSED, INVALIDATED_BEFORE_ENTRY, AMBIGUOUS})"

text \<open>What a candle touches, for a bullish setup or a bearish one.\<close>

definition entry_touched :: "trade_setup \<Rightarrow> candle \<Rightarrow> bool" where
  "entry_touched s c = (ca_high c \<ge> su_entry_low s \<and> ca_low c \<le> su_entry_high s)"

definition tp_touched :: "bool \<Rightarrow> trade_setup \<Rightarrow> candle \<Rightarrow> bool" where
  "tp_touched bullish s c =
    (if bullish then ca_high c \<ge> su_take_profit s else ca_low c \<le> su_take_profit s)"

definition sl_touched :: "bool \<Rightarrow> trade_setup \<Rightarrow> candle \<Rightarrow> bool" where
  "sl_touched bullish s c =
    (if bullish then ca_low c \<le> su_stop_loss s else ca_high c \<ge> su_stop_loss s)"

text \<open>The loop over the candles: the state, when the entry was touched, when it was resolved.\<close>

fun lifecycle_loop ::
  "bool \<Rightarrow> trade_setup \<Rightarrow> setup_state \<Rightarrow> int option \<Rightarrow> candle list \<Rightarrow> setup_state \<times> int option \<times> int option" where
  "lifecycle_loop bullish s st entry [] = (st, entry, None)"
| "lifecycle_loop bullish s st entry (c # cs) =
    (let e = entry_touched s c; tp = tp_touched bullish s c; sl = sl_touched bullish s c;
         t = ca_timestamp c
     in if st = WAITING_ENTRY then
          (if e \<and> 1 < of_bool e + of_bool tp + (of_bool sl :: nat)
           then (AMBIGUOUS, entry, Some t)
           else if tp then (ENTRY_MISSED, entry, Some t)
           else if sl then (INVALIDATED_BEFORE_ENTRY, entry, Some t)
           else if e then lifecycle_loop bullish s ACTIVE (Some t) cs
           else lifecycle_loop bullish s st entry cs)
        else if st = ACTIVE then
          (if tp \<and> sl then (AMBIGUOUS, entry, Some t)
           else if tp then (TP_HIT, entry, Some t)
           else if sl then (SL_HIT, entry, Some t)
           else lifecycle_loop bullish s st entry cs)
        else lifecycle_loop bullish s st entry cs)"

record setup_result =
  sr_symbol :: string
  sr_state :: setup_state
  sr_actionable :: bool
  sr_start_at :: int
  sr_entry_at :: "int option"
  sr_resolved_at :: "int option"

definition lifecycle_start :: "trade_setup \<Rightarrow> int" where
  "lifecycle_start s = max (su_low_at s) (su_high_at s) + 12 * 3600 * 10 ^ 9"

definition levels_ok :: "bool \<Rightarrow> trade_setup \<Rightarrow> bool" where
  "levels_ok bullish s =
    (if bullish
     then su_stop_loss s < su_entry_low s \<and> su_entry_low s \<le> su_entry_high s
       \<and> su_entry_high s < su_take_profit s
     else su_take_profit s < su_entry_low s \<and> su_entry_low s \<le> su_entry_high s
       \<and> su_entry_high s < su_stop_loss s)"

definition evaluate_setup_lifecycle ::
  "trade_setup \<Rightarrow> candle list \<Rightarrow> (setup_error, setup_result) result" where
  "evaluate_setup_lifecycle s candles =
    (let direction = py_upper (su_direction s); bullish = (direction = ''BULLISH'') in
     if direction \<notin> {''BULLISH'', ''BEARISH''} then Inl (Unsupported_Direction direction)
     else if su_entry_low s > su_entry_high s then Inl Invalid_Entry_Zone
     else if \<not> levels_ok bullish s then Inl Invalid_Levels
     else if \<not> distinct (map ca_timestamp candles) then Inl Duplicate_Timestamps
     else
       (let start_at = lifecycle_start s;
            history = sort_key ca_timestamp (filter (\<lambda>c. ca_timestamp c \<ge> start_at) candles)
        in case lifecycle_loop bullish s WAITING_ENTRY None history of
          (st, entry, resolved) \<Rightarrow> Inr \<lparr>
            sr_symbol = su_symbol s, sr_state = st, sr_actionable = (\<not> setup_terminal st),
            sr_start_at = start_at, sr_entry_at = entry, sr_resolved_at = resolved\<rparr>))"

section \<open>The artifact before delivery\<close>

text \<open>
  \<open>src/engine/pre_delivery_validator_v4.py\<close>: every setup of the source artifact is evaluated on
  the closed candles of its symbol, and the eligible ones go on.
\<close>

record evaluation =
  ev_symbol :: string
  ev_lifecycle :: setup_result
  ev_supersession :: supersession
  ev_superseded :: bool
  ev_eligible :: bool
  ev_rejections :: "string list"

definition setup_state_str :: "setup_state \<Rightarrow> string" where
  "setup_state_str st =
    (case st of
       WAITING_ENTRY \<Rightarrow> ''WAITING_ENTRY'' | ACTIVE \<Rightarrow> ''ACTIVE'' | TP_HIT \<Rightarrow> ''TP_HIT''
     | SL_HIT \<Rightarrow> ''SL_HIT'' | ENTRY_MISSED \<Rightarrow> ''ENTRY_MISSED''
     | INVALIDATED_BEFORE_ENTRY \<Rightarrow> ''INVALIDATED_BEFORE_ENTRY'' | AMBIGUOUS \<Rightarrow> ''AMBIGUOUS'')"

definition evaluate_setup ::
  "(nat \<Rightarrow> rat list \<Rightarrow> rat) \<Rightarrow> candle list \<Rightarrow> trade_setup \<Rightarrow> (setup_error, evaluation) result" where
  "evaluate_setup ema closed_candles s =
    (case detect_trend ema closed_candles of
       Inl e \<Rightarrow> Inl e
     | Inr trend \<Rightarrow>
       (case evaluate_setup_lifecycle s closed_candles of
          Inl e \<Rightarrow> Inl e
        | Inr lifecycle \<Rightarrow>
          (case evaluate_swing_supersession s closed_candles trend of
             Inl e \<Rightarrow> Inl e
           | Inr (symbol, word, superseded) \<Rightarrow> Inr \<lparr>
               ev_symbol = su_symbol s, ev_lifecycle = lifecycle, ev_supersession = word,
               ev_superseded = superseded,
               ev_eligible = (sr_actionable lifecycle \<and> \<not> superseded),
               ev_rejections =
                 (if \<not> sr_actionable lifecycle then [setup_state_str (sr_state lifecycle)] else [])
                 @ (if superseded then [''SUPERSEDED''] else [])\<rparr>)))"

text \<open>The loop over the setups: the eligible setups and the evaluations so far.\<close>

fun evaluate_setups ::
  "(nat \<Rightarrow> rat list \<Rightarrow> rat) \<Rightarrow> (string \<Rightarrow> candle list) \<Rightarrow> trade_setup list
    \<Rightarrow> (setup_error, trade_setup list \<times> evaluation list) result" where
  "evaluate_setups ema provider [] = Inr ([], [])"
| "evaluate_setups ema provider (s # ss) =
    (case evaluate_setup ema (provider (su_symbol s)) s of
       Inl e \<Rightarrow> Inl e
     | Inr ev \<Rightarrow>
       (case evaluate_setups ema provider ss of
          Inl e \<Rightarrow> Inl e
        | Inr (eligible, evs) \<Rightarrow>
            Inr (if ev_eligible ev then s # eligible else eligible, ev # evs)))"

record pre_delivery =
  pd_source_setup_count :: nat
  pd_eligible_setup_count :: nat
  pd_setups :: "trade_setup list"
  pd_evaluations :: "evaluation list"

definition build_pre_delivery_artifact ::
  "(nat \<Rightarrow> rat list \<Rightarrow> rat) \<Rightarrow> (string \<Rightarrow> candle list) \<Rightarrow> int \<Rightarrow> trade_setup list
    \<Rightarrow> (setup_error, pre_delivery) result" where
  "build_pre_delivery_artifact ema provider setup_count setups =
    (if setup_count \<noteq> int (length setups) then Inl Setup_Count_Mismatch
     else if \<not> distinct (map su_symbol setups) then Inl Duplicate_Symbols
     else case evaluate_setups ema provider setups of
       Inl e \<Rightarrow> Inl e
     | Inr (eligible, evs) \<Rightarrow> Inr \<lparr>
         pd_source_setup_count = length setups, pd_eligible_setup_count = length eligible,
         pd_setups = eligible, pd_evaluations = evs\<rparr>)"

end
