(* ===== verification/Setup_Lifecycle_Props.thy ===== *)
theory Setup_Lifecycle_Props
  imports Setup_Lifecycle
begin

text \<open>
  The properties of the price side: which swing pair is resolved, what the candle loop computes,
  and which setups of an artifact are delivered.
\<close>

section \<open>The newest swing pair\<close>

lemma swings_ascending: "sorted_wrt (<) (swing_high df)" "sorted_wrt (<) (swing_low df)"
  by (simp_all add: swing_high_def swing_low_def sorted_wrt_filter)

text \<open>The loop from the newest entry down finds the newest solution of a round.\<close>

lemma newest_solution:
  fixes xs :: "'a::linorder list"
  assumes "sorted_wrt (<) xs" "\<forall>x \<in> set xs. \<forall>p. f x = Some p \<longleftrightarrow> P x p"
  shows "case first_some f (rev xs) of
      None \<Rightarrow> \<forall>x \<in> set xs. \<forall>p. \<not> P x p
    | Some p \<Rightarrow> \<exists>x \<in> set xs. P x p \<and> (\<forall>z \<in> set xs. \<forall>q. P z q \<longrightarrow> z \<le> x)"
  using assms
proof (induction xs rule: rev_induct)
  case Nil
  then show ?case by simp
next
  case (snoc x xs)
  then have less: "\<forall>y \<in> set xs. y < x" and IH: "case first_some f (rev xs) of
      None \<Rightarrow> \<forall>x \<in> set xs. \<forall>p. \<not> P x p
    | Some p \<Rightarrow> \<exists>x \<in> set xs. P x p \<and> (\<forall>z \<in> set xs. \<forall>q. P z q \<longrightarrow> z \<le> x)"
    by (simp_all add: sorted_wrt_append)
  show ?case
  proof (cases "f x")
    case None
    then have "\<forall>q. \<not> P x q"
      using snoc.prems(2) by (metis in_set_conv_decomp option.distinct(1))
    with None IH show ?thesis
      by (auto split: option.splits)
  next
    case (Some y)
    then have "P x y"
      using snoc.prems(2) by simp
    with Some less show ?thesis by (auto intro: less_imp_le)
  qed
qed

text \<open>The last entry below a bound is the greatest one.\<close>

lemma last_below:
  fixes xs :: "'a::linorder list"
  assumes "sorted_wrt (<) xs" "filter (\<lambda>k. k < b) xs \<noteq> []"
  shows "k = last (filter (\<lambda>k. k < b) xs) \<longleftrightarrow> k \<in> set xs \<and> k < b \<and> (\<forall>j \<in> set xs. j < b \<longrightarrow> j \<le> k)"
proof -
  let ?ys = "filter (\<lambda>k. k < b) xs"
  have sorted: "sorted ?ys"
    using assms(1) by (simp add: sorted_wrt_filter strict_sorted_imp_sorted)
  have last: "last ?ys \<in> set ?ys"
    using assms(2) by (rule last_in_set)
  have "\<forall>j \<in> set ?ys. j \<le> last ?ys"
    using sorted assms(2) by (metis last_conv_nth in_set_conv_nth sorted_nth_mono
        length_greater_0_conv Suc_pred less_Suc_eq_le lessI diff_Suc_1 One_nat_def)
  with last show ?thesis
    by (auto intro: antisym)
qed

text \<open>A low and a high that make a setup: in a bullish pair the low is the last swing low before
  the high, in a bearish pair the high is the last swing high before the low.\<close>

definition swing_candidate :: "candle list \<Rightarrow> bool \<Rightarrow> nat \<Rightarrow> nat \<Rightarrow> bool" where
  "swing_candidate df bullish l h \<longleftrightarrow> l \<in> set (swing_low df) \<and> h \<in> set (swing_high df)
    \<and> (if bullish then l < h \<and> (\<forall>k \<in> set (swing_low df). k < h \<longrightarrow> k \<le> l)
       else h < l \<and> (\<forall>k \<in> set (swing_high df). k < l \<longrightarrow> k \<le> h))
    \<and> ca_low (df ! l) < ca_high (df ! h)"

definition pair_of :: "candle list \<Rightarrow> bool \<Rightarrow> nat \<Rightarrow> nat \<Rightarrow> swing_pair" where
  "pair_of df bullish l h = \<lparr>
     sp_direction = (if bullish then ''BULLISH'' else ''BEARISH''), sp_low_index = l,
     sp_high_index = h, sp_low_at = ca_timestamp (df ! l), sp_high_at = ca_timestamp (df ! h),
     sp_low = ca_low (df ! l), sp_high = ca_high (df ! h)\<rparr>"

lemma make_pair_eq:
  "make_pair df (if bullish then ''BULLISH'' else ''BEARISH'') l h =
    (if ca_low (df ! l) < ca_high (df ! h) then Some (pair_of df bullish l h) else None)"
  by (simp add: make_pair_def pair_of_def)

text \<open>One round of each loop.\<close>

lemma bullish_round:
  assumes "h \<in> set (swing_high df)"
  shows "(case filter (\<lambda>l. l < h) (swing_low df) of [] \<Rightarrow> None | prior \<Rightarrow> make_pair df ''BULLISH'' (last prior) h)
      = Some p \<longleftrightarrow> (\<exists>l. swing_candidate df True l h \<and> p = pair_of df True l h)"
proof (cases "filter (\<lambda>l. l < h) (swing_low df) = []")
  case True
  then show ?thesis
    by (auto simp: swing_candidate_def filter_empty_conv)
next
  case False
  note below = last_below [OF swings_ascending(2) False]
  have "(case filter (\<lambda>l. l < h) (swing_low df) of [] \<Rightarrow> None | prior \<Rightarrow> make_pair df ''BULLISH'' (last prior) h)
      = make_pair df ''BULLISH'' (last (filter (\<lambda>l. l < h) (swing_low df))) h"
    using False by (simp split: list.splits)
  moreover have "swing_candidate df True l h \<longleftrightarrow>
      l = last (filter (\<lambda>l. l < h) (swing_low df)) \<and> ca_low (df ! l) < ca_high (df ! h)" for l
    unfolding below swing_candidate_def using assms by auto
  ultimately show ?thesis
    using make_pair_eq [of df True] by auto
qed

lemma bearish_round:
  assumes "l \<in> set (swing_low df)"
  shows "(case filter (\<lambda>h. h < l) (swing_high df) of [] \<Rightarrow> None | prior \<Rightarrow> make_pair df ''BEARISH'' l (last prior))
      = Some p \<longleftrightarrow> (\<exists>h. swing_candidate df False l h \<and> p = pair_of df False l h)"
proof (cases "filter (\<lambda>h. h < l) (swing_high df) = []")
  case True
  then show ?thesis
    by (auto simp: swing_candidate_def filter_empty_conv)
next
  case False
  note below = last_below [OF swings_ascending(1) False]
  have "(case filter (\<lambda>h. h < l) (swing_high df) of [] \<Rightarrow> None | prior \<Rightarrow> make_pair df ''BEARISH'' l (last prior))
      = make_pair df ''BEARISH'' l (last (filter (\<lambda>h. h < l) (swing_high df)))"
    using False by (simp split: list.splits)
  moreover have "swing_candidate df False l h \<longleftrightarrow>
      h = last (filter (\<lambda>h. h < l) (swing_high df)) \<and> ca_low (df ! l) < ca_high (df ! h)" for h
    unfolding below swing_candidate_def using assms by auto
  ultimately show ?thesis
    using make_pair_eq [of df False] by auto
qed

text \<open>The pair a trend resolves to is a candidate whose second swing is the newest of all
  candidates; there is none exactly when there is no candidate.\<close>

theorem swing_pair_newest:
  assumes "py_upper trend = (if bullish then ''UPTREND'' else ''DOWNTREND'')"
  shows "case resolve_golden_zone_swing_pair df trend of
      Inr (Some p) \<Rightarrow> swing_candidate df bullish (sp_low_index p) (sp_high_index p)
        \<and> p = pair_of df bullish (sp_low_index p) (sp_high_index p)
        \<and> (\<forall>l h. swing_candidate df bullish l h \<longrightarrow>
             (if bullish then h \<le> sp_high_index p else l \<le> sp_low_index p))
    | Inr None \<Rightarrow> \<forall>l h. \<not> swing_candidate df bullish l h
    | Inl e \<Rightarrow> False"
proof (cases bullish)
  case True
  let ?f = "\<lambda>h. case filter (\<lambda>l. l < h) (swing_low df) of [] \<Rightarrow> None | prior \<Rightarrow> make_pair df ''BULLISH'' (last prior) h"
  have run: "resolve_golden_zone_swing_pair df trend = Inr (first_some ?f (rev (swing_high df)))"
    using True assms by (simp add: resolve_golden_zone_swing_pair_def Let_def)
  have mem: "swing_candidate df True l h \<Longrightarrow> h \<in> set (swing_high df)" for l h
    by (simp add: swing_candidate_def)
  note newest = newest_solution [OF swings_ascending(1), of df ?f
      "\<lambda>h p. \<exists>l. swing_candidate df True l h \<and> p = pair_of df True l h"]
  show ?thesis
  proof (cases "first_some ?f (rev (swing_high df))")
    case None
    with newest bullish_round have "\<forall>h \<in> set (swing_high df). \<forall>l. \<not> swing_candidate df True l h"
      by auto
    with None mem True run show ?thesis by auto
  next
    case (Some p)
    with newest bullish_round obtain h l where "swing_candidate df True l h" "p = pair_of df True l h"
      "\<forall>z \<in> set (swing_high df). \<forall>k. swing_candidate df True k z \<longrightarrow> z \<le> h"
      by auto
    with Some True run mem show ?thesis
      by (auto simp: pair_of_def)
  qed
next
  case False
  let ?f = "\<lambda>l. case filter (\<lambda>h. h < l) (swing_high df) of [] \<Rightarrow> None | prior \<Rightarrow> make_pair df ''BEARISH'' l (last prior)"
  have run: "resolve_golden_zone_swing_pair df trend = Inr (first_some ?f (rev (swing_low df)))"
    using False assms by (simp add: resolve_golden_zone_swing_pair_def Let_def)
  have mem: "swing_candidate df False l h \<Longrightarrow> l \<in> set (swing_low df)" for l h
    by (simp add: swing_candidate_def)
  note newest = newest_solution [OF swings_ascending(2), of df ?f
      "\<lambda>l p. \<exists>h. swing_candidate df False l h \<and> p = pair_of df False l h"]
  show ?thesis
  proof (cases "first_some ?f (rev (swing_low df))")
    case None
    with newest bearish_round have "\<forall>l \<in> set (swing_low df). \<forall>h. \<not> swing_candidate df False l h"
      by auto
    with None mem False run show ?thesis by auto
  next
    case (Some p)
    with newest bearish_round obtain l h where "swing_candidate df False l h" "p = pair_of df False l h"
      "\<forall>z \<in> set (swing_low df). \<forall>k. swing_candidate df False z k \<longrightarrow> z \<le> l"
      by auto
    with Some False run mem show ?thesis
      by (auto simp: pair_of_def)
  qed
qed

definition demo_candles :: "candle list" where
  "demo_candles = map (\<lambda>(t, h, l). \<lparr>ca_timestamp = t, ca_high = h, ca_low = l, ca_close = l\<rparr>)
     [(0, 12, 10), (1, 11, 9), (2, 9, 5), (3, 11, 8), (4, 14, 10), (5, 20, 13), (6, 15, 12),
      (7, 13, 11), (8, 12, 10)]"

lemma swing_pair_newest_witness:
  "resolve_golden_zone_swing_pair demo_candles ''uptrend'' = Inr (Some (pair_of demo_candles True 2 5))
    \<and> \<not> (\<exists>l h. 5 < h \<and> swing_candidate demo_candles True l h)"
proof -
  have "py_upper ''uptrend'' = (if True then ''UPTREND'' else ''DOWNTREND'')"
    and run: "resolve_golden_zone_swing_pair demo_candles ''uptrend'' = Inr (Some (pair_of demo_candles True 2 5))"
    by code_simp+
  from swing_pair_newest [OF this(1), of demo_candles] run show ?thesis
    by (auto simp: pair_of_def not_less [symmetric])
qed

section \<open>What the candle loop computes\<close>

text \<open>The same in two searches: the first candle that touches anything, and after an entry the
  first one that touches a target or a stop.\<close>

definition reference_outcome ::
  "bool \<Rightarrow> trade_setup \<Rightarrow> candle list \<Rightarrow> setup_state \<times> int option \<times> int option" where
  "reference_outcome bullish s cs =
    (let e = entry_touched s; tp = tp_touched bullish s; sl = sl_touched bullish s in
     case dropWhile (\<lambda>c. \<not> (e c \<or> tp c \<or> sl c)) cs of
       [] \<Rightarrow> (WAITING_ENTRY, None, None)
     | c # rest \<Rightarrow>
         if e c \<and> (tp c \<or> sl c) then (AMBIGUOUS, None, Some (ca_timestamp c))
         else if tp c then (ENTRY_MISSED, None, Some (ca_timestamp c))
         else if sl c then (INVALIDATED_BEFORE_ENTRY, None, Some (ca_timestamp c))
         else (case List.find (\<lambda>d. tp d \<or> sl d) rest of
             None \<Rightarrow> (ACTIVE, Some (ca_timestamp c), None)
           | Some d \<Rightarrow> (if tp d \<and> sl d then AMBIGUOUS else if tp d then TP_HIT else SL_HIT,
               Some (ca_timestamp c), Some (ca_timestamp d))))"

lemma loop_active:
  "lifecycle_loop b s ACTIVE entry cs =
    (case List.find (\<lambda>d. tp_touched b s d \<or> sl_touched b s d) cs of
       None \<Rightarrow> (ACTIVE, entry, None)
     | Some d \<Rightarrow> (if tp_touched b s d \<and> sl_touched b s d then AMBIGUOUS
           else if tp_touched b s d then TP_HIT else SL_HIT, entry, Some (ca_timestamp d)))"
  by (induction cs) (auto simp: Let_def)

lemma loop_waiting: "lifecycle_loop b s WAITING_ENTRY None cs = reference_outcome b s cs"
proof (induction cs)
  case Nil
  then show ?case by (simp add: reference_outcome_def)
next
  case (Cons c cs)
  then show ?case
    by (auto simp: reference_outcome_def Let_def loop_active split: if_splits)
qed

lemma reference_terminal:
  "fst (reference_outcome b s cs) \<in> {WAITING_ENTRY, ACTIVE} \<longleftrightarrow> snd (snd (reference_outcome b s cs)) = None"
  by (auto simp: reference_outcome_def Let_def split: list.splits option.splits)

lemma not_setup_terminal: "\<not> setup_terminal st \<longleftrightarrow> st \<in> {WAITING_ENTRY, ACTIVE}"
  by (cases st) (simp_all add: setup_terminal_def)

text \<open>C26. A setup with sound levels is resolved by the reference on its candles in time order: the
  order in which the frame lists them does not matter, and the setup stays actionable exactly
  as long as nothing has resolved it.\<close>

theorem lifecycle_reference:
  assumes "py_upper (su_direction s) = (if bullish then ''BULLISH'' else ''BEARISH'')"
    "levels_ok bullish s" "distinct (map ca_timestamp candles)"
    "mset history = mset (filter (\<lambda>c. lifecycle_start s \<le> ca_timestamp c) candles)"
    "sorted (map ca_timestamp history)"
  shows "\<exists>r. evaluate_setup_lifecycle s candles = Inr r
    \<and> (sr_state r, sr_entry_at r, sr_resolved_at r) = reference_outcome bullish s history
    \<and> (sr_actionable r \<longleftrightarrow> sr_resolved_at r = None)"
proof -
  let ?cs = "filter (\<lambda>c. lifecycle_start s \<le> ca_timestamp c) candles"
  have "inj_on ca_timestamp (set ?cs)"
    using assms(3) by (auto simp: distinct_map intro: inj_on_subset)
  then have sort: "sort_key ca_timestamp ?cs = history"
    using sort_key_inj_key_eq [of ?cs history ca_timestamp] assms(4,5) by simp
  have "su_entry_low s \<le> su_entry_high s"
    using assms(2) by (auto simp: levels_ok_def split: if_splits)
  with assms(1-3) sort have run: "evaluate_setup_lifecycle s candles =
      (case reference_outcome bullish s history of
         (st, entry, resolved) \<Rightarrow> Inr \<lparr>
           sr_symbol = su_symbol s, sr_state = st, sr_actionable = (\<not> setup_terminal st),
           sr_start_at = lifecycle_start s, sr_entry_at = entry, sr_resolved_at = resolved\<rparr>)"
    by (cases bullish) (simp_all add: evaluate_setup_lifecycle_def Let_def loop_waiting)
  show ?thesis
    using reference_terminal [of bullish s history] unfolding run
    by (auto simp: not_setup_terminal split: prod.splits)
qed

definition demo_setup :: trade_setup where
  "demo_setup = \<lparr>su_symbol = ''BTC/USDT'', su_direction = ''Bullish'', su_low_at = -43200000000001,
     su_high_at = -43200000000002, su_entry_low = 8, su_entry_high = 9, su_take_profit = 14,
     su_stop_loss = 4\<rparr>"

lemma lifecycle_reference_witness:
  "\<exists>r. evaluate_setup_lifecycle demo_setup (rev demo_candles) = Inr r \<and> sr_state r = TP_HIT
    \<and> sr_entry_at r = Some 1 \<and> sr_resolved_at r = Some 4"
proof -
  have "py_upper (su_direction demo_setup) = (if True then ''BULLISH'' else ''BEARISH'')"
    "levels_ok True demo_setup" "distinct (map ca_timestamp (rev demo_candles))"
    "filter (\<lambda>c. lifecycle_start demo_setup \<le> ca_timestamp c) (rev demo_candles) = rev demo_candles"
    "sorted (map ca_timestamp demo_candles)"
    "reference_outcome True demo_setup demo_candles = (TP_HIT, Some 1, Some 4)"
    by code_simp+
  then show ?thesis
    using lifecycle_reference [of demo_setup True "rev demo_candles" demo_candles] by auto
qed

section \<open>What is delivered\<close>

lemma evaluate_setups_spec:
  "evaluate_setups ema provider ss = Inr (eligible, evs) \<Longrightarrow>
    list_all2 (\<lambda>s ev. evaluate_setup ema (provider (su_symbol s)) s = Inr ev) ss evs
    \<and> eligible = map fst (filter (\<lambda>p. ev_eligible (snd p)) (zip ss evs))"
  by (induction ss arbitrary: eligible evs) (auto split: sum.splits prod.splits if_splits)

text \<open>The artifact delivers a setup exactly when its candles have not resolved it and no newer
  swing pair supersedes it; the evaluations follow the setups one by one, and the rejected ones
  are those with a reason.\<close>

theorem delivered_setups:
  assumes "build_pre_delivery_artifact ema provider n setups = Inr a"
  shows "n = int (length setups) \<and> distinct (map su_symbol setups)
    \<and> pd_setups a = map fst (filter (\<lambda>p. ev_rejections (snd p) = []) (zip setups (pd_evaluations a)))
    \<and> pd_eligible_setup_count a = length (pd_setups a)
    \<and> list_all2 (\<lambda>s ev. \<exists>trend. evaluate_setup_lifecycle s (provider (su_symbol s)) = Inr (ev_lifecycle ev)
          \<and> detect_trend ema (provider (su_symbol s)) = Inr trend
          \<and> (\<exists>w. evaluate_swing_supersession s (provider (su_symbol s)) trend = Inr w
              \<and> (ev_rejections ev = [] \<longleftrightarrow>
                   sr_state (ev_lifecycle ev) \<in> {WAITING_ENTRY, ACTIVE} \<and> fst (snd w) \<noteq> SUPERSEDED)))
        setups (pd_evaluations a)"
proof -
  obtain eligible evs where run: "evaluate_setups ema provider setups = Inr (eligible, evs)"
    and a: "a = \<lparr>pd_source_setup_count = length setups, pd_eligible_setup_count = length eligible,
       pd_setups = eligible, pd_evaluations = evs\<rparr>"
    and n: "n = int (length setups)" "distinct (map su_symbol setups)"
    using assms by (auto simp: build_pre_delivery_artifact_def split: if_splits sum.splits)
  note spec = evaluate_setups_spec [OF run]
  have flag: "ev_eligible ev \<longleftrightarrow> ev_rejections ev = []"
    if "evaluate_setup ema df s = Inr ev" for df s ev
    using that by (auto simp: evaluate_setup_def split: sum.splits if_splits)
  have each: "\<exists>trend. evaluate_setup_lifecycle s df = Inr (ev_lifecycle ev) \<and> detect_trend ema df = Inr trend
      \<and> (\<exists>w. evaluate_swing_supersession s df trend = Inr w \<and> (ev_rejections ev = [] \<longleftrightarrow>
            sr_state (ev_lifecycle ev) \<in> {WAITING_ENTRY, ACTIVE} \<and> fst (snd w) \<noteq> SUPERSEDED))"
    if evaluated: "evaluate_setup ema df s = Inr ev" for df s ev
  proof -
    obtain trend l x w b where parts: "detect_trend ema df = Inr trend" "evaluate_setup_lifecycle s df = Inr l"
      "evaluate_swing_supersession s df trend = Inr (x, w, b)" "ev_lifecycle ev = l"
      "ev_rejections ev = [] \<longleftrightarrow> sr_actionable l \<and> \<not> b"
      using evaluated by (auto simp: evaluate_setup_def split: sum.splits)
    have "sr_actionable l \<longleftrightarrow> \<not> setup_terminal (sr_state l)"
      using parts(2) by (auto simp: evaluate_setup_lifecycle_def Let_def split: if_splits prod.splits)
    moreover have "b \<longleftrightarrow> w = SUPERSEDED"
      using parts(3) by (auto simp: evaluate_swing_supersession_def split: option.splits if_splits sum.splits)
    ultimately show ?thesis
      using parts by (auto simp: not_setup_terminal)
  qed
  have "filter (\<lambda>p. ev_eligible (snd p)) (zip setups evs) = filter (\<lambda>p. ev_rejections (snd p) = []) (zip setups evs)"
    using spec flag by (intro filter_cong) (auto simp: list_all2_iff)
  with spec each a n show ?thesis
    by (auto elim: list.rel_mono_strong)
qed

lemma delivered_setups_witness:
  "\<exists>a. build_pre_delivery_artifact (\<lambda>n _. of_nat n) (\<lambda>_. demo_candles) 1 [demo_setup] = Inr a
    \<and> pd_setups a = [] \<and> pd_eligible_setup_count a = 0"
proof -
  let ?run = "build_pre_delivery_artifact (\<lambda>n _. of_nat n) (\<lambda>_. demo_candles) 1 [demo_setup]"
  have why: "(case ?run of Inl e \<Rightarrow> [] | Inr a \<Rightarrow> map ev_rejections (pd_evaluations a)) = [[''TP_HIT'']]"
    by code_simp
  then obtain a where a: "?run = Inr a"
    by (cases ?run) simp_all
  with why obtain ev where "pd_evaluations a = [ev]" "ev_rejections ev = [''TP_HIT'']"
    by (auto simp: map_eq_Cons_conv)
  then show ?thesis
    using delivered_setups [OF a] a by simp
qed

end
