(* ===== verification/Escalation_Router.thy ===== *)
theory Escalation_Router
  imports Prelude "HOL-Library.List_Lexorder" "HOL-Library.Char_ord"
begin

text \<open>
  The escalation of a primary review: the result contract of
  \<open>src/engine/deepseek_primary_review_provider_v1.py\<close> and the router of
  \<open>src/engine/deterministic_escalation_router_v1.py\<close>.  Both derive identities from the SHA-256
  of canonical JSON, which is the parameter \<open>digest\<close> here.  The fields of the data classes have
  the types the code declares, so only the checks on untyped input look at types.  An exception
  is its message.
\<close>

section \<open>The checks on values\<close>

text \<open>\<open>str.isalnum\<close> on the code points below 256.\<close>

definition py_alnum :: "char \<Rightarrow> bool" where
  "py_alnum c = (let n = (of_char c :: nat) in
     (48 \<le> n \<and> n \<le> 57) \<or> (65 \<le> n \<and> n \<le> 90) \<or> (97 \<le> n \<and> n \<le> 122)
     \<or> n \<in> {170, 178, 179, 181, 185, 186, 188, 189, 190}
     \<or> (192 \<le> n \<and> n \<noteq> 215 \<and> n \<noteq> 247))"

definition ascii_alnum :: "char \<Rightarrow> bool" where
  "ascii_alnum c = (let n = (of_char c :: nat) in
     (48 \<le> n \<and> n \<le> 57) \<or> (65 \<le> n \<and> n \<le> 90) \<or> (97 \<le> n \<and> n \<le> 122))"

text \<open>\<open>value and value == value.strip()\<close>\<close>

definition stripped :: "string \<Rightarrow> bool" where
  "stripped s = (s \<noteq> [] \<and> \<not> py_space (hd s) \<and> \<not> py_space (last s))"

text \<open>\<open>_require_identifier\<close> of the provider, and \<open>_IDENTIFIER\<close> of the router.\<close>

definition provider_identifier :: "string \<Rightarrow> bool" where
  "provider_identifier s = (stripped s \<and> length s \<le> 256
     \<and> list_all (\<lambda>c. py_alnum c \<or> c \<in> {CHR ''_'', CHR ''-'', CHR '':''}) s)"

definition router_identifier :: "string \<Rightarrow> bool" where
  "router_identifier s =
    (case s of [] \<Rightarrow> False
     | c # cs \<Rightarrow> ascii_alnum c
         \<and> list_all (\<lambda>c. ascii_alnum c \<or> c \<in> {CHR ''.'', CHR ''_'', CHR '':'', CHR ''-''}) cs)"

definition bounded_text :: "pv \<Rightarrow> bool" where
  "bounded_text v = (case v of PStr s \<Rightarrow> stripped s \<and> length s \<le> 100000 | _ \<Rightarrow> False)"

text \<open>\<open>tuple(sorted(set(items)))\<close>\<close>

definition canonical_texts :: "string list \<Rightarrow> string list" where
  "canonical_texts xs = sort (remdups xs)"

text \<open>\<open>tuple(value)\<close> for a value that is not a string.\<close>

definition iterated :: "pv \<Rightarrow> pv list option" where
  "iterated v = (case v of PList xs \<Rightarrow> Some xs | PDict d \<Rightarrow> Some (map (\<lambda>p. PStr (fst p)) d) | _ \<Rightarrow> None)"

definition is_text_in :: "(string \<Rightarrow> bool) \<Rightarrow> pv \<Rightarrow> bool" where
  "is_text_in P v = (case v of PStr s \<Rightarrow> P s | _ \<Rightarrow> False)"

text \<open>\<open>_require_closed_texts\<close> and \<open>_require_identifiers\<close> of the provider.\<close>

definition require_items :: "string \<Rightarrow> (string \<Rightarrow> bool) \<Rightarrow> pv \<Rightarrow> (string, string list) result" where
  "require_items field P v =
    (case iterated v of
       None \<Rightarrow> Inl (''invalid '' @ field)
     | Some xs \<Rightarrow>
         if xs = [] \<or> \<not> list_all (is_text_in P) xs then Inl (''invalid '' @ field)
         else Inr (canonical_texts (map the_str xs)))"

section \<open>The primary review\<close>

record primary_review =
  pr_policy_version :: string
  pr_event_snapshot_id :: string
  pr_request_payload_sha256 :: string
  pr_logical_review_id :: string
  pr_review_status :: string
  pr_review_conclusion :: string
  pr_ambiguity_level :: string
  pr_contradiction_present :: bool
  pr_evidence_sufficiency :: string
  pr_entity_confidence_state :: string
  pr_source_policy_concern_state :: string
  pr_material_risk_flags :: "string list"
  pr_reason_codes :: "string list"
  pr_structured_explanation :: string
  pr_escalation_evidence_refs :: "string list"
  pr_semantic_result_id :: string

definition review_fields :: "string list" where
  "review_fields = [''policy_version'', ''event_snapshot_id'', ''request_payload_sha256'',
     ''logical_review_id'', ''review_status'', ''review_conclusion'', ''ambiguity_level'',
     ''contradiction_present'', ''evidence_sufficiency'', ''entity_confidence_state'',
     ''source_policy_concern_state'', ''material_risk_flags'', ''reason_codes'',
     ''structured_explanation'', ''escalation_evidence_refs'', ''semantic_result_id'']"

definition texts_doc :: "string list \<Rightarrow> pv" where
  "texts_doc xs = PList (map PStr xs)"

text \<open>The document both modules hash: every field but the identity itself.\<close>

definition semantic_doc :: "primary_review \<Rightarrow> pv" where
  "semantic_doc r = PDict [
     (''policy_version'', PStr (pr_policy_version r)),
     (''event_snapshot_id'', PStr (pr_event_snapshot_id r)),
     (''request_payload_sha256'', PStr (pr_request_payload_sha256 r)),
     (''logical_review_id'', PStr (pr_logical_review_id r)),
     (''review_status'', PStr (pr_review_status r)),
     (''review_conclusion'', PStr (pr_review_conclusion r)),
     (''ambiguity_level'', PStr (pr_ambiguity_level r)),
     (''contradiction_present'', PBool (pr_contradiction_present r)),
     (''evidence_sufficiency'', PStr (pr_evidence_sufficiency r)),
     (''entity_confidence_state'', PStr (pr_entity_confidence_state r)),
     (''source_policy_concern_state'', PStr (pr_source_policy_concern_state r)),
     (''material_risk_flags'', texts_doc (pr_material_risk_flags r)),
     (''reason_codes'', texts_doc (pr_reason_codes r)),
     (''structured_explanation'', PStr (pr_structured_explanation r)),
     (''escalation_evidence_refs'', texts_doc (pr_escalation_evidence_refs r))]"

definition hash_mapping :: "(pv \<Rightarrow> string) \<Rightarrow> pv \<Rightarrow> string" where
  "hash_mapping digest d = digest (sort_doc d)"

definition review_policy_version :: string where
  "review_policy_version = ''deepseek-primary-review-policy-v1''"

text \<open>\<open>DeepSeekPrimaryReviewResultV1.__init__\<close>\<close>

definition make_primary_review :: "(pv \<Rightarrow> string) \<Rightarrow> pv \<Rightarrow> (string, primary_review) result" where
  "make_primary_review digest v =
    (if \<not> has_fields review_fields v then Inl ''invalid semantic result fields''
     else if fld v ''policy_version'' \<noteq> PStr review_policy_version
     then Inl ''invalid result policy_version''
     else if \<not> is_sha256 (fld v ''event_snapshot_id'') then Inl ''invalid event_snapshot_id''
     else if \<not> is_sha256 (fld v ''request_payload_sha256'')
     then Inl ''invalid request_payload_sha256''
     else if \<not> is_sha256 (fld v ''logical_review_id'') then Inl ''invalid logical_review_id''
     else if fld v ''review_status'' \<noteq> PStr ''COMPLETED'' then Inl ''invalid review_status''
     else if fld v ''review_conclusion'' \<noteq> PStr ''FACTUAL_REVIEW_COMPLETE''
     then Inl ''invalid review_conclusion''
     else if fld v ''ambiguity_level'' \<noteq> PStr ''NONE'' then Inl ''invalid ambiguity_level''
     else if fld v ''contradiction_present'' \<noteq> PBool False
     then Inl ''invalid contradiction_present''
     else if fld v ''evidence_sufficiency'' \<noteq> PStr ''SUFFICIENT''
     then Inl ''invalid evidence_sufficiency''
     else if fld v ''entity_confidence_state'' \<noteq> PStr ''EXPLICIT''
     then Inl ''invalid entity_confidence_state''
     else if fld v ''source_policy_concern_state'' \<noteq> PStr ''NONE''
     then Inl ''invalid source_policy_concern_state''
     else case require_items ''material_risk_flags'' (\<lambda>s. s = ''NONE'') (fld v ''material_risk_flags'') of
       Inl e \<Rightarrow> Inl e
     | Inr flags \<Rightarrow>
       (case require_items ''reason_codes'' (\<lambda>s. s = ''REVIEW_COMPLETED'') (fld v ''reason_codes'') of
          Inl e \<Rightarrow> Inl e
        | Inr reasons \<Rightarrow>
          (case require_items ''escalation_evidence_refs'' provider_identifier
               (fld v ''escalation_evidence_refs'') of
             Inl e \<Rightarrow> Inl e
           | Inr evidence \<Rightarrow>
             if \<not> bounded_text (fld v ''structured_explanation'')
             then Inl ''invalid structured_explanation''
             else
               (let r = \<lparr>
                  pr_policy_version = review_policy_version,
                  pr_event_snapshot_id = the_str (fld v ''event_snapshot_id''),
                  pr_request_payload_sha256 = the_str (fld v ''request_payload_sha256''),
                  pr_logical_review_id = the_str (fld v ''logical_review_id''),
                  pr_review_status = ''COMPLETED'',
                  pr_review_conclusion = ''FACTUAL_REVIEW_COMPLETE'',
                  pr_ambiguity_level = ''NONE'',
                  pr_contradiction_present = False,
                  pr_evidence_sufficiency = ''SUFFICIENT'',
                  pr_entity_confidence_state = ''EXPLICIT'',
                  pr_source_policy_concern_state = ''NONE'',
                  pr_material_risk_flags = flags,
                  pr_reason_codes = reasons,
                  pr_structured_explanation = the_str (fld v ''structured_explanation''),
                  pr_escalation_evidence_refs = evidence,
                  pr_semantic_result_id = []\<rparr>;
                    result_id = hash_mapping digest (semantic_doc r);
                    supplied = fld v ''semantic_result_id''
                in if supplied \<noteq> PNone \<and> \<not> is_sha256 supplied
                   then Inl ''invalid semantic_result_id''
                   else if supplied \<noteq> PNone \<and> supplied \<noteq> PStr result_id
                   then Inl ''semantic_result_id does not match semantic result''
                   else Inr (r\<lparr>pr_semantic_result_id := result_id\<rparr>)))))"

section \<open>The policy of the router\<close>

definition router_policy_version :: string where
  "router_policy_version = ''deterministic-escalation-router-policy-v1''"

record router_policy =
  rp_l1_model :: string
  rp_l2_model :: string
  rp_forced_l2 :: "string list"
  rp_fail_closed :: "string list"
  rp_moderate_ambiguity :: "string list"
  rp_critical_ambiguity :: "string list"
  rp_moderate_entity :: "string list"
  rp_critical_entity :: "string list"
  rp_moderate_source :: "string list"
  rp_critical_source :: "string list"
  rp_insufficient_evidence :: "string list"
  rp_critical_risks :: "string list"

definition policy_fields :: "string list" where
  "policy_fields = [''policy_version'', ''l1_claude_model_policy_id'', ''l2_claude_model_policy_id'',
     ''forced_l2_reason_codes'', ''fail_closed_reason_codes'', ''moderate_ambiguity_values'',
     ''critical_ambiguity_values'', ''moderate_entity_concern_values'',
     ''critical_entity_concern_values'', ''moderate_source_concern_values'',
     ''critical_source_concern_values'', ''insufficient_evidence_values'', ''critical_risk_flags'']"

definition fail_codes :: "string list" where
  "fail_codes = [''INVALID_RESULT_STATUS'', ''INVALID_ROUTER_INPUT'', ''POLICY_MISMATCH'',
     ''INCONSISTENT_RESULT_BINDING'']"

text \<open>\<open>_require_texts\<close> of the router: a tuple or a list, which may be empty.\<close>

definition require_texts :: "string \<Rightarrow> string list \<Rightarrow> pv \<Rightarrow> (string, string list) result" where
  "require_texts label allowed v =
    (case v of
       PList xs \<Rightarrow>
         if list_all (is_text_in (\<lambda>s. s \<in> set allowed)) xs
         then Inr (canonical_texts (map the_str xs)) else Inl (''invalid '' @ label)
     | _ \<Rightarrow> Inl (''invalid '' @ label))"

text \<open>The ten lists of a policy, in the order of their checks.\<close>

definition policy_lists :: "(string \<times> string list) list" where
  "policy_lists = [
     (''forced_l2_reason_codes'', [''FORCED_CRITICAL_REVIEW'']),
     (''fail_closed_reason_codes'', fail_codes),
     (''moderate_ambiguity_values'', [''MODERATE'']),
     (''critical_ambiguity_values'', [''CRITICAL'']),
     (''moderate_entity_concern_values'', [''MODERATE'']),
     (''critical_entity_concern_values'', [''CRITICAL'']),
     (''moderate_source_concern_values'', [''MODERATE'']),
     (''critical_source_concern_values'', [''CRITICAL'']),
     (''insufficient_evidence_values'', [''INSUFFICIENT'']),
     (''critical_risk_flags'', [''MATERIAL_RISK''])]"

fun require_lists :: "(string \<times> string list) list \<Rightarrow> pv \<Rightarrow> (string, string list list) result" where
  "require_lists [] v = Inr []"
| "require_lists ((label, allowed) # rest) v =
    (case require_texts label allowed (fld v label) of
       Inl e \<Rightarrow> Inl e
     | Inr xs \<Rightarrow> (case require_lists rest v of Inl e \<Rightarrow> Inl e | Inr xss \<Rightarrow> Inr (xs # xss)))"

text \<open>\<open>DeterministicEscalationRouterPolicyV1.__init__\<close>\<close>

definition make_policy :: "pv \<Rightarrow> (string, router_policy) result" where
  "make_policy v =
    (if \<not> has_fields policy_fields v then Inl ''invalid router policy fields''
     else if fld v ''policy_version'' \<noteq> PStr router_policy_version then Inl ''invalid policy_version''
     else if \<not> is_text_in router_identifier (fld v ''l1_claude_model_policy_id'')
     then Inl ''invalid l1 model policy''
     else if \<not> is_text_in router_identifier (fld v ''l2_claude_model_policy_id'')
     then Inl ''invalid l2 model policy''
     else if fld v ''l1_claude_model_policy_id'' = fld v ''l2_claude_model_policy_id''
     then Inl ''model policies must differ''
     else case require_lists policy_lists v of
       Inl e \<Rightarrow> Inl e
     | Inr ls \<Rightarrow> Inr \<lparr>
         rp_l1_model = the_str (fld v ''l1_claude_model_policy_id''),
         rp_l2_model = the_str (fld v ''l2_claude_model_policy_id''),
         rp_forced_l2 = ls ! 0, rp_fail_closed = ls ! 1,
         rp_moderate_ambiguity = ls ! 2, rp_critical_ambiguity = ls ! 3,
         rp_moderate_entity = ls ! 4, rp_critical_entity = ls ! 5,
         rp_moderate_source = ls ! 6, rp_critical_source = ls ! 7,
         rp_insufficient_evidence = ls ! 8, rp_critical_risks = ls ! 9\<rparr>)"

section \<open>Decisions\<close>

datatype route = L0 | L1 | L2

definition route_str :: "route \<Rightarrow> string" where
  "route_str r = (case r of L0 \<Rightarrow> ''L0'' | L1 \<Rightarrow> ''L1'' | L2 \<Rightarrow> ''L2'')"

definition route_name :: "route \<Rightarrow> string" where
  "route_name r = (case r of L0 \<Rightarrow> ''CLEAN_OR_ROUTINE'' | L1 \<Rightarrow> ''MODERATE_AMBIGUITY''
     | L2 \<Rightarrow> ''CRITICAL_AMBIGUITY'')"

record escalation =
  es_event_snapshot_id :: string
  es_result_id :: string
  es_payload_sha256 :: string
  es_route :: route
  es_review_required :: bool
  es_model :: "string option"
  es_reasons :: "string list"
  es_evidence_refs :: "string list"
  es_decision_id :: string

definition l0_reasons :: "string list" where
  "l0_reasons = [''ROUTINE_COMPLETE'', ''EVIDENCE_SUFFICIENT'', ''NO_MATERIAL_CONTRADICTION'']"

definition l1_reasons :: "string list" where
  "l1_reasons = [''MODERATE_AMBIGUITY'', ''LIMITED_EVIDENCE_CONCERN'', ''MODERATE_ENTITY_CONCERN'',
     ''MODERATE_SOURCE_CONCERN'', ''NONCRITICAL_CONTRADICTION'']"

definition l2_reasons :: "string list" where
  "l2_reasons = [''CRITICAL_AMBIGUITY'', ''MATERIAL_CONTRADICTION'', ''CRITICAL_EVIDENCE_DEFICIT'',
     ''CRITICAL_ENTITY_CONCERN'', ''CRITICAL_SOURCE_CONCERN'', ''FORCED_CRITICAL_REVIEW'']"

definition output_reasons :: "string list" where
  "output_reasons = l0_reasons @ l1_reasons @ l2_reasons"

definition input_reasons :: "string list" where
  "input_reasons = ''REVIEW_COMPLETED'' # output_reasons @ fail_codes"

text \<open>\<open>_semantic_decision_id\<close>\<close>

definition semantic_decision_id :: "(pv \<Rightarrow> string) \<Rightarrow> escalation \<Rightarrow> string" where
  "semantic_decision_id digest d = digest (sort_doc (PDict [
     (''policy_version'', PStr router_policy_version),
     (''event_snapshot_id'', PStr (es_event_snapshot_id d)),
     (''deepseek_semantic_result_id'', PStr (es_result_id d)),
     (''deepseek_payload_sha256'', PStr (es_payload_sha256 d)),
     (''route'', PStr (route_str (es_route d))),
     (''route_name'', PStr (route_name (es_route d))),
     (''claude_review_required'', PBool (es_review_required d)),
     (''claude_model_policy_id'', str_or_none (es_model d)),
     (''reason_codes'', texts_doc (es_reasons d)),
     (''escalation_evidence_refs'', texts_doc (es_evidence_refs d))]))"

text \<open>
  \<open>DeterministicEscalationDecisionV1.__init__\<close> on the values of the router, which supplies no
  identity; the reasons and the evidence are stored sorted.
\<close>

definition make_decision :: "(pv \<Rightarrow> string) \<Rightarrow> escalation \<Rightarrow> (string, escalation) result" where
  "make_decision digest d =
    (if \<not> sha256_string (es_event_snapshot_id d) then Inl ''invalid event_snapshot_id''
     else if \<not> sha256_string (es_result_id d) then Inl ''invalid deepseek_semantic_result_id''
     else if \<not> sha256_string (es_payload_sha256 d) then Inl ''invalid deepseek_payload_sha256''
     else if es_route d = L0 \<and> (es_review_required d \<or> es_model d \<noteq> None)
     then Inl ''invalid L0 decision''
     else if es_route d \<noteq> L0 \<and> (\<not> es_review_required d \<or> \<not> opt_ex router_identifier (es_model d))
     then Inl ''invalid escalated decision''
     else if \<not> list_all (\<lambda>s. s \<in> set output_reasons) (es_reasons d) then Inl ''invalid reason_codes''
     else if \<not> list_all router_identifier (es_evidence_refs d)
     then Inl ''invalid escalation_evidence_refs''
     else
       (let c = d\<lparr>es_reasons := canonical_texts (es_reasons d),
             es_evidence_refs := canonical_texts (es_evidence_refs d)\<rparr>
        in Inr (c\<lparr>es_decision_id := semantic_decision_id digest c\<rparr>)))"

section \<open>Routing\<close>

record review_facts =
  fa_event_snapshot_id :: string
  fa_payload_hash :: string
  fa_result_id :: string
  fa_risks :: "string list"
  fa_reasons :: "string list"
  fa_evidence_refs :: "string list"

text \<open>
  \<open>_result_facts\<close>: a result identity that matches the fields as they stand is replaced by the
  identity of the fields with their lists sorted.
\<close>

definition result_facts :: "(pv \<Rightarrow> string) \<Rightarrow> primary_review \<Rightarrow> (string, review_facts) result" where
  "result_facts digest r =
    (if pr_review_status r \<noteq> ''COMPLETED'' then Inl ''review_status must be COMPLETED''
     else if pr_review_conclusion r \<noteq> ''FACTUAL_REVIEW_COMPLETE'' then Inl ''invalid review_conclusion''
     else if \<not> sha256_string (pr_event_snapshot_id r) then Inl ''invalid event_snapshot_id''
     else if \<not> sha256_string (pr_request_payload_sha256 r)
     then Inl ''invalid request_payload_sha256''
     else if \<not> sha256_string (pr_semantic_result_id r) then Inl ''invalid semantic_result_id''
     else if pr_ambiguity_level r \<notin> {''NONE'', ''MODERATE'', ''CRITICAL''}
     then Inl ''invalid ambiguity_level''
     else if pr_evidence_sufficiency r \<notin> {''SUFFICIENT'', ''INSUFFICIENT''}
     then Inl ''invalid evidence_sufficiency''
     else if pr_entity_confidence_state r \<notin> {''EXPLICIT'', ''MODERATE'', ''CRITICAL''}
     then Inl ''invalid entity_confidence_state''
     else if pr_source_policy_concern_state r \<notin> {''NONE'', ''MODERATE'', ''CRITICAL''}
     then Inl ''invalid source_policy_concern_state''
     else if \<not> list_all (\<lambda>s. s \<in> {''NONE'', ''MATERIAL_RISK''}) (pr_material_risk_flags r)
     then Inl ''invalid material_risk_flags''
     else if \<not> list_all (\<lambda>s. s \<in> set input_reasons) (pr_reason_codes r)
     then Inl ''invalid reason_codes''
     else if \<not> list_all router_identifier (pr_escalation_evidence_refs r)
     then Inl ''invalid escalation_evidence_refs''
     else
       (let normalized = r\<lparr>
              pr_material_risk_flags := canonical_texts (pr_material_risk_flags r),
              pr_reason_codes := canonical_texts (pr_reason_codes r),
              pr_escalation_evidence_refs := canonical_texts (pr_escalation_evidence_refs r)\<rparr>
        in Inr \<lparr>
          fa_event_snapshot_id = pr_event_snapshot_id r,
          fa_payload_hash = pr_request_payload_sha256 r,
          fa_result_id =
            (if pr_semantic_result_id r = hash_mapping digest (semantic_doc r)
             then hash_mapping digest (semantic_doc normalized) else pr_semantic_result_id r),
          fa_risks = pr_material_risk_flags normalized,
          fa_reasons = pr_reason_codes normalized,
          fa_evidence_refs = pr_escalation_evidence_refs normalized\<rparr>))"

definition intersects :: "string list \<Rightarrow> string list \<Rightarrow> bool" where
  "intersects xs ys = list_ex (\<lambda>x. x \<in> set ys) xs"

text \<open>The route and the set of reasons, from the facts and the policy.\<close>

definition choose_route ::
  "primary_review \<Rightarrow> string list \<Rightarrow> string list \<Rightarrow> router_policy \<Rightarrow> route \<times> string list" where
  "choose_route r risks reasons p =
    (let critical_ambiguity = pr_ambiguity_level r \<in> set (rp_critical_ambiguity p);
         critical_entity = pr_entity_confidence_state r \<in> set (rp_critical_entity p);
         critical_source = pr_source_policy_concern_state r \<in> set (rp_critical_source p);
         has_risk = intersects risks (rp_critical_risks p);
         limited_evidence = pr_evidence_sufficiency r \<in> set (rp_insufficient_evidence p);
         contradiction = pr_contradiction_present r;
         add = (\<lambda>b s. if b then [s] else [])
     in if intersects reasons (rp_forced_l2 p) then (L2, [''FORCED_CRITICAL_REVIEW''])
        else if critical_ambiguity \<or> critical_entity \<or> critical_source \<or> has_risk then
          (L2, add critical_ambiguity ''CRITICAL_AMBIGUITY''
             @ add critical_entity ''CRITICAL_ENTITY_CONCERN''
             @ add critical_source ''CRITICAL_SOURCE_CONCERN''
             @ add (contradiction \<and> critical_ambiguity) ''MATERIAL_CONTRADICTION''
             @ add (limited_evidence \<and> has_risk) ''CRITICAL_EVIDENCE_DEFICIT'')
        else
          (let moderate_ambiguity = pr_ambiguity_level r \<in> set (rp_moderate_ambiguity p);
               moderate_entity = pr_entity_confidence_state r \<in> set (rp_moderate_entity p);
               moderate_source = pr_source_policy_concern_state r \<in> set (rp_moderate_source p)
           in if moderate_ambiguity \<or> moderate_entity \<or> moderate_source \<or> limited_evidence
                 \<or> contradiction
              then (L1, add moderate_ambiguity ''MODERATE_AMBIGUITY''
                 @ add moderate_entity ''MODERATE_ENTITY_CONCERN''
                 @ add moderate_source ''MODERATE_SOURCE_CONCERN''
                 @ add limited_evidence ''LIMITED_EVIDENCE_CONCERN''
                 @ add contradiction ''NONCRITICAL_CONTRADICTION'')
              else (L0, [])))"

text \<open>\<open>_ordered_reasons\<close>\<close>

definition ordered_reasons :: "route \<Rightarrow> string list \<Rightarrow> string list" where
  "ordered_reasons r reasons =
    (case r of
       L0 \<Rightarrow> l0_reasons
     | L1 \<Rightarrow> filter (\<lambda>s. s \<in> set reasons) l1_reasons
     | L2 \<Rightarrow> filter (\<lambda>s. s \<in> set reasons) l2_reasons)"

definition route_primary_review ::
  "(pv \<Rightarrow> string) \<Rightarrow> primary_review \<Rightarrow> router_policy \<Rightarrow> (string, escalation) result" where
  "route_primary_review digest r p =
    (case result_facts digest r of
       Inl e \<Rightarrow> Inl e
     | Inr f \<Rightarrow>
       if intersects (fa_reasons f) (rp_fail_closed p) then Inl ''fail-closed reason code''
       else
         (let (route, reasons) = choose_route r (fa_risks f) (fa_reasons f) p
          in make_decision digest \<lparr>
            es_event_snapshot_id = fa_event_snapshot_id f,
            es_result_id = fa_result_id f,
            es_payload_sha256 = fa_payload_hash f,
            es_route = route,
            es_review_required = (route \<noteq> L0),
            es_model = (case route of L0 \<Rightarrow> None | L1 \<Rightarrow> Some (rp_l1_model p)
              | L2 \<Rightarrow> Some (rp_l2_model p)),
            es_reasons = ordered_reasons route reasons,
            es_evidence_refs = fa_evidence_refs f,
            es_decision_id = []\<rparr>))"

end
