(* ===== verification/Review_Adjudication.thy ===== *)
theory Review_Adjudication
  imports Escalation_Router
begin

text \<open>
  What becomes of a routed review: the result contract of
  \<open>src/engine/claude_escalated_review_provider_v1.py\<close> and the adjudication of
  \<open>src/engine/deterministic_adjudication_v1.py\<close>.  The fields of the data classes have their
  declared types; a policy and a review are built from keyword arguments, which are a \<open>pv\<close>
  dictionary.  A Python set of codes that is only tested for membership is a list.
\<close>

section \<open>Checks the news modules repeat\<close>

text \<open>The items of a list, each at its first occurrence.\<close>

definition first_occurrences :: "string list \<Rightarrow> string list" where
  "first_occurrences xs = rev (remdups (rev xs))"

text \<open>\<open>_normalize_texts(..., canonical=False)\<close> and \<open>_normalize_choices(..., sort=False)\<close>; the
  sorting variant is \<open>require_texts\<close>.\<close>

definition require_sequence :: "string \<Rightarrow> string list \<Rightarrow> pv \<Rightarrow> (string, string list) result" where
  "require_sequence label allowed v =
    (case v of
       PList xs \<Rightarrow>
         if list_all (is_text_in (\<lambda>s. s \<in> set allowed)) xs
         then Inr (first_occurrences (map the_str xs)) else Inl (''invalid '' @ label)
     | _ \<Rightarrow> Inl (''invalid '' @ label))"

definition positive_int :: "pv \<Rightarrow> bool" where
  "positive_int v = (case v of PInt i \<Rightarrow> 0 < i | _ \<Rightarrow> False)"

text \<open>\<open>type(value) is str and value and len(value) <= 1000\<close>\<close>

definition short_text :: "string \<Rightarrow> bool" where
  "short_text s = (s \<noteq> [] \<and> length s \<le> 1000)"

text \<open>The same normalisations on values that are tuples of strings already.\<close>

definition known_texts :: "string \<Rightarrow> string list \<Rightarrow> string list \<Rightarrow> (string, string list) result" where
  "known_texts label allowed xs =
    (if list_all (\<lambda>s. s \<in> set allowed) xs then Inr (canonical_texts xs) else Inl (''invalid '' @ label))"

definition known_refs :: "string \<Rightarrow> string list \<Rightarrow> (string, string list) result" where
  "known_refs label xs =
    (if list_all router_identifier xs then Inr (canonical_texts xs) else Inl (''invalid '' @ label))"

section \<open>The escalated review\<close>

record claude_review =
  cr_policy_version :: string
  cr_event_snapshot_id :: string
  cr_request_payload_sha256 :: string
  cr_router_decision_id :: string
  cr_logical_review_id :: string
  cr_route :: string
  cr_model_policy_id :: string
  cr_review_status :: string
  cr_review_conclusion :: string
  cr_ambiguity_resolution :: string
  cr_contradiction_resolution :: string
  cr_evidence_assessment :: string
  cr_entity_assessment :: string
  cr_source_assessment :: string
  cr_material_risk_assessment :: string
  cr_agreement_state :: string
  cr_reason_codes :: "string list"
  cr_structured_explanation :: string
  cr_evidence_refs :: "string list"
  cr_semantic_result_id :: string

definition claude_fields :: "string list" where
  "claude_fields = [''policy_version'', ''event_snapshot_id'', ''request_payload_sha256'',
     ''router_decision_id'', ''logical_review_id'', ''route'', ''model_policy_id'', ''review_status'',
     ''review_conclusion'', ''ambiguity_resolution'', ''contradiction_resolution'',
     ''evidence_assessment'', ''entity_assessment'', ''source_assessment'',
     ''material_risk_assessment'', ''agreement_state_with_deepseek'', ''reason_codes'',
     ''structured_explanation'', ''adjudication_evidence_refs'', ''semantic_result_id'']"

definition claude_policy_version :: string where
  "claude_policy_version = ''claude-escalated-review-policy-v1''"

text \<open>\<open>_semantic_result_id\<close>\<close>

definition claude_doc :: "claude_review \<Rightarrow> pv" where
  "claude_doc r = PDict [
     (''policy_version'', PStr (cr_policy_version r)),
     (''event_snapshot_id'', PStr (cr_event_snapshot_id r)),
     (''request_payload_sha256'', PStr (cr_request_payload_sha256 r)),
     (''router_decision_id'', PStr (cr_router_decision_id r)),
     (''logical_review_id'', PStr (cr_logical_review_id r)),
     (''route'', PStr (cr_route r)),
     (''model_policy_id'', PStr (cr_model_policy_id r)),
     (''review_status'', PStr (cr_review_status r)),
     (''review_conclusion'', PStr (cr_review_conclusion r)),
     (''ambiguity_resolution'', PStr (cr_ambiguity_resolution r)),
     (''contradiction_resolution'', PStr (cr_contradiction_resolution r)),
     (''evidence_assessment'', PStr (cr_evidence_assessment r)),
     (''entity_assessment'', PStr (cr_entity_assessment r)),
     (''source_assessment'', PStr (cr_source_assessment r)),
     (''material_risk_assessment'', PStr (cr_material_risk_assessment r)),
     (''agreement_state_with_deepseek'', PStr (cr_agreement_state r)),
     (''reason_codes'', texts_doc (cr_reason_codes r)),
     (''structured_explanation'', PStr (cr_structured_explanation r)),
     (''adjudication_evidence_refs'', texts_doc (cr_evidence_refs r))]"

definition claude_fixed :: "(string \<times> string) list" where
  "claude_fixed = [
     (''review_status'', ''COMPLETED''),
     (''review_conclusion'', ''ESCALATED_REVIEW_COMPLETE''),
     (''ambiguity_resolution'', ''RESOLVED''),
     (''contradiction_resolution'', ''NONE''),
     (''evidence_assessment'', ''SUFFICIENT''),
     (''entity_assessment'', ''CONFIRMED''),
     (''source_assessment'', ''ACCEPTABLE''),
     (''material_risk_assessment'', ''NONE''),
     (''agreement_state_with_deepseek'', ''AGREES'')]"

text \<open>\<open>_require_identifiers\<close> of the provider: a tuple or list, which may be empty.\<close>

definition require_refs :: "string \<Rightarrow> pv \<Rightarrow> (string, string list) result" where
  "require_refs label v =
    (case v of
       PList xs \<Rightarrow>
         if list_all (is_text_in router_identifier) xs then Inr (canonical_texts (map the_str xs))
         else Inl (''invalid '' @ label)
     | _ \<Rightarrow> Inl (''invalid '' @ label))"

text \<open>\<open>ClaudeEscalatedReviewResultV1.__init__\<close>; a route that cannot be hashed is a
  \<open>TypeError\<close> of the membership test.\<close>

definition make_claude_review :: "(pv \<Rightarrow> string) \<Rightarrow> pv \<Rightarrow> (string, claude_review) result" where
  "make_claude_review digest v =
    (if \<not> has_fields claude_fields v then Inl ''invalid semantic result fields''
     else if fld v ''policy_version'' \<noteq> PStr claude_policy_version
     then Inl ''invalid result policy_version''
     else if unhashable (fld v ''route'') then Inl ''TypeError''
     else if fld v ''route'' \<notin> {PStr ''L1'', PStr ''L2''} then Inl ''invalid result route''
     else if \<not> list_all (\<lambda>(name, expected). fld v name = PStr expected) claude_fixed
     then Inl ''invalid semantic result value''
     else if \<not> is_sha256 (fld v ''event_snapshot_id'') then Inl ''invalid event_snapshot_id''
     else if \<not> is_sha256 (fld v ''request_payload_sha256'')
     then Inl ''invalid request_payload_sha256''
     else if \<not> is_sha256 (fld v ''router_decision_id'') then Inl ''invalid router_decision_id''
     else if \<not> is_sha256 (fld v ''logical_review_id'') then Inl ''invalid logical_review_id''
     else if \<not> is_text_in router_identifier (fld v ''model_policy_id'')
     then Inl ''invalid model_policy_id''
     else case require_texts ''reason_codes'' [''CLAUDE_REVIEW_COMPLETED''] (fld v ''reason_codes'') of
       Inl e \<Rightarrow> Inl e
     | Inr reasons \<Rightarrow>
       if \<not> is_text_in short_text (fld v ''structured_explanation'')
       then Inl ''invalid structured_explanation''
       else
         (case require_refs ''adjudication_evidence_refs'' (fld v ''adjudication_evidence_refs'') of
            Inl e \<Rightarrow> Inl e
          | Inr evidence \<Rightarrow>
            (let r = \<lparr>
               cr_policy_version = claude_policy_version,
               cr_event_snapshot_id = the_str (fld v ''event_snapshot_id''),
               cr_request_payload_sha256 = the_str (fld v ''request_payload_sha256''),
               cr_router_decision_id = the_str (fld v ''router_decision_id''),
               cr_logical_review_id = the_str (fld v ''logical_review_id''),
               cr_route = the_str (fld v ''route''),
               cr_model_policy_id = the_str (fld v ''model_policy_id''),
               cr_review_status = ''COMPLETED'',
               cr_review_conclusion = ''ESCALATED_REVIEW_COMPLETE'',
               cr_ambiguity_resolution = ''RESOLVED'',
               cr_contradiction_resolution = ''NONE'',
               cr_evidence_assessment = ''SUFFICIENT'',
               cr_entity_assessment = ''CONFIRMED'',
               cr_source_assessment = ''ACCEPTABLE'',
               cr_material_risk_assessment = ''NONE'',
               cr_agreement_state = ''AGREES'',
               cr_reason_codes = reasons,
               cr_structured_explanation = the_str (fld v ''structured_explanation''),
               cr_evidence_refs = evidence,
               cr_semantic_result_id = []\<rparr>;
                 result_id = hash_mapping digest (claude_doc r);
                 supplied = fld v ''semantic_result_id''
             in if supplied \<noteq> PNone \<and> supplied \<noteq> PStr result_id
                then Inl ''invalid semantic_result_id''
                else Inr (r\<lparr>cr_semantic_result_id := result_id\<rparr>))))"

section \<open>The policy of the adjudication\<close>

definition adjudication_version :: string where
  "adjudication_version = ''deterministic-adjudication-policy-v1''"

definition adjudication_outcomes :: "string list" where
  "adjudication_outcomes = [''ACCEPT_DEEPSEEK'', ''ACCEPT_CLAUDE'', ''CONSENSUS_CONFIRMED'',
     ''CONSENSUS_WITH_QUALIFICATION'', ''MATERIAL_DISAGREEMENT'', ''INSUFFICIENT_EVIDENCE'',
     ''FAIL_CLOSED'']"

definition agreement_states :: "string list" where
  "agreement_states = [''SINGLE_REVIEW'', ''AGREEMENT'', ''QUALIFIED_AGREEMENT'', ''DISAGREEMENT'',
     ''CRITICAL_DISAGREEMENT'', ''FAIL_CLOSED'']"

definition ambiguity_states :: "string list" where
  "ambiguity_states = [''NONE'', ''MODERATE'', ''CRITICAL'']"

definition contradiction_states :: "string list" where
  "contradiction_states = [''NONE'', ''PRESENT'', ''RESOLVED'', ''UNRESOLVED'']"

definition evidence_states :: "string list" where
  "evidence_states = [''SUFFICIENT'', ''INSUFFICIENT'']"

definition assessment_states :: "string list" where
  "assessment_states = [''ACCEPTABLE'', ''MODERATE'', ''CRITICAL'']"

definition risk_states :: "string list" where
  "risk_states = [''NONE'', ''MATERIAL_RISK'']"

definition adjudication_fail_codes :: "string list" where
  "adjudication_fail_codes = [''INVALID_INPUT'', ''RESULT_NOT_COMPLETED'', ''ROUTE_RESULT_MISMATCH'',
     ''EVENT_BINDING_MISMATCH'', ''DECISION_BINDING_MISMATCH'', ''POLICY_MISMATCH'',
     ''CRITICAL_UNRESOLVED_DISAGREEMENT'']"

definition adjudication_reasons :: "string list" where
  "adjudication_reasons = [''PROVIDERS_AGREE'', ''MATERIAL_FACTS_ALIGNED'',
     ''RISK_ASSESSMENTS_ALIGNED'', ''MINOR_EVIDENCE_DIFFERENCE'', ''MODERATE_ENTITY_DIFFERENCE'',
     ''MODERATE_SOURCE_DIFFERENCE'', ''MATERIAL_RISK_DISAGREEMENT'', ''CONTRADICTION_DISAGREEMENT'',
     ''EVIDENCE_DISAGREEMENT'', ''ENTITY_DISAGREEMENT'', ''SOURCE_DISAGREEMENT''] @ adjudication_fail_codes"

definition route_strs :: "string list" where
  "route_strs = [''L0'', ''L1'', ''L2'']"

definition adjudication_policy_fields :: "string list" where
  "adjudication_policy_fields = [''policy_version'', ''supported_routes'', ''agreement_values'',
     ''contradiction_values'', ''evidence_precedence'', ''entity_precedence'', ''source_precedence'',
     ''material_risk_precedence'', ''critical_disagreement_rules'', ''fail_closed_reason_codes'',
     ''deterministic_reason_order'', ''maximum_reason_code_count'', ''maximum_evidence_reference_count'']"

text \<open>The lists of a policy that are normalised to sorted tuples, in the order of their checks.\<close>

definition adjudication_lists :: "(string \<times> string list) list" where
  "adjudication_lists = [
     (''agreement_values'', agreement_states),
     (''contradiction_values'', contradiction_states),
     (''evidence_precedence'', evidence_states),
     (''entity_precedence'', assessment_states),
     (''source_precedence'', assessment_states),
     (''material_risk_precedence'', risk_states),
     (''critical_disagreement_rules'', [''CRITICAL_UNRESOLVED_DISAGREEMENT'']),
     (''fail_closed_reason_codes'', adjudication_fail_codes)]"

record adjudication_policy =
  ap_agreement_values :: "string list"
  ap_contradiction_values :: "string list"
  ap_evidence_precedence :: "string list"
  ap_entity_precedence :: "string list"
  ap_source_precedence :: "string list"
  ap_risk_precedence :: "string list"
  ap_critical_rules :: "string list"
  ap_fail_closed :: "string list"
  ap_reason_order :: "string list"
  ap_max_reasons :: int
  ap_max_refs :: int

text \<open>\<open>DeterministicAdjudicationPolicyV1.__init__\<close>\<close>

definition make_adjudication_policy :: "pv \<Rightarrow> (string, adjudication_policy) result" where
  "make_adjudication_policy v =
    (if \<not> has_fields adjudication_policy_fields v then Inl ''invalid policy fields''
     else if fld v ''policy_version'' \<noteq> PStr adjudication_version then Inl ''invalid policy_version''
     else case require_texts ''supported_routes'' route_strs (fld v ''supported_routes'') of
       Inl e \<Rightarrow> Inl e
     | Inr routes \<Rightarrow>
       if routes \<noteq> route_strs then Inl ''invalid supported_routes''
       else
         (case require_lists adjudication_lists v of
            Inl e \<Rightarrow> Inl e
          | Inr ls \<Rightarrow>
            (case require_sequence ''deterministic_reason_order'' adjudication_reasons
                 (fld v ''deterministic_reason_order'') of
               Inl e \<Rightarrow> Inl e
             | Inr sequence \<Rightarrow>
               if sequence = [] then Inl ''invalid deterministic_reason_order''
               else if \<not> positive_int (fld v ''maximum_reason_code_count'')
               then Inl ''invalid maximum_reason_code_count''
               else if \<not> positive_int (fld v ''maximum_evidence_reference_count'')
               then Inl ''invalid maximum_evidence_reference_count''
               else if int (length adjudication_reasons) < the_int (fld v ''maximum_reason_code_count'')
                 \<or> 128 < the_int (fld v ''maximum_evidence_reference_count'')
               then Inl ''invalid policy limits''
               else Inr \<lparr>
                 ap_agreement_values = ls ! 0, ap_contradiction_values = ls ! 1,
                 ap_evidence_precedence = ls ! 2, ap_entity_precedence = ls ! 3,
                 ap_source_precedence = ls ! 4, ap_risk_precedence = ls ! 5,
                 ap_critical_rules = ls ! 6, ap_fail_closed = ls ! 7,
                 ap_reason_order = sequence,
                 ap_max_reasons = the_int (fld v ''maximum_reason_code_count''),
                 ap_max_refs = the_int (fld v ''maximum_evidence_reference_count'')\<rparr>)))"

section \<open>The result of an adjudication\<close>

record adjudication =
  ad_policy_version :: string
  ad_event_snapshot_id :: string
  ad_route :: route
  ad_router_decision_id :: string
  ad_deepseek_id :: string
  ad_claude_id :: "string option"
  ad_outcome :: string
  ad_agreement :: string
  ad_ambiguity :: string
  ad_contradiction :: string
  ad_evidence :: string
  ad_entity :: string
  ad_source :: string
  ad_risk :: string
  ad_reasons :: "string list"
  ad_refs :: "string list"
  ad_explanation :: string
  ad_result_id :: string

text \<open>\<open>_result_identity\<close>, and \<open>_adjudication_identity\<close> of \<open>news_risk_object_v1.py\<close>.\<close>

definition adjudication_identity :: "(pv \<Rightarrow> string) \<Rightarrow> adjudication \<Rightarrow> string" where
  "adjudication_identity digest r = hash_mapping digest (PDict [
     (''policy_version'', PStr (ad_policy_version r)),
     (''event_snapshot_id'', PStr (ad_event_snapshot_id r)),
     (''route'', PStr (route_str (ad_route r))),
     (''router_decision_id'', PStr (ad_router_decision_id r)),
     (''deepseek_semantic_result_id'', PStr (ad_deepseek_id r)),
     (''claude_semantic_result_id'', str_or_none (ad_claude_id r)),
     (''adjudication_outcome'', PStr (ad_outcome r)),
     (''agreement_state'', PStr (ad_agreement r)),
     (''final_ambiguity_state'', PStr (ad_ambiguity r)),
     (''final_contradiction_state'', PStr (ad_contradiction r)),
     (''final_evidence_state'', PStr (ad_evidence r)),
     (''final_entity_state'', PStr (ad_entity r)),
     (''final_source_state'', PStr (ad_source r)),
     (''final_material_risk_state'', PStr (ad_risk r)),
     (''reason_codes'', texts_doc (ad_reasons r)),
     (''evidence_refs'', texts_doc (ad_refs r))])"

text \<open>
  \<open>DeterministicAdjudicationResultV1.__init__\<close> on the values of \<open>_new_result\<close>, which supplies no
  identity.
\<close>

definition make_adjudication :: "(pv \<Rightarrow> string) \<Rightarrow> adjudication \<Rightarrow> (string, adjudication) result" where
  "make_adjudication digest r =
    (if ad_policy_version r \<noteq> adjudication_version then Inl ''invalid result policy_version''
     else if ad_outcome r \<notin> set adjudication_outcomes \<or> ad_agreement r \<notin> set agreement_states
     then Inl ''invalid result outcome''
     else if ad_route r = L0 \<and> (ad_outcome r \<noteq> ''ACCEPT_DEEPSEEK'' \<or> ad_agreement r \<noteq> ''SINGLE_REVIEW'')
     then Inl ''invalid L0 result''
     else if ad_route r = L0 \<and> ad_claude_id r \<noteq> None then Inl ''invalid L0 Claude identity''
     else if ad_route r \<noteq> L0 \<and> ad_claude_id r = None then Inl ''missing Claude identity''
     else if \<not> opt_all sha256_string (ad_claude_id r) then Inl ''invalid claude_semantic_result_id''
     else if \<not> sha256_string (ad_event_snapshot_id r) then Inl ''invalid event_snapshot_id''
     else if \<not> sha256_string (ad_router_decision_id r) then Inl ''invalid router_decision_id''
     else if \<not> sha256_string (ad_deepseek_id r) then Inl ''invalid deepseek_semantic_result_id''
     else if ad_ambiguity r \<notin> set ambiguity_states then Inl ''invalid final_ambiguity_state''
     else if ad_contradiction r \<notin> set contradiction_states then Inl ''invalid final_contradiction_state''
     else if ad_evidence r \<notin> set evidence_states then Inl ''invalid final_evidence_state''
     else if ad_entity r \<notin> set assessment_states then Inl ''invalid final_entity_state''
     else if ad_source r \<notin> set assessment_states then Inl ''invalid final_source_state''
     else if ad_risk r \<notin> set risk_states then Inl ''invalid final_material_risk_state''
     else case known_texts ''reason_codes'' adjudication_reasons (ad_reasons r) of
       Inl e \<Rightarrow> Inl e
     | Inr reasons \<Rightarrow>
       (case known_refs ''evidence_refs'' (ad_refs r) of
          Inl e \<Rightarrow> Inl e
        | Inr refs \<Rightarrow>
          if \<not> short_text (ad_explanation r) then Inl ''invalid structured_explanation''
          else
            (let c = r\<lparr>ad_reasons := reasons, ad_refs := refs\<rparr>
             in Inr (c\<lparr>ad_result_id := adjudication_identity digest c\<rparr>))))"

section \<open>What a review says\<close>

text \<open>The dictionary that \<open>_validate_deepseek\<close> and \<open>_validate_claude\<close> return.\<close>

record opinion =
  op_event :: string
  op_result_id :: string
  op_ambiguity :: string
  op_contradiction :: string
  op_evidence :: string
  op_entity :: string
  op_source :: string
  op_risk :: string
  op_reasons :: "string list"
  op_refs :: "string list"

text \<open>\<open>_validate_decision\<close>; the name of the route is a function of the route here.\<close>

definition check_decision :: "escalation \<Rightarrow> string option" where
  "check_decision d =
    (if \<not> sha256_string (es_event_snapshot_id d) then Some ''invalid decision event_snapshot_id''
     else if \<not> sha256_string (es_decision_id d) then Some ''invalid decision_id''
     else if \<not> sha256_string (es_result_id d) then Some ''invalid decision DeepSeek result''
     else if \<not> sha256_string (es_payload_sha256 d) then Some ''invalid decision DeepSeek payload''
     else if es_route d = L0 \<and> (es_review_required d \<or> es_model d \<noteq> None)
     then Some ''invalid L0 decision''
     else if es_route d \<noteq> L0 \<and> \<not> es_review_required d then Some ''invalid escalated decision''
     else if es_route d \<noteq> L0 \<and> es_model d = None then Some ''invalid decision model policy''
     else None)"

definition deepseek_entity :: "string \<Rightarrow> string option" where
  "deepseek_entity v = map_of [(''EXPLICIT'', ''ACCEPTABLE''), (''MODERATE'', ''MODERATE''),
     (''CRITICAL'', ''CRITICAL'')] v"

definition deepseek_source :: "string \<Rightarrow> string option" where
  "deepseek_source v = map_of [(''NONE'', ''ACCEPTABLE''), (''MODERATE'', ''MODERATE''),
     (''CRITICAL'', ''CRITICAL'')] v"

definition claude_ambiguity :: "string \<Rightarrow> string option" where
  "claude_ambiguity v = map_of [(''RESOLVED'', ''NONE''), (''MODERATE'', ''MODERATE''),
     (''CRITICAL'', ''CRITICAL'')] v"

definition claude_entity :: "string \<Rightarrow> string option" where
  "claude_entity v = (if v = ''CONFIRMED'' then Some ''ACCEPTABLE''
     else if v \<in> set assessment_states then Some v else None)"

definition input_reason_codes :: "string list \<Rightarrow> adjudication_policy \<Rightarrow> (string, string list) result" where
  "input_reason_codes codes p =
     known_texts ''reason_codes'' ([''REVIEW_COMPLETED'', ''CLAUDE_REVIEW_COMPLETED''] @ ap_fail_closed p) codes"

text \<open>\<open>_validate_deepseek\<close>\<close>

definition validate_deepseek ::
  "primary_review \<Rightarrow> escalation \<Rightarrow> adjudication_policy \<Rightarrow> (string, opinion) result" where
  "validate_deepseek r d p =
    (if pr_review_status r \<noteq> ''COMPLETED'' then Inl ''DeepSeek result not completed''
     else if \<not> sha256_string (pr_event_snapshot_id r) then Inl ''invalid DeepSeek event_snapshot_id''
     else if \<not> sha256_string (pr_semantic_result_id r)
     then Inl ''invalid DeepSeek semantic_result_id''
     else if \<not> sha256_string (pr_request_payload_sha256 r)
     then Inl ''invalid DeepSeek payload_sha256''
     else if pr_event_snapshot_id r \<noteq> es_event_snapshot_id d then Inl ''event binding mismatch''
     else if pr_semantic_result_id r \<noteq> es_result_id d then Inl ''DeepSeek result binding mismatch''
     else if pr_request_payload_sha256 r \<noteq> es_payload_sha256 d
     then Inl ''DeepSeek payload binding mismatch''
     else if pr_ambiguity_level r \<notin> set ambiguity_states then Inl ''invalid ambiguity_level''
     else if pr_evidence_sufficiency r \<notin> set evidence_states then Inl ''invalid evidence_sufficiency''
     else case deepseek_entity (pr_entity_confidence_state r) of
       None \<Rightarrow> Inl ''invalid entity_confidence_state''
     | Some entity \<Rightarrow>
       (case deepseek_source (pr_source_policy_concern_state r) of
          None \<Rightarrow> Inl ''invalid source_policy_concern_state''
        | Some source \<Rightarrow>
          (case known_texts ''material_risk_flags'' risk_states (pr_material_risk_flags r) of
             Inl e \<Rightarrow> Inl e
           | Inr risks \<Rightarrow>
             (case input_reason_codes (pr_reason_codes r) p of
                Inl e \<Rightarrow> Inl e
              | Inr reasons \<Rightarrow>
                (case known_refs ''escalation_evidence_refs'' (pr_escalation_evidence_refs r) of
                   Inl e \<Rightarrow> Inl e
                 | Inr refs \<Rightarrow> Inr \<lparr>
                     op_event = pr_event_snapshot_id r,
                     op_result_id = pr_semantic_result_id r,
                     op_ambiguity = pr_ambiguity_level r,
                     op_contradiction = (if pr_contradiction_present r then ''PRESENT'' else ''NONE''),
                     op_evidence = pr_evidence_sufficiency r,
                     op_entity = entity,
                     op_source = source,
                     op_risk = (if ''MATERIAL_RISK'' \<in> set risks then ''MATERIAL_RISK'' else ''NONE''),
                     op_reasons = reasons,
                     op_refs = refs\<rparr>)))))"

text \<open>\<open>_validate_claude\<close>\<close>

definition validate_claude ::
  "claude_review \<Rightarrow> escalation \<Rightarrow> adjudication_policy \<Rightarrow> (string, opinion) result" where
  "validate_claude r d p =
    (if cr_review_status r \<noteq> ''COMPLETED'' then Inl ''Claude result not completed''
     else if \<not> sha256_string (cr_event_snapshot_id r) then Inl ''invalid Claude event_snapshot_id''
     else if \<not> sha256_string (cr_semantic_result_id r) then Inl ''invalid Claude semantic_result_id''
     else if cr_event_snapshot_id r \<noteq> es_event_snapshot_id d then Inl ''event binding mismatch''
     else if cr_router_decision_id r \<noteq> es_decision_id d then Inl ''decision binding mismatch''
     else if cr_route r \<noteq> route_str (es_route d) then Inl ''route binding mismatch''
     else if Some (cr_model_policy_id r) \<noteq> es_model d then Inl ''model policy binding mismatch''
     else case claude_ambiguity (cr_ambiguity_resolution r) of
       None \<Rightarrow> Inl ''invalid ambiguity_resolution''
     | Some ambiguity \<Rightarrow>
       if cr_contradiction_resolution r \<notin> set contradiction_states
       then Inl ''invalid contradiction_resolution''
       else if cr_evidence_assessment r \<notin> set evidence_states then Inl ''invalid evidence_assessment''
       else
         (case claude_entity (cr_entity_assessment r) of
            None \<Rightarrow> Inl ''invalid entity_assessment''
          | Some entity \<Rightarrow>
            if cr_source_assessment r \<notin> set assessment_states then Inl ''invalid source_assessment''
            else if cr_material_risk_assessment r \<notin> set risk_states
            then Inl ''invalid material_risk_assessment''
            else
              (case input_reason_codes (cr_reason_codes r) p of
                 Inl e \<Rightarrow> Inl e
               | Inr reasons \<Rightarrow>
                 (case known_refs ''adjudication_evidence_refs'' (cr_evidence_refs r) of
                    Inl e \<Rightarrow> Inl e
                  | Inr refs \<Rightarrow> Inr \<lparr>
                      op_event = cr_event_snapshot_id r,
                      op_result_id = cr_semantic_result_id r,
                      op_ambiguity = ambiguity,
                      op_contradiction = cr_contradiction_resolution r,
                      op_evidence = cr_evidence_assessment r,
                      op_entity = entity,
                      op_source = cr_source_assessment r,
                      op_risk = cr_material_risk_assessment r,
                      op_reasons = reasons,
                      op_refs = refs\<rparr>))))"

section \<open>Adjudication\<close>

text \<open>What \<open>_new_result\<close> is given besides the bindings.\<close>

record verdict =
  ve_outcome :: string
  ve_agreement :: string
  ve_ambiguity :: string
  ve_contradiction :: string
  ve_evidence :: string
  ve_entity :: string
  ve_source :: string
  ve_risk :: string
  ve_reasons :: "string list"

definition canonical_refs :: "string list \<Rightarrow> string list \<Rightarrow> int \<Rightarrow> (string, string list) result" where
  "canonical_refs xs ys limit =
    (let refs = canonical_texts (xs @ ys)
     in if refs = [] \<or> limit < int (length refs) then Inl ''invalid evidence references'' else Inr refs)"

text \<open>\<open>_canonical_reasons\<close> with the check of \<open>_new_result\<close> that some reason is left.\<close>

definition policy_reasons :: "string list \<Rightarrow> adjudication_policy \<Rightarrow> (string, string list) result" where
  "policy_reasons codes p =
    (let reasons = filter (\<lambda>code. code \<in> set codes) (ap_reason_order p)
     in if ap_max_reasons p < int (length reasons) then Inl ''too many reason codes''
        else if reasons = [] then Inl ''missing reason codes''
        else Inr reasons)"

definition new_adjudication ::
  "(pv \<Rightarrow> string) \<Rightarrow> adjudication_policy \<Rightarrow> escalation \<Rightarrow> opinion \<Rightarrow> opinion option \<Rightarrow> string list
     \<Rightarrow> verdict \<Rightarrow> (string, adjudication) result" where
  "new_adjudication digest p d deepseek claude refs v =
    (case policy_reasons (ve_reasons v) p of
       Inl e \<Rightarrow> Inl e
     | Inr reasons \<Rightarrow> make_adjudication digest \<lparr>
         ad_policy_version = adjudication_version,
         ad_event_snapshot_id = op_event deepseek,
         ad_route = es_route d,
         ad_router_decision_id = es_decision_id d,
         ad_deepseek_id = op_result_id deepseek,
         ad_claude_id = map_option op_result_id claude,
         ad_outcome = ve_outcome v,
         ad_agreement = ve_agreement v,
         ad_ambiguity = ve_ambiguity v,
         ad_contradiction = ve_contradiction v,
         ad_evidence = ve_evidence v,
         ad_entity = ve_entity v,
         ad_source = ve_source v,
         ad_risk = ve_risk v,
         ad_reasons = reasons,
         ad_refs = refs,
         ad_explanation = ''adjudication:'' @ ve_outcome v,
         ad_result_id = []\<rparr>)"

text \<open>The verdict on a single review.\<close>

definition single_verdict :: "opinion \<Rightarrow> verdict" where
  "single_verdict x = \<lparr>
     ve_outcome = ''ACCEPT_DEEPSEEK'', ve_agreement = ''SINGLE_REVIEW'',
     ve_ambiguity = op_ambiguity x, ve_contradiction = op_contradiction x,
     ve_evidence = op_evidence x, ve_entity = op_entity x, ve_source = op_source x,
     ve_risk = op_risk x, ve_reasons = [''MATERIAL_FACTS_ALIGNED'']\<rparr>"

text \<open>The verdict when a reason of either review is configured to fail closed.\<close>

definition failed_verdict :: "opinion \<Rightarrow> string list \<Rightarrow> verdict" where
  "failed_verdict x input_fail =
    (let unresolved = ''CRITICAL_UNRESOLVED_DISAGREEMENT'' \<in> set input_fail
     in \<lparr>ve_outcome = ''FAIL_CLOSED'', ve_agreement = ''FAIL_CLOSED'',
         ve_ambiguity = (if unresolved then ''CRITICAL'' else op_ambiguity x),
         ve_contradiction = (if unresolved then ''UNRESOLVED'' else op_contradiction x),
         ve_evidence = op_evidence x, ve_entity = op_entity x, ve_source = op_source x,
         ve_risk = op_risk x, ve_reasons = input_fail\<rparr>)"

text \<open>\<open>"A" if "A" in {x, y} else ("B" if "B" in {x, y} else default)\<close>\<close>

fun first_of :: "string list \<Rightarrow> string \<Rightarrow> string \<Rightarrow> string \<Rightarrow> string" where
  "first_of [] x y dflt = dflt"
| "first_of (s # ss) x y dflt = (if s = x \<or> s = y then s else first_of ss x y dflt)"

definition critical_state :: "string \<Rightarrow> string \<Rightarrow> string \<Rightarrow> bool" where
  "critical_state left right critical = (left \<noteq> right \<and> (left = critical \<or> right = critical))"

text \<open>The outcome, the agreement and the reasons of two reviews.\<close>

definition compare_reviews :: "opinion \<Rightarrow> opinion \<Rightarrow> string \<times> string \<times> string list" where
  "compare_reviews x y =
    (let add = (\<lambda>b s. if b then [s] else []);
         contradiction = op_contradiction x \<noteq> op_contradiction y;
         entity_critical = critical_state (op_entity x) (op_entity y) ''CRITICAL'';
         source_critical = critical_state (op_source x) (op_source y) ''CRITICAL'';
         qualifications = add (op_evidence x \<noteq> op_evidence y) ''MINOR_EVIDENCE_DIFFERENCE''
           @ add (op_entity x \<noteq> op_entity y) ''MODERATE_ENTITY_DIFFERENCE''
           @ add (op_source x \<noteq> op_source y) ''MODERATE_SOURCE_DIFFERENCE''
     in if op_risk x \<noteq> op_risk y then
          (''MATERIAL_DISAGREEMENT'', ''CRITICAL_DISAGREEMENT'',
           ''MATERIAL_RISK_DISAGREEMENT'' # add contradiction ''CONTRADICTION_DISAGREEMENT'')
        else if contradiction then
          (''MATERIAL_DISAGREEMENT'', ''CRITICAL_DISAGREEMENT'', [''CONTRADICTION_DISAGREEMENT''])
        else if entity_critical \<or> source_critical then
          (''MATERIAL_DISAGREEMENT'', ''CRITICAL_DISAGREEMENT'',
           add entity_critical ''ENTITY_DISAGREEMENT'' @ add source_critical ''SOURCE_DISAGREEMENT'')
        else if op_evidence x = op_evidence y \<and> op_evidence y = ''INSUFFICIENT'' then
          (''INSUFFICIENT_EVIDENCE'', ''AGREEMENT'', [''PROVIDERS_AGREE''])
        else if qualifications \<noteq> [] then
          (''CONSENSUS_WITH_QUALIFICATION'', ''QUALIFIED_AGREEMENT'', qualifications)
        else
          (''CONSENSUS_CONFIRMED'', ''AGREEMENT'',
           [''PROVIDERS_AGREE'', ''MATERIAL_FACTS_ALIGNED'', ''RISK_ASSESSMENTS_ALIGNED'']))"

definition joint_verdict :: "opinion \<Rightarrow> opinion \<Rightarrow> verdict" where
  "joint_verdict x y =
    (let (outcome, agreement, reasons) = compare_reviews x y
     in \<lparr>ve_outcome = outcome, ve_agreement = agreement,
         ve_ambiguity = first_of [''CRITICAL'', ''MODERATE''] (op_ambiguity x) (op_ambiguity y) ''NONE'',
         ve_contradiction =
           first_of [''PRESENT'', ''UNRESOLVED''] (op_contradiction x) (op_contradiction y) ''NONE'',
         ve_evidence = first_of [''INSUFFICIENT''] (op_evidence x) (op_evidence y) ''SUFFICIENT'',
         ve_entity = first_of [''CRITICAL'', ''MODERATE''] (op_entity x) (op_entity y) ''ACCEPTABLE'',
         ve_source = first_of [''CRITICAL'', ''MODERATE''] (op_source x) (op_source y) ''ACCEPTABLE'',
         ve_risk = first_of [''MATERIAL_RISK''] (op_risk x) (op_risk y) ''NONE'',
         ve_reasons = reasons\<rparr>)"

text \<open>\<open>set(...).intersection(policy.fail_closed_reason_codes)\<close>\<close>

definition input_failures :: "opinion \<Rightarrow> opinion \<Rightarrow> adjudication_policy \<Rightarrow> string list" where
  "input_failures x y p =
     filter (\<lambda>code. code \<in> set (ap_fail_closed p)) (op_reasons x @ op_reasons y)"

definition pair_verdict :: "opinion \<Rightarrow> opinion \<Rightarrow> adjudication_policy \<Rightarrow> verdict" where
  "pair_verdict x y p =
    (if input_failures x y p \<noteq> [] then failed_verdict x (input_failures x y p)
     else joint_verdict x y)"

text \<open>\<open>adjudicate_review_results\<close>\<close>

definition adjudicate_review_results ::
  "(pv \<Rightarrow> string) \<Rightarrow> primary_review \<Rightarrow> escalation \<Rightarrow> claude_review option \<Rightarrow> adjudication_policy
     \<Rightarrow> (string, adjudication) result" where
  "adjudicate_review_results digest r d c p =
    (case check_decision d of
       Some e \<Rightarrow> Inl e
     | None \<Rightarrow>
       (case validate_deepseek r d p of
          Inl e \<Rightarrow> Inl e
        | Inr x \<Rightarrow>
          if es_route d = L0 then
            (case c of
               Some review \<Rightarrow> Inl ''unexpected Claude result''
             | None \<Rightarrow>
               (case canonical_refs (op_refs x) [] (ap_max_refs p) of
                  Inl e \<Rightarrow> Inl e
                | Inr refs \<Rightarrow> new_adjudication digest p d x None refs (single_verdict x)))
          else
            (case c of
               None \<Rightarrow> Inl ''missing Claude result''
             | Some review \<Rightarrow>
               (case validate_claude review d p of
                  Inl e \<Rightarrow> Inl e
                | Inr y \<Rightarrow>
                  (case canonical_refs (op_refs x) (op_refs y) (ap_max_refs p) of
                     Inl e \<Rightarrow> Inl e
                   | Inr refs \<Rightarrow>
                     new_adjudication digest p d x (Some y) refs (pair_verdict x y p))))))"

end
