(* ===== verification/News_Risk.thy ===== *)
theory News_Risk
  imports Review_Adjudication
begin

text \<open>
  The risk a piece of news carries, derived from its adjudication:
  \<open>src/engine/news_risk_object_v1.py\<close>.
\<close>

section \<open>The policy\<close>

definition news_risk_version :: string where
  "news_risk_version = ''news-risk-policy-v1''"

definition risk_classes :: "string list" where
  "risk_classes = [''CLEAR'', ''CAUTION'', ''ELEVATED'', ''BLOCKING'', ''FAIL_CLOSED'']"

definition news_recommendations :: "string list" where
  "news_recommendations = [''NO_NEWS_RESTRICTION'', ''REQUIRE_CAUTION'', ''REQUIRE_BLOCK'', ''FAIL_CLOSED'']"

text \<open>\<open>_RECOMMENDATION_BY_CLASSIFICATION\<close>\<close>

definition recommendation_by_class :: "string \<Rightarrow> string option" where
  "recommendation_by_class c = map_of [
     (''CLEAR'', ''NO_NEWS_RESTRICTION''), (''CAUTION'', ''REQUIRE_CAUTION''),
     (''ELEVATED'', ''REQUIRE_CAUTION''), (''BLOCKING'', ''REQUIRE_BLOCK''),
     (''FAIL_CLOSED'', ''FAIL_CLOSED'')] c"

definition risk_reasons :: "string list" where
  "risk_reasons = [''ADJUDICATION_CONFIRMED'', ''NO_MATERIAL_NEWS_RISK'', ''EVIDENCE_SUFFICIENT'',
     ''QUALIFIED_ADJUDICATION'', ''EVIDENCE_LIMITED'', ''MODERATE_ENTITY_CONCERN'',
     ''MODERATE_SOURCE_CONCERN'', ''MATERIAL_DISAGREEMENT'', ''UNRESOLVED_CONTRADICTION'',
     ''MATERIAL_RISK_PRESENT'', ''INSUFFICIENT_EVIDENCE'', ''CRITICAL_MATERIAL_RISK'',
     ''CRITICAL_CONTRADICTION'', ''CRITICAL_ENTITY_CONCERN'', ''CRITICAL_SOURCE_CONCERN'',
     ''BLOCKING_ADJUDICATION_REASON'', ''INVALID_ADJUDICATION'', ''UNSUPPORTED_POLICY'',
     ''FORGED_IDENTITY'', ''FAIL_CLOSED_ADJUDICATION'']"

definition news_policy_fields :: "string list" where
  "news_policy_fields = [''policy_version'', ''supported_adjudication_policy_versions'',
     ''supported_routes'', ''outcome_to_risk_classification'', ''ambiguity_precedence'',
     ''contradiction_precedence'', ''evidence_precedence'', ''entity_precedence'', ''source_precedence'',
     ''material_risk_precedence'', ''fail_closed_outcomes'', ''blocking_reason_codes'',
     ''caution_reason_codes'', ''deterministic_reason_order'', ''maximum_reason_code_count'',
     ''maximum_evidence_reference_count'']"

text \<open>\<open>_normalize_mapping\<close>: the items in the order of the sorted outcomes.\<close>

definition outcome_mapping :: "pv \<Rightarrow> (string, (string \<times> string) list) result" where
  "outcome_mapping v =
    (if \<not> has_fields adjudication_outcomes v then Inl ''invalid outcome_to_risk_classification''
     else if \<not> list_all (\<lambda>k. is_text_in (\<lambda>s. s \<in> set risk_classes) (fld v k)) (sort adjudication_outcomes)
     then Inl ''invalid outcome_to_risk_classification''
     else if fld v ''FAIL_CLOSED'' \<noteq> PStr ''FAIL_CLOSED'' then Inl ''invalid fail_closed mapping''
     else Inr (map (\<lambda>k. (k, the_str (fld v k))) (sort adjudication_outcomes)))"

text \<open>The precedence lists, in the order of their checks; each must name every value.\<close>

definition precedence_lists :: "(string \<times> string list) list" where
  "precedence_lists = [
     (''ambiguity_precedence'', ambiguity_states),
     (''contradiction_precedence'', contradiction_states),
     (''evidence_precedence'', evidence_states),
     (''entity_precedence'', assessment_states),
     (''source_precedence'', assessment_states),
     (''material_risk_precedence'', risk_states)]"

fun require_sequences :: "(string \<times> string list) list \<Rightarrow> pv \<Rightarrow> (string, string list list) result" where
  "require_sequences [] v = Inr []"
| "require_sequences ((label, allowed) # rest) v =
    (case require_sequence label allowed (fld v label) of
       Inl e \<Rightarrow> Inl e
     | Inr xs \<Rightarrow> (case require_sequences rest v of Inl e \<Rightarrow> Inl e | Inr xss \<Rightarrow> Inr (xs # xss)))"

record news_risk_policy =
  np_outcomes :: "(string \<times> string) list"
  np_precedences :: "string list list" \<comment> \<open>the six precedence fields, in the order of \<open>precedence_lists\<close>\<close>
  np_fail_closed_outcomes :: "string list"
  np_blocking :: "string list"
  np_caution :: "string list"
  np_reason_order :: "string list"
  np_max_reasons :: int
  np_max_refs :: int

text \<open>The end of the constructor: the reason lists, the order of the reasons and the limits.\<close>

definition make_news_reasons ::
  "pv \<Rightarrow> (string \<times> string) list \<Rightarrow> string list list \<Rightarrow> string list \<Rightarrow> (string, news_risk_policy) result" where
  "make_news_reasons v outcomes precedences failed =
    (case require_sequence ''blocking_reason_codes'' (risk_reasons @ adjudication_reasons)
         (fld v ''blocking_reason_codes'') of
       Inl e \<Rightarrow> Inl e
     | Inr blocking \<Rightarrow>
       (case require_sequence ''caution_reason_codes'' risk_reasons (fld v ''caution_reason_codes'') of
          Inl e \<Rightarrow> Inl e
        | Inr caution \<Rightarrow>
          (case require_sequence ''deterministic_reason_order'' risk_reasons
               (fld v ''deterministic_reason_order'') of
             Inl e \<Rightarrow> Inl e
           | Inr order \<Rightarrow>
             if order = [] \<or> \<not> list_all (\<lambda>code. code \<in> set order) risk_reasons
             then Inl ''invalid deterministic_reason_order''
             else if \<not> positive_int (fld v ''maximum_reason_code_count'')
             then Inl ''invalid maximum_reason_code_count''
             else if \<not> positive_int (fld v ''maximum_evidence_reference_count'')
             then Inl ''invalid maximum_evidence_reference_count''
             else if int (length risk_reasons) < the_int (fld v ''maximum_reason_code_count'')
               \<or> 128 < the_int (fld v ''maximum_evidence_reference_count'')
             then Inl ''invalid policy limits''
             else Inr \<lparr>
               np_outcomes = outcomes, np_precedences = precedences, np_fail_closed_outcomes = failed,
               np_blocking = blocking, np_caution = caution, np_reason_order = order,
               np_max_reasons = the_int (fld v ''maximum_reason_code_count''),
               np_max_refs = the_int (fld v ''maximum_evidence_reference_count'')\<rparr>)))"

text \<open>\<open>NewsRiskPolicyV1.__init__\<close>\<close>

definition make_news_risk_policy :: "pv \<Rightarrow> (string, news_risk_policy) result" where
  "make_news_risk_policy v =
    (if \<not> has_fields news_policy_fields v then Inl ''invalid policy fields''
     else if fld v ''policy_version'' \<noteq> PStr news_risk_version then Inl ''invalid policy_version''
     else case require_texts ''supported_adjudication_policy_versions'' [adjudication_version]
         (fld v ''supported_adjudication_policy_versions'') of
       Inl e \<Rightarrow> Inl e
     | Inr versions \<Rightarrow>
       if versions \<noteq> [adjudication_version] then Inl ''invalid supported_adjudication_policy_versions''
       else
         (case require_texts ''supported_routes'' route_strs (fld v ''supported_routes'') of
            Inl e \<Rightarrow> Inl e
          | Inr routes \<Rightarrow>
            if routes \<noteq> route_strs then Inl ''invalid supported_routes''
            else
              (case outcome_mapping (fld v ''outcome_to_risk_classification'') of
                 Inl e \<Rightarrow> Inl e
               | Inr outcomes \<Rightarrow>
                 (case require_sequences precedence_lists v of
                    Inl e \<Rightarrow> Inl e
                  | Inr ls \<Rightarrow>
                    if \<not> list_all2 (\<lambda>xs p. set xs = set (snd p)) ls precedence_lists
                    then Inl ''invalid policy precedence''
                    else
                      (case require_texts ''fail_closed_outcomes'' adjudication_outcomes
                           (fld v ''fail_closed_outcomes'') of
                         Inl e \<Rightarrow> Inl e
                       | Inr failed \<Rightarrow>
                         if failed \<noteq> [''FAIL_CLOSED''] then Inl ''invalid fail_closed_outcomes''
                         else make_news_reasons v outcomes ls failed)))))"

section \<open>The object\<close>

record news_risk =
  nr_policy_version :: string
  nr_event_snapshot_id :: string
  nr_adjudication_version :: string
  nr_adjudication_id :: string
  nr_route :: route
  nr_class :: string
  nr_recommendation :: string
  nr_ambiguity :: string
  nr_contradiction :: string
  nr_evidence :: string
  nr_entity :: string
  nr_source :: string
  nr_risk :: string
  nr_reasons :: "string list"
  nr_refs :: "string list"
  nr_explanation :: string
  nr_object_id :: string

text \<open>\<open>_risk_identity\<close>, and \<open>_news_risk_identity\<close> of \<open>signal_gate_v1.py\<close>.\<close>

definition news_risk_identity :: "(pv \<Rightarrow> string) \<Rightarrow> news_risk \<Rightarrow> string" where
  "news_risk_identity digest r = hash_mapping digest (PDict [
     (''policy_version'', PStr (nr_policy_version r)),
     (''event_snapshot_id'', PStr (nr_event_snapshot_id r)),
     (''adjudication_policy_version'', PStr (nr_adjudication_version r)),
     (''adjudication_result_id'', PStr (nr_adjudication_id r)),
     (''route'', PStr (route_str (nr_route r))),
     (''risk_classification'', PStr (nr_class r)),
     (''news_gate_recommendation'', PStr (nr_recommendation r)),
     (''final_ambiguity_state'', PStr (nr_ambiguity r)),
     (''final_contradiction_state'', PStr (nr_contradiction r)),
     (''final_evidence_state'', PStr (nr_evidence r)),
     (''final_entity_state'', PStr (nr_entity r)),
     (''final_source_state'', PStr (nr_source r)),
     (''final_material_risk_state'', PStr (nr_risk r)),
     (''reason_codes'', texts_doc (nr_reasons r)),
     (''evidence_refs'', texts_doc (nr_refs r))])"

text \<open>\<open>NewsRiskObjectV1.__init__\<close> on the values of \<open>_build_result\<close>, which supplies no identity.\<close>

definition make_news_risk :: "(pv \<Rightarrow> string) \<Rightarrow> news_risk \<Rightarrow> (string, news_risk) result" where
  "make_news_risk digest r =
    (if nr_policy_version r \<noteq> news_risk_version then Inl ''invalid policy_version''
     else if nr_class r \<notin> set risk_classes then Inl ''invalid risk_classification''
     else if nr_recommendation r \<notin> set news_recommendations then Inl ''invalid news_gate_recommendation''
     else if recommendation_by_class (nr_class r) \<noteq> Some (nr_recommendation r)
     then Inl ''invalid news_gate_recommendation''
     else if \<not> sha256_string (nr_event_snapshot_id r) then Inl ''invalid event_snapshot_id''
     else if \<not> short_text (nr_adjudication_version r) then Inl ''invalid adjudication_policy_version''
     else if \<not> sha256_string (nr_adjudication_id r) then Inl ''invalid adjudication_result_id''
     else if nr_ambiguity r \<notin> set ambiguity_states then Inl ''invalid final_ambiguity_state''
     else if nr_contradiction r \<notin> set contradiction_states then Inl ''invalid final_contradiction_state''
     else if nr_evidence r \<notin> set evidence_states then Inl ''invalid final_evidence_state''
     else if nr_entity r \<notin> set assessment_states then Inl ''invalid final_entity_state''
     else if nr_source r \<notin> set assessment_states then Inl ''invalid final_source_state''
     else if nr_risk r \<notin> set risk_states then Inl ''invalid final_material_risk_state''
     else case known_texts ''reason_codes'' risk_reasons (nr_reasons r) of
       Inl e \<Rightarrow> Inl e
     | Inr reasons \<Rightarrow>
       (case known_refs ''evidence_refs'' (nr_refs r) of
          Inl e \<Rightarrow> Inl e
        | Inr refs \<Rightarrow>
          if \<not> short_text (nr_explanation r) then Inl ''invalid structured_explanation''
          else if reasons = [] \<or> refs = [] then Inl ''missing semantic fields''
          else
            (let c = r\<lparr>nr_reasons := reasons, nr_refs := refs\<rparr>
             in Inr (c\<lparr>nr_object_id := news_risk_identity digest c\<rparr>))))"

section \<open>Classification\<close>

text \<open>
  \<open>_validate_adjudication\<close>: the normalised result, whose route is one of the supported three by
  its type.
\<close>

definition validate_adjudication ::
  "(pv \<Rightarrow> string) \<Rightarrow> adjudication \<Rightarrow> (string, adjudication) result" where
  "validate_adjudication digest r =
    (if ad_policy_version r \<noteq> adjudication_version then Inl ''unsupported adjudication policy''
     else if adjudication_identity digest r \<noteq> ad_result_id r then Inl ''invalid adjudication identity''
     else if ad_outcome r \<notin> set adjudication_outcomes then Inl ''invalid adjudication outcome''
     else if ad_agreement r \<notin> set agreement_states then Inl ''invalid adjudication agreement''
     else if ad_route r = L0 \<and> (ad_outcome r \<noteq> ''ACCEPT_DEEPSEEK'' \<or> ad_agreement r \<noteq> ''SINGLE_REVIEW''
       \<or> ad_claude_id r \<noteq> None) then Inl ''invalid L0 adjudication''
     else if ad_route r \<noteq> L0 \<and> ad_claude_id r = None then Inl ''invalid escalated adjudication''
     else if \<not> sha256_string (ad_event_snapshot_id r) then Inl ''invalid adjudication event_snapshot_id''
     else if \<not> sha256_string (ad_result_id r) then Inl ''invalid adjudication_result_id''
     else if ad_ambiguity r \<notin> set ambiguity_states then Inl ''invalid final_ambiguity_state''
     else if ad_contradiction r \<notin> set contradiction_states then Inl ''invalid final_contradiction_state''
     else if ad_evidence r \<notin> set evidence_states then Inl ''invalid final_evidence_state''
     else if ad_entity r \<notin> set assessment_states then Inl ''invalid final_entity_state''
     else if ad_source r \<notin> set assessment_states then Inl ''invalid final_source_state''
     else if ad_risk r \<notin> set risk_states then Inl ''invalid final_material_risk_state''
     else case known_texts ''adjudication reason_codes'' adjudication_reasons (ad_reasons r) of
       Inl e \<Rightarrow> Inl e
     | Inr reasons \<Rightarrow>
       (case known_refs ''adjudication evidence_refs'' (ad_refs r) of
          Inl e \<Rightarrow> Inl e
        | Inr refs \<Rightarrow> Inr (r\<lparr>ad_reasons := reasons, ad_refs := refs\<rparr>)))"

text \<open>The last part of \<open>build_news_risk_object\<close>: the class that the policy gives to the outcome.\<close>

definition outcome_class :: "string \<Rightarrow> string \<times> string list" where
  "outcome_class c =
    (if c = ''FAIL_CLOSED'' then (c, [''FAIL_CLOSED_ADJUDICATION''])
     else if c = ''ELEVATED'' then (c, [''MATERIAL_DISAGREEMENT''])
     else if c = ''CAUTION'' then (c, [''QUALIFIED_ADJUDICATION''])
     else (''CLEAR'', [''ADJUDICATION_CONFIRMED'', ''NO_MATERIAL_NEWS_RISK'', ''EVIDENCE_SUFFICIENT'']))"

text \<open>The class and the reasons; a mapping without the outcome is a \<open>KeyError\<close>.\<close>

definition classify :: "adjudication \<Rightarrow> news_risk_policy \<Rightarrow> (string, string \<times> string list) result" where
  "classify r p =
    (let blocking = filter (\<lambda>code. code \<in> set (np_blocking p)) (ad_reasons r)
     in if ad_outcome r \<in> set (np_fail_closed_outcomes p)
        then Inr (''FAIL_CLOSED'', [''FAIL_CLOSED_ADJUDICATION''])
        else if ad_risk r = ''MATERIAL_RISK'' \<and> ''MATERIAL_RISK_DISAGREEMENT'' \<in> set blocking
        then Inr (''BLOCKING'', [''CRITICAL_MATERIAL_RISK''])
        else if ad_contradiction r = ''UNRESOLVED'' \<and> ''CONTRADICTION_DISAGREEMENT'' \<in> set blocking
        then Inr (''BLOCKING'', [''CRITICAL_CONTRADICTION''])
        else if ad_entity r = ''CRITICAL'' then Inr (''BLOCKING'', [''CRITICAL_ENTITY_CONCERN''])
        else if ad_source r = ''CRITICAL'' then Inr (''BLOCKING'', [''CRITICAL_SOURCE_CONCERN''])
        else if blocking \<noteq> [] then Inr (''BLOCKING'', [''BLOCKING_ADJUDICATION_REASON''])
        else if ad_risk r = ''MATERIAL_RISK'' then Inr (''ELEVATED'', [''MATERIAL_RISK_PRESENT''])
        else if ad_contradiction r = ''UNRESOLVED''
        then Inr (''ELEVATED'', [''UNRESOLVED_CONTRADICTION''])
        else if ad_entity r = ''MODERATE'' then Inr (''CAUTION'', [''MODERATE_ENTITY_CONCERN''])
        else if ad_source r = ''MODERATE'' then Inr (''CAUTION'', [''MODERATE_SOURCE_CONCERN''])
        else if ad_evidence r = ''INSUFFICIENT'' then Inr (''CAUTION'', [''INSUFFICIENT_EVIDENCE''])
        else case map_of (np_outcomes p) (ad_outcome r) of
          None \<Rightarrow> Inl ''KeyError''
        | Some c \<Rightarrow> Inr (outcome_class c))"

text \<open>\<open>_canonical_reasons\<close> and \<open>_build_result\<close>\<close>

definition build_result ::
  "(pv \<Rightarrow> string) \<Rightarrow> news_risk_policy \<Rightarrow> adjudication \<Rightarrow> string \<Rightarrow> string list \<Rightarrow> (string, news_risk) result" where
  "build_result digest p r c codes =
    (case recommendation_by_class c of
       None \<Rightarrow> Inl ''KeyError''
     | Some recommendation \<Rightarrow>
       (let reasons = filter (\<lambda>code. code \<in> set codes) (np_reason_order p)
        in if reasons = [] \<or> np_max_reasons p < int (length reasons)
           then Inl ''invalid News Risk reason_codes''
           else make_news_risk digest \<lparr>
             nr_policy_version = news_risk_version,
             nr_event_snapshot_id = ad_event_snapshot_id r,
             nr_adjudication_version = ad_policy_version r,
             nr_adjudication_id = ad_result_id r,
             nr_route = ad_route r,
             nr_class = c,
             nr_recommendation = recommendation,
             nr_ambiguity = ad_ambiguity r,
             nr_contradiction = ad_contradiction r,
             nr_evidence = ad_evidence r,
             nr_entity = ad_entity r,
             nr_source = ad_source r,
             nr_risk = ad_risk r,
             nr_reasons = reasons,
             nr_refs = ad_refs r,
             nr_explanation = ''news-risk:'' @ c,
             nr_object_id = []\<rparr>))"

text \<open>\<open>build_news_risk_object\<close>\<close>

definition build_news_risk_object ::
  "(pv \<Rightarrow> string) \<Rightarrow> adjudication \<Rightarrow> news_risk_policy \<Rightarrow> (string, news_risk) result" where
  "build_news_risk_object digest result p =
    (case validate_adjudication digest result of
       Inl e \<Rightarrow> Inl e
     | Inr r \<Rightarrow>
       if np_max_refs p < int (length (ad_refs r)) then Inl ''too many evidence references''
       else
         (case classify r p of
            Inl e \<Rightarrow> Inl e
          | Inr (c, codes) \<Rightarrow> build_result digest p r c codes))"

end
