(* ===== verification/Signal_Gate.thy ===== *)
theory Signal_Gate
  imports News_Risk
begin

text \<open>
  The gate that turns the risk of a piece of news into an eligibility:
  \<open>src/engine/signal_gate_v1.py\<close>.
\<close>

section \<open>The policy\<close>

definition gate_version :: string where
  "gate_version = ''signal-gate-policy-v1''"

definition gate_states :: "string list" where
  "gate_states = [''OPEN'', ''CAUTION'', ''BLOCKED'', ''FAIL_CLOSED'']"

text \<open>\<open>_ELIGIBILITY_BY_STATE\<close>, whose values are the set \<open>_ELIGIBILITY\<close>.\<close>

definition eligibility_table :: "(string \<times> string) list" where
  "eligibility_table = [
     (''OPEN'', ''ALLOW_NEWS_ELIGIBILITY''), (''CAUTION'', ''REQUIRE_NEWS_CAUTION''),
     (''BLOCKED'', ''DENY_NEWS_ELIGIBILITY''), (''FAIL_CLOSED'', ''FAIL_CLOSED'')]"

definition gate_reasons :: "string list" where
  "gate_reasons = [''NEWS_RISK_CLEAR'', ''NO_NEWS_RESTRICTION'', ''NEWS_RISK_CAUTION'',
     ''CAUTION_RECOMMENDED'', ''LIMITED_EVIDENCE'', ''QUALIFIED_NEWS_ASSESSMENT'',
     ''NEWS_RISK_ELEVATED'', ''NEWS_RISK_BLOCKING'', ''BLOCK_RECOMMENDED'', ''CRITICAL_MATERIAL_RISK'',
     ''CRITICAL_CONTRADICTION'', ''CRITICAL_ENTITY_CONCERN'', ''CRITICAL_SOURCE_CONCERN'',
     ''BLOCKING_NEWS_REASON'', ''INVALID_NEWS_RISK_OBJECT'', ''UNSUPPORTED_POLICY'',
     ''FORGED_NEWS_RISK_IDENTITY'', ''FAIL_CLOSED_NEWS_RISK'', ''FAIL_CLOSED_GATE_POLICY'']"

definition gate_policy_fields :: "string list" where
  "gate_policy_fields = [''policy_version'', ''supported_news_risk_policy_versions'',
     ''supported_routes'', ''supported_risk_classifications'', ''supported_news_gate_recommendations'',
     ''risk_to_gate_state'', ''recommendation_to_gate_state'', ''blocking_reason_codes'',
     ''caution_reason_codes'', ''fail_closed_reason_codes'', ''deterministic_reason_order'',
     ''maximum_reason_code_count'', ''maximum_evidence_reference_count'']"

definition risk_mapping :: "(string \<times> string) list" where
  "risk_mapping = [(''CLEAR'', ''OPEN''), (''CAUTION'', ''CAUTION''), (''ELEVATED'', ''BLOCKED''),
     (''BLOCKING'', ''BLOCKED''), (''FAIL_CLOSED'', ''FAIL_CLOSED'')]"

definition recommendation_mapping :: "(string \<times> string) list" where
  "recommendation_mapping = [(''NO_NEWS_RESTRICTION'', ''OPEN''), (''REQUIRE_CAUTION'', ''CAUTION''),
     (''REQUIRE_BLOCK'', ''BLOCKED''), (''FAIL_CLOSED'', ''FAIL_CLOSED'')]"

text \<open>\<open>_normalize_mapping\<close>: the table must be the expected one; it is stored sorted.\<close>

definition require_mapping ::
  "string \<Rightarrow> (string \<times> string) list \<Rightarrow> pv \<Rightarrow> (string, (string \<times> string) list) result" where
  "require_mapping label expected v =
    (if \<not> has_fields (map fst expected) v
       \<or> \<not> list_all (\<lambda>(k, expected_value). fld v k = PStr expected_value) expected
     then Inl (''invalid '' @ label) else Inr (sort_key fst expected))"

record gate_policy =
  gp_risk_to_state :: "(string \<times> string) list"
  gp_recommendation_to_state :: "(string \<times> string) list"
  gp_blocking :: "string list"
  gp_caution :: "string list"
  gp_fail_closed :: "string list"
  gp_reason_order :: "string list"
  gp_max_reasons :: int
  gp_max_refs :: int

text \<open>The supported values, each of which must be the full set: label and values, in the order of
  the checks.\<close>

definition supported_lists :: "(string \<times> string list) list" where
  "supported_lists = [
     (''supported_news_risk_policy_versions'', [news_risk_version]),
     (''supported_routes'', route_strs),
     (''supported_risk_classifications'', risk_classes),
     (''supported_news_gate_recommendations'', news_recommendations)]"

fun require_supported :: "(string \<times> string list) list \<Rightarrow> pv \<Rightarrow> string option" where
  "require_supported [] v = None"
| "require_supported ((label, allowed) # rest) v =
    (case require_texts label allowed (fld v label) of
       Inl e \<Rightarrow> Some e
     | Inr xs \<Rightarrow> if set xs \<noteq> set allowed then Some (''invalid '' @ label) else require_supported rest v)"

text \<open>The configured reason codes, in the order of their checks.\<close>

definition gate_code_lists :: "(string \<times> string list) list" where
  "gate_code_lists = [
     (''blocking_reason_codes'', risk_reasons),
     (''caution_reason_codes'', risk_reasons),
     (''fail_closed_reason_codes'', risk_reasons),
     (''deterministic_reason_order'', gate_reasons)]"

text \<open>\<open>SignalGatePolicyV1.__init__\<close>\<close>

definition make_gate_policy :: "pv \<Rightarrow> (string, gate_policy) result" where
  "make_gate_policy v =
    (if \<not> has_fields gate_policy_fields v then Inl ''invalid policy fields''
     else if fld v ''policy_version'' \<noteq> PStr gate_version then Inl ''invalid policy_version''
     else case require_supported supported_lists v of
       Some e \<Rightarrow> Inl e
     | None \<Rightarrow>
       (case require_mapping ''risk_to_gate_state'' risk_mapping (fld v ''risk_to_gate_state'') of
          Inl e \<Rightarrow> Inl e
        | Inr risks \<Rightarrow>
          (case require_mapping ''recommendation_to_gate_state'' recommendation_mapping
               (fld v ''recommendation_to_gate_state'') of
             Inl e \<Rightarrow> Inl e
           | Inr recommendations \<Rightarrow>
             (case require_sequences gate_code_lists v of
                Inl e \<Rightarrow> Inl e
              | Inr ls \<Rightarrow>
                if ls ! 3 = [] \<or> \<not> list_all (\<lambda>code. code \<in> set (ls ! 3)) gate_reasons
                then Inl ''invalid deterministic_reason_order''
                else if \<not> positive_int (fld v ''maximum_reason_code_count'')
                then Inl ''invalid maximum_reason_code_count''
                else if \<not> positive_int (fld v ''maximum_evidence_reference_count'')
                then Inl ''invalid maximum_evidence_reference_count''
                else if int (length gate_reasons) < the_int (fld v ''maximum_reason_code_count'')
                  \<or> 128 < the_int (fld v ''maximum_evidence_reference_count'')
                then Inl ''invalid policy limits''
                else Inr \<lparr>
                  gp_risk_to_state = risks, gp_recommendation_to_state = recommendations,
                  gp_blocking = ls ! 0, gp_caution = ls ! 1, gp_fail_closed = ls ! 2,
                  gp_reason_order = ls ! 3,
                  gp_max_reasons = the_int (fld v ''maximum_reason_code_count''),
                  gp_max_refs = the_int (fld v ''maximum_evidence_reference_count'')\<rparr>))))"

section \<open>The decision\<close>

record gate_decision =
  gd_policy_version :: string
  gd_event_snapshot_id :: string
  gd_news_risk_version :: string
  gd_news_risk_id :: string
  gd_route :: route
  gd_state :: string
  gd_eligibility :: string
  gd_class :: string
  gd_recommendation :: string
  gd_reasons :: "string list"
  gd_refs :: "string list"
  gd_explanation :: string
  gd_decision_id :: string

text \<open>\<open>_decision_identity\<close>\<close>

definition gate_identity :: "(pv \<Rightarrow> string) \<Rightarrow> gate_decision \<Rightarrow> string" where
  "gate_identity digest g = hash_mapping digest (PDict [
     (''policy_version'', PStr (gd_policy_version g)),
     (''event_snapshot_id'', PStr (gd_event_snapshot_id g)),
     (''news_risk_policy_version'', PStr (gd_news_risk_version g)),
     (''news_risk_object_id'', PStr (gd_news_risk_id g)),
     (''route'', PStr (route_str (gd_route g))),
     (''gate_state'', PStr (gd_state g)),
     (''eligibility_recommendation'', PStr (gd_eligibility g)),
     (''risk_classification'', PStr (gd_class g)),
     (''news_gate_recommendation'', PStr (gd_recommendation g)),
     (''reason_codes'', texts_doc (gd_reasons g)),
     (''evidence_refs'', texts_doc (gd_refs g))])"

text \<open>\<open>SignalGateDecisionV1.__init__\<close> on the values of \<open>_new_decision\<close>, which supplies no identity;
  the reasons keep their order.\<close>

definition make_gate_decision :: "(pv \<Rightarrow> string) \<Rightarrow> gate_decision \<Rightarrow> (string, gate_decision) result" where
  "make_gate_decision digest g =
    (if gd_policy_version g \<noteq> gate_version then Inl ''invalid policy_version''
     else if gd_state g \<notin> set gate_states then Inl ''invalid gate_state''
     else if gd_eligibility g \<notin> set (map snd eligibility_table)
       \<or> map_of eligibility_table (gd_state g) \<noteq> Some (gd_eligibility g)
     then Inl ''invalid eligibility_recommendation''
     else if \<not> sha256_string (gd_event_snapshot_id g) then Inl ''invalid event_snapshot_id''
     else if \<not> short_text (gd_news_risk_version g) then Inl ''invalid news_risk_policy_version''
     else if \<not> sha256_string (gd_news_risk_id g) then Inl ''invalid news_risk_object_id''
     else if gd_class g \<notin> set risk_classes then Inl ''invalid risk_classification''
     else if gd_recommendation g \<notin> set news_recommendations then Inl ''invalid news_gate_recommendation''
     else if \<not> list_all (\<lambda>code. code \<in> set gate_reasons) (gd_reasons g) then Inl ''invalid reason_codes''
     else case known_refs ''evidence_refs'' (gd_refs g) of
       Inl e \<Rightarrow> Inl e
     | Inr refs \<Rightarrow>
       if \<not> short_text (gd_explanation g) then Inl ''invalid structured_explanation''
       else if gd_reasons g = [] \<or> refs = [] then Inl ''missing semantic fields''
       else
         (let c = g\<lparr>gd_reasons := first_occurrences (gd_reasons g), gd_refs := refs\<rparr>
          in Inr (c\<lparr>gd_decision_id := gate_identity digest c\<rparr>)))"

section \<open>Evaluation\<close>

text \<open>\<open>_validate_news_risk\<close>: the normalised object.\<close>

definition validate_news_risk :: "(pv \<Rightarrow> string) \<Rightarrow> news_risk \<Rightarrow> (string, news_risk) result" where
  "validate_news_risk digest r =
    (if nr_policy_version r \<noteq> news_risk_version then Inl ''unsupported News Risk policy''
     else if news_risk_identity digest r \<noteq> nr_object_id r then Inl ''invalid News Risk identity''
     else if \<not> sha256_string (nr_event_snapshot_id r) then Inl ''invalid News Risk event_snapshot_id''
     else if \<not> sha256_string (nr_object_id r) then Inl ''invalid news_risk_object_id''
     else if nr_class r \<notin> set risk_classes then Inl ''invalid risk_classification''
     else if nr_recommendation r \<notin> set news_recommendations then Inl ''invalid news_gate_recommendation''
     else if nr_ambiguity r \<notin> set ambiguity_states then Inl ''invalid final_ambiguity_state''
     else if nr_contradiction r \<notin> set contradiction_states then Inl ''invalid final_contradiction_state''
     else if nr_evidence r \<notin> set evidence_states then Inl ''invalid final_evidence_state''
     else if nr_entity r \<notin> set assessment_states then Inl ''invalid final_entity_state''
     else if nr_source r \<notin> set assessment_states then Inl ''invalid final_source_state''
     else if nr_risk r \<notin> set risk_states then Inl ''invalid final_material_risk_state''
     else case known_texts ''News Risk reason_codes'' risk_reasons (nr_reasons r) of
       Inl e \<Rightarrow> Inl e
     | Inr reasons \<Rightarrow>
       (case known_refs ''News Risk evidence_refs'' (nr_refs r) of
          Inl e \<Rightarrow> Inl e
        | Inr refs \<Rightarrow> Inr (r\<lparr>nr_reasons := reasons, nr_refs := refs\<rparr>)))"

text \<open>\<open>set(data["reasons"]).intersection(codes)\<close>\<close>

definition configured :: "string list \<Rightarrow> string list \<Rightarrow> string list" where
  "configured reasons codes = filter (\<lambda>code. code \<in> set codes) reasons"

text \<open>The state of the gate and the set of its reasons.\<close>

definition gate_ladder :: "news_risk \<Rightarrow> gate_policy \<Rightarrow> string \<times> string list" where
  "gate_ladder r p =
    (let failed = configured (nr_reasons r) (gp_fail_closed p);
         blocking = configured (nr_reasons r) (gp_blocking p);
         caution = configured (nr_reasons r) (gp_caution p)
     in if nr_class r = ''FAIL_CLOSED'' \<or> nr_recommendation r = ''FAIL_CLOSED'' \<or> failed \<noteq> []
        then (''FAIL_CLOSED'', failed @ [''FAIL_CLOSED_NEWS_RISK''])
        else if nr_class r = ''BLOCKING'' then (''BLOCKED'', [''NEWS_RISK_BLOCKING''])
        else if nr_recommendation r = ''REQUIRE_BLOCK'' then (''BLOCKED'', [''BLOCK_RECOMMENDED''])
        else if blocking \<noteq> [] then (''BLOCKED'', blocking @ [''BLOCKING_NEWS_REASON''])
        else if nr_class r = ''ELEVATED'' then (''BLOCKED'', [''NEWS_RISK_ELEVATED''])
        else if caution \<noteq> [] then (''CAUTION'', caution @ [''NEWS_RISK_CAUTION''])
        else if nr_class r = ''CAUTION'' then (''CAUTION'', [''NEWS_RISK_CAUTION''])
        else if nr_recommendation r = ''REQUIRE_CAUTION'' then (''CAUTION'', [''CAUTION_RECOMMENDED''])
        else (''OPEN'', [''NEWS_RISK_CLEAR'', ''NO_NEWS_RESTRICTION'']))"

text \<open>\<open>_canonical_reasons\<close> and \<open>_new_decision\<close>\<close>

definition new_gate_decision ::
  "(pv \<Rightarrow> string) \<Rightarrow> gate_policy \<Rightarrow> news_risk \<Rightarrow> string \<Rightarrow> string list \<Rightarrow> (string, gate_decision) result" where
  "new_gate_decision digest p r state codes =
    (case map_of eligibility_table state of
       None \<Rightarrow> Inl ''KeyError''
     | Some eligibility \<Rightarrow>
       (let reasons = filter (\<lambda>code. code \<in> set codes) (gp_reason_order p)
        in if reasons = [] \<or> gp_max_reasons p < int (length reasons)
           then Inl ''invalid Signal Gate reason_codes''
           else make_gate_decision digest \<lparr>
             gd_policy_version = gate_version,
             gd_event_snapshot_id = nr_event_snapshot_id r,
             gd_news_risk_version = nr_policy_version r,
             gd_news_risk_id = nr_object_id r,
             gd_route = nr_route r,
             gd_state = state,
             gd_eligibility = eligibility,
             gd_class = nr_class r,
             gd_recommendation = nr_recommendation r,
             gd_reasons = reasons,
             gd_refs = nr_refs r,
             gd_explanation = ''signal-gate:'' @ state,
             gd_decision_id = []\<rparr>))"

text \<open>\<open>evaluate_signal_gate\<close>\<close>

definition evaluate_signal_gate ::
  "(pv \<Rightarrow> string) \<Rightarrow> news_risk \<Rightarrow> gate_policy \<Rightarrow> (string, gate_decision) result" where
  "evaluate_signal_gate digest object p =
    (case validate_news_risk digest object of
       Inl e \<Rightarrow> Inl e
     | Inr r \<Rightarrow>
       if gp_max_refs p < int (length (nr_refs r)) then Inl ''too many evidence references''
       else (let (state, codes) = gate_ladder r p in new_gate_decision digest p r state codes))"

end
