(* ===== verification/Shadow_Finalizer.thy ===== *)
theory Shadow_Finalizer
  imports Signal_Gate
begin

text \<open>
  The three policies that \<open>src/engine/phase_11_shadow_adjudication_finalizer_v1.py\<close> fixes, and the
  chain of decisions of \<open>_finalize_clean\<close>: adjudication, news risk, signal gate.  The records it
  writes around them are not part of the model.
\<close>

section \<open>The fixed policies\<close>

definition finalizer_adjudication_doc :: pv where
  "finalizer_adjudication_doc = PDict [
     (''policy_version'', PStr ''deterministic-adjudication-policy-v1''),
     (''supported_routes'', texts_doc [''L0'', ''L1'', ''L2'']),
     (''agreement_values'', texts_doc [''SINGLE_REVIEW'', ''AGREEMENT'', ''QUALIFIED_AGREEMENT'',
        ''DISAGREEMENT'', ''CRITICAL_DISAGREEMENT'', ''FAIL_CLOSED'']),
     (''contradiction_values'', texts_doc [''NONE'', ''PRESENT'', ''RESOLVED'', ''UNRESOLVED'']),
     (''evidence_precedence'', texts_doc [''SUFFICIENT'', ''INSUFFICIENT'']),
     (''entity_precedence'', texts_doc [''ACCEPTABLE'', ''MODERATE'', ''CRITICAL'']),
     (''source_precedence'', texts_doc [''ACCEPTABLE'', ''MODERATE'', ''CRITICAL'']),
     (''material_risk_precedence'', texts_doc [''NONE'', ''MATERIAL_RISK'']),
     (''critical_disagreement_rules'', texts_doc [''CRITICAL_UNRESOLVED_DISAGREEMENT'']),
     (''fail_closed_reason_codes'', texts_doc [''INVALID_INPUT'', ''RESULT_NOT_COMPLETED'',
        ''ROUTE_RESULT_MISMATCH'', ''EVENT_BINDING_MISMATCH'', ''DECISION_BINDING_MISMATCH'',
        ''POLICY_MISMATCH'', ''CRITICAL_UNRESOLVED_DISAGREEMENT'']),
     (''deterministic_reason_order'', texts_doc [''MATERIAL_RISK_DISAGREEMENT'',
        ''CONTRADICTION_DISAGREEMENT'', ''ENTITY_DISAGREEMENT'', ''SOURCE_DISAGREEMENT'',
        ''EVIDENCE_DISAGREEMENT'', ''PROVIDERS_AGREE'', ''MATERIAL_FACTS_ALIGNED'',
        ''RISK_ASSESSMENTS_ALIGNED'', ''MINOR_EVIDENCE_DIFFERENCE'', ''MODERATE_ENTITY_DIFFERENCE'',
        ''MODERATE_SOURCE_DIFFERENCE'', ''CRITICAL_UNRESOLVED_DISAGREEMENT'']),
     (''maximum_reason_code_count'', PInt 12),
     (''maximum_evidence_reference_count'', PInt 16)]"

definition finalizer_news_doc :: pv where
  "finalizer_news_doc = PDict [
     (''policy_version'', PStr ''news-risk-policy-v1''),
     (''supported_adjudication_policy_versions'', texts_doc [''deterministic-adjudication-policy-v1'']),
     (''supported_routes'', texts_doc [''L0'', ''L1'', ''L2'']),
     (''outcome_to_risk_classification'', PDict [
        (''ACCEPT_DEEPSEEK'', PStr ''CLEAR''),
        (''ACCEPT_CLAUDE'', PStr ''CLEAR''),
        (''CONSENSUS_CONFIRMED'', PStr ''CLEAR''),
        (''CONSENSUS_WITH_QUALIFICATION'', PStr ''CAUTION''),
        (''MATERIAL_DISAGREEMENT'', PStr ''ELEVATED''),
        (''INSUFFICIENT_EVIDENCE'', PStr ''CAUTION''),
        (''FAIL_CLOSED'', PStr ''FAIL_CLOSED'')]),
     (''ambiguity_precedence'', texts_doc [''NONE'', ''MODERATE'', ''CRITICAL'']),
     (''contradiction_precedence'', texts_doc [''NONE'', ''RESOLVED'', ''PRESENT'', ''UNRESOLVED'']),
     (''evidence_precedence'', texts_doc [''SUFFICIENT'', ''INSUFFICIENT'']),
     (''entity_precedence'', texts_doc [''ACCEPTABLE'', ''MODERATE'', ''CRITICAL'']),
     (''source_precedence'', texts_doc [''ACCEPTABLE'', ''MODERATE'', ''CRITICAL'']),
     (''material_risk_precedence'', texts_doc [''NONE'', ''MATERIAL_RISK'']),
     (''fail_closed_outcomes'', texts_doc [''FAIL_CLOSED'']),
     (''blocking_reason_codes'', texts_doc [''CRITICAL_MATERIAL_RISK'', ''CRITICAL_CONTRADICTION'',
        ''CRITICAL_ENTITY_CONCERN'', ''CRITICAL_SOURCE_CONCERN'', ''BLOCKING_ADJUDICATION_REASON'',
        ''MATERIAL_RISK_DISAGREEMENT'', ''CONTRADICTION_DISAGREEMENT'', ''ENTITY_DISAGREEMENT'',
        ''SOURCE_DISAGREEMENT'', ''CRITICAL_UNRESOLVED_DISAGREEMENT'']),
     (''caution_reason_codes'', texts_doc [''QUALIFIED_ADJUDICATION'', ''EVIDENCE_LIMITED'',
        ''MODERATE_ENTITY_CONCERN'', ''MODERATE_SOURCE_CONCERN'']),
     (''deterministic_reason_order'', texts_doc [''INVALID_ADJUDICATION'', ''UNSUPPORTED_POLICY'',
        ''FORGED_IDENTITY'', ''FAIL_CLOSED_ADJUDICATION'', ''CRITICAL_MATERIAL_RISK'',
        ''CRITICAL_CONTRADICTION'', ''CRITICAL_ENTITY_CONCERN'', ''CRITICAL_SOURCE_CONCERN'',
        ''BLOCKING_ADJUDICATION_REASON'', ''MATERIAL_DISAGREEMENT'', ''UNRESOLVED_CONTRADICTION'',
        ''MATERIAL_RISK_PRESENT'', ''INSUFFICIENT_EVIDENCE'', ''QUALIFIED_ADJUDICATION'',
        ''EVIDENCE_LIMITED'', ''MODERATE_ENTITY_CONCERN'', ''MODERATE_SOURCE_CONCERN'',
        ''ADJUDICATION_CONFIRMED'', ''NO_MATERIAL_NEWS_RISK'', ''EVIDENCE_SUFFICIENT'']),
     (''maximum_reason_code_count'', PInt 20),
     (''maximum_evidence_reference_count'', PInt 16)]"

definition finalizer_gate_doc :: pv where
  "finalizer_gate_doc = PDict [
     (''policy_version'', PStr ''signal-gate-policy-v1''),
     (''supported_news_risk_policy_versions'', texts_doc [''news-risk-policy-v1'']),
     (''supported_routes'', texts_doc [''L0'', ''L1'', ''L2'']),
     (''supported_risk_classifications'',
        texts_doc [''CLEAR'', ''CAUTION'', ''ELEVATED'', ''BLOCKING'', ''FAIL_CLOSED'']),
     (''supported_news_gate_recommendations'',
        texts_doc [''NO_NEWS_RESTRICTION'', ''REQUIRE_CAUTION'', ''REQUIRE_BLOCK'', ''FAIL_CLOSED'']),
     (''risk_to_gate_state'', PDict [
        (''CLEAR'', PStr ''OPEN''), (''CAUTION'', PStr ''CAUTION''), (''ELEVATED'', PStr ''BLOCKED''),
        (''BLOCKING'', PStr ''BLOCKED''), (''FAIL_CLOSED'', PStr ''FAIL_CLOSED'')]),
     (''recommendation_to_gate_state'', PDict [
        (''NO_NEWS_RESTRICTION'', PStr ''OPEN''), (''REQUIRE_CAUTION'', PStr ''CAUTION''),
        (''REQUIRE_BLOCK'', PStr ''BLOCKED''), (''FAIL_CLOSED'', PStr ''FAIL_CLOSED'')]),
     (''blocking_reason_codes'', texts_doc [''CRITICAL_MATERIAL_RISK'', ''CRITICAL_CONTRADICTION'',
        ''CRITICAL_ENTITY_CONCERN'', ''CRITICAL_SOURCE_CONCERN'']),
     (''caution_reason_codes'', texts_doc [''INSUFFICIENT_EVIDENCE'', ''EVIDENCE_LIMITED'',
        ''MODERATE_ENTITY_CONCERN'', ''MODERATE_SOURCE_CONCERN'', ''QUALIFIED_ADJUDICATION'']),
     (''fail_closed_reason_codes'', texts_doc [''FAIL_CLOSED_ADJUDICATION'', ''UNSUPPORTED_POLICY'',
        ''FORGED_IDENTITY'', ''INVALID_ADJUDICATION'']),
     (''deterministic_reason_order'', texts_doc [''INVALID_NEWS_RISK_OBJECT'', ''UNSUPPORTED_POLICY'',
        ''FORGED_NEWS_RISK_IDENTITY'', ''FAIL_CLOSED_NEWS_RISK'', ''FAIL_CLOSED_GATE_POLICY'',
        ''NEWS_RISK_BLOCKING'', ''CRITICAL_MATERIAL_RISK'', ''CRITICAL_CONTRADICTION'',
        ''CRITICAL_ENTITY_CONCERN'', ''CRITICAL_SOURCE_CONCERN'', ''BLOCKING_NEWS_REASON'',
        ''BLOCK_RECOMMENDED'', ''NEWS_RISK_ELEVATED'', ''NEWS_RISK_CAUTION'', ''CAUTION_RECOMMENDED'',
        ''LIMITED_EVIDENCE'', ''QUALIFIED_NEWS_ASSESSMENT'', ''NEWS_RISK_CLEAR'',
        ''NO_NEWS_RESTRICTION'']),
     (''maximum_reason_code_count'', PInt 19),
     (''maximum_evidence_reference_count'', PInt 16)]"

text \<open>\<open>ShadowAdjudicationFinalizerV1.__init__\<close>\<close>

record finalizer =
  fz_adjudication :: adjudication_policy
  fz_news_risk :: news_risk_policy
  fz_gate :: gate_policy

definition make_finalizer :: "(string, finalizer) result" where
  "make_finalizer =
    (case make_adjudication_policy finalizer_adjudication_doc of
       Inl e \<Rightarrow> Inl e
     | Inr a \<Rightarrow>
       (case make_news_risk_policy finalizer_news_doc of
          Inl e \<Rightarrow> Inl e
        | Inr n \<Rightarrow>
          (case make_gate_policy finalizer_gate_doc of
             Inl e \<Rightarrow> Inl e
           | Inr g \<Rightarrow> Inr \<lparr>fz_adjudication = a, fz_news_risk = n, fz_gate = g\<rparr>)))"

section \<open>The chain of decisions\<close>

text \<open>
  The decision part of \<open>_finalize_clean\<close> for the last decision of the lineage, whose adjudication
  route and whose event it binds, and the last escalated review.
\<close>

definition finalize_reviews ::
  "(pv \<Rightarrow> string) \<Rightarrow> finalizer \<Rightarrow> route \<Rightarrow> string \<Rightarrow> primary_review \<Rightarrow> escalation \<Rightarrow> claude_review option
     \<Rightarrow> (string, adjudication \<times> news_risk \<times> gate_decision) result" where
  "finalize_reviews digest f lineage_route event_id deepseek d claude_result =
    (let claude = (if lineage_route = L0 then None else claude_result)
     in case adjudicate_review_results digest deepseek d claude (fz_adjudication f) of
       Inl e \<Rightarrow> Inl e
     | Inr a \<Rightarrow>
       if ad_route a \<noteq> lineage_route \<or> ad_event_snapshot_id a \<noteq> event_id
         \<or> ad_router_decision_id a \<noteq> es_decision_id d
         \<or> ad_deepseek_id a \<noteq> pr_semantic_result_id deepseek
         \<or> ad_claude_id a \<noteq> map_option cr_semantic_result_id claude
       then Inl ''adjudication result binding mismatch''
       else
         (case build_news_risk_object digest a (fz_news_risk f) of
            Inl e \<Rightarrow> Inl e
          | Inr n \<Rightarrow>
            (case evaluate_signal_gate digest n (fz_gate f) of
               Inl e \<Rightarrow> Inl e
             | Inr g \<Rightarrow> Inr (a, n, g))))"

end
