(* ===== verification/Escalation_Router_Props.thy ===== *)
theory Escalation_Router_Props
  imports Escalation_Router
begin

text \<open>
  What the two contracts of the escalation give together: the constructor of a primary review
  admits only clean values, so the router sends every constructed review to L0 or rejects the
  spelling of its evidence references.
\<close>

section \<open>Sorted sets of texts\<close>

lemma set_canonical_texts [simp]: "set (canonical_texts xs) = set xs"
  by (simp add: canonical_texts_def)

lemma canonical_texts_idem [simp]: "canonical_texts (canonical_texts xs) = canonical_texts xs"
  by (simp add: canonical_texts_def distinct_remdups_id sort_key_id_if_sorted)

lemma distinct_single: "distinct ys \<Longrightarrow> set ys = {a} \<Longrightarrow> ys = [a]"
  by (cases ys) (auto simp: subset_singleton_iff)

lemma canonical_texts_const: "set xs = {a} \<Longrightarrow> canonical_texts xs = [a]"
  using distinct_single [of "remdups xs" a] by (simp add: canonical_texts_def)

lemma is_text_in_the_str: "is_text_in P y \<Longrightarrow> P (the_str y)"
  by (auto simp: is_text_in_def split: pv.splits)

lemma require_items_dest:
  assumes "require_items f P v = Inr xs"
  shows "xs \<noteq> []" "list_all P xs" "canonical_texts xs = xs"
proof -
  from assms obtain ys where ys: "ys \<noteq> []" "list_all (is_text_in P) ys"
      "xs = canonical_texts (map the_str ys)"
    unfolding require_items_def inr_convs by (auto split: if_splits)
  have "set xs = the_str ` set ys" using ys(3) by simp
  with ys(1,2) is_text_in_the_str show "list_all P xs" and "xs \<noteq> []"
    by (auto simp: list_all_iff)
  show "canonical_texts xs = xs" using ys(3) by simp
qed

lemma require_items_single:
  assumes "require_items f (\<lambda>s. s = a) v = Inr xs"
  shows "xs = [a]"
proof -
  from require_items_dest [OF assms] have "set xs = {a}"
    by (cases xs) (auto simp: list_all_iff)
  with require_items_dest(3) [OF assms] canonical_texts_const show ?thesis by metis
qed

lemma require_texts_subset:
  assumes "require_texts l allowed v = Inr xs"
  shows "set xs \<subseteq> set allowed"
proof -
  from assms obtain ys where "list_all (is_text_in (\<lambda>s. s \<in> set allowed)) ys"
      "xs = canonical_texts (map the_str ys)"
    by (auto simp: require_texts_def split: pv.splits if_splits)
  then show ?thesis by (auto simp: list_all_iff dest!: is_text_in_the_str)
qed

lemma require_lists_subsets:
  "require_lists ps v = Inr xss \<Longrightarrow> list_all2 (\<lambda>p xs. set xs \<subseteq> set (snd p)) ps xss"
proof (induction ps arbitrary: xss)
  case Nil
  then show ?case by simp
next
  case (Cons p ps)
  obtain label allowed where p: "p = (label, allowed)" by (cases p)
  from Cons.prems obtain xs yss where "require_texts label allowed (fld v label) = Inr xs"
      "require_lists ps v = Inr yss" "xss = xs # yss"
    by (auto simp: p split: sum.splits)
  with Cons.IH require_texts_subset show ?case by (simp add: p)
qed

section \<open>Constructed reviews and policies\<close>

text \<open>What a constructed review looks like.\<close>

definition clean_review :: "(pv \<Rightarrow> string) \<Rightarrow> primary_review \<Rightarrow> bool" where
  "clean_review digest r \<longleftrightarrow>
     sha256_string (pr_event_snapshot_id r) \<and> sha256_string (pr_request_payload_sha256 r)
   \<and> pr_review_status r = ''COMPLETED'' \<and> pr_review_conclusion r = ''FACTUAL_REVIEW_COMPLETE''
   \<and> pr_ambiguity_level r = ''NONE'' \<and> \<not> pr_contradiction_present r
   \<and> pr_evidence_sufficiency r = ''SUFFICIENT'' \<and> pr_entity_confidence_state r = ''EXPLICIT''
   \<and> pr_source_policy_concern_state r = ''NONE'' \<and> pr_material_risk_flags r = [''NONE'']
   \<and> pr_reason_codes r = [''REVIEW_COMPLETED'']
   \<and> canonical_texts (pr_escalation_evidence_refs r) = pr_escalation_evidence_refs r
   \<and> pr_semantic_result_id r = hash_mapping digest (semantic_doc r)"

lemma semantic_doc_id [simp]: "semantic_doc (r\<lparr>pr_semantic_result_id := i\<rparr>) = semantic_doc r"
  by (simp add: semantic_doc_def)

lemma is_sha256_the_str: "is_sha256 v \<Longrightarrow> sha256_string (the_str v)"
  by (auto simp: is_sha256_def split: pv.splits)

lemma made_review_clean:
  assumes "make_primary_review digest v = Inr r"
  shows "clean_review digest r"
  using assms unfolding make_primary_review_def inr_convs Let_def
  apply (elim conjE exE)
  apply (drule require_items_single)+
  apply (drule require_items_dest(3))
  apply (drule sum.inject(2) [THEN iffD1], hypsubst)
  apply (unfold clean_review_def, intro conjI)
  apply (simp_all add: is_sha256_the_str semantic_doc_def)
  done

lemma clean_policy_lists:
  assumes "make_policy v = Inr p"
  shows "set (rp_forced_l2 p) \<subseteq> {''FORCED_CRITICAL_REVIEW''}" "set (rp_fail_closed p) \<subseteq> set fail_codes"
    "set (rp_moderate_ambiguity p) \<subseteq> {''MODERATE''}" "set (rp_critical_ambiguity p) \<subseteq> {''CRITICAL''}"
    "set (rp_moderate_entity p) \<subseteq> {''MODERATE''}" "set (rp_critical_entity p) \<subseteq> {''CRITICAL''}"
    "set (rp_moderate_source p) \<subseteq> {''MODERATE''}" "set (rp_critical_source p) \<subseteq> {''CRITICAL''}"
    "set (rp_insufficient_evidence p) \<subseteq> {''INSUFFICIENT''}"
    "set (rp_critical_risks p) \<subseteq> {''MATERIAL_RISK''}"
proof -
  from assms obtain ls where ls: "require_lists policy_lists v = Inr ls"
    and p: "rp_forced_l2 p = ls ! 0" "rp_fail_closed p = ls ! 1"
      "rp_moderate_ambiguity p = ls ! 2" "rp_critical_ambiguity p = ls ! 3"
      "rp_moderate_entity p = ls ! 4" "rp_critical_entity p = ls ! 5"
      "rp_moderate_source p = ls ! 6" "rp_critical_source p = ls ! 7"
      "rp_insufficient_evidence p = ls ! 8" "rp_critical_risks p = ls ! 9"
    unfolding make_policy_def inr_convs by auto
  note all = require_lists_subsets [OF ls]
  have nth: "set (ls ! i) \<subseteq> set (snd (policy_lists ! i))" if "i < 10" for i
    using list_all2_nthD [OF all, of i] that by (simp add: policy_lists_def)
  show "set (rp_forced_l2 p) \<subseteq> {''FORCED_CRITICAL_REVIEW''}"
    "set (rp_fail_closed p) \<subseteq> set fail_codes"
    "set (rp_moderate_ambiguity p) \<subseteq> {''MODERATE''}" "set (rp_critical_ambiguity p) \<subseteq> {''CRITICAL''}"
    "set (rp_moderate_entity p) \<subseteq> {''MODERATE''}" "set (rp_critical_entity p) \<subseteq> {''CRITICAL''}"
    "set (rp_moderate_source p) \<subseteq> {''MODERATE''}" "set (rp_critical_source p) \<subseteq> {''CRITICAL''}"
    "set (rp_insufficient_evidence p) \<subseteq> {''INSUFFICIENT''}"
    "set (rp_critical_risks p) \<subseteq> {''MATERIAL_RISK''}"
    using nth [of 0] nth [of 1] nth [of 2] nth [of 3] nth [of 4] nth [of 5] nth [of 6] nth [of 7]
      nth [of 8] nth [of 9]
    by (simp_all add: p policy_lists_def)
qed

lemma intersects_disjoint: "intersects xs ys \<longleftrightarrow> set xs \<inter> set ys \<noteq> {}"
  by (auto simp: intersects_def list_ex_iff)

lemma clean_review_facts:
  assumes "clean_review digest r" "hex_digest digest"
  shows "result_facts digest r =
    (if list_all router_identifier (pr_escalation_evidence_refs r)
     then Inr \<lparr>fa_event_snapshot_id = pr_event_snapshot_id r,
               fa_payload_hash = pr_request_payload_sha256 r,
               fa_result_id = pr_semantic_result_id r,
               fa_risks = [''NONE''], fa_reasons = [''REVIEW_COMPLETED''],
               fa_evidence_refs = pr_escalation_evidence_refs r\<rparr>
     else Inl ''invalid escalation_evidence_refs'')"
proof -
  have id: "r\<lparr>pr_material_risk_flags := canonical_texts (pr_material_risk_flags r),
      pr_reason_codes := canonical_texts (pr_reason_codes r),
      pr_escalation_evidence_refs := canonical_texts (pr_escalation_evidence_refs r)\<rparr> = r"
    using assms(1) by (simp add: clean_review_def canonical_texts_const)
  have hex: "sha256_string (pr_semantic_result_id r)"
    using assms by (simp add: clean_review_def hex_digest_def hash_mapping_def)
  have vals: "''NONE'' \<in> {''NONE'', ''MATERIAL_RISK''}" "''REVIEW_COMPLETED'' \<in> set input_reasons"
    by (simp_all add: input_reasons_def)
  show ?thesis
    unfolding result_facts_def id Let_def
    using assms(1) hex vals by (simp add: clean_review_def)
qed

lemma clean_route:
  assumes "clean_review digest r" "make_policy v = Inr p"
  shows "choose_route r [''NONE''] [''REVIEW_COMPLETED''] p = (L0, [])"
    and "\<not> intersects [''REVIEW_COMPLETED''] (rp_fail_closed p)"
  using assms(1) clean_policy_lists [OF assms(2)]
  by (auto simp: choose_route_def clean_review_def intersects_disjoint Let_def fail_codes_def)

text \<open>An escalation by a material risk alone carries no reason.\<close>

lemma risk_alone_unexplained:
  assumes "intersects risks (rp_critical_risks p)" "\<not> intersects reasons (rp_forced_l2 p)"
    "pr_ambiguity_level r \<notin> set (rp_critical_ambiguity p)"
    "pr_entity_confidence_state r \<notin> set (rp_critical_entity p)"
    "pr_source_policy_concern_state r \<notin> set (rp_critical_source p)"
    "pr_evidence_sufficiency r \<notin> set (rp_insufficient_evidence p)"
  shows "choose_route r risks reasons p = (L2, [])" "ordered_reasons L2 [] = []"
  using assms by (simp_all add: choose_route_def ordered_reasons_def Let_def)

section \<open>The property\<close>

text \<open>C38. A review that the constructor of the primary review accepts is never escalated: under
  every policy the constructor of the policy accepts, the router returns the routine decision L0,
  bound to the identity of the review, or rejects the evidence references, whose grammar is
  narrower in the router than in the review.\<close>

theorem constructed_review_route:
  assumes "make_primary_review digest doc = Inr r" "make_policy pdoc = Inr p" "hex_digest digest"
  shows "if list_all router_identifier (pr_escalation_evidence_refs r)
    then \<exists>d. route_primary_review digest r p = Inr d \<and> es_route d = L0 \<and> \<not> es_review_required d
           \<and> es_model d = None \<and> es_result_id d = hash_mapping digest (semantic_doc r)
           \<and> es_event_snapshot_id d = pr_event_snapshot_id r
           \<and> es_reasons d = sort l0_reasons
           \<and> es_evidence_refs d = pr_escalation_evidence_refs r
           \<and> es_decision_id d = semantic_decision_id digest d
    else route_primary_review digest r p = Inl ''invalid escalation_evidence_refs''"
proof -
  note clean = made_review_clean [OF assms(1)]
  note facts = clean_review_facts [OF clean assms(3)]
  note route = clean_route [OF clean assms(2)]
  have reasons: "canonical_texts l0_reasons = sort l0_reasons"
    "list_all (\<lambda>s. s \<in> set output_reasons) l0_reasons"
    by (simp_all add: canonical_texts_def l0_reasons_def output_reasons_def)
  have hex: "sha256_string (pr_event_snapshot_id r)" "sha256_string (pr_request_payload_sha256 r)"
    "sha256_string (pr_semantic_result_id r)"
    and refs: "canonical_texts (pr_escalation_evidence_refs r) = pr_escalation_evidence_refs r"
    and ident: "pr_semantic_result_id r = hash_mapping digest (semantic_doc r)"
    using clean assms(3) by (simp_all add: clean_review_def hex_digest_def hash_mapping_def)
  show ?thesis
    unfolding route_primary_review_def facts
    by (simp add: route make_decision_def hex refs reasons ordered_reasons_def Let_def ident [symmetric]
        semantic_decision_id_def)
qed

definition demo_hash :: string where
  "demo_hash = replicate 64 CHR ''a''"

definition demo_review_doc :: "string \<Rightarrow> pv" where
  "demo_review_doc ref = PDict [
     (''policy_version'', PStr review_policy_version), (''event_snapshot_id'', PStr demo_hash),
     (''request_payload_sha256'', PStr demo_hash), (''logical_review_id'', PStr demo_hash),
     (''review_status'', PStr ''COMPLETED''), (''review_conclusion'', PStr ''FACTUAL_REVIEW_COMPLETE''),
     (''ambiguity_level'', PStr ''NONE''), (''contradiction_present'', PBool False),
     (''evidence_sufficiency'', PStr ''SUFFICIENT''), (''entity_confidence_state'', PStr ''EXPLICIT''),
     (''source_policy_concern_state'', PStr ''NONE''), (''material_risk_flags'', PList [PStr ''NONE'']),
     (''reason_codes'', PList [PStr ''REVIEW_COMPLETED'', PStr ''REVIEW_COMPLETED'']),
     (''structured_explanation'', PStr ''clean''), (''escalation_evidence_refs'', PList [PStr ref]),
     (''semantic_result_id'', PNone)]"

definition demo_policy_doc :: pv where
  "demo_policy_doc = PDict (
     [(''policy_version'', PStr router_policy_version), (''l1_claude_model_policy_id'', PStr ''m1''),
      (''l2_claude_model_policy_id'', PStr ''m2'')] @ map (\<lambda>(l, a). (l, texts_doc a)) policy_lists)"

definition demo_review :: "string \<Rightarrow> primary_review" where
  "demo_review ref = \<lparr>pr_policy_version = review_policy_version, pr_event_snapshot_id = demo_hash,
     pr_request_payload_sha256 = demo_hash, pr_logical_review_id = demo_hash,
     pr_review_status = ''COMPLETED'', pr_review_conclusion = ''FACTUAL_REVIEW_COMPLETE'',
     pr_ambiguity_level = ''NONE'', pr_contradiction_present = False,
     pr_evidence_sufficiency = ''SUFFICIENT'', pr_entity_confidence_state = ''EXPLICIT'',
     pr_source_policy_concern_state = ''NONE'', pr_material_risk_flags = [''NONE''],
     pr_reason_codes = [''REVIEW_COMPLETED''], pr_structured_explanation = ''clean'',
     pr_escalation_evidence_refs = [ref], pr_semantic_result_id = demo_hash\<rparr>"

lemma demo_fields: "has_fields review_fields (demo_review_doc ref)"
  by code_simp

lemma demo_hash_sha: "is_sha256 (PStr demo_hash)"
  by code_simp

lemma demo_text: "bounded_text (PStr ''clean'')"
  by (simp add: bounded_text_def stripped_def py_space_def)

lemma demo_flags:
  "require_items ''material_risk_flags'' (\<lambda>s. s = ''NONE'') (PList [PStr ''NONE'']) = Inr [''NONE'']"
  by code_simp

lemma demo_reasons:
  "require_items ''reason_codes'' (\<lambda>s. s = ''REVIEW_COMPLETED'')
     (PList [PStr ''REVIEW_COMPLETED'', PStr ''REVIEW_COMPLETED'']) = Inr [''REVIEW_COMPLETED'']"
  by code_simp

lemma demo_plain_ref:
  "require_items ''escalation_evidence_refs'' provider_identifier (PList [PStr ''news:1'']) = Inr [''news:1'']"
  by code_simp

lemma demo_odd_ref:
  "require_items ''escalation_evidence_refs'' provider_identifier (PList [PStr ''_n'']) = Inr [''_n'']"
  by code_simp

lemma demo_constructed:
  assumes "require_items ''escalation_evidence_refs'' provider_identifier (PList [PStr ref]) = Inr [ref]"
  shows "make_primary_review (\<lambda>d. demo_hash) (demo_review_doc ref) = Inr (demo_review ref)"
proof -
  have "fld (demo_review_doc ref) ''policy_version'' = PStr review_policy_version"
    "fld (demo_review_doc ref) ''event_snapshot_id'' = PStr demo_hash"
    "fld (demo_review_doc ref) ''request_payload_sha256'' = PStr demo_hash"
    "fld (demo_review_doc ref) ''logical_review_id'' = PStr demo_hash"
    "fld (demo_review_doc ref) ''review_status'' = PStr ''COMPLETED''"
    "fld (demo_review_doc ref) ''review_conclusion'' = PStr ''FACTUAL_REVIEW_COMPLETE''"
    "fld (demo_review_doc ref) ''ambiguity_level'' = PStr ''NONE''"
    "fld (demo_review_doc ref) ''contradiction_present'' = PBool False"
    "fld (demo_review_doc ref) ''evidence_sufficiency'' = PStr ''SUFFICIENT''"
    "fld (demo_review_doc ref) ''entity_confidence_state'' = PStr ''EXPLICIT''"
    "fld (demo_review_doc ref) ''source_policy_concern_state'' = PStr ''NONE''"
    "fld (demo_review_doc ref) ''material_risk_flags'' = PList [PStr ''NONE'']"
    "fld (demo_review_doc ref) ''reason_codes'' = PList [PStr ''REVIEW_COMPLETED'', PStr ''REVIEW_COMPLETED'']"
    "fld (demo_review_doc ref) ''structured_explanation'' = PStr ''clean''"
    "fld (demo_review_doc ref) ''escalation_evidence_refs'' = PList [PStr ref]"
    "fld (demo_review_doc ref) ''semantic_result_id'' = PNone"
    by (simp_all add: demo_review_doc_def)
  with demo_fields demo_hash_sha demo_text demo_flags demo_reasons assms show ?thesis
    by (simp add: make_primary_review_def demo_review_def hash_mapping_def)
qed

lemma demo_policy_made: "\<not> isl (make_policy demo_policy_doc)"
  by code_simp

lemma demo_hash_hex: "hex_digest (\<lambda>d. demo_hash)"
  by (simp add: hex_digest_def, code_simp)

theorem constructed_review_route_witness:
  "\<exists>p. make_policy demo_policy_doc = Inr p
     \<and> (\<exists>d. route_primary_review (\<lambda>d. demo_hash) (demo_review ''news:1'') p = Inr d \<and> es_route d = L0)
     \<and> route_primary_review (\<lambda>d. demo_hash) (demo_review ''_n'') p
         = Inl ''invalid escalation_evidence_refs''"
proof -
  obtain p where p: "make_policy demo_policy_doc = Inr p" using demo_policy_made
    by (cases "make_policy demo_policy_doc") auto
  have refs: "list_all router_identifier (pr_escalation_evidence_refs (demo_review ''news:1''))"
    "\<not> list_all router_identifier (pr_escalation_evidence_refs (demo_review ''_n''))"
    by code_simp+
  show ?thesis
    using p constructed_review_route [OF demo_constructed [OF demo_plain_ref] p demo_hash_hex]
      constructed_review_route [OF demo_constructed [OF demo_odd_ref] p demo_hash_hex] refs
    by auto
qed

end
