(* ===== verification/Decision_Facts.thy ===== *)
theory Decision_Facts
  imports Shadow_Finalizer Escalation_Router_Props
begin

text \<open>
  The chain of decisions hands objects from stage to stage: what a stage makes, the next stage
  validates again.  The locale \<open>decision_stage\<close> is that interface; both hand-overs interpret it.
  The theory also holds what is known of a validated review and of each made object.
\<close>

section \<open>The interface between two stages\<close>

text \<open>
  \<open>make\<close> is the constructor of a stage, \<open>validate\<close> the check of the next one, \<open>ok\<close> the
  well-formedness between them; both hash with \<open>digest\<close>.
\<close>

locale decision_stage =
  fixes make :: "(pv \<Rightarrow> string) \<Rightarrow> 'a \<Rightarrow> (string, 'a) result"
    and validate :: "(pv \<Rightarrow> string) \<Rightarrow> 'a \<Rightarrow> (string, 'a) result"
    and ok :: "(pv \<Rightarrow> string) \<Rightarrow> 'a \<Rightarrow> bool"
  assumes made_ok: "hex_digest digest \<Longrightarrow> make digest r = Inr a \<Longrightarrow> ok digest a"
    and ok_validates: "ok digest a \<Longrightarrow> validate digest a = Inr a"
begin

lemma made_accepted:
  assumes "hex_digest digest" "make digest r = Inr a"
  shows "validate digest a = Inr a"
  by (rule ok_validates [OF made_ok [OF assms]])

lemma validate_repeats:
  assumes "hex_digest digest" "make digest r = Inr a" "validate digest a = Inr b"
  shows "validate digest b = Inr b"
  using made_accepted [OF assms(1,2)] assms(3) by simp

end

section \<open>Normalised lists\<close>

lemma known_texts_iff:
  "known_texts l allowed xs = Inr ys \<longleftrightarrow> list_all (\<lambda>s. s \<in> set allowed) xs \<and> ys = canonical_texts xs"
  by (auto simp: known_texts_def)

lemma known_refs_iff:
  "known_refs l xs = Inr ys \<longleftrightarrow> list_all router_identifier xs \<and> ys = canonical_texts xs"
  by (auto simp: known_refs_def)

lemma list_all_canonical [simp]: "list_all P (canonical_texts xs) = list_all P xs"
  by (simp add: list_all_iff)

lemma canonical_texts_Nil [simp]: "canonical_texts xs = [] \<longleftrightarrow> xs = []"
  by (metis set_canonical_texts set_empty)

lemma length_canonical: "length (canonical_texts xs) = card (set xs)"
  by (simp add: canonical_texts_def length_remdups_card_conv)

lemma set_first_occurrences [simp]: "set (first_occurrences xs) = set xs"
  by (simp add: first_occurrences_def)

lemma require_sequence_subset:
  assumes "require_sequence l allowed v = Inr xs"
  shows "set xs \<subseteq> set allowed"
proof -
  from assms obtain ys where "list_all (is_text_in (\<lambda>s. s \<in> set allowed)) ys"
      "xs = first_occurrences (map the_str ys)"
    by (auto simp: require_sequence_def split: pv.splits if_splits)
  then show ?thesis by (auto simp: list_all_iff dest!: is_text_in_the_str)
qed

section \<open>Validated reviews\<close>

text \<open>The type of a validated review.\<close>

definition opinion_ok :: "opinion \<Rightarrow> bool" where
  "opinion_ok x \<longleftrightarrow> sha256_string (op_event x) \<and> sha256_string (op_result_id x)
   \<and> op_ambiguity x \<in> set ambiguity_states \<and> op_contradiction x \<in> set contradiction_states
   \<and> op_evidence x \<in> set evidence_states \<and> op_entity x \<in> set assessment_states
   \<and> op_source x \<in> set assessment_states \<and> op_risk x \<in> set risk_states
   \<and> list_all router_identifier (op_refs x)"

lemma deepseek_entity_range: "deepseek_entity v = Some e \<Longrightarrow> e \<in> set assessment_states"
  by (auto simp: deepseek_entity_def assessment_states_def split: if_splits)

lemma deepseek_source_range: "deepseek_source v = Some e \<Longrightarrow> e \<in> set assessment_states"
  by (auto simp: deepseek_source_def assessment_states_def split: if_splits)

lemma claude_ambiguity_range: "claude_ambiguity v = Some e \<Longrightarrow> e \<in> set ambiguity_states"
  by (auto simp: claude_ambiguity_def ambiguity_states_def split: if_splits)

lemma claude_entity_range: "claude_entity v = Some e \<Longrightarrow> e \<in> set assessment_states"
  by (auto simp: claude_entity_def assessment_states_def split: if_splits)

lemma validate_deepseek_ok:
  assumes "validate_deepseek r d p = Inr x"
  shows "opinion_ok x" "op_event x = es_event_snapshot_id d" "op_result_id x = es_result_id d"
    "op_event x = pr_event_snapshot_id r" "op_result_id x = pr_semantic_result_id r"
  using assms unfolding validate_deepseek_def inr_convs
  by (auto simp: opinion_ok_def known_refs_iff contradiction_states_def risk_states_def
      dest: deepseek_entity_range deepseek_source_range split: if_splits)

lemma validate_claude_ok:
  assumes "validate_claude c d p = Inr y"
  shows "opinion_ok y" "op_result_id y = cr_semantic_result_id c"
  using assms unfolding validate_claude_def inr_convs
  by (auto simp: opinion_ok_def known_refs_iff dest: claude_entity_range claude_ambiguity_range)

section \<open>Made adjudications\<close>

definition adjudication_ok :: "(pv \<Rightarrow> string) \<Rightarrow> adjudication \<Rightarrow> bool" where
  "adjudication_ok digest a \<longleftrightarrow> ad_policy_version a = adjudication_version
   \<and> ad_result_id a = adjudication_identity digest a \<and> sha256_string (adjudication_identity digest a)
   \<and> ad_outcome a \<in> set adjudication_outcomes \<and> ad_agreement a \<in> set agreement_states
   \<and> (ad_route a = L0 \<longrightarrow> ad_outcome a = ''ACCEPT_DEEPSEEK'' \<and> ad_agreement a = ''SINGLE_REVIEW'')
   \<and> (ad_route a = L0 \<longleftrightarrow> ad_claude_id a = None)
   \<and> sha256_string (ad_event_snapshot_id a)
   \<and> ad_ambiguity a \<in> set ambiguity_states \<and> ad_contradiction a \<in> set contradiction_states
   \<and> ad_evidence a \<in> set evidence_states \<and> ad_entity a \<in> set assessment_states
   \<and> ad_source a \<in> set assessment_states \<and> ad_risk a \<in> set risk_states
   \<and> list_all (\<lambda>s. s \<in> set adjudication_reasons) (ad_reasons a)
   \<and> canonical_texts (ad_reasons a) = ad_reasons a
   \<and> list_all router_identifier (ad_refs a) \<and> canonical_texts (ad_refs a) = ad_refs a"

lemma adjudication_identity_id [simp]:
  "adjudication_identity digest (a\<lparr>ad_result_id := i\<rparr>) = adjudication_identity digest a"
  by (simp add: adjudication_identity_def)

lemma hash_mapping_hex: "hex_digest digest \<Longrightarrow> sha256_string (hash_mapping digest d)"
  by (simp add: hex_digest_def hash_mapping_def)

lemma make_adjudication_ok:
  assumes "hex_digest digest" "make_adjudication digest r = Inr a"
  shows "adjudication_ok digest a"
  using assms(2) hash_mapping_hex [OF assms(1)]
  unfolding make_adjudication_def inr_convs Let_def known_texts_iff known_refs_iff
  apply (elim conjE exE)
  apply (drule sum.inject(2) [THEN iffD1], hypsubst)
  apply (unfold adjudication_ok_def, intro conjI)
  apply (simp_all add: adjudication_identity_def)
  apply (auto simp: adjudication_identity_def)
  done

lemma validate_adjudication_ok:
  "adjudication_ok digest a \<Longrightarrow> validate_adjudication digest a = Inr a"
  unfolding adjudication_ok_def validate_adjudication_def
  by (auto simp: known_texts_def known_refs_def)

interpretation adjudicated: decision_stage make_adjudication validate_adjudication adjudication_ok
  by unfold_locales (fact make_adjudication_ok, fact validate_adjudication_ok)

section \<open>Made risk objects\<close>

definition news_risk_ok :: "(pv \<Rightarrow> string) \<Rightarrow> news_risk \<Rightarrow> bool" where
  "news_risk_ok digest n \<longleftrightarrow> nr_policy_version n = news_risk_version
   \<and> nr_object_id n = news_risk_identity digest n \<and> sha256_string (news_risk_identity digest n)
   \<and> sha256_string (nr_event_snapshot_id n)
   \<and> nr_class n \<in> set risk_classes \<and> recommendation_by_class (nr_class n) = Some (nr_recommendation n)
   \<and> nr_recommendation n \<in> set news_recommendations
   \<and> nr_ambiguity n \<in> set ambiguity_states \<and> nr_contradiction n \<in> set contradiction_states
   \<and> nr_evidence n \<in> set evidence_states \<and> nr_entity n \<in> set assessment_states
   \<and> nr_source n \<in> set assessment_states \<and> nr_risk n \<in> set risk_states
   \<and> list_all (\<lambda>s. s \<in> set risk_reasons) (nr_reasons n) \<and> canonical_texts (nr_reasons n) = nr_reasons n
   \<and> list_all router_identifier (nr_refs n) \<and> canonical_texts (nr_refs n) = nr_refs n
   \<and> nr_refs n \<noteq> []"

lemma news_risk_identity_id [simp]:
  "news_risk_identity digest (n\<lparr>nr_object_id := i\<rparr>) = news_risk_identity digest n"
  by (simp add: news_risk_identity_def)

lemma make_news_risk_ok:
  assumes "hex_digest digest" "make_news_risk digest r = Inr n"
  shows "news_risk_ok digest n"
  using assms(2) hash_mapping_hex [OF assms(1)]
  unfolding make_news_risk_def inr_convs Let_def
  by (auto simp: news_risk_ok_def known_texts_iff known_refs_iff news_risk_identity_def)

lemma validate_news_risk_ok: "news_risk_ok digest n \<Longrightarrow> validate_news_risk digest n = Inr n"
  unfolding news_risk_ok_def validate_news_risk_def
  by (auto simp: known_texts_def known_refs_def)

interpretation assessed: decision_stage make_news_risk validate_news_risk news_risk_ok
  by unfold_locales (fact make_news_risk_ok, fact validate_news_risk_ok)

section \<open>From the verdict to the adjudication\<close>

definition verdict_ok :: "verdict \<Rightarrow> bool" where
  "verdict_ok v \<longleftrightarrow> ve_outcome v \<in> set adjudication_outcomes \<and> ve_agreement v \<in> set agreement_states
   \<and> ve_ambiguity v \<in> set ambiguity_states \<and> ve_contradiction v \<in> set contradiction_states
   \<and> ve_evidence v \<in> set evidence_states \<and> ve_entity v \<in> set assessment_states
   \<and> ve_source v \<in> set assessment_states \<and> ve_risk v \<in> set risk_states"

text \<open>The adjudication carries the verdict, the bindings and the reasons the policy keeps.\<close>

definition carries ::
  "adjudication_policy \<Rightarrow> escalation \<Rightarrow> opinion \<Rightarrow> opinion option \<Rightarrow> string list \<Rightarrow> verdict \<Rightarrow> adjudication \<Rightarrow> bool" where
  "carries p d x y refs v a \<longleftrightarrow>
     ad_route a = es_route d \<and> ad_event_snapshot_id a = op_event x
   \<and> ad_router_decision_id a = es_decision_id d \<and> ad_deepseek_id a = op_result_id x
   \<and> ad_claude_id a = map_option op_result_id y
   \<and> ad_outcome a = ve_outcome v \<and> ad_agreement a = ve_agreement v
   \<and> ad_ambiguity a = ve_ambiguity v \<and> ad_contradiction a = ve_contradiction v
   \<and> ad_evidence a = ve_evidence v \<and> ad_entity a = ve_entity v \<and> ad_source a = ve_source v
   \<and> ad_risk a = ve_risk v
   \<and> set (ad_reasons a) = set (ve_reasons v) \<inter> set (ap_reason_order p)
   \<and> set (ad_refs a) = set refs"

lemma policy_reasons_set:
  "policy_reasons codes p = Inr rs \<Longrightarrow> set rs = set codes \<inter> set (ap_reason_order p)"
  by (auto simp: policy_reasons_def Let_def split: if_splits)

lemma new_adjudication_carries:
  assumes "new_adjudication digest p d x y refs v = Inr a"
  shows "carries p d x y refs v a"
  using assms unfolding new_adjudication_def make_adjudication_def inr_convs Let_def
  by (auto simp: carries_def known_texts_iff known_refs_iff dest: policy_reasons_set)

lemma new_adjudication_made:
  assumes "hex_digest digest" "new_adjudication digest p d x y refs v = Inr a"
  shows "adjudication_ok digest a"
  using assms(2) adjudicated.made_ok [OF assms(1)] unfolding new_adjudication_def inr_convs by auto

lemma outcome_text: "s \<in> set adjudication_outcomes \<Longrightarrow> short_text (''adjudication:'' @ s)"
  by (auto simp: adjudication_outcomes_def short_text_def)

lemma new_adjudication_succeeds:
  assumes "check_decision d = None" "opinion_ok x" "verdict_ok v"
    "policy_reasons (ve_reasons v) p = Inr rs" "set rs \<subseteq> set adjudication_reasons"
    "list_all router_identifier refs" "opt_all opinion_ok y" "es_route d = L0 \<longleftrightarrow> y = None"
    "es_route d = L0 \<longrightarrow> ve_outcome v = ''ACCEPT_DEEPSEEK'' \<and> ve_agreement v = ''SINGLE_REVIEW''"
  shows "\<not> isl (new_adjudication digest p d x y refs v)"
proof -
  have "opt_all sha256_string (map_option op_result_id y)"
    using assms(7) by (cases y) (simp_all add: opinion_ok_def)
  moreover have "sha256_string (es_decision_id d)"
    using assms(1) unfolding check_decision_def none_if by simp
  moreover have "list_all (\<lambda>s. s \<in> set adjudication_reasons) rs"
    using assms(5) by (auto simp: list_all_iff)
  moreover have "short_text ''adjudication:ACCEPT_DEEPSEEK''"
    by (simp add: short_text_def)
  ultimately show ?thesis
    using assms(2,3,6,8,9) outcome_text [of "ve_outcome v"]
    by (simp add: new_adjudication_def assms(4) make_adjudication_def known_texts_def known_refs_def
        opinion_ok_def verdict_ok_def Let_def)
qed

lemma first_of_in: "set ss \<subseteq> A \<Longrightarrow> e \<in> A \<Longrightarrow> first_of ss x y e \<in> A"
  by (induction ss) auto

lemma first_of_hit: "x \<in> set ss \<or> y \<in> set ss \<Longrightarrow> first_of ss x y e \<in> set ss"
  by (induction ss) auto

lemma single_verdict_ok: "opinion_ok x \<Longrightarrow> verdict_ok (single_verdict x)"
  by (simp add: verdict_ok_def opinion_ok_def single_verdict_def adjudication_outcomes_def
      agreement_states_def)

lemma failed_verdict_ok: "opinion_ok x \<Longrightarrow> verdict_ok (failed_verdict x codes)"
  by (simp add: verdict_ok_def opinion_ok_def failed_verdict_def adjudication_outcomes_def
      agreement_states_def ambiguity_states_def contradiction_states_def Let_def)

lemma joint_verdict_sel:
  "ve_outcome (joint_verdict x y) = fst (compare_reviews x y)"
  "ve_agreement (joint_verdict x y) = fst (snd (compare_reviews x y))"
  "ve_reasons (joint_verdict x y) = snd (snd (compare_reviews x y))"
  "ve_ambiguity (joint_verdict x y) =
     first_of [''CRITICAL'', ''MODERATE''] (op_ambiguity x) (op_ambiguity y) ''NONE''"
  "ve_contradiction (joint_verdict x y) =
     first_of [''PRESENT'', ''UNRESOLVED''] (op_contradiction x) (op_contradiction y) ''NONE''"
  "ve_evidence (joint_verdict x y) =
     first_of [''INSUFFICIENT''] (op_evidence x) (op_evidence y) ''SUFFICIENT''"
  "ve_entity (joint_verdict x y) =
     first_of [''CRITICAL'', ''MODERATE''] (op_entity x) (op_entity y) ''ACCEPTABLE''"
  "ve_source (joint_verdict x y) =
     first_of [''CRITICAL'', ''MODERATE''] (op_source x) (op_source y) ''ACCEPTABLE''"
  "ve_risk (joint_verdict x y) = first_of [''MATERIAL_RISK''] (op_risk x) (op_risk y) ''NONE''"
  by (simp_all add: joint_verdict_def case_prod_beta)

lemma joint_verdict_ok: "verdict_ok (joint_verdict x y)"
proof -
  have "fst (compare_reviews x y) \<in> set adjudication_outcomes"
    "fst (snd (compare_reviews x y)) \<in> set agreement_states"
    by (simp_all add: compare_reviews_def Let_def adjudication_outcomes_def agreement_states_def)
  then show ?thesis
    unfolding verdict_ok_def joint_verdict_sel
    by (intro conjI first_of_in)
      (simp_all add: ambiguity_states_def contradiction_states_def evidence_states_def
        assessment_states_def risk_states_def)
qed

lemma pair_verdict_ok: "opinion_ok x \<Longrightarrow> verdict_ok (pair_verdict x y p)"
  by (simp add: pair_verdict_def failed_verdict_ok joint_verdict_ok)

lemma canonical_refs_iff:
  "canonical_refs xs ys m = Inr refs \<longleftrightarrow>
     refs = canonical_texts (xs @ ys) \<and> xs @ ys \<noteq> [] \<and> int (card (set (xs @ ys))) \<le> m"
  by (auto simp: canonical_refs_def Let_def length_canonical)

text \<open>What an adjudication rests on.\<close>

lemma adjudicate_dest:
  assumes "adjudicate_review_results digest r d c p = Inr a"
  obtains (single) x refs where "validate_deepseek r d p = Inr x" "es_route d = L0" "c = None"
      "new_adjudication digest p d x None refs (single_verdict x) = Inr a"
      "check_decision d = None" "canonical_refs (op_refs x) [] (ap_max_refs p) = Inr refs"
  | (pair) x review y refs where "validate_deepseek r d p = Inr x" "es_route d \<noteq> L0"
      "c = Some review" "validate_claude review d p = Inr y"
      "new_adjudication digest p d x (Some y) refs (pair_verdict x y p) = Inr a"
      "check_decision d = None" "canonical_refs (op_refs x) (op_refs y) (ap_max_refs p) = Inr refs"
proof -
  from assms obtain x where x: "validate_deepseek r d p = Inr x"
    unfolding adjudicate_review_results_def inr_convs by auto
  show ?thesis
  proof (cases "es_route d = L0")
    case True
    with assms x have c: "c = None"
      unfolding adjudicate_review_results_def inr_convs by (auto split: option.splits)
    with assms x True show ?thesis
      unfolding adjudicate_review_results_def c inr_convs
      by (auto simp: inr_convs intro: single [OF x True c])
  next
    case False
    with assms x obtain review where review: "c = Some review"
      unfolding adjudicate_review_results_def inr_convs by (auto split: option.splits)
    with assms x False show ?thesis
      unfolding adjudicate_review_results_def review inr_convs
      by (auto simp: inr_convs intro: pair [OF x False review])
  qed
qed

lemma adjudicate_made:
  assumes "hex_digest digest" "adjudicate_review_results digest r d c p = Inr a"
  shows "adjudication_ok digest a"
  using assms(2) by (rule adjudicate_dest) (blast intro: new_adjudication_made [OF assms(1)])+

section \<open>From the adjudication to the risk\<close>

lemma build_ok:
  "adjudication_ok digest a \<Longrightarrow> build_news_risk_object digest a p =
    (if np_max_refs p < int (length (ad_refs a)) then Inl ''too many evidence references''
     else case classify a p of Inl e \<Rightarrow> Inl e | Inr (c, codes) \<Rightarrow> build_result digest p a c codes)"
  by (simp add: build_news_risk_object_def adjudicated.ok_validates)

lemma build_result_dest:
  assumes "build_result digest p a c codes = Inr n"
  shows "nr_class n = c" "recommendation_by_class c = Some (nr_recommendation n)"
    "set (nr_reasons n) = set codes \<inter> set (np_reason_order p)" "set (nr_refs n) = set (ad_refs a)"
  using assms unfolding build_result_def make_news_risk_def inr_convs Let_def
  by (auto simp: known_texts_iff known_refs_iff)

lemma build_result_made:
  assumes "hex_digest digest" "build_result digest p a c codes = Inr n"
  shows "news_risk_ok digest n"
  using assms(2) assessed.made_ok [OF assms(1)] unfolding build_result_def inr_convs Let_def by auto

lemma class_text: "c \<in> set risk_classes \<Longrightarrow> short_text (''news-risk:'' @ c)"
  by (auto simp: risk_classes_def short_text_def)

lemma class_recommendation:
  assumes "c \<in> set risk_classes"
  obtains r where "recommendation_by_class c = Some r" "r \<in> set news_recommendations"
  using assms by (auto simp: risk_classes_def recommendation_by_class_def news_recommendations_def)

lemma build_result_succeeds:
  assumes "adjudication_ok digest a" "ad_refs a \<noteq> []" "c \<in> set risk_classes"
    "filter (\<lambda>code. code \<in> set codes) (np_reason_order p) = rs" "rs \<noteq> []"
    "int (length rs) \<le> np_max_reasons p" "set rs \<subseteq> set risk_reasons"
  shows "\<not> isl (build_result digest p a c codes)"
proof -
  obtain r where r: "recommendation_by_class c = Some r" "r \<in> set news_recommendations"
    using class_recommendation [OF assms(3)] .
  have "list_all (\<lambda>s. s \<in> set risk_reasons) rs"
    using assms(7) by (auto simp: list_all_iff)
  moreover have "short_text adjudication_version"
    by (simp add: short_text_def adjudication_version_def)
  ultimately show ?thesis
    using assms(1-3,5,6) r class_text [OF assms(3)]
    by (simp add: build_result_def assms(4) make_news_risk_def known_texts_def known_refs_def
        adjudication_ok_def Let_def)
qed

section \<open>From the risk to the gate\<close>

lemma gate_ok:
  "news_risk_ok digest n \<Longrightarrow> evaluate_signal_gate digest n p =
    (if gp_max_refs p < int (length (nr_refs n)) then Inl ''too many evidence references''
     else new_gate_decision digest p n (fst (gate_ladder n p)) (snd (gate_ladder n p)))"
  by (simp add: evaluate_signal_gate_def assessed.ok_validates case_prod_beta Let_def)

lemma new_gate_decision_dest:
  assumes "new_gate_decision digest p n state codes = Inr g"
  shows "gd_state g = state" "map_of eligibility_table state = Some (gd_eligibility g)"
    "set (gd_reasons g) = set codes \<inter> set (gp_reason_order p)" "gd_news_risk_id g = nr_object_id n"
    "set (gd_refs g) = set (nr_refs n)" "gd_class g = nr_class n"
    "gd_event_snapshot_id g = nr_event_snapshot_id n"
  using assms unfolding new_gate_decision_def make_gate_decision_def inr_convs Let_def
  by (auto simp: known_refs_iff)

lemma gate_text: "s \<in> set gate_states \<Longrightarrow> short_text (''signal-gate:'' @ s)"
  by (auto simp: gate_states_def short_text_def)

lemma state_eligibility:
  assumes "s \<in> set gate_states"
  obtains e where "map_of eligibility_table s = Some e" "e \<in> set (map snd eligibility_table)"
  using assms by (auto simp: gate_states_def eligibility_table_def)

lemma new_gate_decision_succeeds:
  assumes "news_risk_ok digest n" "state \<in> set gate_states"
    "filter (\<lambda>code. code \<in> set codes) (gp_reason_order p) = rs" "rs \<noteq> []"
    "int (length rs) \<le> gp_max_reasons p" "set rs \<subseteq> set gate_reasons"
  shows "\<not> isl (new_gate_decision digest p n state codes)"
proof -
  obtain e where e: "map_of eligibility_table state = Some e" "e \<in> set (map snd eligibility_table)"
    using state_eligibility [OF assms(2)] .
  have "list_all (\<lambda>s. s \<in> set gate_reasons) rs"
    using assms(6) by (auto simp: list_all_iff)
  moreover have "short_text news_risk_version"
    by (simp add: short_text_def news_risk_version_def)
  ultimately show ?thesis
    using assms(1,2,4,5) e gate_text [OF assms(2)]
    by (simp add: new_gate_decision_def assms(3) make_gate_decision_def known_refs_def news_risk_ok_def Let_def)
qed

end
