(* ===== verification/Decision_Props.thy ===== *)
theory Decision_Props
  imports Decision_Facts
begin

text \<open>
  What the chain of decisions guarantees: the state of the gate against a reference that reads it
  off the reviews, what an open gate means for any policies, and that the ladder of the gate
  agrees with the tables of its policy.
\<close>

section \<open>Levels of the gate\<close>

datatype gate_level = Open_Gate | Caution_Gate | Blocked_Gate | Closed_Gate

fun level_rank :: "gate_level \<Rightarrow> nat" where
  "level_rank Open_Gate = 0"
| "level_rank Caution_Gate = 1"
| "level_rank Blocked_Gate = 2"
| "level_rank Closed_Gate = 3"

lemma level_rank_inj: "level_rank x = level_rank y \<Longrightarrow> x = y"
  by (cases x; cases y) simp_all

instantiation gate_level :: linorder
begin

definition less_eq_gate_level :: "gate_level \<Rightarrow> gate_level \<Rightarrow> bool" where
  "x \<le> y \<longleftrightarrow> level_rank x \<le> level_rank y"

definition less_gate_level :: "gate_level \<Rightarrow> gate_level \<Rightarrow> bool" where
  "x < y \<longleftrightarrow> level_rank x < level_rank y"

instance
  by standard (auto simp: less_eq_gate_level_def less_gate_level_def intro: level_rank_inj)

end

fun gate_str :: "gate_level \<Rightarrow> string" where
  "gate_str Open_Gate = ''OPEN''"
| "gate_str Caution_Gate = ''CAUTION''"
| "gate_str Blocked_Gate = ''BLOCKED''"
| "gate_str Closed_Gate = ''FAIL_CLOSED''"

lemma gate_str_inj: "gate_str x = gate_str y \<longleftrightarrow> x = y"
  by (cases x; cases y) simp_all

text \<open>The level a table of the policy gives to a value.\<close>

definition table_level :: "(string \<times> string) list \<Rightarrow> string \<Rightarrow> gate_level" where
  "table_level table v =
    (case map_of table v of
       None \<Rightarrow> Closed_Gate
     | Some s \<Rightarrow> if s = ''OPEN'' then Open_Gate else if s = ''CAUTION'' then Caution_Gate
         else if s = ''BLOCKED'' then Blocked_Gate else Closed_Gate)"

text \<open>The level of the configured reason codes.\<close>

definition code_level :: "gate_policy \<Rightarrow> string list \<Rightarrow> gate_level" where
  "code_level p codes =
    (if intersects codes (gp_fail_closed p) then Closed_Gate
     else if intersects codes (gp_blocking p) then Blocked_Gate
     else if intersects codes (gp_caution p) then Caution_Gate
     else Open_Gate)"

lemma configured_empty: "configured codes xs = [] \<longleftrightarrow> \<not> intersects codes xs"
  by (auto simp: configured_def intersects_disjoint filter_empty_conv)

lemma max_levels [simp]:
  "max Open_Gate x = x" "max x Open_Gate = x" "max Closed_Gate x = Closed_Gate"
  "max x Closed_Gate = Closed_Gate" "max (x :: gate_level) x = x"
  "max Caution_Gate Blocked_Gate = Blocked_Gate" "max Blocked_Gate Caution_Gate = Blocked_Gate"
  by (cases x; simp add: max_def less_eq_gate_level_def)+

lemma table_levels [simp]:
  "table_level (sort_key fst risk_mapping) ''CLEAR'' = Open_Gate"
  "table_level (sort_key fst risk_mapping) ''CAUTION'' = Caution_Gate"
  "table_level (sort_key fst risk_mapping) ''ELEVATED'' = Blocked_Gate"
  "table_level (sort_key fst risk_mapping) ''BLOCKING'' = Blocked_Gate"
  "table_level (sort_key fst risk_mapping) ''FAIL_CLOSED'' = Closed_Gate"
  "table_level (sort_key fst recommendation_mapping) ''NO_NEWS_RESTRICTION'' = Open_Gate"
  "table_level (sort_key fst recommendation_mapping) ''REQUIRE_CAUTION'' = Caution_Gate"
  "table_level (sort_key fst recommendation_mapping) ''REQUIRE_BLOCK'' = Blocked_Gate"
  "table_level (sort_key fst recommendation_mapping) ''FAIL_CLOSED'' = Closed_Gate"
  by code_simp+

text \<open>The tables of a made policy are the expected ones.\<close>

lemma gate_policy_tables:
  assumes "make_gate_policy v = Inr p"
  shows "gp_risk_to_state p = sort_key fst risk_mapping"
    "gp_recommendation_to_state p = sort_key fst recommendation_mapping"
  using assms unfolding make_gate_policy_def inr_convs require_mapping_def by auto

lemma ladder_level:
  assumes "nr_class n \<in> set risk_classes" "nr_recommendation n \<in> set news_recommendations"
    "gp_risk_to_state p = sort_key fst risk_mapping"
    "gp_recommendation_to_state p = sort_key fst recommendation_mapping"
  shows "fst (gate_ladder n p) = gate_str
    (max (table_level (gp_risk_to_state p) (nr_class n))
      (max (table_level (gp_recommendation_to_state p) (nr_recommendation n)) (code_level p (nr_reasons n))))"
proof -
  have classes: "nr_class n = ''CLEAR'' \<or> nr_class n = ''CAUTION'' \<or> nr_class n = ''ELEVATED''
      \<or> nr_class n = ''BLOCKING'' \<or> nr_class n = ''FAIL_CLOSED''"
    using assms(1) by (simp add: risk_classes_def)
  have recommendation: "nr_recommendation n = ''NO_NEWS_RESTRICTION''
      \<or> nr_recommendation n = ''REQUIRE_CAUTION'' \<or> nr_recommendation n = ''REQUIRE_BLOCK''
      \<or> nr_recommendation n = ''FAIL_CLOSED''"
    using assms(2) by (simp add: news_recommendations_def)
  show ?thesis
    using classes recommendation
    by (elim disjE) (simp_all add: gate_ladder_def Let_def assms(3,4) configured_empty code_level_def)
qed

lemma evaluate_dest:
  assumes "evaluate_signal_gate digest n p = Inr g"
  obtains m where "nr_class m = nr_class n" "nr_recommendation m = nr_recommendation n"
    "set (nr_reasons m) = set (nr_reasons n)" "nr_class n \<in> set risk_classes"
    "nr_recommendation n \<in> set news_recommendations"
    "new_gate_decision digest p m (fst (gate_ladder m p)) (snd (gate_ladder m p)) = Inr g"
proof -
  from assms obtain m where m: "validate_news_risk digest n = Inr m"
    "new_gate_decision digest p m (fst (gate_ladder m p)) (snd (gate_ladder m p)) = Inr g"
    unfolding evaluate_signal_gate_def inr_convs case_prod_beta Let_def by auto
  have "nr_class m = nr_class n \<and> nr_recommendation m = nr_recommendation n
      \<and> set (nr_reasons m) = set (nr_reasons n) \<and> nr_class n \<in> set risk_classes
      \<and> nr_recommendation n \<in> set news_recommendations"
    using m(1) unfolding validate_news_risk_def inr_convs by (auto simp: known_texts_iff)
  with m(2) show ?thesis using that by blast
qed

section \<open>An open gate\<close>

text \<open>A review without a concern.\<close>

definition unconcerned :: "opinion \<Rightarrow> bool" where
  "unconcerned x \<longleftrightarrow> op_risk x = ''NONE'' \<and> op_entity x = ''ACCEPTABLE'' \<and> op_source x = ''ACCEPTABLE''
   \<and> op_evidence x = ''SUFFICIENT''"

lemma unconcernedI:
  assumes "opinion_ok x" "op_risk x \<noteq> ''MATERIAL_RISK''" "op_entity x \<notin> {''MODERATE'', ''CRITICAL''}"
    "op_source x \<notin> {''MODERATE'', ''CRITICAL''}" "op_evidence x \<noteq> ''INSUFFICIENT''"
  shows "unconcerned x"
  using assms
  by (auto simp: unconcerned_def opinion_ok_def risk_states_def assessment_states_def evidence_states_def)

text \<open>What the class CLEAR says of the adjudication.\<close>

definition final_states_clear :: "adjudication \<Rightarrow> bool" where
  "final_states_clear a \<longleftrightarrow> ad_risk a \<noteq> ''MATERIAL_RISK'' \<and> ad_contradiction a \<noteq> ''UNRESOLVED''
   \<and> ad_entity a \<notin> {''MODERATE'', ''CRITICAL''} \<and> ad_source a \<notin> {''MODERATE'', ''CRITICAL''}
   \<and> ad_evidence a \<noteq> ''INSUFFICIENT''"

lemma classify_clear:
  assumes "classify a p = Inr (''CLEAR'', codes)"
  shows "ad_outcome a \<notin> set (np_fail_closed_outcomes p)" "final_states_clear a"
  using assms by (auto simp: classify_def Let_def final_states_clear_def split: if_splits option.splits)

lemma news_policy_fail_closed:
  assumes "make_news_risk_policy v = Inr p"
  shows "np_fail_closed_outcomes p = [''FAIL_CLOSED'']"
  using assms unfolding make_news_risk_policy_def make_news_reasons_def inr_convs by auto

lemma open_ladder_clear:
  assumes "fst (gate_ladder n p) = ''OPEN''" "nr_class n \<in> set risk_classes"
  shows "nr_class n = ''CLEAR''"
  using assms by (auto simp: gate_ladder_def Let_def risk_classes_def split: if_splits)

lemma built_class:
  assumes "build_news_risk_object digest a p = Inr n"
  obtains b codes where "classify b p = Inr (nr_class n, codes)" "ad_outcome b = ad_outcome a"
    "final_states_clear b = final_states_clear a" "recommendation_by_class (nr_class n) = Some (nr_recommendation n)"
proof -
  from assms obtain b c codes where b: "validate_adjudication digest a = Inr b"
      "classify b p = Inr (c, codes)" "build_result digest p b c codes = Inr n"
    unfolding build_news_risk_object_def inr_convs by (auto split: sum.splits if_splits prod.splits)
  have "ad_outcome b = ad_outcome a \<and> final_states_clear b = final_states_clear a"
    using b(1) unfolding validate_adjudication_def inr_convs by (auto simp: final_states_clear_def)
  with b(2) build_result_dest [OF b(3)] show ?thesis using that by simp
qed

lemma joint_states_clear:
  assumes "carries p d x (Some y) refs (joint_verdict x y) a" "final_states_clear a"
    "opinion_ok x" "opinion_ok y"
  shows "unconcerned x" "unconcerned y"
proof -
  have final: "first_of [''MATERIAL_RISK''] (op_risk x) (op_risk y) ''NONE'' \<notin> set [''MATERIAL_RISK'']"
    "first_of [''CRITICAL'', ''MODERATE''] (op_entity x) (op_entity y) ''ACCEPTABLE'' \<notin> set [''CRITICAL'', ''MODERATE'']"
    "first_of [''CRITICAL'', ''MODERATE''] (op_source x) (op_source y) ''ACCEPTABLE'' \<notin> set [''CRITICAL'', ''MODERATE'']"
    "first_of [''INSUFFICIENT''] (op_evidence x) (op_evidence y) ''SUFFICIENT'' \<notin> set [''INSUFFICIENT'']"
    using assms(1,2) unfolding carries_def final_states_clear_def joint_verdict_sel
    by (simp_all del: first_of.simps)
  note absent = final [THEN contrapos_nn, OF first_of_hit]
  show "unconcerned x" using absent by (intro unconcernedI [OF assms(3)]) (auto simp del: first_of.simps)
  show "unconcerned y" using absent by (intro unconcernedI [OF assms(4)]) (auto simp del: first_of.simps)
qed

lemma single_states_clear:
  assumes "carries p d x None refs (single_verdict x) a" "final_states_clear a" "opinion_ok x"
  shows "unconcerned x"
  using assms(1,2) unconcernedI [OF assms(3)]
  by (auto simp: carries_def final_states_clear_def single_verdict_def)

lemma adjudicate_route:
  assumes "adjudicate_review_results digest r d c p = Inr a"
  shows "ad_route a = es_route d" "c = None \<longleftrightarrow> es_route d = L0"
  using assms by (rule adjudicate_dest; auto simp: carries_def dest!: new_adjudication_carries)+

text \<open>A clear adjudication under a policy that fails closed rests on reviews without a concern.\<close>

lemma clear_adjudication:
  assumes "adjudicate_review_results digest r d c p = Inr a" "final_states_clear a"
    "ad_outcome a \<noteq> ''FAIL_CLOSED''"
  obtains (single) x where "c = None" "validate_deepseek r d p = Inr x" "unconcerned x"
  | (pair) x review y where "c = Some review" "validate_deepseek r d p = Inr x"
      "validate_claude review d p = Inr y" "unconcerned x" "unconcerned y" "input_failures x y p = []"
  using assms(1)
proof (cases rule: adjudicate_dest)
  case (single x refs)
  with single_states_clear [OF new_adjudication_carries [OF single(4)] assms(2) validate_deepseek_ok(1)]
    that(1) show ?thesis by blast
next
  case (pair x review y refs)
  note carried = new_adjudication_carries [OF pair(5)]
  have none: "input_failures x y p = []"
    using carried assms(3) by (auto simp: carries_def pair_verdict_def failed_verdict_def Let_def split: if_splits)
  with carried have "carries p d x (Some y) refs (joint_verdict x y) a"
    by (simp add: pair_verdict_def)
  from joint_states_clear [OF this assms(2) validate_deepseek_ok(1) [OF pair(1)]
      validate_claude_ok(1) [OF pair(4)]] pair none that(2) show ?thesis by blast
qed

section \<open>A blocking outcome that clears\<close>

text \<open>C39. A policy may give an outcome the class BLOCKING, but the class is lost: an adjudication with
  such an outcome and without any other concern is made into a risk object of class CLEAR that
  recommends no restriction.\<close>

theorem blocking_outcome_cleared:
  assumes "build_news_risk_object digest a p = Inr n" "final_states_clear a"
    "map_of (np_outcomes p) (ad_outcome a) = Some ''BLOCKING''"
    "ad_outcome a \<notin> set (np_fail_closed_outcomes p)" "\<not> intersects (ad_reasons a) (np_blocking p)"
  shows "nr_class n = ''CLEAR'' \<and> nr_recommendation n = ''NO_NEWS_RESTRICTION''"
proof -
  from assms(1) obtain b c codes where b: "validate_adjudication digest a = Inr b"
      "classify b p = Inr (c, codes)" "build_result digest p b c codes = Inr n"
    unfolding build_news_risk_object_def inr_convs by (auto split: sum.splits if_splits prod.splits)
  have same: "ad_outcome b = ad_outcome a" "final_states_clear b" "set (ad_reasons b) = set (ad_reasons a)"
    using b(1) assms(2) unfolding validate_adjudication_def inr_convs
    by (auto simp: final_states_clear_def known_texts_iff)
  then have "filter (\<lambda>code. code \<in> set (np_blocking p)) (ad_reasons b) = []"
    using assms(5) by (auto simp: intersects_disjoint filter_empty_conv)
  with b(2) same assms(3,4) have "c = ''CLEAR''"
    unfolding classify_def by (simp add: final_states_clear_def outcome_class_def)
  with build_result_dest(1,2) [OF b(3)] show ?thesis by (simp add: recommendation_by_class_def)
qed

definition demo_blocking_doc :: pv where
  "demo_blocking_doc = PDict (AList.update ''outcome_to_risk_classification''
     (PDict (AList.update ''CONSENSUS_CONFIRMED'' (PStr ''BLOCKING'')
       (items (fld finalizer_news_doc ''outcome_to_risk_classification''))))
     (items finalizer_news_doc))"

definition demo_blocking_policy :: news_risk_policy where
  "demo_blocking_policy = projr (make_news_risk_policy demo_blocking_doc)"

lemma demo_blocking_made: "make_news_risk_policy demo_blocking_doc = Inr demo_blocking_policy"
proof -
  have "\<not> isl (make_news_risk_policy demo_blocking_doc)" by code_simp
  then show ?thesis unfolding demo_blocking_policy_def by simp
qed

definition demo_confirmed :: adjudication where
  "demo_confirmed = \<lparr>ad_policy_version = adjudication_version, ad_event_snapshot_id = demo_hash,
     ad_route = L1, ad_router_decision_id = demo_hash, ad_deepseek_id = demo_hash,
     ad_claude_id = Some demo_hash, ad_outcome = ''CONSENSUS_CONFIRMED'', ad_agreement = ''AGREEMENT'',
     ad_ambiguity = ''NONE'', ad_contradiction = ''NONE'', ad_evidence = ''SUFFICIENT'',
     ad_entity = ''ACCEPTABLE'', ad_source = ''ACCEPTABLE'', ad_risk = ''NONE'',
     ad_reasons = [''PROVIDERS_AGREE''], ad_refs = [''news:1''], ad_explanation = ''e'',
     ad_result_id = demo_hash\<rparr>"

theorem blocking_outcome_cleared_witness:
  "\<exists>n. make_news_risk_policy demo_blocking_doc = Inr demo_blocking_policy
     \<and> build_news_risk_object (\<lambda>d. demo_hash) demo_confirmed demo_blocking_policy = Inr n
     \<and> nr_class n = ''CLEAR'' \<and> nr_recommendation n = ''NO_NEWS_RESTRICTION''"
proof -
  have "sha256_string demo_hash" "router_identifier ''news:1''" by code_simp+
  then have ok: "adjudication_ok (\<lambda>d. demo_hash) demo_confirmed"
    by (simp add: adjudication_ok_def demo_confirmed_def adjudication_identity_def hash_mapping_def
        adjudication_outcomes_def agreement_states_def ambiguity_states_def contradiction_states_def
        evidence_states_def assessment_states_def risk_states_def adjudication_reasons_def canonical_texts_const)
  have clear: "final_states_clear demo_confirmed" "\<not> intersects (ad_reasons demo_confirmed) (np_blocking demo_blocking_policy)"
    "map_of (np_outcomes demo_blocking_policy) (ad_outcome demo_confirmed) = Some ''BLOCKING''"
    "ad_outcome demo_confirmed \<notin> set (np_fail_closed_outcomes demo_blocking_policy)"
    by code_simp+
  have bound: "int (length (ad_refs demo_confirmed)) \<le> np_max_refs demo_blocking_policy" by code_simp
  have classed: "classify demo_confirmed demo_blocking_policy = Inr (outcome_class ''BLOCKING'')"
    by code_simp
  have "\<exists>n. build_result (\<lambda>d. demo_hash) demo_blocking_policy demo_confirmed ''CLEAR''
      (snd (outcome_class ''BLOCKING'')) = Inr n"
  proof -
    have "\<not> isl (build_result (\<lambda>d. demo_hash) demo_blocking_policy demo_confirmed ''CLEAR''
        (snd (outcome_class ''BLOCKING'')))"
      by (rule build_result_succeeds [OF ok _ _ refl]; code_simp)
    then show ?thesis by (cases "build_result (\<lambda>d. demo_hash) demo_blocking_policy demo_confirmed ''CLEAR''
        (snd (outcome_class ''BLOCKING''))") auto
  qed
  then obtain n where "build_news_risk_object (\<lambda>d. demo_hash) demo_confirmed demo_blocking_policy = Inr n"
    using build_ok [OF ok, of demo_blocking_policy] classed bound by (auto simp: outcome_class_def)
  from blocking_outcome_cleared [OF this clear(1,3,4,2)] this demo_blocking_made show ?thesis by blast
qed

end
