(* ===== verification/Finalizer_Props.thy ===== *)
theory Finalizer_Props
  imports Decision_Props
begin

text \<open>
  The chain of decisions under the policies the finalizer fixes: it always answers, and the state
  of the gate is the one a reference reads off the two reviews.
\<close>

section \<open>The fixed policies\<close>

definition fixed_adjudication :: adjudication_policy where
  "fixed_adjudication = \<lparr>
     ap_agreement_values = canonical_texts agreement_states,
     ap_contradiction_values = canonical_texts contradiction_states,
     ap_evidence_precedence = canonical_texts evidence_states,
     ap_entity_precedence = canonical_texts assessment_states,
     ap_source_precedence = canonical_texts assessment_states,
     ap_risk_precedence = canonical_texts risk_states,
     ap_critical_rules = [''CRITICAL_UNRESOLVED_DISAGREEMENT''],
     ap_fail_closed = canonical_texts adjudication_fail_codes,
     ap_reason_order = [''MATERIAL_RISK_DISAGREEMENT'', ''CONTRADICTION_DISAGREEMENT'',
       ''ENTITY_DISAGREEMENT'', ''SOURCE_DISAGREEMENT'', ''EVIDENCE_DISAGREEMENT'', ''PROVIDERS_AGREE'',
       ''MATERIAL_FACTS_ALIGNED'', ''RISK_ASSESSMENTS_ALIGNED'', ''MINOR_EVIDENCE_DIFFERENCE'',
       ''MODERATE_ENTITY_DIFFERENCE'', ''MODERATE_SOURCE_DIFFERENCE'', ''CRITICAL_UNRESOLVED_DISAGREEMENT''],
     ap_max_reasons = 12, ap_max_refs = 16\<rparr>"

lemma fixed_adjudication_made: "make_adjudication_policy finalizer_adjudication_doc = Inr fixed_adjudication"
  by code_simp

text \<open>What the proofs need of the two other policies.\<close>

definition fixed_outcomes :: "(string \<times> string) list" where
  "fixed_outcomes = [(''ACCEPT_CLAUDE'', ''CLEAR''), (''ACCEPT_DEEPSEEK'', ''CLEAR''),
     (''CONSENSUS_CONFIRMED'', ''CLEAR''), (''CONSENSUS_WITH_QUALIFICATION'', ''CAUTION''),
     (''FAIL_CLOSED'', ''FAIL_CLOSED''), (''INSUFFICIENT_EVIDENCE'', ''CAUTION''),
     (''MATERIAL_DISAGREEMENT'', ''ELEVATED'')]"

definition fixed_blocking :: "string list" where
  "fixed_blocking = [''CRITICAL_MATERIAL_RISK'', ''CRITICAL_CONTRADICTION'', ''CRITICAL_ENTITY_CONCERN'',
     ''CRITICAL_SOURCE_CONCERN'', ''BLOCKING_ADJUDICATION_REASON'', ''MATERIAL_RISK_DISAGREEMENT'',
     ''CONTRADICTION_DISAGREEMENT'', ''ENTITY_DISAGREEMENT'', ''SOURCE_DISAGREEMENT'',
     ''CRITICAL_UNRESOLVED_DISAGREEMENT'']"

definition news_policy_view :: "news_risk_policy \<Rightarrow> bool" where
  "news_policy_view p = (np_outcomes p = fixed_outcomes \<and> np_fail_closed_outcomes p = [''FAIL_CLOSED'']
     \<and> np_blocking p = fixed_blocking
     \<and> length (np_reason_order p) = 20 \<and> np_max_reasons p = 20 \<and> np_max_refs p = 16)"

definition gate_policy_view :: "gate_policy \<Rightarrow> bool" where
  "gate_policy_view p = (
     gp_blocking p = [''CRITICAL_MATERIAL_RISK'', ''CRITICAL_CONTRADICTION'', ''CRITICAL_ENTITY_CONCERN'',
        ''CRITICAL_SOURCE_CONCERN'']
     \<and> gp_caution p = [''INSUFFICIENT_EVIDENCE'', ''EVIDENCE_LIMITED'', ''MODERATE_ENTITY_CONCERN'',
        ''MODERATE_SOURCE_CONCERN'', ''QUALIFIED_ADJUDICATION'']
     \<and> gp_fail_closed p = [''FAIL_CLOSED_ADJUDICATION'', ''UNSUPPORTED_POLICY'', ''FORGED_IDENTITY'',
        ''INVALID_ADJUDICATION'']
     \<and> length (gp_reason_order p) = 19 \<and> gp_max_reasons p = 19 \<and> gp_max_refs p = 16)"

lemma fixed_news_view: "case make_news_risk_policy finalizer_news_doc of Inl e \<Rightarrow> False | Inr p \<Rightarrow> news_policy_view p"
  by code_simp

lemma fixed_gate_view: "case make_gate_policy finalizer_gate_doc of Inl e \<Rightarrow> False | Inr p \<Rightarrow> gate_policy_view p"
  by code_simp

lemma finalizer_made: "\<not> isl make_finalizer"
  using fixed_news_view fixed_gate_view
  by (auto simp: make_finalizer_def fixed_adjudication_made split: sum.splits)

lemma finalizer_views:
  assumes "make_finalizer = Inr f"
  shows "fz_adjudication f = fixed_adjudication" "news_policy_view (fz_news_risk f)"
    "gate_policy_view (fz_gate f)" "make_news_risk_policy finalizer_news_doc = Inr (fz_news_risk f)"
    "make_gate_policy finalizer_gate_doc = Inr (fz_gate f)"
  using assms fixed_news_view fixed_gate_view
  unfolding make_finalizer_def fixed_adjudication_made inr_convs by auto

section \<open>Every reason is found\<close>

lemma news_reason_order:
  assumes "make_news_risk_policy v = Inr p"
  shows "set (np_reason_order p) = set risk_reasons"
proof -
  from assms obtain order where order: "np_reason_order p = order"
      "require_sequence ''deterministic_reason_order'' risk_reasons (fld v ''deterministic_reason_order'') = Inr order"
      "list_all (\<lambda>code. code \<in> set order) risk_reasons"
    unfolding make_news_risk_policy_def make_news_reasons_def inr_convs by auto
  from require_sequence_subset [OF order(2)] order(1,3) show ?thesis
    by (auto simp: list_all_iff)
qed

lemma require_sequences_subsets:
  "require_sequences ps v = Inr xss \<Longrightarrow> list_all2 (\<lambda>p xs. set xs \<subseteq> set (snd p)) ps xss"
proof (induction ps arbitrary: xss)
  case Nil
  then show ?case by simp
next
  case (Cons p ps)
  obtain label allowed where p: "p = (label, allowed)" by (cases p)
  from Cons.prems obtain xs yss where "require_sequence label allowed (fld v label) = Inr xs"
      "require_sequences ps v = Inr yss" "xss = xs # yss"
    by (auto simp: p split: sum.splits)
  with Cons.IH require_sequence_subset show ?case by (simp add: p)
qed

lemma gate_reason_order:
  assumes "make_gate_policy v = Inr p"
  shows "set (gp_reason_order p) = set gate_reasons"
proof -
  from assms obtain ls where ls: "require_sequences gate_code_lists v = Inr ls"
      "gp_reason_order p = ls ! 3" "list_all (\<lambda>code. code \<in> set (ls ! 3)) gate_reasons"
    unfolding make_gate_policy_def inr_convs by auto
  have "set (ls ! 3) \<subseteq> set (snd (gate_code_lists ! 3))"
    using list_all2_nthD [OF require_sequences_subsets [OF ls(1)], of 3] by (simp add: gate_code_lists_def)
  with ls(2,3) show ?thesis by (auto simp: list_all_iff gate_code_lists_def)
qed

text \<open>The pairs of class and reasons that \<open>classify\<close> can return.\<close>

definition class_reasons :: "(string \<times> string list) list" where
  "class_reasons = [
     (''FAIL_CLOSED'', [''FAIL_CLOSED_ADJUDICATION'']),
     (''BLOCKING'', [''CRITICAL_MATERIAL_RISK'']), (''BLOCKING'', [''CRITICAL_CONTRADICTION'']),
     (''BLOCKING'', [''CRITICAL_ENTITY_CONCERN'']), (''BLOCKING'', [''CRITICAL_SOURCE_CONCERN'']),
     (''BLOCKING'', [''BLOCKING_ADJUDICATION_REASON'']),
     (''ELEVATED'', [''MATERIAL_RISK_PRESENT'']), (''ELEVATED'', [''UNRESOLVED_CONTRADICTION'']),
     (''ELEVATED'', [''MATERIAL_DISAGREEMENT'']),
     (''CAUTION'', [''MODERATE_ENTITY_CONCERN'']), (''CAUTION'', [''MODERATE_SOURCE_CONCERN'']),
     (''CAUTION'', [''INSUFFICIENT_EVIDENCE'']), (''CAUTION'', [''QUALIFIED_ADJUDICATION'']),
     (''CLEAR'', [''ADJUDICATION_CONFIRMED'', ''NO_MATERIAL_NEWS_RISK'', ''EVIDENCE_SUFFICIENT''])]"

lemma classify_range: "classify a p = Inr (c, codes) \<Longrightarrow> (c, codes) \<in> set class_reasons"
  by (auto simp: classify_def outcome_class_def class_reasons_def Let_def split: if_splits option.splits)

lemma class_reasons_known:
  "(c, codes) \<in> set class_reasons \<Longrightarrow>
     c \<in> set risk_classes \<and> codes \<noteq> [] \<and> set codes \<subseteq> set risk_reasons"
proof -
  have "list_all (\<lambda>(c, codes). c \<in> set risk_classes \<and> codes \<noteq> []
      \<and> list_all (\<lambda>s. s \<in> set risk_reasons) codes) class_reasons"
    by code_simp
  then show "(c, codes) \<in> set class_reasons \<Longrightarrow> ?thesis"
    by (force simp: list_all_iff)
qed

lemma ladder_reason: "\<exists>code \<in> set (snd (gate_ladder n p)). code \<in> set gate_reasons"
  by (auto simp: gate_ladder_def Let_def gate_reasons_def)

lemma ladder_state: "fst (gate_ladder n p) \<in> set gate_states"
  by (auto simp: gate_ladder_def Let_def gate_states_def)

section \<open>From an adjudication to the gate\<close>

definition class_level :: "string \<Rightarrow> gate_level" where
  "class_level c = table_level (sort_key fst risk_mapping) c"

definition fixed_gate_codes :: gate_policy where
  "fixed_gate_codes = \<lparr>gp_risk_to_state = [], gp_recommendation_to_state = [],
     gp_blocking = [''CRITICAL_MATERIAL_RISK'', ''CRITICAL_CONTRADICTION'', ''CRITICAL_ENTITY_CONCERN'',
       ''CRITICAL_SOURCE_CONCERN''],
     gp_caution = [''INSUFFICIENT_EVIDENCE'', ''EVIDENCE_LIMITED'', ''MODERATE_ENTITY_CONCERN'',
       ''MODERATE_SOURCE_CONCERN'', ''QUALIFIED_ADJUDICATION''],
     gp_fail_closed = [''FAIL_CLOSED_ADJUDICATION'', ''UNSUPPORTED_POLICY'', ''FORGED_IDENTITY'',
       ''INVALID_ADJUDICATION''],
     gp_reason_order = [], gp_max_reasons = 0, gp_max_refs = 0\<rparr>"

definition dominated :: "string \<times> string list \<Rightarrow> bool" where
  "dominated = (\<lambda>(c, codes). case recommendation_by_class c of
       None \<Rightarrow> False
     | Some r \<Rightarrow> max (table_level (sort_key fst risk_mapping) c)
         (max (table_level (sort_key fst recommendation_mapping) r) (code_level fixed_gate_codes codes))
       = class_level c)"

lemma all_dominated: "list_all dominated class_reasons"
  by code_simp

lemma class_level_dominates:
  assumes "(c, codes) \<in> set class_reasons" "gate_policy_view p" "recommendation_by_class c = Some r"
  shows "max (table_level (sort_key fst risk_mapping) c)
      (max (table_level (sort_key fst recommendation_mapping) r) (code_level p codes)) = class_level c"
proof -
  have "dominated (c, codes)" using all_dominated assms(1) by (simp add: list_all_iff)
  moreover have "code_level p codes = code_level fixed_gate_codes codes"
    using assms(2) by (simp add: code_level_def gate_policy_view_def fixed_gate_codes_def)
  ultimately show ?thesis by (simp add: dominated_def assms(3))
qed

lemma code_level_cong: "set xs = set ys \<Longrightarrow> code_level p xs = code_level p ys"
  by (simp add: code_level_def intersects_disjoint)

lemma inr_obtain: "\<not> isl x \<Longrightarrow> \<exists>y. x = Inr y"
  by (cases x) auto

lemma refs_bound:
  assumes "adjudication_ok digest a" "set (nr_refs n) = set (ad_refs a)" "news_risk_ok digest n"
  shows "length (nr_refs n) = length (ad_refs a)"
  using assms by (metis adjudication_ok_def length_canonical news_risk_ok_def)

lemma adjudication_to_gate:
  assumes "make_finalizer = Inr f" "hex_digest digest" "adjudication_ok digest a" "ad_refs a \<noteq> []"
    "length (ad_refs a) \<le> 16" "classify a (fz_news_risk f) = Inr (c, codes)"
  obtains n g where "build_news_risk_object digest a (fz_news_risk f) = Inr n"
    "evaluate_signal_gate digest n (fz_gate f) = Inr g" "gd_state g = gate_str (class_level c)"
proof -
  let ?p = "fz_news_risk f" and ?q = "fz_gate f"
  note views = finalizer_views [OF assms(1)]
  note order = news_reason_order [OF views(4)] gate_reason_order [OF views(5)]
  note range = classify_range [OF assms(6)]
  note known = class_reasons_known [OF range]
  let ?rs = "filter (\<lambda>code. code \<in> set codes) (np_reason_order ?p)"
  from known have "set codes \<inter> set risk_reasons \<noteq> {}" by (cases codes) auto
  then have "?rs \<noteq> []" using order(1) by (auto simp: filter_empty_conv)
  moreover have "length ?rs \<le> 20"
    using views(2) length_filter_le [of "\<lambda>code. code \<in> set codes" "np_reason_order ?p"]
    by (simp add: news_policy_view_def)
  ultimately obtain n where n: "build_result digest ?p a c codes = Inr n"
    using inr_obtain [OF build_result_succeeds [OF assms(3,4) conjunct1 [OF known] refl, where p = ?p]] views(2) order(1)
    by (auto simp: news_policy_view_def)
  with build_ok [OF assms(3), of ?p] assms(5,6) views(2)
  have built: "build_news_risk_object digest a ?p = Inr n" by (simp add: news_policy_view_def)
  note ok = build_result_made [OF assms(2) n]
  note made = build_result_dest [OF n]
  let ?gs = "filter (\<lambda>code. code \<in> set (snd (gate_ladder n ?q))) (gp_reason_order ?q)"
  have gs: "?gs \<noteq> []" "int (length ?gs) \<le> gp_max_reasons ?q" "set ?gs \<subseteq> set gate_reasons"
    using ladder_reason [of n ?q] order(2) views(3)
      length_filter_le [of "\<lambda>code. code \<in> set (snd (gate_ladder n ?q))" "gp_reason_order ?q"]
    by (auto simp: filter_empty_conv gate_policy_view_def)
  obtain g where g:
    "new_gate_decision digest ?q n (fst (gate_ladder n ?q)) (snd (gate_ladder n ?q)) = Inr g"
    using inr_obtain [OF new_gate_decision_succeeds [OF ok ladder_state refl gs]] by auto
  have "length (nr_refs n) \<le> 16" using refs_bound [OF assms(3) made(4) ok] assms(5) by simp
  with gate_ok [OF ok, of ?q] g views(3)
  have gated: "evaluate_signal_gate digest n ?q = Inr g" by (simp add: gate_policy_view_def)
  have "set (nr_reasons n) = set codes" using made(3) order(1) known by auto
  note level = code_level_cong [OF this, of ?q]
  have "gd_state g = gate_str (class_level c)"
    using ladder_level [of n ?q] gate_policy_tables [OF views(5)] ok made(1,2) level
      new_gate_decision_dest(1) [OF g] class_level_dominates [OF range views(3) made(2)]
    by (simp add: news_risk_ok_def)
  with built gated show ?thesis using that by blast
qed

section \<open>The class of a verdict\<close>

text \<open>The state of the gate, read off two reviews.\<close>

definition reviewed_level :: "opinion \<Rightarrow> opinion \<Rightarrow> gate_level" where
  "reviewed_level x y =
    (if op_risk x \<noteq> op_risk y \<or> op_risk x = ''MATERIAL_RISK''
       \<or> op_contradiction x \<noteq> op_contradiction y \<or> op_contradiction x = ''UNRESOLVED''
       \<or> ''CRITICAL'' \<in> {op_entity x, op_entity y, op_source x, op_source y} then Blocked_Gate
     else if ''MODERATE'' \<in> {op_entity x, op_entity y, op_source x, op_source y}
       \<or> ''INSUFFICIENT'' \<in> {op_evidence x, op_evidence y} then Caution_Gate
     else Open_Gate)"

lemma class_levels:
  "class_level ''CLEAR'' = Open_Gate" "class_level ''CAUTION'' = Caution_Gate"
  "class_level ''ELEVATED'' = Blocked_Gate" "class_level ''BLOCKING'' = Blocked_Gate"
  "class_level ''FAIL_CLOSED'' = Closed_Gate"
  by (simp_all add: class_level_def)

text \<open>The class an adjudication gets under the fixed policy, as a level.\<close>

definition final_level :: "adjudication \<Rightarrow> gate_level" where
  "final_level a =
    (if ad_entity a = ''CRITICAL'' \<or> ad_source a = ''CRITICAL'' \<or> ad_risk a = ''MATERIAL_RISK''
       \<or> ad_contradiction a = ''UNRESOLVED'' then Blocked_Gate
     else if ad_entity a = ''MODERATE'' \<or> ad_source a = ''MODERATE'' \<or> ad_evidence a = ''INSUFFICIENT''
     then Caution_Gate
     else class_level (fst (outcome_class (the (map_of fixed_outcomes (ad_outcome a))))))"

lemma classify_closed:
  assumes "news_policy_view p" "ad_outcome a = ''FAIL_CLOSED''"
  shows "classify a p = Inr (''FAIL_CLOSED'', [''FAIL_CLOSED_ADJUDICATION''])"
  using assms by (simp add: classify_def news_policy_view_def)

lemma classify_blocking:
  assumes "news_policy_view p" "ad_outcome a \<noteq> ''FAIL_CLOSED''" "intersects (ad_reasons a) fixed_blocking"
  shows "\<exists>codes. classify a p = Inr (''BLOCKING'', codes)"
proof -
  have "filter (\<lambda>code. code \<in> set (np_blocking p)) (ad_reasons a) \<noteq> []"
    using assms(1,3) by (auto simp: news_policy_view_def intersects_disjoint filter_empty_conv)
  then show ?thesis
    using assms(1,2) by (simp add: classify_def news_policy_view_def Let_def)
qed

lemma classify_quiet:
  assumes "news_policy_view p" "ad_outcome a \<noteq> ''FAIL_CLOSED''" "\<not> intersects (ad_reasons a) fixed_blocking"
    "map_of fixed_outcomes (ad_outcome a) = Some oc"
  shows "\<exists>c codes. classify a p = Inr (c, codes) \<and> class_level c = final_level a"
proof -
  have empty: "filter (\<lambda>code. code \<in> set (np_blocking p)) (ad_reasons a) = []"
    using assms(1,3) by (auto simp: news_policy_view_def intersects_disjoint filter_empty_conv)
  have oc: "the (map_of fixed_outcomes (ad_outcome a)) = oc"
    using assms(4) by simp
  have "classify a p = Inr (if ad_entity a = ''CRITICAL'' then (''BLOCKING'', [''CRITICAL_ENTITY_CONCERN''])
      else if ad_source a = ''CRITICAL'' then (''BLOCKING'', [''CRITICAL_SOURCE_CONCERN''])
      else if ad_risk a = ''MATERIAL_RISK'' then (''ELEVATED'', [''MATERIAL_RISK_PRESENT''])
      else if ad_contradiction a = ''UNRESOLVED'' then (''ELEVATED'', [''UNRESOLVED_CONTRADICTION''])
      else if ad_entity a = ''MODERATE'' then (''CAUTION'', [''MODERATE_ENTITY_CONCERN''])
      else if ad_source a = ''MODERATE'' then (''CAUTION'', [''MODERATE_SOURCE_CONCERN''])
      else if ad_evidence a = ''INSUFFICIENT'' then (''CAUTION'', [''INSUFFICIENT_EVIDENCE''])
      else outcome_class oc)"
    using assms(1,2,4) unfolding classify_def empty Let_def by (simp add: news_policy_view_def)
  then show ?thesis
    by (cases "outcome_class oc") (simp add: final_level_def oc class_levels)
qed

section \<open>Two reviews\<close>

definition disagree :: "opinion \<Rightarrow> opinion \<Rightarrow> bool" where
  "disagree x y \<longleftrightarrow> op_risk x \<noteq> op_risk y \<or> op_contradiction x \<noteq> op_contradiction y
     \<or> critical_state (op_entity x) (op_entity y) ''CRITICAL'' \<or> critical_state (op_source x) (op_source y) ''CRITICAL''"

lemma compare_disagree:
  assumes "disagree x y"
  shows "fst (compare_reviews x y) = ''MATERIAL_DISAGREEMENT''"
    "\<exists>code \<in> set (snd (snd (compare_reviews x y))). code \<in> set fixed_blocking \<inter> set (ap_reason_order fixed_adjudication)"
  using assms unfolding compare_reviews_def Let_def disagree_def
  by (cases "op_risk x = op_risk y"; cases "op_contradiction x = op_contradiction y";
      cases "critical_state (op_entity x) (op_entity y) ''CRITICAL''";
      simp add: fixed_blocking_def fixed_adjudication_def)+

definition quiet_reasons :: "string list" where
  "quiet_reasons = [''PROVIDERS_AGREE'', ''MINOR_EVIDENCE_DIFFERENCE'', ''MODERATE_ENTITY_DIFFERENCE'',
     ''MODERATE_SOURCE_DIFFERENCE'', ''MATERIAL_FACTS_ALIGNED'', ''RISK_ASSESSMENTS_ALIGNED'']"

lemma compare_agree:
  assumes "\<not> disagree x y"
  shows "fst (compare_reviews x y) =
      (if op_evidence x = ''INSUFFICIENT'' \<and> op_evidence y = ''INSUFFICIENT'' then ''INSUFFICIENT_EVIDENCE''
       else if op_evidence x \<noteq> op_evidence y \<or> op_entity x \<noteq> op_entity y \<or> op_source x \<noteq> op_source y
       then ''CONSENSUS_WITH_QUALIFICATION'' else ''CONSENSUS_CONFIRMED'')"
    "set (snd (snd (compare_reviews x y))) \<subseteq> set quiet_reasons"
    "snd (snd (compare_reviews x y)) \<noteq> []"
proof -
  let ?q = "(if op_evidence x \<noteq> op_evidence y then [''MINOR_EVIDENCE_DIFFERENCE''] else [])
     @ (if op_entity x \<noteq> op_entity y then [''MODERATE_ENTITY_DIFFERENCE''] else [])
     @ (if op_source x \<noteq> op_source y then [''MODERATE_SOURCE_DIFFERENCE''] else [])"
  have "op_risk x = op_risk y" "op_contradiction x = op_contradiction y"
    "\<not> critical_state (op_entity x) (op_entity y) ''CRITICAL''"
    "\<not> critical_state (op_source x) (op_source y) ''CRITICAL''"
    using assms by (simp_all add: disagree_def)
  then have eq: "compare_reviews x y =
      (if op_evidence x = op_evidence y \<and> op_evidence y = ''INSUFFICIENT'' then
         (''INSUFFICIENT_EVIDENCE'', ''AGREEMENT'', [''PROVIDERS_AGREE''])
       else if ?q \<noteq> [] then (''CONSENSUS_WITH_QUALIFICATION'', ''QUALIFIED_AGREEMENT'', ?q)
       else (''CONSENSUS_CONFIRMED'', ''AGREEMENT'',
         [''PROVIDERS_AGREE'', ''MATERIAL_FACTS_ALIGNED'', ''RISK_ASSESSMENTS_ALIGNED'']))"
    unfolding compare_reviews_def Let_def by (simp only: if_False if_True simp_thms refl)
  show "fst (compare_reviews x y) =
      (if op_evidence x = ''INSUFFICIENT'' \<and> op_evidence y = ''INSUFFICIENT'' then ''INSUFFICIENT_EVIDENCE''
       else if op_evidence x \<noteq> op_evidence y \<or> op_entity x \<noteq> op_entity y \<or> op_source x \<noteq> op_source y
       then ''CONSENSUS_WITH_QUALIFICATION'' else ''CONSENSUS_CONFIRMED'')"
    unfolding eq by auto
  show "snd (snd (compare_reviews x y)) \<noteq> []" unfolding eq by simp
  show "set (snd (snd (compare_reviews x y))) \<subseteq> set quiet_reasons"
    unfolding eq by (simp add: quiet_reasons_def)
qed

lemma quiet_not_blocking: "set quiet_reasons \<inter> set fixed_blocking = {}"
  "set quiet_reasons \<subseteq> set (ap_reason_order fixed_adjudication)"
  by (simp_all add: quiet_reasons_def fixed_blocking_def fixed_adjudication_def)

lemma first_of_two:
  assumes "p \<noteq> q" "e \<noteq> p" "e \<noteq> q"
  shows "first_of [p, q] x y e = p \<longleftrightarrow> x = p \<or> y = p"
    "first_of [p, q] x y e = q \<longleftrightarrow> \<not> (x = p \<or> y = p) \<and> (x = q \<or> y = q)"
  using assms by auto

lemma first_of_one: "e \<noteq> p \<Longrightarrow> first_of [p] x y e = p \<longleftrightarrow> x = p \<or> y = p"
  by auto

lemma members:
  "s \<in> {a, b, c, d} \<longleftrightarrow> a = s \<or> b = s \<or> c = s \<or> d = s" "s \<in> {a, b} \<longleftrightarrow> a = s \<or> b = s"
  by auto

lemma disagree_blocks: "disagree x y \<Longrightarrow> reviewed_level x y = Blocked_Gate"
  by (auto simp: disagree_def reviewed_level_def critical_state_def)

lemma agree_outcome_class:
  assumes "\<not> disagree x y" "unconcerned x" "unconcerned y"
  shows "fst (compare_reviews x y) = ''CONSENSUS_CONFIRMED''"
  using assms(2,3) by (simp add: compare_agree(1) [OF assms(1)] unconcerned_def)

lemma final_level_joint:
  assumes "carries p d x z refs (joint_verdict x y) a" "\<not> disagree x y" "opinion_ok x" "opinion_ok y"
  shows "final_level a = reviewed_level x y"
proof -
  have same: "op_risk y = op_risk x" "op_contradiction y = op_contradiction x"
    using assms(2) by (simp_all add: disagree_def)
  have states: "ad_entity a = ''CRITICAL'' \<longleftrightarrow> op_entity x = ''CRITICAL'' \<or> op_entity y = ''CRITICAL''"
    "ad_source a = ''CRITICAL'' \<longleftrightarrow> op_source x = ''CRITICAL'' \<or> op_source y = ''CRITICAL''"
    "ad_risk a = ''MATERIAL_RISK'' \<longleftrightarrow> op_risk x = ''MATERIAL_RISK''"
    "ad_contradiction a = ''UNRESOLVED'' \<longleftrightarrow> op_contradiction x = ''UNRESOLVED''"
    "ad_evidence a = ''INSUFFICIENT'' \<longleftrightarrow> op_evidence x = ''INSUFFICIENT'' \<or> op_evidence y = ''INSUFFICIENT''"
    and moderate: "ad_entity a = ''MODERATE'' \<longleftrightarrow> \<not> (op_entity x = ''CRITICAL'' \<or> op_entity y = ''CRITICAL'')
        \<and> (op_entity x = ''MODERATE'' \<or> op_entity y = ''MODERATE'')"
    "ad_source a = ''MODERATE'' \<longleftrightarrow> \<not> (op_source x = ''CRITICAL'' \<or> op_source y = ''CRITICAL'')
        \<and> (op_source x = ''MODERATE'' \<or> op_source y = ''MODERATE'')"
    and outcome: "ad_outcome a = fst (compare_reviews x y)"
    using assms(1)
    by (simp_all add: carries_def joint_verdict_sel first_of_two first_of_one same del: first_of.simps) auto
  let ?blocked = "op_risk x = ''MATERIAL_RISK'' \<or> op_contradiction x = ''UNRESOLVED''
      \<or> ''CRITICAL'' \<in> {op_entity x, op_entity y, op_source x, op_source y}"
  let ?caution = "''MODERATE'' \<in> {op_entity x, op_entity y, op_source x, op_source y}
      \<or> ''INSUFFICIENT'' \<in> {op_evidence x, op_evidence y}"
  have blocked: "?blocked \<longleftrightarrow> ad_entity a = ''CRITICAL'' \<or> ad_source a = ''CRITICAL''
      \<or> ad_risk a = ''MATERIAL_RISK'' \<or> ad_contradiction a = ''UNRESOLVED''"
    unfolding states members by blast
  have caution: "?caution \<longleftrightarrow> ad_entity a = ''MODERATE'' \<or> ad_source a = ''MODERATE''
      \<or> ad_evidence a = ''INSUFFICIENT''" if "\<not> ?blocked"
    using that unfolding states(5) moderate members by blast
  have level: "reviewed_level x y =
      (if ?blocked then Blocked_Gate else if ?caution then Caution_Gate else Open_Gate)"
    unfolding reviewed_level_def same by (simp only: simp_thms)
  have clear: "class_level (fst (outcome_class (the (map_of fixed_outcomes (ad_outcome a))))) = Open_Gate"
    if "\<not> ?blocked" "\<not> ?caution"
  proof -
    have "unconcerned x" "unconcerned y"
      using that unconcernedI [OF assms(3)] unconcernedI [OF assms(4)] same by auto
    from agree_outcome_class [OF assms(2) this] outcome
    have "ad_outcome a = ''CONSENSUS_CONFIRMED''" by simp
    then show ?thesis by (simp add: fixed_outcomes_def outcome_class_def class_levels)
  qed
  show ?thesis
    unfolding final_level_def level blocked [symmetric]
    by (cases ?blocked; cases ?caution)
      (simp_all only: caution [symmetric] clear if_True if_False not_False_eq_True)
qed

lemma classify_joint:
  assumes "news_policy_view q" "carries fixed_adjudication d x z refs (joint_verdict x y) a"
    "opinion_ok x" "opinion_ok y"
  shows "\<exists>c codes. classify a q = Inr (c, codes) \<and> class_level c = reviewed_level x y"
proof -
  have outcome: "ad_outcome a = fst (compare_reviews x y)"
    and reasons: "set (ad_reasons a) = set (snd (snd (compare_reviews x y))) \<inter> set (ap_reason_order fixed_adjudication)"
    using assms(2) by (simp_all add: carries_def joint_verdict_sel)
  show ?thesis
  proof (cases "disagree x y")
    case True
    have "intersects (ad_reasons a) fixed_blocking" "ad_outcome a \<noteq> ''FAIL_CLOSED''"
      using compare_disagree [OF True] outcome reasons by (auto simp: intersects_disjoint)
    from classify_blocking [OF assms(1) this(2,1)] disagree_blocks [OF True] show ?thesis
      by (auto simp: class_levels)
  next
    case False
    have "set (ad_reasons a) \<subseteq> set quiet_reasons"
      using compare_agree(2) [OF False] reasons by auto
    with quiet_not_blocking(1) have "\<not> intersects (ad_reasons a) fixed_blocking"
      by (auto simp: intersects_disjoint)
    moreover have "ad_outcome a \<noteq> ''FAIL_CLOSED''" "\<exists>oc. map_of fixed_outcomes (ad_outcome a) = Some oc"
      unfolding outcome compare_agree(1) [OF False] by (auto simp: fixed_outcomes_def)
    ultimately show ?thesis
      using classify_quiet [OF assms(1)] final_level_joint [OF assms(2) False assms(3,4)] by metis
  qed
qed

section \<open>The whole chain\<close>

lemma fixed_policy_reasons:
  "policy_reasons codes fixed_adjudication =
    (if set codes \<inter> set (ap_reason_order fixed_adjudication) = {} then Inl ''missing reason codes''
     else Inr (filter (\<lambda>code. code \<in> set codes) (ap_reason_order fixed_adjudication)))"
proof -
  have "length (filter (\<lambda>code. code \<in> set codes) (ap_reason_order fixed_adjudication)) \<le> 12"
    using length_filter_le [of "\<lambda>code. code \<in> set codes" "ap_reason_order fixed_adjudication"]
    by (simp add: fixed_adjudication_def)
  moreover have "ap_max_reasons fixed_adjudication = 12"
    by (simp add: fixed_adjudication_def)
  ultimately show ?thesis
    by (auto simp: policy_reasons_def Let_def filter_empty_conv)
qed

lemma fixed_order_known: "set (ap_reason_order fixed_adjudication) \<subseteq> set adjudication_reasons"
  by (simp add: fixed_adjudication_def adjudication_reasons_def adjudication_fail_codes_def)

lemma fixed_max_refs: "ap_max_refs fixed_adjudication = 16"
  by (simp add: fixed_adjudication_def)

text \<open>A verdict with a reason of the policy and a known class reaches the gate.\<close>

lemma verdict_to_gate:
  assumes "make_finalizer = Inr f" "hex_digest digest"
    and d: "check_decision d = None" "es_route d = L0 \<longleftrightarrow> y = None"
    and ok: "opinion_ok x" "opt_all opinion_ok y" "verdict_ok v"
      "es_route d = L0 \<longrightarrow> ve_outcome v = ''ACCEPT_DEEPSEEK'' \<and> ve_agreement v = ''SINGLE_REVIEW''"
    and reasons: "set (ve_reasons v) \<inter> set (ap_reason_order fixed_adjudication) \<noteq> {}"
    and refs: "list_all router_identifier refs" "refs \<noteq> []" "card (set refs) \<le> 16"
    and level: "\<And>a. carries fixed_adjudication d x y refs v a \<Longrightarrow>
      \<exists>c codes. classify a (fz_news_risk f) = Inr (c, codes) \<and> class_level c = l"
  obtains a n g where "new_adjudication digest fixed_adjudication d x y refs v = Inr a"
    "carries fixed_adjudication d x y refs v a" "build_news_risk_object digest a (fz_news_risk f) = Inr n"
    "evaluate_signal_gate digest n (fz_gate f) = Inr g" "gd_state g = gate_str l"
proof -
  let ?rs = "filter (\<lambda>code. code \<in> set (ve_reasons v)) (ap_reason_order fixed_adjudication)"
  have rs: "policy_reasons (ve_reasons v) fixed_adjudication = Inr ?rs"
    using reasons by (simp add: fixed_policy_reasons)
  have known: "set ?rs \<subseteq> set adjudication_reasons" using fixed_order_known by auto
  obtain a where a: "new_adjudication digest fixed_adjudication d x y refs v = Inr a"
    using inr_obtain [OF new_adjudication_succeeds [OF d(1) ok(1,3) rs known refs(1) ok(2) d(2) ok(4)]] by blast
  note carried = new_adjudication_carries [OF a] and made = new_adjudication_made [OF assms(2) a]
  have "set (ad_refs a) = set refs" using carried by (simp add: carries_def)
  then have "ad_refs a \<noteq> []" "length (ad_refs a) \<le> 16"
    using refs(2,3) made length_canonical [of "ad_refs a"] by (auto simp: adjudication_ok_def)
  moreover obtain c codes where "classify a (fz_news_risk f) = Inr (c, codes)" "class_level c = l"
    using level [OF carried] by blast
  ultimately show ?thesis
    using adjudication_to_gate [OF assms(1,2) made, of c codes] that [OF a carried] by metis
qed

lemma finalize_binds:
  assumes "adjudicate_review_results digest r d (if route = L0 then None else c) (fz_adjudication f) = Inr a"
    "carries p d x y refs v a" "route = es_route d" "op_event x = pr_event_snapshot_id r"
    "op_result_id x = pr_semantic_result_id r"
    "map_option op_result_id y = map_option cr_semantic_result_id (if route = L0 then None else c)"
    "build_news_risk_object digest a (fz_news_risk f) = Inr n" "evaluate_signal_gate digest n (fz_gate f) = Inr g"
  shows "finalize_reviews digest f route (pr_event_snapshot_id r) r d c = Inr (a, n, g)"
proof -
  have bound: "ad_route a = route" "ad_event_snapshot_id a = pr_event_snapshot_id r"
    "ad_router_decision_id a = es_decision_id d" "ad_deepseek_id a = pr_semantic_result_id r"
    "ad_claude_id a = map_option cr_semantic_result_id (if route = L0 then None else c)"
    using assms(2-6) by (simp_all add: carries_def)
  show ?thesis
    unfolding finalize_reviews_def Let_def assms(1)
    by (simp add: bound assms(7,8) split del: if_split)
qed

lemma joint_reasons_kept:
  "set (snd (snd (compare_reviews x y))) \<inter> set (ap_reason_order fixed_adjudication) \<noteq> {}"
proof (cases "disagree x y")
  case True
  from compare_disagree(2) [OF True] show ?thesis by auto
next
  case False
  from compare_agree(2,3) [OF False] quiet_not_blocking(2) show ?thesis
    by (cases "snd (snd (compare_reviews x y))") auto
qed

lemma failed_reasons_kept:
  "set (filter (\<lambda>code. code \<in> set (ap_fail_closed fixed_adjudication)) xs) \<inter> set (ap_reason_order fixed_adjudication) = {}
   \<longleftrightarrow> ''CRITICAL_UNRESOLVED_DISAGREEMENT'' \<notin> set xs"
proof -
  have "filter (\<lambda>code. code \<in> set (ap_fail_closed fixed_adjudication)) (ap_reason_order fixed_adjudication)
      = [''CRITICAL_UNRESOLVED_DISAGREEMENT'']"
    by code_simp
  then have inter: "set (ap_fail_closed fixed_adjudication) \<inter> set (ap_reason_order fixed_adjudication)
      = {''CRITICAL_UNRESOLVED_DISAGREEMENT''}"
    by (simp only: inter_set_filter list.set)
  have "set (filter (\<lambda>code. code \<in> set (ap_fail_closed fixed_adjudication)) xs) \<inter> set (ap_reason_order fixed_adjudication)
      = set xs \<inter> {''CRITICAL_UNRESOLVED_DISAGREEMENT''}"
    unfolding inter [symmetric] by auto
  then show ?thesis by simp
qed

lemma canonical_refs_facts:
  assumes "canonical_refs xs ys 16 = Inr refs" "list_all router_identifier xs" "list_all router_identifier ys"
  shows "list_all router_identifier refs" "refs \<noteq> []" "card (set refs) \<le> 16"
  using assms by (auto simp: canonical_refs_iff)

text \<open>One review.\<close>

lemma final_level_single:
  assumes "carries fixed_adjudication d x z refs (single_verdict x) a"
  shows "final_level a = reviewed_level x x"
proof -
  have "class_level (fst (outcome_class (the (map_of fixed_outcomes (ad_outcome a))))) = Open_Gate"
    using assms by (simp add: carries_def single_verdict_def fixed_outcomes_def outcome_class_def class_levels)
  moreover have "ad_entity a = op_entity x" "ad_source a = op_source x" "ad_risk a = op_risk x"
    "ad_contradiction a = op_contradiction x" "ad_evidence a = op_evidence x"
    using assms by (simp_all add: carries_def single_verdict_def)
  ultimately show ?thesis
    unfolding final_level_def reviewed_level_def members by (simp only: simp_thms disj_ac)
qed

lemma classify_single:
  assumes "news_policy_view q" "carries fixed_adjudication d x z refs (single_verdict x) a"
  shows "\<exists>c codes. classify a q = Inr (c, codes) \<and> class_level c = reviewed_level x x"
proof -
  have "ad_outcome a = ''ACCEPT_DEEPSEEK''" "set (ad_reasons a) \<subseteq> set quiet_reasons"
    using assms(2) by (auto simp: carries_def single_verdict_def quiet_reasons_def)
  moreover from this(2) quiet_not_blocking(1) have "\<not> intersects (ad_reasons a) fixed_blocking"
    by (auto simp: intersects_disjoint)
  ultimately show ?thesis
    using classify_quiet [OF assms(1), of a "''CLEAR''"] final_level_single [OF assms(2)]
    by (simp add: fixed_outcomes_def)
qed

lemma routine_chain:
  assumes f: "make_finalizer = Inr f" and hex: "hex_digest digest" and d: "check_decision d = None" "es_route d = L0"
    and x: "validate_deepseek r d (fz_adjudication f) = Inr x"
    and refs: "canonical_refs (op_refs x) [] 16 = Inr refs"
  shows "\<exists>a n g. finalize_reviews digest f L0 (pr_event_snapshot_id r) r d c = Inr (a, n, g)
    \<and> ad_outcome a = ''ACCEPT_DEEPSEEK'' \<and> gd_state g = gate_str (reviewed_level x x)"
proof -
  note views = finalizer_views [OF f]
  note ok = validate_deepseek_ok [OF x]
  have ids: "list_all router_identifier (op_refs x)" "list_all router_identifier []"
    using ok(1) by (simp_all add: opinion_ok_def)
  have kept: "set (ve_reasons (single_verdict x)) \<inter> set (ap_reason_order fixed_adjudication) \<noteq> {}"
    by (simp add: single_verdict_def fixed_adjudication_def)
  have route: "es_route d = L0 \<longleftrightarrow> (None :: opinion option) = None"
    "es_route d = L0 \<longrightarrow> ve_outcome (single_verdict x) = ''ACCEPT_DEEPSEEK''
      \<and> ve_agreement (single_verdict x) = ''SINGLE_REVIEW''" "opt_all opinion_ok None"
    using d(2) by (simp_all add: single_verdict_def)
  obtain a n g where chain: "new_adjudication digest fixed_adjudication d x None refs (single_verdict x) = Inr a"
      "carries fixed_adjudication d x None refs (single_verdict x) a"
      "build_news_risk_object digest a (fz_news_risk f) = Inr n"
      "evaluate_signal_gate digest n (fz_gate f) = Inr g" "gd_state g = gate_str (reviewed_level x x)"
    by (rule verdict_to_gate [OF f hex d(1) route(1) ok(1) route(3) single_verdict_ok [OF ok(1)] route(2) kept
        canonical_refs_facts [OF refs ids] classify_single [OF views(2)]])
  have "adjudicate_review_results digest r d None (fz_adjudication f) = Inr a"
    using chain(1) x refs d unfolding adjudicate_review_results_def views(1) fixed_max_refs by simp
  then have "finalize_reviews digest f L0 (pr_event_snapshot_id r) r d c = Inr (a, n, g)"
    using chain(2-4) ok(4,5) d(2) by (intro finalize_binds [where x = x and y = None]) simp_all
  then show ?thesis using chain(2,5) by (auto simp: carries_def single_verdict_def)
qed

text \<open>Two reviews.\<close>

definition pair_level :: "opinion \<Rightarrow> opinion \<Rightarrow> gate_level" where
  "pair_level x y = (if input_failures x y fixed_adjudication = [] then reviewed_level x y else Closed_Gate)"

lemma classify_pair:
  assumes "news_policy_view q" "carries fixed_adjudication d x z refs (pair_verdict x y fixed_adjudication) a"
    "opinion_ok x" "opinion_ok y"
  shows "\<exists>c codes. classify a q = Inr (c, codes) \<and> class_level c = pair_level x y"
proof (cases "input_failures x y fixed_adjudication = []")
  case True
  with assms(2) have "carries fixed_adjudication d x z refs (joint_verdict x y) a"
    by (simp add: pair_verdict_def)
  from classify_joint [OF assms(1) this assms(3,4)] True show ?thesis by (simp add: pair_level_def)
next
  case False
  with assms(2) have "ad_outcome a = ''FAIL_CLOSED''"
    by (simp add: pair_verdict_def carries_def failed_verdict_def Let_def)
  with classify_closed [OF assms(1)] False show ?thesis by (simp add: pair_level_def class_levels)
qed

lemma pair_reasons_kept:
  "set (ve_reasons (pair_verdict x y fixed_adjudication)) \<inter> set (ap_reason_order fixed_adjudication) = {}
   \<longleftrightarrow> input_failures x y fixed_adjudication \<noteq> []
     \<and> ''CRITICAL_UNRESOLVED_DISAGREEMENT'' \<notin> set (op_reasons x @ op_reasons y)"
proof (cases "input_failures x y fixed_adjudication = []")
  case True
  with joint_reasons_kept show ?thesis by (simp add: pair_verdict_def joint_verdict_sel)
next
  case False
  then have "ve_reasons (pair_verdict x y fixed_adjudication) = input_failures x y fixed_adjudication"
    by (simp add: pair_verdict_def failed_verdict_def Let_def)
  with False failed_reasons_kept [of "op_reasons x @ op_reasons y"] show ?thesis
    by (simp only: input_failures_def simp_thms)
qed

lemma escalated_chain:
  assumes f: "make_finalizer = Inr f" and hex: "hex_digest digest" and d: "check_decision d = None" "es_route d \<noteq> L0"
    and x: "validate_deepseek r d (fz_adjudication f) = Inr x" and y: "validate_claude c d (fz_adjudication f) = Inr y"
    and refs: "canonical_refs (op_refs x) (op_refs y) 16 = Inr refs"
  shows "if input_failures x y fixed_adjudication \<noteq> []
        \<and> ''CRITICAL_UNRESOLVED_DISAGREEMENT'' \<notin> set (op_reasons x @ op_reasons y)
    then finalize_reviews digest f (es_route d) (pr_event_snapshot_id r) r d (Some c) = Inl ''missing reason codes''
    else \<exists>a n g. finalize_reviews digest f (es_route d) (pr_event_snapshot_id r) r d (Some c) = Inr (a, n, g)
      \<and> gd_state g = gate_str (pair_level x y)"
proof -
  note views = finalizer_views [OF f]
  note ok = validate_deepseek_ok [OF x] and ok' = validate_claude_ok [OF y]
  let ?v = "pair_verdict x y fixed_adjudication"
  have adj: "adjudicate_review_results digest r d (Some c) (fz_adjudication f) =
      new_adjudication digest fixed_adjudication d x (Some y) refs ?v"
    using x y refs d unfolding adjudicate_review_results_def views(1) fixed_max_refs by simp
  show ?thesis
  proof (cases "set (ve_reasons ?v) \<inter> set (ap_reason_order fixed_adjudication) = {}")
    case True
    then have "new_adjudication digest fixed_adjudication d x (Some y) refs ?v = Inl ''missing reason codes''"
      by (simp add: new_adjudication_def fixed_policy_reasons)
    with adj d(2) True pair_reasons_kept show ?thesis by (simp add: finalize_reviews_def)
  next
    case False
    have ids: "list_all router_identifier (op_refs x)" "list_all router_identifier (op_refs y)"
      using ok(1) ok'(1) by (simp_all add: opinion_ok_def)
    have route: "es_route d = L0 \<longleftrightarrow> Some y = None" "opt_all opinion_ok (Some y)"
      "es_route d = L0 \<longrightarrow> ve_outcome ?v = ''ACCEPT_DEEPSEEK'' \<and> ve_agreement ?v = ''SINGLE_REVIEW''"
      using d(2) ok'(1) by simp_all
    obtain a n g where chain: "new_adjudication digest fixed_adjudication d x (Some y) refs ?v = Inr a"
        "carries fixed_adjudication d x (Some y) refs ?v a"
        "build_news_risk_object digest a (fz_news_risk f) = Inr n"
        "evaluate_signal_gate digest n (fz_gate f) = Inr g" "gd_state g = gate_str (pair_level x y)"
      by (rule verdict_to_gate [OF f hex d(1) route(1) ok(1) route(2) pair_verdict_ok [OF ok(1)] route(3) False
          canonical_refs_facts [OF refs ids] classify_pair [OF views(2) _ ok(1) ok'(1)]])
    have "finalize_reviews digest f (es_route d) (pr_event_snapshot_id r) r d (Some c) = Inr (a, n, g)"
      using chain(1-4) ok(4,5) ok'(2) d(2) adj by (intro finalize_binds [where x = x and y = "Some y"]) simp_all
    with chain(5) False pair_reasons_kept show ?thesis by auto
  qed
qed

section \<open>Constructed reviews\<close>

lemma clean_opinion:
  assumes "clean_review digest r" "validate_deepseek r d p = Inr x"
  shows "unconcerned x" "op_contradiction x = ''NONE''" "op_reasons x = [''REVIEW_COMPLETED'']"
proof -
  have texts: "canonical_texts [''NONE''] = [''NONE'']" "canonical_texts [''REVIEW_COMPLETED''] = [''REVIEW_COMPLETED'']"
    by (simp_all add: canonical_texts_const)
  show "unconcerned x" "op_contradiction x = ''NONE''" "op_reasons x = [''REVIEW_COMPLETED'']"
    using assms unfolding validate_deepseek_def inr_convs
    by (auto simp: clean_review_def unconcerned_def deepseek_entity_def deepseek_source_def
        known_texts_iff input_reason_codes_def texts)
qed

lemma made_claude_opinion:
  assumes "make_claude_review digest v = Inr c" "validate_claude c d p = Inr y"
  shows "unconcerned y" "op_contradiction y = ''NONE''" "set (op_reasons y) \<subseteq> {''CLAUDE_REVIEW_COMPLETED''}"
proof -
  obtain label where "require_texts label [''CLAUDE_REVIEW_COMPLETED''] (fld v ''reason_codes'') = Inr (cr_reason_codes c)"
    using assms(1) unfolding make_claude_review_def inr_convs Let_def by auto
  from require_texts_subset [OF this]
  have codes: "set (cr_reason_codes c) \<subseteq> {''CLAUDE_REVIEW_COMPLETED''}" by simp
  have c: "cr_contradiction_resolution c = ''NONE''" "cr_evidence_assessment c = ''SUFFICIENT''"
    "cr_entity_assessment c = ''CONFIRMED''" "cr_source_assessment c = ''ACCEPTABLE''"
    "cr_material_risk_assessment c = ''NONE''"
    using assms(1) unfolding make_claude_review_def inr_convs Let_def by auto
  show "unconcerned y" "op_contradiction y = ''NONE''" "set (op_reasons y) \<subseteq> {''CLAUDE_REVIEW_COMPLETED''}"
    using assms(2) c codes unfolding validate_claude_def inr_convs
    by (auto simp: unconcerned_def claude_entity_def known_texts_iff input_reason_codes_def)
qed

lemma quiet_pair_open:
  assumes "unconcerned x" "unconcerned y" "op_contradiction x = ''NONE''" "op_contradiction y = ''NONE''"
  shows "reviewed_level x y = Open_Gate"
  using assms by (simp add: reviewed_level_def unconcerned_def)

lemma completed_no_failure:
  assumes "op_reasons x = [''REVIEW_COMPLETED'']" "set (op_reasons y) \<subseteq> {''CLAUDE_REVIEW_COMPLETED''}"
  shows "input_failures x y fixed_adjudication = []"
proof -
  have "''REVIEW_COMPLETED'' \<notin> set (ap_fail_closed fixed_adjudication)"
    "''CLAUDE_REVIEW_COMPLETED'' \<notin> set (ap_fail_closed fixed_adjudication)"
    by code_simp+
  with assms show ?thesis by (auto simp: input_failures_def filter_empty_conv)
qed

section \<open>Example inputs\<close>

definition demo_escalation :: "route \<Rightarrow> escalation" where
  "demo_escalation r = \<lparr>es_event_snapshot_id = demo_hash, es_result_id = demo_hash,
     es_payload_sha256 = demo_hash, es_route = r, es_review_required = (r \<noteq> L0),
     es_model = (if r = L0 then None else Some ''m1''), es_reasons = [], es_evidence_refs = [''news:1''],
     es_decision_id = demo_hash\<rparr>"

definition demo_claude :: "string \<Rightarrow> string list \<Rightarrow> claude_review" where
  "demo_claude entity reasons = \<lparr>cr_policy_version = claude_policy_version,
     cr_event_snapshot_id = demo_hash, cr_request_payload_sha256 = demo_hash,
     cr_router_decision_id = demo_hash, cr_logical_review_id = demo_hash, cr_route = ''L1'',
     cr_model_policy_id = ''m1'', cr_review_status = ''COMPLETED'',
     cr_review_conclusion = ''ESCALATED_REVIEW_COMPLETE'', cr_ambiguity_resolution = ''RESOLVED'',
     cr_contradiction_resolution = ''NONE'', cr_evidence_assessment = ''SUFFICIENT'',
     cr_entity_assessment = entity, cr_source_assessment = ''ACCEPTABLE'',
     cr_material_risk_assessment = ''NONE'', cr_agreement_state = ''AGREES'', cr_reason_codes = reasons,
     cr_structured_explanation = ''clean'', cr_evidence_refs = [''news:1''],
     cr_semantic_result_id = demo_hash\<rparr>"

definition demo_opinion :: "string \<Rightarrow> string list \<Rightarrow> opinion" where
  "demo_opinion entity reasons = \<lparr>op_event = demo_hash, op_result_id = demo_hash, op_ambiguity = ''NONE'',
     op_contradiction = ''NONE'', op_evidence = ''SUFFICIENT'', op_entity = entity, op_source = ''ACCEPTABLE'',
     op_risk = ''NONE'', op_reasons = reasons, op_refs = [''news:1'']\<rparr>"

lemma demo_checked: "check_decision (demo_escalation L0) = None" "check_decision (demo_escalation L1) = None"
  by code_simp+

lemma demo_deepseek:
  "validate_deepseek (demo_review ''news:1'') (demo_escalation L0) fixed_adjudication
     = Inr (demo_opinion ''ACCEPTABLE'' [''REVIEW_COMPLETED''])"
  "validate_deepseek (demo_review ''news:1'') (demo_escalation L1) fixed_adjudication
     = Inr (demo_opinion ''ACCEPTABLE'' [''REVIEW_COMPLETED''])"
  by code_simp+

lemma demo_claude_moderate:
  "validate_claude (demo_claude ''MODERATE'' [''CLAUDE_REVIEW_COMPLETED'']) (demo_escalation L1) fixed_adjudication
     = Inr (demo_opinion ''MODERATE'' [''CLAUDE_REVIEW_COMPLETED''])"
  by code_simp

lemma demo_claude_confirmed:
  "validate_claude (demo_claude ''CONFIRMED'' [''CLAUDE_REVIEW_COMPLETED'']) (demo_escalation L1) fixed_adjudication
     = Inr (demo_opinion ''ACCEPTABLE'' [''CLAUDE_REVIEW_COMPLETED''])"
  by code_simp

text \<open>A review with seventeen references.\<close>

definition many_refs :: "string list" where
  "many_refs = map (\<lambda>c. ''news:'' @ [c]) ''abcdefghijklmnopq''"

lemma demo_claude_many:
  "validate_claude ((demo_claude ''CONFIRMED'' [''CLAUDE_REVIEW_COMPLETED''])\<lparr>cr_evidence_refs := many_refs\<rparr>)
     (demo_escalation L1) fixed_adjudication
     = Inr ((demo_opinion ''ACCEPTABLE'' [''CLAUDE_REVIEW_COMPLETED''])\<lparr>op_refs := many_refs\<rparr>)"
  by code_simp

lemma demo_claude_invalid:
  "validate_claude (demo_claude ''MODERATE'' [''INVALID_INPUT'']) (demo_escalation L1) fixed_adjudication
     = Inr (demo_opinion ''MODERATE'' [''INVALID_INPUT''])"
  by code_simp

lemma demo_refs:
  "canonical_refs (op_refs (demo_opinion e rs)) (op_refs (demo_opinion e' rs')) 16 = Inr [''news:1'']"
  "canonical_refs (op_refs (demo_opinion e rs)) [] 16 = Inr [''news:1'']"
  by (simp_all add: canonical_refs_iff demo_opinion_def canonical_texts_const)

lemma demo_failures:
  "input_failures (demo_opinion e [''REVIEW_COMPLETED'']) (demo_opinion e' [''CLAUDE_REVIEW_COMPLETED'']) fixed_adjudication = []"
  "input_failures (demo_opinion e [''REVIEW_COMPLETED'']) (demo_opinion e' [''INVALID_INPUT'']) fixed_adjudication = [''INVALID_INPUT'']"
proof -
  have "list_all (\<lambda>(code, b). (code \<in> set (ap_fail_closed fixed_adjudication)) = b)
      [(''REVIEW_COMPLETED'', False), (''CLAUDE_REVIEW_COMPLETED'', False), (''INVALID_INPUT'', True)]"
    by code_simp
  then show "input_failures (demo_opinion e [''REVIEW_COMPLETED'']) (demo_opinion e' [''CLAUDE_REVIEW_COMPLETED'']) fixed_adjudication = []"
    "input_failures (demo_opinion e [''REVIEW_COMPLETED'']) (demo_opinion e' [''INVALID_INPUT'']) fixed_adjudication = [''INVALID_INPUT'']"
    by (simp_all add: input_failures_def demo_opinion_def)
qed

lemma demo_chain:
  obtains f a n g where "make_finalizer = Inr f"
    "finalize_reviews (\<lambda>d. demo_hash) f L0 demo_hash (demo_review ''news:1'') (demo_escalation L0) None = Inr (a, n, g)"
    "evaluate_signal_gate (\<lambda>d. demo_hash) n (fz_gate f) = Inr g" "gd_state g = ''OPEN''"
proof -
  obtain f where f: "make_finalizer = Inr f" using inr_obtain [OF finalizer_made] by blast
  have "es_route (demo_escalation L0) = L0" by (simp add: demo_escalation_def)
  moreover have "pr_event_snapshot_id (demo_review ''news:1'') = demo_hash" by (simp add: demo_review_def)
  moreover have "reviewed_level (demo_opinion ''ACCEPTABLE'' rs) (demo_opinion ''ACCEPTABLE'' rs) = Open_Gate" for rs
    by (simp add: reviewed_level_def demo_opinion_def)
  ultimately obtain a n g where chain: "finalize_reviews (\<lambda>d. demo_hash) f L0 demo_hash (demo_review ''news:1'')
      (demo_escalation L0) None = Inr (a, n, g)" "gd_state g = ''OPEN''"
    using routine_chain [OF f demo_hash_hex demo_checked(1) _ _ demo_refs(2), of "demo_review ''news:1''"]
      demo_deepseek(1) finalizer_views(1) [OF f] by fastforce
  then have "evaluate_signal_gate (\<lambda>d. demo_hash) n (fz_gate f) = Inr g"
    unfolding finalize_reviews_def Let_def inr_convs by auto
  with f chain show ?thesis using that by blast
qed

lemma demo_pair_open:
  assumes f: "make_finalizer = Inr f"
  obtains a n g where "finalize_reviews (\<lambda>d. demo_hash) f L1 demo_hash (demo_review ''news:1'') (demo_escalation L1)
      (Some (demo_claude ''CONFIRMED'' [''CLAUDE_REVIEW_COMPLETED''])) = Inr (a, n, g)" "gd_state g = ''OPEN''"
proof -
  have route: "es_route (demo_escalation L1) = L1" "es_route (demo_escalation L1) \<noteq> L0"
    by (simp_all add: demo_escalation_def)
  have event: "pr_event_snapshot_id (demo_review ''news:1'') = demo_hash" by (simp add: demo_review_def)
  have level: "reviewed_level (demo_opinion ''ACCEPTABLE'' rs) (demo_opinion ''ACCEPTABLE'' rs') = Open_Gate" for rs rs'
    by (simp add: reviewed_level_def demo_opinion_def)
  note views = finalizer_views(1) [OF f]
  from escalated_chain [OF f demo_hash_hex demo_checked(2) route(2) _ _ demo_refs(1), unfolded views route(1) event,
      OF demo_deepseek(2) [unfolded event] demo_claude_confirmed]
  show ?thesis using that by (auto simp: demo_failures pair_level_def level event)
qed

section \<open>The properties\<close>

text \<open>C27. The ladder of the gate, which never reads the two tables of its policy, decides as they
  say: the state is the worst of the level of the risk class, the level of the recommendation and
  the level of the configured reason codes, and the eligibility is the one of the state.\<close>

theorem gate_is_worst:
  assumes "make_gate_policy doc = Inr p" "evaluate_signal_gate digest n p = Inr g"
  shows "gd_state g = gate_str
      (max (table_level (gp_risk_to_state p) (nr_class n))
        (max (table_level (gp_recommendation_to_state p) (nr_recommendation n))
          (code_level p (nr_reasons n))))
    \<and> map_of eligibility_table (gd_state g) = Some (gd_eligibility g)"
proof -
  from assms(2) obtain m where m: "nr_class m = nr_class n" "nr_recommendation m = nr_recommendation n"
      "set (nr_reasons m) = set (nr_reasons n)" "nr_class n \<in> set risk_classes"
      "nr_recommendation n \<in> set news_recommendations"
    and made: "new_gate_decision digest p m (fst (gate_ladder m p)) (snd (gate_ladder m p)) = Inr g"
    by (rule evaluate_dest)
  have "code_level p (nr_reasons m) = code_level p (nr_reasons n)"
    using m(3) by (simp add: code_level_def intersects_disjoint)
  with ladder_level [of m p] m gate_policy_tables [OF assms(1)] new_gate_decision_dest [OF made]
  show ?thesis by simp
qed

theorem gate_is_worst_witness:
  "\<exists>p n g. make_gate_policy finalizer_gate_doc = Inr p
     \<and> evaluate_signal_gate (\<lambda>d. demo_hash) n p = Inr g
     \<and> ''OPEN'' = gate_str (max (table_level (gp_risk_to_state p) (nr_class n))
          (max (table_level (gp_recommendation_to_state p) (nr_recommendation n)) (code_level p (nr_reasons n))))
     \<and> gd_eligibility g = ''ALLOW_NEWS_ELIGIBILITY''"
proof -
  obtain f a n g where chain: "make_finalizer = Inr f"
    "evaluate_signal_gate (\<lambda>d. demo_hash) n (fz_gate f) = Inr g" "gd_state g = ''OPEN''"
    by (rule demo_chain)
  note made = finalizer_views(5) [OF chain(1)]
  from gate_is_worst [OF made chain(2)] chain(2,3) made show ?thesis
    by (auto simp: eligibility_table_def)
qed

text \<open>C8. An open gate is safe under any policies: when adjudication, risk object and gate decision
  are made one from the other under policies their constructors accept and the gate is open, every
  review that took part reports no material risk, no doubt about an entity or a source and
  sufficient evidence, and on an escalated route neither review carries a reason code configured to
  fail closed.  (The codes of a review routed to L0 are not read, see \<open>routine_gate\<close>.)\<close>

theorem open_gate_safe:
  assumes "make_news_risk_policy doc = Inr (fz_news_risk f)"
    "finalize_reviews digest f route event r d c = Inr (a, n, g)" "gd_state g = ''OPEN''"
  shows "\<exists>x. validate_deepseek r d (fz_adjudication f) = Inr x \<and> unconcerned x
    \<and> (route = L0 \<or> (\<exists>review y. c = Some review
        \<and> validate_claude review d (fz_adjudication f) = Inr y \<and> unconcerned y
        \<and> input_failures x y (fz_adjudication f) = []))"
proof -
  let ?c = "if route = L0 then None else c"
  from assms(2) have made: "adjudicate_review_results digest r d ?c (fz_adjudication f) = Inr a"
      "build_news_risk_object digest a (fz_news_risk f) = Inr n"
      "evaluate_signal_gate digest n (fz_gate f) = Inr g" and route: "ad_route a = route"
    unfolding finalize_reviews_def Let_def inr_convs by auto
  have "nr_class n = ''CLEAR''"
    using made(3) by (rule evaluate_dest) (metis assms(3) new_gate_decision_dest(1) open_ladder_clear)
  with made(2) obtain b codes where "classify b (fz_news_risk f) = Inr (''CLEAR'', codes)"
      "ad_outcome b = ad_outcome a" "final_states_clear b = final_states_clear a"
    by (auto elim: built_class)
  with classify_clear [of b "fz_news_risk f" codes] news_policy_fail_closed [OF assms(1)]
  have clear: "final_states_clear a" "ad_outcome a \<noteq> ''FAIL_CLOSED''" by simp_all
  from made(1) clear show ?thesis
  proof (cases rule: clear_adjudication)
    case (single x)
    have "route = L0"
      using adjudicate_route [OF made(1)] single route by simp
    with single show ?thesis by blast
  next
    case (pair x review y)
    then show ?thesis by (auto split: if_splits)
  qed
qed

theorem open_gate_safe_witness:
  "\<exists>f a n g x a' n' g' y. make_news_risk_policy finalizer_news_doc = Inr (fz_news_risk f)
     \<and> finalize_reviews (\<lambda>d. demo_hash) f L0 demo_hash (demo_review ''news:1'') (demo_escalation L0) None = Inr (a, n, g)
     \<and> gd_state g = ''OPEN''
     \<and> validate_deepseek (demo_review ''news:1'') (demo_escalation L0) (fz_adjudication f) = Inr x \<and> unconcerned x
     \<and> finalize_reviews (\<lambda>d. demo_hash) f L1 demo_hash (demo_review ''news:1'') (demo_escalation L1)
          (Some (demo_claude ''CONFIRMED'' [''CLAUDE_REVIEW_COMPLETED''])) = Inr (a', n', g')
     \<and> gd_state g' = ''OPEN''
     \<and> validate_claude (demo_claude ''CONFIRMED'' [''CLAUDE_REVIEW_COMPLETED'']) (demo_escalation L1) (fz_adjudication f)
          = Inr y \<and> unconcerned y"
proof -
  obtain f a n g where chain: "make_finalizer = Inr f"
    "finalize_reviews (\<lambda>d. demo_hash) f L0 demo_hash (demo_review ''news:1'') (demo_escalation L0) None = Inr (a, n, g)"
    "gd_state g = ''OPEN''"
    by (rule demo_chain)
  obtain a' n' g' where pair: "finalize_reviews (\<lambda>d. demo_hash) f L1 demo_hash (demo_review ''news:1'')
      (demo_escalation L1) (Some (demo_claude ''CONFIRMED'' [''CLAUDE_REVIEW_COMPLETED''])) = Inr (a', n', g')"
    "gd_state g' = ''OPEN''"
    by (rule demo_pair_open [OF chain(1)])
  note made = finalizer_views(4) [OF chain(1)]
  have "L1 \<noteq> L0" by simp
  from open_gate_safe [OF made chain(2,3)] open_gate_safe [OF made pair] this
  show ?thesis using chain(2,3) pair made by blast
qed

text \<open>C7. Under the fixed policies the outcome of two bound reviews is read off them.  When together
  they name between one and sixteen references they reach the gate, and its state is closed when a
  reason of either is the unresolved critical disagreement, blocked when they disagree on the risk or
  a contradiction or either reports a material risk or a critical entity or source, cautious when
  either reports a moderate concern or insufficient evidence, else open, whatever the ambiguity.
  The finalizer raises in two cases: for another number of references, which no constructor of a
  review bounds, and for a reason code the policy lists as failing closed but not in its order of
  reasons, where the gate was to be closed.\<close>

theorem escalated_gate:
  assumes "make_finalizer = Inr f" "hex_digest digest" "check_decision d = None" "es_route d \<noteq> L0"
    "validate_deepseek r d (fz_adjudication f) = Inr x" "validate_claude c d (fz_adjudication f) = Inr y"
  shows "let result = finalize_reviews digest f (es_route d) (pr_event_snapshot_id r) r d (Some c);
      refs = set (op_refs x @ op_refs y) in
    if refs = {} \<or> 16 < card refs then result = Inl ''invalid evidence references''
    else if input_failures x y (fz_adjudication f) = []
      then \<exists>a n g. result = Inr (a, n, g) \<and> gd_state g = gate_str (reviewed_level x y)
    else if ''CRITICAL_UNRESOLVED_DISAGREEMENT'' \<in> set (op_reasons x @ op_reasons y)
      then \<exists>a n g. result = Inr (a, n, g) \<and> gd_state g = ''FAIL_CLOSED''
    else result = Inl ''missing reason codes''"
proof (cases "canonical_refs (op_refs x) (op_refs y) 16")
  case (Inl e)
  then have e: "e = ''invalid evidence references''" and refs: "op_refs x @ op_refs y = [] \<or> 16 < card (set (op_refs x @ op_refs y))"
    by (auto simp: canonical_refs_def Let_def length_canonical split: if_splits)
  have "adjudicate_review_results digest r d (Some c) (fz_adjudication f) = Inl e"
    using Inl assms(3-6) unfolding adjudicate_review_results_def finalizer_views(1) [OF assms(1)] fixed_max_refs by simp
  with assms(4) e refs show ?thesis by (auto simp: finalize_reviews_def Let_def)
next
  case (Inr refs)
  then have ok: "\<not> (set (op_refs x @ op_refs y) = {} \<or> 16 < card (set (op_refs x @ op_refs y)))"
    by (auto simp: canonical_refs_iff)
  show ?thesis
    unfolding Let_def if_not_P [OF ok]
    using escalated_chain [OF assms Inr] finalizer_views(1) [OF assms(1)]
    by (simp add: pair_level_def split: if_splits)
qed

theorem escalated_gate_witness:
  "\<exists>f. make_finalizer = Inr f
     \<and> (\<exists>a n g. finalize_reviews (\<lambda>d. demo_hash) f L1 demo_hash (demo_review ''news:1'') (demo_escalation L1)
            (Some (demo_claude ''MODERATE'' [''CLAUDE_REVIEW_COMPLETED''])) = Inr (a, n, g) \<and> gd_state g = ''CAUTION'')
     \<and> finalize_reviews (\<lambda>d. demo_hash) f L1 demo_hash (demo_review ''news:1'') (demo_escalation L1)
            (Some (demo_claude ''MODERATE'' [''INVALID_INPUT''])) = Inl ''missing reason codes''
     \<and> finalize_reviews (\<lambda>d. demo_hash) f L1 demo_hash (demo_review ''news:1'') (demo_escalation L1)
            (Some ((demo_claude ''CONFIRMED'' [''CLAUDE_REVIEW_COMPLETED''])\<lparr>cr_evidence_refs := many_refs\<rparr>))
          = Inl ''invalid evidence references''"
proof -
  obtain f where f: "make_finalizer = Inr f" using inr_obtain [OF finalizer_made] by blast
  note views = finalizer_views(1) [OF f]
  have route: "es_route (demo_escalation L1) = L1" "es_route (demo_escalation L1) \<noteq> L0"
    by (simp_all add: demo_escalation_def)
  have event: "pr_event_snapshot_id (demo_review ''news:1'') = demo_hash" by (simp add: demo_review_def)
  have level: "reviewed_level (demo_opinion ''ACCEPTABLE'' rs) (demo_opinion ''MODERATE'' rs') = Caution_Gate" for rs rs'
    by (simp add: reviewed_level_def demo_opinion_def)
  have fields: "op_reasons (demo_opinion e rs) = rs" "op_refs (demo_opinion e rs) = [''news:1'']" for e rs
    by (simp_all add: demo_opinion_def)
  have many: "card (insert ''news:1'' (set many_refs)) = 18" by (simp add: many_refs_def)
  note escalated = escalated_gate [OF f demo_hash_hex demo_checked(2) route(2), unfolded views route(1)]
  from escalated [OF demo_deepseek(2) demo_claude_moderate]
  have "\<exists>a n g. finalize_reviews (\<lambda>d. demo_hash) f L1 demo_hash (demo_review ''news:1'') (demo_escalation L1)
      (Some (demo_claude ''MODERATE'' [''CLAUDE_REVIEW_COMPLETED''])) = Inr (a, n, g) \<and> gd_state g = ''CAUTION''"
    by (simp add: demo_failures level event fields)
  moreover from escalated [OF demo_deepseek(2) demo_claude_invalid]
  have "finalize_reviews (\<lambda>d. demo_hash) f L1 demo_hash (demo_review ''news:1'') (demo_escalation L1)
      (Some (demo_claude ''MODERATE'' [''INVALID_INPUT''])) = Inl ''missing reason codes''"
    by (simp add: demo_failures fields event)
  moreover from escalated [OF demo_deepseek(2) demo_claude_many]
  have "finalize_reviews (\<lambda>d. demo_hash) f L1 demo_hash (demo_review ''news:1'') (demo_escalation L1)
      (Some ((demo_claude ''CONFIRMED'' [''CLAUDE_REVIEW_COMPLETED''])\<lparr>cr_evidence_refs := many_refs\<rparr>))
      = Inl ''invalid evidence references''"
    by (simp add: event fields many)
  ultimately show ?thesis using f by blast
qed

text \<open>A review routed to L0 is accepted alone: under the fixed policies the finalizer always
  answers, with the outcome ACCEPT_DEEPSEEK and the gate the review alone gives, and reads no reason
  code of the review, not even one the policy lists as failing closed.\<close>

theorem routine_gate:
  assumes "make_finalizer = Inr f" "hex_digest digest" "check_decision d = None" "es_route d = L0"
    "validate_deepseek r d (fz_adjudication f) = Inr x" "canonical_refs (op_refs x) [] 16 = Inr refs"
  shows "\<exists>a n g. finalize_reviews digest f L0 (pr_event_snapshot_id r) r d c = Inr (a, n, g)
    \<and> ad_outcome a = ''ACCEPT_DEEPSEEK'' \<and> gd_state g = gate_str (reviewed_level x x)"
  by (rule routine_chain [OF assms])

theorem routine_gate_witness:
  "\<exists>f a n g. make_finalizer = Inr f
     \<and> finalize_reviews (\<lambda>d. demo_hash) f L0 demo_hash (demo_review ''news:1'') (demo_escalation L0) None = Inr (a, n, g)
     \<and> ad_outcome a = ''ACCEPT_DEEPSEEK'' \<and> gd_state g = ''OPEN''"
proof -
  obtain f where f: "make_finalizer = Inr f" using inr_obtain [OF finalizer_made] by blast
  have route: "es_route (demo_escalation L0) = L0" by (simp add: demo_escalation_def)
  have event: "pr_event_snapshot_id (demo_review ''news:1'') = demo_hash" by (simp add: demo_review_def)
  have level: "reviewed_level (demo_opinion ''ACCEPTABLE'' rs) (demo_opinion ''ACCEPTABLE'' rs) = Open_Gate" for rs
    by (simp add: reviewed_level_def demo_opinion_def)
  from routine_gate [OF f demo_hash_hex demo_checked(1) route _ demo_refs(2), unfolded finalizer_views(1) [OF f],
      OF demo_deepseek(1)] f
  show ?thesis unfolding event level gate_str.simps by blast
qed

text \<open>From reviews that their constructors accept nothing but an open gate can come: whatever the
  router decided, when the primary review and the escalated review, if any, were made by their
  constructors and the finalizer answers, the gate is open.\<close>

theorem constructed_reviews_open:
  assumes "make_finalizer = Inr f" "hex_digest digest" "make_primary_review digest doc = Inr r"
    "c = None \<or> (\<exists>v review. c = Some review \<and> make_claude_review digest v = Inr review)"
    "finalize_reviews digest f route event r d c = Inr (a, n, g)"
  shows "gd_state g = ''OPEN''"
proof -
  note clean = made_review_clean [OF assms(3)]
  note views = finalizer_views [OF assms(1)]
  let ?c = "if route = L0 then None else c"
  from assms(5) have a: "adjudicate_review_results digest r d ?c (fz_adjudication f) = Inr a"
    and bound: "ad_route a = route" "ad_event_snapshot_id a = event"
    unfolding finalize_reviews_def Let_def inr_convs by auto
  from adjudicate_route(1) [OF a] bound(1) have route: "route = es_route d" by simp
  from a show ?thesis
  proof (cases rule: adjudicate_dest)
    case (single x refs)
    note o = clean_opinion [OF clean single(1)]
    from new_adjudication_carries [OF single(4)] bound(2) validate_deepseek_ok(4) [OF single(1)]
    have event: "event = pr_event_snapshot_id r" by (simp add: carries_def)
    from routine_chain [OF assms(1,2) single(5,2,1), of refs c] single(6) views(1) fixed_max_refs
      assms(5) event route single(2) quiet_pair_open [OF o(1,1,2,2)]
    show ?thesis by auto
  next
    case (pair x review y refs)
    note o = clean_opinion [OF clean pair(1)]
    from pair(3) assms(4) obtain v where "make_claude_review digest v = Inr review" by (auto split: if_splits)
    note o' = made_claude_opinion [OF this pair(4)]
    from new_adjudication_carries [OF pair(5)] bound(2) validate_deepseek_ok(4) [OF pair(1)]
    have event: "event = pr_event_snapshot_id r" by (simp add: carries_def)
    from pair(3) have "c = Some review" by (auto split: if_splits)
    with escalated_chain [OF assms(1,2) pair(6,2,1,4), of refs] pair(7) views(1) fixed_max_refs
      assms(5) event route quiet_pair_open [OF o(1) o'(1) o(2) o'(2)]
      completed_no_failure [OF o(3) o'(3)]
    show ?thesis by (simp add: pair_level_def)
  qed
qed


theorem constructed_reviews_open_witness:
  "\<exists>f a n g. make_finalizer = Inr f
     \<and> make_primary_review (\<lambda>d. demo_hash) (demo_review_doc ''news:1'') = Inr (demo_review ''news:1'')
     \<and> finalize_reviews (\<lambda>d. demo_hash) f L0 demo_hash (demo_review ''news:1'') (demo_escalation L0) None = Inr (a, n, g)
     \<and> gd_state g = ''OPEN''"
proof -
  obtain f a n g where chain: "make_finalizer = Inr f"
    "finalize_reviews (\<lambda>d. demo_hash) f L0 demo_hash (demo_review ''news:1'') (demo_escalation L0) None = Inr (a, n, g)"
    by (rule demo_chain)
  note made = demo_constructed [OF demo_plain_ref]
  from constructed_reviews_open [OF chain(1) demo_hash_hex made disjI1 [OF refl] chain(2)] chain made
  show ?thesis by blast
qed

end
