(* ===== verification/Utc_Time.thy ===== *)
theory Utc_Time
  imports Prelude "HOL-Library.Product_Lexorder"
begin

text \<open>
  Time stamps as \<open>src/engine/phase_11_budget_control_v1.py\<close> keeps them: the canonical text of a
  moment in UTC, and the moment itself, which is what the module compares.  A moment is
  \<open>(year, month, day, hour, minute, second, microsecond)\<close>, ordered lexicographically as
  \<open>datetime\<close> orders two values of one time zone.  \<open>datetime.fromisoformat\<close> is that of
  Python 3.11 and later, which reads a fraction of one to six digits.
\<close>

section \<open>Decimal numerals\<close>

definition digit_char :: "nat \<Rightarrow> char" where
  "digit_char n = char_of (48 + n)"

definition number :: "string \<Rightarrow> nat" where
  "number s = foldl (\<lambda>n c. 10 * n + (of_char c - 48)) 0 s"

text \<open>The last \<open>k\<close> digits of a number, with leading zeros.\<close>

fun padded :: "nat \<Rightarrow> nat \<Rightarrow> string" where
  "padded 0 n = []"
| "padded (Suc k) n = padded k (n div 10) @ [digit_char (n mod 10)]"

lemma digit_char_simps:
  assumes "n < 10"
  shows "is_digit (digit_char n)" "of_char (digit_char n) = 48 + n"
  using assms by (simp_all add: digit_char_def is_digit_def Let_def)

lemma length_padded [simp]: "length (padded k n) = k"
  by (induction k arbitrary: n) simp_all

lemma padded_digits [simp]: "list_all is_digit (padded k n)"
  by (induction k arbitrary: n) (simp_all add: digit_char_simps)

lemma number_snoc: "number (s @ [c]) = 10 * number s + (of_char c - 48)"
  by (simp add: number_def)

lemma number_padded: "n < 10 ^ k \<Longrightarrow> number (padded k n) = n"
proof (induction k arbitrary: n)
  case 0
  then show ?case by (simp add: number_def)
next
  case (Suc k)
  have "n div 10 < 10 ^ k"
    using Suc.prems by (simp add: less_mult_imp_div_less mult.commute)
  then show ?case
    using Suc.IH by (simp add: number_snoc digit_char_simps)
qed

section \<open>Moments and their text\<close>

type_synonym moment = "nat \<times> nat \<times> nat \<times> nat \<times> nat \<times> nat \<times> nat"

definition leap_year :: "nat \<Rightarrow> bool" where
  "leap_year y = (y mod 4 = 0 \<and> (y mod 100 \<noteq> 0 \<or> y mod 400 = 0))"

definition days_in_month :: "nat \<Rightarrow> nat \<Rightarrow> nat" where
  "days_in_month y m =
    (if m = 2 then if leap_year y then 29 else 28 else if m \<in> {4, 6, 9, 11} then 30 else 31)"

text \<open>The ranges \<open>datetime\<close> admits.\<close>

definition valid_moment :: "moment \<Rightarrow> bool" where
  "valid_moment = (\<lambda>(y, mo, d, h, mi, s, us).
     1 \<le> y \<and> y < 10000 \<and> 1 \<le> mo \<and> mo \<le> 12 \<and> 1 \<le> d \<and> d \<le> days_in_month y mo \<and>
     h < 24 \<and> mi < 60 \<and> s < 60 \<and> us < 1000000)"

text \<open>\<open>_UTC_RE\<close> under \<open>fullmatch\<close>: a fraction has one to six digits.\<close>

definition fraction_tail :: "string \<Rightarrow> bool" where
  "fraction_tail r = (r = ''Z'' \<or>
     (case r of [] \<Rightarrow> False
      | c # ds \<Rightarrow> c = CHR ''.'' \<and> 2 \<le> length ds \<and> length ds \<le> 7 \<and> last ds = CHR ''Z'' \<and>
          list_all is_digit (butlast ds)))"

definition stamp_string :: "string \<Rightarrow> bool" where
  "stamp_string s = (case match_template ''dddd-dd-ddTdd:dd:dd'' s of
     None \<Rightarrow> False | Some r \<Rightarrow> fraction_tail r)"

text \<open>\<open>datetime.fromisoformat\<close> on a text of that form; None is the \<open>ValueError\<close>.\<close>

definition from_iso :: "string \<Rightarrow> moment option" where
  "from_iso s =
    (let fraction = butlast (drop 20 s);
         t = (number (take 4 s), number (take 2 (drop 5 s)), number (take 2 (drop 8 s)),
              number (take 2 (drop 11 s)), number (take 2 (drop 14 s)), number (take 2 (drop 17 s)),
              number fraction * 10 ^ (6 - length fraction))
     in if valid_moment t then Some t else None)"

text \<open>\<open>isoformat(timespec="microseconds")\<close>, the offset written \<open>Z\<close>, a zero fraction dropped.\<close>

definition stamp_text :: "moment \<Rightarrow> string" where
  "stamp_text = (\<lambda>(y, mo, d, h, mi, s, us).
     padded 4 y @ ''-'' @ padded 2 mo @ ''-'' @ padded 2 d @ ''T'' @ padded 2 h @ '':'' @
     padded 2 mi @ '':'' @ padded 2 s @ (if us = 0 then [] else ''.'' @ padded 6 us) @ ''Z'')"

text \<open>
  An argument that should be a time stamp: a \<open>datetime\<close> with a time zone (its moment in UTC), one
  without, a text, or another value.
\<close>

datatype stamp = Aware moment | Naive | Text string | No_Stamp

text \<open>\<open>_timestamp\<close> and \<open>_parsed\<close>\<close>

definition timestamp :: "string \<Rightarrow> stamp \<Rightarrow> (string, string) result" where
  "timestamp label a =
    (case a of
       Aware t \<Rightarrow> Inr (stamp_text t)
     | Naive \<Rightarrow> Inl (label @ '' must be timezone-aware'')
     | Text s \<Rightarrow>
         if stamp_string s
         then (case from_iso s of None \<Rightarrow> Inl (label @ '' is invalid'') | Some t \<Rightarrow> Inr (stamp_text t))
         else Inl (label @ '' must be canonical UTC'')
     | No_Stamp \<Rightarrow> Inl (label @ '' must be canonical UTC''))"

definition parsed :: "string \<Rightarrow> moment" where
  "parsed s = (case from_iso s of Some t \<Rightarrow> t | None \<Rightarrow> (0, 0, 0, 0, 0, 0, 0))"

text \<open>What \<open>datetime\<close> values satisfy.\<close>

definition stamp_ok :: "stamp \<Rightarrow> bool" where
  "stamp_ok a = (case a of Aware t \<Rightarrow> valid_moment t | _ \<Rightarrow> True)"

section \<open>Reading back what was written\<close>

lemma match_template_padded:
  "match_template (replicate k CHR ''d'' @ ts) (padded k n @ cs) = match_template ts cs"
proof -
  have *: "match_template (replicate (length ds) CHR ''d'' @ ts) (ds @ cs) = match_template ts cs"
    if "list_all is_digit ds" for ds
    using that by (induction ds) simp_all
  show ?thesis using * [of "padded k n"] by simp
qed

lemma match_padded [simp]:
  "match_template (CHR ''d'' # CHR ''d'' # ts) (padded 2 n @ cs) = match_template ts cs"
  "match_template (CHR ''d'' # CHR ''d'' # CHR ''d'' # CHR ''d'' # ts) (padded 4 n @ cs)
     = match_template ts cs"
proof -
  have copies: "replicate 2 CHR ''d'' = ''dd''" "replicate 4 CHR ''d'' = ''dddd''"
    by (simp_all add: numeral_eq_Suc)
  show "match_template (CHR ''d'' # CHR ''d'' # ts) (padded 2 n @ cs) = match_template ts cs"
    using match_template_padded [of 2 ts n cs] unfolding copies append.simps .
  show "match_template (CHR ''d'' # CHR ''d'' # CHR ''d'' # CHR ''d'' # ts) (padded 4 n @ cs)
     = match_template ts cs"
    using match_template_padded [of 4 ts n cs] unfolding copies append.simps .
qed

lemma stamp_string_text: "stamp_string (stamp_text t)"
  by (cases t) (simp add: stamp_text_def stamp_string_def fraction_tail_def)

lemma days_in_month_bound: "days_in_month y m \<le> 31"
  by (simp add: days_in_month_def)

lemma from_iso_text:
  assumes "valid_moment t"
  shows "from_iso (stamp_text t) = Some t"
proof -
  obtain y mo d h mi s us where t: "t = (y, mo, d, h, mi, s, us)" by (cases t)
  have "d < 100" using assms days_in_month_bound [of y mo] by (simp add: t valid_moment_def)
  then have bounds: "y < 10 ^ 4" "mo < 10 ^ 2" "d < 10 ^ 2" "h < 10 ^ 2" "mi < 10 ^ 2" "s < 10 ^ 2"
    "us < 10 ^ 6"
    using assms by (simp_all add: t valid_moment_def)
  show ?thesis
    using assms bounds [THEN number_padded]
    by (cases "us = 0") (simp_all add: from_iso_def stamp_text_def t Let_def butlast_append,
        simp_all add: number_def)
qed

lemma from_iso_valid: "from_iso s = Some t \<Longrightarrow> valid_moment t"
  by (auto simp: from_iso_def Let_def split: if_splits)

lemma parsed_text [simp]: "valid_moment t \<Longrightarrow> parsed (stamp_text t) = t"
  by (simp add: parsed_def from_iso_text)

text \<open>A text the code stores is the text of a moment, and storing it again changes nothing.\<close>

definition canonical_stamp :: "string \<Rightarrow> bool" where
  "canonical_stamp s = (valid_moment (parsed s) \<and> s = stamp_text (parsed s))"

lemma canonical_text [simp]: "valid_moment t \<Longrightarrow> canonical_stamp (stamp_text t)"
  by (simp add: canonical_stamp_def)

lemma timestamp_canonical:
  "stamp_ok a \<Longrightarrow> timestamp label a = Inr s \<Longrightarrow> canonical_stamp s"
  by (auto simp: timestamp_def stamp_ok_def split: stamp.splits if_splits option.splits
      dest: from_iso_valid)

lemma timestamp_stored: "canonical_stamp s \<Longrightarrow> timestamp label (Text s) = Inr s"
proof -
  assume "canonical_stamp s"
  then have "from_iso s = Some (parsed s)" "stamp_string s" and s: "s = stamp_text (parsed s)"
    unfolding canonical_stamp_def by (metis from_iso_text, metis stamp_string_text, blast)
  then show ?thesis by (simp add: timestamp_def)
qed

text \<open>Equations to compute a concrete text.\<close>

lemma digit_chars:
  "digit_char 0 = CHR ''0''" "digit_char (Suc 0) = CHR ''1''" "digit_char 2 = CHR ''2''"
  "digit_char 3 = CHR ''3''" "digit_char 4 = CHR ''4''" "digit_char 5 = CHR ''5''"
  "digit_char 6 = CHR ''6''" "digit_char 7 = CHR ''7''" "digit_char 8 = CHR ''8''"
  "digit_char 9 = CHR ''9''"
  by code_simp+

lemma padded_steps:
  "padded 2 n = [digit_char (n div 10 mod 10), digit_char (n mod 10)]"
  "padded 4 n = [digit_char (n div 10 div 10 div 10 mod 10), digit_char (n div 10 div 10 mod 10),
     digit_char (n div 10 mod 10), digit_char (n mod 10)]"
proof -
  have lengths: "(2::nat) = Suc (Suc 0)" "(4::nat) = Suc (Suc (Suc (Suc 0)))" by simp_all
  show "padded 2 n = [digit_char (n div 10 mod 10), digit_char (n mod 10)]"
    unfolding lengths(1) padded.simps by simp
  show "padded 4 n = [digit_char (n div 10 div 10 div 10 mod 10), digit_char (n div 10 div 10 mod 10),
      digit_char (n div 10 mod 10), digit_char (n mod 10)]"
    unfolding lengths(2) padded.simps by simp
qed

text \<open>A time stamp that is accepted is stored as the canonical text of a valid moment: reading the
  text gives the moment, and storing the text again gives the same text.
\<close>

theorem timestamp_roundtrip:
  assumes "stamp_ok a" and "timestamp label a = Inr s"
  shows "timestamp label' (Text s) = Inr s \<and> valid_moment (parsed s) \<and> stamp_text (parsed s) = s"
  using timestamp_canonical [OF assms] timestamp_stored by (simp add: canonical_stamp_def)

theorem timestamp_roundtrip_witness:
  "timestamp ''reserved_at'' (Text (stamp_text (2024, 2, 29, 23, 59, 59, 500000)))
     = Inr (stamp_text (2024, 2, 29, 23, 59, 59, 500000))"
  using timestamp_roundtrip [of "Aware (2024, 2, 29, 23, 59, 59, 500000)" "''ends_at''"]
  by (simp add: stamp_ok_def timestamp_def valid_moment_def days_in_month_def leap_year_def)

end
