(* ===== verification/Budget_Control.thy ===== *)
theory Budget_Control
  imports Utc_Time Review_Adjudication
begin

text \<open>
  The budget of the shadow evaluation, \<open>src/engine/phase_11_budget_control_v1.py\<close>: the policy with
  its caps, the reservation of a call, the record of what a call used, and the immutable ledger
  whose operations return a new ledger or raise.

  An argument that the code checks is a \<open>pv\<close>, an \<open>amount\<close> or a \<open>stamp\<close>.  A finite \<open>Decimal\<close> is the
  rational it denotes; sums are exact, which holds in Python up to the 28 digits of the default
  context.  In a hashed document an amount stands for its canonical text.
\<close>

section \<open>Vocabulary and checks\<close>

definition providers :: "string list" where
  "providers = [''ANTHROPIC'', ''DEEPSEEK'']"

definition models :: "string list" where
  "models = [''CLAUDE_OPUS_L2'', ''CLAUDE_SONNET_L1'', ''DEEPSEEK_PRIMARY'']"

definition budget_statuses :: "string list" where
  "budget_statuses = [''ACTIVE'', ''CLOSED'', ''DRAFT'', ''STOPPED'']"

definition reservation_statuses :: "string list" where
  "reservation_statuses = [''COMMITTED'', ''RELEASED'', ''RESERVED'', ''UNCERTAIN'']"

definition usage_outcomes :: "string list" where
  "usage_outcomes = [''MALFORMED_RESPONSE'', ''NO_CALL'', ''SUCCESS'', ''TIMEOUT'', ''TRANSPORT_FAILURE'']"

definition reconciliation_statuses :: "string list" where
  "reconciliation_statuses = [''RECONCILIATION_REQUIRED'', ''RELEASED'', ''RESOLVED'', ''UNCERTAIN'']"

definition failure_classes :: "string list" where
  "failure_classes = [''NONE'', ''VALIDATION_FAILURE'', ''POLICY_INACTIVE'', ''OWNER_APPROVAL_MISSING'',
     ''PROVIDER_NOT_ALLOWED'', ''MODEL_NOT_ALLOWED'', ''TOTAL_CAP_EXCEEDED'', ''PROVIDER_CAP_EXCEEDED'',
     ''MODEL_CAP_EXCEEDED'', ''RUN_CAP_EXCEEDED'', ''CALL_COUNT_EXCEEDED'',
     ''INPUT_TOKEN_CAP_EXCEEDED'', ''OUTPUT_TOKEN_CAP_EXCEEDED'', ''RESERVATION_EXPIRED'',
     ''RESERVATION_NOT_FOUND'', ''DUPLICATE_COMMIT'', ''CONFLICTING_DUPLICATE'',
     ''USAGE_EXCEEDS_RESERVATION'', ''UNCERTAIN_TRANSPORT_OUTCOME'', ''HARD_STOP_ACTIVE'',
     ''RECONCILIATION_REQUIRED'']"

definition stop_reasons :: "string list" where
  "stop_reasons = [''CALL_COUNT_HARD_STOP'', ''OWNER_SUSPENSION'', ''RECONCILIATION_REQUIRED'',
     ''TOKEN_CAP_HARD_STOP'', ''TOTAL_CAP_HARD_STOP'']"

definition model_provider :: "(string \<times> string) list" where
  "model_provider = [(''CLAUDE_OPUS_L2'', ''ANTHROPIC''), (''CLAUDE_SONNET_L1'', ''ANTHROPIC''),
     (''DEEPSEEK_PRIMARY'', ''DEEPSEEK'')]"

text \<open>A finite \<open>Decimal\<close>, or any other value.\<close>

datatype amount = Finite rat | No_Amount

definition amount_in :: "string \<Rightarrow> bool \<Rightarrow> amount \<Rightarrow> (string, rat) result" where
  "amount_in label positive a =
    (case a of
       No_Amount \<Rightarrow> Inl (label @ '' must be a finite Decimal'')
     | Finite x \<Rightarrow>
         if x < 0 then Inl (label @ '' must not be negative'')
         else if positive \<and> x \<le> 0 then Inl (label @ '' must be positive'')
         else Inr x)"

text \<open>\<open>^[A-Za-z0-9][A-Za-z0-9._-]{0,127}$\<close> and \<open>^[A-Z][A-Z0-9_]{0,63}$\<close> under \<open>fullmatch\<close>\<close>

definition budget_identifier :: "string \<Rightarrow> bool" where
  "budget_identifier s =
    (case s of [] \<Rightarrow> False
     | c # cs \<Rightarrow> ascii_alnum c \<and> length cs \<le> 127
         \<and> list_all (\<lambda>c. ascii_alnum c \<or> c \<in> {CHR ''.'', CHR ''_'', CHR ''-''}) cs)"

definition upper_letter :: "char \<Rightarrow> bool" where
  "upper_letter c = (let n = (of_char c :: nat) in 65 \<le> n \<and> n \<le> 90)"

definition reason_code :: "string \<Rightarrow> bool" where
  "reason_code s =
    (case s of [] \<Rightarrow> False
     | c # cs \<Rightarrow> upper_letter c \<and> length cs \<le> 63
         \<and> list_all (\<lambda>c. upper_letter c \<or> is_digit c \<or> c = CHR ''_'') cs)"

text \<open>\<open>casefold\<close> as far as a comparison with a lower-case ASCII text can tell.\<close>

definition folded :: "char \<Rightarrow> char" where
  "folded c = (if upper_letter c then char_of (of_char c + 32 :: nat) else c)"

definition prose_prefix :: "string" where
  "prose_prefix = ''provider prose:''"

definition provider_prose :: "pv \<Rightarrow> bool" where
  "provider_prose =
    is_text_in (\<lambda>s. map folded (take (length prose_prefix) s) = prose_prefix)"

text \<open>\<open>_closed_set\<close> as it is called, and \<open>_reason_codes\<close>\<close>

definition closed_set :: "string \<Rightarrow> string list \<Rightarrow> pv \<Rightarrow> (string, string list) result" where
  "closed_set label allowed v =
    (case v of
       PList xs \<Rightarrow>
         if xs = [] then Inl (label @ '' is invalid'')
         else if \<not> list_all (is_text_in (\<lambda>s. s \<in> set allowed)) xs
         then Inl (label @ '' contains an unsupported value'')
         else if \<not> distinct xs then Inl (label @ '' contains duplicates'')
         else Inr (sort (map the_str xs))
     | _ \<Rightarrow> Inl (label @ '' is invalid''))"

definition reason_codes_in :: "string \<Rightarrow> bool \<Rightarrow> pv \<Rightarrow> (string, string list) result" where
  "reason_codes_in label allow_prose v =
    (case v of
       PList xs \<Rightarrow>
         if xs = [] \<or> 32 < length xs then Inl (label @ '' is invalid'')
         else
           (let codes = filter (\<lambda>x. \<not> (allow_prose \<and> provider_prose x)) xs
            in if \<not> list_all (is_text_in reason_code) codes
               then Inl (label @ '' contains an invalid code'')
               else if codes = [] \<or> \<not> distinct codes then Inl (label @ '' is invalid'')
               else Inr (sort (map the_str codes)))
     | _ \<Rightarrow> Inl (label @ '' is invalid''))"

text \<open>\<open>_cap_map\<close>; None is a value that is not a mapping.\<close>

fun cap_items :: "string \<Rightarrow> (string \<times> amount) list \<Rightarrow> string list \<Rightarrow> (string, (string \<times> rat) list) result" where
  "cap_items label d [] = Inr []"
| "cap_items label d (k # ks) =
    (case amount_in (label @ ''.'' @ k) False (the (map_of d k)) of
       Inl e \<Rightarrow> Inl e
     | Inr c \<Rightarrow> (case cap_items label d ks of Inl e \<Rightarrow> Inl e | Inr cs \<Rightarrow> Inr ((k, c) # cs)))"

definition cap_map ::
  "string \<Rightarrow> string list \<Rightarrow> (string \<times> amount) list option \<Rightarrow> (string, (string \<times> rat) list) result" where
  "cap_map label keys m =
    (case m of
       None \<Rightarrow> Inl (label @ '' must cover the frozen vocabulary'')
     | Some d \<Rightarrow>
         if set (map fst d) \<noteq> set keys then Inl (label @ '' must cover the frozen vocabulary'')
         else cap_items label d (sort keys))"

definition caps_doc :: "(string \<times> rat) list \<Rightarrow> pv" where
  "caps_doc caps = PDict (map (\<lambda>(k, c). (k, PReal c)) caps)"

section \<open>The policy\<close>

record policy_args =
  pa_schema_version :: pv
  pa_policy_id :: pv
  pa_policy_version :: pv
  pa_status :: pv
  pa_currency :: pv
  pa_total_cost_cap :: amount
  pa_provider_cost_caps :: "(string \<times> amount) list option"
  pa_model_cost_caps :: "(string \<times> amount) list option"
  pa_per_run_cost_cap :: amount
  pa_maximum_call_count :: pv
  pa_maximum_calls_per_run :: pv
  pa_maximum_input_tokens :: pv
  pa_maximum_output_tokens :: pv
  pa_maximum_tokens_per_call :: pv
  pa_allowed_providers :: pv
  pa_allowed_models :: pv
  pa_starts_at :: stamp
  pa_ends_at :: stamp
  pa_owner_approval_reference :: pv
  pa_stop_conditions :: pv

record budget_policy =
  bp_policy_id :: string
  bp_policy_version :: int
  bp_status :: string
  bp_total_cap :: rat
  bp_provider_caps :: "(string \<times> rat) list"
  bp_model_caps :: "(string \<times> rat) list"
  bp_run_cap :: rat
  bp_max_calls :: int
  bp_max_run_calls :: int
  bp_max_input :: int
  bp_max_output :: int
  bp_max_call_tokens :: int
  bp_allowed_providers :: "string list"
  bp_allowed_models :: "string list"
  bp_starts_at :: string
  bp_ends_at :: string
  bp_approval :: "string option"
  bp_stop_conditions :: "string list"
  bp_identity :: string

definition policy_doc :: "budget_policy \<Rightarrow> pv" where
  "policy_doc p = PDict [
     (''schema_version'', PStr ''phase11-budget-policy-v1''),
     (''policy_id'', PStr (bp_policy_id p)),
     (''policy_version'', PInt (bp_policy_version p)),
     (''status'', PStr (bp_status p)),
     (''currency'', PStr ''USD_MICRO''),
     (''total_cost_cap'', PReal (bp_total_cap p)),
     (''provider_cost_caps'', caps_doc (bp_provider_caps p)),
     (''model_cost_caps'', caps_doc (bp_model_caps p)),
     (''per_run_cost_cap'', PReal (bp_run_cap p)),
     (''maximum_call_count'', PInt (bp_max_calls p)),
     (''maximum_calls_per_run'', PInt (bp_max_run_calls p)),
     (''maximum_input_tokens'', PInt (bp_max_input p)),
     (''maximum_output_tokens'', PInt (bp_max_output p)),
     (''maximum_tokens_per_call'', PInt (bp_max_call_tokens p)),
     (''allowed_providers'', texts_doc (bp_allowed_providers p)),
     (''allowed_models'', texts_doc (bp_allowed_models p)),
     (''starts_at'', PStr (bp_starts_at p)),
     (''ends_at'', PStr (bp_ends_at p)),
     (''owner_approval_reference'', str_or_none (bp_approval p)),
     (''stop_conditions'', texts_doc (bp_stop_conditions p))]"

definition make_budget_policy :: "(pv \<Rightarrow> string) \<Rightarrow> policy_args \<Rightarrow> (string, budget_policy) result" where
  "make_budget_policy digest a =
    (if pa_schema_version a \<noteq> PStr ''phase11-budget-policy-v1'' then Inl ''schema_version is unsupported''
     else if \<not> is_text_in budget_identifier (pa_policy_id a) then Inl ''policy_id is invalid''
     else if \<not> positive_int (pa_policy_version a)
     then Inl ''policy_version must be a positive integer''
     else if \<not> is_text_in (\<lambda>s. s \<in> set budget_statuses) (pa_status a) then Inl ''status is unsupported''
     else if pa_currency a \<noteq> PStr ''USD_MICRO'' then Inl ''currency is unsupported''
     else and_then (amount_in ''total_cost_cap'' False (pa_total_cost_cap a)) (\<lambda>total.
     and_then (cap_map ''provider_cost_caps'' providers (pa_provider_cost_caps a)) (\<lambda>provider_caps.
     and_then (cap_map ''model_cost_caps'' models (pa_model_cost_caps a)) (\<lambda>model_caps.
     and_then (amount_in ''per_run_cost_cap'' False (pa_per_run_cost_cap a)) (\<lambda>run_cap.
     if list_ex (\<lambda>(k, c). total < c) provider_caps then Inl ''provider cost cap exceeds total_cost_cap''
     else if list_ex (\<lambda>(k, c). total < c) model_caps then Inl ''model cost cap exceeds total_cost_cap''
     else if total < run_cap then Inl ''per_run_cost_cap exceeds total_cost_cap''
     else if \<not> positive_int (pa_maximum_call_count a)
     then Inl ''maximum_call_count must be a positive integer''
     else if \<not> positive_int (pa_maximum_calls_per_run a)
     then Inl ''maximum_calls_per_run must be a positive integer''
     else if \<not> positive_int (pa_maximum_input_tokens a)
     then Inl ''maximum_input_tokens must be a positive integer''
     else if \<not> positive_int (pa_maximum_output_tokens a)
     then Inl ''maximum_output_tokens must be a positive integer''
     else if \<not> positive_int (pa_maximum_tokens_per_call a)
     then Inl ''maximum_tokens_per_call must be a positive integer''
     else if the_int (pa_maximum_input_tokens a) + the_int (pa_maximum_output_tokens a)
         < the_int (pa_maximum_tokens_per_call a)
     then Inl ''maximum_tokens_per_call exceeds aggregate token caps''
     else and_then (closed_set ''allowed_providers'' providers (pa_allowed_providers a)) (\<lambda>allowed_providers.
     and_then (closed_set ''allowed_models'' models (pa_allowed_models a)) (\<lambda>allowed_models.
     and_then (timestamp ''starts_at'' (pa_starts_at a)) (\<lambda>starts_at.
     and_then (timestamp ''ends_at'' (pa_ends_at a)) (\<lambda>ends_at.
     if parsed ends_at \<le> parsed starts_at then Inl ''ends_at must be later than starts_at''
     else if pa_owner_approval_reference a \<noteq> PNone
         \<and> \<not> is_text_in budget_identifier (pa_owner_approval_reference a)
     then Inl ''owner_approval_reference is invalid''
     else if pa_status a = PStr ''ACTIVE'' \<and> pa_owner_approval_reference a = PNone
     then Inl ''ACTIVE policy requires owner approval''
     else and_then (closed_set ''stop_conditions'' stop_reasons (pa_stop_conditions a)) (\<lambda>stop_conditions.
     (let p = \<lparr>
        bp_policy_id = the_str (pa_policy_id a), bp_policy_version = the_int (pa_policy_version a),
        bp_status = the_str (pa_status a), bp_total_cap = total, bp_provider_caps = provider_caps,
        bp_model_caps = model_caps, bp_run_cap = run_cap,
        bp_max_calls = the_int (pa_maximum_call_count a),
        bp_max_run_calls = the_int (pa_maximum_calls_per_run a),
        bp_max_input = the_int (pa_maximum_input_tokens a),
        bp_max_output = the_int (pa_maximum_output_tokens a),
        bp_max_call_tokens = the_int (pa_maximum_tokens_per_call a),
        bp_allowed_providers = allowed_providers, bp_allowed_models = allowed_models,
        bp_starts_at = starts_at, bp_ends_at = ends_at,
        bp_approval = opt_str (pa_owner_approval_reference a),
        bp_stop_conditions = stop_conditions, bp_identity = []\<rparr>
      in Inr (p\<lparr>bp_identity := hash_mapping digest (policy_doc p)\<rparr>))))))))))))"

definition can_authorize_calls :: "budget_policy \<Rightarrow> bool" where
  "can_authorize_calls p = (bp_status p = ''ACTIVE'' \<and> bp_approval p \<noteq> None)"

section \<open>Reservations\<close>

record reservation_args =
  ra_schema_version :: pv
  ra_reservation_id :: pv
  ra_policy_id :: pv
  ra_run_id :: pv
  ra_call_id :: pv
  ra_provider :: pv
  ra_model :: pv
  ra_reserved_cost :: amount
  ra_reserved_input_tokens :: pv
  ra_reserved_output_tokens :: pv
  ra_reserved_at :: stamp
  ra_expires_at :: stamp
  ra_status :: pv
  ra_reason_codes :: pv

record reservation =
  re_id :: string
  re_policy_id :: string
  re_run_id :: string
  re_call_id :: string
  re_provider :: string
  re_model :: string
  re_cost :: rat
  re_input :: int
  re_output :: int
  re_reserved_at :: string
  re_expires_at :: string
  re_status :: string
  re_reasons :: "string list"
  re_identity :: string

definition reservation_doc :: "reservation \<Rightarrow> pv" where
  "reservation_doc r = PDict [
     (''schema_version'', PStr ''phase11-budget-reservation-v1''),
     (''reservation_id'', PStr (re_id r)),
     (''policy_id'', PStr (re_policy_id r)),
     (''run_id'', PStr (re_run_id r)),
     (''call_id'', PStr (re_call_id r)),
     (''provider'', PStr (re_provider r)),
     (''model'', PStr (re_model r)),
     (''reserved_cost'', PReal (re_cost r)),
     (''reserved_input_tokens'', PInt (re_input r)),
     (''reserved_output_tokens'', PInt (re_output r)),
     (''reserved_at'', PStr (re_reserved_at r)),
     (''expires_at'', PStr (re_expires_at r)),
     (''status'', PStr (re_status r)),
     (''reason_codes'', texts_doc (re_reasons r))]"

definition make_reservation :: "(pv \<Rightarrow> string) \<Rightarrow> reservation_args \<Rightarrow> (string, reservation) result" where
  "make_reservation digest a =
    (if ra_schema_version a \<noteq> PStr ''phase11-budget-reservation-v1''
     then Inl ''schema_version is unsupported''
     else if \<not> is_text_in budget_identifier (ra_reservation_id a) then Inl ''reservation_id is invalid''
     else if \<not> is_text_in budget_identifier (ra_policy_id a) then Inl ''policy_id is invalid''
     else if \<not> is_text_in budget_identifier (ra_run_id a) then Inl ''run_id is invalid''
     else if \<not> is_text_in budget_identifier (ra_call_id a) then Inl ''call_id is invalid''
     else if \<not> is_text_in budget_identifier (ra_provider a) then Inl ''provider is invalid''
     else if \<not> is_text_in budget_identifier (ra_model a) then Inl ''model is invalid''
     else and_then (amount_in ''reserved_cost'' True (ra_reserved_cost a)) (\<lambda>cost.
     if \<not> positive_int (ra_reserved_input_tokens a)
     then Inl ''reserved_input_tokens must be a positive integer''
     else if \<not> positive_int (ra_reserved_output_tokens a)
     then Inl ''reserved_output_tokens must be a positive integer''
     else and_then (timestamp ''reserved_at'' (ra_reserved_at a)) (\<lambda>reserved_at.
     and_then (timestamp ''expires_at'' (ra_expires_at a)) (\<lambda>expires_at.
     if parsed expires_at \<le> parsed reserved_at then Inl ''expires_at must be later than reserved_at''
     else if \<not> is_text_in (\<lambda>s. s \<in> set reservation_statuses) (ra_status a)
     then Inl ''status is unsupported''
     else and_then (reason_codes_in ''reason_codes'' False (ra_reason_codes a)) (\<lambda>reasons.
     (let r = \<lparr>
        re_id = the_str (ra_reservation_id a), re_policy_id = the_str (ra_policy_id a),
        re_run_id = the_str (ra_run_id a), re_call_id = the_str (ra_call_id a),
        re_provider = the_str (ra_provider a), re_model = the_str (ra_model a), re_cost = cost,
        re_input = the_int (ra_reserved_input_tokens a),
        re_output = the_int (ra_reserved_output_tokens a), re_reserved_at = reserved_at,
        re_expires_at = expires_at, re_status = the_str (ra_status a), re_reasons = reasons,
        re_identity = []\<rparr>
      in Inr (r\<lparr>re_identity := hash_mapping digest (reservation_doc r)\<rparr>)))))))"

section \<open>What a call used\<close>

record usage_args =
  ua_schema_version :: pv
  ua_usage_record_id :: pv
  ua_reservation_id :: pv
  ua_policy_id :: pv
  ua_run_id :: pv
  ua_call_id :: pv
  ua_provider :: pv
  ua_model :: pv
  ua_request_hash :: pv
  ua_response_hash :: pv
  ua_input_tokens :: pv
  ua_output_tokens :: pv
  ua_estimated_cost :: amount
  ua_actual_cost :: "amount option"
  ua_started_at :: stamp
  ua_completed_at :: stamp
  ua_latency_ms :: pv
  ua_attempt_count :: pv
  ua_outcome :: pv
  ua_reconciliation_status :: pv
  ua_failure_class :: pv
  ua_reason_codes :: pv

record provider_usage =
  us_id :: string
  us_reservation_id :: string
  us_policy_id :: string
  us_run_id :: string
  us_call_id :: string
  us_provider :: string
  us_model :: string
  us_request_hash :: string
  us_response_hash :: string
  us_input :: int
  us_output :: int
  us_estimated :: rat
  us_actual :: "rat option"
  us_started_at :: string
  us_completed_at :: string
  us_latency_ms :: int
  us_attempts :: int
  us_outcome :: string
  us_reconciliation :: string
  us_failure :: string
  us_reasons :: "string list"
  us_identity :: string

definition usage_doc :: "provider_usage \<Rightarrow> pv" where
  "usage_doc u = PDict [
     (''schema_version'', PStr ''phase11-provider-usage-v1''),
     (''usage_record_id'', PStr (us_id u)),
     (''reservation_id'', PStr (us_reservation_id u)),
     (''policy_id'', PStr (us_policy_id u)),
     (''run_id'', PStr (us_run_id u)),
     (''call_id'', PStr (us_call_id u)),
     (''provider'', PStr (us_provider u)),
     (''model'', PStr (us_model u)),
     (''request_hash'', PStr (us_request_hash u)),
     (''response_hash'', PStr (us_response_hash u)),
     (''input_tokens'', PInt (us_input u)),
     (''output_tokens'', PInt (us_output u)),
     (''estimated_cost'', PReal (us_estimated u)),
     (''actual_cost'', (case us_actual u of None \<Rightarrow> PNone | Some c \<Rightarrow> PReal c)),
     (''started_at'', PStr (us_started_at u)),
     (''completed_at'', PStr (us_completed_at u)),
     (''latency_ms'', PInt (us_latency_ms u)),
     (''attempt_count'', PInt (us_attempts u)),
     (''outcome'', PStr (us_outcome u)),
     (''reconciliation_status'', PStr (us_reconciliation u)),
     (''failure_class'', PStr (us_failure u)),
     (''reason_codes'', texts_doc (us_reasons u))]"

text \<open>\<open>None if self.actual_cost is None else _money(...)\<close>\<close>

definition optional_amount :: "string \<Rightarrow> amount option \<Rightarrow> (string, rat option) result" where
  "optional_amount label a =
    (case a of None \<Rightarrow> Inr None | Some b \<Rightarrow> and_then (amount_in label False b) (\<lambda>c. Inr (Some c)))"

definition make_usage :: "(pv \<Rightarrow> string) \<Rightarrow> usage_args \<Rightarrow> (string, provider_usage) result" where
  "make_usage digest a =
    (if ua_schema_version a \<noteq> PStr ''phase11-provider-usage-v1'' then Inl ''schema_version is unsupported''
     else if \<not> is_text_in budget_identifier (ua_usage_record_id a) then Inl ''usage_record_id is invalid''
     else if \<not> is_text_in budget_identifier (ua_reservation_id a) then Inl ''reservation_id is invalid''
     else if \<not> is_text_in budget_identifier (ua_policy_id a) then Inl ''policy_id is invalid''
     else if \<not> is_text_in budget_identifier (ua_run_id a) then Inl ''run_id is invalid''
     else if \<not> is_text_in budget_identifier (ua_call_id a) then Inl ''call_id is invalid''
     else if \<not> is_text_in budget_identifier (ua_provider a) then Inl ''provider is invalid''
     else if \<not> is_text_in budget_identifier (ua_model a) then Inl ''model is invalid''
     else if \<not> is_sha256 (ua_request_hash a) then Inl ''request_hash must be lowercase SHA-256''
     else if \<not> is_sha256 (ua_response_hash a) then Inl ''response_hash must be lowercase SHA-256''
     else if \<not> is_nat_int (ua_input_tokens a) then Inl ''input_tokens must be a non-negative integer''
     else if \<not> is_nat_int (ua_output_tokens a) then Inl ''output_tokens must be a non-negative integer''
     else and_then (amount_in ''estimated_cost'' False (ua_estimated_cost a)) (\<lambda>estimated.
     and_then (optional_amount ''actual_cost'' (ua_actual_cost a)) (\<lambda>actual.
     and_then (timestamp ''started_at'' (ua_started_at a)) (\<lambda>started_at.
     and_then (timestamp ''completed_at'' (ua_completed_at a)) (\<lambda>completed_at.
     if parsed completed_at < parsed started_at then Inl ''completed_at is earlier than started_at''
     else if \<not> is_nat_int (ua_latency_ms a) then Inl ''latency_ms must be a non-negative integer''
     else if \<not> positive_int (ua_attempt_count a) then Inl ''attempt_count must be a positive integer''
     else if \<not> is_text_in (\<lambda>s. s \<in> set usage_outcomes) (ua_outcome a) then Inl ''outcome is unsupported''
     else if \<not> is_text_in (\<lambda>s. s \<in> set reconciliation_statuses) (ua_reconciliation_status a)
     then Inl ''reconciliation_status is unsupported''
     else if \<not> is_text_in (\<lambda>s. s \<in> set failure_classes) (ua_failure_class a)
     then Inl ''failure_class is unsupported''
     else if ua_outcome a = PStr ''SUCCESS'' \<and> actual = None
     then Inl ''successful usage requires actual_cost''
     else and_then (reason_codes_in ''reason_codes'' True (ua_reason_codes a)) (\<lambda>reasons.
     (let u = \<lparr>
        us_id = the_str (ua_usage_record_id a), us_reservation_id = the_str (ua_reservation_id a),
        us_policy_id = the_str (ua_policy_id a), us_run_id = the_str (ua_run_id a),
        us_call_id = the_str (ua_call_id a), us_provider = the_str (ua_provider a),
        us_model = the_str (ua_model a), us_request_hash = the_str (ua_request_hash a),
        us_response_hash = the_str (ua_response_hash a), us_input = the_int (ua_input_tokens a),
        us_output = the_int (ua_output_tokens a), us_estimated = estimated, us_actual = actual,
        us_started_at = started_at, us_completed_at = completed_at,
        us_latency_ms = the_int (ua_latency_ms a), us_attempts = the_int (ua_attempt_count a),
        us_outcome = the_str (ua_outcome a), us_reconciliation = the_str (ua_reconciliation_status a),
        us_failure = the_str (ua_failure_class a), us_reasons = reasons, us_identity = []\<rparr>
      in Inr (u\<lparr>us_identity := hash_mapping digest (usage_doc u)\<rparr>))))))))"

text \<open>The answer to a question for authorization.\<close>

record authorization =
  au_allowed :: bool
  au_failure :: string
  au_reservation_id :: "string option"

definition make_authorization :: "bool \<Rightarrow> string \<Rightarrow> string option \<Rightarrow> (string, authorization) result" where
  "make_authorization allowed failure reservation_id =
    (if failure \<notin> set failure_classes then Inl ''failure_class is unsupported''
     else if \<not> opt_all budget_identifier reservation_id then Inl ''reservation_id is invalid''
     else if allowed \<and> failure \<noteq> ''NONE'' then Inl ''allowed result must use NONE''
     else if \<not> allowed \<and> failure = ''NONE'' then Inl ''denied result requires a failure class''
     else Inr \<lparr>au_allowed = allowed, au_failure = failure, au_reservation_id = reservation_id\<rparr>)"

section \<open>The ledger\<close>

record budget_ledger =
  bl_policy :: budget_policy
  bl_ledger_id :: string
  bl_sequence :: int
  bl_reservations :: "reservation list"
  bl_usages :: "provider_usage list"
  bl_released :: "string list"
  bl_state :: string
  bl_updated_at :: "string option"
  bl_committed_cost :: rat
  bl_reserved_cost :: rat
  bl_committed_input :: int
  bl_committed_output :: int
  bl_call_count :: int
  bl_identity :: string

text \<open>Usage that settles its reservation, and the reservations that still hold their budget.\<close>

definition settled :: "provider_usage \<Rightarrow> bool" where
  "settled u = (us_actual u \<noteq> None \<and> us_reconciliation u \<in> {''RESOLVED'', ''RELEASED''})"

definition actual_cost :: "provider_usage \<Rightarrow> rat" where
  "actual_cost u = (case us_actual u of None \<Rightarrow> 0 | Some c \<Rightarrow> c)"

definition holding ::
  "reservation list \<Rightarrow> provider_usage list \<Rightarrow> string list \<Rightarrow> reservation list" where
  "holding reservations usages released =
    filter (\<lambda>r. re_id r \<notin> set released \<and> re_id r \<notin> us_reservation_id ` set (filter settled usages))
      reservations"

abbreviation active_reservations :: "budget_ledger \<Rightarrow> reservation list" where
  "active_reservations l \<equiv> holding (bl_reservations l) (bl_usages l) (bl_released l)"

definition ledger_identity :: "(pv \<Rightarrow> string) \<Rightarrow> budget_ledger \<Rightarrow> string" where
  "ledger_identity digest l = hash_mapping digest (PDict [
     (''schema_version'', PStr ''phase11-budget-ledger-v1''),
     (''ledger_id'', PStr (bl_ledger_id l)),
     (''policy_identity'', PStr (bp_identity (bl_policy l))),
     (''sequence'', PInt (bl_sequence l)),
     (''reservations'', texts_doc (map re_identity (bl_reservations l))),
     (''usage_records'', texts_doc (map us_identity (bl_usages l))),
     (''released_reservations'', texts_doc (bl_released l)),
     (''committed_cost'', PReal (bl_committed_cost l)),
     (''reserved_cost'', PReal (bl_reserved_cost l)),
     (''committed_input_tokens'', PInt (bl_committed_input l)),
     (''committed_output_tokens'', PInt (bl_committed_output l)),
     (''total_call_count'', PInt (bl_call_count l)),
     (''circuit_or_stop_state'', PStr (bl_state l)),
     (''updated_at'', str_or_none (bl_updated_at l))])"

definition optional_stamp :: "string \<Rightarrow> stamp option \<Rightarrow> (string, string option) result" where
  "optional_stamp label a =
    (case a of None \<Rightarrow> Inr None | Some b \<Rightarrow> and_then (timestamp label b) (\<lambda>s. Inr (Some s)))"

text \<open>The check of the released ids, in their order: each an identifier that is known.\<close>

definition unlisted :: "string set \<Rightarrow> string list \<Rightarrow> string option" where
  "unlisted known released =
    (case find (\<lambda>i. \<not> budget_identifier i \<or> i \<notin> known) (sort released) of
       None \<Rightarrow> None
     | Some i \<Rightarrow> Some (if budget_identifier i then ''released_reservations contains an unknown identity''
         else ''released_reservations is invalid''))"

text \<open>The derived values of a ledger.\<close>

definition derived_ledger ::
  "(pv \<Rightarrow> string) \<Rightarrow> budget_policy \<Rightarrow> string \<Rightarrow> int \<Rightarrow> reservation list \<Rightarrow> provider_usage list \<Rightarrow>
    string list \<Rightarrow> string \<Rightarrow> string option \<Rightarrow> budget_ledger" where
  "derived_ledger digest policy ledger_id sequence reservations usages released state updated_at =
    (let committed = filter settled usages;
         active = holding reservations usages released;
         l = \<lparr>
           bl_policy = policy, bl_ledger_id = ledger_id, bl_sequence = sequence,
           bl_reservations = reservations, bl_usages = usages, bl_released = released,
           bl_state = state, bl_updated_at = updated_at,
           bl_committed_cost = sum_list (map actual_cost committed),
           bl_reserved_cost = sum_list (map re_cost active),
           bl_committed_input = sum_list (map us_input committed),
           bl_committed_output = sum_list (map us_output committed),
           bl_call_count = int (length reservations), bl_identity = []\<rparr>
     in l\<lparr>bl_identity := ledger_identity digest l\<rparr>)"

text \<open>\<open>BudgetLedgerV1.__post_init__\<close>\<close>

definition make_ledger ::
  "(pv \<Rightarrow> string) \<Rightarrow> budget_policy \<Rightarrow> string \<Rightarrow> pv \<Rightarrow> pv \<Rightarrow> reservation list \<Rightarrow> provider_usage list \<Rightarrow>
    string list \<Rightarrow> string \<Rightarrow> stamp option \<Rightarrow> (string, budget_ledger) result" where
  "make_ledger digest policy schema_version ledger_id sequence reservations usages released state updated_at =
    (if schema_version \<noteq> ''phase11-budget-ledger-v1'' then Inl ''schema_version is unsupported''
     else if \<not> is_nat_int sequence then Inl ''sequence must be a non-negative integer''
     else if \<not> distinct (map re_id reservations) then Inl ''reservations contains duplicate identities''
     else if \<not> distinct (map us_id usages) then Inl ''usage_records contains duplicate identities''
     else if \<not> distinct released then Inl ''released_reservations contains duplicates''
     else if unlisted (re_id ` set reservations) released \<noteq> None
     then Inl (the (unlisted (re_id ` set reservations) released))
     else if state \<notin> {''OPEN'', ''HARD_STOP'', ''RECONCILIATION_REQUIRED''}
     then Inl ''circuit_or_stop_state is unsupported''
     else and_then (optional_stamp ''updated_at'' updated_at) (\<lambda>updated.
     if ledger_id \<noteq> PNone \<and> \<not> is_sha256 ledger_id then Inl ''ledger_id must be lowercase SHA-256''
     else Inr (derived_ledger digest policy
       (if ledger_id = PNone
        then hash_mapping digest (PDict [(''schema_version'', PStr schema_version),
          (''policy_identity'', PStr (bp_identity policy))])
        else the_str ledger_id)
       (the_int sequence) reservations usages (sort released) state updated)))"

text \<open>\<open>BudgetLedgerV1(policy)\<close>, and \<open>_spawn\<close> with the values that change.\<close>

definition new_ledger :: "(pv \<Rightarrow> string) \<Rightarrow> budget_policy \<Rightarrow> (string, budget_ledger) result" where
  "new_ledger digest policy =
    make_ledger digest policy ''phase11-budget-ledger-v1'' PNone (PInt 0) [] [] [] ''OPEN'' None"

definition spawn ::
  "(pv \<Rightarrow> string) \<Rightarrow> budget_ledger \<Rightarrow> reservation list \<Rightarrow> provider_usage list \<Rightarrow> string list \<Rightarrow> string \<Rightarrow>
    string \<Rightarrow> (string, budget_ledger) result" where
  "spawn digest l reservations usages released state updated_at =
    make_ledger digest (bl_policy l) ''phase11-budget-ledger-v1'' (PStr (bl_ledger_id l))
      (PInt (bl_sequence l + 1)) reservations usages released state (Some (Text updated_at))"

text \<open>\<open>_committed_for\<close> and \<open>_reserved_for\<close>: what a provider, a model or a run has spent and holds;
  None places no condition.\<close>

definition concerns ::
  "string option \<Rightarrow> string option \<Rightarrow> string option \<Rightarrow> string \<Rightarrow> string \<Rightarrow> string \<Rightarrow> bool" where
  "concerns provider model run_id p m r =
    (opt_all (\<lambda>x. p = x) provider \<and> opt_all (\<lambda>x. m = x) model \<and> opt_all (\<lambda>x. r = x) run_id)"

definition committed_for ::
  "budget_ledger \<Rightarrow> string option \<Rightarrow> string option \<Rightarrow> string option \<Rightarrow> rat" where
  "committed_for l provider model run_id = sum_list (map actual_cost
     (filter (\<lambda>u. settled u \<and> concerns provider model run_id (us_provider u) (us_model u) (us_run_id u))
        (bl_usages l)))"

definition reserved_for ::
  "budget_ledger \<Rightarrow> string option \<Rightarrow> string option \<Rightarrow> string option \<Rightarrow> rat" where
  "reserved_for l provider model run_id = sum_list (map re_cost
     (filter (\<lambda>r. concerns provider model run_id (re_provider r) (re_model r) (re_run_id r))
        (active_reservations l)))"

text \<open>The cap of a name; a constructed policy has one for every name of its vocabulary.\<close>

definition cap_of :: "(string \<times> rat) list \<Rightarrow> string \<Rightarrow> rat" where
  "cap_of caps k = (case map_of caps k of Some c \<Rightarrow> c | None \<Rightarrow> 0)"

section \<open>The operations of the ledger\<close>

definition same_call :: "reservation \<Rightarrow> reservation \<Rightarrow> bool" where
  "same_call r e = (re_id e = re_id r \<or> (re_run_id e = re_run_id r \<and> re_call_id e = re_call_id r))"

definition reserve_call ::
  "(pv \<Rightarrow> string) \<Rightarrow> budget_ledger \<Rightarrow> reservation \<Rightarrow> (string, budget_ledger) result" where
  "reserve_call digest l r =
    (case find (same_call r) (bl_reservations l) of
       Some e \<Rightarrow>
         if re_identity e = re_identity r then Inr l else Inl ''conflicting duplicate reservation''
     | None \<Rightarrow>
       (let p = bl_policy l;
            provider = Some (re_provider r); model = Some (re_model r); run = Some (re_run_id r);
            active = active_reservations l
        in if bl_state l \<noteq> ''OPEN'' then Inl ''hard stop prevents reservation''
           else if re_status r \<noteq> ''RESERVED'' then Inl ''reservation must be RESERVED''
           else if re_policy_id r \<noteq> bp_policy_id p then Inl ''reservation policy binding mismatch''
           else if re_provider r \<notin> set (bp_allowed_providers p) then Inl ''provider is not allowed''
           else if re_model r \<notin> set (bp_allowed_models p) then Inl ''model is not allowed''
           else if map_of model_provider (re_model r) \<noteq> Some (re_provider r)
           then Inl ''provider/model binding mismatch''
           else if \<not> (parsed (bp_starts_at p) \<le> parsed (re_reserved_at r)
               \<and> parsed (re_reserved_at r) < parsed (bp_ends_at p))
           then Inl ''reservation is outside policy window''
           else if parsed (bp_ends_at p) < parsed (re_expires_at r)
           then Inl ''reservation expiration exceeds policy window''
           else if bp_total_cap p < bl_committed_cost l + bl_reserved_cost l + re_cost r
           then Inl ''total cost cap exceeded''
           else if cap_of (bp_provider_caps p) (re_provider r)
               < committed_for l provider None None + reserved_for l provider None None + re_cost r
           then Inl ''provider cost cap exceeded''
           else if cap_of (bp_model_caps p) (re_model r)
               < committed_for l None model None + reserved_for l None model None + re_cost r
           then Inl ''model cost cap exceeded''
           else if bp_run_cap p
               < committed_for l None None run + reserved_for l None None run + re_cost r
           then Inl ''per-run cost cap exceeded''
           else if bp_max_calls p < bl_call_count l + 1 then Inl ''call count cap exceeded''
           else if bp_max_run_calls p
               < int (length (filter (\<lambda>e. re_run_id e = re_run_id r) (bl_reservations l))) + 1
           then Inl ''per-run call count cap exceeded''
           else if bp_max_call_tokens p < re_input r + re_output r then Inl ''per-call token cap exceeded''
           else if bp_max_input p < bl_committed_input l + sum_list (map re_input active) + re_input r
           then Inl ''input token cap exceeded''
           else if bp_max_output p < bl_committed_output l + sum_list (map re_output active) + re_output r
           then Inl ''output token cap exceeded''
           else spawn digest l (bl_reservations l @ [r]) (bl_usages l) (bl_released l) (bl_state l)
             (re_reserved_at r)))"

definition evaluate_call_authorization ::
  "budget_ledger \<Rightarrow> pv \<Rightarrow> pv \<Rightarrow> pv \<Rightarrow> pv \<Rightarrow> (string, authorization) result" where
  "evaluate_call_authorization l provider model run_id call_id =
    (if \<not> is_text_in budget_identifier provider then Inl ''provider is invalid''
     else if \<not> is_text_in budget_identifier model then Inl ''model is invalid''
     else if \<not> is_text_in budget_identifier run_id then Inl ''run_id is invalid''
     else if \<not> is_text_in budget_identifier call_id then Inl ''call_id is invalid''
     else if bp_status (bl_policy l) \<noteq> ''ACTIVE'' then make_authorization False ''POLICY_INACTIVE'' None
     else if bp_approval (bl_policy l) = None
     then make_authorization False ''OWNER_APPROVAL_MISSING'' None
     else if bl_state l \<noteq> ''OPEN'' then make_authorization False ''HARD_STOP_ACTIVE'' None
     else if the_str provider \<notin> set (bp_allowed_providers (bl_policy l))
     then make_authorization False ''PROVIDER_NOT_ALLOWED'' None
     else if the_str model \<notin> set (bp_allowed_models (bl_policy l))
         \<or> map_of model_provider (the_str model) \<noteq> Some (the_str provider)
     then make_authorization False ''MODEL_NOT_ALLOWED'' None
     else
       (case find (\<lambda>r. re_provider r = the_str provider \<and> re_model r = the_str model
            \<and> re_run_id r = the_str run_id \<and> re_call_id r = the_str call_id \<and> re_status r = ''RESERVED'')
          (active_reservations l) of
          Some r \<Rightarrow> make_authorization True ''NONE'' (Some (re_id r))
        | None \<Rightarrow> make_authorization False ''RESERVATION_NOT_FOUND'' None))"

definition bound_usage :: "budget_ledger \<Rightarrow> provider_usage \<Rightarrow> (string, reservation) result" where
  "bound_usage l u =
    (case find (\<lambda>r. re_id r = us_reservation_id u) (bl_reservations l) of
       None \<Rightarrow> Inl ''reservation not found''
     | Some r \<Rightarrow>
         if re_policy_id r \<noteq> us_policy_id u \<or> re_run_id r \<noteq> us_run_id u \<or> re_call_id r \<noteq> us_call_id u
             \<or> re_provider r \<noteq> us_provider u \<or> re_model r \<noteq> us_model u
         then Inl ''usage binding mismatch'' else Inr r)"

text \<open>The checks \<open>commit_usage\<close> and \<open>reconcile_uncertain_usage\<close> share.\<close>

definition unused_reservation ::
  "string \<Rightarrow> budget_ledger \<Rightarrow> provider_usage \<Rightarrow> (string, reservation) result" where
  "unused_reservation verb l u =
    (if us_id u \<in> us_id ` set (bl_usages l) then Inl ''duplicate usage commit''
     else and_then (bound_usage l u) (\<lambda>r.
     if re_id r \<in> set (bl_released l) then Inl (''released reservation cannot '' @ verb)
     else if re_id r \<in> us_reservation_id ` set (bl_usages l) then Inl ''reservation already has usage''
     else Inr r))"

definition commit_usage ::
  "(pv \<Rightarrow> string) \<Rightarrow> budget_ledger \<Rightarrow> provider_usage \<Rightarrow> (string, budget_ledger) result" where
  "commit_usage digest l u =
    and_then (unused_reservation ''commit'' l u) (\<lambda>r.
      if us_outcome u \<noteq> ''SUCCESS'' \<or> us_reconciliation u \<noteq> ''RESOLVED''
      then Inl ''ordinary commit requires resolved success''
      else if us_actual u = None \<or> re_cost r < actual_cost u then Inl ''usage exceeds reservation''
      else if re_cost r < us_estimated u then Inl ''estimated usage exceeds reservation''
      else if re_input r < us_input u then Inl ''input usage exceeds reservation''
      else if re_output r < us_output u then Inl ''output usage exceeds reservation''
      else if parsed (us_started_at u) < parsed (re_reserved_at r) then Inl ''usage starts before reservation''
      else if parsed (re_expires_at r) < parsed (us_completed_at u)
      then Inl ''reservation expired before completion''
      else spawn digest l (bl_reservations l) (bl_usages l @ [u]) (bl_released l) (bl_state l)
        (us_completed_at u))"

definition release_reservation ::
  "(pv \<Rightarrow> string) \<Rightarrow> budget_ledger \<Rightarrow> pv \<Rightarrow> (string, budget_ledger) result" where
  "release_reservation digest l reservation_id =
    (if \<not> is_text_in budget_identifier reservation_id then Inl ''reservation_id is invalid''
     else
       (case find (\<lambda>r. re_id r = the_str reservation_id) (bl_reservations l) of
          None \<Rightarrow> Inl ''reservation not found''
        | Some r \<Rightarrow>
            if the_str reservation_id \<in> set (bl_released l) then Inr l
            else if the_str reservation_id \<in> us_reservation_id ` set (bl_usages l)
            then Inl ''reservation with usage cannot be released''
            else spawn digest l (bl_reservations l) (bl_usages l)
              (bl_released l @ [the_str reservation_id]) (bl_state l) (re_reserved_at r)))"

definition reconcile_uncertain_usage ::
  "(pv \<Rightarrow> string) \<Rightarrow> budget_ledger \<Rightarrow> provider_usage \<Rightarrow> (string, budget_ledger) result" where
  "reconcile_uncertain_usage digest l u =
    and_then (unused_reservation ''reconcile'' l u) (\<lambda>r.
      if us_actual u \<noteq> None \<or> us_reconciliation u \<noteq> ''RECONCILIATION_REQUIRED''
          \<or> us_failure u \<noteq> ''UNCERTAIN_TRANSPORT_OUTCOME''
          \<or> us_outcome u \<notin> {''TIMEOUT'', ''TRANSPORT_FAILURE''}
      then Inl ''usage is not an uncertain outcome''
      else spawn digest l (bl_reservations l) (bl_usages l @ [u]) (bl_released l)
        ''RECONCILIATION_REQUIRED'' (us_completed_at u))"

definition activate_hard_stop ::
  "(pv \<Rightarrow> string) \<Rightarrow> budget_ledger \<Rightarrow> string \<Rightarrow> (string, budget_ledger) result" where
  "activate_hard_stop digest l reason =
    (if reason \<notin> set (bp_stop_conditions (bl_policy l)) then Inl ''hard-stop reason is unsupported''
     else if bl_state l = ''HARD_STOP'' then Inr l
     else spawn digest l (bl_reservations l) (bl_usages l) (bl_released l) ''HARD_STOP''
       (case bl_updated_at l of None \<Rightarrow> bp_starts_at (bl_policy l) | Some s \<Rightarrow> s))"

definition clear_hard_stop :: "budget_ledger \<Rightarrow> (string, budget_ledger) result" where
  "clear_hard_stop l = Inl ''hard stop cannot reopen under the same policy''"

text \<open>The fixed reservations of a route; \<open>route.lower()\<close> on the routes that exist.\<close>

definition fixed_reservation ::
  "budget_ledger \<Rightarrow> string \<Rightarrow> string \<Rightarrow> string \<Rightarrow> string \<Rightarrow> string \<Rightarrow> string \<Rightarrow> reservation_args" where
  "fixed_reservation l reservation_id run_id call_id provider model reason = \<lparr>
     ra_schema_version = PStr ''phase11-budget-reservation-v1'',
     ra_reservation_id = PStr reservation_id, ra_policy_id = PStr (bp_policy_id (bl_policy l)),
     ra_run_id = PStr run_id, ra_call_id = PStr call_id, ra_provider = PStr provider,
     ra_model = PStr model, ra_reserved_cost = Finite 1000, ra_reserved_input_tokens = PInt 1,
     ra_reserved_output_tokens = PInt 1, ra_reserved_at = Text (bp_starts_at (bl_policy l)),
     ra_expires_at = Text (bp_ends_at (bl_policy l)), ra_status = PStr ''RESERVED'',
     ra_reason_codes = PList [PStr reason]\<rparr>"

definition route_reservation ::
  "(pv \<Rightarrow> string) \<Rightarrow> budget_ledger \<Rightarrow> string \<Rightarrow> string \<Rightarrow> string \<Rightarrow> string \<Rightarrow> string \<Rightarrow> string \<Rightarrow>
    (string, reservation) result" where
  "route_reservation digest l route run_id call_id provider model suffix =
    make_reservation digest (fixed_reservation l
      (''route-'' @ map folded route @ ''-'' @ call_id @ ''-'' @ suffix) run_id (call_id @ ''-'' @ suffix)
      provider model (route @ ''_ROUTE''))"

definition reserve_on_route ::
  "(pv \<Rightarrow> string) \<Rightarrow> budget_ledger \<Rightarrow> string \<Rightarrow> string \<Rightarrow> string \<Rightarrow> string \<Rightarrow> string \<Rightarrow> string \<Rightarrow>
    (string, budget_ledger) result" where
  "reserve_on_route digest l route run_id call_id provider model suffix =
    and_then (route_reservation digest l route run_id call_id provider model suffix)
      (reserve_call digest l)"

definition reserve_route ::
  "(pv \<Rightarrow> string) \<Rightarrow> budget_ledger \<Rightarrow> string \<Rightarrow> pv \<Rightarrow> pv \<Rightarrow> (string, budget_ledger) result" where
  "reserve_route digest l route run_id call_id =
    (if \<not> is_text_in budget_identifier run_id then Inl ''run_id is invalid''
     else if \<not> is_text_in budget_identifier call_id then Inl ''call_id is invalid''
     else if route \<notin> {''L0'', ''L1'', ''L2''} then Inl ''route is unsupported''
     else and_then (reserve_on_route digest l route (the_str run_id) (the_str call_id)
         ''DEEPSEEK'' ''DEEPSEEK_PRIMARY'' ''deepseek'') (\<lambda>k.
     if route = ''L1''
     then reserve_on_route digest k route (the_str run_id) (the_str call_id)
       ''ANTHROPIC'' ''CLAUDE_SONNET_L1'' ''sonnet''
     else if route = ''L2''
     then reserve_on_route digest k route (the_str run_id) (the_str call_id)
       ''ANTHROPIC'' ''CLAUDE_OPUS_L2'' ''opus''
     else Inr k))"

definition reserve_escalation ::
  "(pv \<Rightarrow> string) \<Rightarrow> budget_ledger \<Rightarrow> string \<Rightarrow> pv \<Rightarrow> (string, budget_ledger) result" where
  "reserve_escalation digest l route call_id =
    (if \<not> is_text_in budget_identifier call_id then Inl ''call_id is invalid''
     else if route \<noteq> ''L1_TO_L2'' then Inl ''escalation route is unsupported''
     else
       (case find (\<lambda>r. re_model r = ''CLAUDE_SONNET_L1'') (active_reservations l) of
          None \<Rightarrow> Inl ''L1 reservation is required before escalation''
        | Some first \<Rightarrow>
            and_then (make_reservation digest (fixed_reservation l
                (''route-l1-to-l2-'' @ the_str call_id @ ''-opus'') (re_run_id first)
                (the_str call_id @ ''-opus'') ''ANTHROPIC'' ''CLAUDE_OPUS_L2'' ''L1_TO_L2''))
              (reserve_call digest l)))"

section \<open>Calls of the ledger\<close>

text \<open>Every way a client obtains the next ledger, the records built from their arguments.\<close>

datatype budget_call =
    Reserve reservation_args
  | Reserve_Route string pv pv
  | Reserve_Escalation string pv
  | Commit usage_args
  | Release pv
  | Reconcile usage_args
  | Hard_Stop string
  | Clear_Hard_Stop

fun budget_step ::
  "(pv \<Rightarrow> string) \<Rightarrow> budget_ledger \<Rightarrow> budget_call \<Rightarrow> (string, budget_ledger) result" where
  "budget_step digest l (Reserve a) = and_then (make_reservation digest a) (reserve_call digest l)"
| "budget_step digest l (Reserve_Route route run_id call_id) = reserve_route digest l route run_id call_id"
| "budget_step digest l (Reserve_Escalation route call_id) = reserve_escalation digest l route call_id"
| "budget_step digest l (Commit a) = and_then (make_usage digest a) (commit_usage digest l)"
| "budget_step digest l (Release reservation_id) = release_reservation digest l reservation_id"
| "budget_step digest l (Reconcile a) = and_then (make_usage digest a) (reconcile_uncertain_usage digest l)"
| "budget_step digest l (Hard_Stop reason) = activate_hard_stop digest l reason"
| "budget_step digest l Clear_Hard_Stop = clear_hard_stop l"

text \<open>A \<open>datetime\<close> argument is a valid moment.\<close>

fun call_ok :: "budget_call \<Rightarrow> bool" where
  "call_ok (Reserve a) = (stamp_ok (ra_reserved_at a) \<and> stamp_ok (ra_expires_at a))"
| "call_ok (Commit a) = (stamp_ok (ua_started_at a) \<and> stamp_ok (ua_completed_at a))"
| "call_ok (Reconcile a) = (stamp_ok (ua_started_at a) \<and> stamp_ok (ua_completed_at a))"
| "call_ok _ = True"

definition policy_stamps_ok :: "policy_args \<Rightarrow> bool" where
  "policy_stamps_ok a = (stamp_ok (pa_starts_at a) \<and> stamp_ok (pa_ends_at a))"

text \<open>The ledgers that calls lead to from one ledger, and those of a policy.\<close>

inductive budget_calls :: "(pv \<Rightarrow> string) \<Rightarrow> budget_ledger \<Rightarrow> budget_ledger \<Rightarrow> bool" for digest where
  no_call: "budget_calls digest l l"
| next_call: "budget_calls digest l l' \<Longrightarrow> call_ok c \<Longrightarrow> budget_step digest l' c = Inr l'' \<Longrightarrow>
    budget_calls digest l l''"

definition reachable_budget :: "(pv \<Rightarrow> string) \<Rightarrow> budget_ledger \<Rightarrow> bool" where
  "reachable_budget digest l =
    (\<exists>a p start. policy_stamps_ok a \<and> make_budget_policy digest a = Inr p \<and>
       new_ledger digest p = Inr start \<and> budget_calls digest start l)"

end
