(* ===== verification/Budget_Facts.thy ===== *)
theory Budget_Facts
  imports Budget_Control
begin

text \<open>
  What the constructors of the budget guarantee, the moves its operations are made of, and the
  metering of a ledger: the locale \<open>meter\<close> shows once, for any charge of a used and of a reserved
  call, that only a reservation raises what a ledger is exposed to, and the costs and tokens of the
  code are its interpretations.
\<close>

section \<open>Constructed records\<close>

lemma is_text_in_str: "is_text_in P v \<Longrightarrow> P (the_str v)"
  by (cases v) (simp_all add: is_text_in_def)

lemma amount_in_nonneg: "amount_in label positive a = Inr x \<Longrightarrow> 0 \<le> x"
  "amount_in label True a = Inr x \<Longrightarrow> 0 < x"
  by (auto simp: amount_in_def split: amount.splits if_splits)

lemma positive_int_the: "positive_int v \<Longrightarrow> 0 < the_int v"
  by (cases v) (simp_all add: positive_int_def)

definition reservation_ok :: "reservation \<Rightarrow> bool" where
  "reservation_ok r = (budget_identifier (re_id r) \<and> 0 < re_cost r \<and> 0 < re_input r \<and> 0 < re_output r \<and>
     canonical_stamp (re_reserved_at r) \<and> canonical_stamp (re_expires_at r) \<and>
     parsed (re_reserved_at r) < parsed (re_expires_at r))"

lemma make_reservation_ok:
  assumes "make_reservation digest a = Inr r" "stamp_ok (ra_reserved_at a)" "stamp_ok (ra_expires_at a)"
  shows "reservation_ok r"
  using assms unfolding make_reservation_def inr_convs Let_def
  by (auto simp: reservation_ok_def not_le intro: is_text_in_str amount_in_nonneg positive_int_the
      dest: timestamp_canonical)

definition usage_ok :: "provider_usage \<Rightarrow> bool" where
  "usage_ok u = (0 \<le> actual_cost u \<and> 0 \<le> us_input u \<and> 0 \<le> us_output u \<and>
     canonical_stamp (us_completed_at u))"

lemma optional_amount_nonneg: "optional_amount label a = Inr x \<Longrightarrow> 0 \<le> (case x of None \<Rightarrow> 0 | Some c \<Rightarrow> c)"
  unfolding optional_amount_def
  by (auto split: option.splits simp: inr_convs dest: amount_in_nonneg)

lemma make_usage_ok:
  assumes "make_usage digest a = Inr u" "stamp_ok (ua_completed_at a)"
  shows "usage_ok u"
  using assms unfolding make_usage_def inr_convs Let_def
  by (auto simp: usage_ok_def actual_cost_def intro: str_pred_dest
      dest: timestamp_canonical optional_amount_nonneg)

definition caps_ok :: "string list \<Rightarrow> (string \<times> rat) list \<Rightarrow> bool" where
  "caps_ok keys caps = (fst ` set caps = set keys \<and> (\<forall>k. 0 \<le> cap_of caps k))"

definition policy_ok :: "budget_policy \<Rightarrow> bool" where
  "policy_ok p = (0 \<le> bp_total_cap p \<and> 0 \<le> bp_run_cap p \<and>
     caps_ok providers (bp_provider_caps p) \<and> caps_ok models (bp_model_caps p) \<and>
     0 < bp_max_calls p \<and> 0 < bp_max_run_calls p \<and> 0 < bp_max_input p \<and> 0 < bp_max_output p \<and>
     canonical_stamp (bp_starts_at p) \<and> canonical_stamp (bp_ends_at p))"

lemma cap_items_ok:
  "cap_items label d ks = Inr cs \<Longrightarrow> map fst cs = ks \<and> (\<forall>k. 0 \<le> cap_of cs k)"
proof (induction ks arbitrary: cs)
  case Nil
  then show ?case by (simp add: cap_of_def)
next
  case (Cons k ks)
  then obtain c cs' where "amount_in (label @ ''.'' @ k) False (the (map_of d k)) = Inr c"
    "cap_items label d ks = Inr cs'" "cs = (k, c) # cs'"
    by (auto split: sum.splits)
  then show ?case
    using Cons.IH [of cs'] amount_in_nonneg(1) by (auto simp: cap_of_def)
qed

lemma cap_map_ok: "cap_map label keys m = Inr cs \<Longrightarrow> caps_ok keys cs"
  unfolding cap_map_def
  by (auto simp: caps_ok_def dest!: cap_items_ok split: option.splits if_splits)
    (metis image_eqI fst_conv list.set_map set_sort)+

lemma make_budget_policy_ok:
  assumes "make_budget_policy digest a = Inr p" "policy_stamps_ok a"
  shows "policy_ok p"
  using assms unfolding make_budget_policy_def inr_convs Let_def
  by (auto simp: policy_ok_def policy_stamps_ok_def intro: positive_int_the
      dest: amount_in_nonneg cap_map_ok timestamp_canonical)

section \<open>Constructed ledgers\<close>

definition ledger_sums :: "budget_ledger \<Rightarrow> bool" where
  "ledger_sums l = (
     bl_committed_cost l = sum_list (map actual_cost (filter settled (bl_usages l))) \<and>
     bl_reserved_cost l = sum_list (map re_cost (active_reservations l)) \<and>
     bl_committed_input l = sum_list (map us_input (filter settled (bl_usages l))) \<and>
     bl_committed_output l = sum_list (map us_output (filter settled (bl_usages l))) \<and>
     bl_call_count l = int (length (bl_reservations l)))"

lemma holding_sort [simp]: "holding rs us (sort rel) = holding rs us rel"
  by (simp add: holding_def)

lemma optional_stamp_dest:
  assumes "optional_stamp label t = Inr s"
  shows "opt_all (\<lambda>a. timestamp label a = Inr (the s)) t" "t = None \<longleftrightarrow> s = None"
  using assms by (auto simp: optional_stamp_def inr_convs split: option.splits)

lemma derived_ledger_sel [simp]:
  "bl_policy (derived_ledger digest p i n rs us rel state t) = p"
  "bl_ledger_id (derived_ledger digest p i n rs us rel state t) = i"
  "bl_sequence (derived_ledger digest p i n rs us rel state t) = n"
  "bl_reservations (derived_ledger digest p i n rs us rel state t) = rs"
  "bl_usages (derived_ledger digest p i n rs us rel state t) = us"
  "bl_released (derived_ledger digest p i n rs us rel state t) = rel"
  "bl_state (derived_ledger digest p i n rs us rel state t) = state"
  "bl_updated_at (derived_ledger digest p i n rs us rel state t) = t"
  by (simp_all add: derived_ledger_def Let_def)

lemma derived_ledger_sums [simp]: "ledger_sums (derived_ledger digest p i n rs us rel state t)"
  by (simp add: derived_ledger_def ledger_sums_def Let_def)

lemma make_ledger_dest:
  assumes "make_ledger digest p schema i n rs us rel state t = Inr l"
  obtains i' s where "l = derived_ledger digest p i' (the_int n) rs us (sort rel) state s"
    "i \<noteq> PNone \<Longrightarrow> PStr i' = i" "i = PNone \<Longrightarrow> hex_digest digest \<Longrightarrow> sha256_string i'"
    "opt_all (\<lambda>a. timestamp ''updated_at'' a = Inr (the s)) t" "t = None \<longleftrightarrow> s = None"
    "distinct (map re_id rs)" "distinct (map us_id us)" "distinct rel"
proof -
  obtain s where s: "optional_stamp ''updated_at'' t = Inr s" "i = PNone \<or> is_sha256 i"
    "distinct (map re_id rs)" "distinct (map us_id us)" "distinct rel"
    and l: "derived_ledger digest p
       (if i = PNone
        then hash_mapping digest (PDict [(''schema_version'', PStr schema),
          (''policy_identity'', PStr (bp_identity p))])
        else the_str i) (the_int n) rs us (sort rel) state s = l"
    using assms unfolding make_ledger_def inr_convs by auto
  show ?thesis
    using s by (intro that [OF l [symmetric]])
      (auto simp: hex_digest_def hash_mapping_def dest: optional_stamp_dest)
qed

lemma unlisted_none:
  "unlisted known released = None \<longleftrightarrow> list_all (\<lambda>i. budget_identifier i \<and> i \<in> known) released"
proof -
  have "unlisted known released = None \<longleftrightarrow>
      find (\<lambda>i. \<not> budget_identifier i \<or> i \<notin> known) (sort released) = None"
    by (simp add: unlisted_def option.case_eq_if)
  then show ?thesis by (auto simp only: find_None_iff list_all_iff set_sort)
qed

lemma make_ledger_succeeds:
  assumes "is_nat_int n" "distinct (map re_id rs)" "distinct (map us_id us)" "distinct rel"
    "list_all (\<lambda>i. budget_identifier i \<and> i \<in> re_id ` set rs) rel"
    "state \<in> {''OPEN'', ''HARD_STOP'', ''RECONCILIATION_REQUIRED''}"
    "optional_stamp ''updated_at'' t = Inr s" "i = PNone \<or> is_sha256 i"
  shows "\<exists>l. make_ledger digest p ''phase11-budget-ledger-v1'' i n rs us rel state t = Inr l"
  using assms unlisted_none [of "re_id ` set rs" rel]
  by (auto simp: make_ledger_def and_then_def Let_def)

section \<open>The moves of a ledger\<close>

text \<open>What the cost caps count: what used calls cost and what held calls may cost, of one provider,
  model or run.\<close>

definition charge ::
  "string option \<Rightarrow> string option \<Rightarrow> string option \<Rightarrow> provider_usage \<Rightarrow> rat" where
  "charge p m r u = (if concerns p m r (us_provider u) (us_model u) (us_run_id u) then actual_cost u else 0)"

definition claim ::
  "string option \<Rightarrow> string option \<Rightarrow> string option \<Rightarrow> reservation \<Rightarrow> rat" where
  "claim p m r e = (if concerns p m r (re_provider e) (re_model e) (re_run_id e) then re_cost e else 0)"

definition exposure ::
  "(provider_usage \<Rightarrow> 'a::comm_monoid_add) \<Rightarrow> (reservation \<Rightarrow> 'a) \<Rightarrow> budget_ledger \<Rightarrow> 'a" where
  "exposure spent held l =
    sum_list (map spent (filter settled (bl_usages l))) + sum_list (map held (active_reservations l))"

abbreviation cost_of ::
  "string option \<Rightarrow> string option \<Rightarrow> string option \<Rightarrow> budget_ledger \<Rightarrow> rat" where
  "cost_of p m r \<equiv> exposure (charge p m r) (claim p m r)"

definition run_calls :: "budget_ledger \<Rightarrow> string \<Rightarrow> nat" where
  "run_calls l i = length (filter (\<lambda>e. re_run_id e = i) (bl_reservations l))"

lemma sum_list_filter_if:
  "sum_list (map f (filter P xs)) = sum_list (map (\<lambda>x. if P x then f x else (0::'a::comm_monoid_add)) xs)"
  by (induction xs) simp_all

lemma exposure_for:
  "committed_for l p m r + reserved_for l p m r = cost_of p m r l"
proof -
  have "committed_for l p m r = sum_list (map (charge p m r) (filter settled (bl_usages l)))"
    unfolding committed_for_def sum_list_filter_if
    by (intro arg_cong [where f = sum_list] map_cong refl) (simp add: charge_def)
  moreover have "reserved_for l p m r = sum_list (map (claim p m r) (active_reservations l))"
    unfolding reserved_for_def sum_list_filter_if
    by (intro arg_cong [where f = sum_list] map_cong refl) (simp add: claim_def)
  ultimately show ?thesis by (simp add: exposure_def)
qed

lemma unconditional [simp]: "charge None None None = actual_cost" "claim None None None = re_cost"
  by (simp_all add: fun_eq_iff charge_def claim_def concerns_def)

lemma found: "find P xs = Some x \<Longrightarrow> P x \<and> x \<in> set xs"
  by (induction xs) (auto split: if_splits)

text \<open>The conditions of a new reservation, in one formula.\<close>

definition admissible :: "budget_ledger \<Rightarrow> reservation \<Rightarrow> bool" where
  "admissible l r = (let p = bl_policy l in
     re_status r = ''RESERVED'' \<and> re_policy_id r = bp_policy_id p \<and>
     re_provider r \<in> set (bp_allowed_providers p) \<and> re_model r \<in> set (bp_allowed_models p) \<and>
     map_of model_provider (re_model r) = Some (re_provider r) \<and>
     parsed (bp_starts_at p) \<le> parsed (re_reserved_at r) \<and>
     parsed (re_reserved_at r) < parsed (bp_ends_at p) \<and>
     parsed (re_expires_at r) \<le> parsed (bp_ends_at p) \<and>
     cost_of None None None l + re_cost r \<le> bp_total_cap p \<and>
     cost_of (Some (re_provider r)) None None l + re_cost r \<le> cap_of (bp_provider_caps p) (re_provider r) \<and>
     cost_of None (Some (re_model r)) None l + re_cost r \<le> cap_of (bp_model_caps p) (re_model r) \<and>
     cost_of None None (Some (re_run_id r)) l + re_cost r \<le> bp_run_cap p \<and>
     int (length (bl_reservations l)) + 1 \<le> bp_max_calls p \<and>
     int (run_calls l (re_run_id r)) + 1 \<le> bp_max_run_calls p \<and>
     re_input r + re_output r \<le> bp_max_call_tokens p \<and>
     exposure us_input re_input l + re_input r \<le> bp_max_input p \<and>
     exposure us_output re_output l + re_output r \<le> bp_max_output p)"

definition bound_to :: "provider_usage \<Rightarrow> reservation \<Rightarrow> bool" where
  "bound_to u r = (us_reservation_id u = re_id r \<and> us_policy_id u = re_policy_id r \<and>
     us_run_id u = re_run_id r \<and> us_call_id u = re_call_id r \<and> us_provider u = re_provider r \<and>
     us_model u = re_model r)"

definition covered :: "provider_usage \<Rightarrow> reservation \<Rightarrow> bool" where
  "covered u r = (actual_cost u \<le> re_cost r \<and> us_input u \<le> re_input r \<and> us_output u \<le> re_output r)"

text \<open>A reservation that is neither released nor used.\<close>

definition unused :: "budget_ledger \<Rightarrow> reservation \<Rightarrow> bool" where
  "unused l r = (r \<in> set (bl_reservations l) \<and> re_id r \<notin> set (bl_released l) \<and>
     re_id r \<notin> us_reservation_id ` set (bl_usages l))"

inductive ledger_move :: "(pv \<Rightarrow> string) \<Rightarrow> budget_ledger \<Rightarrow> budget_ledger \<Rightarrow> bool" for digest l l' where
  hold: "\<lbrakk>reservation_ok r; find (same_call r) (bl_reservations l) = None; bl_state l = ''OPEN'';
     admissible l r;
     spawn digest l (bl_reservations l @ [r]) (bl_usages l) (bl_released l) (bl_state l)
       (re_reserved_at r) = Inr l'\<rbrakk> \<Longrightarrow> ledger_move digest l l'"
| settle: "\<lbrakk>usage_ok u; unused l r; bound_to u r; settled u; covered u r;
     spawn digest l (bl_reservations l) (bl_usages l @ [u]) (bl_released l) (bl_state l)
       (us_completed_at u) = Inr l'\<rbrakk> \<Longrightarrow> ledger_move digest l l'"
| doubt: "\<lbrakk>usage_ok u; unused l r; bound_to u r; \<not> settled u;
     spawn digest l (bl_reservations l) (bl_usages l @ [u]) (bl_released l)
       ''RECONCILIATION_REQUIRED'' (us_completed_at u) = Inr l'\<rbrakk> \<Longrightarrow> ledger_move digest l l'"
| free: "\<lbrakk>unused l r;
     spawn digest l (bl_reservations l) (bl_usages l) (bl_released l @ [re_id r]) (bl_state l)
       (re_reserved_at r) = Inr l'\<rbrakk> \<Longrightarrow> ledger_move digest l l'"
| stop: "\<lbrakk>bl_state l \<noteq> ''HARD_STOP'';
     spawn digest l (bl_reservations l) (bl_usages l) (bl_released l) ''HARD_STOP''
       (case bl_updated_at l of None \<Rightarrow> bp_starts_at (bl_policy l) | Some s \<Rightarrow> s) = Inr l'\<rbrakk>
     \<Longrightarrow> ledger_move digest l l'"

lemma spawn_dest:
  assumes "spawn digest l rs us rel state t = Inr l'"
  obtains s where "l' = derived_ledger digest (bl_policy l) (bl_ledger_id l) (bl_sequence l + 1)
      rs us (sort rel) state (Some s)" "timestamp ''updated_at'' (Text t) = Inr s"
    "distinct (map re_id rs)" "distinct (map us_id us)" "distinct rel"
  using assms unfolding spawn_def
  by (elim make_ledger_dest) (auto simp: opt_all_def)

section \<open>The operations are moves\<close>

lemma reserve_call_fresh:
  assumes "find (same_call r) (bl_reservations l) = None" "ledger_sums l"
  shows "reserve_call digest l r = Inr l' \<longleftrightarrow> bl_state l = ''OPEN'' \<and> admissible l r \<and>
    spawn digest l (bl_reservations l @ [r]) (bl_usages l) (bl_released l) (bl_state l)
      (re_reserved_at r) = Inr l'"
proof -
  have "bl_committed_cost l + bl_reserved_cost l = cost_of None None None l"
    "bl_committed_input l + sum_list (map re_input (active_reservations l)) = exposure us_input re_input l"
    "bl_committed_output l + sum_list (map re_output (active_reservations l)) = exposure us_output re_output l"
    using assms(2)
    by (simp_all add: ledger_sums_def exposure_def)
  moreover have "bl_call_count l = int (length (bl_reservations l))"
    using assms(2) by (simp add: ledger_sums_def)
  ultimately show ?thesis
    using assms(1)
    by (simp add: reserve_call_def inr_convs Let_def admissible_def exposure_for run_calls_def
        not_less not_le add1_zle_eq conj_ac)
qed

lemma reserve_call_move:
  assumes "reserve_call digest l r = Inr l'" "reservation_ok r" "ledger_sums l"
  shows "l' = l \<or> ledger_move digest l l'"
proof (cases "find (same_call r) (bl_reservations l)")
  case None
  then show ?thesis
    using assms reserve_call_fresh [OF None assms(3)] by (auto intro: ledger_move.hold)
next
  case (Some e)
  then show ?thesis using assms(1) by (simp add: reserve_call_def split: if_splits)
qed

lemma unused_reservation_dest:
  assumes "unused_reservation verb l u = Inr r"
  shows "unused l r" "bound_to u r"
  using assms unfolding unused_reservation_def bound_usage_def inr_convs
  by (auto simp: unused_def bound_to_def dest: found split: option.splits if_splits)

lemma commit_usage_move:
  assumes "commit_usage digest l u = Inr l'" "usage_ok u"
  shows "ledger_move digest l l'"
proof -
  from assms(1) obtain r where r: "unused_reservation ''commit'' l u = Inr r"
    and "settled u" "covered u r" and l': "spawn digest l (bl_reservations l) (bl_usages l @ [u])
      (bl_released l) (bl_state l) (us_completed_at u) = Inr l'"
    unfolding commit_usage_def inr_convs by (auto simp: settled_def covered_def)
  then show ?thesis
    using unused_reservation_dest [OF r] assms(2) by (auto intro: ledger_move.settle)
qed

lemma reconcile_move:
  assumes "reconcile_uncertain_usage digest l u = Inr l'" "usage_ok u"
  shows "ledger_move digest l l'"
proof -
  from assms(1) obtain r where r: "unused_reservation ''reconcile'' l u = Inr r"
    and "\<not> settled u" and l': "spawn digest l (bl_reservations l) (bl_usages l @ [u])
      (bl_released l) ''RECONCILIATION_REQUIRED'' (us_completed_at u) = Inr l'"
    unfolding reconcile_uncertain_usage_def inr_convs by (auto simp: settled_def)
  then show ?thesis
    using unused_reservation_dest [OF r] assms(2) by (auto intro: ledger_move.doubt)
qed

lemma release_move:
  assumes "release_reservation digest l i = Inr l'"
  shows "l' = l \<or> ledger_move digest l l'"
  using assms unfolding release_reservation_def
  by (auto split: if_splits option.splits dest!: found)
    (metis ledger_move.free unused_def)

lemma stop_move:
  "activate_hard_stop digest l reason = Inr l' \<Longrightarrow> l' = l \<or> ledger_move digest l l'"
  by (auto simp: activate_hard_stop_def split: if_splits intro: ledger_move.stop)

lemma ledger_move_dest:
  assumes "ledger_move digest l l'"
  shows "ledger_sums l'" "bl_policy l' = bl_policy l" "bl_ledger_id l' = bl_ledger_id l"
    "bl_sequence l' = bl_sequence l + 1"
    "\<exists>t s. timestamp ''updated_at'' (Text t) = Inr s \<and> bl_updated_at l' = Some s"
    "distinct (map re_id (bl_reservations l'))" "distinct (map us_id (bl_usages l'))"
    "distinct (bl_released l')"
  using assms by (cases; elim spawn_dest; auto)+

lemma made_reservation_moves:
  assumes "and_then (make_reservation digest a) (reserve_call digest l) = Inr l'" "ledger_sums l"
    "stamp_ok (ra_reserved_at a)" "stamp_ok (ra_expires_at a)"
  shows "(ledger_move digest)\<^sup>*\<^sup>* l l'"
  using assms reserve_call_move make_reservation_ok unfolding inr_convs by blast

lemma fixed_reservation_stamps:
  "stamp_ok (ra_reserved_at (fixed_reservation l i run call p m reason))"
  "stamp_ok (ra_expires_at (fixed_reservation l i run call p m reason))"
  by (simp_all add: fixed_reservation_def stamp_ok_def)

lemma moves_sums: "(ledger_move digest)\<^sup>*\<^sup>* l l' \<Longrightarrow> ledger_sums l \<Longrightarrow> ledger_sums l'"
  by (induction rule: rtranclp_induct) (auto dest: ledger_move_dest(1))

lemma reserve_on_route_moves:
  "reserve_on_route digest l route run call p m suffix = Inr l' \<Longrightarrow> ledger_sums l \<Longrightarrow>
     (ledger_move digest)\<^sup>*\<^sup>* l l'"
  unfolding reserve_on_route_def route_reservation_def
  by (erule made_reservation_moves) (simp_all add: fixed_reservation_stamps)

lemma reserve_route_moves:
  assumes "reserve_route digest l route run call = Inr l'" "ledger_sums l"
  shows "(ledger_move digest)\<^sup>*\<^sup>* l l'"
proof -
  obtain k where k: "reserve_on_route digest l route (the_str run) (the_str call)
      ''DEEPSEEK'' ''DEEPSEEK_PRIMARY'' ''deepseek'' = Inr k"
    and l': "l' = k \<or> (\<exists>p m suffix.
      reserve_on_route digest k route (the_str run) (the_str call) p m suffix = Inr l')"
    using assms(1) unfolding reserve_route_def inr_convs by (auto split: if_splits)
  have first: "(ledger_move digest)\<^sup>*\<^sup>* l k" by (rule reserve_on_route_moves [OF k assms(2)])
  from l' show ?thesis
    using first reserve_on_route_moves [OF _ moves_sums [OF first assms(2)]]
    by (auto intro: rtranclp_trans)
qed

lemma reserve_escalation_moves:
  "reserve_escalation digest l route call = Inr l' \<Longrightarrow> ledger_sums l \<Longrightarrow> (ledger_move digest)\<^sup>*\<^sup>* l l'"
  unfolding reserve_escalation_def
  by (auto split: if_splits option.splits elim!: made_reservation_moves simp: fixed_reservation_stamps)

lemma budget_step_moves:
  assumes "budget_step digest l c = Inr l'" "call_ok c" "ledger_sums l"
  shows "(ledger_move digest)\<^sup>*\<^sup>* l l'"
proof (cases c)
  case (Commit a)
  then show ?thesis
    using assms make_usage_ok commit_usage_move by (fastforce simp: inr_convs)
next
  case (Reconcile a)
  then show ?thesis
    using assms make_usage_ok reconcile_move by (fastforce simp: inr_convs)
next
  case (Release i)
  then show ?thesis using assms release_move by fastforce
next
  case (Hard_Stop reason)
  then show ?thesis using assms stop_move by fastforce
qed (use assms in \<open>auto simp: clear_hard_stop_def
      intro: made_reservation_moves reserve_route_moves reserve_escalation_moves\<close>)

lemma budget_calls_moves:
  assumes "budget_calls digest l l'" "ledger_sums l"
  shows "(ledger_move digest)\<^sup>*\<^sup>* l l' \<and> ledger_sums l'"
  using assms
proof (induction rule: budget_calls.induct)
  case (next_call l l' c l'')
  then show ?case
    using budget_step_moves moves_sums by (meson rtranclp_trans)
qed simp

end
