(* ===== verification/Budget_Invariant.thy ===== *)
theory Budget_Invariant
  imports Budget_Facts
begin

text \<open>
  The invariant of the reachable ledgers, and what a ledger is exposed to: the locale \<open>meter\<close>
  takes any charge for a used call that is at most the claim of its reservation, and shows that a
  new reservation alone raises the exposure, by its claim.  The costs of a provider, a model or a
  run and the tokens in each direction are its interpretations.
\<close>

section \<open>The invariant\<close>

definition usages_ok :: "budget_ledger \<Rightarrow> bool" where
  "usages_ok l = (\<forall>u \<in> set (bl_usages l). usage_ok u \<and> us_reservation_id u \<notin> set (bl_released l) \<and>
     (\<not> settled u \<longrightarrow> bl_state l \<noteq> ''OPEN'') \<and>
     (\<exists>r \<in> set (bl_reservations l). bound_to u r \<and> (settled u \<longrightarrow> covered u r)))"

definition budget_ok :: "budget_ledger \<Rightarrow> bool" where
  "budget_ok l = (ledger_sums l \<and> distinct (map re_id (bl_reservations l)) \<and>
     distinct (map us_id (bl_usages l)) \<and> distinct (map us_reservation_id (bl_usages l)) \<and>
     distinct (bl_released l) \<and> set (bl_released l) \<subseteq> re_id ` set (bl_reservations l) \<and>
     (\<forall>r \<in> set (bl_reservations l). reservation_ok r) \<and> usages_ok l \<and>
     bl_state l \<in> {''OPEN'', ''HARD_STOP'', ''RECONCILIATION_REQUIRED''} \<and>
     0 \<le> bl_sequence l \<and> opt_all canonical_stamp (bl_updated_at l))"

text \<open>What a move does to the lists of a ledger.\<close>

lemma ledger_move_cases:
  assumes "ledger_move digest l l'"
  obtains
    (hold) r where "reservation_ok r" "find (same_call r) (bl_reservations l) = None"
      "bl_state l = ''OPEN''" "admissible l r" "bl_reservations l' = bl_reservations l @ [r]"
      "bl_usages l' = bl_usages l" "set (bl_released l') = set (bl_released l)" "bl_state l' = ''OPEN''"
  | (use) u r where "usage_ok u" "unused l r" "bound_to u r" "settled u \<longrightarrow> covered u r"
      "bl_reservations l' = bl_reservations l" "bl_usages l' = bl_usages l @ [u]"
      "set (bl_released l') = set (bl_released l)"
      "bl_state l' = (if settled u then bl_state l else ''RECONCILIATION_REQUIRED'')"
  | (free) r where "unused l r" "bl_reservations l' = bl_reservations l" "bl_usages l' = bl_usages l"
      "set (bl_released l') = insert (re_id r) (set (bl_released l))" "bl_state l' = bl_state l"
  | (stop) "bl_reservations l' = bl_reservations l" "bl_usages l' = bl_usages l"
      "set (bl_released l') = set (bl_released l)" "bl_state l' = ''HARD_STOP''"
  using assms
proof cases
  case (hold r)
  show ?thesis by (rule spawn_dest [OF hold(5)]) (use hold in \<open>auto intro: that(1)\<close>)
next
  case (settle u r)
  show ?thesis by (rule spawn_dest [OF settle(6)]) (use settle in \<open>auto intro: that(2)\<close>)
next
  case (doubt u r)
  show ?thesis by (rule spawn_dest [OF doubt(5)]) (use doubt in \<open>auto intro: that(2)\<close>)
next
  case (free r)
  show ?thesis by (rule spawn_dest [OF free(2)]) (use free in \<open>auto intro: that(3)\<close>)
next
  case stop
  show ?thesis by (rule spawn_dest [OF stop(2)]) (use stop in \<open>auto intro: that(4)\<close>)
qed

lemma find_same_call_none:
  "find (same_call r) rs = None \<Longrightarrow> e \<in> set rs \<Longrightarrow> re_id e \<noteq> re_id r \<and>
     \<not> (re_run_id e = re_run_id r \<and> re_call_id e = re_call_id r)"
  by (auto simp: find_None_iff same_call_def)

lemma ledger_move_ok:
  assumes ok: "budget_ok l" and move: "ledger_move digest l l'"
  shows "budget_ok l'"
proof -
  have kept: "ledger_sums l'" "distinct (map re_id (bl_reservations l'))"
    "distinct (map us_id (bl_usages l'))" "distinct (bl_released l')" "0 \<le> bl_sequence l'"
    "opt_all canonical_stamp (bl_updated_at l')"
    using ledger_move_dest [OF move] ok timestamp_canonical [of "Text _"]
    by (auto simp: budget_ok_def stamp_ok_def)
  have "distinct (map us_reservation_id (bl_usages l')) \<and>
      set (bl_released l') \<subseteq> re_id ` set (bl_reservations l') \<and>
      (\<forall>r \<in> set (bl_reservations l'). reservation_ok r) \<and> usages_ok l' \<and>
      bl_state l' \<in> {''OPEN'', ''HARD_STOP'', ''RECONCILIATION_REQUIRED''}"
    using move
  proof (cases rule: ledger_move_cases)
    case (hold r)
    then show ?thesis using ok by (auto simp: budget_ok_def usages_ok_def)
  next
    case (use u r)
    then show ?thesis
      using ok by (auto simp: budget_ok_def usages_ok_def unused_def bound_to_def)
  next
    case (free r)
    then have "us_reservation_id u \<noteq> re_id r" if "u \<in> set (bl_usages l)" for u
      using that by (metis imageI unused_def)
    then show ?thesis using ok free by (auto simp: budget_ok_def usages_ok_def unused_def)
  next
    case stop
    then show ?thesis using ok by (auto simp: budget_ok_def usages_ok_def)
  qed
  then show ?thesis using kept by (simp add: budget_ok_def)
qed

lemma new_ledger_dest:
  assumes "new_ledger digest p = Inr l"
  shows "bl_policy l = p" "bl_reservations l = []" "bl_usages l = []" "bl_released l = []"
    "bl_state l = ''OPEN''" "bl_updated_at l = None" "bl_sequence l = 0" "ledger_sums l"
    "hex_digest digest \<Longrightarrow> sha256_string (bl_ledger_id l)"
  using assms unfolding new_ledger_def by (elim make_ledger_dest; simp)+

lemma new_ledger_ok: "new_ledger digest p = Inr l \<Longrightarrow> budget_ok l"
  by (auto dest: new_ledger_dest simp: budget_ok_def usages_ok_def)

section \<open>Metering\<close>

lemma sum_list_remove_key:
  assumes "distinct (map key xs)" "r \<in> set xs"
  shows "sum_list (map f (filter (\<lambda>x. key x \<noteq> key r) xs)) = sum_list (map f xs) - (f r :: 'a::ab_group_add)"
  using assms
proof (induction xs)
  case (Cons x xs)
  show ?case
  proof (cases "x = r")
    case True
    then have "key r \<notin> key ` set xs" using Cons.prems by simp
    then have "filter (\<lambda>x. key x \<noteq> key r) xs = xs" by (metis (mono_tags) filter_True imageI)
    then show ?thesis using True by simp
  next
    case False
    then have "key x \<noteq> key r" using Cons.prems by auto
    then show ?thesis using Cons False by simp
  qed
qed simp

text \<open>The reservations that hold their budget after a move.\<close>

lemma holding_after:
  assumes "budget_ok l"
  shows "find (same_call r) (bl_reservations l) = None \<Longrightarrow>
      holding (bl_reservations l @ [r]) (bl_usages l) (bl_released l) = active_reservations l @ [r]"
    and "unused l r \<Longrightarrow> bound_to u r \<Longrightarrow> settled u \<Longrightarrow>
      holding (bl_reservations l) (bl_usages l @ [u]) (bl_released l)
        = filter (\<lambda>e. re_id e \<noteq> re_id r) (active_reservations l)"
    and "\<not> settled u \<Longrightarrow> holding (bl_reservations l) (bl_usages l @ [u]) (bl_released l) = active_reservations l"
    and "set released = insert (re_id r) (set (bl_released l)) \<Longrightarrow>
      holding (bl_reservations l) (bl_usages l) released
        = filter (\<lambda>e. re_id e \<noteq> re_id r) (active_reservations l)"
    and "unused l r \<Longrightarrow> r \<in> set (active_reservations l)"
    and "distinct (map re_id (active_reservations l))"
proof -
  have used: "us_reservation_id u \<in> re_id ` set (bl_reservations l)" if "u \<in> set (bl_usages l)" for u
    using assms that by (auto simp: budget_ok_def usages_ok_def bound_to_def)
  show "holding (bl_reservations l @ [r]) (bl_usages l) (bl_released l) = active_reservations l @ [r]"
    if "find (same_call r) (bl_reservations l) = None"
  proof -
    have "re_id r \<notin> re_id ` set (bl_reservations l)" using find_same_call_none [OF that] by fastforce
    moreover have "set (bl_released l) \<subseteq> re_id ` set (bl_reservations l)"
      using assms by (simp add: budget_ok_def)
    ultimately show ?thesis using used by (auto simp: holding_def)
  qed
  show "holding (bl_reservations l) (bl_usages l @ [u]) (bl_released l)
      = filter (\<lambda>e. re_id e \<noteq> re_id r) (active_reservations l)"
    if "unused l r" "bound_to u r" "settled u"
    using that by (auto simp: holding_def unused_def bound_to_def intro!: filter_cong)
  show "r \<in> set (active_reservations l)" if "unused l r"
    using that by (auto simp: holding_def unused_def)
  show "distinct (map re_id (active_reservations l))"
    using assms by (simp add: holding_def budget_ok_def distinct_map inj_on_def)
qed (auto simp: holding_def intro!: filter_cong)

lemma holding_cong: "set rel = set rel' \<Longrightarrow> holding rs us rel = holding rs us rel'"
  by (simp add: holding_def)

locale meter =
  fixes spent :: "provider_usage \<Rightarrow> 'a::linordered_idom" and held :: "reservation \<Rightarrow> 'a"
  assumes held_nonneg: "reservation_ok r \<Longrightarrow> 0 \<le> held r"
    and spent_held: "bound_to u r \<Longrightarrow> covered u r \<Longrightarrow> spent u \<le> held r"
begin

lemma hold_exposure:
  assumes "budget_ok l" "find (same_call r) (bl_reservations l) = None"
    "bl_reservations l' = bl_reservations l @ [r]" "bl_usages l' = bl_usages l"
    "set (bl_released l') = set (bl_released l)"
  shows "exposure spent held l' = exposure spent held l + held r"
  using assms holding_after(1) [OF assms(1,2)] holding_cong [OF assms(5)]
  by (simp add: exposure_def algebra_simps)

lemma use_exposure:
  assumes "budget_ok l" "unused l r" "bound_to u r" "settled u \<longrightarrow> covered u r"
    "bl_reservations l' = bl_reservations l" "bl_usages l' = bl_usages l @ [u]"
    "set (bl_released l') = set (bl_released l)"
  shows "exposure spent held l' \<le> exposure spent held l"
proof (cases "settled u")
  case True
  have "exposure spent held l' = exposure spent held l + spent u - held r"
    using True assms holding_cong [OF assms(7)] holding_after(2) [OF assms(1-3) True]
      sum_list_remove_key [OF holding_after(6) [OF assms(1)] holding_after(5) [OF assms(1,2)], of held]
    by (simp add: exposure_def algebra_simps)
  moreover have "spent u \<le> held r" using spent_held assms(3,4) True by blast
  ultimately show ?thesis by (simp add: algebra_simps)
next
  case False
  then show ?thesis
    using assms holding_cong [OF assms(7)] holding_after(3) [OF assms(1) False]
    by (simp add: exposure_def)
qed

lemma free_exposure:
  assumes "budget_ok l" "unused l r" "bl_reservations l' = bl_reservations l"
    "bl_usages l' = bl_usages l" "set (bl_released l') = insert (re_id r) (set (bl_released l))"
  shows "exposure spent held l' \<le> exposure spent held l"
proof -
  have "reservation_ok r" using assms(1,2) by (auto simp: budget_ok_def unused_def)
  then show ?thesis
    using assms held_nonneg [of r] holding_after(4) [OF assms(1,5)]
      sum_list_remove_key [OF holding_after(6) [OF assms(1)] holding_after(5) [OF assms(1,2)], of held]
    by (simp add: exposure_def)
qed

text \<open>A cap that every admissible reservation respects is respected by every move.\<close>

lemma move_within:
  assumes "budget_ok l" "ledger_move digest l l'" "exposure spent held l \<le> cap"
    "\<And>r. reservation_ok r \<Longrightarrow> admissible l r \<Longrightarrow> exposure spent held l + held r \<le> cap"
  shows "exposure spent held l' \<le> cap"
  using assms(2)
proof (cases rule: ledger_move_cases)
  case (hold r)
  then show ?thesis using hold_exposure [OF assms(1)] assms(4) by simp
next
  case (use u r)
  then show ?thesis using use_exposure [OF assms(1)] assms(3) by (meson order_trans)
next
  case (free r)
  then show ?thesis using free_exposure [OF assms(1)] assms(3) by (meson order_trans)
next
  case stop
  then show ?thesis using assms(3) holding_cong [OF stop(3)] by (simp add: exposure_def)
qed

end

interpretation costs: meter "charge p m r" "claim p m r" for p m r
  by unfold_locales (auto simp: charge_def claim_def reservation_ok_def bound_to_def covered_def)

interpretation input_tokens: meter us_input re_input
  by unfold_locales (auto simp: reservation_ok_def covered_def)

interpretation output_tokens: meter us_output re_output
  by unfold_locales (auto simp: reservation_ok_def covered_def)

end
