(* ===== verification/Budget_Props.thy ===== *)
theory Budget_Props
  imports Budget_Invariant
begin

text \<open>
  The properties of the budget ledger: no reachable ledger exceeds a cap, a stopped ledger never
  reserves again, the operations implement an abstract book in which a call is booked once and
  settled once, and reservation and authorization succeed exactly under their conditions.
\<close>

section \<open>Reachable ledgers\<close>

definition within_caps :: "budget_ledger \<Rightarrow> bool" where
  "within_caps l = (
     cost_of None None None l \<le> bp_total_cap (bl_policy l) \<and>
     (\<forall>p. cost_of (Some p) None None l \<le> cap_of (bp_provider_caps (bl_policy l)) p) \<and>
     (\<forall>m. cost_of None (Some m) None l \<le> cap_of (bp_model_caps (bl_policy l)) m) \<and>
     (\<forall>r. cost_of None None (Some r) l \<le> bp_run_cap (bl_policy l)) \<and>
     int (length (bl_reservations l)) \<le> bp_max_calls (bl_policy l) \<and>
     (\<forall>r. int (run_calls l r) \<le> bp_max_run_calls (bl_policy l)) \<and>
     exposure us_input re_input l \<le> bp_max_input (bl_policy l) \<and>
     exposure us_output re_output l \<le> bp_max_output (bl_policy l))"

lemma admissible_dest:
  assumes "admissible l r"
  shows "cost_of None None None l + re_cost r \<le> bp_total_cap (bl_policy l)"
    "cost_of (Some (re_provider r)) None None l + re_cost r
       \<le> cap_of (bp_provider_caps (bl_policy l)) (re_provider r)"
    "cost_of None (Some (re_model r)) None l + re_cost r
       \<le> cap_of (bp_model_caps (bl_policy l)) (re_model r)"
    "cost_of None None (Some (re_run_id r)) l + re_cost r \<le> bp_run_cap (bl_policy l)"
    "int (length (bl_reservations l)) + 1 \<le> bp_max_calls (bl_policy l)"
    "int (run_calls l (re_run_id r)) + 1 \<le> bp_max_run_calls (bl_policy l)"
    "exposure us_input re_input l + re_input r \<le> bp_max_input (bl_policy l)"
    "exposure us_output re_output l + re_output r \<le> bp_max_output (bl_policy l)"
  using assms unfolding admissible_def Let_def by blast+

text \<open>A reservation of another provider, model or run claims nothing.\<close>

lemma claim_one:
  "claim (Some p) None None r = (if re_provider r = p then re_cost r else 0)"
  "claim None (Some m) None r = (if re_model r = m then re_cost r else 0)"
  "claim None None (Some i) r = (if re_run_id r = i then re_cost r else 0)"
  by (simp_all add: claim_def concerns_def)

lemma ledger_move_within:
  assumes ok: "budget_ok l" and caps: "within_caps l" and move: "ledger_move digest l l'"
  shows "within_caps l'"
proof -
  have policy: "bl_policy l' = bl_policy l" by (rule ledger_move_dest(2) [OF move])
  note bound = costs.move_within [OF ok move] and dest = admissible_dest
  have "cost_of None None None l' \<le> bp_total_cap (bl_policy l)"
    by (rule bound) (use caps dest(1) in \<open>auto simp: within_caps_def\<close>)
  moreover have "cost_of (Some p) None None l' \<le> cap_of (bp_provider_caps (bl_policy l)) p" for p
    by (rule bound) (use caps dest(2) in \<open>auto simp: within_caps_def claim_one\<close>)
  moreover have "cost_of None (Some m) None l' \<le> cap_of (bp_model_caps (bl_policy l)) m" for m
    by (rule bound) (use caps dest(3) in \<open>auto simp: within_caps_def claim_one\<close>)
  moreover have "cost_of None None (Some r) l' \<le> bp_run_cap (bl_policy l)" for r
    by (rule bound) (use caps dest(4) in \<open>auto simp: within_caps_def claim_one\<close>)
  moreover have "exposure us_input re_input l' \<le> bp_max_input (bl_policy l)"
    by (rule input_tokens.move_within [OF ok move]) (use caps dest(7) in \<open>auto simp: within_caps_def\<close>)
  moreover have "exposure us_output re_output l' \<le> bp_max_output (bl_policy l)"
    by (rule output_tokens.move_within [OF ok move]) (use caps dest(8) in \<open>auto simp: within_caps_def\<close>)
  moreover have "int (length (bl_reservations l')) \<le> bp_max_calls (bl_policy l) \<and>
      int (run_calls l' r) \<le> bp_max_run_calls (bl_policy l)" for r
    using move
  proof (cases rule: ledger_move_cases)
    case (hold e)
    then show ?thesis
      using caps dest(5,6) [OF hold(4)] by (auto simp: within_caps_def run_calls_def)
  qed (use caps in \<open>auto simp: within_caps_def run_calls_def\<close>)
  ultimately show ?thesis by (simp add: within_caps_def policy)
qed

lemma new_ledger_within:
  assumes "new_ledger digest p = Inr l" "policy_ok p"
  shows "within_caps l"
  using assms(2)
  by (simp add: new_ledger_dest [OF assms(1)] within_caps_def exposure_def holding_def run_calls_def
      policy_ok_def caps_ok_def)

definition budget_sound :: "(pv \<Rightarrow> string) \<Rightarrow> budget_ledger \<Rightarrow> bool" where
  "budget_sound digest l = (budget_ok l \<and> within_caps l \<and> policy_ok (bl_policy l) \<and>
     (hex_digest digest \<longrightarrow> sha256_string (bl_ledger_id l)))"

lemma moves_sound:
  "(ledger_move digest)\<^sup>*\<^sup>* l l' \<Longrightarrow> budget_sound digest l \<Longrightarrow> budget_sound digest l'"
  by (induction rule: rtranclp_induct)
    (auto simp: budget_sound_def ledger_move_dest dest: ledger_move_ok ledger_move_within)

lemma budget_ok_sums: "budget_ok l \<Longrightarrow> ledger_sums l"
  by (simp add: budget_ok_def)

lemma reachable_sound: "reachable_budget digest l \<Longrightarrow> budget_sound digest l"
proof -
  assume "reachable_budget digest l"
  then obtain a p start where made: "policy_stamps_ok a" "make_budget_policy digest a = Inr p"
    "new_ledger digest p = Inr start" and calls: "budget_calls digest start l"
    by (auto simp: reachable_budget_def)
  have "budget_sound digest start"
    using made new_ledger_ok new_ledger_within make_budget_policy_ok new_ledger_dest
    by (simp add: budget_sound_def)
  then show ?thesis
    using budget_calls_moves [OF calls] moves_sound by (auto simp: budget_sound_def budget_ok_sums)
qed

lemma sound_calls:
  "budget_sound digest l \<Longrightarrow> budget_calls digest l l' \<Longrightarrow>
     (ledger_move digest)\<^sup>*\<^sup>* l l' \<and> budget_sound digest l'"
  using budget_calls_moves [of digest l l'] moves_sound [of digest l l']
  by (simp add: budget_sound_def budget_ok_sums)

section \<open>The book of calls\<close>

text \<open>
  What the ledger promises of a call: it is entered once, with its reservation, and at most one thing
  ever happens to it, a usage that is recorded for it (settled or in doubt) or its release.  The book
  lists everything the ledger has on a call, so that a second usage would show.
\<close>

datatype closing = Used provider_usage | Freed

type_synonym book = "string \<Rightarrow> (reservation \<times> closing list) option"

inductive book_step :: "book \<Rightarrow> book \<Rightarrow> bool" for b where
  nothing: "book_step b b"
| book: "b (re_id r) = None \<Longrightarrow> book_step b (b(re_id r \<mapsto> (r, [])))"
| close: "b i = Some (r, []) \<Longrightarrow> book_step b (b(i \<mapsto> (r, [c])))"

definition closings :: "budget_ledger \<Rightarrow> string \<Rightarrow> closing list" where
  "closings l i = map Used (filter (\<lambda>u. us_reservation_id u = i) (bl_usages l)) @
     replicate (count_list (bl_released l) i) Freed"

definition book_of :: "budget_ledger \<Rightarrow> book" where
  "book_of l i = map_option (\<lambda>r. (r, closings l i)) (find (\<lambda>r. re_id r = i) (bl_reservations l))"

lemma find_append: "find P (xs @ ys) = (case find P xs of None \<Rightarrow> find P ys | Some x \<Rightarrow> Some x)"
  by (induction xs) simp_all

lemma find_reserved: "distinct (map re_id rs) \<Longrightarrow> r \<in> set rs \<Longrightarrow> find (\<lambda>x. re_id x = re_id r) rs = Some r"
  by (induction rs) auto

lemma count_distinct: "distinct xs \<Longrightarrow> count_list xs x = (if x \<in> set xs then 1 else 0)"
  by (induction xs) auto

lemma closings_ok:
  "budget_ok l \<Longrightarrow> closings l i = map Used (filter (\<lambda>u. us_reservation_id u = i) (bl_usages l)) @
     (if i \<in> set (bl_released l) then [Freed] else [])"
  by (simp add: closings_def budget_ok_def count_distinct)

lemma closings_empty:
  "closings l i = [] \<longleftrightarrow> i \<notin> us_reservation_id ` set (bl_usages l) \<and> i \<notin> set (bl_released l)"
  by (auto simp: closings_def filter_empty_conv count_list_0_iff)

lemma filter_key_length:
  "distinct (map f xs) \<Longrightarrow> length (filter (\<lambda>x. f x = i) xs) = (if i \<in> f ` set xs then 1 else 0)"
  by (induction xs) (auto simp: filter_empty_conv)

lemma closings_single: "budget_ok l \<Longrightarrow> closings l i \<noteq> [] \<Longrightarrow> length (closings l i) = 1"
  using closings_empty [of l i]
  by (auto simp: closings_ok budget_ok_def usages_ok_def filter_key_length)

text \<open>A call in doubt keeps its budget.\<close>

lemma doubt_held:
  assumes "book_of l i = Some (r, [Used u])" and "\<not> settled u"
  shows "r \<in> set (active_reservations l)"
proof -
  have r: "r \<in> set (bl_reservations l)" "re_id r = i" and cs: "closings l i = [Used u]"
    using assms(1) found [of "\<lambda>r. re_id r = i" "bl_reservations l"] by (auto simp: book_of_def)
  moreover have "replicate k Freed \<noteq> [Used u]" for k by (cases k) auto
  ultimately have us: "filter (\<lambda>u. us_reservation_id u = i) (bl_usages l) = [u]" and "count_list (bl_released l) i = 0"
    by (auto simp: closings_def append_eq_Cons_conv)
  then have "i \<notin> set (bl_released l)" by (simp add: count_list_0_iff)
  moreover have "i \<notin> us_reservation_id ` set (filter settled (bl_usages l))"
  proof
    assume "i \<in> us_reservation_id ` set (filter settled (bl_usages l))"
    then obtain v where "v \<in> set (filter (\<lambda>u. us_reservation_id u = i) (bl_usages l))" "settled v" by auto
    then show False using us assms(2) by simp
  qed
  ultimately show ?thesis using r by (simp add: holding_def)
qed

lemma usage_reserved:
  "budget_ok l \<Longrightarrow> us_reservation_id ` set (bl_usages l) \<subseteq> re_id ` set (bl_reservations l)"
  by (auto simp: budget_ok_def usages_ok_def bound_to_def)

lemma book_reserved:
  "budget_ok l \<Longrightarrow> r \<in> set (bl_reservations l) \<Longrightarrow> book_of l (re_id r) = Some (r, closings l (re_id r))"
  by (simp add: book_of_def find_reserved budget_ok_def)

lemma unused_book: "budget_ok l \<Longrightarrow> unused l r \<Longrightarrow> book_of l (re_id r) = Some (r, [])"
  using closings_empty [of l "re_id r"] by (simp add: unused_def book_reserved)

lemma ledger_move_book:
  assumes ok: "budget_ok l" and move: "ledger_move digest l l'"
  shows "book_step (book_of l) (book_of l')"
proof -
  note entries = closings_ok [OF ok] closings_ok [OF ledger_move_ok [OF ok move]]
  show ?thesis
    using move
  proof (cases rule: ledger_move_cases)
    case (hold r)
    have new: "find (\<lambda>e. re_id e = re_id r) (bl_reservations l) = None"
      using find_same_call_none [OF hold(2)] by (auto simp: find_None_iff)
    then have "re_id r \<notin> re_id ` set (bl_reservations l)" by (auto simp: find_None_iff)
    moreover have "set (bl_released l) \<subseteq> re_id ` set (bl_reservations l)" using ok by (simp add: budget_ok_def)
    ultimately have "re_id r \<notin> us_reservation_id ` set (bl_usages l)" "re_id r \<notin> set (bl_released l)"
      using usage_reserved [OF ok] by blast+
    then have "closings l' (re_id r) = []" using hold closings_empty by simp
    moreover have "closings l' = closings l" using hold by (simp add: fun_eq_iff entries)
    ultimately have "book_of l' = (book_of l)(re_id r \<mapsto> (r, []))"
      using hold new by (auto simp: fun_eq_iff book_of_def find_append split: option.splits)
    moreover have "book_of l (re_id r) = None" using new by (simp add: book_of_def)
    ultimately show ?thesis by (simp add: book_step.book)
  next
    case (use u r)
    have "closings l' = (closings l)(re_id r := closings l (re_id r) @ [Used u])"
      using use by (auto simp: fun_eq_iff entries unused_def bound_to_def)
    moreover have "closings l (re_id r) = []" using use(2) closings_empty by (simp add: unused_def)
    ultimately have "book_of l' = (book_of l)(re_id r \<mapsto> (r, [Used u]))"
      using use book_reserved [OF ok, of r] by (auto simp: fun_eq_iff book_of_def unused_def)
    then show ?thesis using unused_book [OF ok use(2)] by (auto intro: book_step.close)
  next
    case (free r)
    have "closings l' = (closings l)(re_id r := closings l (re_id r) @ [Freed])"
      using free by (auto simp: fun_eq_iff entries unused_def)
    moreover have "closings l (re_id r) = []" using free(1) closings_empty by (simp add: unused_def)
    ultimately have "book_of l' = (book_of l)(re_id r \<mapsto> (r, [Freed]))"
      using free book_reserved [OF ok, of r] by (auto simp: fun_eq_iff book_of_def unused_def)
    then show ?thesis using unused_book [OF ok free(1)] by (auto intro: book_step.close)
  next
    case stop
    then have "book_of l' = book_of l" by (simp add: fun_eq_iff book_of_def entries)
    then show ?thesis by (simp add: book_step.nothing)
  qed
qed

lemma moves_book:
  "(ledger_move digest)\<^sup>*\<^sup>* l l' \<Longrightarrow> budget_sound digest l \<Longrightarrow> book_step\<^sup>*\<^sup>* (book_of l) (book_of l')"
proof (induction rule: rtranclp_induct)
  case (step k l')
  then show ?case
    using moves_sound ledger_move_book by (meson budget_sound_def rtranclp.rtrancl_into_rtrancl)
qed simp

lemma book_steps_final:
  "book_step\<^sup>*\<^sup>* b b' \<Longrightarrow> b i = Some (r, cs) \<Longrightarrow> cs \<noteq> [] \<Longrightarrow> b' i = Some (r, cs)"
proof (induction rule: rtranclp_induct)
  case (step b' b'')
  from step(2) step(3) [OF step(4,5)] show ?case using step(5) by cases auto
qed simp

section \<open>When reservations and authorizations succeed\<close>

lemma stamp_succeeds: "canonical_stamp s \<Longrightarrow> optional_stamp label (Some (Text s)) = Inr (Some s)"
  by (simp add: optional_stamp_def timestamp_stored and_then_def)

lemma spawn_succeeds:
  assumes "budget_ok l" "sha256_string (bl_ledger_id l)" "canonical_stamp t"
    "distinct (map re_id rs)" "re_id ` set (bl_reservations l) \<subseteq> re_id ` set rs"
  shows "\<exists>l'. spawn digest l rs (bl_usages l) (bl_released l) (bl_state l) t = Inr l'"
  unfolding spawn_def
proof (rule make_ledger_succeeds)
  show "list_all (\<lambda>i. budget_identifier i \<and> i \<in> re_id ` set rs) (bl_released l)"
    using assms(1,5) by (fastforce simp: list_all_iff budget_ok_def reservation_ok_def)
qed (use assms stamp_succeeds in \<open>auto simp: budget_ok_def\<close>)

text \<open>What \<open>reserve_call\<close> returns: an error, the ledger as it is, or one more reservation.\<close>

lemma reserve_call_outcome:
  assumes sound: "budget_sound digest l" and hex: "hex_digest digest" and r: "reservation_ok r"
  shows "(\<exists>l'. reserve_call digest l r = Inr l') \<longleftrightarrow>
    (case find (same_call r) (bl_reservations l) of
       Some e \<Rightarrow> re_identity e = re_identity r
     | None \<Rightarrow> bl_state l = ''OPEN'' \<and> admissible l r)"
proof (cases "find (same_call r) (bl_reservations l)")
  case None
  have ok: "budget_ok l" "sha256_string (bl_ledger_id l)"
    using sound hex by (simp_all add: budget_sound_def)
  have "re_id r \<notin> re_id ` set (bl_reservations l)"
    using find_same_call_none [OF None] by fastforce
  then have "\<exists>l'. spawn digest l (bl_reservations l @ [r]) (bl_usages l) (bl_released l) (bl_state l)
      (re_reserved_at r) = Inr l'"
    using ok r by (intro spawn_succeeds) (auto simp: budget_ok_def reservation_ok_def)
  then show ?thesis
    using None reserve_call_fresh [OF None] ok by (auto simp: budget_ok_sums)
next
  case (Some e)
  then show ?thesis by (simp add: reserve_call_def)
qed

lemma open_unused:
  assumes "budget_ok l" "bl_state l = ''OPEN''"
  shows "r \<in> set (active_reservations l) \<longleftrightarrow> r \<in> set (bl_reservations l) \<and> book_of l (re_id r) = Some (r, [])"
proof -
  have "us_reservation_id ` set (filter settled (bl_usages l)) = us_reservation_id ` set (bl_usages l)"
    using assms by (auto simp: budget_ok_def usages_ok_def)
  then show ?thesis
    using book_reserved [OF assms(1), of r] closings_empty [of l "re_id r"] by (auto simp: holding_def)
qed

text \<open>A call is authorized exactly when its reservation is held and nothing has used it.\<close>

definition authorizable :: "budget_ledger \<Rightarrow> string \<Rightarrow> string \<Rightarrow> string \<Rightarrow> string \<Rightarrow> reservation \<Rightarrow> bool" where
  "authorizable l p m i c r = (can_authorize_calls (bl_policy l) \<and> bl_state l = ''OPEN'' \<and>
     p \<in> set (bp_allowed_providers (bl_policy l)) \<and> m \<in> set (bp_allowed_models (bl_policy l)) \<and>
     map_of model_provider m = Some p \<and>
     r \<in> set (bl_reservations l) \<and> re_provider r = p \<and> re_model r = m \<and> re_run_id r = i \<and>
     re_call_id r = c \<and> re_status r = ''RESERVED'' \<and> book_of l (re_id r) = Some (r, []))"

lemma denied_made:
  "make_authorization False ''POLICY_INACTIVE'' None = Inr \<lparr>au_allowed = False, au_failure = ''POLICY_INACTIVE'', au_reservation_id = None\<rparr>"
  "make_authorization False ''OWNER_APPROVAL_MISSING'' None = Inr \<lparr>au_allowed = False, au_failure = ''OWNER_APPROVAL_MISSING'', au_reservation_id = None\<rparr>"
  "make_authorization False ''HARD_STOP_ACTIVE'' None = Inr \<lparr>au_allowed = False, au_failure = ''HARD_STOP_ACTIVE'', au_reservation_id = None\<rparr>"
  "make_authorization False ''PROVIDER_NOT_ALLOWED'' None = Inr \<lparr>au_allowed = False, au_failure = ''PROVIDER_NOT_ALLOWED'', au_reservation_id = None\<rparr>"
  "make_authorization False ''MODEL_NOT_ALLOWED'' None = Inr \<lparr>au_allowed = False, au_failure = ''MODEL_NOT_ALLOWED'', au_reservation_id = None\<rparr>"
  "make_authorization False ''RESERVATION_NOT_FOUND'' None = Inr \<lparr>au_allowed = False, au_failure = ''RESERVATION_NOT_FOUND'', au_reservation_id = None\<rparr>"
  by (simp_all add: make_authorization_def failure_classes_def)

lemma allowed_made:
  "budget_identifier i \<Longrightarrow> make_authorization True ''NONE'' (Some i) =
     Inr \<lparr>au_allowed = True, au_failure = ''NONE'', au_reservation_id = Some i\<rparr>"
  by (simp add: make_authorization_def failure_classes_def)

lemma evaluate_outcome:
  assumes ok: "budget_ok l" and ids: "budget_identifier p" "budget_identifier m" "budget_identifier i"
    "budget_identifier c"
  obtains (denied) a where
      "evaluate_call_authorization l (PStr p) (PStr m) (PStr i) (PStr c) = Inr a" "\<not> au_allowed a"
      "au_reservation_id a = None" "\<And>r. \<not> authorizable l p m i c r"
  | (allowed) a r where
      "evaluate_call_authorization l (PStr p) (PStr m) (PStr i) (PStr c) = Inr a" "au_allowed a"
      "au_reservation_id a = Some (re_id r)" "authorizable l p m i c r"
proof -
  define P where "P = (\<lambda>r :: reservation. re_provider r = p \<and> re_model r = m \<and> re_run_id r = i \<and> re_call_id r = c
    \<and> re_status r = ''RESERVED'')"
  define entry where "entry = find P (active_reservations l)"
  have arg: "is_text_in budget_identifier (PStr s) = budget_identifier s" for s
    by (simp add: is_text_in_def)
  have evaluate: "evaluate_call_authorization l (PStr p) (PStr m) (PStr i) (PStr c) =
    (if bp_status (bl_policy l) \<noteq> ''ACTIVE'' then make_authorization False ''POLICY_INACTIVE'' None
     else if bp_approval (bl_policy l) = None then make_authorization False ''OWNER_APPROVAL_MISSING'' None
     else if bl_state l \<noteq> ''OPEN'' then make_authorization False ''HARD_STOP_ACTIVE'' None
     else if p \<notin> set (bp_allowed_providers (bl_policy l))
     then make_authorization False ''PROVIDER_NOT_ALLOWED'' None
     else if m \<notin> set (bp_allowed_models (bl_policy l)) \<or> map_of model_provider m \<noteq> Some p
     then make_authorization False ''MODEL_NOT_ALLOWED'' None
     else (case entry of Some r \<Rightarrow> make_authorization True ''NONE'' (Some (re_id r))
        | None \<Rightarrow> make_authorization False ''RESERVATION_NOT_FOUND'' None))"
    by (simp add: evaluate_call_authorization_def arg ids P_def entry_def)
  have none: "\<not> authorizable l p m i c r" if "bl_state l = ''OPEN''" "entry = None" for r
    using that open_unused [OF ok that(1)] by (auto simp: authorizable_def entry_def P_def find_None_iff)
  have some: "budget_identifier (re_id r) \<and> r \<in> set (bl_reservations l) \<and> P r \<and>
      book_of l (re_id r) = Some (r, [])" if "bl_state l = ''OPEN''" "entry = Some r" for r
    using that open_unused [OF ok that(1)] found [of P "active_reservations l" r] ok
    by (auto simp: entry_def budget_ok_def reservation_ok_def)
  define open_to where "open_to \<longleftrightarrow> can_authorize_calls (bl_policy l) \<and> bl_state l = ''OPEN'' \<and>
    p \<in> set (bp_allowed_providers (bl_policy l)) \<and> m \<in> set (bp_allowed_models (bl_policy l)) \<and>
    map_of model_provider m = Some p"
  show ?thesis
  proof (cases "open_to \<and> entry \<noteq> None")
    case True
    then obtain r where r: "entry = Some r" by blast
    then show ?thesis
      using True some evaluate
      by (intro allowed [of _ r])
        (auto simp: open_to_def can_authorize_calls_def allowed_made authorizable_def P_def)
  next
    case False
    have "\<not> authorizable l p m i c r" for r
      using False none [of r] by (auto simp: authorizable_def open_to_def)
    moreover have "\<exists>a. evaluate_call_authorization l (PStr p) (PStr m) (PStr i) (PStr c) = Inr a \<and>
        \<not> au_allowed a \<and> au_reservation_id a = None"
      using False by (auto simp: evaluate denied_made open_to_def can_authorize_calls_def)
    ultimately show ?thesis using denied by blast
  qed
qed

section \<open>A concrete run\<close>

definition budget_hash :: string where
  "budget_hash = replicate 64 CHR ''a''"

definition trial_digest :: "pv \<Rightarrow> string" where
  "trial_digest d = budget_hash"

definition trial_policy_args :: policy_args where
  "trial_policy_args = \<lparr>
     pa_schema_version = PStr ''phase11-budget-policy-v1'', pa_policy_id = PStr ''policy-1'',
     pa_policy_version = PInt 1, pa_status = PStr ''ACTIVE'', pa_currency = PStr ''USD_MICRO'',
     pa_total_cost_cap = Finite 5000,
     pa_provider_cost_caps = Some [(''DEEPSEEK'', Finite 3000), (''ANTHROPIC'', Finite 3000)],
     pa_model_cost_caps = Some [(''DEEPSEEK_PRIMARY'', Finite 3000), (''CLAUDE_SONNET_L1'', Finite 2000),
       (''CLAUDE_OPUS_L2'', Finite 2000)],
     pa_per_run_cost_cap = Finite 4000, pa_maximum_call_count = PInt 4,
     pa_maximum_calls_per_run = PInt 3, pa_maximum_input_tokens = PInt 100,
     pa_maximum_output_tokens = PInt 100, pa_maximum_tokens_per_call = PInt 50,
     pa_allowed_providers = PList [PStr ''DEEPSEEK'', PStr ''ANTHROPIC''],
     pa_allowed_models = PList [PStr ''DEEPSEEK_PRIMARY'', PStr ''CLAUDE_SONNET_L1''],
     pa_starts_at = Text ''2026-07-17T00:00:00Z'', pa_ends_at = Text ''2026-07-18T00:00:00Z'',
     pa_owner_approval_reference = PStr ''owner-1'',
     pa_stop_conditions = PList [PStr ''OWNER_SUSPENSION'']\<rparr>"

definition trial_policy :: budget_policy where
  "trial_policy = \<lparr>
     bp_policy_id = ''policy-1'', bp_policy_version = 1, bp_status = ''ACTIVE'', bp_total_cap = 5000,
     bp_provider_caps = [(''ANTHROPIC'', 3000), (''DEEPSEEK'', 3000)],
     bp_model_caps = [(''CLAUDE_OPUS_L2'', 2000), (''CLAUDE_SONNET_L1'', 2000), (''DEEPSEEK_PRIMARY'', 3000)],
     bp_run_cap = 4000, bp_max_calls = 4, bp_max_run_calls = 3, bp_max_input = 100,
     bp_max_output = 100, bp_max_call_tokens = 50,
     bp_allowed_providers = [''ANTHROPIC'', ''DEEPSEEK''],
     bp_allowed_models = [''CLAUDE_SONNET_L1'', ''DEEPSEEK_PRIMARY''],
     bp_starts_at = ''2026-07-17T00:00:00Z'', bp_ends_at = ''2026-07-18T00:00:00Z'',
     bp_approval = Some ''owner-1'', bp_stop_conditions = [''OWNER_SUSPENSION''],
     bp_identity = budget_hash\<rparr>"

definition trial_reservation_args :: reservation_args where
  "trial_reservation_args = \<lparr>
     ra_schema_version = PStr ''phase11-budget-reservation-v1'', ra_reservation_id = PStr ''res-1'',
     ra_policy_id = PStr ''policy-1'', ra_run_id = PStr ''run-1'', ra_call_id = PStr ''call-1'',
     ra_provider = PStr ''DEEPSEEK'', ra_model = PStr ''DEEPSEEK_PRIMARY'',
     ra_reserved_cost = Finite 2000, ra_reserved_input_tokens = PInt 20,
     ra_reserved_output_tokens = PInt 30, ra_reserved_at = Text ''2026-07-17T00:01:00Z'',
     ra_expires_at = Text ''2026-07-17T01:00:00Z'', ra_status = PStr ''RESERVED'',
     ra_reason_codes = PList [PStr ''PRIMARY'']\<rparr>"

definition trial_reservation :: reservation where
  "trial_reservation = \<lparr>
     re_id = ''res-1'', re_policy_id = ''policy-1'', re_run_id = ''run-1'', re_call_id = ''call-1'',
     re_provider = ''DEEPSEEK'', re_model = ''DEEPSEEK_PRIMARY'', re_cost = 2000, re_input = 20,
     re_output = 30, re_reserved_at = ''2026-07-17T00:01:00Z'', re_expires_at = ''2026-07-17T01:00:00Z'',
     re_status = ''RESERVED'', re_reasons = [''PRIMARY''], re_identity = budget_hash\<rparr>"

definition trial_usage_args :: usage_args where
  "trial_usage_args = \<lparr>
     ua_schema_version = PStr ''phase11-provider-usage-v1'', ua_usage_record_id = PStr ''use-1'',
     ua_reservation_id = PStr ''res-1'', ua_policy_id = PStr ''policy-1'', ua_run_id = PStr ''run-1'',
     ua_call_id = PStr ''call-1'', ua_provider = PStr ''DEEPSEEK'', ua_model = PStr ''DEEPSEEK_PRIMARY'',
     ua_request_hash = PStr budget_hash, ua_response_hash = PStr budget_hash,
     ua_input_tokens = PInt 0, ua_output_tokens = PInt 0, ua_estimated_cost = Finite 2000,
     ua_actual_cost = None, ua_started_at = Text ''2026-07-17T00:02:00Z'',
     ua_completed_at = Text ''2026-07-17T00:03:00Z'', ua_latency_ms = PInt 60000,
     ua_attempt_count = PInt 1, ua_outcome = PStr ''TIMEOUT'',
     ua_reconciliation_status = PStr ''RECONCILIATION_REQUIRED'',
     ua_failure_class = PStr ''UNCERTAIN_TRANSPORT_OUTCOME'',
     ua_reason_codes = PList [PStr ''TIMEOUT'', PStr ''Provider prose: no answer'']\<rparr>"

definition trial_usage :: provider_usage where
  "trial_usage = \<lparr>
     us_id = ''use-1'', us_reservation_id = ''res-1'', us_policy_id = ''policy-1'', us_run_id = ''run-1'',
     us_call_id = ''call-1'', us_provider = ''DEEPSEEK'', us_model = ''DEEPSEEK_PRIMARY'',
     us_request_hash = budget_hash, us_response_hash = budget_hash, us_input = 0, us_output = 0,
     us_estimated = 2000, us_actual = None, us_started_at = ''2026-07-17T00:02:00Z'',
     us_completed_at = ''2026-07-17T00:03:00Z'', us_latency_ms = 60000, us_attempts = 1,
     us_outcome = ''TIMEOUT'', us_reconciliation = ''RECONCILIATION_REQUIRED'',
     us_failure = ''UNCERTAIN_TRANSPORT_OUTCOME'', us_reasons = [''TIMEOUT''], us_identity = budget_hash\<rparr>"

text \<open>The ledger of the policy, with the call held, with the call in doubt.\<close>

definition trial_start :: budget_ledger where
  "trial_start = derived_ledger trial_digest trial_policy budget_hash 0 [] [] [] ''OPEN'' None"

definition trial_held :: budget_ledger where
  "trial_held = derived_ledger trial_digest trial_policy budget_hash 1 [trial_reservation] [] [] ''OPEN''
     (Some ''2026-07-17T00:01:00Z'')"

definition trial_doubtful :: budget_ledger where
  "trial_doubtful = derived_ledger trial_digest trial_policy budget_hash 2 [trial_reservation] [trial_usage] []
     ''RECONCILIATION_REQUIRED'' (Some ''2026-07-17T00:03:00Z'')"

lemma trial_hash_mapping [simp]: "hash_mapping trial_digest d = budget_hash"
  by (simp add: hash_mapping_def trial_digest_def)

lemma trial_digest_hex: "hex_digest trial_digest" "sha256_string budget_hash"
proof -
  show "sha256_string budget_hash" by code_simp
  then show "hex_digest trial_digest" by (simp add: hex_digest_def trial_digest_def)
qed

lemma trial_identifiers:
  "list_all budget_identifier [''policy-1'', ''owner-1'', ''res-1'', ''run-1'', ''call-1'', ''use-1'',
     ''DEEPSEEK'', ''DEEPSEEK_PRIMARY'']"
  by code_simp

lemma trial_texts:
  "stamp_text (2026, 7, 17, 0, 0, 0, 0) = ''2026-07-17T00:00:00Z''"
  "stamp_text (2026, 7, 18, 0, 0, 0, 0) = ''2026-07-18T00:00:00Z''"
  "stamp_text (2026, 7, 17, 0, 1, 0, 0) = ''2026-07-17T00:01:00Z''"
  "stamp_text (2026, 7, 17, 0, 2, 0, 0) = ''2026-07-17T00:02:00Z''"
  "stamp_text (2026, 7, 17, 0, 3, 0, 0) = ''2026-07-17T00:03:00Z''"
  "stamp_text (2026, 7, 17, 1, 0, 0, 0) = ''2026-07-17T01:00:00Z''"
  by (simp_all add: stamp_text_def padded_steps digit_chars)

lemma trial_moment:
  "valid_moment (2026, 7, 17, h, mi, 0, 0) = (h < 24 \<and> mi < 60)" "valid_moment (2026, 7, 18, 0, 0, 0, 0)"
  by (simp_all add: valid_moment_def days_in_month_def)

lemma trial_stamps:
  "timestamp label (Text ''2026-07-17T00:00:00Z'') = Inr ''2026-07-17T00:00:00Z''"
  "timestamp label (Text ''2026-07-18T00:00:00Z'') = Inr ''2026-07-18T00:00:00Z''"
  "timestamp label (Text ''2026-07-17T00:01:00Z'') = Inr ''2026-07-17T00:01:00Z''"
  "timestamp label (Text ''2026-07-17T00:02:00Z'') = Inr ''2026-07-17T00:02:00Z''"
  "timestamp label (Text ''2026-07-17T00:03:00Z'') = Inr ''2026-07-17T00:03:00Z''"
  "timestamp label (Text ''2026-07-17T01:00:00Z'') = Inr ''2026-07-17T01:00:00Z''"
  by (rule timestamp_stored, subst trial_texts [symmetric], rule canonical_text, simp add: trial_moment)+

lemma trial_parsed:
  "parsed ''2026-07-17T00:00:00Z'' = (2026, 7, 17, 0, 0, 0, 0)"
  "parsed ''2026-07-18T00:00:00Z'' = (2026, 7, 18, 0, 0, 0, 0)"
  "parsed ''2026-07-17T00:01:00Z'' = (2026, 7, 17, 0, 1, 0, 0)"
  "parsed ''2026-07-17T00:02:00Z'' = (2026, 7, 17, 0, 2, 0, 0)"
  "parsed ''2026-07-17T00:03:00Z'' = (2026, 7, 17, 0, 3, 0, 0)"
  "parsed ''2026-07-17T01:00:00Z'' = (2026, 7, 17, 1, 0, 0, 0)"
  by (subst trial_texts [symmetric], rule parsed_text, simp add: trial_moment)+

lemma trial_sets:
  "closed_set ''allowed_providers'' providers (PList [PStr ''DEEPSEEK'', PStr ''ANTHROPIC''])
     = Inr [''ANTHROPIC'', ''DEEPSEEK'']"
  "closed_set ''allowed_models'' models (PList [PStr ''DEEPSEEK_PRIMARY'', PStr ''CLAUDE_SONNET_L1''])
     = Inr [''CLAUDE_SONNET_L1'', ''DEEPSEEK_PRIMARY'']"
  "closed_set ''stop_conditions'' stop_reasons (PList [PStr ''OWNER_SUSPENSION'']) = Inr [''OWNER_SUSPENSION'']"
  "reason_codes_in ''reason_codes'' False (PList [PStr ''PRIMARY'']) = Inr [''PRIMARY'']"
  "reason_codes_in ''reason_codes'' True (PList [PStr ''TIMEOUT'', PStr ''Provider prose: no answer''])
     = Inr [''TIMEOUT'']"
  "sort providers = providers" "sort models = models"
  by code_simp+

lemma trial_statuses:
  "''ACTIVE'' \<in> set budget_statuses" "''RESERVED'' \<in> set reservation_statuses"
  "''TIMEOUT'' \<in> set usage_outcomes" "''RECONCILIATION_REQUIRED'' \<in> set reconciliation_statuses"
  "''UNCERTAIN_TRANSPORT_OUTCOME'' \<in> set failure_classes"
  by code_simp+

lemmas trial_checks = is_text_in_def positive_int_def amount_in_def and_then_def trial_stamps trial_parsed
  trial_sets trial_statuses trial_identifiers [simplified]

lemma trial_policy_made: "make_budget_policy trial_digest trial_policy_args = Inr trial_policy"
proof -
  have "cap_map ''provider_cost_caps'' providers (Some [(''DEEPSEEK'', Finite 3000), (''ANTHROPIC'', Finite 3000)])
      = Inr [(''ANTHROPIC'', 3000), (''DEEPSEEK'', 3000)]"
    by (simp add: cap_map_def trial_sets) (simp add: providers_def amount_in_def insert_commute)
  moreover have "cap_map ''model_cost_caps'' models (Some [(''DEEPSEEK_PRIMARY'', Finite 3000),
      (''CLAUDE_SONNET_L1'', Finite 2000), (''CLAUDE_OPUS_L2'', Finite 2000)])
      = Inr [(''CLAUDE_OPUS_L2'', 2000), (''CLAUDE_SONNET_L1'', 2000), (''DEEPSEEK_PRIMARY'', 3000)]"
    by (simp add: cap_map_def trial_sets) (simp add: models_def amount_in_def insert_commute)
  ultimately show ?thesis
    by (simp add: make_budget_policy_def trial_policy_args_def trial_checks trial_policy_def Let_def)
qed

lemma trial_reservation_made: "make_reservation trial_digest trial_reservation_args = Inr trial_reservation"
  by (simp add: make_reservation_def trial_reservation_args_def trial_checks trial_reservation_def Let_def)

lemma trial_usage_made: "make_usage trial_digest trial_usage_args = Inr trial_usage"
  by (simp add: make_usage_def trial_usage_args_def trial_checks trial_usage_def optional_amount_def
      trial_digest_hex Let_def)

lemma trial_start_made: "new_ledger trial_digest trial_policy = Inr trial_start"
  by (simp add: new_ledger_def make_ledger_def trial_start_def optional_stamp_def and_then_def
      unlisted_none Let_def)

lemma trial_reserve: "budget_step trial_digest trial_start (Reserve trial_reservation_args) = Inr trial_held"
proof -
  have "ledger_sums trial_start" by (simp add: trial_start_def)
  moreover have "find (same_call trial_reservation) (bl_reservations trial_start) = None"
    by (simp add: trial_start_def)
  moreover have "admissible trial_start trial_reservation"
    by (simp add: admissible_def trial_start_def trial_reservation_def trial_policy_def exposure_def
        holding_def run_calls_def model_provider_def cap_of_def trial_parsed Let_def)
  ultimately show ?thesis
    by (simp add: trial_reservation_made and_then_def reserve_call_fresh)
      (simp add: spawn_def make_ledger_def trial_start_def trial_held_def trial_reservation_def and_then_def
        optional_stamp_def trial_stamps trial_digest_hex unlisted_none)
qed

lemma trial_reconcile: "budget_step trial_digest trial_held (Reconcile trial_usage_args) = Inr trial_doubtful"
proof -
  have "unused_reservation ''reconcile'' trial_held trial_usage = Inr trial_reservation"
    by (simp add: unused_reservation_def bound_usage_def trial_held_def trial_usage_def
        trial_reservation_def and_then_def)
  then show ?thesis
    by (simp add: trial_usage_made and_then_def reconcile_uncertain_usage_def)
      (simp add: spawn_def make_ledger_def trial_held_def trial_doubtful_def trial_usage_def
        and_then_def optional_stamp_def trial_stamps trial_digest_hex unlisted_none)
qed

lemma trial_calls:
  "budget_calls trial_digest trial_start trial_held" "budget_calls trial_digest trial_held trial_doubtful"
proof -
  have "call_ok (Reserve trial_reservation_args)" "call_ok (Reconcile trial_usage_args)"
    by (simp_all add: trial_reservation_args_def trial_usage_args_def stamp_ok_def)
  then show "budget_calls trial_digest trial_start trial_held" "budget_calls trial_digest trial_held trial_doubtful"
    using trial_reserve trial_reconcile by (blast intro: budget_calls.intros)+
qed

lemma budget_calls_trans:
  "budget_calls digest l' l'' \<Longrightarrow> budget_calls digest l l' \<Longrightarrow> budget_calls digest l l''"
  by (induction rule: budget_calls.induct) (auto intro: budget_calls.next_call)

lemma trial_reachable: "reachable_budget trial_digest trial_held" "reachable_budget trial_digest trial_doubtful"
proof -
  have "policy_stamps_ok trial_policy_args"
    by (simp add: policy_stamps_ok_def stamp_ok_def trial_policy_args_def)
  then show "reachable_budget trial_digest trial_held" "reachable_budget trial_digest trial_doubtful"
    using trial_policy_made trial_start_made trial_calls budget_calls_trans
    unfolding reachable_budget_def by meson+
qed

lemma trial_book:
  "book_of trial_doubtful ''res-1'' = Some (trial_reservation, [Used trial_usage])" "\<not> settled trial_usage"
  by (simp_all add: book_of_def closings_def trial_doubtful_def trial_reservation_def trial_usage_def settled_def)

section \<open>The properties\<close>

text \<open>C9. No reachable ledger exceeds its policy: what used calls cost and held calls may still cost
  stays within the cap of the policy, of each provider, of each model and of each run, the calls
  stay within their two counts, and the tokens within their caps.
\<close>

theorem budget_within_caps:
  assumes "reachable_budget digest l"
  shows "bl_committed_cost l + bl_reserved_cost l \<le> bp_total_cap (bl_policy l) \<and>
    committed_for l (Some p) None None + reserved_for l (Some p) None None
      \<le> cap_of (bp_provider_caps (bl_policy l)) p \<and>
    committed_for l None (Some m) None + reserved_for l None (Some m) None
      \<le> cap_of (bp_model_caps (bl_policy l)) m \<and>
    committed_for l None None (Some r) + reserved_for l None None (Some r) \<le> bp_run_cap (bl_policy l) \<and>
    bl_call_count l \<le> bp_max_calls (bl_policy l) \<and>
    int (run_calls l r) \<le> bp_max_run_calls (bl_policy l) \<and>
    bl_committed_input l + sum_list (map re_input (active_reservations l)) \<le> bp_max_input (bl_policy l) \<and>
    bl_committed_output l + sum_list (map re_output (active_reservations l)) \<le> bp_max_output (bl_policy l)"
proof -
  have "within_caps l" and sums: "ledger_sums l"
    using reachable_sound [OF assms] by (simp_all add: budget_sound_def budget_ok_sums)
  moreover have "bl_committed_cost l + bl_reserved_cost l = cost_of None None None l"
    "bl_committed_input l + sum_list (map re_input (active_reservations l)) = exposure us_input re_input l"
    "bl_committed_output l + sum_list (map re_output (active_reservations l)) = exposure us_output re_output l"
    "bl_call_count l = int (length (bl_reservations l))"
    using sums by (simp_all add: ledger_sums_def exposure_def)
  ultimately show ?thesis by (simp add: exposure_for within_caps_def)
qed

theorem budget_within_caps_witness:
  "bl_committed_cost trial_held + bl_reserved_cost trial_held \<le> bp_total_cap (bl_policy trial_held)"
  using budget_within_caps [OF trial_reachable(1), where p = "''DEEPSEEK''" and m = "''DEEPSEEK_PRIMARY''"
    and r = "''run-1''"] by (rule conjunct1)



text \<open>C32. A call that is settled, released or in doubt stays so whatever is called later: the ledger
  keeps its reservation and the one usage or release it has, and adds nothing to them.  In particular
  an uncertain outcome is never resolved: no operation records what the call really cost, and its
  budget stays reserved.
\<close>

theorem closed_calls_final:
  assumes "reachable_budget digest l" and "budget_calls digest l l'"
    and "book_of l i = Some (r, cs)" and "cs \<noteq> []"
  shows "book_of l' i = Some (r, cs) \<and> length cs = 1 \<and>
    (\<forall>u. cs = [Used u] \<and> \<not> settled u \<longrightarrow> r \<in> set (active_reservations l'))"
proof -
  note calls = sound_calls [OF reachable_sound [OF assms(1)] assms(2)]
    moves_book [OF _ reachable_sound [OF assms(1)]]
  have "length cs = 1"
    using closings_single reachable_sound [OF assms(1)] assms(3,4) by (auto simp: book_of_def budget_sound_def)
  moreover have kept: "book_of l' i = Some (r, cs)" using calls book_steps_final [of "book_of l" "book_of l'" i r cs] assms(3,4) by blast
  ultimately show ?thesis using doubt_held [of l' i r] by blast
qed

theorem closed_calls_final_witness:
  "book_of trial_doubtful ''res-1'' = Some (trial_reservation, [Used trial_usage]) \<and> \<not> settled trial_usage \<and>
    trial_reservation \<in> set (active_reservations trial_doubtful)"
  using closed_calls_final [OF trial_reachable(2) budget_calls.no_call trial_book(1)] trial_book(2) by simp

lemma stopped_move:
  assumes "budget_ok l" "bl_state l \<noteq> ''OPEN''" "ledger_move digest l l'"
  shows "bl_state l' \<noteq> ''OPEN'' \<and> bl_reservations l' = bl_reservations l \<and>
    cost_of p m r l' \<le> cost_of p m r l"
  using assms(3)
proof (cases rule: ledger_move_cases)
  case (use u e)
  then show ?thesis using assms(2) costs.use_exposure [OF assms(1) use(2-7)] by simp
next
  case (free e)
  then show ?thesis using assms(2) costs.free_exposure [OF assms(1) free(1-4)] by simp
next
  case stop
  then show ?thesis using holding_cong [OF stop(3)] by (simp add: exposure_def)
qed (use assms(2) in simp)

lemma stopped_moves:
  "(ledger_move digest)\<^sup>*\<^sup>* l l' \<Longrightarrow> budget_sound digest l \<Longrightarrow> bl_state l \<noteq> ''OPEN'' \<Longrightarrow>
     bl_state l' \<noteq> ''OPEN'' \<and> bl_reservations l' = bl_reservations l \<and> cost_of p m r l' \<le> cost_of p m r l"
proof (induction rule: rtranclp_induct)
  case (step k l')
  then have "budget_ok k" using moves_sound by (auto simp: budget_sound_def)
  then show ?case using stopped_move [of k digest l' p m r] step by fastforce
qed simp

text \<open>C20. A ledger that has stopped never opens again: along any calls it stays stopped, no
  reservation is added, what it is exposed to (in total, and for each provider, model and run)
  only falls, and every request for authorization is denied.
\<close>

theorem stopped_budget_final:
  assumes "reachable_budget digest l" and "bl_state l \<noteq> ''OPEN''" and "budget_calls digest l l'"
  shows "bl_state l' \<noteq> ''OPEN'' \<and> bl_reservations l' = bl_reservations l \<and>
    committed_for l' p m r + reserved_for l' p m r \<le> committed_for l p m r + reserved_for l p m r \<and>
    \<not> (\<exists>a. evaluate_call_authorization l' provider model run_id call_id = Inr a \<and> au_allowed a)"
proof -
  have stopped: "bl_state l' \<noteq> ''OPEN'' \<and> bl_reservations l' = bl_reservations l \<and>
      cost_of p m r l' \<le> cost_of p m r l"
    using sound_calls [OF reachable_sound [OF assms(1)] assms(3)]
      stopped_moves [OF _ reachable_sound [OF assms(1)] assms(2)] by blast
  moreover have "\<not> au_allowed a" if "evaluate_call_authorization l' provider model run_id call_id = Inr a" for a
    using that stopped by (auto simp: evaluate_call_authorization_def denied_made split: if_splits)
  ultimately show ?thesis by (auto simp: exposure_for)
qed

theorem stopped_budget_final_witness:
  "\<not> (\<exists>a. evaluate_call_authorization trial_doubtful (PStr ''DEEPSEEK'') (PStr ''DEEPSEEK_PRIMARY'')
     (PStr ''run-1'') (PStr ''call-1'') = Inr a \<and> au_allowed a)"
  using stopped_budget_final [OF trial_reachable(2) _ budget_calls.no_call, where p = None and m = None
      and r = None and provider = "PStr ''DEEPSEEK''" and model = "PStr ''DEEPSEEK_PRIMARY''"
      and run_id = "PStr ''run-1''" and call_id = "PStr ''call-1''"]
  by (simp add: trial_doubtful_def)

text \<open>On a reachable ledger \<open>reserve_call\<close> accepts a constructed reservation exactly when it
  repeats the one of the same id or call, or when the ledger is open and every condition of the
  policy holds with the reservation counted in.
\<close>

theorem reserve_call_iff:
  assumes "reachable_budget digest l" and "hex_digest digest"
    and "make_reservation digest a = Inr r" and "call_ok (Reserve a)"
  shows "(\<exists>l'. reserve_call digest l r = Inr l') \<longleftrightarrow>
    (case find (same_call r) (bl_reservations l) of
       Some e \<Rightarrow> re_identity e = re_identity r
     | None \<Rightarrow> bl_state l = ''OPEN'' \<and> admissible l r)"
  using reserve_call_outcome [OF reachable_sound [OF assms(1)] assms(2)] make_reservation_ok [OF assms(3)]
    assms(4) by simp

theorem reserve_call_iff_witness: "\<exists>l'. reserve_call trial_digest trial_held trial_reservation = Inr l'"
  using reserve_call_iff [OF trial_reachable(1) trial_digest_hex(1) trial_reservation_made]
  by (simp add: trial_reservation_args_def stamp_ok_def trial_held_def same_call_def)

text \<open>On a reachable ledger a request for authorization never raises, and it is allowed exactly
  when the policy is active and approved, the ledger is open, the provider and the model are
  allowed together, and the call has a reservation that nothing has used or released.
\<close>

theorem authorization_iff:
  assumes "reachable_budget digest l"
    and "budget_identifier p" and "budget_identifier m" and "budget_identifier i" and "budget_identifier c"
  shows "\<exists>a. evaluate_call_authorization l (PStr p) (PStr m) (PStr i) (PStr c) = Inr a \<and>
    (au_allowed a \<longleftrightarrow> (\<exists>r. authorizable l p m i c r)) \<and>
    (au_allowed a \<longleftrightarrow> (\<exists>r. au_reservation_id a = Some (re_id r) \<and> authorizable l p m i c r))"
proof -
  have "budget_ok l" using reachable_sound [OF assms(1)] by (simp add: budget_sound_def)
  then show ?thesis
    by (rule evaluate_outcome [OF _ assms(2-5)]) auto
qed

theorem authorization_iff_witness:
  "\<exists>a. evaluate_call_authorization trial_held (PStr ''DEEPSEEK'') (PStr ''DEEPSEEK_PRIMARY'') (PStr ''run-1'')
     (PStr ''call-1'') = Inr a \<and> au_allowed a"
proof -
  have "authorizable trial_held ''DEEPSEEK'' ''DEEPSEEK_PRIMARY'' ''run-1'' ''call-1'' trial_reservation"
    by (simp add: authorizable_def trial_held_def trial_policy_def trial_reservation_def book_of_def
        closings_def can_authorize_calls_def model_provider_def)
  then show ?thesis
    using authorization_iff [OF trial_reachable(1), of "''DEEPSEEK''" "''DEEPSEEK_PRIMARY''" "''run-1''" "''call-1''"]
      trial_identifiers by auto
qed

section \<open>Two defects of the routes\<close>

text \<open>A later uncertain outcome replaces the hard stop of a ledger.\<close>

lemma reconcile_overwrites_stop:
  "reconcile_uncertain_usage digest l u = Inr l' \<Longrightarrow> bl_state l' = ''RECONCILIATION_REQUIRED''"
  unfolding reconcile_uncertain_usage_def inr_convs by (auto elim: spawn_dest)

text \<open>
  The reservation ids of a route leave out the run: while the ledger holds the primary call of one
  run, the route of another run with the same call id is a conflict, although a call is identified
  by its run and its id everywhere else.
\<close>

lemma route_reservation_sel:
  assumes "route_reservation digest l route run call p m suffix = Inr r"
  shows "re_id r = ''route-'' @ map folded route @ ''-'' @ call @ ''-'' @ suffix" "re_run_id r = run"
    "re_call_id r = call @ ''-'' @ suffix"
  using assms unfolding route_reservation_def make_reservation_def inr_convs
  by (auto simp: fixed_reservation_def Let_def)

lemma route_ids_collide:
  assumes "route_reservation digest l route run call p m suffix = Inr r"
    and "route_reservation digest l route run' call p m suffix = Inr r'"
    and "find (same_call r') (bl_reservations l) = None" and "re_identity r \<noteq> re_identity r'"
    and "reserve_call digest l r = Inr l'" and "bl_reservations l' = bl_reservations l @ [r]"
  shows "reserve_call digest l' r' = Inl ''conflicting duplicate reservation''"
proof -
  have "same_call r' r"
    using route_reservation_sel [OF assms(1)] route_reservation_sel [OF assms(2)] by (simp add: same_call_def)
  then have "find (same_call r') (bl_reservations l') = Some r"
    using assms(3,6) by (simp add: find_append)
  then show ?thesis using assms(4) by (simp add: reserve_call_def)
qed

end
