(* ===== verification/Forward_Time.thy ===== *)
theory Forward_Time
  imports Utc_Time
begin

text \<open>
  The \<open>datetime\<close> values of the forward test (\<open>src/engine/forward_outcome_resolver_v4.py\<close> and
  \<open>src/engine/forward_test_validator_v4.py\<close>): a moment in UTC as the microseconds since the start of
  year 1, read from ISO text and written back.  \<open>fromisoformat\<close> is modelled on the extended form
  with an optional time, fraction and offset; the basic and the week-date forms that Python 3.11
  adds, which nothing in the repository writes, count as invalid.
\<close>

section \<open>Moments on a line\<close>

definition days_before_year :: "nat \<Rightarrow> nat" where
  "days_before_year y = (let k = y - 1 in 365 * k + k div 4 - k div 100 + k div 400)"

definition days_before_month :: "nat \<Rightarrow> nat \<Rightarrow> nat" where
  "days_before_month y m = sum_list (map (days_in_month y) [1..<m])"

definition day_micros :: int where
  "day_micros = 86400000000"

definition hour_micros :: int where
  "hour_micros = 3600000000"

definition instant :: "moment \<Rightarrow> int" where
  "instant = (\<lambda>(y, mo, d, h, mi, s, us).
     int (days_before_year y + days_before_month y mo + (d - 1)) * day_micros +
     int h * hour_micros + int mi * 60000000 + int s * 1000000 + int us)"

text \<open>\<open>datetime.min\<close> and \<open>datetime.max\<close>\<close>

definition in_range :: "int \<Rightarrow> bool" where
  "in_range t = (0 \<le> t \<and> t < 3652059 * day_micros)"

text \<open>The year and the day of the year, and the month, of a day counted from the start of year 1.\<close>

definition year_day :: "nat \<Rightarrow> nat \<times> nat" where
  "year_day n =
    (let n400 = n div 146097; a = n mod 146097;
         n100 = a div 36524; b = a mod 36524;
         n4 = b div 1461; c = b mod 1461;
         n1 = c div 365; d = c mod 365;
         y = 400 * n400 + 100 * n100 + 4 * n4 + n1 + 1
     in if n1 = 4 \<or> n100 = 4 then (y - 1, 365) else (y, d))"

fun month_day :: "nat \<Rightarrow> nat list \<Rightarrow> nat \<Rightarrow> nat \<times> nat" where
  "month_day y [] n = (12, n)"
| "month_day y (m # ms) n =
    (if n < days_in_month y m then (m, n) else month_day y ms (n - days_in_month y m))"

definition civil :: "int \<Rightarrow> moment" where
  "civil t =
    (let (y, n) = year_day (nat (t div day_micros));
         (m, d) = month_day y [1..<13] n;
         r = nat (t mod day_micros)
     in (y, m, d + 1, r div 3600000000, r div 60000000 mod 60, r div 1000000 mod 60, r mod 1000000))"

text \<open>\<open>isoformat()\<close> of a moment in UTC\<close>

definition iso_text :: "int \<Rightarrow> string" where
  "iso_text t = (case civil t of (y, mo, d, h, mi, s, us) \<Rightarrow>
     padded 4 y @ ''-'' @ padded 2 mo @ ''-'' @ padded 2 d @ ''T'' @ padded 2 h @ '':'' @
     padded 2 mi @ '':'' @ padded 2 s @ (if us = 0 then [] else ''.'' @ padded 6 us) @ ''+00:00'')"

section \<open>Reading ISO text\<close>

definition take_number :: "nat \<Rightarrow> string \<Rightarrow> (nat \<times> string) option" where
  "take_number k s =
    (if length (take k s) = k \<and> list_all is_digit (take k s) then Some (number (take k s), drop k s)
     else None)"

definition take_char :: "char \<Rightarrow> string \<Rightarrow> string option" where
  "take_char c s = (case s of [] \<Rightarrow> None | d # ds \<Rightarrow> if d = c then Some ds else None)"

text \<open>A fraction of a second, cut off after six digits.\<close>

definition take_fraction :: "string \<Rightarrow> (nat \<times> string) option" where
  "take_fraction s =
    (let ds = takeWhile is_digit s; six = take 6 ds
     in if ds = [] then None
        else Some (number six * 10 ^ (6 - length six), dropWhile is_digit s))"

text \<open>\<open>HH[:MM[:SS[.f]]]\<close>, as hour, minute, second and microsecond.\<close>

definition take_clock :: "string \<Rightarrow> ((nat \<times> nat \<times> nat \<times> nat) \<times> string) option" where
  "take_clock s =
    (case take_number 2 s of
       None \<Rightarrow> None
     | Some (h, s1) \<Rightarrow>
         (case Option.bind (take_char CHR '':'' s1) (take_number 2) of
            None \<Rightarrow> Some ((h, 0, 0, 0), s1)
          | Some (mi, s2) \<Rightarrow>
              (case Option.bind (take_char CHR '':'' s2) (take_number 2) of
                 None \<Rightarrow> Some ((h, mi, 0, 0), s2)
               | Some (sec, s3) \<Rightarrow>
                   (case Option.bind (take_char CHR ''.'' s3) take_fraction of
                      None \<Rightarrow> Some ((h, mi, sec, 0), s3)
                    | Some (us, s4) \<Rightarrow> Some ((h, mi, sec, us), s4)))))"

text \<open>The offset of a text: None is an error, \<open>Some None\<close> a text without one.\<close>

definition read_offset :: "string \<Rightarrow> int option option" where
  "read_offset s =
    (if s = [] then Some None
     else if s = ''Z'' then Some (Some 0)
     else
       (case take_clock (tl s) of
          Some ((h, mi, sec, us), []) \<Rightarrow>
            if hd s \<in> {CHR ''+'', CHR ''-''} \<and> h < 24 \<and> mi < 60 \<and> sec < 60
            then
              (let size = int h * hour_micros + int mi * 60000000 + int sec * 1000000 + int us
               in Some (Some (if hd s = CHR ''-'' then - size else size)))
            else None
        | _ \<Rightarrow> None))"

text \<open>\<open>datetime.fromisoformat\<close>: the local time and, if there is one, its offset from UTC.\<close>

definition from_isoformat :: "string \<Rightarrow> (int \<times> int option) option" where
  "from_isoformat s =
    (let date = take 10 s;
         parts = (number (take 4 date), number (take 2 (drop 5 date)), number (drop 8 date))
     in if match_template ''dddd-dd-dd'' date \<noteq> Some [] then None
        else if drop 10 s = []
        then (case parts of (y, mo, d) \<Rightarrow>
          if valid_moment (y, mo, d, 0, 0, 0, 0) then Some (instant (y, mo, d, 0, 0, 0, 0), None) else None)
        else
          (case (parts, take_clock (drop 11 s)) of
             ((y, mo, d), Some ((h, mi, sec, us), rest)) \<Rightarrow>
               (case read_offset rest of
                  None \<Rightarrow> None
                | Some offset \<Rightarrow>
                    if valid_moment (y, mo, d, h, mi, sec, us)
                    then Some (instant (y, mo, d, h, mi, sec, us), offset) else None)
           | _ \<Rightarrow> None))"

text \<open>The moment in UTC of a local time; a time without an offset is taken to be in UTC.  None is
  the \<open>OverflowError\<close> of \<open>astimezone\<close>.\<close>

definition in_utc :: "int \<times> int option \<Rightarrow> int option" where
  "in_utc = (\<lambda>(t, offset).
     (case offset of None \<Rightarrow> Some t | Some d \<Rightarrow> if in_range (t - d) then Some (t - d) else None))"

end
