(* ===== verification/Forward_Test.thy ===== *)
theory Forward_Test
  imports Forward_Time Setup_Lifecycle Escalation_Router
begin

text \<open>
  The forward test: \<open>src/engine/forward_outcome_resolver_v4.py\<close> reads an entry artifact and adds, to a
  resolution file beside it, what each candidate did four, eight and twelve hours after its
  reference candle; \<open>src/engine/forward_test_validator_v4.py\<close> checks the two files and votes;
  \<open>src/engine/run_forward_test_v4.py\<close> and \<open>src/engine/forward_test_integration_v4.py\<close> call both.

  The files of one directory are a function from names.  A JSON document is a \<open>pv\<close> whose
  dictionaries keep the order of their keys, which both modules check.  The client that fetches
  candles, the rounding of one operation on floats and the number \<open>float()\<close> reads from a text are
  the parameters of \<open>market\<close>; a float is finite, and an integer of a document converts to a float.
\<close>

section \<open>Errors and parameters\<close>

text \<open>The exceptions of the two modules, which catch none of them but a malformed reference time.\<close>

datatype forward_error =
    Value_Error string
  | Type_Error
  | Attribute_Error
  | Overflow_Error
  | File_Not_Found
  | Undecodable
  | Market_Error
  | Write_Error

record market =
  quotes :: "pv \<Rightarrow> candle list option" \<comment> \<open>\<open>get_ohlcv\<close>; time stamps are moments in UTC\<close>
  rounded :: "rat \<Rightarrow> rat"
  text_number :: "string \<Rightarrow> rat option"

section \<open>Python on values\<close>

text \<open>\<open>list(v.keys()) != keys\<close>\<close>

definition check_keys :: "string list \<Rightarrow> string \<Rightarrow> pv \<Rightarrow> (forward_error, unit) result" where
  "check_keys keys message v =
    (case v of
       PDict d \<Rightarrow> if map fst d = keys then Inr () else Inl (Value_Error message)
     | _ \<Rightarrow> Inl Attribute_Error)"

fun check_all :: "('a \<Rightarrow> ('e, unit) result) \<Rightarrow> 'a list \<Rightarrow> ('e, unit) result" where
  "check_all f [] = Inr ()"
| "check_all f (x # xs) = and_then (f x) (\<lambda>_. check_all f xs)"

text \<open>A set of values, in the order of their insertion; equal values are one element.\<close>

definition py_member :: "pv \<Rightarrow> pv list \<Rightarrow> bool" where
  "py_member v s = list_ex (py_eq v) s"

definition hashed :: "pv list \<Rightarrow> (forward_error, pv list) result" where
  "hashed vs =
    (if list_ex unhashable vs then Inl Type_Error
     else Inr (foldl (\<lambda>s v. if py_member v s then s else s @ [v]) [] vs))"

text \<open>\<open>v[k] = x\<close>, \<open>len(v)\<close> and the elements of \<open>v\<close>, for a value that is not checked before.\<close>

definition set_field :: "string \<Rightarrow> pv \<Rightarrow> pv \<Rightarrow> pv" where
  "set_field k x v = PDict (AList.update k x (items v))"

definition elements :: "pv \<Rightarrow> pv list option" where
  "elements v = (case v of PStr s \<Rightarrow> Some (map (\<lambda>c. PStr [c]) s) | _ \<Rightarrow> iterated v)"

text \<open>\<open>not isinstance(v, list) or not v\<close>\<close>

definition filled_list :: "pv \<Rightarrow> bool" where
  "filled_list v = (case v of PList xs \<Rightarrow> xs \<noteq> [] | _ \<Rightarrow> False)"

definition rows_of :: "pv \<Rightarrow> pv list" where
  "rows_of v = (case v of PList xs \<Rightarrow> xs | _ \<Rightarrow> [])"

definition normalize_reference_candle_utc :: "pv \<Rightarrow> (forward_error, int) result" where
  "normalize_reference_candle_utc v =
    (case v of
       PStr s \<Rightarrow>
         (case from_isoformat s of
            None \<Rightarrow> Inl (Value_Error ''Invalid isoformat string'')
          | Some local \<Rightarrow> (case in_utc local of None \<Rightarrow> Inl Overflow_Error | Some t \<Rightarrow> Inr t))
     | _ \<Rightarrow> Inl Type_Error)"

section \<open>The resolution of an entry\<close>

definition entry_keys :: "string list" where
  "entry_keys = [''snapshot_type'', ''schema_version'', ''captured_at'', ''candidates'']"

definition entry_candidate_keys :: "string list" where
  "entry_candidate_keys = [''symbol'', ''reference_price'', ''reference_candle_at'', ''python_score'',
     ''validation_adjustment'', ''final_rank_score'', ''trend'', ''bos'', ''choch'', ''volume_ratio'',
     ''volume_class'', ''oi_change_pct'', ''oi_class'', ''participation'', ''ai_validation'']"

definition ai_validation_keys :: "string list" where
  "ai_validation_keys = [''status'', ''false_breakout_risk'', ''confluence'', ''reason_code'']"

definition resolved_keys :: "string list" where
  "resolved_keys = [''snapshot_type'', ''schema_version'', ''entry_artifact'', ''entry_snapshot_type'',
     ''entry_schema_version'', ''entry_captured_at'', ''reference_candle_at'', ''candidates'']"

definition resolved_candidate_keys :: "string list" where
  "resolved_candidate_keys = [''symbol'', ''reference_price'', ''resolved_horizons'']"

definition horizon_keys :: "string list" where
  "horizon_keys = [''horizon'', ''target_at'', ''return_price'', ''return_pct'', ''mfe_price'', ''mfe_pct'',
     ''mae_price'', ''mae_pct'']"

definition horizon_names :: "string list" where
  "horizon_names = [''h4'', ''h8'', ''h12'']"

definition entry_prefix :: string where
  "entry_prefix = ''outcome_entry_v4_''"

definition derive_resolution_path :: "string \<Rightarrow> (forward_error, string) result" where
  "derive_resolution_path name =
    (if take (length entry_prefix) name = entry_prefix
     then Inr (''outcome_resolved_v4_'' @ drop (length entry_prefix) name)
     else Inl (Value_Error ''Invalid V4 outcome entry artifact name''))"

definition check_entry_row :: "pv \<Rightarrow> (forward_error, unit) result" where
  "check_entry_row row =
    and_then (check_keys entry_candidate_keys ''Invalid V4 outcome entry candidate schema'' row) (\<lambda>_.
      check_keys ai_validation_keys ''Invalid V4 outcome entry AI validation schema''
        (fld row ''ai_validation''))"

definition initial_candidate :: "pv \<Rightarrow> pv" where
  "initial_candidate row = PDict [
     (''symbol'', fld row ''symbol''), (''reference_price'', fld row ''reference_price''),
     (''resolved_horizons'', PDict [])]"

definition build_initial_resolution_state :: "string \<Rightarrow> pv \<Rightarrow> (forward_error, pv) result" where
  "build_initial_resolution_state name entry =
    and_then (check_keys entry_keys ''Invalid V4 outcome entry top-level schema'' entry) (\<lambda>_.
    if \<not> py_eq (fld entry ''snapshot_type'') (PStr ''v4_outcome_tracker_entry'')
    then Inl (Value_Error ''Invalid V4 outcome entry snapshot type'')
    else if \<not> py_eq (fld entry ''schema_version'') (PInt 1)
    then Inl (Value_Error ''Invalid V4 outcome entry schema version'')
    else if \<not> filled_list (fld entry ''candidates'')
    then Inl (Value_Error ''Invalid V4 outcome entry candidates'')
    else
      (let rows = rows_of (fld entry ''candidates'') in
       and_then (check_all check_entry_row rows) (\<lambda>_.
       and_then (hashed (map (\<lambda>row. fld row ''reference_candle_at'') rows)) (\<lambda>times.
       if length times \<noteq> 1
       then Inl (Value_Error ''V4 outcome entry candidates do not share one reference candle'')
       else and_then (normalize_reference_candle_utc (hd times)) (\<lambda>_.
         Inr (PDict [
           (''snapshot_type'', PStr ''v4_forward_outcome_resolution''),
           (''schema_version'', PInt 1),
           (''entry_artifact'', PStr name),
           (''entry_snapshot_type'', fld entry ''snapshot_type''),
           (''entry_schema_version'', fld entry ''schema_version''),
           (''entry_captured_at'', fld entry ''captured_at''),
           (''reference_candle_at'', hd times),
           (''candidates'', PList (map initial_candidate rows))]))))))"

subsection \<open>An existing resolution\<close>

definition check_horizon :: "string \<times> pv \<Rightarrow> (forward_error, unit) result" where
  "check_horizon = (\<lambda>(name, h).
    if name \<notin> set horizon_names then Inl (Value_Error ''Existing resolution contains unknown horizon'')
    else if \<not> is_dict h then Inl (Value_Error ''Existing horizon result must be a dictionary'')
    else and_then (check_keys horizon_keys ''Existing horizon result schema mismatch'' h) (\<lambda>_.
      if \<not> py_eq (fld h ''horizon'') (PStr name)
      then Inl (Value_Error ''Existing horizon identity mismatch'') else Inr ()))"

definition check_existing :: "pv \<times> pv \<Rightarrow> (forward_error, unit) result" where
  "check_existing = (\<lambda>(existing, expected).
    and_then (check_keys resolved_candidate_keys ''Existing resolution candidate schema mismatch'' existing)
      (\<lambda>_.
      if \<not> py_eq (fld existing ''symbol'') (fld expected ''symbol'')
      then Inl (Value_Error ''Existing resolution candidate symbol mismatch'')
      else if \<not> py_eq (fld existing ''reference_price'') (fld expected ''reference_price'')
      then Inl (Value_Error ''Existing resolution candidate reference price mismatch'')
      else if \<not> is_dict (fld existing ''resolved_horizons'')
      then Inl (Value_Error ''Existing resolved_horizons must be a dictionary'')
      else check_all check_horizon (items (fld existing ''resolved_horizons''))))"

definition check_identity :: "pv \<Rightarrow> pv \<Rightarrow> string \<Rightarrow> (forward_error, unit) result" where
  "check_identity state expected field =
    (if py_eq (fld state field) (fld expected field) then Inr ()
     else Inl (Value_Error (''Existing resolution identity mismatch: '' @ field)))"

definition validate_existing_resolution_state ::
  "pv \<Rightarrow> string \<Rightarrow> pv \<Rightarrow> (forward_error, unit) result" where
  "validate_existing_resolution_state state name entry =
    and_then (build_initial_resolution_state name entry) (\<lambda>expected.
    and_then (check_keys resolved_keys ''Existing resolution top-level schema mismatch'' state) (\<lambda>_.
    and_then (check_all (check_identity state expected) (butlast resolved_keys)) (\<lambda>_.
      (case elements (fld state ''candidates'') of
         None \<Rightarrow> Inl Type_Error
       | Some existing \<Rightarrow>
           (let rows = rows_of (fld expected ''candidates'')
            in if length existing \<noteq> length rows
               then Inl (Value_Error ''Existing resolution candidate count mismatch'')
               else check_all check_existing (zip existing rows))))))"

definition load_or_initialize_resolution_state ::
  "(string \<Rightarrow> disk_file) \<Rightarrow> string \<Rightarrow> string \<Rightarrow> pv \<Rightarrow> (forward_error, pv) result" where
  "load_or_initialize_resolution_state files path name entry =
    (case files path of
       Absent \<Rightarrow> build_initial_resolution_state name entry
     | Garbled \<Rightarrow> Inl Undecodable
     | Stored state \<Rightarrow> and_then (validate_existing_resolution_state state name entry) (\<lambda>_. Inr state))"

section \<open>Horizons and candles\<close>

record horizon =
  ho_name :: string
  ho_target :: int
  ho_candles :: nat

definition get_horizon_contracts :: "int \<Rightarrow> (forward_error, horizon list) result" where
  "get_horizon_contracts reference =
    (let close = reference + 4 * hour_micros in
     if in_range (close + 12 * hour_micros)
     then Inr [
       \<lparr>ho_name = ''h4'', ho_target = close + 4 * hour_micros, ho_candles = 1\<rparr>,
       \<lparr>ho_name = ''h8'', ho_target = close + 8 * hour_micros, ho_candles = 2\<rparr>,
       \<lparr>ho_name = ''h12'', ho_target = close + 12 * hour_micros, ho_candles = 3\<rparr>]
     else Inl Overflow_Error)"

text \<open>A dictionary whose keys are values.\<close>

fun py_assoc :: "(pv \<times> 'a) list \<Rightarrow> pv \<Rightarrow> 'a option" where
  "py_assoc [] k = None"
| "py_assoc ((k', x) # d) k = (if py_eq k' k then Some x else py_assoc d k)"

fun py_put :: "pv \<Rightarrow> 'a \<Rightarrow> (pv \<times> 'a) list \<Rightarrow> (pv \<times> 'a) list" where
  "py_put k x [] = [(k, x)]"
| "py_put k x ((k', y) # d) = (if py_eq k' k then (k', x) # d else (k', y) # py_put k x d)"

definition unresolved :: "horizon list \<Rightarrow> int \<Rightarrow> pv \<Rightarrow> horizon list" where
  "unresolved contracts now candidate =
    filter (\<lambda>h. \<not> has_key (fld candidate ''resolved_horizons'') (ho_name h) \<and> ho_target h \<le> now) contracts"

fun eligible_from ::
  "horizon list \<Rightarrow> int \<Rightarrow> (pv \<times> horizon list) list \<Rightarrow> pv list \<Rightarrow>
    (forward_error, (pv \<times> horizon list) list) result" where
  "eligible_from contracts now d [] = Inr d"
| "eligible_from contracts now d (c # cs) =
    (if unresolved contracts now c = [] then eligible_from contracts now d cs
     else if unhashable (fld c ''symbol'') then Inl Type_Error
     else eligible_from contracts now (py_put (fld c ''symbol'') (unresolved contracts now c) d) cs)"

definition get_eligible_unresolved_horizons ::
  "pv \<Rightarrow> horizon list \<Rightarrow> int \<times> int option \<Rightarrow> (forward_error, (pv \<times> horizon list) list) result" where
  "get_eligible_unresolved_horizons state contracts now =
    (case in_utc now of
       None \<Rightarrow> Inl Overflow_Error
     | Some t \<Rightarrow> eligible_from contracts t [] (rows_of (fld state ''candidates'')))"

text \<open>The opens of the closed candles up to the target: the loop over \<open>cursor\<close>.\<close>

function expected_opens :: "int \<Rightarrow> int \<Rightarrow> int list" where
  "expected_opens cursor target =
    (if cursor + 4 * hour_micros \<le> target then cursor # expected_opens (cursor + 4 * hour_micros) target
     else [])"
  by pat_completeness auto

termination
  by (relation "measure (\<lambda>(cursor, target). nat (target - cursor))") (auto simp: hour_micros_def)

definition select_exact_closed_candle_window ::
  "candle list \<Rightarrow> int \<Rightarrow> int \<Rightarrow> (forward_error, candle list) result" where
  "select_exact_closed_candle_window df close target =
    (let opens = expected_opens close target;
         window = filter (\<lambda>c. ca_timestamp c \<in> set opens) df
     in if \<not> distinct (map ca_timestamp df) then Inl (Value_Error ''Duplicate OHLCV timestamps found'')
        else if length window \<noteq> length opens
        then Inl (Value_Error ''Exact closed-candle window count mismatch'')
        else if map ca_timestamp window \<noteq> opens
        then Inl (Value_Error ''Exact closed-candle timestamp set mismatch'')
        else Inr window)"

text \<open>\<open>float(v)\<close>\<close>

definition to_float :: "market \<Rightarrow> pv \<Rightarrow> (forward_error, rat) result" where
  "to_float m v =
    (case v of
       PReal x \<Rightarrow> Inr x
     | PStr s \<Rightarrow>
         (case text_number m s of
            None \<Rightarrow> Inl (Value_Error ''could not convert string to float'') | Some x \<Rightarrow> Inr x)
     | _ \<Rightarrow> (case num_of v of None \<Rightarrow> Inl Type_Error | Some x \<Rightarrow> Inr (rounded m x)))"

definition change_pct :: "market \<Rightarrow> rat \<Rightarrow> rat \<Rightarrow> rat" where
  "change_pct m price reference =
    rounded m (rounded m (rounded m (price / reference) - 1) * 100)"

record horizon_result =
  hr_return_price :: rat
  hr_return_pct :: rat
  hr_mfe_price :: rat
  hr_mfe_pct :: rat
  hr_mae_price :: rat
  hr_mae_pct :: rat

definition calculate_horizon_result ::
  "market \<Rightarrow> candle list \<Rightarrow> pv \<Rightarrow> (forward_error, horizon_result) result" where
  "calculate_horizon_result m w reference_price =
    (if w = [] then Inl (Value_Error ''Cannot calculate horizon result from empty window'')
     else and_then (to_float m reference_price) (\<lambda>p.
       if p \<le> 0 then Inl (Value_Error ''Reference price must be positive'')
       else
         (let return_price = ca_close (last w);
              mfe_price = foldr max (map ca_high (tl w)) (ca_high (hd w));
              mae_price = foldr min (map ca_low (tl w)) (ca_low (hd w))
          in Inr \<lparr>
            hr_return_price = return_price, hr_return_pct = change_pct m return_price p,
            hr_mfe_price = mfe_price, hr_mfe_pct = change_pct m mfe_price p,
            hr_mae_price = mae_price, hr_mae_pct = change_pct m mae_price p\<rparr>)))"

definition horizon_doc :: "horizon \<Rightarrow> horizon_result \<Rightarrow> pv" where
  "horizon_doc h r = PDict [
     (''horizon'', PStr (ho_name h)), (''target_at'', PStr (iso_text (ho_target h))),
     (''return_price'', PReal (hr_return_price r)), (''return_pct'', PReal (hr_return_pct r)),
     (''mfe_price'', PReal (hr_mfe_price r)), (''mfe_pct'', PReal (hr_mfe_pct r)),
     (''mae_price'', PReal (hr_mae_price r)), (''mae_pct'', PReal (hr_mae_pct r))]"

section \<open>Adding the results\<close>

text \<open>\<open>merge_horizon_once\<close>: the candidate with the result, and whether it is new.\<close>

definition merge_horizon_once :: "pv \<Rightarrow> string \<Rightarrow> pv \<Rightarrow> (forward_error, pv \<times> bool) result" where
  "merge_horizon_once candidate name result =
    (let resolved = fld candidate ''resolved_horizons'' in
     if \<not> has_key resolved name
     then Inr (set_field ''resolved_horizons'' (set_field name result resolved) candidate, True)
     else if py_eq (fld resolved name) result then Inr (candidate, False)
     else Inl (Value_Error (''Conflicting existing horizon result: '' @ name)))"

text \<open>The results of one candidate are all computed before the first is merged; a conflict raises,
  and the working copy is dropped with the restored candidate.\<close>

fun pending_results ::
  "market \<Rightarrow> candle list \<Rightarrow> int \<Rightarrow> pv \<Rightarrow> horizon list \<Rightarrow> (forward_error, (string \<times> pv) list) result" where
  "pending_results m df close price [] = Inr []"
| "pending_results m df close price (h # hs) =
    and_then (select_exact_closed_candle_window df close (ho_target h)) (\<lambda>w.
    if length w \<noteq> ho_candles h
    then Inl (Value_Error (''H'' @ tl (ho_name h) @ '' exact closed-candle count mismatch''))
    else and_then (calculate_horizon_result m w price) (\<lambda>r.
    and_then (pending_results m df close price hs) (\<lambda>rest.
      Inr ((ho_name h, horizon_doc h r) # rest))))"

fun merge_results :: "pv \<Rightarrow> (string \<times> pv) list \<Rightarrow> (forward_error, pv \<times> nat) result" where
  "merge_results candidate [] = Inr (candidate, 0)"
| "merge_results candidate ((name, result) # rest) =
    and_then (merge_horizon_once candidate name result) (\<lambda>(candidate', added).
    and_then (merge_results candidate' rest) (\<lambda>(candidate'', n).
      Inr (candidate'', if added then Suc n else n)))"

definition resolve_candidate ::
  "market \<Rightarrow> int \<Rightarrow> (pv \<times> horizon list) list \<Rightarrow> pv \<Rightarrow> (forward_error, pv \<times> nat) result" where
  "resolve_candidate m close eligible candidate =
    (let symbol = fld candidate ''symbol'' in
     if unhashable symbol then Inl Type_Error
     else
       (case py_assoc eligible symbol of
          None \<Rightarrow> Inr (candidate, 0)
        | Some hs \<Rightarrow>
            (case quotes m symbol of
               None \<Rightarrow> Inl Market_Error
             | Some df \<Rightarrow>
                 and_then (pending_results m df close (fld candidate ''reference_price'') hs)
                   (merge_results candidate))))"

fun resolve_candidates ::
  "market \<Rightarrow> int \<Rightarrow> (pv \<times> horizon list) list \<Rightarrow> pv list \<Rightarrow> (forward_error, pv list \<times> nat) result" where
  "resolve_candidates m close eligible [] = Inr ([], 0)"
| "resolve_candidates m close eligible (c # cs) =
    and_then (resolve_candidate m close eligible c) (\<lambda>(c', n).
    and_then (resolve_candidates m close eligible cs) (\<lambda>(cs', k). Inr (c' # cs', n + k)))"

text \<open>\<open>write_resolution_state_atomic\<close>: the file is replaced, or the call raises and it is not.\<close>

definition write_resolution_state_atomic ::
  "io \<Rightarrow> (string \<Rightarrow> disk_file) \<Rightarrow> string \<Rightarrow> pv \<Rightarrow> (forward_error, unit) result \<times> (string \<Rightarrow> disk_file)" where
  "write_resolution_state_atomic i files path state =
    (if replace_ok i then (Inr (), files(path := Stored state)) else (Inl Write_Error, files))"

record resolution =
  rn_entry_path :: string
  rn_resolution_path :: string
  rn_changed :: bool
  rn_added :: nat

text \<open>The state to write and the number of horizons added, up to the first write.\<close>

definition resolution_step ::
  "market \<Rightarrow> (string \<Rightarrow> disk_file) \<Rightarrow> string \<Rightarrow> int \<times> int option \<Rightarrow>
    (forward_error, string \<times> bool \<times> pv \<times> nat) result" where
  "resolution_step m files name now =
    (case files name of
       Absent \<Rightarrow> Inl File_Not_Found
     | Garbled \<Rightarrow> Inl Undecodable
     | Stored entry \<Rightarrow>
         and_then (build_initial_resolution_state name entry) (\<lambda>initial.
         and_then (derive_resolution_path name) (\<lambda>path.
         and_then (load_or_initialize_resolution_state files path name entry) (\<lambda>state.
         and_then (validate_existing_resolution_state state name entry) (\<lambda>_.
         and_then (normalize_reference_candle_utc (fld initial ''reference_candle_at'')) (\<lambda>reference.
         and_then (get_horizon_contracts reference) (\<lambda>contracts.
         and_then (get_eligible_unresolved_horizons state contracts now) (\<lambda>eligible.
           if eligible = [] then Inr (path, False, state, 0)
           else and_then (resolve_candidates m (reference + 4 * hour_micros) eligible
               (rows_of (fld state ''candidates''))) (\<lambda>(rows, n).
             Inr (path, True, set_field ''candidates'' (PList rows) state, n))))))))))"

definition resolve_entry_artifact ::
  "market \<Rightarrow> io \<Rightarrow> (string \<Rightarrow> disk_file) \<Rightarrow> string \<Rightarrow> int \<times> int option \<Rightarrow>
    (forward_error, resolution) result \<times> (string \<Rightarrow> disk_file)" where
  "resolve_entry_artifact m i files name now =
    (case resolution_step m files name now of
       Inl e \<Rightarrow> (Inl e, files)
     | Inr (path, worked, state, n) \<Rightarrow>
         (let report = \<lparr>rn_entry_path = name, rn_resolution_path = path, rn_changed = 0 < n, rn_added = n\<rparr>;
              writes = (if worked then 0 < n else files path = Absent)
          in if writes
             then (case write_resolution_state_atomic i files path state of
                 (Inl e, files') \<Rightarrow> (Inl e, files')
               | (Inr _, files') \<Rightarrow> (Inr report, files'))
             else (Inr report, files)))"

section \<open>The validation of a resolution\<close>

definition numeric_horizon_fields :: "string list" where
  "numeric_horizon_fields = [''return_price'', ''return_pct'', ''mfe_price'', ''mfe_pct'', ''mae_price'', ''mae_pct'']"

definition allowed_trends :: "string list" where
  "allowed_trends = [''UPTREND'', ''DOWNTREND'']"

text \<open>\<open>_load_json\<close>: a text that is not JSON is a \<open>ValueError\<close> here.\<close>

definition load_json :: "disk_file \<Rightarrow> (forward_error, pv) result" where
  "load_json f =
    (case f of
       Absent \<Rightarrow> Inl File_Not_Found
     | Garbled \<Rightarrow> Inl (Value_Error ''Invalid JSON artifact'')
     | Stored v \<Rightarrow> Inr v)"

definition require_number :: "string \<Rightarrow> pv \<Rightarrow> (forward_error, unit) result" where
  "require_number field v =
    (case v of
       PInt _ \<Rightarrow> Inr () | PReal _ \<Rightarrow> Inr ()
     | _ \<Rightarrow> Inl (Value_Error (field @ '' must be a finite number'')))"

definition reject_duplicate_symbols :: "pv list \<Rightarrow> (forward_error, unit) result" where
  "reject_duplicate_symbols symbols =
    and_then (hashed symbols) (\<lambda>s.
      if length symbols \<noteq> length s then Inl (Value_Error ''Duplicate V4 candidate symbols'') else Inr ())"

text \<open>\<open>isinstance(v, dict)\<close> and \<open>list(v.keys()) == keys\<close>, with their messages.\<close>

definition require_object :: "string \<Rightarrow> string list \<Rightarrow> string \<Rightarrow> pv \<Rightarrow> (forward_error, unit) result" where
  "require_object kind keys message v =
    (if is_dict v then check_keys keys message v else Inl (Value_Error kind))"

definition require_value :: "pv \<Rightarrow> pv \<Rightarrow> string \<Rightarrow> (forward_error, unit) result" where
  "require_value v expected message = (if py_eq v expected then Inr () else Inl (Value_Error message))"

definition validate_resolved_horizon :: "string \<times> pv \<Rightarrow> (forward_error, unit) result" where
  "validate_resolved_horizon = (\<lambda>(name, h).
    if name \<notin> set horizon_names then Inl (Value_Error ''Unknown V4 resolved horizon'')
    else
      and_then (require_object ''Resolved horizon must be an object'' horizon_keys
        ''Malformed V4 horizon object'' h) (\<lambda>_.
      and_then (require_value (fld h ''horizon'') (PStr name) ''Resolved horizon identity mismatch'') (\<lambda>_.
        check_all (\<lambda>field. require_number field (fld h field)) numeric_horizon_fields)))"

definition validate_resolved_candidate :: "pv \<Rightarrow> (forward_error, unit) result" where
  "validate_resolved_candidate c =
    and_then (require_object ''Resolved candidate must be an object'' resolved_candidate_keys
      ''Malformed V4 resolved candidate schema'' c) (\<lambda>_.
    and_then (require_number ''reference_price'' (fld c ''reference_price'')) (\<lambda>_.
      if \<not> is_dict (fld c ''resolved_horizons'')
      then Inl (Value_Error ''resolved_horizons must be an object'')
      else check_all validate_resolved_horizon (items (fld c ''resolved_horizons''))))"

definition validate_resolved_schema :: "pv \<Rightarrow> (forward_error, unit) result" where
  "validate_resolved_schema r =
    and_then (require_object ''Resolved artifact must be an object'' resolved_keys
      ''Malformed V4 resolved artifact top-level schema'' r) (\<lambda>_.
    and_then (require_value (fld r ''snapshot_type'') (PStr ''v4_forward_outcome_resolution'')
      ''Invalid V4 resolved artifact snapshot_type'') (\<lambda>_.
    and_then (require_value (fld r ''schema_version'') (PInt 1)
      ''Invalid V4 resolved artifact schema_version'') (\<lambda>_.
    and_then (require_value (fld r ''entry_snapshot_type'') (PStr ''v4_outcome_tracker_entry'')
      ''Invalid linked entry snapshot_type identity'') (\<lambda>_.
    and_then (require_value (fld r ''entry_schema_version'') (PInt 1)
      ''Invalid linked entry schema_version identity'') (\<lambda>_.
    if \<not> filled_list (fld r ''candidates'')
    then Inl (Value_Error ''Invalid V4 resolved artifact candidates'')
    else
      (let cs = rows_of (fld r ''candidates'') in
       and_then (check_all validate_resolved_candidate cs) (\<lambda>_.
         reject_duplicate_symbols (map (\<lambda>c. fld c ''symbol'') cs))))))))"

text \<open>\<open>trend not in ALLOWED_TRENDS\<close>, and the reference time added to a set.\<close>

definition validate_entry_candidate :: "pv \<Rightarrow> (forward_error, unit) result" where
  "validate_entry_candidate c =
    and_then (require_object ''Linked entry candidate must be an object'' entry_candidate_keys
      ''Malformed V4 linked entry candidate schema'' c) (\<lambda>_.
    and_then (require_object ''Linked entry AI validation must be an object'' ai_validation_keys
      ''Malformed V4 linked entry AI validation schema'' (fld c ''ai_validation'')) (\<lambda>_.
    if unhashable (fld c ''trend'') then Inl Type_Error
    else if \<not> is_text_in (\<lambda>t. t \<in> set allowed_trends) (fld c ''trend'')
    then Inl (Value_Error ''Unsupported V4 directional trend'')
    else if unhashable (fld c ''reference_candle_at'') then Inl Type_Error
    else require_number ''reference_price'' (fld c ''reference_price'')))"

text \<open>The validator turns an unreadable reference time into its own error.\<close>

definition validator_reference :: "pv \<Rightarrow> (forward_error, int) result" where
  "validator_reference v =
    (case normalize_reference_candle_utc v of
       Inl Overflow_Error \<Rightarrow> Inl Overflow_Error
     | Inl _ \<Rightarrow> Inl (Value_Error ''Invalid V4 reference_candle_at'')
     | Inr t \<Rightarrow> Inr t)"

definition validate_entry_schema :: "pv \<Rightarrow> (forward_error, unit) result" where
  "validate_entry_schema e =
    and_then (require_object ''Linked entry artifact must be an object'' entry_keys
      ''Malformed V4 linked entry top-level schema'' e) (\<lambda>_.
    and_then (require_value (fld e ''snapshot_type'') (PStr ''v4_outcome_tracker_entry'')
      ''Invalid V4 linked entry snapshot_type'') (\<lambda>_.
    and_then (require_value (fld e ''schema_version'') (PInt 1) ''Invalid V4 linked entry schema_version'') (\<lambda>_.
    if \<not> filled_list (fld e ''candidates'')
    then Inl (Value_Error ''Invalid V4 linked entry candidates'')
    else
      (let cs = rows_of (fld e ''candidates'') in
       and_then (check_all validate_entry_candidate cs) (\<lambda>_.
       and_then (reject_duplicate_symbols (map (\<lambda>c. fld c ''symbol'') cs)) (\<lambda>_.
       and_then (hashed (map (\<lambda>c. fld c ''reference_candle_at'') cs)) (\<lambda>times.
         if length times \<noteq> 1
         then Inl (Value_Error ''Linked entry candidates must share one reference candle'')
         else and_then (validator_reference (hd times)) (\<lambda>_. Inr ()))))))))"

definition identity_pair :: "pv \<times> pv \<Rightarrow> (forward_error, unit) result" where
  "identity_pair = (\<lambda>(r, e).
    and_then (require_value (fld r ''symbol'') (fld e ''symbol'')
      ''Resolved/entry candidate symbol mismatch'') (\<lambda>_.
      require_value (fld r ''reference_price'') (fld e ''reference_price'')
        ''Resolved/entry candidate reference_price mismatch''))"

definition validate_resolved_entry_identity :: "pv \<Rightarrow> pv \<Rightarrow> (forward_error, unit) result" where
  "validate_resolved_entry_identity r e =
    (let rs = rows_of (fld r ''candidates''); es = rows_of (fld e ''candidates'');
         mismatch = (\<lambda>field. ''Resolved/entry identity mismatch: '' @ field)
     in
      and_then (require_value (fld r ''entry_snapshot_type'') (fld e ''snapshot_type'')
        (mismatch ''entry_snapshot_type'')) (\<lambda>_.
      and_then (require_value (fld r ''entry_schema_version'') (fld e ''schema_version'')
        (mismatch ''entry_schema_version'')) (\<lambda>_.
      and_then (require_value (fld r ''entry_captured_at'') (fld e ''captured_at'')
        (mismatch ''entry_captured_at'')) (\<lambda>_.
      and_then (require_value (fld r ''reference_candle_at'') (fld (hd es) ''reference_candle_at'')
        (mismatch ''reference_candle_at'')) (\<lambda>_.
      if length rs \<noteq> length es then Inl (Value_Error ''Resolved/entry candidate count mismatch'')
      else check_all identity_pair (zip rs es))))))"

section \<open>Votes and report\<close>

datatype vote = Flat | Support | Oppose
datatype outcome_verdict = Pending | Valid | Invalid | Inconclusive

definition vote_horizon :: "string \<Rightarrow> rat \<Rightarrow> (forward_error, vote) result" where
  "vote_horizon trend pct =
    (if pct = 0 then Inr Flat
     else if trend = ''UPTREND'' then Inr (if 0 < pct then Support else Oppose)
     else if trend = ''DOWNTREND'' then Inr (if pct < 0 then Support else Oppose)
     else Inl (Value_Error ''Unsupported V4 directional trend''))"

definition candidate_status :: "(string \<times> vote) list \<Rightarrow> outcome_verdict" where
  "candidate_status votes =
    (let support = length (filter (\<lambda>v. snd v = Support) votes);
         oppose = length (filter (\<lambda>v. snd v = Oppose) votes)
     in if ''h12'' \<notin> set (map fst votes) then Pending
        else if oppose < support then Valid
        else if support < oppose then Invalid
        else Inconclusive)"

definition expected_target_at :: "pv \<Rightarrow> (forward_error, (string \<times> string) list) result" where
  "expected_target_at reference =
    and_then (validator_reference reference) (\<lambda>t.
    and_then (get_horizon_contracts t) (\<lambda>contracts.
      Inr (map (\<lambda>h. (ho_name h, iso_text (ho_target h))) contracts)))"

record candidate_report =
  cd_symbol :: pv
  cd_reference_price :: pv
  cd_trend :: string
  cd_present :: "string list"
  cd_missing :: "string list"
  cd_votes :: "(string \<times> vote) list"
  cd_status :: outcome_verdict
  cd_facts :: "(string \<times> pv) list"

definition vote_on ::
  "(string \<times> string) list \<Rightarrow> string \<Rightarrow> pv \<Rightarrow> string \<Rightarrow> (forward_error, string \<times> vote) result" where
  "vote_on targets trend horizons name =
    (let h = fld horizons name in
     if \<not> opt_ex (\<lambda>t. py_eq (fld h ''target_at'') (PStr t)) (map_of targets name)
     then Inl (Value_Error ''Resolved horizon target_at contract mismatch'')
     else and_then (vote_horizon trend (the (num_of (fld h ''return_pct'')))) (\<lambda>v. Inr (name, v)))"

fun collect :: "('a \<Rightarrow> ('e, 'b) result) \<Rightarrow> 'a list \<Rightarrow> ('e, 'b list) result" where
  "collect f [] = Inr []"
| "collect f (x # xs) = and_then (f x) (\<lambda>y. and_then (collect f xs) (\<lambda>ys. Inr (y # ys)))"

definition horizon_facts :: "pv \<Rightarrow> string \<Rightarrow> pv" where
  "horizon_facts horizons name =
    (let h = fld horizons name in PDict [
       (''target_at'', fld h ''target_at''), (''return_pct'', fld h ''return_pct''),
       (''mfe_pct'', fld h ''mfe_pct''), (''mae_pct'', fld h ''mae_pct'')])"

definition build_candidate_report ::
  "(string \<times> string) list \<Rightarrow> pv \<times> pv \<Rightarrow> (forward_error, candidate_report) result" where
  "build_candidate_report targets = (\<lambda>(r, e).
    (let horizons = fld r ''resolved_horizons'';
         present = filter (has_key horizons) horizon_names;
         trend = the_str (fld e ''trend'')
     in and_then (collect (vote_on targets trend horizons) present) (\<lambda>votes.
       Inr \<lparr>cd_symbol = fld r ''symbol'', cd_reference_price = fld r ''reference_price'', cd_trend = trend,
         cd_present = present, cd_missing = filter (\<lambda>n. \<not> has_key horizons n) horizon_names,
         cd_votes = votes, cd_status = candidate_status votes,
         cd_facts = map (\<lambda>n. (n, horizon_facts horizons n)) present\<rparr>)))"

record validation_report =
  vr_resolved :: string
  vr_entry :: string
  vr_complete :: bool
  vr_total :: nat
  vr_pending :: nat
  vr_valid :: nat
  vr_invalid :: nat
  vr_inconclusive :: nat
  vr_candidates :: "candidate_report list"

definition count_status :: "outcome_verdict \<Rightarrow> candidate_report list \<Rightarrow> nat" where
  "count_status s reports = length (filter (\<lambda>r. cd_status r = s) reports)"

definition validate_resolved_artifact ::
  "(string \<Rightarrow> disk_file) \<Rightarrow> string \<Rightarrow> (forward_error, validation_report) result" where
  "validate_resolved_artifact files name =
    and_then (load_json (files name)) (\<lambda>resolved.
    and_then (validate_resolved_schema resolved) (\<lambda>_.
    case fld resolved ''entry_artifact'' of
      PStr entry_name \<Rightarrow>
        if files entry_name = Absent
        then Inl (Value_Error ''Linked V4 outcome entry artifact is missing'')
        else and_then (load_json (files entry_name)) (\<lambda>entry.
          and_then (validate_entry_schema entry) (\<lambda>_.
          and_then (validate_resolved_entry_identity resolved entry) (\<lambda>_.
          and_then (expected_target_at (fld resolved ''reference_candle_at'')) (\<lambda>targets.
          and_then (collect (build_candidate_report targets)
              (zip (rows_of (fld resolved ''candidates'')) (rows_of (fld entry ''candidates'')))) (\<lambda>reports.
            Inr \<lparr>vr_resolved = name, vr_entry = entry_name,
              vr_complete = (count_status Pending reports = 0),
              vr_total = length (rows_of (fld resolved ''candidates'')),
              vr_pending = count_status Pending reports, vr_valid = count_status Valid reports,
              vr_invalid = count_status Invalid reports,
              vr_inconclusive = count_status Inconclusive reports,
              vr_candidates = reports\<rparr>)))))
    | _ \<Rightarrow> Inl Type_Error))"

text \<open>\<open>run_forward_test_v4\<close>\<close>

definition run_forward_test ::
  "market \<Rightarrow> io \<Rightarrow> (string \<Rightarrow> disk_file) \<Rightarrow> string \<Rightarrow> int \<times> int option \<Rightarrow>
    (forward_error, resolution \<times> validation_report) result \<times> (string \<Rightarrow> disk_file)" where
  "run_forward_test m i files name now =
    (case resolve_entry_artifact m i files name now of
       (Inl e, files') \<Rightarrow> (Inl e, files')
     | (Inr r, files') \<Rightarrow>
         (and_then (validate_resolved_artifact files' (rn_resolution_path r)) (\<lambda>v. Inr (r, v)), files'))"

text \<open>\<open>run_forward_test_from_production_evidence\<close>\<close>

definition evidence_entry :: "pv \<Rightarrow> (forward_error, string) result" where
  "evidence_entry manifest =
    (if \<not> is_dict manifest then Inl (Value_Error ''Production evidence must be an object'')
     else if \<not> py_eq (fld manifest ''snapshot_type'') (PStr ''v4_production_evidence'')
     then Inl (Value_Error ''Invalid production evidence snapshot_type'')
     else if \<not> py_eq (fld manifest ''schema_version'') (PInt 1)
     then Inl (Value_Error ''Invalid production evidence schema_version'')
     else if \<not> is_dict (fld manifest ''artifacts'')
     then Inl (Value_Error ''Invalid production evidence artifacts'')
     else if \<not> is_ident (fld (fld manifest ''artifacts'') ''outcome_entry'')
     then Inl (Value_Error ''Invalid production evidence outcome_entry'')
     else Inr (the_str (fld (fld manifest ''artifacts'') ''outcome_entry'')))"

definition run_forward_test_from_production_evidence ::
  "market \<Rightarrow> io \<Rightarrow> (string \<Rightarrow> disk_file) \<Rightarrow> string \<Rightarrow> int \<times> int option \<Rightarrow>
    (forward_error, string \<times> resolution \<times> validation_report) result \<times> (string \<Rightarrow> disk_file)" where
  "run_forward_test_from_production_evidence m i files manifest_name now =
    (case and_then
        (case files manifest_name of
           Garbled \<Rightarrow> Inl (Value_Error ''Invalid production evidence JSON'')
         | f \<Rightarrow> load_json f) evidence_entry of
       Inl e \<Rightarrow> (Inl e, files)
     | Inr entry \<Rightarrow>
         (case run_forward_test m i files entry now of
            (r, files') \<Rightarrow> (and_then r (\<lambda>x. Inr (entry, x)), files')))"

end
