(* ===== verification/Validated_Pipeline.thy ===== *)
theory Validated_Pipeline
  imports Forward_Test "HOL-Library.Product_Lexorder"
begin

text \<open>
  From the scores of the scanner to the five signals that are published:
  \<open>src/engine/evidence_classifier_v2.py\<close> classifies the evidence of a candidate,
  \<open>validation_payload_v2.py\<close> builds what the language model sees,
  \<open>validation_semantic_guard_v4.py\<close> checks its answer, \<open>validation_control.py\<close> turns the answer into
  a deduction and ranks, and \<open>validated_pipeline_v4.py\<close> puts them together.

  A row of the scanner is typed; the answer of the model is a JSON document of any shape.  The
  model, the provider of open interest and the rounding of a float operation are arguments; a
  float literal is its rounded value.
\<close>

section \<open>Errors\<close>

datatype pipeline_error =
    Validation_Rejected string \<comment> \<open>\<open>ValueError\<close>\<close>
  | Semantic_Conflict string "string list" \<comment> \<open>\<open>SemanticValidationError\<close>\<close>
  | Key_Missing
  | Type_Mismatch
  | Attribute_Missing
  | Validator_Raised

section \<open>Evidence classes\<close>

definition classify_volume_ratio :: "(rat \<Rightarrow> rat) \<Rightarrow> rat option \<Rightarrow> string \<Rightarrow> string" where
  "classify_volume_ratio rd volume_ratio data_status =
    (case volume_ratio of
       None \<Rightarrow> ''UNKNOWN''
     | Some r \<Rightarrow>
         if data_status \<noteq> ''OK'' then ''UNKNOWN''
         else if r < rd (8 / 10) then ''WEAK''
         else if r < rd (12 / 10) then ''NORMAL''
         else if r < rd (15 / 10) then ''SUPPORTIVE''
         else ''STRONG'')"

definition classify_oi_change :: "(rat \<Rightarrow> rat) \<Rightarrow> rat option \<Rightarrow> string \<Rightarrow> string" where
  "classify_oi_change rd oi_change_pct data_status =
    (case oi_change_pct of
       None \<Rightarrow> ''UNKNOWN''
     | Some p \<Rightarrow>
         if data_status \<noteq> ''OK'' then ''UNKNOWN''
         else if p \<le> - rd (3 / 10) then ''WEAK''
         else if p < 0 then ''SOFT''
         else if p < rd (3 / 10) then ''SUPPORTIVE''
         else ''STRONG'')"

definition participation_of :: "string \<Rightarrow> string \<Rightarrow> string" where
  "participation_of volume_class oi_class =
    (if volume_class = ''UNKNOWN'' \<or> oi_class = ''UNKNOWN'' then ''UNKNOWN''
     else if volume_class = ''WEAK'' \<and> oi_class = ''WEAK'' then ''WEAK''
     else if volume_class = ''STRONG'' \<and> oi_class \<in> {''SUPPORTIVE'', ''STRONG''} then ''STRONG''
     else if volume_class \<in> {''SUPPORTIVE'', ''STRONG''} \<and> oi_class \<in> {''SOFT'', ''SUPPORTIVE'', ''STRONG''}
     then ''SUPPORTIVE''
     else if volume_class \<in> {''NORMAL'', ''SUPPORTIVE'', ''STRONG''} \<and> oi_class = ''WEAK'' then ''MIXED''
     else ''NEUTRAL'')"

text \<open>\<open>classify_participation\<close>: both classes and what they make together.\<close>

definition classify_participation ::
  "(rat \<Rightarrow> rat) \<Rightarrow> rat option \<Rightarrow> string \<Rightarrow> rat option \<Rightarrow> string \<Rightarrow> string \<times> string \<times> string" where
  "classify_participation rd volume_ratio volume_status oi_change_pct oi_status =
    (let v = classify_volume_ratio rd volume_ratio volume_status;
         p = classify_oi_change rd oi_change_pct oi_status
     in (v, p, participation_of v p))"

section \<open>The candidates\<close>

text \<open>What the pipeline reads of a row of the scanner.\<close>

record scanned =
  sc_symbol :: string
  sc_score :: rat
  sc_trend :: string
  sc_bos :: bool
  sc_choch :: bool
  sc_volume_ratio :: "rat option"
  sc_volume_status :: string
  sc_reference_price :: rat
  sc_reference_candle_at :: string
  sc_golden_zone :: pv

record oi_metrics =
  oi_change :: "rat option"
  oi_data_status :: string

record evidence_row =
  vc_symbol :: string
  vc_python_score :: rat
  vc_trend :: string
  vc_bos :: bool
  vc_choch :: bool
  vc_volume_ratio :: "rat option"
  vc_volume_status :: string
  vc_volume_class :: string
  vc_oi_change_pct :: "rat option"
  vc_oi_status :: string
  vc_oi_class :: string
  vc_participation :: string

definition build_validation_candidate :: "(rat \<Rightarrow> rat) \<Rightarrow> (string \<Rightarrow> oi_metrics) \<Rightarrow> scanned \<Rightarrow> evidence_row" where
  "build_validation_candidate rd oi_provider c =
    (let oi = oi_provider (sc_symbol c) in
     case classify_participation rd (sc_volume_ratio c) (sc_volume_status c) (oi_change oi) (oi_data_status oi) of
       (volume_class, oi_class, participation) \<Rightarrow> \<lparr>
         vc_symbol = sc_symbol c, vc_python_score = sc_score c, vc_trend = sc_trend c,
         vc_bos = sc_bos c, vc_choch = sc_choch c, vc_volume_ratio = sc_volume_ratio c,
         vc_volume_status = sc_volume_status c, vc_volume_class = volume_class,
         vc_oi_change_pct = oi_change oi, vc_oi_status = oi_data_status oi, vc_oi_class = oi_class,
         vc_participation = participation\<rparr>)"

definition top_n_for_validation :: nat where
  "top_n_for_validation = 10"

text \<open>\<open>sorted(results, key=score, reverse=True)\<close> keeps the order of equal scores.\<close>

definition build_validation_payload ::
  "(rat \<Rightarrow> rat) \<Rightarrow> (string \<Rightarrow> oi_metrics) \<Rightarrow> scanned list \<Rightarrow> evidence_row list" where
  "build_validation_payload rd oi_provider results =
    map (build_validation_candidate rd oi_provider)
      (take top_n_for_validation (sort_key (\<lambda>c. - sc_score c) results))"

section \<open>The answer of the model\<close>

text \<open>An answer for one candidate is a JSON object, kept as its entries; \<open>v[k]\<close>.\<close>

definition need :: "(string \<times> pv) list \<Rightarrow> string \<Rightarrow> (pipeline_error, pv) result" where
  "need v k = (case map_of v k of None \<Rightarrow> Inl Key_Missing | Some x \<Rightarrow> Inr x)"

definition flag :: "bool \<Rightarrow> string \<Rightarrow> string list" where
  "flag condition message = (if condition then [message] else [])"

text \<open>The errors of \<open>validate_semantic_consistency\<close>, in the order of its checks.\<close>

definition semantic_errors :: "evidence_row \<Rightarrow> pv \<Rightarrow> pv \<Rightarrow> pv \<Rightarrow> pv \<Rightarrow> string list" where
  "semantic_errors c status risk confluence reason =
    flag (vc_bos c \<and> reason = PStr ''BREAKOUT_UNCONFIRMED'') ''bos=True cannot receive BREAKOUT_UNCONFIRMED'' @
    flag (\<not> vc_bos c \<and> risk = PStr ''LOW'') ''bos=False cannot receive LOW false_breakout_risk'' @
    flag (vc_choch c \<and> status = PStr ''CLEAR'') ''choch=True cannot receive CLEAR'' @
    flag (vc_choch c \<and> reason = PStr ''ALIGNED'') ''choch=True cannot receive ALIGNED'' @
    flag (reason = PStr ''STRUCTURE_REVERSAL_CONFLICT'' \<and> \<not> vc_choch c)
      ''reason_code=STRUCTURE_REVERSAL_CONFLICT requires choch=True'' @
    flag (reason = PStr ''MIXED_PARTICIPATION'' \<and> vc_participation c \<noteq> ''MIXED'')
      ''reason_code=MIXED_PARTICIPATION requires participation=MIXED'' @
    flag (vc_participation c = ''MIXED'' \<and> reason = PStr ''ALIGNED'') ''participation=MIXED cannot receive ALIGNED'' @
    flag (vc_participation c = ''MIXED'' \<and> status = PStr ''CLEAR'') ''participation=MIXED cannot receive CLEAR'' @
    flag (vc_participation c = ''MIXED'' \<and> risk = PStr ''LOW'') ''participation=MIXED cannot receive LOW risk'' @
    flag (vc_participation c = ''UNKNOWN'' \<and> reason = PStr ''ALIGNED'')
      ''participation=UNKNOWN cannot receive ALIGNED'' @
    flag (vc_participation c = ''UNKNOWN'' \<and>
        reason \<in> {PStr ''WEAK_VOLUME'', PStr ''WEAK_OI'', PStr ''WEAK_PARTICIPATION''})
      ''participation=UNKNOWN cannot be treated as WEAK'' @
    flag (reason = PStr ''WEAK_PARTICIPATION'' \<and> vc_participation c \<noteq> ''WEAK'')
      ''reason_code=WEAK_PARTICIPATION requires participation=WEAK'' @
    flag (vc_participation c = ''WEAK'' \<and> status \<noteq> PStr ''HIGH_RISK'') ''participation=WEAK requires HIGH_RISK'' @
    flag (vc_participation c = ''WEAK'' \<and> risk \<noteq> PStr ''HIGH'') ''participation=WEAK requires HIGH risk'' @
    flag (vc_participation c = ''WEAK'' \<and> confluence \<noteq> PStr ''WEAK'')
      ''participation=WEAK requires WEAK confluence'' @
    flag (vc_participation c = ''WEAK'' \<and>
        reason \<notin> {PStr ''WEAK_PARTICIPATION'', PStr ''MULTIPLE_CONFLICTS''})
      ''participation=WEAK requires weak-participation reason''"

text \<open>The lookup of the reason in a set of texts needs its hash.\<close>

definition validate_semantic_consistency ::
  "evidence_row \<Rightarrow> (string \<times> pv) list \<Rightarrow> (pipeline_error, unit) result" where
  "validate_semantic_consistency c v =
    and_then (need v ''status'') (\<lambda>status.
    and_then (need v ''false_breakout_risk'') (\<lambda>risk.
    and_then (need v ''confluence'') (\<lambda>confluence.
    and_then (need v ''reason_code'') (\<lambda>reason.
      if vc_participation c \<in> {''UNKNOWN'', ''WEAK''} \<and> unhashable reason then Inl Type_Mismatch
      else if semantic_errors c status risk confluence reason \<noteq> []
      then Inl (Semantic_Conflict (vc_symbol c) (semantic_errors c status risk confluence reason))
      else Inr ()))))"

definition impossible_reason :: "evidence_row \<Rightarrow> pv \<Rightarrow> bool" where
  "impossible_reason c reason =
    (reason = PStr ''BREAKOUT_UNCONFIRMED'' \<and> vc_bos c
     \<or> reason = PStr ''STRUCTURE_REVERSAL_CONFLICT'' \<and> \<not> vc_choch c
     \<or> reason = PStr ''MIXED_PARTICIPATION'' \<and> vc_participation c \<noteq> ''MIXED''
     \<or> reason = PStr ''WEAK_PARTICIPATION'' \<and> vc_participation c \<noteq> ''WEAK'')"

definition normalize_impossible_reason_code ::
  "evidence_row \<Rightarrow> (string \<times> pv) list \<Rightarrow> (pipeline_error, (string \<times> pv) list) result" where
  "normalize_impossible_reason_code c v =
    and_then (need v ''reason_code'') (\<lambda>reason.
      Inr (if impossible_reason c reason
           then AList.update ''reason_code'' (PStr ''MULTIPLE_CONFLICTS'') v else v))"

section \<open>Deductions\<close>

definition status_penalty :: "(string \<times> int) list" where
  "status_penalty = [(''CLEAR'', 0), (''CONFLICT'', -3), (''HIGH_RISK'', -6)]"

definition false_breakout_penalty :: "(string \<times> int) list" where
  "false_breakout_penalty = [(''LOW'', 0), (''MEDIUM'', -1), (''HIGH'', -3)]"

definition confluence_penalty :: "(string \<times> int) list" where
  "confluence_penalty = [(''STRONG'', 0), (''MODERATE'', -1), (''WEAK'', -3)]"

definition max_penalty :: int where
  "max_penalty = -10"

definition penalty_in :: "(string \<times> int) list \<Rightarrow> string \<Rightarrow> pv \<Rightarrow> (pipeline_error, int) result" where
  "penalty_in table message v =
    (case v of
       PStr s \<Rightarrow>
         (case map_of table s of None \<Rightarrow> Inl (Validation_Rejected message) | Some p \<Rightarrow> Inr p)
     | _ \<Rightarrow> if unhashable v then Inl Type_Mismatch else Inl (Validation_Rejected message))"

definition calculate_validation_adjustment :: "(string \<times> pv) list \<Rightarrow> (pipeline_error, int) result" where
  "calculate_validation_adjustment v =
    (if \<not> set ai_validation_keys \<subseteq> fst ` set v then Inl (Validation_Rejected ''AI validation missing fields'')
     else
       and_then (need v ''status'') (\<lambda>status.
       and_then (need v ''false_breakout_risk'') (\<lambda>risk.
       and_then (need v ''confluence'') (\<lambda>confluence.
       and_then (penalty_in status_penalty ''Invalid AI status'' status) (\<lambda>a.
       and_then (penalty_in false_breakout_penalty ''Invalid false_breakout_risk'' risk) (\<lambda>b.
       and_then (penalty_in confluence_penalty ''Invalid AI confluence'' confluence) (\<lambda>d.
         Inr (max max_penalty (a + b + d)))))))))"

section \<open>The ranking\<close>

record controlled_row = evidence_row +
  cr_ai_validation :: "(string \<times> pv) list"
  cr_adjustment :: int
  cr_final_rank_score :: rat

text \<open>\<open>{row[symbol]: row for row in rows}\<close>: the first place and the last value of a symbol.\<close>

definition by_symbol :: "('a \<Rightarrow> string) \<Rightarrow> 'a list \<Rightarrow> (string \<times> 'a) list" where
  "by_symbol symbol rows = foldl (\<lambda>d r. AList.update (symbol r) r d) [] rows"

definition control_candidate ::
  "(rat \<Rightarrow> rat) \<Rightarrow> (string \<times> pv) list list \<Rightarrow> string \<times> evidence_row \<Rightarrow> (pipeline_error, controlled_row) result" where
  "control_candidate rd validations = (\<lambda>(symbol, c).
    (case find (\<lambda>v. map_of v ''symbol'' = Some (PStr symbol)) validations of
       None \<Rightarrow> Inl (Validation_Rejected (''Missing AI validation for '' @ symbol))
     | Some v \<Rightarrow>
         and_then (validate_semantic_consistency c v) (\<lambda>_.
         and_then (calculate_validation_adjustment v) (\<lambda>adjustment.
           Inr (evidence_row.extend c \<lparr>
             cr_ai_validation = v, cr_adjustment = adjustment,
             cr_final_rank_score = max 0 (rd (vc_python_score c + of_int adjustment))\<rparr>)))))"

text \<open>\<open>sorted(extra_symbols)\<close> raises for symbols of different kinds before the error is made.\<close>

definition sortable :: "pv list \<Rightarrow> bool" where
  "sortable vs = (length vs \<le> 1 \<or> list_all (\<lambda>v. case v of PStr _ \<Rightarrow> True | _ \<Rightarrow> False) vs \<or>
     list_all (\<lambda>v. num_of v \<noteq> None) vs)"

definition extra_symbols :: "(string \<times> evidence_row) list \<Rightarrow> pv list \<Rightarrow> pv list" where
  "extra_symbols candidates symbols = filter (\<lambda>v. v \<notin> PStr ` fst ` set candidates) symbols"

definition apply_validation_control ::
  "(rat \<Rightarrow> rat) \<Rightarrow> evidence_row list \<Rightarrow> (string \<times> pv) list list \<Rightarrow> (pipeline_error, controlled_row list) result" where
  "apply_validation_control rd candidates validations =
    (let candidate_map = by_symbol vc_symbol candidates in
     and_then (collect (\<lambda>v. need v ''symbol'') validations) (\<lambda>symbols.
     case hashed symbols of
       Inl _ \<Rightarrow> Inl Type_Mismatch
     | Inr unique \<Rightarrow>
         if length symbols \<noteq> length unique then Inl (Validation_Rejected ''Duplicate symbols in AI validation'')
         else
           and_then (collect (control_candidate rd validations) candidate_map) (\<lambda>controlled.
             if extra_symbols candidate_map symbols = []
             then Inr (sort_key (\<lambda>r. (- cr_final_rank_score r, - vc_python_score r)) controlled)
             else if sortable (extra_symbols candidate_map symbols)
             then Inl (Validation_Rejected ''Unknown symbols in AI validation'')
             else Inl Type_Mismatch)))"

section \<open>The pipeline\<close>

text \<open>The answer of the model: its content as JSON (None if it is not) and the usage.\<close>

record ai_answer =
  an_content :: "pv option"
  an_usage :: pv

record final_row = controlled_row +
  rw_reference_price :: rat
  rw_reference_candle_at :: string
  rw_golden_zone :: pv

record pipeline_output =
  po_controlled :: "final_row list"
  po_final :: "final_row list"
  po_usage :: pv

text \<open>One element of the comprehension over the answers.\<close>

definition normalize_answer :: "(string \<times> evidence_row) list \<Rightarrow> pv \<Rightarrow> (pipeline_error, (string \<times> pv) list) result" where
  "normalize_answer candidate_map validation =
    (case validation of
       PDict v \<Rightarrow>
         and_then (need v ''symbol'') (\<lambda>symbol.
           if unhashable symbol then Inl Type_Mismatch
           else
             (case symbol of
                PStr s \<Rightarrow>
                  (case map_of candidate_map s of
                     None \<Rightarrow> Inr v
                   | Some c \<Rightarrow> normalize_impossible_reason_code c v)
              | _ \<Rightarrow> Inr v))
     | _ \<Rightarrow> Inl Type_Mismatch)"

definition parse_validations :: "ai_answer \<Rightarrow> (pipeline_error, pv list) result" where
  "parse_validations answer =
    (case an_content answer of
       None \<Rightarrow> Inl (Validation_Rejected ''Invalid DeepSeek JSON'')
     | Some document \<Rightarrow>
         if \<not> is_dict document then Inl Attribute_Missing
         else
           (case fld document ''validations'' of
              PList validations \<Rightarrow> Inr validations
            | _ \<Rightarrow> Inl (Validation_Rejected ''DeepSeek output missing validations list'')))"

text \<open>The reference of a row of that symbol, from the last such row of the scanner.\<close>

definition enrich_row :: "scanned list \<Rightarrow> controlled_row \<Rightarrow> (pipeline_error, final_row) result" where
  "enrich_row results r =
    (case map_of (by_symbol sc_symbol results) (vc_symbol r) of
       None \<Rightarrow> Inl (Validation_Rejected (''Missing reference price for '' @ vc_symbol r))
     | Some s \<Rightarrow> Inr (controlled_row.extend r \<lparr>
         rw_reference_price = sc_reference_price s, rw_reference_candle_at = sc_reference_candle_at s,
         rw_golden_zone = sc_golden_zone s\<rparr>))"

definition final_top_n :: nat where
  "final_top_n = 5"

definition min_final_rank_score :: rat where
  "min_final_rank_score = 80"

definition build_final_top5 :: "final_row list \<Rightarrow> final_row list" where
  "build_final_top5 controlled =
    take final_top_n (filter (\<lambda>r. min_final_rank_score \<le> cr_final_rank_score r) controlled)"

definition run_validated_pipeline ::
  "(rat \<Rightarrow> rat) \<Rightarrow> (evidence_row list \<Rightarrow> ai_answer option) \<Rightarrow> (string \<Rightarrow> oi_metrics) \<Rightarrow> scanned list \<Rightarrow>
    (pipeline_error, pipeline_output) result" where
  "run_validated_pipeline rd validator oi_provider results =
    (let candidates = build_validation_payload rd oi_provider results in
     if candidates = [] then Inr \<lparr>po_controlled = [], po_final = [], po_usage = PDict []\<rparr>
     else
       (case validator candidates of
          None \<Rightarrow> Inl Validator_Raised
        | Some answer \<Rightarrow>
            and_then (parse_validations answer) (\<lambda>validations.
            and_then (collect (normalize_answer (by_symbol vc_symbol candidates)) validations) (\<lambda>normalized.
            and_then (apply_validation_control rd candidates normalized) (\<lambda>controlled.
            and_then (collect (enrich_row results) controlled) (\<lambda>rows.
              Inr \<lparr>po_controlled = rows, po_final = build_final_top5 rows, po_usage = an_usage answer\<rparr>))))))"

text \<open>The dictionary of a row, in the order its keys are set.\<close>

definition opt_real :: "rat option \<Rightarrow> pv" where
  "opt_real x = (case x of None \<Rightarrow> PNone | Some r \<Rightarrow> PReal r)"

definition row_doc :: "final_row \<Rightarrow> pv" where
  "row_doc r = PDict [
     (''symbol'', PStr (vc_symbol r)), (''python_score'', PReal (vc_python_score r)),
     (''trend'', PStr (vc_trend r)), (''bos'', PBool (vc_bos r)), (''choch'', PBool (vc_choch r)),
     (''volume_ratio'', opt_real (vc_volume_ratio r)), (''volume_status'', PStr (vc_volume_status r)),
     (''volume_class'', PStr (vc_volume_class r)), (''oi_change_pct'', opt_real (vc_oi_change_pct r)),
     (''oi_status'', PStr (vc_oi_status r)), (''oi_class'', PStr (vc_oi_class r)),
     (''participation'', PStr (vc_participation r)), (''ai_validation'', PDict (cr_ai_validation r)),
     (''validation_adjustment'', PInt (cr_adjustment r)), (''final_rank_score'', PReal (cr_final_rank_score r)),
     (''reference_price'', PReal (rw_reference_price r)),
     (''reference_candle_at'', PStr (rw_reference_candle_at r)), (''golden_zone'', rw_golden_zone r)]"

end
