(* ===== verification/Forward_Facts.thy ===== *)
theory Forward_Facts
  imports Forward_Test
begin

text \<open>
  Facts on the forward test: the loop over the candles in closed form, the horizons and their
  windows, equality of hashable values, and the dictionary from symbols to open horizons.
\<close>

section \<open>The candles of a horizon\<close>

declare expected_opens.simps [simp del]

lemma expected_opens_eq:
  "expected_opens cursor target
     = map (\<lambda>k. cursor + int k * (4 * hour_micros)) [0..<nat ((target - cursor) div (4 * hour_micros))]"
proof (induction cursor target rule: expected_opens.induct)
  case (1 cursor target)
  let ?step = "4 * hour_micros"
  let ?n = "\<lambda>c. nat ((target - c) div ?step)"
  have pos: "0 < ?step" by (simp add: hour_micros_def)
  show ?case
  proof (cases "cursor + ?step \<le> target")
    case True
    have "(target - cursor) div ?step = (target - (cursor + ?step)) div ?step + 1"
      using pos div_add_self2 [of ?step "target - cursor - ?step"] by (simp add: algebra_simps)
    moreover have "0 \<le> (target - (cursor + ?step)) div ?step"
      using True pos by (simp add: pos_imp_zdiv_nonneg_iff)
    ultimately have n: "?n cursor = Suc (?n (cursor + ?step))" by simp
    have "expected_opens cursor target = cursor # expected_opens (cursor + ?step) target"
      using True by (simp add: expected_opens.simps)
    also have "\<dots> = cursor # map (\<lambda>k. cursor + ?step + int k * ?step) [0..<?n (cursor + ?step)]"
      using "1.IH" [OF True] by simp
    also have "\<dots> = map (\<lambda>k. cursor + int k * ?step) [0..<Suc (?n (cursor + ?step))]"
      by (simp only: map_upt_Suc) (simp add: algebra_simps)
    finally show ?thesis by (simp only: n)
  next
    case False
    then have "(target - cursor) div ?step \<le> 0"
      using zdiv_mono1 [OF _ pos, of "target - cursor" "?step - 1"] pos
      by (simp add: div_pos_pos_trivial)
    then have "?n cursor = 0" by simp
    then show ?thesis using False by (simp add: expected_opens.simps)
  qed
qed

lemma select_window_iff:
  "select_exact_closed_candle_window df close target = Inr w \<longleftrightarrow>
     distinct (map ca_timestamp df) \<and> w = filter (\<lambda>c. ca_timestamp c \<in> set (expected_opens close target)) df \<and>
     map ca_timestamp w = expected_opens close target"
  unfolding select_exact_closed_candle_window_def Let_def inr_convs
  by (auto dest: arg_cong [where f = length])

lemma contracts_iff:
  "get_horizon_contracts t = Inr hs \<longleftrightarrow> in_range (t + 16 * hour_micros) \<and>
     hs = [\<lparr>ho_name = ''h4'', ho_target = t + 8 * hour_micros, ho_candles = 1\<rparr>,
       \<lparr>ho_name = ''h8'', ho_target = t + 12 * hour_micros, ho_candles = 2\<rparr>,
       \<lparr>ho_name = ''h12'', ho_target = t + 16 * hour_micros, ho_candles = 3\<rparr>]"
  unfolding get_horizon_contracts_def Let_def by (auto simp: algebra_simps)

lemma contracts_names:
  "get_horizon_contracts t = Inr hs \<Longrightarrow> map ho_name hs = horizon_names \<and> distinct (map ho_name hs)"
  by (simp add: contracts_iff horizon_names_def)

lemma horizon_window_length:
  assumes "get_horizon_contracts t = Inr hs" and "h \<in> set hs"
  shows "length (expected_opens (t + 4 * hour_micros) (ho_target h)) = ho_candles h"
  using assms by (auto simp: contracts_iff expected_opens_eq hour_micros_def)

section \<open>Hashable values\<close>

lemma py_eq_hashable:
  assumes "\<not> unhashable u" "\<not> unhashable v"
  shows py_eq_refl: "py_eq u u" and py_eq_sym: "py_eq u v \<Longrightarrow> py_eq v u"
    and py_eq_trans: "\<not> unhashable w \<Longrightarrow> py_eq u v \<Longrightarrow> py_eq v w \<Longrightarrow> py_eq u w"
  using assms by (cases u; cases v; cases w; auto simp: unhashable_def is_list_def is_dict_def)+

lemma py_eq_str [simp]: "py_eq v (PStr s) = (v = PStr s)"
  by (cases v) auto

fun py_distinct :: "pv list \<Rightarrow> bool" where
  "py_distinct [] = True"
| "py_distinct (v # vs) = (list_all (\<lambda>u. \<not> py_eq u v) vs \<and> py_distinct vs)"

lemma hashed_distinct:
  assumes "hashed vs = Inr s" "length s = length vs"
  shows "py_distinct vs \<and> list_all (\<lambda>v. \<not> unhashable v) vs"
proof -
  let ?step = "\<lambda>s v. if py_member v s then s else s @ [v]"
  have len: "length (foldl ?step s us) \<le> length s + length us" for s us
  proof (induction us arbitrary: s)
    case (Cons u us)
    show ?case using Cons [of s] Cons [of "s @ [u]"] by simp
  qed simp
  have dist: "py_distinct us \<and> list_all (\<lambda>u. \<not> py_member u s) us"
    if "length (foldl ?step s us) = length s + length us" for s us
    using that
  proof (induction us arbitrary: s)
    case (Cons u us)
    show ?case
    proof (cases "py_member u s")
      case True
      then show ?thesis using Cons.prems len [of s us] by simp
    next
      case False
      then have "py_distinct us \<and> list_all (\<lambda>v. \<not> py_member v (s @ [u])) us"
        using Cons.prems by (intro Cons.IH) simp
      then show ?thesis using False by (auto simp: py_member_def list_all_iff)
    qed
  qed simp
  show ?thesis
    using assms dist [of "[]" vs] by (auto simp: hashed_def list_ex_iff list_all_iff split: if_splits)
qed

lemma py_assoc_put:
  assumes "\<not> unhashable k" "\<not> unhashable k'" "list_all (\<lambda>p. \<not> unhashable (fst p)) d"
  shows "py_assoc (py_put k x d) k' = (if py_eq k k' then Some x else py_assoc d k')"
  using assms(3)
proof (induction d)
  case (Cons p d)
  obtain q y where p: "p = (q, y)" by (cases p)
  then have q: "\<not> unhashable q" using Cons.prems by simp
  have IH: "py_assoc (py_put k x d) k' = (if py_eq k k' then Some x else py_assoc d k')"
    using Cons by simp
  show ?case
  proof (cases "py_eq q k")
    case True
    then have "py_eq q k' = py_eq k k'"
      using py_eq_trans [OF q assms(1,2)] py_eq_trans [OF assms(1) q assms(2)] py_eq_sym [OF q assms(1)]
      by blast
    then show ?thesis using True by (simp add: p)
  next
    case False
    then have "py_eq k k' \<Longrightarrow> \<not> py_eq q k'"
      using py_eq_trans [OF q assms(2,1)] py_eq_sym [OF assms(1,2)] by blast
    then show ?thesis using False IH by (auto simp: p)
  qed
qed simp

lemma py_put_keys:
  "\<not> unhashable k \<Longrightarrow> list_all (\<lambda>p. \<not> unhashable (fst p)) d \<Longrightarrow>
     list_all (\<lambda>p. \<not> unhashable (fst p)) (py_put k x d)"
  by (induction d) auto

text \<open>With distinct symbols every candidate finds its own open horizons.\<close>

lemma eligible_lookup:
  assumes "eligible_from contracts now d cs = Inr e"
    and "py_distinct (map (\<lambda>c. fld c ''symbol'') cs)"
    and "list_all (\<lambda>c. \<not> unhashable (fld c ''symbol'')) cs"
    and "list_all (\<lambda>p. \<not> unhashable (fst p)) d" and "\<not> unhashable k"
  shows "py_assoc e k =
    (case find (\<lambda>c. py_eq (fld c ''symbol'') k \<and> unresolved contracts now c \<noteq> []) cs of
       Some c \<Rightarrow> Some (unresolved contracts now c) | None \<Rightarrow> py_assoc d k)"
  using assms(1-4)
proof (induction cs arbitrary: d)
  case (Cons c cs)
  let ?sym = "\<lambda>c. fld c ''symbol''"
  have hash: "\<not> unhashable (?sym c)" using Cons.prems(3) by simp
  show ?case
  proof (cases "unresolved contracts now c = []")
    case True
    then show ?thesis using Cons by simp
  next
    case False
    let ?d = "py_put (?sym c) (unresolved contracts now c) d"
    have IH: "py_assoc e k = (case find (\<lambda>c. py_eq (?sym c) k \<and> unresolved contracts now c \<noteq> []) cs of
        Some c \<Rightarrow> Some (unresolved contracts now c) | None \<Rightarrow> py_assoc ?d k)"
      using Cons False hash py_put_keys by (intro Cons.IH) simp_all
    show ?thesis
    proof (cases "py_eq (?sym c) k")
      case True
      have "\<not> py_eq (?sym c') k" if "c' \<in> set cs" for c'
      proof -
        have "\<not> py_eq (?sym c') (?sym c)" "\<not> unhashable (?sym c')"
          using that Cons.prems(2,3) by (auto simp: list_all_iff)
        then show ?thesis
          using True py_eq_trans [OF _ assms(5) hash] py_eq_sym [OF hash assms(5)] by blast
      qed
      then have "find (\<lambda>c. py_eq (?sym c) k \<and> unresolved contracts now c \<noteq> []) cs = None"
        by (auto simp: find_None_iff)
      then show ?thesis using IH True False py_assoc_put [OF hash assms(5) Cons.prems(4)] by simp
    next
      case other: False
      then show ?thesis
        using IH False py_assoc_put [OF hash assms(5) Cons.prems(4)] by (simp split: option.splits)
    qed
  qed
qed simp

end
