(* ===== verification/Forward_Shape.thy ===== *)
theory Forward_Shape
  imports Forward_Facts
begin

text \<open>
  The shape of a resolution: the entry it belongs to and, for each candidate, the horizons
  resolved so far.  What a run adds to it, and why both modules accept it.
\<close>

section \<open>Equality of documents\<close>

lemma py_eq_wf: "wf_pv v \<Longrightarrow> py_eq v v"
proof (induction v rule: wf_pv.induct)
  case (1 xs)
  then show ?case by (auto simp: list_all2_same list_all_iff)
next
  case (2 d)
  then show ?case by (fastforce simp: list_all_iff)
qed auto

section \<open>The shape\<close>

text \<open>The candidate of a row with the horizons resolved so far.\<close>

definition filled :: "pv \<Rightarrow> (string \<times> pv) list \<Rightarrow> pv" where
  "filled row hs = PDict [
     (''symbol'', fld row ''symbol''), (''reference_price'', fld row ''reference_price''),
     (''resolved_horizons'', PDict hs)]"

definition horizons_ok :: "horizon list \<Rightarrow> (string \<times> pv) list \<Rightarrow> bool" where
  "horizons_ok contracts hs = (distinct (map fst hs) \<and>
     (\<forall>p \<in> set hs. \<exists>h \<in> set contracts. \<exists>r. p = (ho_name h, horizon_doc h r)))"

definition entry_rows :: "pv \<Rightarrow> pv list" where
  "entry_rows entry = rows_of (fld entry ''candidates'')"

text \<open>The initial resolution of an entry, its reference moment and its horizons.\<close>

definition entry_frame :: "string \<Rightarrow> pv \<Rightarrow> pv \<Rightarrow> int \<Rightarrow> horizon list \<Rightarrow> bool" where
  "entry_frame name entry initial t contracts = (
     build_initial_resolution_state name entry = Inr initial \<and>
     normalize_reference_candle_utc (fld initial ''reference_candle_at'') = Inr t \<and>
     get_horizon_contracts t = Inr contracts)"

definition with_horizons :: "pv \<Rightarrow> pv \<Rightarrow> (string \<times> pv) list list \<Rightarrow> pv" where
  "with_horizons initial entry hss =
    set_field ''candidates'' (PList (map2 filled (entry_rows entry) hss)) initial"

lemma filled_simps [simp]:
  "fld (filled row hs) ''symbol'' = fld row ''symbol''"
  "fld (filled row hs) ''reference_price'' = fld row ''reference_price''"
  "fld (filled row hs) ''resolved_horizons'' = PDict hs"
  "check_keys resolved_candidate_keys message (filled row hs) = Inr ()"
  "is_dict (filled row hs)"
  by (simp_all add: filled_def check_keys_def resolved_candidate_keys_def)

lemma initial_candidate_filled: "initial_candidate row = filled row []"
  by (simp add: initial_candidate_def filled_def)

lemma build_initial_dest:
  assumes "build_initial_resolution_state name entry = Inr initial"
  obtains reference where "initial = PDict [
      (''snapshot_type'', PStr ''v4_forward_outcome_resolution''), (''schema_version'', PInt 1),
      (''entry_artifact'', PStr name), (''entry_snapshot_type'', fld entry ''snapshot_type''),
      (''entry_schema_version'', fld entry ''schema_version''),
      (''entry_captured_at'', fld entry ''captured_at''), (''reference_candle_at'', reference),
      (''candidates'', PList (map (\<lambda>row. filled row []) (entry_rows entry)))]"
    "hashed (map (\<lambda>row. fld row ''reference_candle_at'') (entry_rows entry)) = Inr [reference]"
    "normalize_reference_candle_utc reference \<in> range Inr"
    "py_eq (fld entry ''snapshot_type'') (PStr ''v4_outcome_tracker_entry'')"
    "py_eq (fld entry ''schema_version'') (PInt 1)" "entry_rows entry \<noteq> []"
proof -
  obtain times t where times: "hashed (map (\<lambda>row. fld row ''reference_candle_at'') (entry_rows entry)) = Inr times"
    "length times = 1" "normalize_reference_candle_utc (hd times) = Inr t"
    and rest: "py_eq (fld entry ''snapshot_type'') (PStr ''v4_outcome_tracker_entry'')"
      "py_eq (fld entry ''schema_version'') (PInt 1)" "filled_list (fld entry ''candidates'')"
    and initial: "initial = PDict [
      (''snapshot_type'', PStr ''v4_forward_outcome_resolution''), (''schema_version'', PInt 1),
      (''entry_artifact'', PStr name), (''entry_snapshot_type'', fld entry ''snapshot_type''),
      (''entry_schema_version'', fld entry ''schema_version''),
      (''entry_captured_at'', fld entry ''captured_at''), (''reference_candle_at'', hd times),
      (''candidates'', PList (map initial_candidate (entry_rows entry)))]"
    using assms unfolding build_initial_resolution_state_def inr_convs Let_def entry_rows_def by blast
  have "entry_rows entry \<noteq> []"
    using rest(3) by (auto simp: filled_list_def entry_rows_def rows_of_def split: pv.splits)
  moreover obtain reference where "times = [reference]"
    using times(2) by (cases times) auto
  ultimately show ?thesis
    using times rest initial by (intro that [of reference]) (auto simp: initial_candidate_filled)
qed

lemma with_horizons_dest:
  assumes "build_initial_resolution_state name entry = Inr initial"
  shows "check_keys resolved_keys message (with_horizons initial entry hss) = Inr ()"
    "is_dict (with_horizons initial entry hss)"
    "fld (with_horizons initial entry hss) ''candidates'' = PList (map2 filled (entry_rows entry) hss)"
    "field \<noteq> ''candidates'' \<Longrightarrow> fld (with_horizons initial entry hss) field = fld initial field"
    "fld initial ''candidates'' = PList (map (\<lambda>row. filled row []) (entry_rows entry))"
    "with_horizons initial entry (replicate (length (entry_rows entry)) []) = initial"
    "set_field ''candidates'' (PList rows) (with_horizons initial entry hss)
       = set_field ''candidates'' (PList rows) initial"
  by (rule build_initial_dest [OF assms];
      simp add: with_horizons_def set_field_def check_keys_def resolved_keys_def map2_map_map
        zip_replicate2 comp_def)+

lemma initial_fields:
  assumes "build_initial_resolution_state name entry = Inr initial"
  shows "fld initial ''snapshot_type'' = PStr ''v4_forward_outcome_resolution''"
    "fld initial ''schema_version'' = PInt 1" "fld initial ''entry_artifact'' = PStr name"
    "fld initial ''entry_snapshot_type'' = fld entry ''snapshot_type''"
    "fld initial ''entry_schema_version'' = fld entry ''schema_version''"
    "fld initial ''entry_captured_at'' = fld entry ''captured_at''"
  by (rule build_initial_dest [OF assms]; simp)+

lemma foldl_keep_members:
  "set (foldl (\<lambda>s v. if py_member v s then s else s @ [v]) s vs) \<subseteq> set s \<union> set vs"
proof (induction vs arbitrary: s)
  case (Cons v vs)
  show ?case using Cons [of s] Cons [of "s @ [v]"] by auto
qed simp

lemma hashed_members: "hashed vs = Inr s \<Longrightarrow> set s \<subseteq> set vs"
  using foldl_keep_members [of "[]" vs] by (auto simp: hashed_def split: if_splits)

text \<open>The reference time of the resolution is that of the first row.\<close>

lemma hashed_single:
  assumes "hashed (v # vs) = Inr [r]"
  shows "r = v"
proof -
  let ?step = "\<lambda>s v. if py_member v s then s else s @ [v]"
  have "\<exists>t. foldl ?step s us = s @ t" for s us
  proof (induction us arbitrary: s)
    case (Cons u us)
    show ?case using Cons [of s] Cons [of "s @ [u]"] by auto
  qed simp
  from this [of "[v]" vs] show ?thesis
    using assms by (auto simp: hashed_def py_member_def split: if_splits)
qed

lemma initial_reference:
  assumes "build_initial_resolution_state name entry = Inr initial"
  shows "fld initial ''reference_candle_at'' = fld (hd (entry_rows entry)) ''reference_candle_at''"
  using assms
proof (rule build_initial_dest)
  fix reference
  assume "initial = PDict [
      (''snapshot_type'', PStr ''v4_forward_outcome_resolution''), (''schema_version'', PInt 1),
      (''entry_artifact'', PStr name), (''entry_snapshot_type'', fld entry ''snapshot_type''),
      (''entry_schema_version'', fld entry ''schema_version''),
      (''entry_captured_at'', fld entry ''captured_at''), (''reference_candle_at'', reference),
      (''candidates'', PList (map (\<lambda>row. filled row []) (entry_rows entry)))]"
    and "hashed (map (\<lambda>row. fld row ''reference_candle_at'') (entry_rows entry)) = Inr [reference]"
    and "entry_rows entry \<noteq> []"
  then show ?thesis by (cases "entry_rows entry") (auto dest: hashed_single)
qed

section \<open>Entries the validator accepts\<close>

lemma check_all_iff: "check_all f xs = Inr () \<longleftrightarrow> (\<forall>x \<in> set xs. f x = Inr ())"
  by (induction xs) (auto simp: and_then_def split: sum.splits)

lemma unit_and_then: "and_then r f = Inr () \<longleftrightarrow> r = Inr () \<and> f () = Inr ()"
  for r :: "('e, unit) result"
  by (auto simp: and_then_def split: sum.splits)

definition number_value :: "pv \<Rightarrow> bool" where
  "number_value v = (case v of PInt _ \<Rightarrow> True | PReal _ \<Rightarrow> True | _ \<Rightarrow> False)"

lemma require_number_iff: "require_number field v = Inr () \<longleftrightarrow> number_value v"
  by (simp add: require_number_def number_value_def split: pv.splits)

lemma number_value_simps [simp]: "number_value (PReal x)" "number_value v \<Longrightarrow> py_eq v v"
  "number_value v \<Longrightarrow> num_of v \<noteq> None"
  by (cases v; simp add: number_value_def)+

definition row_ok :: "pv \<Rightarrow> bool" where
  "row_ok c = (check_keys entry_candidate_keys [] c = Inr () \<and>
     check_keys ai_validation_keys [] (fld c ''ai_validation'') = Inr () \<and>
     is_text_in (\<lambda>t. t \<in> set allowed_trends) (fld c ''trend'') \<and>
     \<not> unhashable (fld c ''reference_candle_at'') \<and> number_value (fld c ''reference_price''))"

lemma check_keys_iff:
  "check_keys keys message v = Inr () \<longleftrightarrow> (\<exists>d. v = PDict d \<and> map fst d = keys)"
  by (auto simp: check_keys_def split: pv.splits)

lemma require_object_iff:
  "require_object kind keys message v = Inr () \<longleftrightarrow> (\<exists>d. v = PDict d \<and> map fst d = keys)"
  by (auto simp: require_object_def check_keys_iff is_dict_def split: pv.splits)

lemma require_value_iff: "require_value v w message = Inr () \<longleftrightarrow> py_eq v w"
  by (simp add: require_value_def)

lemma validate_entry_candidate_iff: "validate_entry_candidate c = Inr () \<longleftrightarrow> row_ok c"
proof -
  have "\<not> unhashable v" if "is_text_in P v" for P v
    using that by (cases v) (simp_all add: is_text_in_def unhashable_def)
  then show ?thesis
    unfolding validate_entry_candidate_def unit_and_then
    unfolding inr_convs row_ok_def require_object_iff check_keys_iff require_number_iff
    by blast
qed

lemma hashed_length: "hashed vs = Inr s \<Longrightarrow> length s \<le> length vs"
proof -
  have "length (foldl (\<lambda>s v. if py_member v s then s else s @ [v]) s vs) \<le> length s + length vs" for s
  proof (induction vs arbitrary: s)
    case (Cons v vs)
    show ?case using Cons [of s] Cons [of "s @ [v]"] by simp
  qed simp
  from this [of "[]"] show "hashed vs = Inr s \<Longrightarrow> length s \<le> length vs"
    by (auto simp: hashed_def split: if_splits)
qed

text \<open>What the validator asks of an entry.\<close>

lemma validate_entry_dest:
  assumes "validate_entry_schema entry = Inr ()"
  shows "\<forall>c \<in> set (entry_rows entry). row_ok c"
    "py_distinct (map (\<lambda>c. fld c ''symbol'') (entry_rows entry))"
    "list_all (\<lambda>c. \<not> unhashable (fld c ''symbol'')) (entry_rows entry)"
    "entry_rows entry \<noteq> []" "is_dict entry"
    "py_eq (fld entry ''snapshot_type'') (PStr ''v4_outcome_tracker_entry'')"
    "py_eq (fld entry ''schema_version'') (PInt 1)"
proof -
  have checks: "filled_list (fld entry ''candidates'')"
    "check_all validate_entry_candidate (entry_rows entry) = Inr ()"
    "reject_duplicate_symbols (map (\<lambda>c. fld c ''symbol'') (entry_rows entry)) = Inr ()"
    and top: "\<exists>d. entry = PDict d \<and> map fst d = entry_keys"
      "py_eq (fld entry ''snapshot_type'') (PStr ''v4_outcome_tracker_entry'')"
      "py_eq (fld entry ''schema_version'') (PInt 1)"
    using assms
    unfolding validate_entry_schema_def unit_and_then Let_def
    unfolding inr_convs unit_and_then require_object_iff require_value_iff entry_rows_def
    by (simp_all add: unit_and_then)
  show "\<forall>c \<in> set (entry_rows entry). row_ok c"
    using checks(2) by (simp add: check_all_iff validate_entry_candidate_iff)
  obtain s where "hashed (map (\<lambda>c. fld c ''symbol'') (entry_rows entry)) = Inr s"
    "length s = length (map (\<lambda>c. fld c ''symbol'') (entry_rows entry))"
    using checks(3) unfolding reject_duplicate_symbols_def inr_convs by auto
  from hashed_distinct [OF this] show
    "py_distinct (map (\<lambda>c. fld c ''symbol'') (entry_rows entry))"
    "list_all (\<lambda>c. \<not> unhashable (fld c ''symbol'')) (entry_rows entry)"
    by (simp_all add: list_all_iff)
  show "entry_rows entry \<noteq> []"
    using checks(1) by (auto simp: filled_list_def entry_rows_def rows_of_def split: pv.splits)
  show "is_dict entry" using top(1) by auto
  show "py_eq (fld entry ''snapshot_type'') (PStr ''v4_outcome_tracker_entry'')"
    "py_eq (fld entry ''schema_version'') (PInt 1)" by (rule top)+
qed

end
