(* ===== verification/Forward_Runs.thy ===== *)
theory Forward_Runs
  imports Forward_Shape
begin

text \<open>
  What a run of the resolver does to a resolution of that shape: it appends, to each candidate,
  the results of the horizons that are due and not resolved, and nothing else.
\<close>

section \<open>One candidate\<close>

text \<open>A result is computed from the candles of its window.\<close>

definition computed :: "market \<Rightarrow> int \<Rightarrow> pv \<Rightarrow> horizon \<Rightarrow> string \<times> pv \<Rightarrow> bool" where
  "computed m close row h p = (\<exists>df w r. quotes m (fld row ''symbol'') = Some df \<and>
     select_exact_closed_candle_window df close (ho_target h) = Inr w \<and>
     calculate_horizon_result m w (fld row ''reference_price'') = Inr r \<and>
     p = (ho_name h, horizon_doc h r))"

definition due :: "horizon list \<Rightarrow> int \<Rightarrow> (string \<times> pv) list \<Rightarrow> horizon list" where
  "due contracts now hs = filter (\<lambda>h. ho_name h \<notin> fst ` set hs \<and> ho_target h \<le> now) contracts"

lemma unresolved_filled [simp]: "unresolved contracts now (filled row hs) = due contracts now hs"
  by (simp add: unresolved_def due_def)

lemma pending_results_dest:
  "pending_results m df close (fld row ''reference_price'') hs = Inr ps \<Longrightarrow>
     quotes m (fld row ''symbol'') = Some df \<Longrightarrow> list_all2 (computed m close row) hs ps"
proof (induction hs arbitrary: ps)
  case (Cons h hs)
  from Cons.prems(1) obtain w r rest where
    "select_exact_closed_candle_window df close (ho_target h) = Inr w"
    "calculate_horizon_result m w (fld row ''reference_price'') = Inr r"
    "pending_results m df close (fld row ''reference_price'') hs = Inr rest"
    "ps = (ho_name h, horizon_doc h r) # rest"
    unfolding pending_results.simps inr_convs by auto
  then show ?case using Cons by (auto simp: computed_def)
qed simp

lemma merge_filled:
  assumes "name \<notin> fst ` set hs"
  shows "merge_horizon_once (filled row hs) name v = Inr (filled row (hs @ [(name, v)]), True)"
proof -
  have "map_of hs name = None" using assms by (simp add: map_of_eq_None_iff)
  then show ?thesis
    using assms by (simp add: merge_horizon_once_def filled_def set_field_def update_fresh)
qed

lemma merge_results_filled:
  "distinct (map fst (hs @ ps)) \<Longrightarrow> merge_results (filled row hs) ps = Inr (filled row (hs @ ps), length ps)"
proof (induction ps arbitrary: hs)
  case (Cons p ps)
  obtain n v where p: "p = (n, v)" by (cases p)
  have "n \<notin> fst ` set hs" using Cons.prems by (auto simp: p)
  moreover have "merge_results (filled row (hs @ [(n, v)])) ps
      = Inr (filled row ((hs @ [(n, v)]) @ ps), length ps)"
    using Cons.prems by (intro Cons.IH) (simp add: p)
  ultimately show ?case by (simp add: p merge_filled and_then_def)
qed simp

lemma computed_names: "list_all2 (computed m close row) hs ps \<Longrightarrow> map fst ps = map ho_name hs"
  by (induction rule: list_all2_induct) (auto simp: computed_def)

lemma computed_ok:
  assumes "horizons_ok contracts hs" and "list_all2 (computed m close row) (due contracts now hs) ps"
    and "distinct (map ho_name contracts)"
  shows "horizons_ok contracts (hs @ ps)"
proof -
  have names: "map fst ps = map ho_name (due contracts now hs)" by (rule computed_names [OF assms(2)])
  then have new: "fst ` set ps = ho_name ` set (due contracts now hs)" by (metis list.set_map)
  have "distinct (map fst ps)" unfolding names using assms(3) by (simp add: due_def distinct_map_filter)
  moreover have "fst ` set hs \<inter> fst ` set ps = {}"
  proof -
    have "ho_name h \<notin> fst ` set hs" if "h \<in> set (due contracts now hs)" for h
      using that by (simp add: due_def)
    then show ?thesis unfolding new disjoint_iff by (metis imageE)
  qed
  moreover have "\<exists>h \<in> set contracts. \<exists>r. p = (ho_name h, horizon_doc h r)" if p: "p \<in> set ps" for p
  proof -
    obtain i where i: "i < length ps" "p = ps ! i" using p by (metis in_set_conv_nth)
    have "due contracts now hs ! i \<in> set contracts"
      using i(1) list_all2_lengthD [OF assms(2)] nth_mem [of i "due contracts now hs"] by (simp add: due_def)
    then show ?thesis using list_all2_nthD2 [OF assms(2) i(1)] i(2) by (auto simp: computed_def)
  qed
  ultimately show ?thesis using assms(1) by (auto simp: horizons_ok_def)
qed

section \<open>All candidates\<close>

text \<open>What one run adds to a candidate.\<close>

definition grown :: "market \<Rightarrow> int \<Rightarrow> horizon list \<Rightarrow> int \<Rightarrow> pv \<Rightarrow> (string \<times> pv) list \<Rightarrow> (string \<times> pv) list \<Rightarrow> bool" where
  "grown m close contracts now row hs hs' =
    (\<exists>ps. hs' = hs @ ps \<and> list_all2 (computed m close row) (due contracts now hs) ps)"

text \<open>Among rows with distinct symbols each finds its own due horizons.\<close>

lemma lookup_own:
  assumes e: "eligible_from contracts now [] (map2 filled rows hss) = Inr e"
    and distinct: "py_distinct (map (\<lambda>c. fld c ''symbol'') rows)"
    and hash: "list_all (\<lambda>c. \<not> unhashable (fld c ''symbol'')) rows"
    and len: "length hss = length rows" and i: "i < length rows"
  shows "py_assoc e (fld (rows ! i) ''symbol'')
    = (if due contracts now (hss ! i) = [] then None else Some (due contracts now (hss ! i)))"
proof -
  let ?cs = "map2 filled rows hss" and ?k = "fld (rows ! i) ''symbol''"
  have syms: "map (\<lambda>c. fld c ''symbol'') ?cs = map (\<lambda>c. fld c ''symbol'') rows"
    using len by (intro nth_equalityI) simp_all
  have hashcs: "list_all (\<lambda>c. \<not> unhashable (fld c ''symbol'')) ?cs"
    using hash len by (auto simp: list_all_length)
  have k: "\<not> unhashable ?k" using hash i by (simp add: list_all_length)
  have pair: "\<not> py_eq (vs ! a) (vs ! b)" if "py_distinct vs" "b < a" "a < length vs" for vs a b
    using that
  proof (induction vs arbitrary: a b)
    case (Cons v vs)
    then obtain a' where a: "a = Suc a'" by (cases a) auto
    show ?case
    proof (cases b)
      case 0
      then show ?thesis using Cons.prems a by (simp add: list_all_length)
    next
      case (Suc b')
      then show ?thesis using Cons a by simp
    qed
  qed simp
  have other: "\<not> py_eq (fld (rows ! j) ''symbol'') ?k" if "j < length rows" "j \<noteq> i" for j
  proof -
    have "\<not> unhashable (fld (rows ! j) ''symbol'')" using hash that by (simp add: list_all_length)
    then show ?thesis
      using pair [OF distinct, of i j] pair [OF distinct, of j i] that i py_eq_sym [OF _ k]
      by (cases "j < i") auto
  qed
  let ?P = "\<lambda>c. py_eq (fld c ''symbol'') ?k \<and> unresolved contracts now c \<noteq> []"
  have own: "?P (?cs ! j) \<longleftrightarrow> j = i \<and> due contracts now (hss ! i) \<noteq> []" if "j < length rows" for j
    using that len other [of j] py_eq_refl [OF k k] by auto
  have found: "find ?P ?cs = (if due contracts now (hss ! i) = [] then None else Some (?cs ! i))"
  proof (cases "due contracts now (hss ! i) = []")
    case True
    then show ?thesis using own len by (auto simp: find_None_iff in_set_conv_nth)
  next
    case False
    have "?P (?cs ! i)" using own [OF i] False by simp
    moreover have "?cs ! i \<in> set ?cs" using i len by (intro nth_mem) simp
    ultimately have "find ?P ?cs \<noteq> None" unfolding find_None_iff by blast
    then obtain c where c: "find ?P ?cs = Some c" by blast
    then obtain j where "j < length ?cs" "?P (?cs ! j)" "c = ?cs ! j"
      by (auto simp: find_Some_iff)
    then have "j = i" using own len by simp
    then show ?thesis using False c \<open>c = ?cs ! j\<close> by simp
  qed
  show ?thesis
    using eligible_lookup [OF e _ hashcs _ k] distinct i len
    by (simp only: syms found) (auto simp: list_all_iff split: if_splits)
qed

lemma resolve_candidates_grown:
  assumes "resolve_candidates m close e (map2 filled rows hss) = Inr (cs, n)"
    and "length hss = length rows"
    and "\<And>i. i < length rows \<Longrightarrow> py_assoc e (fld (rows ! i) ''symbol'')
      = (if due contracts now (hss ! i) = [] then None else Some (due contracts now (hss ! i)))"
    and "list_all (horizons_ok contracts) hss" and "distinct (map ho_name contracts)"
  shows "\<exists>hss'. cs = map2 filled rows hss' \<and> length hss' = length rows \<and>
    (\<forall>i < length rows. grown m close contracts now (rows ! i) (hss ! i) (hss' ! i)) \<and>
    list_all (horizons_ok contracts) hss' \<and>
    n = sum_list (map (\<lambda>hs. length (due contracts now hs)) hss)"
  using assms
proof (induction rows arbitrary: hss cs n)
  case Nil
  then show ?case by simp
next
  case (Cons row rows)
  obtain hs hss1 where hss: "hss = hs # hss1" using Cons.prems(2) by (cases hss) auto
  from Cons.prems(1) obtain c n1 cs1 n2 where one: "resolve_candidate m close e (filled row hs) = Inr (c, n1)"
    and more: "resolve_candidates m close e (map2 filled rows hss1) = Inr (cs1, n2)"
    and res: "cs = c # cs1" "n = n1 + n2"
    by (auto simp: hss and_then_iff split: prod.splits)
  have ok: "horizons_ok contracts hs" using Cons.prems(4) by (simp add: hss)
  have "\<exists>hs'. c = filled row hs' \<and> grown m close contracts now row hs hs' \<and> horizons_ok contracts hs' \<and>
      n1 = length (due contracts now hs)"
  proof (cases "due contracts now hs = []")
    case True
    then have "py_assoc e (fld row ''symbol'') = None" using Cons.prems(3) [of 0] by (simp add: hss)
    then have "c = filled row hs" "n1 = 0"
      using one by (auto simp: resolve_candidate_def Let_def split: if_splits)
    then show ?thesis using True ok by (auto simp: grown_def)
  next
    case False
    then have "py_assoc e (fld row ''symbol'') = Some (due contracts now hs)"
      using Cons.prems(3) [of 0] by (simp add: hss)
    then obtain df ps where ps: "quotes m (fld row ''symbol'') = Some df"
      "pending_results m df close (fld row ''reference_price'') (due contracts now hs) = Inr ps"
      "merge_results (filled row hs) ps = Inr (c, n1)"
      using one unfolding resolve_candidate_def
      by (auto simp: inr_convs Let_def split: if_splits option.splits)
    have comp: "list_all2 (computed m close row) (due contracts now hs) ps"
      by (rule pending_results_dest [OF ps(2,1)])
    have "horizons_ok contracts (hs @ ps)" by (rule computed_ok [OF ok comp Cons.prems(5)])
    moreover from this have "c = filled row (hs @ ps)" "n1 = length ps"
      using ps(3) merge_results_filled [of hs ps row] by (auto simp: horizons_ok_def)
    ultimately show ?thesis using comp by (auto simp: grown_def list_all2_lengthD)
  qed
  then obtain hs' where hs': "c = filled row hs'" "grown m close contracts now row hs hs'"
    "horizons_ok contracts hs'" "n1 = length (due contracts now hs)" by blast
  have "py_assoc e (fld (rows ! i) ''symbol'')
      = (if due contracts now (hss1 ! i) = [] then None else Some (due contracts now (hss1 ! i)))"
    if "i < length rows" for i
    using Cons.prems(3) [of "Suc i"] that by (simp add: hss)
  with Cons.IH [OF more] Cons.prems(2,4,5) obtain hss' where "cs1 = map2 filled rows hss'"
    "length hss' = length rows" "list_all (horizons_ok contracts) hss'"
    "\<forall>i < length rows. grown m close contracts now (rows ! i) (hss1 ! i) (hss' ! i)"
    "n2 = sum_list (map (\<lambda>hs. length (due contracts now hs)) hss1)"
    by (auto simp: hss)
  then show ?case
    using hs' res
    by (intro exI [of _ "hs' # hss'"]) (auto simp: hss nth_Cons split: nat.splits)
qed

end
