(* ===== verification/Forward_Reach.thy ===== *)
theory Forward_Reach
  imports Forward_Runs "HOL-Library.Sublist"
begin

text \<open>
  Runs of the resolver on one entry, one after the other: the files they reach, the shape of the
  resolution in them, and that the resolver accepts what it wrote.
\<close>

section \<open>The resolution of an entry\<close>

definition resolution_at :: "string \<Rightarrow> pv \<Rightarrow> (string \<times> pv) list list \<Rightarrow> pv \<Rightarrow> bool" where
  "resolution_at name entry hss doc = (\<exists>initial t contracts. entry_frame name entry initial t contracts \<and>
     doc = with_horizons initial entry hss \<and> length hss = length (entry_rows entry) \<and>
     list_all (horizons_ok contracts) hss)"

text \<open>The horizons a file records for the \<open>j\<close>-th candidate.\<close>

definition recorded_horizons :: "disk_file \<Rightarrow> nat \<Rightarrow> (string \<times> pv) list" where
  "recorded_horizons file j = (case file of
     Stored doc \<Rightarrow> items (fld (rows_of (fld doc ''candidates'') ! j) ''resolved_horizons'')
   | _ \<Rightarrow> [])"

lemma frame_dest:
  assumes "entry_frame name entry initial t contracts"
  shows "build_initial_resolution_state name entry = Inr initial"
    "normalize_reference_candle_utc (fld initial ''reference_candle_at'') = Inr t"
    "get_horizon_contracts t = Inr contracts" "distinct (map ho_name contracts)"
    "map ho_name contracts = horizon_names"
  using assms contracts_names by (auto simp: entry_frame_def)

lemma frame_unique:
  "entry_frame name entry initial t contracts \<Longrightarrow> entry_frame name entry initial' t' contracts' \<Longrightarrow>
     initial' = initial \<and> t' = t \<and> contracts' = contracts"
  by (simp add: entry_frame_def)

lemma recorded_with_horizons:
  assumes "build_initial_resolution_state name entry = Inr initial"
    and "length hss = length (entry_rows entry)" and "j < length hss"
  shows "recorded_horizons (Stored (with_horizons initial entry hss)) j = hss ! j"
  using assms by (simp add: recorded_horizons_def rows_of_def with_horizons_dest(3) items_def)

lemma recorded_at:
  "resolution_at name entry hss doc \<Longrightarrow> j < length (entry_rows entry) \<Longrightarrow> recorded_horizons (Stored doc) j = hss ! j"
proof -
  assume "resolution_at name entry hss doc" and j: "j < length (entry_rows entry)"
  then obtain initial t contracts where "entry_frame name entry initial t contracts"
    "doc = with_horizons initial entry hss" "length hss = length (entry_rows entry)"
    unfolding resolution_at_def by blast
  then show ?thesis using j recorded_with_horizons [OF frame_dest(1)] by simp
qed

text \<open>The file a run starts from: nothing, which counts as no horizon for any candidate, or a resolution.\<close>

definition resolution_file :: "string \<Rightarrow> pv \<Rightarrow> (string \<times> pv) list list \<Rightarrow> disk_file \<Rightarrow> bool" where
  "resolution_file name entry hss file = (case file of
     Absent \<Rightarrow> hss = replicate (length (entry_rows entry)) []
   | Garbled \<Rightarrow> False
   | Stored doc \<Rightarrow> resolution_at name entry hss doc)"

lemma recorded_file:
  "resolution_file name entry hss f \<Longrightarrow> j < length (entry_rows entry) \<Longrightarrow> recorded_horizons f j = hss ! j"
  unfolding resolution_file_def by (cases f) (simp_all add: recorded_at, simp add: recorded_horizons_def)

section \<open>One run\<close>

lemma eligible_none: "eligible_from contracts now d cs = Inr e \<Longrightarrow> (\<forall>c \<in> set cs. unresolved contracts now c = []) \<Longrightarrow> e = d"
  by (induction cs arbitrary: d) auto

lemma nothing_due:
  assumes "length hss = n" and "sum_list (map (\<lambda>hs. length (due contracts now hs)) hss) = 0"
  shows "\<forall>i < n. due contracts now (hss ! i) = []"
  using assms by (auto simp: set_conv_nth)

text \<open>What a step that succeeds computes from a resolution.\<close>

definition advanced :: "market \<Rightarrow> int \<Rightarrow> horizon list \<Rightarrow> int \<Rightarrow> pv \<Rightarrow> (string \<times> pv) list list \<Rightarrow> (string \<times> pv) list list \<Rightarrow> bool" where
  "advanced m close contracts now entry hss hss' = (length hss' = length (entry_rows entry) \<and>
     list_all (horizons_ok contracts) hss' \<and>
     (\<forall>i < length (entry_rows entry). grown m close contracts now (entry_rows entry ! i) (hss ! i) (hss' ! i)))"

lemma advanced_idle:
  assumes "list_all (horizons_ok contracts) hss" "length hss = length (entry_rows entry)"
    and "\<forall>i < length (entry_rows entry). due contracts now (hss ! i) = []"
  shows "advanced m close contracts now entry hss hss' \<longleftrightarrow> hss' = hss"
proof -
  have "grown m close contracts now row hs hs' \<longleftrightarrow> hs' = hs" if "due contracts now hs = []" for row hs hs'
    using that by (simp add: grown_def)
  then have "(\<forall>i < length (entry_rows entry). grown m close contracts now (entry_rows entry ! i) (hss ! i) (hss' ! i))
      \<longleftrightarrow> (\<forall>i < length (entry_rows entry). hss' ! i = hss ! i)"
    using assms(3) by blast
  then show ?thesis unfolding advanced_def using assms(1,2) list_eq_iff_nth_eq [of hss' hss] by auto
qed

lemma start_state:
  assumes "resolution_file name entry hss (files path)"
    and "build_initial_resolution_state name entry = Inr initial"
    and "load_or_initialize_resolution_state files path name entry = Inr state"
    and "entry_frame name entry initial t contracts"
  shows "state = with_horizons initial entry hss \<and> length hss = length (entry_rows entry) \<and>
    list_all (horizons_ok contracts) hss"
proof (cases "files path")
  case Absent
  then show ?thesis
    using assms with_horizons_dest(6) [OF assms(2)]
    by (auto simp: resolution_file_def load_or_initialize_resolution_state_def list_all_iff horizons_ok_def)
next
  case Garbled
  then show ?thesis using assms(1) by (simp add: resolution_file_def)
next
  case (Stored doc)
  then have "resolution_at name entry hss doc" "state = doc"
    using assms(1,3) by (auto simp: resolution_file_def load_or_initialize_resolution_state_def inr_convs)
  then show ?thesis using frame_unique [OF assms(4)] by (auto simp: resolution_at_def)
qed

text \<open>A step extends the recorded horizons by the due ones, and works when one is due.\<close>

lemma step_advances:
  assumes entry: "files name = Stored entry" and valid: "validate_entry_schema entry = Inr ()"
    and start: "\<And>path. derive_resolution_path name = Inr path \<Longrightarrow> resolution_file name entry hss (files path)"
    and step: "resolution_step m files name now = Inr (path, worked, state, n)"
  obtains initial t contracts u hss' where "entry_frame name entry initial t contracts"
    "in_utc now = Some u" "derive_resolution_path name = Inr path"
    "state = with_horizons initial entry hss'" "advanced m (t + 4 * hour_micros) contracts u entry hss hss'"
    "worked \<longleftrightarrow> 0 < n" "n = sum_list (map (\<lambda>hs. length (due contracts u hs)) hss)"
    "length hss = length (entry_rows entry)" "list_all (horizons_ok contracts) hss"
proof -
  obtain initial p state0 t contracts e where chain: "build_initial_resolution_state name entry = Inr initial"
    "derive_resolution_path name = Inr p"
    "load_or_initialize_resolution_state files p name entry = Inr state0"
    "normalize_reference_candle_utc (fld initial ''reference_candle_at'') = Inr t"
    "get_horizon_contracts t = Inr contracts"
    "get_eligible_unresolved_horizons state0 contracts now = Inr e"
    and final: "(if e = [] then Inr (p, False, state0, 0)
      else and_then (resolve_candidates m (t + 4 * hour_micros) e (rows_of (fld state0 ''candidates'')))
        (\<lambda>(rows, n). Inr (p, True, set_field ''candidates'' (PList rows) state0, n)))
      = (Inr (path, worked, state, n) :: (forward_error, _) result)"
    using step unfolding resolution_step_def entry disk_file.case and_then_iff by blast
  have p: "p = path" using final by (auto simp: and_then_iff split: if_splits)
  note chain = chain [unfolded p] and final = final [unfolded p]
  have frame: "entry_frame name entry initial t contracts"
    using chain by (simp add: entry_frame_def)
  note names = frame_dest(4) [OF frame]
  have state0: "state0 = with_horizons initial entry hss" and len: "length hss = length (entry_rows entry)"
    and ok: "list_all (horizons_ok contracts) hss"
    using start_state [OF start [OF chain(2)] chain(1,3) frame] by blast+
  obtain u where u: "in_utc now = Some u"
    and e: "eligible_from contracts u [] (map2 filled (entry_rows entry) hss) = Inr e"
    using chain(6) with_horizons_dest(3) [OF chain(1)]
    by (auto simp: get_eligible_unresolved_horizons_def state0 rows_of_def split: option.splits)
  note valid = validate_entry_dest [OF valid]
  note own = lookup_own [OF e valid(2,3) len]
  show ?thesis
  proof (cases "e = []")
    case True
    then have idle: "due contracts u (hss ! i) = []" if "i < length (entry_rows entry)" for i
      using own [OF that] by (simp split: if_splits)
    then have "sum_list (map (\<lambda>hs. length (due contracts u hs)) hss) = 0"
      using len by (auto simp: in_set_conv_nth)
    then show ?thesis
      using that [OF frame u chain(2), of hss] final True idle advanced_idle [OF ok len] state0 len ok by simp
  next
    case False
    then obtain rows where rows: "resolve_candidates m (t + 4 * hour_micros) e (map2 filled (entry_rows entry) hss) = Inr (rows, n)"
      "state = set_field ''candidates'' (PList rows) state0" "worked"
      using final with_horizons_dest(3) [OF chain(1)] by (auto simp: state0 rows_of_def inr_convs)
    from resolve_candidates_grown [OF rows(1) len own ok names]
    obtain hss' where hss': "rows = map2 filled (entry_rows entry) hss'"
      "advanced m (t + 4 * hour_micros) contracts u entry hss hss'"
      "n = sum_list (map (\<lambda>hs. length (due contracts u hs)) hss)"
      by (auto simp: advanced_def)
    have "state = with_horizons initial entry hss'"
      using rows(2) with_horizons_dest(7) [OF chain(1)] by (simp add: state0 hss'(1) with_horizons_def)
    moreover have "0 < n"
    proof (rule ccontr)
      assume "\<not> 0 < n"
      then have "\<forall>i < length (entry_rows entry). due contracts u (hss ! i) = []"
        using nothing_due [OF len] hss'(3) by simp
      then have "\<forall>c \<in> set (map2 filled (entry_rows entry) hss). unresolved contracts u c = []"
        using len by (auto simp: in_set_conv_nth)
      from eligible_none [OF e this] False show False by simp
    qed
    ultimately show ?thesis
      using that [OF frame u chain(2)] hss' rows(3) len ok by blast
  qed
qed

lemma derived_path_other:
  assumes "derive_resolution_path name = Inr path"
  shows "path \<noteq> name"
proof -
  have path: "path = ''outcome_resolved_v4_'' @ drop (length entry_prefix) name"
    and "take (length entry_prefix) name = entry_prefix"
    using assms by (auto simp: derive_resolution_path_def split: if_splits)
  then have "name = entry_prefix @ drop (length entry_prefix) name" by (metis append_take_drop_id)
  from arg_cong [where f = length, OF this] path have "length path \<noteq> length name"
    by (simp add: entry_prefix_def)
  then show ?thesis by blast
qed

lemma resolve_fails: "resolve_entry_artifact m i files name now = (Inl e, files') \<Longrightarrow> files' = files"
  by (auto simp: resolve_entry_artifact_def write_resolution_state_atomic_def Let_def
      split: sum.splits if_splits prod.splits)

lemma resolve_advances:
  assumes entry: "files name = Stored entry" and valid: "validate_entry_schema entry = Inr ()"
    and start: "\<And>path. derive_resolution_path name = Inr path \<Longrightarrow> resolution_file name entry hss (files path)"
    and run: "resolve_entry_artifact m i files name now = (Inr r, files')"
  obtains initial t contracts u hss' where "entry_frame name entry initial t contracts"
    "in_utc now = Some u" "derive_resolution_path name = Inr (rn_resolution_path r)"
    "files' = files(rn_resolution_path r := Stored (with_horizons initial entry hss'))"
    "advanced m (t + 4 * hour_micros) contracts u entry hss hss'"
    "r = \<lparr>rn_entry_path = name, rn_resolution_path = rn_resolution_path r, rn_changed = 0 < rn_added r,
      rn_added = sum_list (map (\<lambda>hs. length (due contracts u hs)) hss)\<rparr>"
    "length hss = length (entry_rows entry)" "list_all (horizons_ok contracts) hss"
proof -
  obtain path worked state n where step: "resolution_step m files name now = Inr (path, worked, state, n)"
    using run by (auto simp: resolve_entry_artifact_def split: sum.splits)
  have r: "r = \<lparr>rn_entry_path = name, rn_resolution_path = path, rn_changed = 0 < n, rn_added = n\<rparr>"
    and written: "(if worked then 0 < n else files path = Absent) \<Longrightarrow> files' = files(path := Stored state)"
    and kept: "\<not> (if worked then 0 < n else files path = Absent) \<Longrightarrow> files' = files"
    using run unfolding resolve_entry_artifact_def step
    by (auto simp: write_resolution_state_atomic_def Let_def split: if_splits)
  show ?thesis
  proof (rule step_advances [OF entry valid start step])
    fix initial t contracts u hss'
    assume frame: "entry_frame name entry initial t contracts" and u: "in_utc now = Some u"
      and path: "derive_resolution_path name = Inr path" and state: "state = with_horizons initial entry hss'"
      and adv: "advanced m (t + 4 * hour_micros) contracts u entry hss hss'" and worked: "worked \<longleftrightarrow> 0 < n"
      and n: "n = sum_list (map (\<lambda>hs. length (due contracts u hs)) hss)"
      and len: "length hss = length (entry_rows entry)" and ok: "list_all (horizons_ok contracts) hss"
    have "files' = files(path := Stored (with_horizons initial entry hss'))"
    proof (cases "0 < n \<or> files path = Absent")
      case True
      then show ?thesis using written worked by (auto simp: state)
    next
      case False
      then have "hss' = hss"
        using adv advanced_idle [OF ok len] nothing_due [OF len] n by simp
      moreover have "resolution_file name entry hss (files path)" by (rule start [OF path])
      ultimately have "files path = Stored (with_horizons initial entry hss')"
        using False frame_unique [OF frame] by (cases "files path") (auto simp: resolution_file_def resolution_at_def)
      then show ?thesis using kept False worked by (auto simp: fun_upd_idem)
    qed
    then show ?thesis
      using that [OF frame u, of hss'] path adv n len ok by (simp add: r)
  qed
qed

section \<open>Sequences of runs\<close>

text \<open>Any number of runs, each with its own clock, market and file system behaviour; some may fail.\<close>

inductive resolver_runs :: "string \<Rightarrow> (string \<Rightarrow> disk_file) \<Rightarrow> (string \<Rightarrow> disk_file) \<Rightarrow> bool" for name where
  no_run: "resolver_runs name files files"
| one_more: "resolver_runs name files files1 \<Longrightarrow>
    resolve_entry_artifact m i files1 name now = (r, files2) \<Longrightarrow> resolver_runs name files files2"

lemma runs_extend:
  assumes "resolver_runs name files files'" and "files name = Stored entry"
    and "validate_entry_schema entry = Inr ()" and "derive_resolution_path name = Inr path"
    and "resolution_file name entry hss (files path)"
  shows "\<exists>hss'. resolution_file name entry hss' (files' path) \<and> files' name = Stored entry \<and>
    list_all2 prefix hss hss'"
  using assms
proof (induction rule: resolver_runs.induct)
  case (no_run files)
  then show ?case by (auto simp: list_all2_same)
next
  case (one_more files files1 m i now r files2)
  then obtain hss1 where IH: "resolution_file name entry hss1 (files1 path)" "files1 name = Stored entry"
    "list_all2 prefix hss hss1" by blast
  show ?case
  proof (cases r)
    case (Inl e)
    then have "files2 = files1" using one_more.hyps(2) resolve_fails by simp
    then show ?thesis using IH by blast
  next
    case (Inr report)
    have start: "resolution_file name entry hss1 (files1 p)" if "derive_resolution_path name = Inr p" for p
      using IH(1) one_more.prems(3) that by simp
    show ?thesis
    proof (rule resolve_advances [OF IH(2) one_more.prems(2) start one_more.hyps(2) [unfolded Inr]])
      fix initial t contracts u hss2
      assume frame: "entry_frame name entry initial t contracts"
        and path: "derive_resolution_path name = Inr (rn_resolution_path report)"
        and files2: "files2 = files1(rn_resolution_path report := Stored (with_horizons initial entry hss2))"
        and adv: "advanced m (t + 4 * hour_micros) contracts u entry hss1 hss2"
        and len: "length hss1 = length (entry_rows entry)"
      have "rn_resolution_path report = path" using path one_more.prems(3) by simp
      then have "resolution_file name entry hss2 (files2 path)"
        using adv frame by (auto simp: files2 resolution_file_def resolution_at_def advanced_def)
      moreover have "files2 name = Stored entry"
        using derived_path_other [OF path] IH(2) by (simp add: files2)
      moreover have "list_all2 prefix hss1 hss2"
        using adv len by (auto simp: list_all2_conv_all_nth advanced_def grown_def)
      then have "list_all2 prefix hss hss2"
        using IH(3) list_all2_trans [of prefix prefix prefix hss hss1 hss2] prefix_order.trans by blast
      ultimately show ?thesis by blast
    qed
  qed
qed

end
