(* ===== verification/Forward_Accept.thy ===== *)
theory Forward_Accept
  imports Forward_Reach
begin

text \<open>
  Both modules accept a resolution that the resolver wrote: the resolver when it loads it, the
  validator when it reports on it.
\<close>

section \<open>The resolver loads its own file\<close>

lemma horizon_doc_simps [simp]:
  "is_dict (horizon_doc h r)" "check_keys horizon_keys message (horizon_doc h r) = Inr ()"
  "fld (horizon_doc h r) ''horizon'' = PStr (ho_name h)"
  "fld (horizon_doc h r) ''target_at'' = PStr (iso_text (ho_target h))"
  "fld (horizon_doc h r) ''return_pct'' = PReal (hr_return_pct r)"
  "field \<in> set numeric_horizon_fields \<Longrightarrow> number_value (fld (horizon_doc h r) field)"
  by (auto simp: horizon_doc_def check_keys_def horizon_keys_def numeric_horizon_fields_def)

lemma wf_rows: "wf_pv entry \<Longrightarrow> row \<in> set (entry_rows entry) \<Longrightarrow> wf_pv (fld row field)"
proof -
  assume "wf_pv entry" and row: "row \<in> set (entry_rows entry)"
  then have "wf_pv (fld entry ''candidates'')" by (simp add: wf_fld)
  then have "wf_pv row"
    using row by (cases "fld entry ''candidates''") (simp_all add: entry_rows_def rows_of_def list_all_iff)
  then show ?thesis by (rule wf_fld)
qed

lemma own_candidate_accepted:
  assumes "horizons_ok contracts hs" and "map ho_name contracts = horizon_names"
    and "py_eq (fld row ''symbol'') (fld row ''symbol'')"
    and "py_eq (fld row ''reference_price'') (fld row ''reference_price'')"
  shows "check_existing (filled row hs, filled row []) = Inr ()"
proof -
  have "check_horizon p = Inr ()" if p: "p \<in> set hs" for p
  proof -
    obtain h r where "h \<in> set contracts" and p: "p = (ho_name h, horizon_doc h r)"
      using assms(1) p unfolding horizons_ok_def by blast
    then have "ho_name h \<in> set horizon_names" unfolding assms(2) [symmetric] by simp
    then show ?thesis by (simp add: p check_horizon_def and_then_def)
  qed
  then have "check_all check_horizon hs = Inr ()" by (simp add: check_all_iff)
  then show ?thesis
    using assms(3,4) by (simp add: check_existing_def and_then_def items_def)
qed

lemma own_resolution_accepted:
  assumes frame: "entry_frame name entry initial t contracts"
    and wf: "wf_pv entry" and len: "length hss = length (entry_rows entry)"
    and ok: "list_all (horizons_ok contracts) hss"
  shows "validate_existing_resolution_state (with_horizons initial entry hss) name entry = Inr ()"
proof -
  note build = frame_dest(1) [OF frame] and names = frame_dest(5) [OF frame]
  have rows: "entry_rows entry \<noteq> []" by (rule build_initial_dest [OF build])
  have "py_eq (fld initial field) (fld initial field)"
    if "field \<in> set (butlast resolved_keys)" for field
  proof (rule py_eq_wf)
    have "wf_pv (fld initial ''reference_candle_at'')"
      using wf_rows [OF wf list.set_sel(1) [OF rows]] by (simp add: initial_reference [OF build])
    then show "wf_pv (fld initial field)"
      using that wf_fld [OF wf] initial_fields [OF build] by (auto simp: resolved_keys_def)
  qed
  moreover have "fld (with_horizons initial entry hss) field = fld initial field"
    if "field \<in> set (butlast resolved_keys)" for field
    using that by (intro with_horizons_dest(4) [OF build]) (auto simp: resolved_keys_def)
  ultimately have identity: "check_all (check_identity (with_horizons initial entry hss) initial) (butlast resolved_keys) = Inr ()"
    by (simp add: check_all_iff check_identity_def)
  have "check_existing (filled row hs, filled row []) = Inr ()"
    if "(row, hs) \<in> set (zip (entry_rows entry) hss)" for row hs
  proof (rule own_candidate_accepted [OF _ names])
    show "horizons_ok contracts hs" using ok set_zip_rightD [OF that] by (simp add: list_all_iff)
    show "py_eq (fld row ''symbol'') (fld row ''symbol'')"
      "py_eq (fld row ''reference_price'') (fld row ''reference_price'')"
      using wf_rows [OF wf set_zip_leftD [OF that]] by (simp_all add: py_eq_wf)
  qed
  moreover have "zip (map2 filled rows hss) (map (\<lambda>row. filled row []) rows)
      = map (\<lambda>(row, hs). (filled row hs, filled row [])) (zip rows hss)"
    if "length hss = length rows" for rows
    using that by (induction hss rows rule: list_induct2) auto
  ultimately have "check_all check_existing
      (zip (map2 filled (entry_rows entry) hss) (map (\<lambda>row. filled row []) (entry_rows entry))) = Inr ()"
    using len by (auto simp: check_all_iff)
  then show ?thesis
    using identity len
    by (simp add: validate_existing_resolution_state_def build and_then_def with_horizons_dest(1,3,5) [OF build]
        elements_def iterated_def rows_of_def)
qed

section \<open>A run with nothing due\<close>

lemma grown_settled: "grown m close contracts now row hs hs' \<Longrightarrow> due contracts now hs' = []"
proof -
  assume "grown m close contracts now row hs hs'"
  then obtain ps where hs': "hs' = hs @ ps" and new: "list_all2 (computed m close row) (due contracts now hs) ps"
    unfolding grown_def by blast
  have "ho_name h \<in> fst ` set hs'" if "h \<in> set contracts" "ho_target h \<le> now" for h
  proof (cases "ho_name h \<in> fst ` set hs")
    case False
    then have "h \<in> set (due contracts now hs)" using that by (simp add: due_def)
    then have "ho_name h \<in> set (map ho_name (due contracts now hs))" by simp
    then show ?thesis unfolding computed_names [OF new, symmetric] hs' by (auto simp: image_Un)
  qed (auto simp: hs' image_Un)
  then show ?thesis by (auto simp: due_def filter_empty_conv)
qed

lemma eligible_idle:
  "(\<forall>c \<in> set cs. unresolved contracts now c = []) \<Longrightarrow> eligible_from contracts now d cs = Inr d"
  by (induction cs) auto

lemma idle_run:
  assumes frame: "entry_frame name entry initial t contracts"
    and wf: "wf_pv entry" and len: "length hss = length (entry_rows entry)"
    and ok: "list_all (horizons_ok contracts) hss"
    and entry: "files name = Stored entry" and path: "derive_resolution_path name = Inr path"
    and stored: "files path = Stored (with_horizons initial entry hss)"
    and u: "in_utc now = Some u"
    and idle: "\<forall>i < length (entry_rows entry). due contracts u (hss ! i) = []"
  shows "resolve_entry_artifact m i files name now
    = (Inr \<lparr>rn_entry_path = name, rn_resolution_path = path, rn_changed = False, rn_added = 0\<rparr>, files)"
proof -
  note build = frame_dest(1) [OF frame]
  have "\<forall>c \<in> set (map2 filled (entry_rows entry) hss). unresolved contracts u c = []"
    using idle len by (auto simp: in_set_conv_nth)
  then have "get_eligible_unresolved_horizons (with_horizons initial entry hss) contracts now = Inr []"
    by (simp add: get_eligible_unresolved_horizons_def u with_horizons_dest(3) [OF build] rows_of_def eligible_idle)
  then have "resolution_step m files name now = Inr (path, False, with_horizons initial entry hss, 0)"
    by (simp add: resolution_step_def entry and_then_def build path stored
        load_or_initialize_resolution_state_def own_resolution_accepted [OF frame wf len ok]
        frame_dest(2,3) [OF frame])
  then show ?thesis by (simp add: resolve_entry_artifact_def stored)
qed

section \<open>The validator reports on the resolution\<close>

text \<open>The vote of a horizon by the sign of its return, for the two trends the validator allows.\<close>

definition direction_vote :: "string \<Rightarrow> rat \<Rightarrow> vote" where
  "direction_vote trend pct =
    (if pct = 0 then Flat else if (trend = ''UPTREND'') = (0 < pct) then Support else Oppose)"

lemma vote_horizon_allowed:
  "trend \<in> set allowed_trends \<Longrightarrow> vote_horizon trend pct = Inr (direction_vote trend pct)"
  by (auto simp: vote_horizon_def direction_vote_def allowed_trends_def)

definition return_of :: "(string \<times> pv) list \<Rightarrow> string \<Rightarrow> rat" where
  "return_of hs n = the (num_of (fld (fld (PDict hs) n) ''return_pct''))"

definition votes_of :: "pv \<Rightarrow> (string \<times> pv) list \<Rightarrow> (string \<times> vote) list" where
  "votes_of row hs = map (\<lambda>n. (n, direction_vote (the_str (fld row ''trend'')) (return_of hs n)))
    (filter (\<lambda>n. n \<in> fst ` set hs) horizon_names)"

definition report_of :: "pv \<Rightarrow> (string \<times> pv) list \<Rightarrow> candidate_report" where
  "report_of row hs = \<lparr>cd_symbol = fld row ''symbol'', cd_reference_price = fld row ''reference_price'',
     cd_trend = the_str (fld row ''trend''), cd_present = filter (\<lambda>n. n \<in> fst ` set hs) horizon_names,
     cd_missing = filter (\<lambda>n. n \<notin> fst ` set hs) horizon_names, cd_votes = votes_of row hs,
     cd_status = candidate_status (votes_of row hs),
     cd_facts = map (\<lambda>n. (n, horizon_facts (PDict hs) n)) (filter (\<lambda>n. n \<in> fst ` set hs) horizon_names)\<rparr>"

lemma collect_all: "(\<forall>x \<in> set xs. f x = Inr (g x)) \<Longrightarrow> collect f xs = Inr (map g xs)"
  by (induction xs) (simp_all add: and_then_def)

lemma vote_on_own:
  assumes ok: "horizons_ok contracts hs" and distinct: "distinct (map ho_name contracts)"
    and name: "name \<in> fst ` set hs" and trend: "trend \<in> set allowed_trends"
  shows "vote_on (map (\<lambda>h. (ho_name h, iso_text (ho_target h))) contracts) trend (PDict hs) name
    = Inr (name, direction_vote trend (return_of hs name))"
proof -
  obtain v where v: "(name, v) \<in> set hs" using name by auto
  then obtain h r where h: "h \<in> set contracts" "name = ho_name h" "v = horizon_doc h r"
    using ok unfolding horizons_ok_def by blast
  have "map_of hs name = Some v" using ok v by (simp add: horizons_ok_def)
  then have doc: "fld (PDict hs) name = horizon_doc h r" by (simp add: fld_def items_def h(3))
  have "(name, iso_text (ho_target h)) \<in> set (map (\<lambda>h. (ho_name h, iso_text (ho_target h))) contracts)"
    using h by auto
  then have "map_of (map (\<lambda>h. (ho_name h, iso_text (ho_target h))) contracts) name = Some (iso_text (ho_target h))"
    using distinct by (intro map_of_is_SomeI) (simp_all add: comp_def)
  then show ?thesis
    unfolding vote_on_def Let_def return_of_def doc
    by (simp add: vote_horizon_allowed [OF trend] and_then_def)
qed

lemma report_own:
  assumes "horizons_ok contracts hs" "distinct (map ho_name contracts)" "row_ok row"
  shows "build_candidate_report (map (\<lambda>h. (ho_name h, iso_text (ho_target h))) contracts) (filled row hs, row)
    = Inr (report_of row hs)"
proof -
  have trend: "the_str (fld row ''trend'') \<in> set allowed_trends"
    using assms(3) by (cases "fld row ''trend''") (simp_all add: row_ok_def is_text_in_def)
  have "collect (vote_on (map (\<lambda>h. (ho_name h, iso_text (ho_target h))) contracts) (the_str (fld row ''trend'')) (PDict hs))
      (filter (\<lambda>n. n \<in> fst ` set hs) horizon_names) = Inr (votes_of row hs)"
    unfolding votes_of_def using vote_on_own [OF assms(1,2) _ trend] by (intro collect_all) simp
  moreover have "has_key (PDict hs) = (\<lambda>n. n \<in> fst ` set hs)" by (simp add: fun_eq_iff)
  ultimately show ?thesis
    by (simp add: build_candidate_report_def report_of_def Let_def and_then_def)
qed

lemma own_horizon_valid:
  assumes "horizons_ok contracts hs" "map ho_name contracts = horizon_names" "number_value (fld row ''reference_price'')"
  shows "validate_resolved_candidate (filled row hs) = Inr ()"
proof -
  have "validate_resolved_horizon p = Inr ()" if p: "p \<in> set hs" for p
  proof -
    obtain h r where "h \<in> set contracts" and p: "p = (ho_name h, horizon_doc h r)"
      using assms(1) p unfolding horizons_ok_def by blast
    then have "ho_name h \<in> set horizon_names" unfolding assms(2) [symmetric] by simp
    then show ?thesis
      by (simp add: p validate_resolved_horizon_def and_then_def require_object_def require_value_def
          check_all_iff require_number_iff)
  qed
  moreover have "require_number ''reference_price'' (fld row ''reference_price'') = Inr ()"
    using assms(3) by (simp add: require_number_iff)
  ultimately show ?thesis
    by (simp add: validate_resolved_candidate_def and_then_def require_object_def check_all_iff items_def)
qed

lemma hashed_reference: "normalize_reference_candle_utc v = Inr t \<Longrightarrow> \<exists>s. v = PStr s"
  by (cases v) (simp_all add: normalize_reference_candle_utc_def)

lemma zip_filled:
  "length hss = length rs \<Longrightarrow> zip (map2 filled rs hss) rs = map (\<lambda>(row, hs). (filled row hs, row)) (zip rs hss)"
  by (induction hss rs rule: list_induct2) auto

lemma entry_list:
  "validate_entry_schema entry = Inr () \<Longrightarrow> fld entry ''candidates'' = PList (entry_rows entry)"
  using validate_entry_dest(4) [of entry]
  by (cases "fld entry ''candidates''") (simp_all add: entry_rows_def rows_of_def)

lemma own_resolution_valid:
  assumes frame: "entry_frame name entry initial t contracts"
    and valid: "validate_entry_schema entry = Inr ()" and wf: "wf_pv entry"
    and len: "length hss = length (entry_rows entry)" and ok: "list_all (horizons_ok contracts) hss"
  shows "validate_resolved_schema (with_horizons initial entry hss) = Inr ()"
    and "validate_resolved_entry_identity (with_horizons initial entry hss) entry = Inr ()"
proof -
  note build = frame_dest(1) [OF frame] and names = frame_dest(5) [OF frame]
  note valid = validate_entry_dest [OF valid] and fields = initial_fields [OF build]
  have field: "fld (with_horizons initial entry hss) f = fld initial f" if "f \<noteq> ''candidates''" for f
    by (rule with_horizons_dest(4) [OF build that])
  have rows: "row_ok row" if "row \<in> set (entry_rows entry)" for row using valid(1) that by blast
  have symbols: "map (\<lambda>c. fld c ''symbol'') (map2 filled (entry_rows entry) hss) = map (\<lambda>c. fld c ''symbol'') (entry_rows entry)"
    using len by (intro nth_equalityI) simp_all
  have unique: "reject_duplicate_symbols (map (\<lambda>c. fld c ''symbol'') (entry_rows entry)) = Inr ()"
    using assms(2) unfolding validate_entry_schema_def unit_and_then Let_def
    unfolding inr_convs unit_and_then entry_rows_def by simp
  have "validate_resolved_candidate (filled row hs) = Inr ()" if "(row, hs) \<in> set (zip (entry_rows entry) hss)" for row hs
    using ok set_zip_rightD [OF that] rows [OF set_zip_leftD [OF that]]
    by (intro own_horizon_valid [OF _ names]) (simp_all add: list_all_iff row_ok_def)
  then have "check_all validate_resolved_candidate (map2 filled (entry_rows entry) hss) = Inr ()"
    by (auto simp: check_all_iff)
  moreover have "filled_list (PList (map2 filled (entry_rows entry) hss))"
    using valid(4) len by (cases "entry_rows entry"; cases hss) (simp_all add: filled_list_def)
  ultimately show "validate_resolved_schema (with_horizons initial entry hss) = Inr ()"
    using with_horizons_dest(1,2,3) [OF build] valid(6,7) fields
    by (simp add: validate_resolved_schema_def and_then_def require_object_def require_value_def field rows_of_def
        symbols unique del: map_map)
  have "identity_pair (filled row hs, row) = Inr ()" if "row \<in> set (entry_rows entry)" for row hs
    using wf_rows [OF wf that] by (simp add: identity_pair_def and_then_def require_value_def py_eq_wf)
  then have "check_all identity_pair (zip (map2 filled (entry_rows entry) hss) (entry_rows entry)) = Inr ()"
    by (auto simp: zip_filled [OF len] check_all_iff dest: set_zip_leftD)
  moreover note entry_list [OF assms(2)]
  moreover have "py_eq (fld initial ''reference_candle_at'') (fld initial ''reference_candle_at'')"
    using hashed_reference [OF frame_dest(2) [OF frame]] by auto
  ultimately show "validate_resolved_entry_identity (with_horizons initial entry hss) entry = Inr ()"
    using len wf_fld [OF wf] with_horizons_dest(3) [OF build] initial_reference [OF build] fields
    by (simp add: validate_resolved_entry_identity_def and_then_def require_value_def field rows_of_def py_eq_wf)
qed

lemma own_resolution_reported:
  assumes frame: "entry_frame name entry initial t contracts"
    and valid: "validate_entry_schema entry = Inr ()" and wf: "wf_pv entry"
    and len: "length hss = length (entry_rows entry)" and ok: "list_all (horizons_ok contracts) hss"
    and entry: "files name = Stored entry" and stored: "files path = Stored (with_horizons initial entry hss)"
  shows "validate_resolved_artifact files path =
    (let reports = map2 report_of (entry_rows entry) hss in
     Inr \<lparr>vr_resolved = path, vr_entry = name, vr_complete = (count_status Pending reports = 0),
       vr_total = length (entry_rows entry), vr_pending = count_status Pending reports,
       vr_valid = count_status Valid reports, vr_invalid = count_status Invalid reports,
       vr_inconclusive = count_status Inconclusive reports, vr_candidates = reports\<rparr>)"
proof -
  note build = frame_dest(1) [OF frame]
  let ?targets = "map (\<lambda>h. (ho_name h, iso_text (ho_target h))) contracts"
  have collected: "collect (build_candidate_report ?targets) (map (\<lambda>(row, hs). (filled row hs, row)) xs)
      = Inr (map (\<lambda>(row, hs). report_of row hs) xs)"
    if "\<forall>(row, hs) \<in> set xs. horizons_ok contracts hs \<and> row_ok row" for xs
    using that by (induction xs) (auto simp: and_then_def report_own [OF _ frame_dest(4) [OF frame]])
  have "\<forall>(row, hs) \<in> set (zip (entry_rows entry) hss). horizons_ok contracts hs \<and> row_ok row"
    using ok validate_entry_dest(1) [OF valid] by (auto simp: list_all_iff dest: set_zip_leftD set_zip_rightD)
  then have "collect (build_candidate_report ?targets) (zip (map2 filled (entry_rows entry) hss) (entry_rows entry))
      = Inr (map2 report_of (entry_rows entry) hss)"
    by (simp only: zip_filled [OF len] collected)
  moreover have "expected_target_at (fld initial ''reference_candle_at'') = Inr ?targets"
    by (simp add: expected_target_at_def validator_reference_def frame_dest(2,3) [OF frame] and_then_def)
  ultimately show ?thesis
    using len own_resolution_valid [OF frame valid wf len ok] valid with_horizons_dest(3,4) [OF build]
      initial_fields(3) [OF build]
    by (simp add: validate_resolved_artifact_def load_json_def stored entry and_then_def Let_def rows_of_def entry_list [OF valid])
qed

end
