(* ===== verification/Forward_Sample.thy ===== *)
theory Forward_Sample
  imports Forward_Accept
begin

text \<open>
  An entry with two candidates, a market with one closed candle after its reference close, and the
  resolution that a run at the first target writes.
\<close>

section \<open>A sample entry\<close>

definition sample_row :: "string \<Rightarrow> string \<Rightarrow> pv \<Rightarrow> pv" where
  "sample_row symbol trend price = PDict (
     [(''symbol'', PStr symbol), (''reference_price'', price),
      (''reference_candle_at'', PStr ''2025-01-01T00:00:00+00:00'')] @
     map (\<lambda>k. (k, PNone)) [''python_score'', ''validation_adjustment'', ''final_rank_score''] @
     [(''trend'', PStr trend)] @
     map (\<lambda>k. (k, PNone)) [''bos'', ''choch'', ''volume_ratio'', ''volume_class'', ''oi_change_pct'',
       ''oi_class'', ''participation''] @
     [(''ai_validation'', PDict (map (\<lambda>k. (k, PNone)) ai_validation_keys))])"

definition sample_name :: string where
  "sample_name = ''outcome_entry_v4_'' @ replicate 32 CHR ''a'' @ ''.json''"

definition sample_path :: string where
  "sample_path = ''outcome_resolved_v4_'' @ replicate 32 CHR ''a'' @ ''.json''"

definition sample_entry :: pv where
  "sample_entry = PDict [(''snapshot_type'', PStr ''v4_outcome_tracker_entry''), (''schema_version'', PInt 1),
     (''captured_at'', PStr ''2025-01-01T04:01:00''),
     (''candidates'', PList [sample_row ''BTC/USDT'' ''UPTREND'' (PReal 100),
       sample_row ''ETH/USDT'' ''DOWNTREND'' (PReal 100)])]"

definition sample_files :: "string \<Rightarrow> disk_file" where
  "sample_files = (\<lambda>_. Absent)(sample_name := Stored sample_entry)"

definition sample_start :: int where
  "sample_start = 739251 * day_micros"

definition sample_candle :: candle where
  "sample_candle = \<lparr>ca_timestamp = sample_start + 4 * hour_micros, ca_high = 105, ca_low = 99, ca_close = 102\<rparr>"

definition sample_market :: market where
  "sample_market = \<lparr>quotes = (\<lambda>_. Some [sample_candle]), rounded = (\<lambda>x. x), text_number = (\<lambda>_. None)\<rparr>"

definition sample_now :: "int \<times> int option" where
  "sample_now = (sample_start + 8 * hour_micros, None)"

lemma sample_reference:
  "normalize_reference_candle_utc (PStr ''2025-01-01T00:00:00+00:00'') = Inr sample_start"
  by (simp add: normalize_reference_candle_utc_def from_isoformat_def Let_def take_clock_def take_number_def
      take_char_def read_offset_def number_def valid_moment_def days_in_month_def instant_def
      days_before_year_def days_before_month_def in_utc_def in_range_def day_micros_def hour_micros_def
      is_digit_def take_fraction_def sample_start_def)

lemma sample_row_fields [simp]:
  "fld (sample_row s t p) ''symbol'' = PStr s" "fld (sample_row s t p) ''reference_price'' = p"
  "fld (sample_row s t p) ''reference_candle_at'' = PStr ''2025-01-01T00:00:00+00:00''"
  "fld (sample_row s t p) ''trend'' = PStr t"
  "check_keys entry_candidate_keys message (sample_row s t p) = Inr ()" "is_dict (sample_row s t p)"
  "check_keys ai_validation_keys message (fld (sample_row s t p) ''ai_validation'') = Inr ()"
  "is_dict (fld (sample_row s t p) ''ai_validation'')"
  by (simp_all add: sample_row_def check_keys_def entry_candidate_keys_def ai_validation_keys_def)

lemma text_hashable [simp]: "\<not> unhashable (PStr s)"
  by (simp add: unhashable_def is_list_def is_dict_def)

lemma sample_row_ok: "t \<in> set allowed_trends \<Longrightarrow> number_value p \<Longrightarrow> row_ok (sample_row s t p)"
  by (simp add: row_ok_def is_text_in_def)

lemma sample_entry_fields [simp]:
  "check_keys entry_keys message sample_entry = Inr ()" "is_dict sample_entry"
  "fld sample_entry ''snapshot_type'' = PStr ''v4_outcome_tracker_entry''"
  "fld sample_entry ''schema_version'' = PInt 1"
  "fld sample_entry ''candidates'' = PList [sample_row ''BTC/USDT'' ''UPTREND'' (PReal 100),
     sample_row ''ETH/USDT'' ''DOWNTREND'' (PReal 100)]"
  by (simp_all add: sample_entry_def check_keys_def entry_keys_def)

lemma sample_valid: "validate_entry_schema sample_entry = Inr ()"
proof -
  have "validate_entry_candidate (sample_row s t (PReal 100)) = Inr ()" if "t \<in> set allowed_trends" for s t
    using that by (simp add: validate_entry_candidate_iff sample_row_ok)
  then show ?thesis
    by (simp add: validate_entry_schema_def and_then_def require_object_def require_value_def
        filled_list_def rows_of_def allowed_trends_def
        reject_duplicate_symbols_def hashed_def py_member_def validator_reference_def sample_reference)
qed

lemma sample_wf: "wf_pv sample_entry"
  by (simp add: sample_entry_def sample_row_def ai_validation_keys_def)

lemma sample_path_derived: "derive_resolution_path sample_name = Inr sample_path"
  by (simp add: derive_resolution_path_def sample_name_def sample_path_def entry_prefix_def)

lemma sample_files_simps [simp]:
  "sample_files sample_name = Stored sample_entry" "sample_files sample_path = Absent"
  by (simp_all add: sample_files_def sample_name_def sample_path_def)

definition sample_initial :: pv where
  "sample_initial = PDict [
     (''snapshot_type'', PStr ''v4_forward_outcome_resolution''), (''schema_version'', PInt 1),
     (''entry_artifact'', PStr sample_name), (''entry_snapshot_type'', PStr ''v4_outcome_tracker_entry''),
     (''entry_schema_version'', PInt 1), (''entry_captured_at'', fld sample_entry ''captured_at''),
     (''reference_candle_at'', PStr ''2025-01-01T00:00:00+00:00''),
     (''candidates'', PList (map (\<lambda>row. filled row []) (entry_rows sample_entry)))]"

definition sample_contracts :: "horizon list" where
  "sample_contracts = [
     \<lparr>ho_name = ''h4'', ho_target = sample_start + 8 * hour_micros, ho_candles = 1\<rparr>,
     \<lparr>ho_name = ''h8'', ho_target = sample_start + 12 * hour_micros, ho_candles = 2\<rparr>,
     \<lparr>ho_name = ''h12'', ho_target = sample_start + 16 * hour_micros, ho_candles = 3\<rparr>]"

lemma sample_rows: "entry_rows sample_entry
    = [sample_row ''BTC/USDT'' ''UPTREND'' (PReal 100), sample_row ''ETH/USDT'' ''DOWNTREND'' (PReal 100)]"
  by (simp add: entry_rows_def rows_of_def)

lemma sample_built: "build_initial_resolution_state sample_name sample_entry = Inr sample_initial"
  by (simp add: build_initial_resolution_state_def and_then_def filled_list_def rows_of_def hashed_def
      check_entry_row_def py_member_def sample_reference sample_initial_def initial_candidate_filled sample_rows)

lemma sample_frame: "entry_frame sample_name sample_entry sample_initial sample_start sample_contracts"
  by (simp add: entry_frame_def sample_built sample_initial_def sample_reference contracts_iff
      sample_contracts_def in_range_def sample_start_def day_micros_def hour_micros_def)

definition sample_result :: horizon_result where
  "sample_result = \<lparr>hr_return_price = 102, hr_return_pct = 2, hr_mfe_price = 105, hr_mfe_pct = 5,
     hr_mae_price = 99, hr_mae_pct = -1\<rparr>"

definition sample_horizons :: "(string \<times> pv) list" where
  "sample_horizons = [(''h4'', horizon_doc (hd sample_contracts) sample_result)]"

definition sample_resolved :: pv where
  "sample_resolved = with_horizons sample_initial sample_entry [sample_horizons, sample_horizons]"

lemma sample_window: "select_exact_closed_candle_window [sample_candle] (sample_start + 4 * hour_micros)
    (ho_target (hd sample_contracts)) = Inr [sample_candle]"
  by (simp add: select_window_iff sample_contracts_def expected_opens_eq sample_candle_def hour_micros_def)

lemma sample_calculated: "calculate_horizon_result sample_market [sample_candle] (PReal 100) = Inr sample_result"
  by (simp add: calculate_horizon_result_def and_then_def to_float_def sample_candle_def sample_market_def
      change_pct_def sample_result_def)

lemma sample_due: "due sample_contracts (sample_start + 8 * hour_micros) [] = [hd sample_contracts]"
  by (simp add: due_def sample_contracts_def hour_micros_def)

lemma sample_resolution:
  "resolve_entry_artifact sample_market good_io sample_files sample_name sample_now
    = (Inr \<lparr>rn_entry_path = sample_name, rn_resolution_path = sample_path, rn_changed = True, rn_added = 2\<rparr>,
       sample_files(sample_path := Stored sample_resolved))"
proof -
  have name: "ho_name (hd sample_contracts) = ''h4''" "ho_candles (hd sample_contracts) = 1"
    by (simp_all add: sample_contracts_def)
  have "resolve_candidate sample_market (sample_start + 4 * hour_micros)
      [(PStr ''BTC/USDT'', [hd sample_contracts]), (PStr ''ETH/USDT'', [hd sample_contracts])]
      (filled (sample_row s t (PReal 100)) []) = Inr (filled (sample_row s t (PReal 100)) sample_horizons, 1)"
    if "s = ''BTC/USDT'' \<or> s = ''ETH/USDT''" for s t
    using that sample_window sample_calculated
    by (auto simp: resolve_candidate_def and_then_def sample_market_def name merge_filled sample_horizons_def)
  moreover have "get_eligible_unresolved_horizons sample_initial sample_contracts sample_now
    = Inr [(PStr ''BTC/USDT'', [hd sample_contracts]), (PStr ''ETH/USDT'', [hd sample_contracts])]"
    by (simp add: get_eligible_unresolved_horizons_def sample_now_def in_utc_def sample_initial_def rows_of_def
        sample_rows sample_due)
  moreover have "load_or_initialize_resolution_state sample_files sample_path sample_name sample_entry = Inr sample_initial"
    by (simp add: load_or_initialize_resolution_state_def sample_built)
  moreover have "rows_of (fld sample_initial ''candidates'') = map (\<lambda>row. filled row []) (entry_rows sample_entry)"
    by (simp add: sample_initial_def rows_of_def)
  moreover have "validate_existing_resolution_state sample_initial sample_name sample_entry = Inr ()"
    using own_resolution_accepted [OF sample_frame sample_wf, of "replicate (length (entry_rows sample_entry)) []"]
      with_horizons_dest(6) [OF sample_built]
    by (simp add: horizons_ok_def sample_rows)
  ultimately have "resolution_step sample_market sample_files sample_name sample_now
    = Inr (sample_path, True, sample_resolved, 2)"
    using frame_dest(2,3) [OF sample_frame]
    by (simp add: resolution_step_def and_then_def sample_built sample_path_derived sample_rows
        sample_resolved_def with_horizons_def)
  then show ?thesis
    by (simp add: resolve_entry_artifact_def write_resolution_state_atomic_def good_io_def)
qed

end
