(* ===== verification/Forward_Props.thy ===== *)
theory Forward_Props
  imports Forward_Sample "HOL-Library.While_Combinator"
begin

text \<open>
  What the forward test does to its files and what it reports, over any number of runs.
\<close>

section \<open>The loop over the candles\<close>

text \<open>The loop as it is written: a cursor and the list of the opens found.\<close>

definition opens_loop :: "int \<Rightarrow> int \<Rightarrow> (int \<times> int list) option" where
  "opens_loop close target =
    while_option (\<lambda>(cursor, opens). cursor + 4 * hour_micros \<le> target)
      (\<lambda>(cursor, opens). (cursor + 4 * hour_micros, opens @ [cursor])) (close, [])"

lemma opens_loop_from:
  "\<exists>cursor. while_option (\<lambda>(cursor, opens). cursor + 4 * hour_micros \<le> target)
      (\<lambda>(cursor, opens). (cursor + 4 * hour_micros, opens @ [cursor])) (close, acc)
    = Some (cursor, acc @ expected_opens close target) \<and> target < cursor + 4 * hour_micros"
proof (induction close target arbitrary: acc rule: expected_opens.induct)
  case (1 close target)
  show ?case
  proof (cases "close + 4 * hour_micros \<le> target")
    case True
    then show ?thesis
      using "1.IH" [OF True, of "acc @ [close]"]
      by (subst while_option_unfold) (simp add: expected_opens.simps [of close target])
  next
    case False
    then show ?thesis
      by (subst while_option_unfold) (simp add: expected_opens.simps [of close target])
  qed
qed

text \<open>C29. The loop that collects the opens of the candles between the reference close and the target
  of a horizon ends for every pair of moments, with the candles a whole number of four hours after
  the close that have closed by the target, in order, and no other.\<close>

theorem opens_loop_returns:
  "\<exists>cursor. opens_loop close target =
    Some (cursor, map (\<lambda>k. close + int k * (4 * hour_micros))
      [0..<nat ((target - close) div (4 * hour_micros))]) \<and> target < cursor + 4 * hour_micros"
  using opens_loop_from [of target close "[]"] by (simp add: opens_loop_def expected_opens_eq)

text \<open>The windows of the three horizons are one, two and three candles that follow each other from
  the reference close, so a window that is selected never fails the comparison with the expected
  number of candles.\<close>

theorem horizon_windows:
  assumes "get_horizon_contracts t = Inr contracts" and "h \<in> set contracts"
    and "select_exact_closed_candle_window df (t + 4 * hour_micros) (ho_target h) = Inr w"
  shows "map ca_timestamp w
      = take (ho_candles h) [t + 4 * hour_micros, t + 8 * hour_micros, t + 12 * hour_micros] \<and>
    length w = ho_candles h \<and> set w \<subseteq> set df"
proof -
  have w: "map ca_timestamp w = expected_opens (t + 4 * hour_micros) (ho_target h)" "set w \<subseteq> set df"
    using assms(3) by (auto simp: select_window_iff)
  have "expected_opens (t + 4 * hour_micros) (ho_target h)
      = take (ho_candles h) [t + 4 * hour_micros, t + 8 * hour_micros, t + 12 * hour_micros]"
    using assms(1,2) by (auto simp: contracts_iff expected_opens_eq hour_micros_def numeral_2_eq_2 numeral_3_eq_3)
  moreover have "length w = ho_candles h"
    using w(1) horizon_window_length [OF assms(1,2)] by (metis length_map)
  ultimately show ?thesis using w by simp
qed

theorem horizon_windows_witness:
  "map ca_timestamp [sample_candle] = [sample_start + 4 * hour_micros]"
  using horizon_windows [OF frame_dest(3) [OF sample_frame], of "hd sample_contracts" "[sample_candle]" "[sample_candle]"]
    sample_window by (simp add: sample_contracts_def)

section \<open>Prices and votes\<close>

text \<open>What the results rely on of float arithmetic: rounding is monotone and exact on 0 and 1.\<close>

definition float_rounding :: "(rat \<Rightarrow> rat) \<Rightarrow> bool" where
  "float_rounding rd \<longleftrightarrow> (\<forall>x y. x \<le> y \<longrightarrow> rd x \<le> rd y) \<and> rd 0 = 0 \<and> rd 1 = 1"

lemma change_mono:
  assumes "float_rounding (rounded m)" and "0 < p" and "a \<le> b"
  shows "change_pct m a p \<le> change_pct m b p"
proof -
  have mono: "rounded m x \<le> rounded m y" if "x \<le> y" for x y
    using assms(1) that by (simp add: float_rounding_def)
  have "a / p \<le> b / p" using assms(2,3) by (simp add: divide_right_mono)
  then have "rounded m (a / p) - 1 \<le> rounded m (b / p) - 1" using mono by simp
  then have "rounded m (rounded m (a / p) - 1) * 100 \<le> rounded m (rounded m (b / p) - 1) * 100"
    using mono by simp
  then show ?thesis unfolding change_pct_def by (rule mono)
qed

lemma change_none:
  assumes "float_rounding (rounded m)" and "0 < p"
  shows "change_pct m p p = 0"
  using assms by (simp add: change_pct_def float_rounding_def)

lemma calculate_dest:
  assumes "calculate_horizon_result m w price = Inr r" and "to_float m price = Inr p"
  shows "w \<noteq> [] \<and> 0 < p \<and> hr_return_price r = ca_close (last w) \<and>
    hr_return_pct r = change_pct m (hr_return_price r) p \<and>
    hr_mfe_price r = foldr max (map ca_high (tl w)) (ca_high (hd w)) \<and>
    hr_mfe_pct r = change_pct m (hr_mfe_price r) p \<and>
    hr_mae_price r = foldr min (map ca_low (tl w)) (ca_low (hd w)) \<and>
    hr_mae_pct r = change_pct m (hr_mae_price r) p"
  using assms unfolding calculate_horizon_result_def
  by (auto simp: and_then_def Let_def split: if_splits)

lemma foldr_bounds:
  "(x :: rat) \<in> insert y (set xs) \<Longrightarrow> foldr min xs y \<le> x \<and> x \<le> foldr max xs y"
  by (induction xs) auto

lemma last_in_window: "w \<noteq> [] \<Longrightarrow> f (last w) \<in> insert (f (hd w)) (set (map f (tl w)))"
  by (cases w) auto

text \<open>When every candle closes between its low and its high, the adverse excursion of a horizon
  is at most its return and the favourable excursion at least, as prices and as percentages.\<close>

theorem excursions_enclose_return:
  assumes "calculate_horizon_result m w price = Inr r" and "float_rounding (rounded m)"
    and "list_all (\<lambda>c. ca_low c \<le> ca_close c \<and> ca_close c \<le> ca_high c) w"
  shows "hr_mae_price r \<le> hr_return_price r \<and> hr_return_price r \<le> hr_mfe_price r \<and>
    hr_mae_pct r \<le> hr_return_pct r \<and> hr_return_pct r \<le> hr_mfe_pct r"
proof -
  obtain p where p: "to_float m price = Inr p"
    using assms(1) unfolding calculate_horizon_result_def by (auto simp: and_then_iff split: if_splits)
  note r = calculate_dest [OF assms(1) p]
  have last: "ca_low (last w) \<le> ca_close (last w) \<and> ca_close (last w) \<le> ca_high (last w)"
    using assms(3) r by (simp add: list_all_iff)
  have "hr_mae_price r \<le> ca_low (last w)" "ca_high (last w) \<le> hr_mfe_price r"
    using r foldr_bounds [OF last_in_window, of w] by simp_all
  then have "hr_mae_price r \<le> hr_return_price r" "hr_return_price r \<le> hr_mfe_price r"
    using last r by auto
  then show ?thesis using r change_mono [OF assms(2)] by simp
qed

theorem excursions_enclose_return_witness:
  "hr_mae_pct sample_result \<le> 2 \<and> 2 \<le> hr_mfe_pct sample_result"
  using excursions_enclose_return [OF sample_calculated]
  by (simp add: float_rounding_def sample_market_def sample_candle_def sample_result_def)

text \<open>C28. A vote for a candidate means that the price of the horizon moved with the trend, a vote
  against it that the price moved against the trend; rounding can lose a move but never turn it.\<close>

theorem votes_follow_price:
  assumes "calculate_horizon_result m w price = Inr r" and "to_float m price = Inr p"
    and "float_rounding (rounded m)" and "vote_horizon trend (hr_return_pct r) = Inr v"
  shows "v = Flat \<and> hr_return_pct r = 0
    \<or> v = (if trend = ''UPTREND'' then Support else Oppose) \<and> p < ca_close (last w)
    \<or> v = (if trend = ''DOWNTREND'' then Support else Oppose) \<and> ca_close (last w) < p"
proof -
  note r = calculate_dest [OF assms(1,2)]
  then have pos: "0 < p" by simp
  have "p < hr_return_price r" if "0 < hr_return_pct r"
    using that change_mono [OF assms(3) pos, of "hr_return_price r" p] change_none [OF assms(3) pos] r
    by (metis linorder_not_le)
  moreover have "hr_return_price r < p" if "hr_return_pct r < 0"
    using that change_mono [OF assms(3) pos, of p "hr_return_price r"] change_none [OF assms(3) pos] r
    by (metis linorder_not_le)
  ultimately show ?thesis
    using assms(4) r by (auto simp: vote_horizon_def split: if_splits)
qed

theorem votes_follow_price_witness:
  "vote_horizon ''UPTREND'' (hr_return_pct sample_result) = Inr Support \<and> 100 < ca_close sample_candle"
  using votes_follow_price [OF sample_calculated, of 100 "''UPTREND''" Support]
  by (simp add: float_rounding_def sample_market_def sample_result_def vote_horizon_def to_float_def)

section \<open>Runs on one entry\<close>

text \<open>An entry the validator accepts, and no resolution for it yet.\<close>

definition fresh_entry :: "(string \<Rightarrow> disk_file) \<Rightarrow> string \<Rightarrow> pv \<Rightarrow> string \<Rightarrow> bool" where
  "fresh_entry files name entry path = (files name = Stored entry \<and> wf_pv entry \<and>
     validate_entry_schema entry = Inr () \<and> derive_resolution_path name = Inr path \<and> files path = Absent)"

lemma fresh_dest:
  assumes "fresh_entry files name entry path"
  shows "files name = Stored entry" "wf_pv entry" "validate_entry_schema entry = Inr ()"
    "derive_resolution_path name = Inr path"
    "resolution_file name entry (replicate (length (entry_rows entry)) []) (files path)"
  using assms by (simp_all add: fresh_entry_def resolution_file_def)

lemma fresh_runs:
  assumes "fresh_entry files name entry path" and "resolver_runs name files files1"
  obtains hss where "resolution_file name entry hss (files1 path)" "files1 name = Stored entry"
  using runs_extend [OF assms(2) fresh_dest(1,3,4,5) [OF assms(1)]] by blast

text \<open>What a run that succeeds leaves, after any number of runs.\<close>

lemma fresh_resolved:
  assumes fresh: "fresh_entry files name entry path" and runs: "resolver_runs name files files1"
    and run: "resolve_entry_artifact m i files1 name now = (Inr r, files2)"
  obtains initial t contracts u hss hss' where "entry_frame name entry initial t contracts"
    "in_utc now = Some u" "rn_resolution_path r = path"
    "files2 = files1(path := Stored (with_horizons initial entry hss'))"
    "advanced m (t + 4 * hour_micros) contracts u entry hss hss'"
    "r = \<lparr>rn_entry_path = name, rn_resolution_path = path, rn_changed = 0 < rn_added r,
      rn_added = sum_list (map (\<lambda>hs. length (due contracts u hs)) hss)\<rparr>"
    "length hss = length (entry_rows entry)" "list_all (horizons_ok contracts) hss"
    "files1 name = Stored entry" "resolution_file name entry hss (files1 path)"
proof (rule fresh_runs [OF fresh runs])
  fix hss
  assume hss: "resolution_file name entry hss (files1 path)" and entry: "files1 name = Stored entry"
  have start: "resolution_file name entry hss (files1 p)" if "derive_resolution_path name = Inr p" for p
    using hss fresh_dest(4) [OF fresh] that by simp
  show ?thesis
  proof (rule resolve_advances [OF entry fresh_dest(3) [OF fresh] start run])
    fix initial t contracts u hss'
    assume *: "entry_frame name entry initial t contracts" "in_utc now = Some u"
      "derive_resolution_path name = Inr (rn_resolution_path r)"
      "files2 = files1(rn_resolution_path r := Stored (with_horizons initial entry hss'))"
      "advanced m (t + 4 * hour_micros) contracts u entry hss hss'"
      "r = \<lparr>rn_entry_path = name, rn_resolution_path = rn_resolution_path r, rn_changed = 0 < rn_added r,
        rn_added = sum_list (map (\<lambda>hs. length (due contracts u hs)) hss)\<rparr>"
      "length hss = length (entry_rows entry)" "list_all (horizons_ok contracts) hss"
    have "rn_resolution_path r = path" using *(3) fresh_dest(4) [OF fresh] by simp
    then show ?thesis
      using that [OF *(1,2) _ _ *(5) _ *(7,8) entry hss] * by (simp only:)
  qed
qed

lemma sample_fresh: "fresh_entry sample_files sample_name sample_entry sample_path"
  by (simp add: fresh_entry_def sample_valid sample_wf sample_path_derived)

text \<open>C23. After any runs on an entry, a run that succeeds appends to each candidate the horizons whose
  target has passed and that it does not have, computed from the candles of their windows, and
  keeps the others.\<close>

theorem run_adds_due_horizons:
  assumes "fresh_entry files name entry path" and "resolver_runs name files files1"
    and "resolve_entry_artifact m i files1 name now = (Inr r, files2)"
    and "normalize_reference_candle_utc (fld (hd (entry_rows entry)) ''reference_candle_at'') = Inr t"
    and "get_horizon_contracts t = Inr contracts" and "in_utc now = Some u"
    and "j < length (entry_rows entry)"
  shows "\<exists>results. recorded_horizons (files2 path) j = recorded_horizons (files1 path) j @ results \<and>
    list_all2 (computed m (t + 4 * hour_micros) (entry_rows entry ! j))
      (due contracts u (recorded_horizons (files1 path) j)) results"
proof (rule fresh_resolved [OF assms(1,2,3)])
  fix initial t' contracts' u' hss hss'
  assume frame: "entry_frame name entry initial t' contracts'" and u: "in_utc now = Some u'"
    and files2: "files2 = files1(path := Stored (with_horizons initial entry hss'))"
    and adv: "advanced m (t' + 4 * hour_micros) contracts' u' entry hss hss'"
    and hss: "resolution_file name entry hss (files1 path)"
  have "t' = t" "contracts' = contracts" "u' = u"
    using frame_dest(2,3) [OF frame] initial_reference [OF frame_dest(1) [OF frame]] assms(4,5,6) u by auto
  moreover have "recorded_horizons (files1 path) j = hss ! j" by (rule recorded_file [OF hss assms(7)])
  moreover have "recorded_horizons (files2 path) j = hss' ! j"
    using recorded_with_horizons [OF frame_dest(1) [OF frame]] adv assms(7) by (simp add: files2 advanced_def)
  ultimately show ?thesis using adv assms(7) by (auto simp: advanced_def grown_def)
qed

theorem run_adds_due_horizons_witness:
  "\<exists>results. recorded_horizons (Stored sample_resolved) 1 = results \<and>
    list_all2 (computed sample_market (sample_start + 4 * hour_micros) (entry_rows sample_entry ! 1))
      [hd sample_contracts] results"
  using run_adds_due_horizons [OF sample_fresh no_run sample_resolution, of sample_start sample_contracts
      "sample_start + 8 * hour_micros" 1]
  by (simp add: sample_rows sample_reference frame_dest(3) [OF sample_frame] sample_now_def in_utc_def
      recorded_horizons_def sample_due)

text \<open>After a run that succeeds, every horizon whose target is not after the moment of the run is
  resolved, for every candidate of the entry.\<close>

theorem due_horizons_resolved:
  assumes "fresh_entry files name entry path" and "resolver_runs name files files1"
    and "resolve_entry_artifact m i files1 name now = (Inr r, files2)"
    and "normalize_reference_candle_utc (fld (hd (entry_rows entry)) ''reference_candle_at'') = Inr t"
    and "get_horizon_contracts t = Inr contracts" and "in_utc now = Some u"
    and "j < length (entry_rows entry)" and "h \<in> set contracts" and "ho_target h \<le> u"
  shows "ho_name h \<in> fst ` set (recorded_horizons (files2 path) j)"
proof (rule fresh_resolved [OF assms(1,2,3)])
  fix initial t' contracts' u' hss hss'
  assume frame: "entry_frame name entry initial t' contracts'" and u: "in_utc now = Some u'"
    and files2: "files2 = files1(path := Stored (with_horizons initial entry hss'))"
    and adv: "advanced m (t' + 4 * hour_micros) contracts' u' entry hss hss'"
  have same: "contracts' = contracts" "u' = u"
    using frame_dest(2,3) [OF frame] initial_reference [OF frame_dest(1) [OF frame]] assms(4,5,6) u by auto
  have "grown m (t' + 4 * hour_micros) contracts u (entry_rows entry ! j) (hss ! j) (hss' ! j)"
    using adv assms(7) by (simp add: advanced_def same)
  from grown_settled [OF this] have "ho_name h \<in> fst ` set (hss' ! j)"
    using assms(8,9) by (auto simp: due_def filter_empty_conv)
  moreover have "recorded_horizons (files2 path) j = hss' ! j"
    using recorded_with_horizons [OF frame_dest(1) [OF frame]] adv assms(7) by (simp add: files2 advanced_def)
  ultimately show ?thesis by simp
qed

theorem due_horizons_resolved_witness:
  "''h4'' \<in> fst ` set (recorded_horizons (Stored sample_resolved) 0)"
  using due_horizons_resolved [OF sample_fresh no_run sample_resolution, of sample_start sample_contracts
      "sample_start + 8 * hour_micros" 0 "hd sample_contracts"]
  by (simp add: sample_rows sample_reference frame_dest(3) [OF sample_frame] sample_now_def in_utc_def
      sample_contracts_def)

text \<open>C13. A resolved horizon is final: whatever runs follow, at whatever times and with whatever
  prices, the horizons a candidate has stay as they are, in their order, and new ones come after.\<close>

theorem resolved_horizons_final:
  assumes "fresh_entry files name entry path" and "resolver_runs name files files1"
    and "resolver_runs name files1 files2" and "j < length (entry_rows entry)"
  shows "prefix (recorded_horizons (files1 path) j) (recorded_horizons (files2 path) j)"
proof (rule fresh_runs [OF assms(1,2)])
  fix hss
  assume hss: "resolution_file name entry hss (files1 path)" and entry: "files1 name = Stored entry"
  obtain hss' where hss': "resolution_file name entry hss' (files2 path)" "list_all2 prefix hss hss'"
    using runs_extend [OF assms(3) entry fresh_dest(3,4) [OF assms(1)] hss] by blast
  have "j < length hss"
    using hss assms(4) by (cases "files1 path") (auto simp: resolution_file_def resolution_at_def)
  then show ?thesis
    using hss'(2) recorded_file [OF hss assms(4)] recorded_file [OF hss'(1) assms(4)]
    by (simp add: list_all2_conv_all_nth)
qed

theorem resolved_horizons_final_witness:
  "prefix (recorded_horizons (sample_files sample_path) 1) (recorded_horizons (Stored sample_resolved) 1)"
  using resolved_horizons_final [OF sample_fresh no_run one_more [OF no_run sample_resolution], of 1]
  by (simp add: sample_rows)

text \<open>C30. A second run at the same moment accepts the file of the first, changes nothing and says so,
  whatever the market would answer.\<close>

theorem second_run_idle:
  assumes "fresh_entry files name entry path" and "resolver_runs name files files1"
    and "resolve_entry_artifact m i files1 name now = (Inr r, files2)"
  shows "resolve_entry_artifact m' i' files2 name now
    = (Inr \<lparr>rn_entry_path = name, rn_resolution_path = path, rn_changed = False, rn_added = 0\<rparr>, files2)"
proof (rule fresh_resolved [OF assms])
  fix initial t contracts u hss hss'
  assume frame: "entry_frame name entry initial t contracts" and u: "in_utc now = Some u"
    and files2: "files2 = files1(path := Stored (with_horizons initial entry hss'))"
    and adv: "advanced m (t + 4 * hour_micros) contracts u entry hss hss'"
    and entry: "files1 name = Stored entry"
  have "due contracts u (hss' ! j) = []" if "j < length (entry_rows entry)" for j
    using adv that grown_settled by (auto simp: advanced_def)
  then show ?thesis
    using adv entry derived_path_other [OF fresh_dest(4) [OF assms(1)]]
    by (intro idle_run [OF frame fresh_dest(2) [OF assms(1)] _ _ _ fresh_dest(4) [OF assms(1)] _ u])
      (auto simp: files2 advanced_def)
qed

theorem second_run_idle_witness:
  "resolve_entry_artifact sample_market good_io (sample_files(sample_path := Stored sample_resolved))
      sample_name sample_now
    = (Inr \<lparr>rn_entry_path = sample_name, rn_resolution_path = sample_path, rn_changed = False, rn_added = 0\<rparr>,
       sample_files(sample_path := Stored sample_resolved))"
  by (rule second_run_idle [OF sample_fresh no_run sample_resolution])

section \<open>The report\<close>

lemma fresh_run_reports:
  assumes "fresh_entry files name entry path" and "resolver_runs name files files1"
    and "resolve_entry_artifact m i files1 name now = (Inr r, files2)"
  shows "let reports = map (\<lambda>j. report_of (entry_rows entry ! j) (recorded_horizons (files2 path) j))
      [0..<length (entry_rows entry)] in
    run_forward_test m i files1 name now = (Inr (r, \<lparr>vr_resolved = path, vr_entry = name,
      vr_complete = (count_status Pending reports = 0), vr_total = length (entry_rows entry),
      vr_pending = count_status Pending reports, vr_valid = count_status Valid reports,
      vr_invalid = count_status Invalid reports, vr_inconclusive = count_status Inconclusive reports,
      vr_candidates = reports\<rparr>), files2)"
proof (rule fresh_resolved [OF assms])
  fix initial t contracts u hss hss'
  assume frame: "entry_frame name entry initial t contracts"
    and path: "rn_resolution_path r = path"
    and files2: "files2 = files1(path := Stored (with_horizons initial entry hss'))"
    and adv: "advanced m (t + 4 * hour_micros) contracts u entry hss hss'"
    and entry: "files1 name = Stored entry"
  have len: "length hss' = length (entry_rows entry)" and ok: "list_all (horizons_ok contracts) hss'"
    using adv by (simp_all add: advanced_def)
  have "files2 name = Stored entry" "files2 path = Stored (with_horizons initial entry hss')"
    using entry derived_path_other [OF fresh_dest(4) [OF assms(1)]] by (auto simp: files2)
  note report = own_resolution_reported [OF frame fresh_dest(3,2) [OF assms(1)] len ok this]
  have "map2 report_of (entry_rows entry) hss'
      = map (\<lambda>j. report_of (entry_rows entry ! j) (recorded_horizons (files2 path) j)) [0..<length (entry_rows entry)]"
    using len recorded_with_horizons [OF frame_dest(1) [OF frame] len]
    by (intro nth_equalityI) (simp_all add: files2)
  then show ?thesis
    using report by (simp add: run_forward_test_def assms(3) path and_then_def Let_def)
qed

text \<open>C22. After a run that succeeds the validator accepts the resolution: the forward test returns a
  report on every candidate of the entry, in order, with the votes of its recorded horizons, and
  the resolution is complete if and only if no candidate is pending.\<close>

theorem forward_run_reports:
  assumes "fresh_entry files name entry path" and "resolver_runs name files files1"
    and "resolve_entry_artifact m i files1 name now = (Inr r, files2)"
  shows "let reports = map (\<lambda>j. report_of (entry_rows entry ! j) (recorded_horizons (files2 path) j))
      [0..<length (entry_rows entry)] in
    run_forward_test m i files1 name now = (Inr (r, \<lparr>vr_resolved = path, vr_entry = name,
      vr_complete = (count_status Pending reports = 0), vr_total = length (entry_rows entry),
      vr_pending = count_status Pending reports, vr_valid = count_status Valid reports,
      vr_invalid = count_status Invalid reports, vr_inconclusive = count_status Inconclusive reports,
      vr_candidates = reports\<rparr>), files2)"
  by (rule fresh_run_reports [OF assms])

theorem forward_run_reports_witness:
  "\<exists>v. run_forward_test sample_market good_io sample_files sample_name sample_now
    = (Inr (\<lparr>rn_entry_path = sample_name, rn_resolution_path = sample_path, rn_changed = True, rn_added = 2\<rparr>, v),
       sample_files(sample_path := Stored sample_resolved)) \<and> vr_total v = 2"
  using forward_run_reports [OF sample_fresh no_run sample_resolution]
  by (simp add: Let_def sample_rows)

lemma collect_iff: "collect f xs = Inr ys \<longleftrightarrow> list_all2 (\<lambda>x y. f x = Inr y) xs ys"
proof (induction xs arbitrary: ys)
  case (Cons x xs)
  then show ?case by (cases ys) (auto simp: and_then_iff)
qed auto

lemma pending_iff: "candidate_status votes = Pending \<longleftrightarrow> ''h12'' \<notin> set (map fst votes)"
  by (simp add: candidate_status_def Let_def)

lemma built_pending:
  assumes "build_candidate_report targets p = Inr r"
  shows "cd_status r = Pending \<longleftrightarrow> ''h12'' \<notin> set (cd_present r)"
proof -
  obtain a b where p: "p = (a, b)" by (cases p)
  obtain votes where votes: "collect (vote_on targets (the_str (fld b ''trend'')) (fld a ''resolved_horizons''))
      (cd_present r) = Inr votes" and r: "cd_status r = candidate_status votes"
    using assms by (auto simp: build_candidate_report_def p Let_def and_then_iff)
  have "map fst votes = cd_present r"
    using votes unfolding collect_iff
    by (induction rule: list_all2_induct) (auto simp: vote_on_def Let_def and_then_iff split: if_splits)
  then show ?thesis by (simp add: r pending_iff)
qed

lemma report_dest:
  assumes "validate_resolved_artifact files path = Inr v"
  obtains resolved entry targets reports entry_name where "files path = Stored resolved"
    "fld resolved ''entry_artifact'' = PStr entry_name" "files entry_name = Stored entry"
    "validate_entry_schema entry = Inr ()" "validate_resolved_entry_identity resolved entry = Inr ()"
    "collect (build_candidate_report targets)
      (zip (rows_of (fld resolved ''candidates'')) (rows_of (fld entry ''candidates''))) = Inr reports"
    "vr_pending v = count_status Pending reports" "vr_valid v = count_status Valid reports"
    "vr_invalid v = count_status Invalid reports" "vr_inconclusive v = count_status Inconclusive reports"
    "vr_total v = length (rows_of (fld resolved ''candidates''))" "vr_candidates v = reports"
    "vr_complete v = (count_status Pending reports = 0)"
proof -
  have loaded: "load_json f = Inr d \<longleftrightarrow> f = Stored d" for f d
    by (cases f) (simp_all add: load_json_def)
  show ?thesis
    using assms that unfolding validate_resolved_artifact_def
    by (clarsimp simp: and_then_iff loaded) (auto simp: and_then_iff loaded split: pv.split_asm if_split_asm)
qed

lemma status_partition:
  "count_status Pending rs + count_status Valid rs + count_status Invalid rs + count_status Inconclusive rs
    = length rs"
proof (induction rs)
  case (Cons r rs)
  then show ?case by (cases "cd_status r") (simp_all add: count_status_def)
qed (simp add: count_status_def)

text \<open>Every report the validator gives, on any pair of files, puts each candidate of the resolution in one
  of the four counts, and it is complete exactly when every candidate has its twelve-hour horizon.\<close>

theorem report_accounts:
  assumes "validate_resolved_artifact files path = Inr v"
  shows "vr_pending v + vr_valid v + vr_invalid v + vr_inconclusive v = vr_total v \<and>
    length (vr_candidates v) = vr_total v \<and>
    (vr_complete v \<longleftrightarrow> list_all (\<lambda>r. ''h12'' \<in> set (cd_present r)) (vr_candidates v))"
proof -
  obtain resolved entry targets reports where
    identity: "validate_resolved_entry_identity resolved entry = Inr ()"
    and reports: "collect (build_candidate_report targets)
        (zip (rows_of (fld resolved ''candidates'')) (rows_of (fld entry ''candidates''))) = Inr reports"
    and v: "vr_pending v = count_status Pending reports" "vr_valid v = count_status Valid reports"
      "vr_invalid v = count_status Invalid reports" "vr_inconclusive v = count_status Inconclusive reports"
      "vr_total v = length (rows_of (fld resolved ''candidates''))" "vr_candidates v = reports"
      "vr_complete v = (count_status Pending reports = 0)"
    by (rule report_dest [OF assms])
  have "length (rows_of (fld resolved ''candidates'')) = length (rows_of (fld entry ''candidates''))"
    using identity unfolding validate_resolved_entry_identity_def Let_def by (auto simp: and_then_iff split: if_splits)
  then have "length reports = vr_total v"
    using reports v(5) by (auto simp: collect_iff dest: list_all2_lengthD)
  moreover have "cd_status r = Pending \<longleftrightarrow> ''h12'' \<notin> set (cd_present r)" if "r \<in> set reports" for r
  proof -
    obtain k where "k < length reports" "reports ! k = r" using \<open>r \<in> set reports\<close> by (metis in_set_conv_nth)
    with list_all2_nthD2 [OF reports [unfolded collect_iff]] show ?thesis by (metis built_pending)
  qed
  then have "count_status Pending reports = 0 \<longleftrightarrow> list_all (\<lambda>r. ''h12'' \<in> set (cd_present r)) reports"
    by (auto simp: count_status_def filter_empty_conv list_all_iff)
  ultimately show ?thesis using v status_partition [of reports] by simp
qed

lemma sample_reported: "\<exists>v. validate_resolved_artifact (sample_files(sample_path := Stored sample_resolved)) sample_path
    = Inr v \<and> vr_total v = 2 \<and> vr_pending v = 2"
proof -
  have "horizons_ok sample_contracts sample_horizons"
    by (auto simp: horizons_ok_def sample_horizons_def sample_contracts_def)
  moreover have "report_of row sample_horizons = r \<Longrightarrow> cd_status r = Pending" for row r
    by (auto simp: report_of_def votes_of_def pending_iff sample_horizons_def horizon_names_def)
  ultimately show ?thesis
    using own_resolution_reported [OF sample_frame sample_valid sample_wf, of "[sample_horizons, sample_horizons]"
      "sample_files(sample_path := Stored sample_resolved)" sample_path]
    by (simp add: sample_rows Let_def sample_resolved_def count_status_def)
       (simp add: sample_files_def sample_name_def sample_path_def)
qed

theorem report_accounts_witness:
  "\<exists>v. validate_resolved_artifact (sample_files(sample_path := Stored sample_resolved)) sample_path = Inr v \<and>
    vr_valid v + vr_invalid v + vr_inconclusive v = 0 \<and> length (vr_candidates v) = 2"
proof -
  obtain v where v: "validate_resolved_artifact (sample_files(sample_path := Stored sample_resolved)) sample_path = Inr v"
    "vr_total v = 2" "vr_pending v = 2" using sample_reported by blast
  show ?thesis using report_accounts [OF v(1)] v by auto
qed

section \<open>Entries the validator rejects\<close>

lemma existing_entry_name:
  assumes "validate_existing_resolution_state state name entry = Inr ()"
  shows "fld state ''entry_artifact'' = PStr name"
proof -
  obtain expected where "build_initial_resolution_state name entry = Inr expected"
    "check_all (check_identity state expected) (butlast resolved_keys) = Inr ()"
    using assms unfolding validate_existing_resolution_state_def by (auto simp: and_then_iff)
  moreover have "''entry_artifact'' \<in> set (butlast resolved_keys)" by (simp add: resolved_keys_def)
  ultimately have "check_identity state expected ''entry_artifact'' = Inr ()"
    "fld expected ''entry_artifact'' = PStr name"
    by (simp_all add: check_all_iff initial_fields(3))
  then show ?thesis by (simp add: check_identity_def split: if_splits)
qed

lemma step_entry_name:
  assumes "resolution_step m files name now = Inr (path, worked, state, n)"
  shows "derive_resolution_path name = Inr path \<and> fld state ''entry_artifact'' = PStr name \<and>
    (\<forall>doc. files path = Stored doc \<longrightarrow> fld doc ''entry_artifact'' = PStr name)"
proof -
  obtain entry where entry: "files name = Stored entry"
    using assms by (auto simp: resolution_step_def split: disk_file.splits)
  obtain state0 p e t u where chain: "derive_resolution_path name = Inr p"
    "load_or_initialize_resolution_state files p name entry = Inr state0"
    "validate_existing_resolution_state state0 name entry = Inr u"
    and final: "(if e = [] then Inr (p, False, state0, 0)
      else and_then (resolve_candidates m (t + 4 * hour_micros) e (rows_of (fld state0 ''candidates'')))
        (\<lambda>(rows, n). Inr (p, True, set_field ''candidates'' (PList rows) state0, n)))
      = (Inr (path, worked, state, n) :: (forward_error, _) result)"
    using assms unfolding resolution_step_def entry disk_file.case and_then_iff by blast
  have p: "p = path" using final by (auto simp: and_then_iff split: if_splits)
  have "fld state ''entry_artifact'' = fld state0 ''entry_artifact''"
    using final by (auto simp: and_then_iff set_field_def fld_def items_def update_conv split: if_splits)
  moreover have "fld doc ''entry_artifact'' = PStr name" if "files path = Stored doc" for doc
    using chain(2) that existing_entry_name
    by (auto simp: p load_or_initialize_resolution_state_def and_then_iff)
  ultimately show ?thesis using chain existing_entry_name p by simp
qed

text \<open>C40. The resolver does not make the checks of the validator: for an entry the validator rejects,
  such as one with a trend other than up or down, the forward test keeps what the resolver wrote
  and always raises.\<close>

theorem rejected_entry_unreported:
  assumes "files name = Stored entry" and "validate_entry_schema entry = Inl e"
  shows "\<exists>e'. run_forward_test m i files name now
    = (Inl e', snd (resolve_entry_artifact m i files name now))"
proof (cases "resolve_entry_artifact m i files name now")
  case (Pair res files2)
  show ?thesis
  proof (cases res)
    case (Inl e')
    then show ?thesis by (simp add: run_forward_test_def Pair)
  next
    case (Inr r)
    then obtain path worked state n where step: "resolution_step m files name now = Inr (path, worked, state, n)"
      using Pair by (auto simp: resolve_entry_artifact_def split: sum.splits)
    have r: "rn_resolution_path r = path" and files2: "files2 = files \<or> files2 = files(path := Stored state)"
      using Pair [unfolded Inr] step
      by (auto simp: resolve_entry_artifact_def write_resolution_state_atomic_def Let_def split: if_splits)
    note named = step_entry_name [OF step]
    have entry: "files2 name = Stored entry"
      using files2 assms(1) derived_path_other [of name path] named by auto
    have "validate_resolved_artifact files2 path \<noteq> Inr v" for v
    proof
      assume "validate_resolved_artifact files2 path = Inr v"
      then obtain resolved entry' entry_name where "files2 path = Stored resolved"
        "fld resolved ''entry_artifact'' = PStr entry_name" "files2 entry_name = Stored entry'"
        "validate_entry_schema entry' = Inr ()" by (rule report_dest)
      moreover from this have "entry_name = name" using named files2 by auto
      ultimately show False using entry assms(2) by simp
    qed
    then obtain e' where "validate_resolved_artifact files2 path = Inl e'"
      by (cases "validate_resolved_artifact files2 path") auto
    then show ?thesis by (simp add: run_forward_test_def Pair Inr r and_then_def)
  qed
qed

text \<open>An entry whose candidate moves sideways.\<close>

definition sideways_entry :: pv where
  "sideways_entry = PDict [(''snapshot_type'', PStr ''v4_outcome_tracker_entry''), (''schema_version'', PInt 1),
     (''captured_at'', PNone), (''candidates'', PList [sample_row ''BTC/USDT'' ''SIDEWAYS'' (PReal 100)])]"

lemma sideways_rejected:
  "validate_entry_schema sideways_entry = Inl (Value_Error ''Unsupported V4 directional trend'')"
  by (simp add: validate_entry_schema_def and_then_def require_object_def require_value_def sideways_entry_def
      filled_list_def rows_of_def allowed_trends_def validate_entry_candidate_def is_text_in_def)
     (simp add: check_keys_def entry_keys_def)

theorem rejected_entry_unreported_witness:
  "\<exists>e. run_forward_test sample_market good_io (sample_files(sample_name := Stored sideways_entry))
      sample_name sample_now
    = (Inl e, snd (resolve_entry_artifact sample_market good_io
        (sample_files(sample_name := Stored sideways_entry)) sample_name sample_now))"
  by (rule rejected_entry_unreported [OF _ sideways_rejected]) simp

end
