(* ===== verification/Validated_Pipeline_Props.thy ===== *)
theory Validated_Pipeline_Props
  imports Validated_Pipeline Forward_Props
begin

text \<open>
  What the pipeline lets through: the selection of the best five, what the answer of the model can
  do to a score, and that every candidate is answered once.
\<close>

section \<open>Dictionaries by symbol\<close>

lemma by_symbol_keys:
  "distinct (map fst (by_symbol f xs))" "fst ` set (by_symbol f xs) = f ` set xs"
proof -
  have "distinct (map fst d) \<Longrightarrow> distinct (map fst (foldl (\<lambda>d r. AList.update (f r) r d) d xs)) \<and>
      fst ` set (foldl (\<lambda>d r. AList.update (f r) r d) d xs) = fst ` set d \<union> f ` set xs" for d :: "(string \<times> 'a) list"
  proof (induction xs arbitrary: d)
    case (Cons x xs)
    have "distinct (map fst (AList.update (f x) x d))" using Cons.prems by (simp add: distinct_update)
    from Cons.IH [OF this] show ?case
      by (simp add: dom_update [unfolded dom_map_of_conv_image_fst])
  qed simp
  from this [of "[]"] show "distinct (map fst (by_symbol f xs))" "fst ` set (by_symbol f xs) = f ` set xs"
    by (simp_all add: by_symbol_def)
qed

lemma by_symbol_entry: "(k, x) \<in> set (by_symbol f xs) \<Longrightarrow> x \<in> set xs \<and> k = f x"
proof -
  have "(k, x) \<in> set (foldl (\<lambda>d r. AList.update (f r) r d) d xs) \<Longrightarrow> (k, x) \<in> set d \<or> x \<in> set xs \<and> k = f x"
    for d :: "(string \<times> 'a) list"
  proof (induction xs arbitrary: d)
    case (Cons y ys)
    from Cons.IH [of "AList.update (f y) y d"] Cons.prems show ?case
      using set_update_subset [of "f y" y d] by auto
  qed simp
  from this [of "[]"] show "(k, x) \<in> set (by_symbol f xs) \<Longrightarrow> x \<in> set xs \<and> k = f x"
    by (simp add: by_symbol_def)
qed

lemma by_symbol_lookup: "map_of (by_symbol f xs) k = Some x \<Longrightarrow> x \<in> set xs \<and> f x = k"
  using by_symbol_entry [of k x f xs] map_of_SomeD [of "by_symbol f xs" k x] by auto

section \<open>Deductions\<close>

lemma flag_empty [simp]: "flag b message = [] \<longleftrightarrow> \<not> b"
  by (simp add: flag_def)

text \<open>The answers the guard lets pass.\<close>

lemma semantic_ok_iff:
  "validate_semantic_consistency c v = Inr () \<longleftrightarrow> (\<exists>status risk confluence reason.
     map_of v ''status'' = Some status \<and> map_of v ''false_breakout_risk'' = Some risk \<and>
     map_of v ''confluence'' = Some confluence \<and> map_of v ''reason_code'' = Some reason \<and>
     \<not> (vc_participation c \<in> {''UNKNOWN'', ''WEAK''} \<and> unhashable reason) \<and>
     semantic_errors c status risk confluence reason = [])"
  unfolding validate_semantic_consistency_def and_then_iff need_def
  by (auto split: option.splits)

lemma penalty_in_iff: "penalty_in table message v = Inr p \<longleftrightarrow> (\<exists>s. v = PStr s \<and> map_of table s = Some p)"
  by (cases v) (auto simp: penalty_in_def split: option.splits)

lemma adjustment_iff:
  "calculate_validation_adjustment v = Inr a \<longleftrightarrow> (\<exists>s r c x y z. ''reason_code'' \<in> fst ` set v \<and>
     map_of v ''status'' = Some (PStr s) \<and> map_of v ''false_breakout_risk'' = Some (PStr r) \<and>
     map_of v ''confluence'' = Some (PStr c) \<and> map_of status_penalty s = Some x \<and>
     map_of false_breakout_penalty r = Some y \<and> map_of confluence_penalty c = Some z \<and>
     a = max max_penalty (x + y + z))"
proof -
  have "set ai_validation_keys \<subseteq> fst ` set v \<longleftrightarrow> ''reason_code'' \<in> fst ` set v"
    if "map_of v ''status'' = Some s" "map_of v ''false_breakout_risk'' = Some r" "map_of v ''confluence'' = Some c"
    for s r c
  proof -
    have "''status'' \<in> fst ` set v" "''false_breakout_risk'' \<in> fst ` set v" "''confluence'' \<in> fst ` set v"
      using that by (simp_all add: dom_map_of_conv_image_fst [symmetric] domIff)
    then show ?thesis by (simp add: ai_validation_keys_def)
  qed
  then show ?thesis
    unfolding calculate_validation_adjustment_def need_def
    by (auto simp: and_then_iff penalty_in_iff split: if_splits option.splits)
qed

lemma penalty_tables:
  "map_of status_penalty s = Some x \<longleftrightarrow> s = ''CLEAR'' \<and> x = 0 \<or> s = ''CONFLICT'' \<and> x = -3 \<or> s = ''HIGH_RISK'' \<and> x = -6"
  "map_of false_breakout_penalty s = Some x \<longleftrightarrow> s = ''LOW'' \<and> x = 0 \<or> s = ''MEDIUM'' \<and> x = -1 \<or> s = ''HIGH'' \<and> x = -3"
  "map_of confluence_penalty s = Some x \<longleftrightarrow> s = ''STRONG'' \<and> x = 0 \<or> s = ''MODERATE'' \<and> x = -1 \<or> s = ''WEAK'' \<and> x = -3"
  by (auto simp: status_penalty_def false_breakout_penalty_def confluence_penalty_def)

lemma adjustment_bounds: "calculate_validation_adjustment v = Inr a \<Longrightarrow> -10 \<le> a \<and> a \<le> 0"
  unfolding adjustment_iff penalty_tables by (auto simp: max_penalty_def)

lemma guarded_costs:
  assumes "validate_semantic_consistency c v = Inr ()" and "calculate_validation_adjustment v = Inr a"
  shows "(vc_participation c = ''WEAK'' \<longrightarrow> a = -10) \<and> (vc_participation c = ''MIXED'' \<longrightarrow> a \<le> -4) \<and>
    (vc_choch c \<longrightarrow> a \<le> -3) \<and> (\<not> vc_bos c \<longrightarrow> a \<le> -1)"
proof -
  obtain s r k x y z where v: "map_of v ''status'' = Some (PStr s)" "map_of v ''false_breakout_risk'' = Some (PStr r)"
    "map_of v ''confluence'' = Some (PStr k)" and p: "map_of status_penalty s = Some x"
    "map_of false_breakout_penalty r = Some y" "map_of confluence_penalty k = Some z"
    and a: "a = max max_penalty (x + y + z)"
    using assms(2) unfolding adjustment_iff by blast
  obtain reason where g: "semantic_errors c (PStr s) (PStr r) (PStr k) reason = []"
    using assms(1) v unfolding semantic_ok_iff by auto
  have g: "\<not> (\<not> vc_bos c \<and> PStr r = PStr ''LOW'')" "\<not> (vc_choch c \<and> PStr s = PStr ''CLEAR'')"
    "\<not> (vc_participation c = ''MIXED'' \<and> PStr s = PStr ''CLEAR'')"
    "\<not> (vc_participation c = ''MIXED'' \<and> PStr r = PStr ''LOW'')"
    "\<not> (vc_participation c = ''WEAK'' \<and> PStr s \<noteq> PStr ''HIGH_RISK'')"
    "\<not> (vc_participation c = ''WEAK'' \<and> PStr r \<noteq> PStr ''HIGH'')"
    "\<not> (vc_participation c = ''WEAK'' \<and> PStr k \<noteq> PStr ''WEAK'')"
    using g unfolding semantic_errors_def append_is_Nil_conv flag_empty by - (elim conjE; assumption)+
  have rules: "\<not> vc_bos c \<Longrightarrow> r \<noteq> ''LOW''" "vc_choch c \<Longrightarrow> s \<noteq> ''CLEAR''"
    "vc_participation c = ''MIXED'' \<Longrightarrow> s \<noteq> ''CLEAR'' \<and> r \<noteq> ''LOW''"
    "vc_participation c = ''WEAK'' \<Longrightarrow> s = ''HIGH_RISK'' \<and> r = ''HIGH'' \<and> k = ''WEAK''"
    using g unfolding pv.inject by blast+
  have x: "x \<le> 0" "y \<le> 0" "z \<le> 0" "s \<noteq> ''CLEAR'' \<Longrightarrow> x \<le> -3" "r \<noteq> ''LOW'' \<Longrightarrow> y \<le> -1"
    "s = ''HIGH_RISK'' \<Longrightarrow> r = ''HIGH'' \<Longrightarrow> k = ''WEAK'' \<Longrightarrow> x + y + z = -12"
    using p unfolding penalty_tables by auto
  have weak: "a = -10" if "vc_participation c = ''WEAK''"
    using rules(4) [OF that] x(6) by (simp add: a max_penalty_def)
  have mixed: "a \<le> -4" if "vc_participation c = ''MIXED''"
    using rules(3) [OF that] x(3-5) by (auto simp: a max_penalty_def)
  have "a \<le> -3" if "vc_choch c" using rules(2) [OF that] x(2-4) by (auto simp: a max_penalty_def)
  moreover have "a \<le> -1" if "\<not> vc_bos c" using rules(1) [OF that] x(1,3,5) by (auto simp: a max_penalty_def)
  ultimately show ?thesis using weak mixed by blast
qed

section \<open>What a run returns\<close>

text \<open>A row of the ranking comes from its candidate and the answer for it.\<close>

definition answered :: "(rat \<Rightarrow> rat) \<Rightarrow> evidence_row \<Rightarrow> 'a controlled_row_scheme \<Rightarrow> bool" where
  "answered rd c r = (vc_symbol r = vc_symbol c \<and> vc_python_score r = vc_python_score c \<and>
     vc_trend r = vc_trend c \<and> vc_bos r = vc_bos c \<and> vc_choch r = vc_choch c \<and>
     vc_participation r = vc_participation c \<and>
     map_of (cr_ai_validation r) ''symbol'' = Some (PStr (vc_symbol c)) \<and>
     validate_semantic_consistency c (cr_ai_validation r) = Inr () \<and>
     calculate_validation_adjustment (cr_ai_validation r) = Inr (cr_adjustment r) \<and>
     cr_final_rank_score r = max 0 (rd (vc_python_score c + of_int (cr_adjustment r))))"

lemma control_candidate_dest:
  assumes "control_candidate rd vs (k, c) = Inr r" and "k = vc_symbol c"
  shows "answered rd c r \<and> cr_ai_validation r \<in> set vs"
proof -
  obtain v a where "find (\<lambda>v. map_of v ''symbol'' = Some (PStr k)) vs = Some v"
    "validate_semantic_consistency c v = Inr ()" "calculate_validation_adjustment v = Inr a"
    "r = evidence_row.extend c \<lparr>cr_ai_validation = v, cr_adjustment = a,
       cr_final_rank_score = max 0 (rd (vc_python_score c + of_int a))\<rparr>"
    using assms(1) by (auto simp: control_candidate_def and_then_iff split: option.splits)
  then show ?thesis using assms(2)
    by (auto simp: answered_def evidence_row.extend_def find_Some_iff)
qed

lemma collect_set: "collect f xs = Inr ys \<Longrightarrow> y \<in> set ys \<Longrightarrow> \<exists>x \<in> set xs. f x = Inr y"
  unfolding collect_iff by (induction rule: list_all2_induct) auto

lemma collect_image: "collect f xs = Inr ys \<Longrightarrow> x \<in> set xs \<Longrightarrow> \<exists>y \<in> set ys. f x = Inr y"
  unfolding collect_iff by (induction rule: list_all2_induct) auto

lemma list_all2_names:
  "list_all2 (\<lambda>p r. g r = fst p \<and> h (fst p) \<in> S) ps rs \<Longrightarrow> map g rs = map fst ps \<and> h ` fst ` set ps \<subseteq> S"
  by (induction rule: list_all2_induct) auto

lemma pipeline_dest:
  assumes "run_validated_pipeline rd validator oi results = Inr out"
    and "build_validation_payload rd oi results \<noteq> []"
  obtains answer vs norm controlled where "validator (build_validation_payload rd oi results) = Some answer"
    "parse_validations answer = Inr vs"
    "collect (normalize_answer (by_symbol vc_symbol (build_validation_payload rd oi results))) vs = Inr norm"
    "apply_validation_control rd (build_validation_payload rd oi results) norm = Inr controlled"
    "collect (enrich_row results) controlled = Inr (po_controlled out)"
    "po_final out = build_final_top5 (po_controlled out)" "po_usage out = an_usage answer"
  using assms unfolding run_validated_pipeline_def Let_def
  by (auto simp: and_then_iff split: if_splits option.splits)

lemma control_dest:
  assumes "apply_validation_control rd candidates vs = Inr controlled"
  obtains symbols rows where "collect (\<lambda>v. need v ''symbol'') vs = Inr symbols"
    "hashed symbols \<noteq> Inl Type_Error" "py_distinct symbols" "list_all (\<lambda>v. \<not> unhashable v) symbols"
    "collect (control_candidate rd vs) (by_symbol vc_symbol candidates) = Inr rows"
    "set symbols \<subseteq> PStr ` vc_symbol ` set candidates"
    "controlled = sort_key (\<lambda>r. (- cr_final_rank_score r, - vc_python_score r)) rows"
proof -
  obtain symbols unique rows where *: "collect (\<lambda>v. need v ''symbol'') vs = Inr symbols"
    "hashed symbols = Inr unique" "length symbols = length unique"
    "collect (control_candidate rd vs) (by_symbol vc_symbol candidates) = Inr rows"
    "extra_symbols (by_symbol vc_symbol candidates) symbols = []"
    "controlled = sort_key (\<lambda>r. (- cr_final_rank_score r, - vc_python_score r)) rows"
    using assms unfolding apply_validation_control_def Let_def
    by (clarsimp simp: and_then_iff) (auto simp: and_then_iff split: sum.split_asm if_split_asm)
  have "set symbols \<subseteq> PStr ` vc_symbol ` set candidates"
    using *(5) by (auto simp: extra_symbols_def filter_empty_conv by_symbol_keys(2))
  then show ?thesis
    using that *(1,2,4,6) hashed_distinct [OF *(2)] *(3) by simp
qed

lemma enrich_dest:
  assumes "enrich_row results r = Inr f"
  shows "controlled_row.truncate f = r \<and> (\<exists>s \<in> set results. sc_symbol s = vc_symbol r \<and>
    rw_reference_price f = sc_reference_price s \<and> rw_reference_candle_at f = sc_reference_candle_at s \<and>
    rw_golden_zone f = sc_golden_zone s)"
  using assms by_symbol_lookup [of sc_symbol results "vc_symbol r"]
  by (auto simp: enrich_row_def controlled_row.extend_def controlled_row.truncate_def split: option.splits)

lemma truncate_fields:
  "controlled_row.truncate f = r \<Longrightarrow> cr_final_rank_score f = cr_final_rank_score r \<and>
     vc_symbol f = vc_symbol r \<and> vc_python_score f = vc_python_score r \<and> answered rd c f = answered rd c r"
  by (auto simp: controlled_row.truncate_def answered_def)

lemma enriched_fields:
  assumes "collect (enrich_row results) controlled = Inr rows"
  shows "map vc_symbol rows = map vc_symbol controlled" "length rows = length controlled"
    "map cr_final_rank_score rows = map cr_final_rank_score controlled"
proof -
  have same: "vc_symbol f = vc_symbol r \<and> cr_final_rank_score f = cr_final_rank_score r"
    if "enrich_row results r = Inr f" for r f
    using enrich_dest [OF that] truncate_fields by blast
  from assms [unfolded collect_iff] show "map vc_symbol rows = map vc_symbol controlled"
    "length rows = length controlled" "map cr_final_rank_score rows = map cr_final_rank_score controlled"
    by (induction rule: list_all2_induct) (simp_all add: same)
qed

text \<open>Every row of the ranking is a candidate with the answer for it.\<close>

lemma row_answered:
  assumes "run_validated_pipeline rd validator oi results = Inr out" and "f \<in> set (po_controlled out)"
  obtains c where "c \<in> set (build_validation_payload rd oi results)" "answered rd c f"
proof (cases "build_validation_payload rd oi results = []")
  case True
  then show ?thesis using assms by (auto simp: run_validated_pipeline_def)
next
  case False
  show ?thesis
  proof (rule pipeline_dest [OF assms(1) False])
    fix norm controlled
    assume control: "apply_validation_control rd (build_validation_payload rd oi results) norm = Inr controlled"
      and rows: "collect (enrich_row results) controlled = Inr (po_controlled out)"
    obtain r where r: "r \<in> set controlled" "enrich_row results r = Inr f"
      using collect_set [OF rows assms(2)] by blast
    show ?thesis
    proof (rule control_dest [OF control])
      fix base
      assume base: "collect (control_candidate rd norm) (by_symbol vc_symbol (build_validation_payload rd oi results)) = Inr base"
        and sorted: "controlled = sort_key (\<lambda>r. (- cr_final_rank_score r, - vc_python_score r)) base"
      have "r \<in> set base" using r(1) by (simp add: sorted)
      from collect_set [OF base this] obtain k c where
        c: "(k, c) \<in> set (by_symbol vc_symbol (build_validation_payload rd oi results))"
          "control_candidate rd norm (k, c) = Inr r" by auto
      note k = by_symbol_entry [OF c(1)]
      have "answered rd c r" using control_candidate_dest [OF c(2)] k by simp
      then show ?thesis
        using that k enrich_dest [OF r(2)] truncate_fields by blast
    qed
  qed
qed

section \<open>A sample run\<close>

definition scan_row :: "string \<Rightarrow> string \<Rightarrow> rat \<Rightarrow> scanned" where
  "scan_row symbol trend score = \<lparr>sc_symbol = symbol, sc_score = score, sc_trend = trend, sc_bos = True,
     sc_choch = False, sc_volume_ratio = Some 2, sc_volume_status = ''OK'', sc_reference_price = 100,
     sc_reference_candle_at = ''2025-01-01T00:00:00+00:00'', sc_golden_zone = PNone\<rparr>"

definition scan_sample :: "string \<Rightarrow> scanned list" where
  "scan_sample trend = [scan_row ''ETH/USDT'' trend 85, scan_row ''BTC/USDT'' ''UPTREND'' 95]"

definition oi_sample :: "string \<Rightarrow> oi_metrics" where
  "oi_sample symbol = \<lparr>oi_change = Some 1, oi_data_status = ''OK''\<rparr>"

definition clear_answer :: "string \<Rightarrow> (string \<times> pv) list" where
  "clear_answer symbol = [(''symbol'', PStr symbol), (''status'', PStr ''CLEAR''),
     (''false_breakout_risk'', PStr ''LOW''), (''confluence'', PStr ''STRONG''), (''reason_code'', PStr ''ALIGNED'')]"

definition model_sample :: "evidence_row list \<Rightarrow> ai_answer option" where
  "model_sample candidates = Some \<lparr>
     an_content = Some (PDict [(''validations'', PList (map (\<lambda>c. PDict (clear_answer (vc_symbol c))) candidates))]),
     an_usage = PDict []\<rparr>"

definition evidence_sample :: "string \<Rightarrow> string \<Rightarrow> rat \<Rightarrow> evidence_row" where
  "evidence_sample symbol trend score = \<lparr>vc_symbol = symbol, vc_python_score = score, vc_trend = trend,
     vc_bos = True, vc_choch = False, vc_volume_ratio = Some 2, vc_volume_status = ''OK'',
     vc_volume_class = ''STRONG'', vc_oi_change_pct = Some 1, vc_oi_status = ''OK'', vc_oi_class = ''STRONG'',
     vc_participation = ''STRONG''\<rparr>"

definition controlled_sample :: "string \<Rightarrow> string \<Rightarrow> rat \<Rightarrow> controlled_row" where
  "controlled_sample symbol trend score = evidence_row.extend (evidence_sample symbol trend score)
     \<lparr>cr_ai_validation = clear_answer symbol, cr_adjustment = 0, cr_final_rank_score = score\<rparr>"

definition final_sample :: "string \<Rightarrow> string \<Rightarrow> rat \<Rightarrow> final_row" where
  "final_sample symbol trend score = controlled_row.extend (controlled_sample symbol trend score)
     \<lparr>rw_reference_price = 100, rw_reference_candle_at = ''2025-01-01T00:00:00+00:00'', rw_golden_zone = PNone\<rparr>"

definition output_sample :: "string \<Rightarrow> pipeline_output" where
  "output_sample trend = \<lparr>
     po_controlled = [final_sample ''BTC/USDT'' ''UPTREND'' 95, final_sample ''ETH/USDT'' trend 85],
     po_final = [final_sample ''BTC/USDT'' ''UPTREND'' 95, final_sample ''ETH/USDT'' trend 85],
     po_usage = PDict []\<rparr>"

lemma sample_payload: "build_validation_payload (\<lambda>x. x) oi_sample (scan_sample trend)
    = [evidence_sample ''BTC/USDT'' ''UPTREND'' 95, evidence_sample ''ETH/USDT'' trend 85]"
  by (simp add: build_validation_payload_def scan_sample_def scan_row_def top_n_for_validation_def
      build_validation_candidate_def oi_sample_def classify_participation_def Let_def classify_volume_ratio_def
      classify_oi_change_def participation_of_def evidence_sample_def)

lemma sample_answer_ok:
  "validate_semantic_consistency (evidence_sample s t x) (clear_answer s) = Inr ()"
  "calculate_validation_adjustment (clear_answer s) = Inr 0"
  "normalize_impossible_reason_code (evidence_sample s t x) (clear_answer s) = Inr (clear_answer s)"
  by (simp_all add: validate_semantic_consistency_def and_then_def need_def clear_answer_def evidence_sample_def
      semantic_errors_def calculate_validation_adjustment_def ai_validation_keys_def penalty_in_def
      status_penalty_def false_breakout_penalty_def confluence_penalty_def max_penalty_def
      normalize_impossible_reason_code_def impossible_reason_def)

lemma final_fields:
  "vc_python_score (final_sample s t x) = x" "vc_symbol (final_sample s t x) = s" "vc_trend (final_sample s t x) = t"
  "rw_reference_price (final_sample s t x) = 100" "cr_ai_validation (final_sample s t x) = clear_answer s"
  "rw_reference_candle_at (final_sample s t x) = ''2025-01-01T00:00:00+00:00''"
  "rw_golden_zone (final_sample s t x) = PNone"
  by (simp_all add: final_sample_def controlled_row.extend_def controlled_sample_def evidence_row.extend_def
      evidence_sample_def)

lemma sample_pipeline: "run_validated_pipeline (\<lambda>x. x) model_sample oi_sample (scan_sample trend) = Inr (output_sample trend)"
proof -
  let ?b = "evidence_sample ''BTC/USDT'' ''UPTREND'' 95" and ?e = "evidence_sample ''ETH/USDT'' trend 85"
  have sym: "vc_symbol (evidence_sample s t x) = s" "vc_python_score (evidence_sample s t x) = x" for s t x
    by (simp_all add: evidence_sample_def)
  have map: "by_symbol vc_symbol [?b, ?e] = [(''BTC/USDT'', ?b), (''ETH/USDT'', ?e)]"
    by (simp add: by_symbol_def sym)
  have norm: "normalize_answer [(''BTC/USDT'', ?b), (''ETH/USDT'', ?e)] (PDict (clear_answer s)) = Inr (clear_answer s)"
    if "s = ''BTC/USDT'' \<or> s = ''ETH/USDT''" for s
    using that sample_answer_ok(3)
    by (auto simp: normalize_answer_def and_then_def need_def clear_answer_def unhashable_def is_list_def is_dict_def)
  have lookup: "map_of (clear_answer s) ''symbol'' = Some (PStr s)" for s by (simp add: clear_answer_def)
  have control: "apply_validation_control (\<lambda>x. x) [?b, ?e] [clear_answer ''BTC/USDT'', clear_answer ''ETH/USDT'']
      = Inr [controlled_sample ''BTC/USDT'' ''UPTREND'' 95, controlled_sample ''ETH/USDT'' trend 85]"
    by (simp add: apply_validation_control_def Let_def map need_def lookup and_then_def hashed_def py_member_def
        control_candidate_def sample_answer_ok sym extra_symbols_def controlled_sample_def)
       (simp add: evidence_row.extend_def evidence_sample_def)
  have by_scan: "by_symbol sc_symbol (scan_sample trend)
      = [(''ETH/USDT'', scan_row ''ETH/USDT'' trend 85), (''BTC/USDT'', scan_row ''BTC/USDT'' ''UPTREND'' 95)]"
    by (simp add: by_symbol_def scan_sample_def scan_row_def)
  have enriched: "enrich_row (scan_sample trend) (controlled_sample s t x) = Inr (final_sample s t x)"
    if "s = ''BTC/USDT'' \<or> s = ''ETH/USDT''" for s t x
    using that
    by (auto simp: enrich_row_def by_scan controlled_sample_def final_sample_def scan_row_def
        evidence_row.extend_def evidence_sample_def)
  have score: "cr_final_rank_score (final_sample s t x) = x" for s t x
    by (simp add: final_sample_def controlled_row.extend_def controlled_sample_def evidence_row.extend_def)
  show ?thesis
    by (simp add: run_validated_pipeline_def sample_payload model_sample_def sym map parse_validations_def
        and_then_def norm control enriched output_sample_def build_final_top5_def score
        min_final_rank_score_def final_top_n_def)
qed

section \<open>The properties\<close>

text \<open>C15. The signals selected are at most five rows of the ranking with a final score of 80 or more, best
  score first, and a row that is left out has less than 80 or is no better than any of the five.\<close>

theorem best_five_selected:
  assumes "run_validated_pipeline rd validator oi results = Inr out"
  shows "length (po_final out) \<le> 5 \<and> set (po_final out) \<subseteq> {r \<in> set (po_controlled out). 80 \<le> cr_final_rank_score r} \<and>
    sorted_wrt (\<lambda>a b. cr_final_rank_score b \<le> cr_final_rank_score a) (po_final out) \<and>
    (\<forall>r \<in> set (po_controlled out) - set (po_final out). cr_final_rank_score r < 80 \<or>
      length (po_final out) = 5 \<and> (\<forall>f \<in> set (po_final out). cr_final_rank_score r \<le> cr_final_rank_score f))"
proof (cases "build_validation_payload rd oi results = []")
  case True
  then show ?thesis using assms by (auto simp: run_validated_pipeline_def)
next
  case False
  let ?better = "\<lambda>a b. cr_final_rank_score b \<le> cr_final_rank_score a"
  obtain norm controlled where control: "apply_validation_control rd (build_validation_payload rd oi results) norm = Inr controlled"
    and rows: "collect (enrich_row results) controlled = Inr (po_controlled out)"
    and final: "po_final out = build_final_top5 (po_controlled out)"
    by (rule pipeline_dest [OF assms False])
  have "sorted_wrt ?better controlled"
  proof (rule control_dest [OF control])
    fix base
    assume base: "controlled = sort_key (\<lambda>r. (- cr_final_rank_score r, - vc_python_score r)) base"
    have "sorted (map (\<lambda>r. (- cr_final_rank_score r, - vc_python_score r)) controlled)" by (simp add: base)
    then show ?thesis unfolding sorted_map by (rule sorted_wrt_mono_rel [rotated]) (auto simp: less_eq_prod_simp)
  qed
  then have "sorted_wrt (\<lambda>x y. y \<le> x) (map cr_final_rank_score controlled)" by (simp add: sorted_wrt_map)
  then have sorted: "sorted_wrt ?better (filter (\<lambda>r. 80 \<le> cr_final_rank_score r) (po_controlled out))" (is "sorted_wrt _ ?q")
    unfolding enriched_fields(3) [OF rows, symmetric] by (simp add: sorted_wrt_map sorted_wrt_filter)
  have five: "po_final out = take 5 ?q"
    by (simp add: final build_final_top5_def final_top_n_def min_final_rank_score_def)
  have "\<forall>f \<in> set (take 5 ?q). cr_final_rank_score r \<le> cr_final_rank_score f" if "r \<in> set (drop 5 ?q)" for r
    using sorted that sorted_wrt_append [of ?better "take 5 ?q" "drop 5 ?q"] by simp
  moreover have "length (take 5 ?q) = 5" if "r \<in> set (drop 5 ?q)" for r
    using that by (cases "length ?q \<le> 5") auto
  moreover have "r \<in> set (drop 5 ?q)" if "r \<in> set ?q" "r \<notin> set (take 5 ?q)" for r
    using that by (metis Un_iff append_take_drop_id set_append)
  moreover have "sorted_wrt ?better (take 5 ?q)" using sorted by (rule sorted_wrt_take)
  ultimately show ?thesis
    unfolding five using set_take_subset [of 5 ?q] by (auto simp: not_less [symmetric])
qed

theorem best_five_selected_witness:
  "length (po_final (output_sample ''SIDEWAYS'')) \<le> 5 \<and>
    set (po_final (output_sample ''SIDEWAYS'')) \<subseteq> {r \<in> set (po_controlled (output_sample ''SIDEWAYS'')). 80 \<le> cr_final_rank_score r}"
  using best_five_selected [OF sample_pipeline] by simp

text \<open>Normalisation keeps the symbol of an answer.\<close>

lemma normalize_answer_symbol:
  assumes "normalize_answer m v = Inr d" and "need d ''symbol'' = Inr x"
  shows "is_dict v \<and> fld v ''symbol'' = x"
proof (cases v)
  case (PDict e)
  obtain y where y: "need e ''symbol'' = Inr y"
    using assms(1) by (auto simp: PDict normalize_answer_def and_then_iff)
  have "d = e \<or> (\<exists>c. normalize_impossible_reason_code c e = Inr d)"
    using assms(1) by (auto simp: PDict normalize_answer_def and_then_iff split: if_splits pv.splits option.splits)
  then have "map_of d ''symbol'' = map_of e ''symbol''"
    by (auto simp: normalize_impossible_reason_code_def and_then_iff update_conv)
  then show ?thesis
    using assms(2) y by (auto simp: PDict need_def fld_def items_def is_dict_def split: option.splits)
qed (use assms(1) in \<open>simp_all add: normalize_answer_def\<close>)

lemma answered_symbols:
  assumes "collect (normalize_answer m) vs = Inr ds" and "collect (\<lambda>d. need d ''symbol'') ds = Inr xs"
  shows "list_all is_dict vs \<and> map (\<lambda>v. fld v ''symbol'') vs = xs"
proof -
  have "list_all2 (\<lambda>v x. is_dict v \<and> fld v ''symbol'' = x) vs xs"
    using assms normalize_answer_symbol unfolding collect_iff by (auto simp: list_all2_conv_all_nth)
  then show ?thesis by (auto simp: list_all2_conv_all_nth list_all_length intro: nth_equalityI)
qed

lemma candidates_answered:
  assumes "run_validated_pipeline rd validator oi results = Inr out"
    and "validator (build_validation_payload rd oi results) = Some answer" and "results \<noteq> []"
  shows "distinct (map vc_symbol (po_controlled out)) \<and>
    set (map vc_symbol (po_controlled out)) = set (map vc_symbol (build_validation_payload rd oi results)) \<and>
    (\<exists>answers. parse_validations answer = Inr answers \<and> list_all is_dict answers \<and>
      mset (map (\<lambda>v. fld v ''symbol'') answers) = mset (map (\<lambda>r. PStr (vc_symbol r)) (po_controlled out)))"
proof -
  let ?cs = "build_validation_payload rd oi results"
  have "length ?cs = min 10 (length results)"
    by (simp add: build_validation_payload_def top_n_for_validation_def)
  then have "?cs \<noteq> []" using assms(3) by (cases results) auto
  then show ?thesis
  proof (rule pipeline_dest [OF assms(1)])
    fix a vs norm controlled
    assume a: "validator ?cs = Some a" "parse_validations a = Inr vs"
      and norm: "collect (normalize_answer (by_symbol vc_symbol ?cs)) vs = Inr norm"
      and control: "apply_validation_control rd ?cs norm = Inr controlled"
      and rows: "collect (enrich_row results) controlled = Inr (po_controlled out)"
    show ?thesis
    proof (rule control_dest [OF control])
      fix symbols base
      assume symbols: "collect (\<lambda>v. need v ''symbol'') norm = Inr symbols"
        and py: "py_distinct symbols" "list_all (\<lambda>v. \<not> unhashable v) symbols"
        and base: "collect (control_candidate rd norm) (by_symbol vc_symbol ?cs) = Inr base"
        and sub: "set symbols \<subseteq> PStr ` vc_symbol ` set ?cs"
        and sorted: "controlled = sort_key (\<lambda>r. (- cr_final_rank_score r, - vc_python_score r)) base"
      have each: "vc_symbol r = k \<and> PStr k \<in> set symbols"
        if "(k, c) \<in> set (by_symbol vc_symbol ?cs)" "control_candidate rd norm (k, c) = Inr r" for k c r
      proof -
        have k: "k = vc_symbol c" using by_symbol_entry [OF that(1)] by simp
        have r: "answered rd c r" "cr_ai_validation r \<in> set norm" using control_candidate_dest [OF that(2) k] by simp_all
        obtain y where "y \<in> set symbols" "need (cr_ai_validation r) ''symbol'' = Inr y"
          using collect_image [OF symbols r(2)] by blast
        then show ?thesis using r(1) k by (simp add: answered_def need_def)
      qed
      have names: "map vc_symbol base = map fst (by_symbol vc_symbol ?cs)" "PStr ` vc_symbol ` set ?cs \<subseteq> set symbols"
      proof -
        from base [unfolded collect_iff] have "list_all2 (\<lambda>p r. p \<in> set (by_symbol vc_symbol ?cs) \<and>
            control_candidate rd norm p = Inr r) (by_symbol vc_symbol ?cs) base"
          by (simp add: list_all2_conv_all_nth)
        then have "list_all2 (\<lambda>p r. vc_symbol r = fst p \<and> PStr (fst p) \<in> set symbols) (by_symbol vc_symbol ?cs) base"
          by (rule list_all2_mono) (use each in auto)
        moreover have keys: "vc_symbol ` set ?cs = fst ` set (by_symbol vc_symbol ?cs)"
          by (simp only: by_symbol_keys(2))
        ultimately show "map vc_symbol base = map fst (by_symbol vc_symbol ?cs)"
          "PStr ` vc_symbol ` set ?cs \<subseteq> set symbols"
          unfolding keys using list_all2_names by blast+
      qed
      have mset: "mset (map vc_symbol (po_controlled out)) = mset (map fst (by_symbol vc_symbol ?cs))"
      proof -
        have "mset (map vc_symbol (po_controlled out)) = mset (map vc_symbol controlled)"
          by (simp only: enriched_fields(1) [OF rows])
        also have "\<dots> = image_mset vc_symbol (mset base)" by (simp only: mset_map sorted mset_sort)
        also have "\<dots> = mset (map fst (by_symbol vc_symbol ?cs))" by (simp only: mset_map [symmetric] names(1))
        finally show ?thesis .
      qed
      then have dist: "distinct (map vc_symbol (po_controlled out))"
        using by_symbol_keys(1) mset_eq_imp_distinct_iff by blast
      have set: "set (map vc_symbol (po_controlled out)) = vc_symbol ` set ?cs"
        using mset_eq_setD [OF mset] by_symbol_keys(2) by simp
      have "distinct symbols"
      proof -
        have "py_distinct us \<Longrightarrow> list_all (\<lambda>v. \<not> unhashable v) us \<Longrightarrow> distinct us" for us
          using py_eq_refl by (induction us) (auto simp: list_all_iff)
        then show ?thesis using py by blast
      qed
      moreover have "set symbols = PStr ` set (map vc_symbol (po_controlled out))" using sub names(2) set by simp
      then have "set symbols = set (map (\<lambda>r. PStr (vc_symbol r)) (po_controlled out))" by (simp add: image_image)
      moreover have "distinct (map (\<lambda>r. PStr (vc_symbol r)) (po_controlled out))"
        using dist by (simp add: distinct_map inj_on_def)
      ultimately have "mset symbols = mset (map (\<lambda>r. PStr (vc_symbol r)) (po_controlled out))"
        by (metis set_eq_iff_mset_eq_distinct)
      then show ?thesis using dist set a assms(2) answered_symbols [OF norm symbols] by (simp del: mset_map)
    qed
  qed
qed

text \<open>C16. Every candidate appears in the ranking exactly once, and the answers of the model are objects
  whose symbols are, counted with repetitions, those of the candidates: one answer for each and
  none for anything else.  With any other answer the run raises.\<close>

theorem every_candidate_answered:
  assumes "run_validated_pipeline rd validator oi results = Inr out"
    and "validator (build_validation_payload rd oi results) = Some answer" and "results \<noteq> []"
  shows "distinct (map vc_symbol (po_controlled out)) \<and>
    set (map vc_symbol (po_controlled out)) = set (map vc_symbol (build_validation_payload rd oi results)) \<and>
    (\<exists>answers. parse_validations answer = Inr answers \<and> list_all is_dict answers \<and>
      mset (map (\<lambda>v. fld v ''symbol'') answers) = mset (map (\<lambda>r. PStr (vc_symbol r)) (po_controlled out)))"
  by (rule candidates_answered [OF assms])

theorem every_candidate_answered_witness:
  "set (map vc_symbol (po_controlled (output_sample ''SIDEWAYS''))) = {''BTC/USDT'', ''ETH/USDT''} \<and>
    length (po_controlled (output_sample ''SIDEWAYS'')) = 2"
  using every_candidate_answered [OF sample_pipeline, unfolded sample_payload model_sample_def, OF refl]
  by (simp add: scan_sample_def evidence_sample_def parse_validations_def output_sample_def)

text \<open>C12. The answer of the model never raises a score: the final score of a row is at most the score of
  the scanner (or zero), so no signal below 80 can be selected whatever the model answers.\<close>

theorem answer_never_promotes:
  assumes "run_validated_pipeline rd validator oi results = Inr out" and "float_rounding rd"
    and "r \<in> set (po_controlled out)" and "rd (vc_python_score r) = vc_python_score r"
  shows "cr_final_rank_score r \<le> max 0 (vc_python_score r) \<and>
    (r \<in> set (po_final out) \<longrightarrow> 80 \<le> vc_python_score r)"
proof (rule row_answered [OF assms(1,3)])
  fix c
  assume c: "answered rd c r"
  then have "calculate_validation_adjustment (cr_ai_validation r) = Inr (cr_adjustment r)"
    by (simp add: answered_def)
  then have "cr_adjustment r \<le> 0" using adjustment_bounds by blast
  then have "rd (vc_python_score c + of_int (cr_adjustment r)) \<le> rd (vc_python_score c)"
    using assms(2) by (simp add: float_rounding_def)
  then have le: "cr_final_rank_score r \<le> max 0 (vc_python_score r)"
    using c assms(4) by (auto simp: answered_def)
  have "80 \<le> cr_final_rank_score r" if "r \<in> set (po_final out)"
  proof -
    have "po_final out = build_final_top5 (po_controlled out)"
    proof (cases "build_validation_payload rd oi results = []")
      case True
      then show ?thesis using assms(1) by (auto simp: run_validated_pipeline_def build_final_top5_def)
    next
      case False
      show ?thesis by (rule pipeline_dest [OF assms(1) False])
    qed
    then show ?thesis using that by (auto simp: build_final_top5_def min_final_rank_score_def dest: in_set_takeD)
  qed
  then show ?thesis using le by auto
qed

theorem answer_never_promotes_witness:
  "cr_final_rank_score (final_sample ''BTC/USDT'' ''UPTREND'' 95) \<le> 95"
  using answer_never_promotes [OF sample_pipeline, of "final_sample ''BTC/USDT'' ''UPTREND'' 95"]
  by (simp add: float_rounding_def output_sample_def final_fields)

text \<open>C11. The deduction is between 0 and 10, and the evidence of the scanner forces a part of it: weak
  participation costs the full 10 points, mixed participation at least 4, a change of character at
  least 3, a missing break of structure at least 1.\<close>

theorem evidence_forces_deduction:
  assumes "run_validated_pipeline rd validator oi results = Inr out" and "r \<in> set (po_controlled out)"
  shows "-10 \<le> cr_adjustment r \<and> cr_adjustment r \<le> 0 \<and>
    (vc_participation r = ''WEAK'' \<longrightarrow> cr_adjustment r = -10) \<and>
    (vc_participation r = ''MIXED'' \<longrightarrow> cr_adjustment r \<le> -4) \<and>
    (vc_choch r \<longrightarrow> cr_adjustment r \<le> -3) \<and> (\<not> vc_bos r \<longrightarrow> cr_adjustment r \<le> -1)"
proof (rule row_answered [OF assms])
  fix c
  assume "answered rd c r"
  then have "validate_semantic_consistency c (cr_ai_validation r) = Inr ()"
    "calculate_validation_adjustment (cr_ai_validation r) = Inr (cr_adjustment r)"
    "vc_participation r = vc_participation c" "vc_choch r = vc_choch c" "vc_bos r = vc_bos c"
    by (simp_all add: answered_def)
  then show ?thesis using guarded_costs adjustment_bounds by metis
qed

theorem evidence_forces_deduction_witness:
  "-10 \<le> cr_adjustment (final_sample ''BTC/USDT'' ''UPTREND'' 95)"
  using evidence_forces_deduction [OF sample_pipeline, of "final_sample ''BTC/USDT'' ''UPTREND'' 95"]
  by (simp add: output_sample_def)

text \<open>The reason codes that contradict the scanner are replaced before the guard sees them: an answer the
  guard would accept is left as it is, and what results has no such code.\<close>

theorem normalization_conservative:
  assumes "normalize_impossible_reason_code c v = Inr v'"
  shows "(validate_semantic_consistency c v = Inr () \<longrightarrow> v' = v) \<and>
    (\<exists>reason. map_of v' ''reason_code'' = Some reason \<and> \<not> impossible_reason c reason)"
proof -
  obtain reason where r: "map_of v ''reason_code'' = Some reason"
    "v' = (if impossible_reason c reason
       then AList.update ''reason_code'' (PStr ''MULTIPLE_CONFLICTS'') v else v)"
    using assms by (auto simp: normalize_impossible_reason_code_def and_then_iff need_def split: option.splits)
  have "\<not> impossible_reason c reason" if ok: "validate_semantic_consistency c v = Inr ()"
  proof -
    obtain status risk confluence where "semantic_errors c status risk confluence reason = []"
      using ok r(1) unfolding semantic_ok_iff by auto
    then have "\<not> (vc_bos c \<and> reason = PStr ''BREAKOUT_UNCONFIRMED'')"
      "\<not> (reason = PStr ''STRUCTURE_REVERSAL_CONFLICT'' \<and> \<not> vc_choch c)"
      "\<not> (reason = PStr ''MIXED_PARTICIPATION'' \<and> vc_participation c \<noteq> ''MIXED'')"
      "\<not> (reason = PStr ''WEAK_PARTICIPATION'' \<and> vc_participation c \<noteq> ''WEAK'')"
      unfolding semantic_errors_def append_is_Nil_conv flag_empty by - (elim conjE; assumption)+
    then show ?thesis by (auto simp: impossible_reason_def)
  qed
  moreover have "\<not> impossible_reason c (PStr ''MULTIPLE_CONFLICTS'')" by (simp add: impossible_reason_def)
  ultimately show ?thesis using r by (auto simp: update_conv)
qed

end
