(* ===== verification/Outcome_Tracker.thy ===== *)
theory Outcome_Tracker
  imports Stateful_Worker Forward_Props
begin

text \<open>
  The tracker that writes the entry of a forward test, \<open>src/engine/outcome_tracker_v4.py\<close>.  The
  artifact of an invocation is written once: it is linked from a temporary file, which fails if the
  name exists.  A file of the directory is \<open>Stored d\<close> if its bytes are those that the tracker
  writes for the document \<open>d\<close>; the temporary file is not part of the state.
\<close>

section \<open>The snapshot\<close>

datatype outcome_error =
    Missing_Identity
  | Invalid_Identity
  | Missing_Key
  | Not_Subscriptable
  | Directory_Failed
  | Artifact_Conflict
  | Persistence_Failed
  | Temporary_Write_Failed
  | Temporary_Cleanup_Failed

text \<open>\<open>row[k]\<close>\<close>

definition get_item :: "pv \<Rightarrow> string \<Rightarrow> (outcome_error, pv) result" where
  "get_item v k =
    (if \<not> is_dict v then Inl Not_Subscriptable
     else case map_of (items v) k of None \<Rightarrow> Inl Missing_Key | Some x \<Rightarrow> Inr x)"

definition pick :: "string list \<Rightarrow> pv \<Rightarrow> (outcome_error, (string \<times> pv) list) result" where
  "pick keys v = collect (\<lambda>k. and_then (get_item v k) (\<lambda>x. Inr (k, x))) keys"

definition build_outcome_snapshot_row :: "pv \<Rightarrow> (outcome_error, pv) result" where
  "build_outcome_snapshot_row row =
    and_then (get_item row ''ai_validation'') (\<lambda>ai.
    and_then (pick (butlast entry_candidate_keys) row) (\<lambda>fields.
    and_then (pick ai_validation_keys ai) (\<lambda>ai_fields.
      Inr (PDict (fields @ [(''ai_validation'', PDict ai_fields)])))))"

definition build_outcome_snapshot :: "string \<Rightarrow> pv list \<Rightarrow> pv \<Rightarrow> (outcome_error, pv) result" where
  "build_outcome_snapshot local_now final_top5 captured_at =
    and_then (collect build_outcome_snapshot_row final_top5) (\<lambda>rows.
      Inr (PDict [
        (''snapshot_type'', PStr ''v4_outcome_tracker_entry''), (''schema_version'', PInt 1),
        (''captured_at'', if captured_at = PNone then PStr local_now else captured_at),
        (''candidates'', PList rows)]))"

section \<open>Saving\<close>

text \<open>What the file system answers; each step either works or raises an \<open>OSError\<close>.\<close>

record tracker_io =
  mkdir_ok :: bool
  temp_ok :: bool
  write_ok :: bool
  link_ok :: bool \<comment> \<open>nothing but an existing name makes the link fail\<close>
  inspect_ok :: bool
  is_regular :: bool
  read_ok :: bool
  sync_ok :: bool
  cleanup_ok :: bool

text \<open>\<open>_read_existing_regular_artifact\<close> and the comparison after it.\<close>

definition compare_existing :: "tracker_io \<Rightarrow> disk_file \<Rightarrow> pv \<Rightarrow> (outcome_error, unit) result" where
  "compare_existing i existing snapshot =
    (if \<not> inspect_ok i then Inl Persistence_Failed
     else if \<not> is_regular i then Inl Artifact_Conflict
     else if \<not> read_ok i then Inl Persistence_Failed
     else if existing \<noteq> Stored snapshot then Inl Artifact_Conflict
     else Inr ())"

definition link_snapshot ::
  "tracker_io \<Rightarrow> (string \<Rightarrow> disk_file) \<Rightarrow> string \<Rightarrow> pv \<Rightarrow> (outcome_error, unit) result \<times> (string \<Rightarrow> disk_file)" where
  "link_snapshot i files path snapshot =
    (if \<not> link_ok i then (Inl Persistence_Failed, files)
     else if files path \<noteq> Absent then (compare_existing i (files path) snapshot, files)
     else (if sync_ok i then Inr () else Inl Persistence_Failed, files(path := Stored snapshot)))"

definition entry_file_name :: "string \<Rightarrow> string" where
  "entry_file_name identity = ''outcome_entry_v4_'' @ identity @ ''.json''"

definition save_outcome_snapshot ::
  "tracker_io \<Rightarrow> string \<Rightarrow> (string \<Rightarrow> disk_file) \<Rightarrow> pv list \<Rightarrow> pv \<Rightarrow> pv \<Rightarrow>
    (outcome_error, string) result \<times> (string \<Rightarrow> disk_file)" where
  "save_outcome_snapshot i local_now files final_top5 outcome_invocation_id captured_at =
    (if outcome_invocation_id = PNone then (Inl Missing_Identity, files)
     else if \<not> valid_invocation_id outcome_invocation_id then (Inl Invalid_Identity, files)
     else
       (case build_outcome_snapshot local_now final_top5 captured_at of
          Inl e \<Rightarrow> (Inl e, files)
        | Inr snapshot \<Rightarrow>
            (let path = entry_file_name (the_str outcome_invocation_id) in
             if \<not> mkdir_ok i then (Inl Directory_Failed, files)
             else if \<not> temp_ok i then (Inl Persistence_Failed, files)
             else if \<not> write_ok i then (Inl Temporary_Write_Failed, files)
             else
               (case link_snapshot i files path snapshot of
                  (Inl e, files') \<Rightarrow> (Inl e, files')
                | (Inr _, files') \<Rightarrow>
                    (if cleanup_ok i then Inr path else Inl Temporary_Cleanup_Failed, files')))))"

section \<open>Lemmas\<close>

lemma get_item_iff: "get_item v k = Inr x \<longleftrightarrow> (\<exists>d. v = PDict d \<and> map_of d k = Some x)"
  by (cases v) (auto simp: get_item_def is_dict_def items_def split: option.splits)

lemma pick_dest:
  "pick keys v = Inr fs \<Longrightarrow> map fst fs = keys \<and> (\<forall>(k, x) \<in> set fs. get_item v k = Inr x)"
  unfolding pick_def collect_iff
  by (induction rule: list_all2_induct) (auto simp: and_then_iff)

lemma saved_dest:
  assumes "save_outcome_snapshot i local_now files rows identity captured_at = (Inr name, files')"
  obtains snapshot where "build_outcome_snapshot local_now rows captured_at = Inr snapshot"
    "valid_invocation_id identity" "name = entry_file_name (the_str identity)"
    "files name = Absent \<or> files name = Stored snapshot" "files' = files(name := Stored snapshot)"
proof -
  have id: "valid_invocation_id identity"
    using assms by (auto simp: save_outcome_snapshot_def split: if_splits)
  obtain snapshot where snapshot: "build_outcome_snapshot local_now rows captured_at = Inr snapshot"
    using assms by (auto simp: save_outcome_snapshot_def split: if_splits sum.splits)
  let ?path = "entry_file_name (the_str identity)"
  have linked: "link_snapshot i files ?path snapshot = (Inr (), files')" and name: "name = ?path"
    using assms unfolding save_outcome_snapshot_def snapshot
    by (auto simp: Let_def split: if_splits sum.splits prod.splits)
  show ?thesis
  proof (cases "files ?path = Absent")
    case True
    then have "files' = files(?path := Stored snapshot)"
      using linked by (simp add: link_snapshot_def split: if_splits)
    then show ?thesis using that [OF snapshot id name] True name by simp
  next
    case False
    then have "compare_existing i (files ?path) snapshot = Inr ()" and files': "files' = files"
      using linked by (auto simp: link_snapshot_def split: if_splits)
    then have "files ?path = Stored snapshot" by (simp add: compare_existing_def split: if_splits)
    then show ?thesis
      using that [OF snapshot id name] files' name fun_upd_triv [of files ?path] by simp
  qed
qed

end
