(* ===== verification/Outcome_Tracker_Props.thy ===== *)
theory Outcome_Tracker_Props
  imports Outcome_Tracker
begin

text \<open>
  The entry of an invocation is written once, and the forward test reports on it.
\<close>

section \<open>Written once\<close>

text \<open>No call of the tracker changes or removes a file that exists: an entry is written to a name
  that is free, or not at all.\<close>

theorem entry_written_once:
  assumes "files n \<noteq> Absent"
  shows "snd (save_outcome_snapshot i local_now files rows identity captured_at) n = files n"
proof -
  have "snd (link_snapshot i files path snapshot) n = files n" for path snapshot
    using assms by (auto simp: link_snapshot_def)
  then show ?thesis
    unfolding save_outcome_snapshot_def Let_def
    by (auto split: sum.splits prod.splits) (metis snd_conv)+
qed

text \<open>After an entry is saved, a further save under its identity succeeds exactly when the
  snapshot is the same, and the files do not change.\<close>

theorem save_again_iff:
  assumes "save_outcome_snapshot i local_now files rows identity captured_at = (Inr name, files')"
    and "mkdir_ok j \<and> temp_ok j \<and> write_ok j \<and> link_ok j \<and> inspect_ok j \<and> is_regular j \<and> read_ok j \<and> cleanup_ok j"
  shows "save_outcome_snapshot j local_now' files' rows' identity captured_at' =
    ((case build_outcome_snapshot local_now' rows' captured_at' of
        Inl e \<Rightarrow> Inl e
      | Inr snapshot \<Rightarrow> if build_outcome_snapshot local_now rows captured_at = Inr snapshot then Inr name
          else Inl Artifact_Conflict), files')"
proof (rule saved_dest [OF assms(1)])
  fix snapshot
  assume *: "build_outcome_snapshot local_now rows captured_at = Inr snapshot" "valid_invocation_id identity"
    "name = entry_file_name (the_str identity)" "files' = files(name := Stored snapshot)"
  have "identity \<noteq> PNone" using *(2) by (auto simp: valid_invocation_id_def)
  then show ?thesis
    using * assms(2)
    by (auto simp: save_outcome_snapshot_def Let_def link_snapshot_def compare_existing_def split: sum.splits)
qed

section \<open>A call that works\<close>

definition working_io :: tracker_io where
  "working_io = \<lparr>mkdir_ok = True, temp_ok = True, write_ok = True, link_ok = True, inspect_ok = True,
     is_regular = True, read_ok = True, sync_ok = True, cleanup_ok = True\<rparr>"

definition sample_identity :: pv where
  "sample_identity = PStr (replicate 32 CHR ''a'')"

definition sample_signals :: "pv list" where
  "sample_signals = [sample_row ''BTC/USDT'' ''UPTREND'' (PReal 100), sample_row ''ETH/USDT'' ''DOWNTREND'' (PReal 100)]"

lemma sample_built_row: "build_outcome_snapshot_row (sample_row s t p) = Inr (sample_row s t p)"
proof -
  have "get_item (sample_row s t p) ''ai_validation'' = Inr (PDict (map (\<lambda>k. (k, PNone)) ai_validation_keys))"
    by (simp add: get_item_iff sample_row_def)
  then show ?thesis
    by (simp add: build_outcome_snapshot_row_def and_then_def pick_def ai_validation_keys_def
        entry_candidate_keys_def get_item_def sample_row_def items_def)
qed

lemma sample_saved:
  "save_outcome_snapshot working_io now (\<lambda>_. Absent) sample_signals sample_identity (PStr ''2025-01-01T04:01:00'')
    = (Inr sample_name, (\<lambda>_. Absent)(sample_name := Stored sample_entry))"
  by (simp add: save_outcome_snapshot_def sample_identity_def valid_invocation_id_def build_outcome_snapshot_def
      and_then_def sample_signals_def sample_built_row Let_def working_io_def link_snapshot_def
      sample_name_def entry_file_name_def sample_entry_def is_hex_def list_all_iff)

theorem entry_written_once_witness:
  "snd (save_outcome_snapshot working_io ''now'' (\<lambda>_. Garbled) sample_signals sample_identity PNone) sample_name
    = Garbled"
  using entry_written_once [of "\<lambda>_. Garbled" sample_name] by simp

theorem save_again_iff_witness:
  "fst (save_outcome_snapshot working_io ''later'' ((\<lambda>_. Absent)(sample_name := Stored sample_entry)) []
      sample_identity (PStr ''2025-01-01T04:01:00'')) = Inl Artifact_Conflict"
  using save_again_iff [OF sample_saved, of working_io "''later''" "[]"]
  by (simp add: working_io_def build_outcome_snapshot_def and_then_def sample_signals_def sample_built_row)

section \<open>The forward test of a tracked run\<close>

text \<open>Signals of one candle with a direction, a numeric price and distinct symbols.\<close>

definition trackable :: "pv list \<Rightarrow> bool" where
  "trackable rows = (rows \<noteq> [] \<and> py_distinct (map (\<lambda>row. fld row ''symbol'') rows) \<and>
     (\<exists>s t. normalize_reference_candle_utc (PStr s) = Inr t \<and>
       list_all (\<lambda>row. wf_pv row \<and> is_text_in (\<lambda>t. t \<in> set allowed_trends) (fld row ''trend'') \<and>
         number_value (fld row ''reference_price'') \<and> \<not> unhashable (fld row ''symbol'') \<and>
         fld row ''reference_candle_at'' = PStr s) rows))"

lemma get_item_fld: "get_item v k = Inr x \<Longrightarrow> fld v k = x"
  by (auto simp: get_item_iff fld_def items_def)

lemma picked_wf: "pick keys v = Inr fs \<Longrightarrow> wf_pv v \<Longrightarrow> distinct keys \<Longrightarrow> wf_pv (PDict fs)"
  using pick_dest [of keys v fs] wf_fld [of v] by (fastforce simp: list_all_iff dest: get_item_fld)

lemma built_row:
  assumes "build_outcome_snapshot_row row = Inr e"
  shows "k \<in> set (butlast entry_candidate_keys) \<Longrightarrow> fld e k = fld row k"
    and "check_keys entry_candidate_keys message e = Inr ()" and "is_dict e"
    and "check_keys ai_validation_keys message (fld e ''ai_validation'') = Inr ()"
    and "is_dict (fld e ''ai_validation'')"
    and "wf_pv row \<Longrightarrow> wf_pv e"
proof -
  obtain ai fs as where chain: "get_item row ''ai_validation'' = Inr ai"
    "pick (butlast entry_candidate_keys) row = Inr fs" "pick ai_validation_keys ai = Inr as"
    and e: "e = PDict (fs @ [(''ai_validation'', PDict as)])"
    using assms unfolding build_outcome_snapshot_row_def by (auto simp: and_then_iff)
  note fs = pick_dest [OF chain(2)] and as = pick_dest [OF chain(3)]
  have keys: "map fst (fs @ [(''ai_validation'', PDict as)]) = entry_candidate_keys"
    using fs by (simp add: entry_candidate_keys_def)
  have distinct: "distinct entry_candidate_keys" "distinct ai_validation_keys"
    by (simp_all add: entry_candidate_keys_def ai_validation_keys_def)
  have at: "fld e k = x" if "(k, x) \<in> set (fs @ [(''ai_validation'', PDict as)])" for k x
    using that keys distinct(1) map_of_is_SomeI [of "fs @ [(''ai_validation'', PDict as)]" k x]
    by (simp add: e fld_def items_def)
  show "fld e k = fld row k" if "k \<in> set (butlast entry_candidate_keys)"
  proof -
    have "k \<in> fst ` set fs" using that fs by (metis list.set_map)
    then obtain x where x: "(k, x) \<in> set fs" by auto
    then have "get_item row k = Inr x" using fs by auto
    then show ?thesis using at [of k x] x by (simp add: get_item_fld)
  qed
  show "check_keys entry_candidate_keys message e = Inr ()" "is_dict e"
    using keys by (simp_all add: e check_keys_def)
  have "fld e ''ai_validation'' = PDict as" by (rule at) simp
  then show "check_keys ai_validation_keys message (fld e ''ai_validation'') = Inr ()"
    "is_dict (fld e ''ai_validation'')"
    using as by (simp_all add: check_keys_def)
  show "wf_pv e" if "wf_pv row"
  proof -
    have "wf_pv ai" using wf_fld [OF that, of "''ai_validation''"] get_item_fld [OF chain(1)] by simp
    then have "wf_pv (PDict as)" by (rule picked_wf [OF chain(3) _ distinct(2)])
    moreover have "wf_pv (PDict fs)"
      by (rule picked_wf [OF chain(2) that]) (simp add: distinct_butlast distinct)
    ultimately show ?thesis using keys distinct(1) by (simp add: e)
  qed
qed

lemma hashed_all_distinct:
  assumes "py_distinct vs" and "list_all (\<lambda>v. \<not> unhashable v) vs"
  shows "hashed vs = Inr vs"
proof -
  have "foldl (\<lambda>s v. if py_member v s then s else s @ [v]) s us = s @ us"
    if "py_distinct us" "list_all (\<lambda>v. \<not> unhashable v) (s @ us)" "\<forall>u \<in> set us. \<not> py_member u s" for s us
    using that
  proof (induction us arbitrary: s)
    case (Cons u us)
    have "\<not> py_member v (s @ [u])" if "v \<in> set us" for v
    proof -
      have "\<not> py_eq v u" "\<not> unhashable v" "\<not> unhashable u" "\<not> py_member v s"
        using Cons.prems that by (auto simp: list_all_iff)
      then show ?thesis by (auto simp: py_member_def)
    qed
    then show ?case using Cons by (simp add: list_all_iff)
  qed simp
  from this [of vs "[]"] show ?thesis
    using assms by (simp add: hashed_def list_ex_iff list_all_iff py_member_def)
qed

lemma hashed_constant: "vs \<noteq> [] \<Longrightarrow> \<forall>v \<in> set vs. v = PStr s \<Longrightarrow> hashed vs = Inr [PStr s]"
proof -
  assume "vs \<noteq> []" and same: "\<forall>v \<in> set vs. v = PStr s"
  have "foldl (\<lambda>s v. if py_member v s then s else s @ [v]) [PStr s] us = [PStr s]"
    if "\<forall>v \<in> set us. v = PStr s" for us
    using that by (induction us) (simp_all add: py_member_def)
  then show ?thesis
    using \<open>vs \<noteq> []\<close> same by (cases vs) (auto simp: hashed_def list_ex_iff py_member_def)
qed

text \<open>The validator accepts the entry of trackable signals.\<close>

lemma trackable_entry:
  assumes "trackable rows" and "build_outcome_snapshot local_now rows captured_at = Inr entry" and "wf_pv captured_at"
  shows "validate_entry_schema entry = Inr ()" "wf_pv entry"
    "map (\<lambda>c. fld c ''symbol'') (entry_rows entry) = map (\<lambda>row. fld row ''symbol'') rows"
proof -
  obtain es where es: "list_all2 (\<lambda>row e. build_outcome_snapshot_row row = Inr e) rows es"
    and entry: "entry = PDict [
        (''snapshot_type'', PStr ''v4_outcome_tracker_entry''), (''schema_version'', PInt 1),
        (''captured_at'', if captured_at = PNone then PStr local_now else captured_at),
        (''candidates'', PList es)]"
    using assms(2) by (auto simp: build_outcome_snapshot_def and_then_iff collect_iff)
  obtain s t where t: "normalize_reference_candle_utc (PStr s) = Inr t"
    and rows: "\<forall>row \<in> set rows. wf_pv row \<and> is_text_in (\<lambda>t. t \<in> set allowed_trends) (fld row ''trend'') \<and>
         number_value (fld row ''reference_price'') \<and> \<not> unhashable (fld row ''symbol'') \<and>
         fld row ''reference_candle_at'' = PStr s"
    using assms(1) by (auto simp: trackable_def list_all_iff)
  have keys: "{''symbol'', ''trend'', ''reference_price'', ''reference_candle_at''} \<subseteq> set (butlast entry_candidate_keys)"
    by (simp add: entry_candidate_keys_def)
  have each: "row_ok e \<and> wf_pv e \<and> fld e ''symbol'' = fld row ''symbol'' \<and>
      fld e ''reference_candle_at'' = PStr s \<and> \<not> unhashable (fld e ''symbol'')"
    if "row \<in> set rows" "build_outcome_snapshot_row row = Inr e" for row e
    using rows that(1) built_row [OF that(2)] keys by (simp add: row_ok_def)
  from es have symbols: "map (\<lambda>c. fld c ''symbol'') es = map (\<lambda>row. fld row ''symbol'') rows"
    using each by (auto simp: list_all2_conv_all_nth intro!: nth_equalityI)
  have all: "\<forall>e \<in> set es. row_ok e \<and> wf_pv e \<and> fld e ''reference_candle_at'' = PStr s \<and> \<not> unhashable (fld e ''symbol'')"
  proof
    fix e
    assume e: "e \<in> set es"
    obtain row where "row \<in> set rows" "build_outcome_snapshot_row row = Inr e"
      using es e by (induction rule: list_all2_induct) auto
    from each [OF this] show "row_ok e \<and> wf_pv e \<and> fld e ''reference_candle_at'' = PStr s \<and> \<not> unhashable (fld e ''symbol'')"
      by blast
  qed
  have filled: "es \<noteq> []" using es assms(1) by (auto simp: trackable_def)
  have "hashed (map (\<lambda>c. fld c ''symbol'') es) = Inr (map (\<lambda>c. fld c ''symbol'') es)"
    using all assms(1) by (intro hashed_all_distinct) (auto simp: symbols trackable_def list_all_iff)
  then have unique: "reject_duplicate_symbols (map (\<lambda>c. fld c ''symbol'') es) = Inr ()"
    by (simp add: reject_duplicate_symbols_def and_then_def)
  have times: "hashed (map (\<lambda>c. fld c ''reference_candle_at'') es) = Inr [PStr s]"
    using all filled by (intro hashed_constant) auto
  have candidates: "check_all validate_entry_candidate es = Inr ()"
    using all by (simp add: check_all_iff validate_entry_candidate_iff)
  show "validate_entry_schema entry = Inr ()"
    using filled unique times candidates t
    by (simp add: validate_entry_schema_def and_then_def require_object_def require_value_def check_keys_def
        entry_keys_def filled_list_def rows_of_def Let_def validator_reference_def entry)
  show "wf_pv entry" using all assms(3) by (simp add: entry list_all_iff)
  show "map (\<lambda>c. fld c ''symbol'') (entry_rows entry) = map (\<lambda>row. fld row ''symbol'') rows"
    by (simp add: entry entry_rows_def rows_of_def symbols)
qed

lemma saved_signals_reported:
  assumes "trackable rows" and "wf_pv captured_at"
    and "save_outcome_snapshot k local_now files rows identity captured_at = (Inr name, saved)"
    and "derive_resolution_path name = Inr path" and "saved path = Absent"
    and "resolver_runs name saved files1"
    and "resolve_entry_artifact m i files1 name now = (Inr r, files2)"
  shows "\<exists>v. run_forward_test m i files1 name now = (Inr (r, v), files2) \<and>
    map cd_symbol (vr_candidates v) = map (\<lambda>row. fld row ''symbol'') rows"
proof (rule saved_dest [OF assms(3)])
  fix entry
  assume entry: "build_outcome_snapshot local_now rows captured_at = Inr entry"
    and saved: "saved = files(name := Stored entry)"
  note tracked = trackable_entry [OF assms(1) entry assms(2)]
  have "fresh_entry saved name entry path"
    using tracked assms(4,5) by (simp add: fresh_entry_def saved)
  from fresh_run_reports [OF this assms(6,7)] show ?thesis
    by (auto simp: Let_def report_of_def comp_def tracked(3) [symmetric] intro!: nth_equalityI)
qed

text \<open>The forward test of signals the tracker has saved: after any runs on the entry, every run whose
  resolution succeeds ends in a report, which has the candidates of the saved signals in their order.\<close>

theorem tracked_signals_reported:
  assumes "trackable rows" and "wf_pv captured_at"
    and "save_outcome_snapshot k local_now files rows identity captured_at = (Inr name, saved)"
    and "derive_resolution_path name = Inr path" and "saved path = Absent"
    and "resolver_runs name saved files1"
    and "resolve_entry_artifact m i files1 name now = (Inr r, files2)"
  shows "\<exists>v. run_forward_test m i files1 name now = (Inr (r, v), files2) \<and>
    map cd_symbol (vr_candidates v) = map (\<lambda>row. fld row ''symbol'') rows"
  by (rule saved_signals_reported [OF assms])

theorem tracked_signals_reported_witness:
  "\<exists>v. run_forward_test sample_market good_io sample_files sample_name sample_now
    = (Inr (\<lparr>rn_entry_path = sample_name, rn_resolution_path = sample_path, rn_changed = True, rn_added = 2\<rparr>, v),
       sample_files(sample_path := Stored sample_resolved)) \<and>
    map cd_symbol (vr_candidates v) = [PStr ''BTC/USDT'', PStr ''ETH/USDT'']"
proof -
  have "trackable sample_signals"
    using sample_reference
    by (auto simp: trackable_def sample_signals_def is_text_in_def allowed_trends_def)
      (auto simp: sample_row_def ai_validation_keys_def)
  from tracked_signals_reported [OF this _ sample_saved sample_path_derived, of sample_files sample_market
      good_io sample_now _ "sample_files(sample_path := Stored sample_resolved)"] show ?thesis
    using sample_resolution by (simp add: no_run sample_files_def [symmetric] sample_signals_def)
qed

end
