(* ===== verification/Forward_Success.thy ===== *)
theory Forward_Success
  imports Forward_Props
begin

text \<open>
  When a run of the resolver succeeds: the entry is one the validator accepts, the market has the
  closed candles after the reference candle, and the file can be written.
\<close>

section \<open>Entries of the validator\<close>

text \<open>The resolver accepts every entry that the validator accepts.\<close>

lemma valid_entry_built:
  assumes "validate_entry_schema entry = Inr ()"
  obtains initial t where "build_initial_resolution_state name entry = Inr initial"
    "normalize_reference_candle_utc (fld initial ''reference_candle_at'') = Inr t"
proof -
  note valid = validate_entry_dest [OF assms] and list = entry_list [OF assms]
  have top: "\<exists>d. entry = PDict d \<and> map fst d = entry_keys"
    and times: "\<exists>s t. hashed (map (\<lambda>c. fld c ''reference_candle_at'') (entry_rows entry)) = Inr s \<and>
      length s = 1 \<and> validator_reference (hd s) = Inr t"
    using assms
    unfolding validate_entry_schema_def unit_and_then Let_def
    unfolding inr_convs unit_and_then require_object_iff require_value_iff entry_rows_def
    by (auto simp: unit_and_then and_then_iff split: if_splits)
  obtain s t where s: "hashed (map (\<lambda>c. fld c ''reference_candle_at'') (entry_rows entry)) = Inr s" "length s = 1"
    "validator_reference (hd s) = Inr t" using times by blast
  then have t: "normalize_reference_candle_utc (hd s) = Inr t"
    by (auto simp: validator_reference_def split: sum.splits forward_error.splits)
  have rows: "check_all check_entry_row (entry_rows entry) = Inr ()"
    using valid(1) by (auto simp: check_all_iff check_entry_row_def unit_and_then row_ok_def check_keys_iff)
  have "check_keys entry_keys message entry = Inr ()" for message
    using top by (auto simp: check_keys_def)
  moreover have "filled_list (fld entry ''candidates'')" "rows_of (fld entry ''candidates'') = entry_rows entry"
    using valid(4) by (auto simp: list filled_list_def rows_of_def split: list.splits)
  ultimately have "build_initial_resolution_state name entry = Inr (PDict [
      (''snapshot_type'', PStr ''v4_forward_outcome_resolution''), (''schema_version'', PInt 1),
      (''entry_artifact'', PStr name), (''entry_snapshot_type'', fld entry ''snapshot_type''),
      (''entry_schema_version'', fld entry ''schema_version''),
      (''entry_captured_at'', fld entry ''captured_at''), (''reference_candle_at'', hd s),
      (''candidates'', PList (map initial_candidate (entry_rows entry)))])"
    using valid(6,7) s rows t
    by (simp add: build_initial_resolution_state_def and_then_def Let_def)
  then show ?thesis using that t by simp
qed

section \<open>The candles a run needs\<close>

text \<open>The three candles after the reference close, each once.\<close>

definition window_opens :: "int \<Rightarrow> int list" where
  "window_opens close = [close, close + 4 * hour_micros, close + 8 * hour_micros]"

definition complete_quotes :: "market \<Rightarrow> int \<Rightarrow> pv \<Rightarrow> bool" where
  "complete_quotes m close row = (\<exists>df p. quotes m (fld row ''symbol'') = Some df \<and>
     distinct (map ca_timestamp df) \<and>
     filter (\<lambda>t. t \<in> set (window_opens close)) (map ca_timestamp df) = window_opens close \<and>
     to_float m (fld row ''reference_price'') = Inr p \<and> 0 < p)"

lemma contract_opens:
  assumes "get_horizon_contracts t = Inr contracts" and "h \<in> set contracts"
  shows "expected_opens (t + 4 * hour_micros) (ho_target h) = take (ho_candles h) (window_opens (t + 4 * hour_micros))"
    "0 < ho_candles h \<and> ho_candles h \<le> 3"
  using assms by (auto simp: contracts_iff expected_opens_eq hour_micros_def window_opens_def numeral_2_eq_2 numeral_3_eq_3)

lemma filter_take_distinct: "distinct xs \<Longrightarrow> filter (\<lambda>x. x \<in> set (take n xs)) xs = take n xs"
proof -
  assume d: "distinct xs"
  have "filter (\<lambda>x. x \<in> set (take n xs)) (take n xs @ drop n xs) = take n xs @ filter (\<lambda>x. x \<in> set (take n xs)) (drop n xs)"
    by (simp only: filter_append) (simp add: filter_id_conv)
  moreover have "filter (\<lambda>x. x \<in> set (take n xs)) (drop n xs) = []"
    using set_take_disj_set_drop_if_distinct [OF d, of n n] by (auto simp: filter_empty_conv)
  ultimately show ?thesis by simp
qed

lemma complete_window:
  assumes "distinct (map ca_timestamp df)"
    and "filter (\<lambda>t. t \<in> set (window_opens close)) (map ca_timestamp df) = window_opens close"
    and "expected_opens close target = take n (window_opens close)"
  shows "\<exists>w. select_exact_closed_candle_window df close target = Inr w \<and> length w = length (take n (window_opens close))"
proof -
  let ?w = "filter (\<lambda>c. ca_timestamp c \<in> set (expected_opens close target)) df"
  have d: "distinct (window_opens close)" by (simp add: window_opens_def hour_micros_def)
  have "map ca_timestamp ?w = filter (\<lambda>t. t \<in> set (take n (window_opens close))) (map ca_timestamp df)"
    by (simp add: assms(3) filter_map comp_def)
  also have "\<dots> = filter (\<lambda>t. t \<in> set (take n (window_opens close)))
      (filter (\<lambda>t. t \<in> set (window_opens close)) (map ca_timestamp df))"
    by (simp add: filter_filter) (metis in_set_takeD)
  also have "\<dots> = take n (window_opens close)" by (simp only: assms(2) filter_take_distinct [OF d])
  finally have w: "map ca_timestamp ?w = take n (window_opens close)" .
  then have "select_exact_closed_candle_window df close target = Inr ?w"
    using assms(1,3) by (simp add: select_window_iff)
  then show ?thesis using arg_cong [OF w, of length] by auto
qed

lemma pending_results_total:
  assumes contracts: "get_horizon_contracts t = Inr contracts" and "set hs \<subseteq> set contracts"
    and df: "distinct (map ca_timestamp df)"
      "filter (\<lambda>x. x \<in> set (window_opens (t + 4 * hour_micros))) (map ca_timestamp df) = window_opens (t + 4 * hour_micros)"
    and p: "to_float m price = Inr p" "0 < p"
  shows "\<exists>ps. pending_results m df (t + 4 * hour_micros) price hs = Inr ps"
  using assms(2)
proof (induction hs)
  case (Cons h hs)
  then have h: "h \<in> set contracts" by simp
  obtain w where w: "select_exact_closed_candle_window df (t + 4 * hour_micros) (ho_target h) = Inr w"
    "length w = length (take (ho_candles h) (window_opens (t + 4 * hour_micros)))"
    using complete_window [OF df contract_opens(1) [OF contracts h]] by blast
  have len: "length w = ho_candles h" "w \<noteq> []"
    using w(2) contract_opens(2) [OF contracts h] by (auto simp: window_opens_def)
  obtain r where "calculate_horizon_result m w price = Inr r"
    using p len(2) by (simp add: calculate_horizon_result_def and_then_def Let_def)
  then show ?case using Cons w(1) len(1) by (auto simp: and_then_def)
qed simp

lemma resolve_candidates_total:
  assumes contracts: "get_horizon_contracts t = Inr contracts"
    and "length hss = length rows" and "list_all (horizons_ok contracts) hss"
    and "\<And>i. i < length rows \<Longrightarrow> py_assoc e (fld (rows ! i) ''symbol'')
      = (if due contracts now (hss ! i) = [] then None else Some (due contracts now (hss ! i)))"
    and "list_all (\<lambda>c. \<not> unhashable (fld c ''symbol'')) rows"
    and "\<forall>row \<in> set rows. complete_quotes m (t + 4 * hour_micros) row"
  shows "\<exists>cs n. resolve_candidates m (t + 4 * hour_micros) e (map2 filled rows hss) = Inr (cs, n)"
  using assms(2-)
proof (induction rows arbitrary: hss)
  case Nil
  then show ?case by simp
next
  case (Cons row rows)
  obtain hs hss1 where hss: "hss = hs # hss1" using Cons.prems(1) by (cases hss) auto
  have "py_assoc e (fld (rows ! i) ''symbol'')
      = (if due contracts now (hss1 ! i) = [] then None else Some (due contracts now (hss1 ! i)))"
    if "i < length rows" for i
    using Cons.prems(3) [of "Suc i"] that by (simp add: hss)
  then obtain cs n where rest: "resolve_candidates m (t + 4 * hour_micros) e (map2 filled rows hss1) = Inr (cs, n)"
    using Cons.IH [of hss1] Cons.prems by (auto simp: hss)
  have "\<exists>c k. resolve_candidate m (t + 4 * hour_micros) e (filled row hs) = Inr (c, k)"
  proof (cases "due contracts now hs = []")
    case True
    then have "py_assoc e (fld row ''symbol'') = None" using Cons.prems(3) [of 0] by (simp add: hss)
    then show ?thesis using Cons.prems(4) by (simp add: resolve_candidate_def)
  next
    case False
    then have own: "py_assoc e (fld row ''symbol'') = Some (due contracts now hs)"
      using Cons.prems(3) [of 0] by (simp add: hss)
    obtain df p where df: "quotes m (fld row ''symbol'') = Some df" "distinct (map ca_timestamp df)"
      "filter (\<lambda>x. x \<in> set (window_opens (t + 4 * hour_micros))) (map ca_timestamp df) = window_opens (t + 4 * hour_micros)"
      "to_float m (fld row ''reference_price'') = Inr p" "0 < p"
      using Cons.prems(5) by (auto simp: complete_quotes_def)
    have "set (due contracts now hs) \<subseteq> set contracts" by (auto simp: due_def)
    then obtain ps where ps: "pending_results m df (t + 4 * hour_micros) (fld row ''reference_price'') (due contracts now hs) = Inr ps"
      using pending_results_total [OF contracts _ df(2-5)] by blast
    have "horizons_ok contracts hs" using Cons.prems(2) by (simp add: hss)
    then have "horizons_ok contracts (hs @ ps)"
      using contracts_names [OF contracts] by (intro computed_ok [OF _ pending_results_dest [OF ps df(1)]]) auto
    then have "merge_results (filled row hs) ps = Inr (filled row (hs @ ps), length ps)"
      by (intro merge_results_filled) (simp add: horizons_ok_def)
    then show ?thesis using own df(1) ps Cons.prems(4) by (simp add: resolve_candidate_def and_then_def)
  qed
  then show ?case using rest by (auto simp: hss and_then_def)
qed

lemma eligible_total:
  "list_all (\<lambda>c. \<not> unhashable (fld c ''symbol'')) cs \<Longrightarrow> \<exists>e. eligible_from contracts now d cs = Inr e"
  by (induction cs arbitrary: d) auto

section \<open>Runs that succeed\<close>

lemma resolve_total:
  assumes frame: "entry_frame name entry initial t contracts" and wf: "wf_pv entry"
    and valid: "validate_entry_schema entry = Inr ()"
    and entry: "files name = Stored entry" and path: "derive_resolution_path name = Inr path"
    and start: "resolution_file name entry hss (files path)"
    and u: "in_utc now = Some u" and quotes: "\<forall>row \<in> set (entry_rows entry). complete_quotes m (t + 4 * hour_micros) row"
    and ok_io: "replace_ok i"
  shows "\<exists>r files'. resolve_entry_artifact m i files name now = (Inr r, files')"
proof -
  note build = frame_dest(1) [OF frame] and valid = validate_entry_dest [OF valid]
  have "list_all (horizons_ok contracts) (replicate n [])" for n by (simp add: list_all_iff horizons_ok_def)
  then have state: "load_or_initialize_resolution_state files path name entry = Inr (with_horizons initial entry hss) \<and>
      length hss = length (entry_rows entry) \<and> list_all (horizons_ok contracts) hss"
    using start with_horizons_dest(6) [OF build] frame_unique [OF frame] own_resolution_accepted [OF frame wf]
    by (cases "files path")
      (auto simp: resolution_file_def resolution_at_def load_or_initialize_resolution_state_def build and_then_def)
  then have len: "length hss = length (entry_rows entry)" and ok: "list_all (horizons_ok contracts) hss" by simp_all
  have hash: "list_all (\<lambda>c. \<not> unhashable (fld c ''symbol'')) (map2 filled (entry_rows entry) hss)"
    using valid(3) len by (auto simp: list_all_length)
  obtain e where e: "eligible_from contracts u [] (map2 filled (entry_rows entry) hss) = Inr e"
    using eligible_total [OF hash] by blast
  obtain cs n where "resolve_candidates m (t + 4 * hour_micros) e (map2 filled (entry_rows entry) hss) = Inr (cs, n)"
    using resolve_candidates_total [OF frame_dest(3) [OF frame] len ok lookup_own [OF e valid(2,3) len] valid(3) quotes]
    by blast
  then have "\<exists>worked s k. resolution_step m files name now = Inr (path, worked, s, k)"
    using state own_resolution_accepted [OF frame wf len ok] e with_horizons_dest(3) [OF build]
    by (simp add: resolution_step_def entry and_then_def build path frame_dest(2,3) [OF frame]
        get_eligible_unresolved_horizons_def u rows_of_def) (metis (full_types))
  then show ?thesis
    using ok_io by (auto simp: resolve_entry_artifact_def write_resolution_state_atomic_def Let_def)
qed

lemma fresh_run_succeeds:
  assumes "fresh_entry files name entry path" and "resolver_runs name files files1"
    and "normalize_reference_candle_utc (fld (hd (entry_rows entry)) ''reference_candle_at'') = Inr t"
    and "get_horizon_contracts t = Inr contracts" and "in_utc now = Some u"
    and "\<forall>row \<in> set (entry_rows entry). complete_quotes m (t + 4 * hour_micros) row" and "replace_ok i"
  shows "\<exists>r files2. resolve_entry_artifact m i files1 name now = (Inr r, files2)"
proof (rule fresh_runs [OF assms(1,2)])
  fix hss
  assume hss: "resolution_file name entry hss (files1 path)" and entry: "files1 name = Stored entry"
  note fresh = fresh_dest [OF assms(1)]
  obtain initial where build: "build_initial_resolution_state name entry = Inr initial"
    by (rule valid_entry_built [OF fresh(3)])
  then have "entry_frame name entry initial t contracts"
    using assms(3,4) by (simp add: entry_frame_def initial_reference [OF build])
  then show ?thesis
    by (rule resolve_total [OF _ fresh(2,3) entry fresh(4) hss assms(5-7)])
qed

text \<open>C17. After any runs on an entry a run succeeds when the market has, for every candidate, a frame of
  distinct time stamps with each of the three candles after the reference close, in their order,
  the prices are positive and the file can be written.\<close>

theorem resolution_succeeds:
  assumes "fresh_entry files name entry path" and "resolver_runs name files files1"
    and "normalize_reference_candle_utc (fld (hd (entry_rows entry)) ''reference_candle_at'') = Inr t"
    and "get_horizon_contracts t = Inr contracts" and "in_utc now = Some u"
    and "\<forall>row \<in> set (entry_rows entry). complete_quotes m (t + 4 * hour_micros) row" and "replace_ok i"
  shows "\<exists>r files2. resolve_entry_artifact m i files1 name now = (Inr r, files2)"
  by (rule fresh_run_succeeds [OF assms])

definition full_market :: market where
  "full_market = \<lparr>quotes = (\<lambda>_. Some (map (\<lambda>x. sample_candle\<lparr>ca_timestamp := x\<rparr>)
     (window_opens (sample_start + 4 * hour_micros)))), rounded = (\<lambda>x. x), text_number = (\<lambda>_. None)\<rparr>"

lemma full_market_complete:
  "to_float full_market (fld row ''reference_price'') = Inr p \<Longrightarrow> 0 < p \<Longrightarrow>
     complete_quotes full_market (sample_start + 4 * hour_micros) row"
  unfolding complete_quotes_def
  by (intro exI [of _ p] exI) (auto simp: full_market_def window_opens_def hour_micros_def)

theorem resolution_succeeds_witness:
  "\<exists>r files2. resolve_entry_artifact full_market good_io sample_files sample_name
    (sample_start + 16 * hour_micros, None) = (Inr r, files2)"
proof -
  have "\<forall>row \<in> set (entry_rows sample_entry). complete_quotes full_market (sample_start + 4 * hour_micros) row"
    by (auto simp: sample_rows to_float_def intro!: full_market_complete [of _ 100])
  from resolution_succeeds [OF sample_fresh no_run _ frame_dest(3) [OF sample_frame] _ this] show ?thesis
    by (simp add: sample_rows sample_reference in_utc_def good_io_def)
qed

end
