(* ===== verification/Pipeline_Tracking.thy ===== *)
theory Pipeline_Tracking
  imports Validated_Pipeline_Props Outcome_Tracker_Props Forward_Success
begin

text \<open>
  The signals of the pipeline in the tracker and the forward test: the rows that the pipeline selects
  have the fields the tracker writes, and which of them the forward test can report on.
\<close>

section \<open>Saving the signals\<close>

lemma row_doc_items:
  "get_item (row_doc r) ''ai_validation'' = Inr (PDict (cr_ai_validation r))"
  "fld (row_doc r) ''symbol'' = PStr (vc_symbol r)" "fld (row_doc r) ''trend'' = PStr (vc_trend r)"
  "fld (row_doc r) ''reference_price'' = PReal (rw_reference_price r)"
  "fld (row_doc r) ''reference_candle_at'' = PStr (rw_reference_candle_at r)"
  by (simp_all add: row_doc_def get_item_def is_dict_def items_def)

lemma row_doc_picks: "\<exists>fs. pick (butlast entry_candidate_keys) (row_doc r) = Inr fs"
  by (simp add: pick_def and_then_def get_item_def row_doc_def is_dict_def items_def entry_candidate_keys_def)

lemma answered_picks:
  assumes "answered rd c r"
  shows "\<exists>fs. pick ai_validation_keys (PDict (cr_ai_validation r)) = Inr fs"
proof -
  let ?v = "cr_ai_validation r"
  obtain s a b d where "map_of ?v ''status'' = Some s" "map_of ?v ''false_breakout_risk'' = Some a"
    "map_of ?v ''confluence'' = Some b" "map_of ?v ''reason_code'' = Some d"
    using assms unfolding answered_def semantic_ok_iff by auto
  then show ?thesis
    by (simp add: pick_def and_then_def get_item_def is_dict_def items_def ai_validation_keys_def)
qed

lemma row_doc_built:
  assumes "answered rd c r"
  shows "\<exists>e. build_outcome_snapshot_row (row_doc r) = Inr e"
  using row_doc_picks [of r] answered_picks [OF assms]
  by (auto simp: build_outcome_snapshot_row_def and_then_def row_doc_items)

lemma collect_total: "(\<And>x. x \<in> set xs \<Longrightarrow> \<exists>y. f x = Inr y) \<Longrightarrow> \<exists>ys. collect f xs = Inr ys"
  by (induction xs) (fastforce simp: and_then_def)+

lemma final_in_ranking:
  assumes "run_validated_pipeline rd validator oi results = Inr out"
  shows "set (po_final out) \<subseteq> set (po_controlled out)"
proof (cases "build_validation_payload rd oi results = []")
  case True
  then show ?thesis using assms by (auto simp: run_validated_pipeline_def)
next
  case False
  show ?thesis
    by (rule pipeline_dest [OF assms False]) (auto simp: build_final_top5_def dest: in_set_takeD)
qed

lemma final_rows_built:
  assumes "run_validated_pipeline rd validator oi results = Inr out"
  shows "\<exists>entry. build_outcome_snapshot local_now (map row_doc (po_final out)) captured_at = Inr entry"
proof -
  have "\<exists>e. build_outcome_snapshot_row d = Inr e" if d: "d \<in> set (map row_doc (po_final out))" for d
  proof -
    obtain r where r: "r \<in> set (po_final out)" "d = row_doc r" using d by auto
    then have "r \<in> set (po_controlled out)" using final_in_ranking [OF assms] by blast
    then obtain c where "answered rd c r" by (rule row_answered [OF assms])
    then show ?thesis using row_doc_built r(2) by blast
  qed
  then show ?thesis
    using collect_total [of "map row_doc (po_final out)" build_outcome_snapshot_row]
    by (auto simp: build_outcome_snapshot_def and_then_def)
qed

lemma rows_saved:
  assumes "run_validated_pipeline rd validator oi results = Inr out" and "valid_invocation_id identity"
    and "files (entry_file_name (the_str identity)) = Absent"
  shows "\<exists>entry. save_outcome_snapshot working_io local_now files (map row_doc (po_final out)) identity captured_at
    = (Inr (entry_file_name (the_str identity)), files(entry_file_name (the_str identity) := Stored entry))"
proof -
  obtain entry where "build_outcome_snapshot local_now (map row_doc (po_final out)) captured_at = Inr entry"
    using final_rows_built [OF assms(1)] by blast
  moreover have "identity \<noteq> PNone" using assms(2) by (auto simp: valid_invocation_id_def)
  ultimately show ?thesis
    using assms(2,3) by (auto simp: save_outcome_snapshot_def Let_def working_io_def link_snapshot_def)
qed

text \<open>The signals the pipeline selects can always be saved: with a valid identity and a file system
  that answers, the tracker writes their entry or finds the name taken.\<close>

theorem selected_signals_saved:
  assumes "run_validated_pipeline rd validator oi results = Inr out" and "valid_invocation_id identity"
    and "files (entry_file_name (the_str identity)) = Absent"
  shows "\<exists>entry. save_outcome_snapshot working_io local_now files (map row_doc (po_final out)) identity captured_at
    = (Inr (entry_file_name (the_str identity)), files(entry_file_name (the_str identity) := Stored entry))"
  using rows_saved [OF assms(1,2)] assms(3) by blast

theorem selected_signals_saved_witness:
  "\<exists>entry. save_outcome_snapshot working_io ''now'' (\<lambda>_. Absent) (map row_doc (po_final (output_sample ''SIDEWAYS''))) sample_identity PNone
    = (Inr sample_name, (\<lambda>_. Absent)(sample_name := Stored entry))"
  using selected_signals_saved [OF sample_pipeline [of "''SIDEWAYS''"], of sample_identity "\<lambda>_. Absent" "''now''" PNone]
  by (simp add: sample_identity_def valid_invocation_id_def is_hex_def list_all_iff sample_name_def entry_file_name_def)

lemma sample_rows_saved:
  obtains entry where "save_outcome_snapshot working_io ''now'' (\<lambda>_. Absent)
      (map row_doc (po_final (output_sample trend))) sample_identity PNone
      = (Inr sample_name, (\<lambda>_. Absent)(sample_name := Stored entry))"
proof -
  have "valid_invocation_id sample_identity" "entry_file_name (the_str sample_identity) = sample_name"
    by (simp_all add: sample_identity_def valid_invocation_id_def is_hex_def list_all_iff sample_name_def entry_file_name_def)
  then show ?thesis
    using that rows_saved [OF sample_pipeline [of trend], of sample_identity "\<lambda>_. Absent" "''now''" PNone] by auto
qed

section \<open>Reporting on the signals\<close>

text \<open>The rows are trackable when they all have a direction and one reference candle.\<close>

lemma final_symbols_distinct:
  assumes run: "run_validated_pipeline rd validator oi results = Inr out"
  shows "distinct (map vc_symbol (po_final out))"
proof (cases "build_validation_payload rd oi results = []")
  case True
  then show ?thesis using run by (auto simp: run_validated_pipeline_def)
next
  case False
  then have results: "results \<noteq> []" by (auto simp: build_validation_payload_def)
  show ?thesis
  proof (rule pipeline_dest [OF run False])
    fix answer
    assume answer: "validator (build_validation_payload rd oi results) = Some answer"
      and final: "po_final out = build_final_top5 (po_controlled out)"
    have "distinct (map vc_symbol (po_controlled out))"
      using candidates_answered [OF run answer results] by simp
    then have "distinct (map vc_symbol (filter (\<lambda>r. min_final_rank_score \<le> cr_final_rank_score r) (po_controlled out)))"
      by (rule distinct_map_filter)
    then show ?thesis by (simp add: final build_final_top5_def take_map [symmetric])
  qed
qed

lemma final_rows_trackable:
  assumes run: "run_validated_pipeline rd validator oi results = Inr out" and "po_final out \<noteq> []"
    and time: "normalize_reference_candle_utc (PStr s) = Inr t"
    and rows: "\<forall>r \<in> set (po_final out). vc_trend r \<in> set allowed_trends \<and> rw_reference_candle_at r = s \<and>
      wf_pv (rw_golden_zone r) \<and> wf_pv (PDict (cr_ai_validation r))"
  shows "trackable (map row_doc (po_final out))"
proof -
  have "wf_pv (row_doc r)" if "r \<in> set (po_final out)" for r
    using rows that by (auto simp: row_doc_def opt_real_def split: option.splits)
  moreover have "py_distinct (map (\<lambda>k. PStr k) ks)" if "distinct ks" for ks
    using that by (induction ks) (auto simp: list_all_iff)
  from this [OF final_symbols_distinct [OF run]]
  have "py_distinct (map (\<lambda>row. fld row ''symbol'') (map row_doc (po_final out)))"
    by (simp add: row_doc_items comp_def)
  ultimately show ?thesis
    unfolding trackable_def using assms(2) time rows
    by (intro conjI exI [of _ s] exI [of _ t])
      (auto simp: list_all_iff row_doc_items is_text_in_def number_value_def)
qed

text \<open>The entry has the fields of the rows, so a market that is complete for the rows is so for it.\<close>

lemma tracked_fields:
  assumes "build_outcome_snapshot local_now rows captured_at = Inr entry"
  shows "list_all2 (\<lambda>row e. \<forall>k \<in> set (butlast entry_candidate_keys). fld e k = fld row k) rows (entry_rows entry)"
proof -
  obtain es where es: "list_all2 (\<lambda>row e. build_outcome_snapshot_row row = Inr e) rows es"
    and "entry_rows entry = es"
    using assms by (auto simp: build_outcome_snapshot_def and_then_iff collect_iff entry_rows_def rows_of_def)
  then show ?thesis using built_row(1) by (auto elim!: list_all2_mono)
qed

lemma saved_signals_resolve:
  assumes rows: "trackable rows" and "wf_pv captured_at"
    and save: "save_outcome_snapshot k local_now files rows identity captured_at = (Inr name, saved)"
    and path: "derive_resolution_path name = Inr path" "saved path = Absent" and runs: "resolver_runs name saved files1"
    and time: "normalize_reference_candle_utc (fld (hd rows) ''reference_candle_at'') = Inr t"
    and room: "in_range (t + 16 * hour_micros)" and u: "in_utc now = Some u"
    and quotes: "\<forall>row \<in> set rows. complete_quotes m (t + 4 * hour_micros) row" and io: "replace_ok i"
  shows "\<exists>r files2. resolve_entry_artifact m i files1 name now = (Inr r, files2)"
proof (rule saved_dest [OF save])
  fix entry
  assume entry: "build_outcome_snapshot local_now rows captured_at = Inr entry"
    and saved: "saved = files(name := Stored entry)"
  note tracked = trackable_entry [OF rows entry assms(2)] and fields = tracked_fields [OF entry]
  have fresh: "fresh_entry saved name entry path"
    using tracked path by (simp add: fresh_entry_def saved)
  have keys: "{''symbol'', ''reference_price'', ''reference_candle_at''} \<subseteq> set (butlast entry_candidate_keys)"
    by (simp add: entry_candidate_keys_def)
  have "complete_quotes m (t + 4 * hour_micros) e" if e: "e \<in> set (entry_rows entry)" for e
  proof -
    obtain j where "j < length (entry_rows entry)" "e = entry_rows entry ! j" using e by (auto simp: in_set_conv_nth)
    then have "rows ! j \<in> set rows" "\<forall>k \<in> set (butlast entry_candidate_keys). fld e k = fld (rows ! j) k"
      using fields by (auto simp: list_all2_conv_all_nth)
    then show ?thesis using quotes keys by (auto simp: complete_quotes_def)
  qed
  moreover have "rows \<noteq> []" using rows by (simp add: trackable_def)
  then have "fld (hd (entry_rows entry)) ''reference_candle_at'' = fld (hd rows) ''reference_candle_at''"
    using fields keys by (cases rows; cases "entry_rows entry") auto
  moreover obtain contracts where "get_horizon_contracts t = Inr contracts"
    using room by (simp add: get_horizon_contracts_def Let_def add.assoc)
  ultimately show ?thesis
    using fresh_run_succeeds [OF fresh runs _ _ u _ io] time by simp
qed

text \<open>C10. From the scores to the report: when the signals the pipeline selects have a direction and share
  the candle of their prices, the tracker has saved them, the market has the candles after it and the
  file can be written, every run of the forward test reports on exactly these signals.\<close>

theorem selected_signals_reported:
  assumes "run_validated_pipeline rd validator oi results = Inr out" and "po_final out \<noteq> []"
    and "normalize_reference_candle_utc (PStr s) = Inr t" and "in_range (t + 16 * hour_micros)"
    and "\<forall>r \<in> set (po_final out). vc_trend r \<in> set allowed_trends \<and> rw_reference_candle_at r = s \<and>
      wf_pv (rw_golden_zone r) \<and> wf_pv (PDict (cr_ai_validation r))"
    and "wf_pv captured_at"
    and "save_outcome_snapshot k local_now files (map row_doc (po_final out)) identity captured_at = (Inr name, saved)"
    and "derive_resolution_path name = Inr path" and "saved path = Absent"
    and "resolver_runs name saved files1" and "in_utc now = Some u" and "replace_ok i"
    and "\<forall>r \<in> set (po_final out). complete_quotes m (t + 4 * hour_micros) (row_doc r)"
  shows "\<exists>r v files2. run_forward_test m i files1 name now = (Inr (r, v), files2) \<and>
    map cd_symbol (vr_candidates v) = map (\<lambda>row. PStr (vc_symbol row)) (po_final out)"
proof -
  note rows = final_rows_trackable [OF assms(1-3,5)]
  have "normalize_reference_candle_utc (fld (hd (map row_doc (po_final out))) ''reference_candle_at'') = Inr t"
    using assms(2,3,5) by (cases "po_final out") (simp_all add: row_doc_items)
  then obtain r files2 where "resolve_entry_artifact m i files1 name now = (Inr r, files2)"
    using saved_signals_resolve [OF rows assms(6-10) _ assms(4,11) _ assms(12)] assms(13) by fastforce
  from saved_signals_reported [OF rows assms(6-10) this] show ?thesis
    by (auto simp: row_doc_items comp_def)
qed

theorem selected_signals_reported_witness:
  "\<exists>entry r v files2. run_forward_test full_market good_io
      ((\<lambda>_. Absent)(sample_name := Stored entry)) sample_name (sample_start + 16 * hour_micros, None)
      = (Inr (r, v), files2) \<and> map cd_symbol (vr_candidates v) = [PStr ''BTC/USDT'', PStr ''ETH/USDT'']"
proof -
  let ?out = "output_sample ''DOWNTREND''"
  obtain entry where saved: "save_outcome_snapshot working_io ''now'' (\<lambda>_. Absent)
      (map row_doc (po_final ?out)) sample_identity PNone
      = (Inr sample_name, (\<lambda>_. Absent)(sample_name := Stored entry))"
    by (rule sample_rows_saved)
  have quotes: "\<forall>r \<in> set (po_final ?out). complete_quotes full_market (sample_start + 4 * hour_micros) (row_doc r)"
    by (auto simp: output_sample_def to_float_def final_fields row_doc_items intro!: full_market_complete [of _ 100])
  have rows: "\<forall>r \<in> set (po_final ?out). vc_trend r \<in> set allowed_trends \<and>
      rw_reference_candle_at r = ''2025-01-01T00:00:00+00:00'' \<and> wf_pv (rw_golden_zone r) \<and> wf_pv (PDict (cr_ai_validation r))"
    by (auto simp: output_sample_def final_fields allowed_trends_def clear_answer_def)
  have later: "in_range (sample_start + 16 * hour_micros)"
    "in_utc (sample_start + 16 * hour_micros, None) = Some (sample_start + 16 * hour_micros)" "replace_ok good_io"
    by (simp_all add: in_utc_def good_io_def in_range_def sample_start_def day_micros_def hour_micros_def)
  have wf: "wf_pv PNone" by simp
  have place: "((\<lambda>_. Absent)(sample_name := Stored entry)) sample_path = Absent"
    by (simp add: sample_name_def sample_path_def)
  have out: "po_final ?out \<noteq> []" "map (\<lambda>row. PStr (vc_symbol row)) (po_final ?out) = [PStr ''BTC/USDT'', PStr ''ETH/USDT'']"
    by (simp_all add: output_sample_def final_fields)
  show ?thesis
    using selected_signals_reported [OF sample_pipeline out(1) sample_reference later(1) rows wf saved
        sample_path_derived place no_run later(2,3) quotes]
    unfolding out(2) by - (rule exI [of _ entry], assumption)
qed

section \<open>Signals without a direction\<close>

text \<open>The pipeline also selects signals without a direction: the entry it saves for such a signal is
  written, and the validator of the forward test raises on it for all its signals.\<close>

theorem sideways_signal_not_reported:
  "run_validated_pipeline (\<lambda>x. x) model_sample oi_sample (scan_sample ''SIDEWAYS'') = Inr (output_sample ''SIDEWAYS'') \<and>
    map vc_trend (po_final (output_sample ''SIDEWAYS'')) = [''UPTREND'', ''SIDEWAYS''] \<and>
    (\<exists>entry e. save_outcome_snapshot working_io ''now'' (\<lambda>_. Absent) (map row_doc (po_final (output_sample ''SIDEWAYS'')))
        sample_identity PNone = (Inr sample_name, (\<lambda>_. Absent)(sample_name := Stored entry)) \<and>
      validate_entry_schema entry = Inl e)"
proof -
  let ?rows = "po_final (output_sample ''SIDEWAYS'')"
  obtain entry where saved: "save_outcome_snapshot working_io ''now'' (\<lambda>_. Absent)
      (map row_doc ?rows) sample_identity PNone = (Inr sample_name, (\<lambda>_. Absent)(sample_name := Stored entry))"
    by (rule sample_rows_saved)
  obtain entry' where built: "build_outcome_snapshot ''now'' (map row_doc ?rows) PNone = Inr entry'"
    and "(\<lambda>_. Absent)(sample_name := Stored entry) = ((\<lambda>_. Absent)(sample_name := Stored entry'))"
    by (rule saved_dest [OF saved])
  then have same: "entry' = entry" by (metis disk_file.inject fun_upd_same)
  have trends: "map vc_trend ?rows = [''UPTREND'', ''SIDEWAYS'']" by (simp add: output_sample_def final_fields)
  have "fld (entry_rows entry ! 1) ''trend'' = PStr ''SIDEWAYS'' \<and> 1 < length (entry_rows entry)"
    using tracked_fields [OF built] same trends
    by (auto simp: list_all2_conv_all_nth entry_candidate_keys_def row_doc_items output_sample_def final_fields)
  then have "\<exists>e \<in> set (entry_rows entry). \<not> row_ok e"
    by (auto simp: row_ok_def is_text_in_def allowed_trends_def intro!: bexI [of _ "entry_rows entry ! 1"])
  then have "validate_entry_schema entry \<noteq> Inr ()"
    using validate_entry_dest(1) by blast
  then obtain e where "validate_entry_schema entry = Inl e" by (cases "validate_entry_schema entry") auto
  then show ?thesis using sample_pipeline saved trends by blast
qed

end
