(* ===== verification/Spec2Isabelle.thy ===== *)
theory Spec2Isabelle
  imports Prelude Canonical_Pair Durable_Store Active_Ledger_Props Refill_Ledger_Props
    Terminal_Refill_Props Production_Flow_Props Quota_Slots_Props Stateful_Worker
    Setup_Lifecycle_Props Finalizer_Props Budget_Props Pipeline_Tracking Forward_Success
begin

text \<open>
  A verification development for the trading-signal agent under \<open>src/engine/\<close>.

  \<^bold>\<open>The program.\<close>  The agent scans markets, publishes trading signals, and tracks each published
  signal until it ends.  Its durable state is a set of JSON files: the active-signal ledger (which
  signals are published, active or ended, with at most three active per trading style, nine in
  all, and one per canonical pair), the refill request ledger (one request for every slot that an
  ended signal frees), and the quota-slot state of the workers.  Above the ledgers stand services
  that never raise but return a classified result, and a facade that offers them to the production
  run.  Beside them stand the decisions that admit a setup for delivery, the chain that turns the
  reviews of a news event into the state of the signal gate (routing, adjudication, risk object,
  gate), and the ledger that keeps the reviews within their budget.  Before all of these stands the
  pipeline that lets a language model cast doubt on the scored rows of the scanner and selects five
  of them, and behind them the tracker and the forward test of the signals selected.

  \<^bold>\<open>Theories and sources.\<close>  The definitions follow the functions of the source, in its order, and
  keep its names.

  \<^item> \<open>Prelude\<close>: JSON values (\<open>pv\<close>), the checks on identifiers, time stamps and hashes that the modules
    repeat, canonical JSON as the sorting of keys (\<open>sort_doc\<close>), files (\<open>disk_file\<close>), and the lemmas
    on association lists.
  \<^item> \<open>Canonical_Pair\<close>: \<open>canonical_pair_v1.py\<close>, the normalisation of symbols.
  \<^item> \<open>Durable_Store\<close>: the shape of every locked read-modify-write call (\<open>run_store\<close>) and the
    locales \<open>durable_ledger\<close> and \<open>guarded_ledger\<close>, its contract, which both ledgers interpret.
  \<^item> \<open>Active_Ledger\<close> and its \<open>_Facts\<close>, \<open>_Steps\<close>, \<open>_Calls\<close>, \<open>_Spec\<close>, \<open>_Run\<close>, \<open>_Props\<close>:
    \<open>active_signal_ledger_v1.py\<close>.  \<open>_Facts\<close> shows that validation accepts exactly the well-formed
    ledgers (\<open>ledger_ok\<close>) and that documents round-trip, \<open>_Steps\<close> that every handler preserves them,
    \<open>_Calls\<close> turns the five operations into a transition system on the file (\<open>call_step\<close>,
    \<open>reachable_file\<close>), \<open>_Spec\<close> states the abstract board of signals they implement and the ways
    signals can change, \<open>_Run\<close> evaluates a concrete run for the witnesses.
  \<^item> \<open>Refill_Ledger\<close> and its \<open>_Facts\<close>, \<open>_Steps\<close>, \<open>_Props\<close>: \<open>style_refill_request_ledger_v1.py\<close>, in the
    same way.
  \<^item> \<open>Refill_Coordinator\<close>, \<open>Terminal_Refill\<close>, \<open>Terminal_Refill_Props\<close>:
    \<open>passive_style_refill_coordinator_v1.py\<close> and \<open>passive_terminal_refill_integration_v1.py\<close>, the two
    writes of an ending and what a failure between them leaves.
  \<^item> \<open>Signal_Lifecycle\<close>, \<open>Signal_Lifecycle_Props\<close>: \<open>passive_signal_lifecycle_service_v1.py\<close>.
  \<^item> \<open>Publication_Registration\<close>, \<open>Publication_Registration_Props\<close>:
    \<open>passive_published_signal_registration_v1.py\<close>.
  \<^item> \<open>Production_Flow\<close>, \<open>Production_Flow_Props\<close>: \<open>passive_production_signal_flow_v1.py\<close>, with the theorem
    that leads from a publication to its refill request through all the theories above.
  \<^item> \<open>Quota_Slots\<close>, \<open>Quota_Slots_Props\<close>: \<open>quota_slot_engine_v4.py\<close> and \<open>quota_slot_worker_v4.py\<close>; the
    locale \<open>slot_provider\<close> is what the worker needs of the engine.
  \<^item> \<open>Stateful_Worker\<close>: \<open>stateful_worker_v4.py\<close> and the identity check of \<open>outcome_tracker_v4.py\<close>.
  \<^item> \<open>Setup_Lifecycle\<close>, \<open>Setup_Lifecycle_Props\<close>: \<open>market_structure.py\<close>, \<open>golden_zone_swing_resolver.py\<close>,
    \<open>swing_supersession_validator_v4.py\<close>, \<open>setup_lifecycle_validator_v4.py\<close> and
    \<open>pre_delivery_validator_v4.py\<close>.
  \<^item> \<open>Escalation_Router\<close>, \<open>Escalation_Router_Props\<close>: the result class of
    \<open>deepseek_primary_review_provider_v1.py\<close> and \<open>deterministic_escalation_router_v1.py\<close>.
  \<^item> \<open>Review_Adjudication\<close>: the result class of \<open>claude_escalated_review_provider_v1.py\<close> and
    \<open>deterministic_adjudication_v1.py\<close>.
  \<^item> \<open>News_Risk\<close>, \<open>Signal_Gate\<close>, \<open>Shadow_Finalizer\<close>: \<open>news_risk_object_v1.py\<close>, \<open>signal_gate_v1.py\<close>, and
    the fixed policies and the chain of \<open>phase_11_shadow_adjudication_finalizer_v1.py\<close>.
  \<^item> \<open>Decision_Facts\<close>, \<open>Decision_Props\<close>, \<open>Finalizer_Props\<close>: the locale \<open>decision_stage\<close> is what one stage
    needs of the result of the stage before it, the adjudication and the risk object interpret it;
    the chain is proved by composing the stages.
  \<^item> \<open>Utc_Time\<close>, \<open>Budget_Control\<close>, \<open>Budget_Facts\<close>, \<open>Budget_Invariant\<close>, \<open>Budget_Props\<close>:
    \<open>phase_11_budget_control_v1.py\<close>.  \<open>_Facts\<close> reduces every operation to five moves (\<open>ledger_move\<close>),
    \<open>_Invariant\<close> meters a ledger: the locale \<open>meter\<close> shows for any charge that only a reservation
    raises the exposure, and costs and tokens interpret it.
  \<^item> \<open>Forward_Time\<close>, \<open>Forward_Test\<close>: the moments, and \<open>forward_outcome_resolver_v4.py\<close>,
    \<open>forward_test_validator_v4.py\<close>, \<open>run_forward_test_v4.py\<close>, \<open>forward_test_integration_v4.py\<close>.
    \<open>Forward_Facts\<close> has the windows in closed form, \<open>_Shape\<close> the shape of a resolution
    (\<open>with_horizons\<close>), \<open>_Runs\<close> what one run adds to it, \<open>_Reach\<close> any number of runs
    (\<open>resolver_runs\<close>), \<open>_Accept\<close> that both modules accept it, \<open>_Props\<close> the properties, \<open>_Success\<close>
    when a run cannot fail.
  \<^item> \<open>Outcome_Tracker\<close>, \<open>Outcome_Tracker_Props\<close>: \<open>outcome_tracker_v4.py\<close>, which writes the entries, with
    the theorem that leads from a saved entry to the report.
  \<^item> \<open>Validated_Pipeline\<close>, \<open>Validated_Pipeline_Props\<close>: \<open>evidence_classifier_v2.py\<close>,
    \<open>validation_payload_v2.py\<close>, \<open>validation_semantic_guard_v4.py\<close>, \<open>validation_control.py\<close> and
    \<open>validated_pipeline_v4.py\<close>.  \<open>Pipeline_Tracking\<close> carries the rows it selects through the tracker
    and the forward test.

  \<^bold>\<open>How state and errors correspond.\<close>  A JSON file is a \<open>disk_file\<close>: absent, unreadable, or a value.
  A dictionary of records is an association list in the order of its insertions, so that the
  canonical form that is written and the form in memory differ.  What the operating system does
  during one call is an \<open>io\<close>: the outcomes of the attempts to take the lock, and whether the
  replacement of the file succeeds.  A reason code is a constructor of an error type, a raised
  error the left value of a result; an exception that a service does not catch is a value of its
  own (\<open>Py_Type_Error\<close>, \<open>Unbound_Local_Error\<close>).  Integers of the source are unbounded.

  \<^bold>\<open>What the properties show.\<close>  Every file the ledger operations can reach is valid, the operations
  refine an abstract board, signals and requests are never lost and move only forward, an
  operation that fails leaves the file alone, each operation succeeds exactly under its
  documented guards.  Across the ledgers: whatever fails, the result of an ending tells what both
  files hold, a lost refill can be repaired, and a registered publication can be carried to its
  refill request.  The quota is never exceeded, and a worker gives its slot back whenever the state file
  can be written.  The one-pass evaluation of a setup agrees with a reference search.  The gate of
  the fixed policies equals a reference read off the reviews, except on the two kinds of reviews on
  which the finalizer raises; an open gate is safe under any policies, and the ladder of the gate
  agrees with its tables.  The budget exceeds no cap, the book of everything recorded on a call has
  one reservation and at most one usage or release, and a stopped ledger never opens again.  An entry of the outcome tracker is written once; over any runs of the forward
  test on it, resolved horizons are final, every due horizon is resolved from exactly its candles, a
  second run changes nothing, and every run that resolves ends in a report whose votes follow the
  prices; with the candles in the market no run fails.  Whatever the language model answers, the
  pipeline ranks each candidate once, never raises its score, deducts what the evidence of the
  scanner forces, and selects the best five above the threshold; signals with a direction come out
  of the forward test as they went in.  Some properties state defects of the code, with the
  input that shows them: two ways of ending are never refilled, escalation is out of reach of constructed reviews, an outcome meant to block is made
  clear, an uncertain call is never resolved, and an entry the validator rejects is resolved all
  the same.  Others are lemmas: validation may raise a type error, the reason codes of a routine
  review are not read, a reservation may overwrite a transition, time stamps of the
  refill ledger are compared as strings, an entry on an unreadable ledger raises, the calls of a
  route collide across runs, and one signal without a direction keeps its whole scan from being
  reported.

  \<^bold>\<open>Parameters and bounds.\<close>  SHA-256 of canonical JSON is the parameter \<open>digest\<close>; where a property
  needs it, \<open>hex_digest\<close> says that it returns 64 hexadecimal digits, and the witnesses use a
  concrete function.  The exponentially weighted mean of pandas, the engine a worker wraps, the
  clock and the id providers are parameters.  The lock is tried \<open>lock_attempts\<close> times, the bound of
  the source, by recursion on the attempts left; the loop over the candles of a horizon advances a
  cursor to its target, and its termination is a property; every other loop runs over a list.  The
  market client, the rounding of a float operation and the float of a text are parameters
  (\<open>market\<close>); votes rely on rounding that is monotone and exact on 0 and 1, the pipeline on
  \<open>float_rounding\<close>.  The language model is a function from the candidates to an answer of any shape,
  the provider of open interest one from symbols.  A \<open>Decimal\<close> is a rational; sums are exact, which is Python's result up to 28 digits.

  \<^bold>\<open>Not modelled.\<close>  File names, permissions, directories and temporary files are one outcome per call.
  A call is sequential: where a service reads a file before it calls the locked operation, both
  see the same file.  Characters have code points below 256, prices are rationals (no NaN), time
  stamps of candles are seconds of one clock (microseconds in the forward test, whose ISO texts are
  those of the extended form and whose files are those of one directory).  Arguments of a declared type have that type.  The
  scanners and indicators on floating-point frames, the network clients, the Telegram bot, the
  contracts and evidence packages of the shadow evaluation and of the activation, and the report
  writers are left out, as are the calls of the review providers, of which the result classes are
  modelled.
\<close>

end
